(* ===== verification/Prelude.thy ===== *)
theory Prelude
  imports Complex_Main
begin

section \<open>Prelude: JavaScript values, strings, errors and runs\<close>

text \<open>
  What every component theory shares: the runtime values of the TypeScript code
  (\<open>jsval\<close>), the string operations of the language that the sources call, the errors
  an API call can throw, the request log that stands for the network, and generic
  lemmas on lists, together with two locales (\<open>step_machine\<close>, \<open>absorbing_machine\<close>)
  that the components interpret on their own definitions.

  Strings are HOL strings: one \<open>char\<close> per code unit, code units below 256. The
  sources' string literals are ASCII; case folding is the ASCII part of
  \<^verbatim>\<open>toLowerCase\<close>.
\<close>

named_theorems js_eval \<open>equations that evaluate the language's string and value operations\<close>

subsection \<open>Runtime values\<close>

datatype jsval =
    JUndef
  | JNull
  | JBool bool
  | JNum rat
  | JStr string
  | JArr "jsval list"
  | JObj "(string \<times> jsval) list"

abbreviation JInt :: "int \<Rightarrow> jsval" where
  "JInt n \<equiv> JNum (of_int n)"

text \<open>Property access on an object; a missing property is \<open>undefined\<close>.\<close>

definition js_get :: "jsval \<Rightarrow> string \<Rightarrow> jsval" where
  "js_get v k = (case v of
      JObj kvs \<Rightarrow> (case map_of kvs k of Some w \<Rightarrow> w | None \<Rightarrow> JUndef)
    | _ \<Rightarrow> JUndef)"

definition js_truthy :: "jsval \<Rightarrow> bool" where
  "js_truthy v = (case v of
      JUndef \<Rightarrow> False
    | JNull \<Rightarrow> False
    | JBool b \<Rightarrow> b
    | JNum q \<Rightarrow> q \<noteq> 0
    | JStr s \<Rightarrow> s \<noteq> []
    | _ \<Rightarrow> True)"

text \<open>\<^verbatim>\<open>typeof v === "object" && v !== null\<close>: an object or an array.\<close>

definition js_is_object :: "jsval \<Rightarrow> bool" where
  "js_is_object v = (case v of JArr _ \<Rightarrow> True | JObj _ \<Rightarrow> True | _ \<Rightarrow> False)"

definition js_is_string :: "jsval \<Rightarrow> bool" where
  "js_is_string v = (case v of JStr _ \<Rightarrow> True | _ \<Rightarrow> False)"

definition js_is_number :: "jsval \<Rightarrow> bool" where
  "js_is_number v = (case v of JNum _ \<Rightarrow> True | _ \<Rightarrow> False)"

definition js_is_nullish :: "jsval \<Rightarrow> bool" where
  "js_is_nullish v = (v = JUndef \<or> v = JNull)"

declare js_get_def [js_eval] js_truthy_def [js_eval] js_is_object_def [js_eval]
  js_is_string_def [js_eval] js_is_number_def [js_eval] js_is_nullish_def [js_eval]

subsection \<open>Strings\<close>

definition js_starts_with :: "string \<Rightarrow> string \<Rightarrow> bool" where
  "js_starts_with s p = (take (length p) s = p)"

fun js_includes :: "string \<Rightarrow> string \<Rightarrow> bool" where
  "js_includes [] sub = (sub = [])"
| "js_includes (c # cs) sub = (js_starts_with (c # cs) sub \<or> js_includes cs sub)"

definition lower_char :: "char \<Rightarrow> char" where
  "lower_char c = (let n = of_char c :: nat in
     if 65 \<le> n \<and> n \<le> 90 then char_of (n + 32) else c)"

definition js_to_lower :: "string \<Rightarrow> string" where
  "js_to_lower s = map lower_char s"

text \<open>White space of \<^verbatim>\<open>trim\<close> and \<^verbatim>\<open>\s\<close>: tab to carriage return, space, no-break space.\<close>

definition is_ws :: "char \<Rightarrow> bool" where
  "is_ws c = (let n = of_char c :: nat in (9 \<le> n \<and> n \<le> 13) \<or> n = 32 \<or> n = 160)"

definition js_trim :: "string \<Rightarrow> string" where
  "js_trim s = rev (dropWhile is_ws (rev (dropWhile is_ws s)))"

definition is_digit :: "char \<Rightarrow> bool" where
  "is_digit c = (let n = of_char c :: nat in 48 \<le> n \<and> n \<le> 57)"

text \<open>\<^verbatim>\<open>s.split(c)\<close> for a one-character separator: never an empty list.\<close>

fun js_split :: "char \<Rightarrow> string \<Rightarrow> string list" where
  "js_split sep [] = [[]]"
| "js_split sep (c # cs) =
     (if c = sep then [] # js_split sep cs
      else (case js_split sep cs of [] \<Rightarrow> [[c]] | w # ws \<Rightarrow> (c # w) # ws))"

fun js_join :: "string \<Rightarrow> string list \<Rightarrow> string" where
  "js_join sep [] = []"
| "js_join sep [w] = w"
| "js_join sep (w # v # ws) = w @ sep @ js_join sep (v # ws)"

text \<open>\<^verbatim>\<open>s.split("?")[0]\<close>: the part before the first occurrence.\<close>

definition before_char :: "char \<Rightarrow> string \<Rightarrow> string" where
  "before_char sep s = hd (js_split sep s)"

definition digit_char :: "nat \<Rightarrow> char" where
  "digit_char n = char_of (48 + n)"

fun show_nat :: "nat \<Rightarrow> string" where
  "show_nat n = (if n < 10 then [digit_char n] else show_nat (n div 10) @ [digit_char (n mod 10)])"

declare show_nat.simps [simp del]

definition show_int :: "int \<Rightarrow> string" where
  "show_int n = (if n < 0 then ''-'' @ show_nat (nat (- n)) else show_nat (nat n))"

definition digits_val :: "string \<Rightarrow> nat" where
  "digits_val s = foldl (\<lambda>a c. a * 10 + (of_char c - 48)) 0 s"

lemma js_split_ne [simp]: "js_split sep s \<noteq> []"
  by (induction s) (auto split: list.splits)

lemma before_char_takeWhile: "before_char sep s = takeWhile (\<lambda>c. c \<noteq> sep) s"
  unfolding before_char_def by (induction s) (auto split: list.splits)

lemma before_char_free: "sep \<notin> set (before_char sep s)"
  using set_takeWhileD by (fastforce simp: before_char_takeWhile)

lemma js_join_split: "js_join [sep] (js_split sep s) = s"
proof (induction s)
  case Nil
  then show ?case by simp
next
  case (Cons c cs)
  obtain w ws where w: "js_split sep cs = w # ws"
    using js_split_ne by (metis list.exhaust)
  with Cons show ?case by (cases ws) auto
qed

lemma js_starts_with_append [simp]: "js_starts_with (p @ s) p"
  by (simp add: js_starts_with_def)

lemma js_includes_iff: "js_includes s sub \<longleftrightarrow> (\<exists>a b. s = a @ sub @ b)"
proof (induction s)
  case Nil
  then show ?case by auto
next
  case (Cons c cs)
  have "js_starts_with (c # cs) sub \<longleftrightarrow> (\<exists>b. c # cs = sub @ b)"
    by (metis append_take_drop_id append_eq_conv_conj js_starts_with_def)
  moreover have "(\<exists>a b. c # cs = a @ sub @ b) \<longleftrightarrow> (\<exists>b. c # cs = sub @ b) \<or> (\<exists>a b. cs = a @ sub @ b)"
    by (metis append_Cons append_eq_Cons_conv)
  ultimately show ?case using Cons.IH by auto
qed

lemma js_includes_append: "js_includes (a @ sub @ b) sub"
  by (auto simp: js_includes_iff)

subsection \<open>Decimal numerals\<close>

lemma of_char_digit [simp]: "n < 10 \<Longrightarrow> of_char (digit_char n) = 48 + n"
  by (simp add: digit_char_def)

lemma is_digit_digit_char [simp]: "n < 10 \<Longrightarrow> is_digit (digit_char n)"
  by (simp add: is_digit_def Let_def)

lemma digits_val_snoc [simp]: "digits_val (s @ [c]) = digits_val s * 10 + (of_char c - 48)"
  by (simp add: digits_val_def)

lemma digits_val_show_nat [simp]: "digits_val (show_nat n) = n"
proof (induction n rule: show_nat.induct)
  case (1 n)
  show ?case
  proof (cases "n < 10")
    case True
    then show ?thesis by (simp add: show_nat.simps [of n] digits_val_def)
  next
    case False
    with 1 show ?thesis by (simp add: show_nat.simps [of n])
  qed
qed

lemma show_nat_digits: "\<forall>c \<in> set (show_nat n). is_digit c"
proof (induction n rule: show_nat.induct)
  case (1 n)
  then show ?case by (subst show_nat.simps) auto
qed

lemma show_nat_inj: "show_nat m = show_nat n \<Longrightarrow> m = n"
  by (metis digits_val_show_nat)

lemma show_nat_ne [simp]: "show_nat n \<noteq> []"
  by (subst show_nat.simps) simp

lemma hd_show_nat_ne_minus: "hd (show_nat n) \<noteq> CHR ''-''"
proof -
  have "is_digit (hd (show_nat n))"
    by (rule bspec [OF show_nat_digits hd_in_set]) simp
  moreover have "\<not> is_digit CHR ''-''" by (simp add: is_digit_def Let_def)
  ultimately show ?thesis by metis
qed

lemma show_int_inj: "show_int m = show_int n \<Longrightarrow> m = n"
proof -
  assume eq: "show_int m = show_int n"
  have signs: "m < 0 \<longleftrightarrow> n < 0"
    using eq hd_show_nat_ne_minus [of "nat m"] hd_show_nat_ne_minus [of "nat n"]
    by (auto simp: show_int_def split: if_splits dest: arg_cong [where f = hd])
  show ?thesis
  proof (cases "m < 0")
    case True
    with eq signs have "show_nat (nat (- m)) = show_nat (nat (- n))"
      by (simp add: show_int_def)
    then have "nat (- m) = nat (- n)" by (rule show_nat_inj)
    with True signs show ?thesis by simp
  next
    case False
    with eq signs have "show_nat (nat m) = show_nat (nat n)" by (simp add: show_int_def)
    then have "nat m = nat n" by (rule show_nat_inj)
    with False signs show ?thesis by simp
  qed
qed

text \<open>\<^verbatim>\<open>String(v)\<close>; numbers are printed as integers, which is all the sources convert.\<close>

fun js_String :: "jsval \<Rightarrow> string" where
  "js_String JUndef = ''undefined''"
| "js_String JNull = ''null''"
| "js_String (JBool b) = (if b then ''true'' else ''false'')"
| "js_String (JNum q) = show_int \<lfloor>q\<rfloor>"
| "js_String (JStr s) = s"
| "js_String (JArr vs) = js_join '','' (map (\<lambda>v. if v = JUndef \<or> v = JNull then [] else js_String v) vs)"
| "js_String (JObj _) = ''[object Object]''"

subsection \<open>Errors and API calls\<close>

text \<open>
  What an \<^verbatim>\<open>apiFetch\<close> promise rejects with (\<^verbatim>\<open>lib/api.ts\<close>): an
  \<open>ApiResponseError\<close>, an \<open>ApiTimeoutError\<close>, any other \<open>Error\<close> (by name and message),
  or a thrown value that is not an \<open>Error\<close>.
\<close>

datatype js_error =
    ApiResponseError (ae_status: int) (ae_message: string) (ae_code: "string option") (ae_detail: jsval)
  | ApiTimeoutError
  | PlainError (pe_name: string) (pe_message: string)
  | NonError jsval

definition is_error :: "js_error \<Rightarrow> bool" where
  "is_error e = (case e of NonError _ \<Rightarrow> False | _ \<Rightarrow> True)"

definition error_message :: "js_error \<Rightarrow> string" where
  "error_message e = (case e of
      ApiResponseError _ m _ _ \<Rightarrow> m
    | ApiTimeoutError \<Rightarrow> ''Request timed out. Try again.''
    | PlainError _ m \<Rightarrow> m
    | NonError _ \<Rightarrow> [])"

definition error_name :: "js_error \<Rightarrow> string" where
  "error_name e = (case e of
      ApiResponseError _ _ _ _ \<Rightarrow> ''ApiResponseError''
    | ApiTimeoutError \<Rightarrow> ''ApiTimeoutError''
    | PlainError n _ \<Rightarrow> n
    | NonError _ \<Rightarrow> ''Unknown'')"

datatype http_method = GET | POST | PUT | PATCH | DELETE

record request =
  rq_method :: http_method
  rq_path :: string
  rq_body :: jsval

definition mk_req :: "http_method \<Rightarrow> string \<Rightarrow> jsval \<Rightarrow> request" where
  "mk_req m p b = \<lparr>rq_method = m, rq_path = p, rq_body = b\<rparr>"

text \<open>
  The backend is a service: it is a parameter of every handler that calls it, and may
  answer each request in any way that depends on the requests made so far. A handler
  returns its new state and the extended request log.
\<close>

type_synonym backend = "request list \<Rightarrow> request \<Rightarrow> js_error + jsval"

subsection \<open>Lists\<close>

text \<open>\<^verbatim>\<open>arr.find(p)\<close>; \<^verbatim>\<open>undefined\<close> is \<open>None\<close>.\<close>

definition js_find :: "('a \<Rightarrow> bool) \<Rightarrow> 'a list \<Rightarrow> 'a option" where
  "js_find p xs = List.find p xs"

lemma js_find_Some: "js_find p xs = Some x \<Longrightarrow> x \<in> set xs \<and> p x"
  unfolding js_find_def by (induction xs) (auto split: if_splits)

lemma js_find_None: "js_find p xs = None \<longleftrightarrow> (\<forall>x \<in> set xs. \<not> p x)"
  unfolding js_find_def by (induction xs) auto

lemma js_find_eval [simp, js_eval]:
  "js_find p [] = None"
  "js_find p (x # xs) = (if p x then Some x else js_find p xs)"
  by (simp_all add: js_find_def)

lemma js_find_distinct:
  "distinct (map f xs) \<Longrightarrow> x \<in> set xs \<Longrightarrow> js_find (\<lambda>y. f y = f x) xs = Some x"
  by (induction xs) (auto simp: image_iff)

text \<open>Counting the elements of a list that is updated in place.\<close>

definition count_if :: "('a \<Rightarrow> bool) \<Rightarrow> 'a list \<Rightarrow> nat" where
  "count_if p xs = length (filter p xs)"

lemma count_if_simps [simp]:
  "count_if p [] = 0"
  "count_if p (x # xs) = (if p x then Suc (count_if p xs) else count_if p xs)"
  "count_if p (xs @ ys) = count_if p xs + count_if p ys"
  by (simp_all add: count_if_def)

lemma count_if_pos: "i < length xs \<Longrightarrow> p (xs ! i) \<Longrightarrow> 0 < count_if p xs"
  by (induction xs arbitrary: i) (auto simp: nth_Cons split: nat.splits)

lemma count_if_update:
  "i < length xs \<Longrightarrow> count_if p (xs[i := y]) + (if p (xs ! i) then 1 else 0)
     = count_if p xs + (if p y then 1 else 0)"
proof (induction xs arbitrary: i)
  case Nil
  then show ?case by simp
next
  case (Cons x xs)
  show ?case
  proof (cases i)
    case 0
    then show ?thesis by simp
  next
    case (Suc j)
    with Cons.prems Cons.IH [of j] show ?thesis by simp
  qed
qed

lemma count_if_zero: "count_if p xs = 0 \<longleftrightarrow> (\<forall>x \<in> set xs. \<not> p x)"
  by (induction xs) auto

subsection \<open>Object spread\<close>

text \<open>
  \<^verbatim>\<open>{...a, ...b}\<close> on association lists: a key that is already there keeps its position
  and takes the later value, as in the language for keys that are not array indices.
\<close>

definition obj_put :: "(string \<times> jsval) list \<Rightarrow> string \<times> jsval \<Rightarrow> (string \<times> jsval) list" where
  "obj_put kvs kv =
     (if fst kv \<in> fst ` set kvs then map (\<lambda>p. if fst p = fst kv then kv else p) kvs else kvs @ [kv])"

definition obj_spread :: "(string \<times> jsval) list \<Rightarrow> (string \<times> jsval) list \<Rightarrow> (string \<times> jsval) list" where
  "obj_spread kvs data = foldl obj_put kvs data"

lemma obj_put_keys: "distinct (map fst kvs) \<Longrightarrow> distinct (map fst (obj_put kvs kv))
    \<and> set (map fst (obj_put kvs kv)) = insert (fst kv) (set (map fst kvs))"
proof -
  assume d: "distinct (map fst kvs)"
  have same: "map fst (map (\<lambda>p. if fst p = fst kv then kv else p) kvs) = map fst kvs"
    by (induction kvs) auto
  show ?thesis
  proof (cases "fst kv \<in> fst ` set kvs")
    case True
    then have "map fst (obj_put kvs kv) = map fst kvs" using same by (simp add: obj_put_def)
    with True d show ?thesis by (auto simp del: set_map simp: set_map)
  qed (use d in \<open>auto simp: obj_put_def\<close>)
qed

lemma obj_spread_keys: "distinct (map fst kvs) \<Longrightarrow> distinct (map fst (obj_spread kvs data))
    \<and> set (map fst (obj_spread kvs data)) = set (map fst kvs) \<union> set (map fst data)"
proof (induction data arbitrary: kvs)
  case (Cons kv data)
  then show ?case using obj_put_keys [OF Cons.prems, of kv] by (auto simp: obj_spread_def)
qed (simp add: obj_spread_def)

subsection \<open>Runs of a step function\<close>

text \<open>
  Every stateful component is a step function over its events. The locale carries the
  argument from one step to a run of any length once and for all; each component
  interprets it on its own step function and invariant.
\<close>

definition run :: "('s \<Rightarrow> 'e \<Rightarrow> 's) \<Rightarrow> 's \<Rightarrow> 'e list \<Rightarrow> 's" where
  "run step s es = foldl step s es"

lemma run_simps [simp, js_eval]:
  "run step s [] = s"
  "run step s (e # es) = run step (step s e) es"
  by (simp_all add: run_def)

lemma run_append: "run step s (es @ fs) = run step (run step s es) fs"
  by (simp add: run_def)

locale step_machine =
  fixes step :: "'s \<Rightarrow> 'e \<Rightarrow> 's"
    and inv :: "'s \<Rightarrow> bool"
  assumes step_inv: "inv s \<Longrightarrow> inv (step s e)"
begin

lemma run_inv: "inv s \<Longrightarrow> inv (run step s es)"
  by (induction es arbitrary: s) (auto intro: step_inv)

lemma run_prefix_inv: "inv s \<Longrightarrow> inv (run step s (take n es))"
  by (rule run_inv)

end

text \<open>A machine with an absorbing condition: once it holds no step leaves it.\<close>

locale absorbing_machine = step_machine step stuck
  for step :: "'s \<Rightarrow> 'e \<Rightarrow> 's" and stuck :: "'s \<Rightarrow> bool" +
  fixes obs :: "'s \<Rightarrow> 'o"
  assumes stuck_obs: "stuck s \<Longrightarrow> obs (step s e) = obs s"
begin

lemma run_obs: "stuck s \<Longrightarrow> obs (run step s es) = obs s"
proof (induction es arbitrary: s)
  case Nil
  then show ?case by simp
next
  case (Cons e es)
  have "obs (run step (step s e) es) = obs (step s e)"
    by (rule Cons.IH) (rule step_inv [OF Cons.prems])
  also have "\<dots> = obs s" by (rule stuck_obs [OF Cons.prems])
  finally show ?case by simp
qed

end

end
