(* ===== verification/Json.thy ===== *)
theory Json
  imports Prelude
begin

section \<open>JSON text and base64\<close>

text \<open>
  The two text codecs of the language's standard library that the sources call:
  \<^verbatim>\<open>JSON.parse\<close> / \<^verbatim>\<open>JSON.stringify\<close> (persisted state, JWT payloads) and \<^verbatim>\<open>atob\<close> /
  \<^verbatim>\<open>btoa\<close> (JWT payloads, CSP nonces). A parser takes the rest of the text and returns a
  value with what is left, or \<open>None\<close> for the \<open>SyntaxError\<close> the library throws. The
  value parser carries fuel; \<open>json_parse\<close> gives it one more than the length of the
  text, and \<open>parse_fuel\<close> shows that more fuel never changes the result.
  \<open>json_stringify\<close> prints integers only (every number the sources persist is an id).
\<close>

definition json_ws :: "char \<Rightarrow> bool" where
  "json_ws c = (c = CHR '' '' \<or> c = CHR 0x09 \<or> c = CHR 0x0A \<or> c = CHR 0x0D)"

definition skip_ws :: "string \<Rightarrow> string" where
  "skip_ws s = dropWhile json_ws s"

definition hex_val :: "char \<Rightarrow> nat option" where
  "hex_val c = (let n = of_char c :: nat in
     if 48 \<le> n \<and> n \<le> 57 then Some (n - 48)
     else if 65 \<le> n \<and> n \<le> 70 then Some (n - 55)
     else if 97 \<le> n \<and> n \<le> 102 then Some (n - 87) else None)"

definition escape_val :: "char \<Rightarrow> char option" where
  "escape_val e = map_of
     [(CHR 0x22, CHR 0x22), (CHR 0x5C, CHR 0x5C), (CHR ''/'', CHR ''/''), (CHR ''b'', CHR 0x08),
      (CHR ''f'', CHR 0x0C), (CHR ''n'', CHR 0x0A), (CHR ''r'', CHR 0x0D), (CHR ''t'', CHR 0x09)] e"

text \<open>The body of a string literal, after its opening quote.\<close>

fun parse_str :: "string \<Rightarrow> (string \<times> string) option" where
  "parse_str [] = None"
| "parse_str (c # cs) =
     (if c = CHR 0x22 then Some ([], cs)
      else if c = CHR 0x5C then
        (case cs of
           [] \<Rightarrow> None
         | e # cs1 \<Rightarrow>
             if e = CHR ''u'' then
               (case cs1 of
                  h1 # h2 # h3 # h4 # cs2 \<Rightarrow>
                    (case (hex_val h1, hex_val h2, hex_val h3, hex_val h4) of
                       (Some a, Some b, Some d, Some f) \<Rightarrow>
                         map_option (\<lambda>(s, r). (char_of (((a * 16 + b) * 16 + d) * 16 + f) # s, r))
                           (parse_str cs2)
                     | _ \<Rightarrow> None)
                | _ \<Rightarrow> None)
             else (case escape_val e of
                 None \<Rightarrow> None
               | Some x \<Rightarrow> map_option (\<lambda>(s, r). (x # s, r)) (parse_str cs1)))
      else if (of_char c :: nat) < 32 then None
      else map_option (\<lambda>(s, r). (c # s, r)) (parse_str cs))"

text \<open>Numbers: \<^verbatim>\<open>-?(0|[1-9]\d*)(\.\d+)?([eE][+-]?\d+)?\<close>.\<close>

definition parse_frac :: "string \<Rightarrow> (rat \<times> string) option" where
  "parse_frac s = (case s of
      c # cs \<Rightarrow> if c = CHR ''.'' then
          (let ds = takeWhile is_digit cs in
           if ds = [] then None
           else Some (of_nat (digits_val ds) / 10 ^ length ds, dropWhile is_digit cs))
        else Some (0, s)
    | [] \<Rightarrow> Some (0, s))"

definition parse_exp :: "string \<Rightarrow> (rat \<times> string) option" where
  "parse_exp s = (case s of
      c # cs \<Rightarrow> if c = CHR ''e'' \<or> c = CHR ''E'' then
          (let neg = (cs \<noteq> [] \<and> hd cs = CHR ''-'');
               body = (if cs \<noteq> [] \<and> (hd cs = CHR ''-'' \<or> hd cs = CHR ''+'') then tl cs else cs);
               ds = takeWhile is_digit body
           in if ds = [] then None
              else Some ((if neg then 1 / 10 ^ digits_val ds else 10 ^ digits_val ds),
                         dropWhile is_digit body))
        else Some (1, s)
    | [] \<Rightarrow> Some (1, s))"

definition parse_num :: "string \<Rightarrow> (rat \<times> string) option" where
  "parse_num s =
     (let neg = (s \<noteq> [] \<and> hd s = CHR ''-'');
          body = (if neg then tl s else s);
          ds = takeWhile is_digit body
      in if ds = [] \<or> (hd ds = CHR ''0'' \<and> 1 < length ds) then None
         else Option.bind (parse_frac (dropWhile is_digit body)) (\<lambda>(fr, r1).
              Option.bind (parse_exp r1) (\<lambda>(ex, r2).
                (let m = (of_nat (digits_val ds) + fr) * ex
                 in Some ((if neg then - m else m), r2)))))"

definition keyword :: "string \<Rightarrow> jsval \<Rightarrow> string \<Rightarrow> (jsval \<times> string) option" where
  "keyword w v s = (if js_starts_with s w then Some (v, drop (length w) s) else None)"

text \<open>
  \<open>p_elems\<close> reads array elements up to the closing bracket, \<open>p_members\<close> the members of
  an object; both are entered after an element is known to follow. Of a duplicated
  member the last value counts.
\<close>

fun p_value :: "nat \<Rightarrow> string \<Rightarrow> (jsval \<times> string) option"
and p_elems :: "nat \<Rightarrow> string \<Rightarrow> (jsval list \<times> string) option"
and p_members :: "nat \<Rightarrow> string \<Rightarrow> ((string \<times> jsval) list \<times> string) option" where
  "p_value 0 s = None"
| "p_value (Suc n) s =
     (case skip_ws s of
        [] \<Rightarrow> None
      | c # cs \<Rightarrow>
          if c = CHR 0x22 then map_option (\<lambda>(t, r). (JStr t, r)) (parse_str cs)
          else if c = CHR ''['' then
            (case skip_ws cs of
               [] \<Rightarrow> None
             | d # ds \<Rightarrow> if d = CHR '']'' then Some (JArr [], ds)
                       else map_option (\<lambda>(vs, r). (JArr vs, r)) (p_elems n (d # ds)))
          else if c = CHR 0x7B then
            (case skip_ws cs of
               [] \<Rightarrow> None
             | d # ds \<Rightarrow> if d = CHR 0x7D then Some (JObj [], ds)
                       else map_option (\<lambda>(kvs, r). (JObj kvs, r)) (p_members n (d # ds)))
          else if c = CHR ''t'' then keyword ''true'' (JBool True) (c # cs)
          else if c = CHR ''f'' then keyword ''false'' (JBool False) (c # cs)
          else if c = CHR ''n'' then keyword ''null'' JNull (c # cs)
          else map_option (\<lambda>(q, r). (JNum q, r)) (parse_num (c # cs)))"
| "p_elems 0 s = None"
| "p_elems (Suc n) s =
     (case p_value n s of
        None \<Rightarrow> None
      | Some (v, r) \<Rightarrow>
          (case skip_ws r of
             [] \<Rightarrow> None
           | d # ds \<Rightarrow>
               if d = CHR '']'' then Some ([v], ds)
               else if d = CHR '','' then map_option (\<lambda>(vs, r'). (v # vs, r')) (p_elems n ds)
               else None))"
| "p_members 0 s = None"
| "p_members (Suc n) s =
     (case skip_ws s of
        [] \<Rightarrow> None
      | q # qs \<Rightarrow>
          if q \<noteq> CHR 0x22 then None else
          (case parse_str qs of
             None \<Rightarrow> None
           | Some (k, r) \<Rightarrow>
               (case skip_ws r of
                  [] \<Rightarrow> None
                | col # cs \<Rightarrow>
                    if col \<noteq> CHR '':'' then None else
                    (case p_value n cs of
                       None \<Rightarrow> None
                     | Some (v, r2) \<Rightarrow>
                         (case skip_ws r2 of
                            [] \<Rightarrow> None
                          | d # ds \<Rightarrow>
                              if d = CHR 0x7D then Some ([(k, v)], ds)
                              else if d = CHR '','' then
                                map_option (\<lambda>(kvs, r').
                                    ((if k \<in> fst ` set kvs then kvs else (k, v) # kvs), r'))
                                  (p_members n ds)
                              else None)))))"

definition json_parse :: "string \<Rightarrow> jsval option" where
  "json_parse s =
     (case p_value (2 * length s + 1) s of
        None \<Rightarrow> None
      | Some (v, r) \<Rightarrow> if skip_ws r = [] then Some v else None)"

subsection \<open>Printing\<close>

definition hex_digit :: "nat \<Rightarrow> char" where
  "hex_digit n = (if n < 10 then char_of (48 + n) else char_of (87 + n))"

definition json_quote_char :: "char \<Rightarrow> string" where
  "json_quote_char c =
     (if c = CHR 0x22 \<or> c = CHR 0x5C then [CHR 0x5C, c]
      else if c = CHR 0x08 then [CHR 0x5C, CHR ''b'']
      else if c = CHR 0x0C then [CHR 0x5C, CHR ''f'']
      else if c = CHR 0x0A then [CHR 0x5C, CHR ''n'']
      else if c = CHR 0x0D then [CHR 0x5C, CHR ''r'']
      else if c = CHR 0x09 then [CHR 0x5C, CHR ''t'']
      else if (of_char c :: nat) < 32 then
        [CHR 0x5C, CHR ''u'', CHR ''0'', CHR ''0'', hex_digit (of_char c div 16), hex_digit (of_char c mod 16)]
      else [c])"

definition json_quote :: "string \<Rightarrow> string" where
  "json_quote s = [CHR 0x22] @ concat (map json_quote_char s) @ [CHR 0x22]"

fun json_stringify :: "jsval \<Rightarrow> string" where
  "json_stringify JUndef = ''null''"
| "json_stringify JNull = ''null''"
| "json_stringify (JBool b) = (if b then ''true'' else ''false'')"
| "json_stringify (JNum q) = show_int \<lfloor>q\<rfloor>"
| "json_stringify (JStr s) = json_quote s"
| "json_stringify (JArr vs) = ''['' @ js_join '','' (map json_stringify vs) @ '']''"
| "json_stringify (JObj kvs) =
     [CHR 0x7B] @ js_join '','' (map (\<lambda>(k, v). json_quote k @ '':'' @ json_stringify v)
        (filter (\<lambda>(k, v). v \<noteq> JUndef) kvs)) @ [CHR 0x7D]"

text \<open>The values the sources persist: integers, distinct members, no \<^verbatim>\<open>undefined\<close>.\<close>

fun json_ok :: "jsval \<Rightarrow> bool" where
  "json_ok JUndef = False"
| "json_ok (JNum q) = (of_int \<lfloor>q\<rfloor> = q)"
| "json_ok (JArr vs) = (\<forall>v \<in> set vs. json_ok v)"
| "json_ok (JObj kvs) = (distinct (map fst kvs) \<and> (\<forall>(k, v) \<in> set kvs. json_ok v))"
| "json_ok _ = True"

subsection \<open>The parsers consume their input\<close>

lemma skip_ws_le: "length (skip_ws s) \<le> length s"
  by (simp add: skip_ws_def length_dropWhile_le)

lemma parse_str_consumes: "parse_str s = Some (t, r) \<Longrightarrow> length r < length s"
proof (induction s arbitrary: t r rule: length_induct)
  case (1 s)
  have IH: "parse_str u = Some (t', r') \<Longrightarrow> length u < length s \<Longrightarrow> length r' < length u" for u t' r'
    using 1 by blast
  from 1(2) show ?case
    by (cases s) (auto split: if_splits list.splits option.splits
        dest!: IH intro: less_trans Suc_lessI)
qed

lemma parse_num_consumes: "parse_num s = Some (q, r) \<Longrightarrow> length r < length s"
proof -
  have drop: "length (dropWhile is_digit b) < length b" if "takeWhile is_digit b \<noteq> []" for b
    using that by (cases b) (auto simp: less_Suc_eq_le length_dropWhile_le split: if_splits)
  have frac: "length r1 \<le> length b" if "parse_frac b = Some (fr, r1)" for b fr r1
    using that by (auto simp: parse_frac_def Let_def length_dropWhile_le le_SucI split: list.splits if_splits)
  have ex: "length r1 \<le> length b" if "parse_exp b = Some (e, r1)" for b e r1
  proof -
    have "length (dropWhile is_digit (tl c)) \<le> Suc (length c)"
      and "length (dropWhile is_digit c) \<le> Suc (length c)" for c
      using length_dropWhile_le [of is_digit "tl c"] length_dropWhile_le [of is_digit c] by auto
    with that show ?thesis
      by (auto simp: parse_exp_def Let_def split: list.splits if_splits)
  qed
  assume "parse_num s = Some (q, r)"
  then obtain b fr r1 e where b: "takeWhile is_digit b \<noteq> []" "length b \<le> length s"
    and "parse_frac (dropWhile is_digit b) = Some (fr, r1)" "parse_exp r1 = Some (e, r)"
    by (auto simp: parse_num_def Let_def bind_eq_Some_conv split: if_splits)
  with drop [OF b(1)] frac ex show ?thesis
    by (meson le_less_trans less_le_trans)
qed

lemma keyword_consumes: "w \<noteq> [] \<Longrightarrow> keyword w v s = Some (u, r) \<Longrightarrow> length r < length s"
  by (cases s) (auto simp: keyword_def js_starts_with_def split: if_splits)

lemma p_consumes:
  "p_value n s = Some (v, r) \<Longrightarrow> length r < length s"
  "p_elems n s = Some (vs, r) \<Longrightarrow> length r < length s"
  "p_members n s = Some (kvs, r) \<Longrightarrow> length r < length s"
proof (induction n s and n s and n s arbitrary: v r and vs r and kvs r
    rule: p_value_p_elems_p_members.induct)
  case (2 n s)
  obtain c cs where c: "skip_ws s = c # cs"
    using 2(3) by (auto split: list.splits)
  have le: "Suc (length cs) \<le> length s"
    using skip_ws_le [of s] c by simp
  have ws: "length ds < length cs" if "skip_ws cs = d # ds" for d ds
    using skip_ws_le [of cs] that by simp
  show ?case
    using 2 c le by (auto split: list.splits if_splits
        dest!: ws parse_str_consumes parse_num_consumes keyword_consumes [rotated]) fastforce+
next
  case (4 n s)
  obtain v0 r0 d ds where v0: "p_value n s = Some (v0, r0)" "skip_ws r0 = d # ds"
    using 4(3) by (auto split: option.splits list.splits)
  have "length ds < length s"
    using 4(1) [OF v0(1)] skip_ws_le [of r0] v0(2) by simp
  with 4(2) [OF v0(1) refl v0(2)] 4(3) v0 show ?case
    by (fastforce split: if_splits)
next
  case (6 n s)
  obtain qs k r0 cs v0 r2 d ds where e: "skip_ws s = CHR 0x22 # qs" "parse_str qs = Some (k, r0)"
    "skip_ws r0 = CHR '':'' # cs" "p_value n cs = Some (v0, r2)" "skip_ws r2 = d # ds"
    using 6(3) by (auto split: option.splits list.splits if_splits)
  have "length ds < length s"
    using skip_ws_le [of s] parse_str_consumes [OF e(2)] skip_ws_le [of r0]
      6(1) [OF e(1) _ e(2) refl e(3) _ e(4)] skip_ws_le [of r2] e by simp
  with 6(2) [OF e(1) _ e(2) refl e(3) _ e(4) refl e(5)] 6(3) e show ?case
    by (fastforce split: if_splits)
qed simp_all

text \<open>Enough fuel: past twice the length of the text the result no longer depends on it.\<close>

lemma p_fuel:
  "2 * length s < n \<Longrightarrow> 2 * length s < m \<Longrightarrow> p_value n s = p_value m s"
  "Suc (2 * length s) < n \<Longrightarrow> Suc (2 * length s) < m \<Longrightarrow> p_elems n s = p_elems m s"
  "Suc (2 * length s) < n \<Longrightarrow> Suc (2 * length s) < m \<Longrightarrow> p_members n s = p_members m s"
proof (induction n s and n s and n s arbitrary: m and m and m rule: p_value_p_elems_p_members.induct)
  case (2 n s)
  obtain m' where m: "m = Suc m'" using 2(4) by (cases m) auto
  have len: "length ds + 2 \<le> length s" if "skip_ws s = c # cs" "skip_ws cs = d # ds" for c cs d ds
    using skip_ws_le [of s] skip_ws_le [of cs] that by simp
  have el: "p_elems n (d # ds) = p_elems m' (d # ds)"
    if p: "skip_ws s = CHR ''['' # cs" "skip_ws cs = d # ds" "d \<noteq> CHR '']''" for cs d ds
    using 2(1) [OF p(1) _ _ p(2,3), of m'] len [OF p(1,2)] 2(3,4) m by simp
  have me: "p_members n (d # ds) = p_members m' (d # ds)"
    if p: "skip_ws s = CHR 0x7B # cs" "skip_ws cs = d # ds" "d \<noteq> CHR 0x7D" for cs d ds
    using 2(2) [OF p(1) _ _ _ p(2,3), of m'] len [OF p(1,2)] 2(3,4) m by simp
  from el me show ?case
    unfolding m by (auto split: list.splits)
next
  case (4 n s)
  obtain m' where m: "m = Suc m'" using 4(4) by (cases m) auto
  have v: "p_value n s = p_value m' s" using 4(1) [of m'] 4(3,4) m by simp
  have "p_elems n ds = p_elems m' ds"
    if p: "p_value n s = Some (w, r)" "skip_ws r = CHR '','' # ds" for w r ds
  proof -
    have "length ds + 2 \<le> length s" using p_consumes(1) [OF p(1)] skip_ws_le [of r] p(2) by simp
    then show ?thesis using 4(2) [OF p(1) refl p(2), of m'] 4(3,4) m by simp
  qed
  with v show ?case unfolding m by (auto split: option.splits list.splits)
next
  case (6 n s)
  obtain m' where m: "m = Suc m'" using 6(4) by (cases m) auto
  have v: "p_value n cs = p_value m' cs"
    if p: "skip_ws s = CHR 0x22 # qs" "parse_str qs = Some (k, r)" "skip_ws r = CHR '':'' # cs" for qs k r cs
  proof -
    have "length cs < length s"
      using skip_ws_le [of s] parse_str_consumes [OF p(2)] skip_ws_le [of r] p by simp
    then show ?thesis using 6(1) [OF p(1) _ p(2) refl p(3), of m'] 6(3,4) m by simp
  qed
  have "p_members n ds = p_members m' ds"
    if p: "skip_ws s = CHR 0x22 # qs" "parse_str qs = Some (k, r)" "skip_ws r = CHR '':'' # cs"
      "p_value n cs = Some (w, r2)" "skip_ws r2 = CHR '','' # ds" for qs k r cs w r2 ds
  proof -
    have "length ds + 2 \<le> length s"
      using skip_ws_le [of s] parse_str_consumes [OF p(2)] skip_ws_le [of r]
        p_consumes(1) [OF p(4)] skip_ws_le [of r2] p by simp
    then show ?thesis
      using 6(2) [OF p(1) _ p(2) refl p(3) _ p(4) refl p(5), of m'] 6(3,4) m by simp
  qed
  with v show ?case unfolding m
    by (auto split: option.splits list.splits)
qed simp_all

lemma parse_fuel: "2 * length s < n \<Longrightarrow> p_value n s = p_value (2 * length s + 1) s"
  by (rule p_fuel(1)) simp_all

subsection \<open>Printing then parsing\<close>

lemma hex_val_digit: "n < 16 \<Longrightarrow> hex_val (hex_digit n) = Some n"
  by (auto simp: hex_val_def hex_digit_def Let_def)

lemma parse_str_normal: "c \<noteq> CHR 0x22 \<Longrightarrow> c \<noteq> CHR 0x5C \<Longrightarrow> \<not> (of_char c :: nat) < 32 \<Longrightarrow>
    parse_str (c # u) = map_option (\<lambda>(s, r). (c # s, r)) (parse_str u)"
  by (subst parse_str.simps) (simp only: if_False)

lemma parse_str_esc: "e \<noteq> CHR ''u'' \<Longrightarrow> escape_val e = Some x \<Longrightarrow>
    parse_str (CHR 0x5C # e # u) = map_option (\<lambda>(s, r). (x # s, r)) (parse_str u)"
  by (subst parse_str.simps) simp

lemma parse_str_uni: "hex_val h3 = Some a \<Longrightarrow> hex_val h4 = Some b \<Longrightarrow>
    parse_str (CHR 0x5C # CHR ''u'' # CHR ''0'' # CHR ''0'' # h3 # h4 # u)
      = map_option (\<lambda>(s, r). (char_of (a * 16 + b) # s, r)) (parse_str u)"
proof -
  assume h: "hex_val h3 = Some a" "hex_val h4 = Some b"
  have z: "hex_val CHR ''0'' = Some 0" by (simp add: hex_val_def)
  show ?thesis
  by (subst parse_str.simps) (simp add: h z)
qed

declare parse_str.simps(2) [simp del]

lemma parse_str_quote_char:
  "parse_str (json_quote_char c @ u) = map_option (\<lambda>(s, r). (c # s, r)) (parse_str u)"
proof -
  let ?n = "of_char c :: nat"
  consider "c \<in> {CHR 0x22, CHR 0x5C, CHR 0x08, CHR 0x0C, CHR 0x0A, CHR 0x0D, CHR 0x09}"
    | "c \<notin> {CHR 0x22, CHR 0x5C, CHR 0x08, CHR 0x0C, CHR 0x0A, CHR 0x0D, CHR 0x09}" "?n < 32"
    | "c \<notin> {CHR 0x22, CHR 0x5C, CHR 0x08, CHR 0x0C, CHR 0x0A, CHR 0x0D, CHR 0x09}" "\<not> ?n < 32"
    by blast
  then show ?thesis
  proof cases
    case 1
    then show ?thesis
      by (elim insertE emptyE) (simp_all add: json_quote_char_def parse_str_esc escape_val_def)
  next
    case 2
    then have q: "json_quote_char c =
        [CHR 0x5C, CHR ''u'', CHR ''0'', CHR ''0'', hex_digit (?n div 16), hex_digit (?n mod 16)]"
      by (simp add: json_quote_char_def)
    have "hex_val (hex_digit (?n div 16)) = Some (?n div 16)" "hex_val (hex_digit (?n mod 16)) = Some (?n mod 16)"
      using 2(2) by (simp_all add: hex_val_digit)
    moreover have "char_of (?n div 16 * 16 + ?n mod 16) = c" by simp
    ultimately show ?thesis unfolding q
      by (simp only: append_Cons append_Nil parse_str_uni)
  next
    case 3
    then show ?thesis by (simp add: json_quote_char_def parse_str_normal)
  qed
qed

lemma parse_str_quote: "parse_str (concat (map json_quote_char s) @ CHR 0x22 # r) = Some (s, r)"
  by (induction s) (simp_all add: parse_str_quote_char parse_str.simps(2) [of "CHR 0x22"])

definition json_delim :: "string \<Rightarrow> bool" where
  "json_delim r = (r = [] \<or> hd r = CHR '','' \<or> hd r = CHR '']'' \<or> hd r = CHR 0x7D)"

lemma show_nat_leading_zero: "hd (show_nat n) = CHR ''0'' \<Longrightarrow> length (show_nat n) = 1"
proof (induction n rule: show_nat.induct)
  case (1 n)
  show ?case
  proof (cases "n < 10")
    case True
    then show ?thesis by (simp add: show_nat.simps [of n])
  next
    case False
    with 1(2) have "hd (show_nat (n div 10)) = CHR ''0''" by (simp add: show_nat.simps [of n])
    with 1(1) False have "length (show_nat (n div 10)) = 1" by simp
    then have "show_nat (n div 10) = [hd (show_nat (n div 10))]"
      by (cases "show_nat (n div 10)") auto
    then have "show_nat (n div 10) = [CHR ''0'']"
      using \<open>hd (show_nat (n div 10)) = CHR ''0''\<close> by simp
    moreover have "digits_val [CHR ''0''] = 0" by (simp add: digits_val_def)
    ultimately have "n div 10 = 0" using digits_val_show_nat [of "n div 10"] by metis
    with False show ?thesis by simp
  qed
qed

lemma digits_span:
  assumes "\<forall>c \<in> set ds. is_digit c" and "r = [] \<or> \<not> is_digit (hd r)"
  shows "takeWhile is_digit (ds @ r) = ds" and "dropWhile is_digit (ds @ r) = r"
  using assms by (induction ds) (auto simp: takeWhile_eq_Nil_iff dropWhile_eq_self_iff neq_Nil_conv)

lemma delim_not_digit: "json_delim r \<Longrightarrow> r = [] \<or> \<not> is_digit (hd r)"
  by (auto simp: json_delim_def is_digit_def Let_def)

lemma delim_frac_exp: "json_delim r \<Longrightarrow> parse_frac r = Some (0, r) \<and> parse_exp r = Some (1, r)"
  by (cases r) (auto simp: json_delim_def parse_frac_def parse_exp_def)

lemma parse_num_show_int:
  assumes "json_delim r"
  shows "parse_num (show_int n @ r) = Some (of_int n, r)"
proof -
  have span: "takeWhile is_digit (show_nat k @ r) = show_nat k" "dropWhile is_digit (show_nat k @ r) = r" for k
    using digits_span [OF show_nat_digits delim_not_digit [OF assms]] by auto
  have zero: "\<not> (hd (show_nat k) = CHR ''0'' \<and> 1 < length (show_nat k))" for k
    using show_nat_leading_zero [of k] by linarith
  show ?thesis
  proof (cases "n < 0")
    case True
    have "- (of_nat (nat (- n)) :: rat) = of_int n" using True by simp
    with True show ?thesis
      using zero [of "nat (- n)"] delim_frac_exp [OF assms]
      by (simp add: show_int_def parse_num_def span Let_def)
  next
    case False
    have "hd (show_nat (nat n) @ r) \<noteq> CHR ''-''" by (simp add: hd_show_nat_ne_minus)
    with False show ?thesis
      using zero [of "nat n"] delim_frac_exp [OF assms]
      by (simp add: show_int_def parse_num_def span Let_def)
  qed
qed

lemma hd_show_int: "\<exists>c cs. show_int n = c # cs \<and> (c = CHR ''-'' \<or> is_digit c)"
proof (cases "n < 0")
  case True
  then show ?thesis by (simp add: show_int_def)
next
  case False
  have "is_digit (hd (show_nat (nat n)))"
    by (rule bspec [OF show_nat_digits hd_in_set]) simp
  with False show ?thesis
    by (cases "show_nat (nat n)") (auto simp: show_int_def)
qed

lemma skip_ws_id [simp]: "\<not> json_ws c \<Longrightarrow> skip_ws (c # cs) = c # cs"
  by (simp add: skip_ws_def)

lemma json_ws_punct [simp]:
  "\<not> json_ws CHR 0x22" "\<not> json_ws CHR ''[''" "\<not> json_ws CHR '']''" "\<not> json_ws CHR 0x7B"
  "\<not> json_ws CHR 0x7D" "\<not> json_ws CHR '',''" "\<not> json_ws CHR '':''"
  by (simp_all add: json_ws_def)

lemma p_value_int:
  assumes "json_delim r"
  shows "p_value (Suc n) (show_int k @ r) = Some (JInt k, r)"
proof -
  obtain c cs where c: "show_int k = c # cs" "c = CHR ''-'' \<or> is_digit c"
    using hd_show_int by blast
  have "c \<notin> {CHR 0x22, CHR ''['', CHR 0x7B, CHR ''t'', CHR ''f'', CHR ''n''}" and "\<not> json_ws c"
    using c(2) by (auto simp: is_digit_def json_ws_def Let_def)
  with parse_num_show_int [OF assms, of k] show ?thesis by (simp add: c(1))
qed

lemma json_stringify_first:
  "json_ok v \<Longrightarrow> \<exists>c cs. json_stringify v = c # cs \<and> \<not> json_ws c \<and> c \<noteq> CHR '']'' \<and> c \<noteq> CHR 0x7D"
proof (cases v)
  case (JNum q)
  obtain c cs where "show_int \<lfloor>q\<rfloor> = c # cs" "c = CHR ''-'' \<or> is_digit c"
    using hd_show_int by blast
  then show ?thesis
    unfolding JNum by (auto simp: is_digit_def json_ws_def Let_def)
qed (auto simp: json_quote_def json_ws_def)

lemma p_value_quote: "p_value (Suc n) (json_quote t @ r) = Some (JStr t, r)"
  by (simp add: json_quote_def parse_str_quote)

lemma p_elems_print:
  assumes "vs \<noteq> []" and "\<forall>v \<in> set vs. json_ok v"
    and "\<And>v n r. v \<in> set vs \<Longrightarrow> json_delim r \<Longrightarrow> 2 * length (json_stringify v @ r) < n \<Longrightarrow>
           p_value n (json_stringify v @ r) = Some (v, r)"
    and "Suc (2 * length (js_join '','' (map json_stringify vs) @ '']'' @ r)) < n"
  shows "p_elems n (js_join '','' (map json_stringify vs) @ '']'' @ r) = Some (vs, r)"
  using assms
proof (induction vs arbitrary: n rule: list_nonempty_induct)
  case (single v)
  then obtain n' where n: "n = Suc n'" by (cases n) auto
  have "p_value n' (json_stringify v @ '']'' @ r) = Some (v, '']'' @ r)"
    using single n by (intro single(2)) (auto simp: json_delim_def)
  then show ?case by (simp add: n)
next
  case (cons v vs)
  then obtain n' where n: "n = Suc n'" by (cases n) auto
  let ?tail = "js_join '','' (map json_stringify vs) @ '']'' @ r"
  have shape: "js_join '','' (map json_stringify (v # vs)) @ '']'' @ r = json_stringify v @ '','' @ ?tail"
    using cons(1) by (cases vs) auto
  have "p_value n' (json_stringify v @ '','' @ ?tail) = Some (v, '','' @ ?tail)"
    using cons(5) n unfolding shape by (intro cons(4)) (auto simp: json_delim_def)
  moreover have "p_elems n' ?tail = Some (vs, r)"
    using cons.prems n unfolding shape by (intro cons.IH) auto
  ultimately show ?case unfolding shape by (simp add: n)
qed

abbreviation json_member :: "string \<times> jsval \<Rightarrow> string" where
  "json_member kv \<equiv> json_quote (fst kv) @ '':'' @ json_stringify (snd kv)"

lemma p_members_print:
  assumes "kvs \<noteq> []" and "distinct (map fst kvs)"
    and "\<And>kv n r. kv \<in> set kvs \<Longrightarrow> json_delim r \<Longrightarrow> 2 * length (json_stringify (snd kv) @ r) < n \<Longrightarrow>
           p_value n (json_stringify (snd kv) @ r) = Some (snd kv, r)"
    and "Suc (2 * length (js_join '','' (map json_member kvs) @ [CHR 0x7D] @ r)) < n"
  shows "p_members n (js_join '','' (map json_member kvs) @ [CHR 0x7D] @ r) = Some (kvs, r)"
  using assms
proof (induction kvs arbitrary: n rule: list_nonempty_induct)
  case (single kv)
  then obtain n' where n: "n = Suc n'" by (cases n) auto
  have "p_value n' (json_stringify (snd kv) @ [CHR 0x7D] @ r) = Some (snd kv, [CHR 0x7D] @ r)"
    using single n by (intro single(2)) (auto simp: json_delim_def)
  then show ?case by (simp add: n json_quote_def parse_str_quote)
next
  case (cons kv kvs)
  then obtain n' where n: "n = Suc n'" by (cases n) auto
  let ?tail = "js_join '','' (map json_member kvs) @ [CHR 0x7D] @ r"
  have shape: "js_join '','' (map json_member (kv # kvs)) @ [CHR 0x7D] @ r
      = json_quote (fst kv) @ '':'' @ json_stringify (snd kv) @ '','' @ ?tail"
    using cons(1) by (cases kvs) auto
  have "p_value n' (json_stringify (snd kv) @ '','' @ ?tail) = Some (snd kv, '','' @ ?tail)"
    using cons(5) n unfolding shape by (intro cons(4)) (auto simp: json_delim_def)
  moreover have "p_members n' ?tail = Some (kvs, r)"
    using cons.prems n unfolding shape by (intro cons.IH) auto
  ultimately show ?case
    unfolding shape using cons.prems(1) by (simp add: n json_quote_def parse_str_quote)
qed

lemma json_member_eq:
  "(\<lambda>(k, v). json_quote k @ CHR '':'' # json_stringify v)
     = (\<lambda>kv. json_quote (fst kv) @ CHR '':'' # json_stringify (snd kv))"
  by (auto simp: fun_eq_iff)

lemma p_value_print:
  "json_ok v \<Longrightarrow> json_delim r \<Longrightarrow> 2 * length (json_stringify v @ r) < n \<Longrightarrow>
     p_value n (json_stringify v @ r) = Some (v, r)"
proof (induction v arbitrary: n r)
  case JUndef
  then show ?case by simp
next
  case JNull
  then show ?case by (cases n) (auto simp: keyword_def js_starts_with_def json_ws_def)
next
  case (JBool b)
  then show ?case by (cases n) (auto simp: keyword_def js_starts_with_def json_ws_def)
next
  case (JNum q)
  then show ?case using p_value_int [of r] by (cases n) (auto simp del: p_value.simps)
next
  case (JStr t)
  then show ?case by (cases n) (auto simp: p_value_quote simp del: p_value.simps)
next
  case (JArr vs)
  obtain n' where n: "n = Suc n'" using JArr.prems by (cases n) auto
  show ?case
  proof (cases "vs = []")
    case True
    then show ?thesis by (simp add: n)
  next
    case False
    let ?text = "js_join '','' (map json_stringify vs) @ '']'' @ r"
    obtain v ws where vs: "vs = v # ws" using False by (cases vs) auto
    obtain c cs where c: "json_stringify v = c # cs" "\<not> json_ws c" "c \<noteq> CHR '']''"
      using json_stringify_first [of v] JArr.prems(1) vs by auto
    have first: "\<exists>cs'. ?text = c # cs'"
      using c(1) vs by (cases ws) auto
    have "p_elems n' ?text = Some (vs, r)"
      using JArr n False by (intro p_elems_print) auto
    with first c show ?thesis by (auto simp: n)
  qed
next
  case (JObj kvs)
  obtain n' where n: "n = Suc n'" using JObj.prems by (cases n) auto
  have keep: "filter (\<lambda>(k, v). v \<noteq> JUndef) kvs = kvs"
    using JObj.prems(1) by (intro filter_True) auto
  show ?case
  proof (cases "kvs = []")
    case True
    then show ?thesis by (simp add: n)
  next
    case False
    let ?text = "js_join '','' (map json_member kvs) @ [CHR 0x7D] @ r"
    obtain kv ws where kvs: "kvs = kv # ws" using False by (cases kvs) auto
    have first: "\<exists>cs. ?text = CHR 0x22 # cs"
      using kvs by (cases ws) (auto simp: json_quote_def)
    have val: "p_value m (json_stringify (snd kv) @ u) = Some (snd kv, u)"
      if "kv \<in> set kvs" "json_delim u" "2 * length (json_stringify (snd kv) @ u) < m" for kv m u
      using JObj.IH [of kv "snd kv" u m] JObj.prems(1) that by (cases kv) auto
    have "p_members n' ?text = Some (kvs, r)"
      using JObj.prems n False keep val
      by (intro p_members_print) (auto simp: json_member_eq)
    with first show ?thesis by (auto simp: n keep json_member_eq)
  qed
qed

lemma json_roundtrip: "json_ok v \<Longrightarrow> json_parse (json_stringify v) = Some v"
  using p_value_print [of v "[]"]
  by (simp add: json_parse_def json_delim_def skip_ws_def del: p_value.simps)

end
