(* ===== verification/Js_Number.thy ===== *)
theory Js_Number
  imports Json
begin

section \<open>Numbers typed by the user\<close>

text \<open>
  \<^verbatim>\<open>Number(s)\<close> on decimal text, which is all that a number input yields: optional sign,
  digits with an optional fraction, an optional exponent; the empty text is 0 and anything
  else is \<^verbatim>\<open>NaN\<close> (\<open>None\<close>). The value is exact, so a text with more digits than a double
  holds is not rounded.
\<close>

definition frac_part_of :: "string \<Rightarrow> string \<times> string" where
  "frac_part_of s = (case s of
      c # cs \<Rightarrow> if c = CHR ''.'' then (takeWhile is_digit cs, dropWhile is_digit cs) else ([], s)
    | [] \<Rightarrow> ([], []))"

definition js_Number :: "string \<Rightarrow> rat option" where
  "js_Number s0 =
     (let s = js_trim s0 in
      if s = [] then Some 0
      else (let neg = (hd s = CHR ''-'');
                body = (if hd s = CHR ''-'' \<or> hd s = CHR ''+'' then tl s else s);
                ip = takeWhile is_digit body;
                (fp, r1) = frac_part_of (dropWhile is_digit body)
            in if ip = [] \<and> fp = [] then None
               else (case parse_exp r1 of
                       Some (ex, []) \<Rightarrow>
                         (let m = (of_nat (digits_val ip) + of_nat (digits_val fp) / 10 ^ length fp) * ex
                          in Some (if neg then - m else m))
                     | _ \<Rightarrow> None)))"

definition is_integer :: "rat \<Rightarrow> bool" where
  "is_integer q = (of_int \<lfloor>q\<rfloor> = q)"

lemma is_integer_of_int [simp]: "is_integer (of_int i)"
  by (simp add: is_integer_def)

lemma takeWhile_all: "\<forall>c \<in> set s. p c \<Longrightarrow> takeWhile p s = s \<and> dropWhile p s = []"
  by (simp add: takeWhile_eq_all_conv)

lemma digit_no_white: "is_digit c \<Longrightarrow> \<not> is_ws c"
  by (auto simp: is_digit_def is_ws_def Let_def)

lemma js_trim_no_ws:
  assumes "\<forall>c \<in> set s. \<not> is_ws c"
  shows "js_trim s = s"
proof -
  have d: "dropWhile is_ws t = t" if "\<forall>c \<in> set t. \<not> is_ws c" for t
    using that by (cases t) auto
  show ?thesis unfolding js_trim_def using assms by (simp add: d)
qed

lemma js_Number_digits:
  assumes "s \<noteq> []" and "\<forall>c \<in> set s. is_digit c"
  shows "js_Number s = Some (of_nat (digits_val s))"
proof -
  have "js_trim s = s" using assms(2) digit_no_white by (intro js_trim_no_ws) blast
  moreover have "hd s \<noteq> CHR ''-''" "hd s \<noteq> CHR ''+''"
    using assms by (cases s; auto simp: is_digit_def)+
  moreover have "takeWhile is_digit s = s" "dropWhile is_digit s = []" using takeWhile_all [OF assms(2)] by auto
  moreover have "digits_val [] = 0" by (simp add: digits_val_def)
  ultimately show ?thesis using assms(1)
    by (simp add: js_Number_def frac_part_of_def parse_exp_def Let_def del: takeWhile_eq_all_conv dropWhile_eq_Nil_conv)
qed

lemma js_Number_show_nat: "js_Number (show_nat n) = Some (of_nat n)"
  using js_Number_digits [OF show_nat_ne show_nat_digits] by simp

end
