(* ===== verification/Doubles.thy ===== *)
theory Doubles
  imports Js_Number "HOL-Library.Log_Nat"
begin

section \<open>Binary64 numbers\<close>

text \<open>
  The numbers of JavaScript as the rationals they stand for. \<open>double_of\<close> rounds a rational to
  the nearest double, the even one of two equally near, with the smallest exponent of the
  subnormal numbers; a result too large for a double, which is \<^verbatim>\<open>Infinity\<close>, and the sign of zero
  are left out. Then an error bound for sums.
\<close>

subsection \<open>Rounding\<close>

text \<open>The exponent: \<open>2 powi bin_exp q \<le> \<bar>q\<bar> < 2 powi (bin_exp q + 1)\<close>.\<close>

definition bin_exp :: "rat \<Rightarrow> int" where
  "bin_exp q = (let (n, d) = quotient_of q;
       k = int (floorlog 2 (nat \<bar>n\<bar>)) - int (floorlog 2 (nat d))
     in if 2 powi k \<le> \<bar>q\<bar> then k else k - 1)"

definition ulp :: "rat \<Rightarrow> rat" where
  "ulp q = 2 powi (max (bin_exp q - 52) (-1074))"

definition round_even :: "rat \<Rightarrow> int" where
  "round_even x = (let f = \<lfloor>x\<rfloor>; r = x - of_int f in
     if r < 1 / 2 \<or> (r = 1 / 2 \<and> even f) then f else f + 1)"

definition double_of :: "rat \<Rightarrow> rat" where
  "double_of q = (if q = 0 then 0 else of_int (round_even (q / ulp q)) * ulp q)"

definition double_add :: "rat \<Rightarrow> rat \<Rightarrow> rat" where
  "double_add x y = double_of (x + y)"

lemma round_even_near: "\<bar>of_int (round_even x) - x\<bar> \<le> 1 / 2"
  unfolding round_even_def Let_def using floor_correct [of x] by (auto simp: abs_le_iff)

lemma powi_pos [simp]: "(0 :: rat) < 2 powi k"
  by (simp add: zero_less_power_int)

lemma bin_exp_lower:
  assumes "q \<noteq> 0"
  shows "2 powi (bin_exp q) \<le> \<bar>q\<bar>"
proof -
  obtain n d where nd: "quotient_of q = (n, d)" by fastforce
  have d: "0 < d" and q: "q = of_int n / of_int d"
    using quotient_of_denom_pos [OF nd] quotient_of_div [OF nd] by simp_all
  have n: "n \<noteq> 0" using assms q by auto
  define a b where "a = floorlog 2 (nat \<bar>n\<bar>)" and "b = floorlog 2 (nat d)"
  have A: "2 ^ (a - 1) \<le> nat \<bar>n\<bar>" and B: "nat d < 2 ^ b" and a: "0 < a"
    using floorlog_bounds [of "nat \<bar>n\<bar>" 2] floorlog_bounds [of "nat d" 2] n d
    by (simp_all add: a_def b_def floorlog_def)
  have "(2 :: rat) ^ (a - 1) \<le> of_int \<bar>n\<bar>" "of_int d < (2 :: rat) ^ b"
    using A B d by (metis (mono_tags) of_nat_le_iff of_nat_nat of_nat_power of_nat_numeral abs_ge_zero,
        metis (mono_tags) of_nat_less_iff of_nat_nat of_nat_power of_nat_numeral order_less_imp_le)
  then have "(2 :: rat) ^ (a - 1) / 2 ^ b \<le> of_int \<bar>n\<bar> / of_int d"
    using d by (intro frac_le) auto
  also have "(2 :: rat) ^ (a - 1) / 2 ^ b = 2 powi (int a - int b - 1)"
    using a by (simp add: power_int_diff of_nat_diff flip: power_int_of_nat)
  finally have "(2 :: rat) powi (int a - int b - 1) \<le> \<bar>q\<bar>" using q d by (simp add: abs_divide)
  then show ?thesis by (simp add: bin_exp_def nd Let_def a_def b_def)
qed

text \<open>Rounding is exact to half a unit in the last place.\<close>

lemma double_of_near:
  assumes "q = 0 \<or> 2 powi (-1022) \<le> \<bar>q\<bar>"
  shows "\<bar>double_of q - q\<bar> \<le> \<bar>q\<bar> / 2 ^ 53"
proof (cases "q = 0")
  case False
  have u: "0 < ulp q" by (simp add: ulp_def)
  have "ulp q / 2 \<le> \<bar>q\<bar> / 2 ^ 53"
  proof (cases "bin_exp q - 52 < -1074")
    case True
    then have "ulp q = 2 powi (-1074)" by (simp add: ulp_def)
    also have "(2 :: rat) powi (-1074) = 2 powi (-1022) / 2 ^ 52"
      using power_int_diff [of "2 :: rat" "-1022" 52] by simp
    finally have "ulp q / 2 = 2 powi (-1022) / 2 ^ 53" by simp
    then show ?thesis using assms False by (simp add: divide_right_mono)
  next
    case ge: False
    then have "ulp q = 2 powi (bin_exp q) / 2 ^ 52"
      using power_int_diff [of "2 :: rat" "bin_exp q" 52] by (simp add: ulp_def)
    then show ?thesis using bin_exp_lower [OF False] by simp
  qed
  moreover have "double_of q - q = (of_int (round_even (q / ulp q)) - q / ulp q) * ulp q"
    using False u by (simp add: double_of_def left_diff_distrib)
  then have "\<bar>double_of q - q\<bar> = \<bar>of_int (round_even (q / ulp q)) - q / ulp q\<bar> * ulp q"
    using u by (simp add: abs_mult)
  then have "\<bar>double_of q - q\<bar> \<le> ulp q / 2"
    using mult_right_mono [OF round_even_near [of "q / ulp q"], of "ulp q"] u by simp
  ultimately show ?thesis by linarith
qed (simp add: double_of_def)

subsection \<open>Sums\<close>

text \<open>
  \<open>near n x y\<close>: at most \<open>n\<close> roundings, one over the other, lead from \<open>x\<close> to \<open>y\<close>. Sums of amounts that
  are zero or at least a cent never come near the subnormal numbers.
\<close>

definition eps :: rat where "eps = 1 / 2 ^ 53"

definition near :: "nat \<Rightarrow> rat \<Rightarrow> rat \<Rightarrow> bool" where
  "near n x y \<longleftrightarrow> x * (1 - eps) ^ n \<le> y \<and> y \<le> x * (1 + eps) ^ n"

definition money :: "rat \<Rightarrow> bool" where
  "money q \<longleftrightarrow> q = 0 \<or> 1 / 100 \<le> q"

lemma eps_range: "0 < eps" "eps \<le> 1"
  by (simp_all add: eps_def)

lemma money_add [intro]: "money x \<Longrightarrow> money y \<Longrightarrow> money (x + y)"
  by (auto simp: money_def)

lemma money_nonneg: "money x \<Longrightarrow> 0 \<le> x"
  by (auto simp: money_def)

lemma money_sum: "list_all money qs \<Longrightarrow> money (sum_list qs)"
  by (induction qs) (auto simp: money_def)

lemma shrink: "1 - of_nat n * eps \<le> (1 - eps) ^ n"
proof (induction n)
  case (Suc n)
  have "(1 - of_nat n * eps) * (1 - eps) \<le> (1 - eps) ^ n * (1 - eps)"
    using Suc eps_range by (intro mult_right_mono) auto
  moreover have "1 - of_nat (Suc n) * eps \<le> (1 - of_nat n * eps) * (1 - eps)"
    using eps_range by (simp add: algebra_simps)
  ultimately show ?case by (simp add: mult.commute)
qed simp

lemma grow: "of_nat n * eps \<le> 1 / 2 \<Longrightarrow> (1 + eps) ^ n \<le> 1 + 2 * of_nat n * eps"
proof (induction n)
  case (Suc n)
  have n: "of_nat n * eps \<le> 1 / 2" using Suc.prems eps_range by (simp add: algebra_simps)
  then have "(1 + eps) ^ n * (1 + eps) \<le> (1 + 2 * of_nat n * eps) * (1 + eps)"
    using Suc.IH eps_range by (intro mult_right_mono) auto
  moreover have "2 * (of_nat n * eps) * eps \<le> eps" using mult_right_mono [OF n, of "2 * eps"] eps_range by simp
  then have "(1 + 2 * of_nat n * eps) * (1 + eps) \<le> 1 + 2 * of_nat (Suc n) * eps"
    by (simp add: algebra_simps)
  ultimately show ?case by (simp add: mult.commute)
qed simp

lemma few: "n \<le> 2 ^ 52 \<Longrightarrow> of_nat n * eps \<le> 1 / 2"
  using of_nat_mono [of n "2 ^ 52", where 'a = rat] by (simp add: eps_def)

lemma near_self: "near 0 x x"
  by (simp add: near_def)

lemma near_mono:
  assumes "near n x y" and "n \<le> m" and "0 \<le> x"
  shows "near m x y"
proof -
  have "x * (1 - eps) ^ m \<le> x * (1 - eps) ^ n"
    using assms eps_range by (intro mult_left_mono power_decreasing) auto
  moreover have "x * (1 + eps) ^ n \<le> x * (1 + eps) ^ m"
    using assms eps_range by (intro mult_left_mono power_increasing) auto
  ultimately show ?thesis using assms(1) by (simp add: near_def)
qed

lemma near_add: "near n x y \<Longrightarrow> near n x' y' \<Longrightarrow> near n (x + x') (y + y')"
  by (simp add: near_def distrib_right)

lemma near_round:
  assumes "near n x y" and "money x" and "n \<le> 2 ^ 52"
  shows "near (Suc n) x (double_of y)"
proof -
  have x: "0 \<le> x" using assms(2) by (rule money_nonneg)
  have "1 / 2 \<le> (1 - eps) ^ n" using shrink [of n] few [OF assms(3)] by linarith
  then have "x * (1 / 2) \<le> x * (1 - eps) ^ n" using x by (rule mult_left_mono)
  then have "x / 2 \<le> y" using assms(1) by (simp add: near_def)
  moreover have "x = 0 \<Longrightarrow> y = 0" using assms(1) by (simp add: near_def)
  moreover have "(2 :: rat) powi (-1022) \<le> 2 powi (-8)" by (rule power_int_increasing) simp_all
  ultimately have "y = 0 \<or> 2 powi (-1022) \<le> \<bar>y\<bar>" "0 \<le> y" using assms(2) by (auto simp: money_def)
  then have "\<bar>double_of y - y\<bar> \<le> y * eps" using double_of_near [of y] by (simp add: eps_def)
  then have d: "y * (1 - eps) \<le> double_of y" "double_of y \<le> y * (1 + eps)" by (simp_all add: abs_le_iff algebra_simps)
  have "x * (1 - eps) ^ Suc n \<le> y * (1 - eps)"
    using assms(1) mult_right_mono [of "x * (1 - eps) ^ n" y "1 - eps"] eps_range by (simp add: near_def ac_simps)
  moreover have "y * (1 + eps) \<le> x * (1 + eps) ^ Suc n"
    using assms(1) mult_right_mono [of y "x * (1 + eps) ^ n" "1 + eps"] eps_range by (simp add: near_def ac_simps)
  ultimately show ?thesis using d unfolding near_def by linarith
qed

text \<open>The page's accumulation: each summand is near its own exact value.\<close>

lemma near_fold:
  assumes "list_all2 (near k) xs ys" and "list_all money xs" and "near k x y" and "money x" and "k + length xs \<le> 2 ^ 52"
  shows "near (k + length xs) (x + sum_list xs) (foldl double_add y ys)"
  using assms
proof (induction xs arbitrary: k x y ys)
  case (Cons a xs)
  then obtain b bs where ys: "ys = b # bs" "near k a b" "list_all2 (near k) xs bs" by (auto simp: list_all2_Cons1)
  have m: "money (x + a)" "list_all money xs" using Cons.prems by auto
  have "near (Suc k) (x + a) (double_add y b)"
    unfolding double_add_def by (rule near_round [OF near_add]) (use Cons.prems ys m in auto)
  moreover have "list_all2 (near (Suc k)) xs bs"
    using ys(3) m(2) near_mono [of k _ _ "Suc k"] money_nonneg by (auto simp: list_all2_conv_all_nth list_all_length)
  ultimately show ?case using Cons.IH [of "Suc k" bs "x + a" "double_add y b"] Cons.prems m ys by (simp add: ac_simps)
qed simp

lemma near_zero: "near n 0 0"
  by (simp add: near_def)

lemma near_cent:
  assumes "near n x y" and "n \<le> 20001" and "0 \<le> x" and "x \<le> 10 ^ 9"
  shows "\<bar>y - x\<bar> < 1 / 200"
proof -
  define k :: rat where "k = of_nat n * eps"
  have "of_nat n \<le> (20001 :: rat)" using of_nat_mono [OF assms(2), where 'a = rat] by simp
  then have "k \<le> 20001 * eps" using eps_range by (simp add: k_def)
  then have "x * k \<le> 10 ^ 9 * (20001 * eps)"
    using assms eps_range by (intro mult_mono) (auto simp: k_def)
  then have b: "2 * (x * k) < 1 / 200" by (simp add: eps_def)
  have "0 \<le> x * k" using assms(3) eps_range by (simp add: k_def)
  have "n \<le> 2 ^ 52" using assms(2) by simp
  then have "x * (1 + eps) ^ n \<le> x * (1 + 2 * of_nat n * eps)"
    by (intro mult_left_mono [OF grow assms(3)] few)
  moreover have "x * (1 - of_nat n * eps) \<le> x * (1 - eps) ^ n" by (rule mult_left_mono [OF shrink assms(3)])
  ultimately have "x - x * k \<le> y" "y \<le> x + 2 * (x * k)"
    using assms(1) by (simp_all add: near_def k_def algebra_simps)
  then show ?thesis unfolding abs_less_iff using b \<open>0 \<le> x * k\<close> by linarith
qed

text \<open>A tenth is no double.\<close>

lemma tenth_inexact: "double_of (1 / 10) \<noteq> 1 / 10"
  by code_simp

end
