(* ===== verification/Base64.thy ===== *)
theory Base64
  imports Prelude
begin

section \<open>Base64\<close>

text \<open>
  \<^verbatim>\<open>btoa\<close> and \<^verbatim>\<open>atob\<close> of the standard library, on binary strings: the CSP nonce is
  printed with the one, a JWT payload read with the other. \<open>sextets\<close> and \<open>octets\<close> are
  the two regroupings of bits; \<open>atob\<close> is the library's forgiving decode (white space
  dropped, at most two padding characters removed, \<open>None\<close> for the
  \<^verbatim>\<open>InvalidCharacterError\<close>).
\<close>

fun sextets :: "nat list \<Rightarrow> nat list" where
  "sextets [] = []"
| "sextets [a] = [a div 4, a mod 4 * 16]"
| "sextets [a, b] = [a div 4, a mod 4 * 16 + b div 16, b mod 16 * 4]"
| "sextets (a # b # c # r) =
     a div 4 # (a mod 4 * 16 + b div 16) # (b mod 16 * 4 + c div 64) # c mod 64 # sextets r"

fun octets :: "nat list \<Rightarrow> nat list" where
  "octets [p, q] = [p * 4 + q div 16]"
| "octets [p, q, r] = [p * 4 + q div 16, q mod 16 * 16 + r div 4]"
| "octets (p # q # r # s # t) =
     (p * 4 + q div 16) # (q mod 16 * 16 + r div 4) # (r mod 4 * 64 + s) # octets t"
| "octets _ = []"

definition b64_char :: "nat \<Rightarrow> char" where
  "b64_char n =
     (if n < 26 then char_of (65 + n)
      else if n < 52 then char_of (71 + n)
      else if n < 62 then char_of (n - 4)
      else if n = 62 then CHR ''+'' else CHR ''/'')"

definition b64_val :: "char \<Rightarrow> nat option" where
  "b64_val c = (let n = of_char c :: nat in
     if 65 \<le> n \<and> n \<le> 90 then Some (n - 65)
     else if 97 \<le> n \<and> n \<le> 122 then Some (n - 71)
     else if 48 \<le> n \<and> n \<le> 57 then Some (n + 4)
     else if n = 43 then Some 62 else if n = 47 then Some 63 else None)"

definition pad_len :: "nat \<Rightarrow> nat" where
  "pad_len k = (4 - k mod 4) mod 4"

definition btoa_raw :: "string \<Rightarrow> string" where
  "btoa_raw s = map b64_char (sextets (map of_char s))"

definition btoa :: "string \<Rightarrow> string" where
  "btoa s = btoa_raw s @ replicate (pad_len (length (btoa_raw s))) CHR ''=''"

definition atob_ws :: "char \<Rightarrow> bool" where
  "atob_ws c = (of_char c \<in> {9::nat, 10, 12, 13, 32})"

definition strip_pad :: "string \<Rightarrow> string" where
  "strip_pad s =
     (case rev s of
        [] \<Rightarrow> s
      | c # r \<Rightarrow> if c = CHR ''='' then
          (case r of d # r' \<Rightarrow> if d = CHR ''='' then rev r' else rev r | [] \<Rightarrow> []) else s)"

definition atob :: "string \<Rightarrow> string option" where
  "atob s =
     (let t = filter (\<lambda>c. \<not> atob_ws c) s;
          u = (if length t mod 4 = 0 then strip_pad t else t)
      in if length u mod 4 = 1 \<or> list_ex (\<lambda>c. b64_val c = None) u then None
         else Some (map char_of (octets (map (\<lambda>c. the (b64_val c)) u))))"

lemma b64_val_char: "n < 64 \<Longrightarrow> b64_val (b64_char n) = Some n"
  by (auto simp: b64_val_def b64_char_def Let_def)

lemma b64_char_props: "n < 64 \<Longrightarrow> b64_char n \<noteq> CHR ''='' \<and> \<not> atob_ws (b64_char n)"
proof -
  assume n: "n < 64"
  have "b64_val CHR ''='' = None" by (simp add: b64_val_def)
  moreover have "b64_val c = None" if "atob_ws c" for c
    using that by (auto simp: atob_ws_def b64_val_def Let_def)
  ultimately show ?thesis using b64_val_char [OF n] by fastforce
qed

lemma b64_char_inj: "m < 64 \<Longrightarrow> n < 64 \<Longrightarrow> b64_char m = b64_char n \<Longrightarrow> m = n"
  by (metis b64_val_char option.inject)

lemma sextets_small: "\<forall>b \<in> set xs. b < 256 \<Longrightarrow> \<forall>q \<in> set (sextets xs). q < 64"
  by (induction xs rule: sextets.induct) auto

lemma octets_sextets: "\<forall>b \<in> set xs. b < 256 \<Longrightarrow> octets (sextets xs) = xs"
proof (induction xs rule: sextets.induct)
  case (4 a b c r)
  have "(a mod 4 * 16 + b div 16) div 16 = a mod 4" "(a mod 4 * 16 + b div 16) mod 16 = b div 16"
    using 4(2) by (auto simp: div_eq_0_iff less_mult_imp_div_less)
  moreover have "(b mod 16 * 4 + c div 64) div 4 = b mod 16" "(b mod 16 * 4 + c div 64) mod 4 = c div 64"
    using 4(2) by (auto simp: div_eq_0_iff less_mult_imp_div_less)
  ultimately show ?case using 4 by simp
next
  case (3 a b)
  have "(a mod 4 * 16 + b div 16) div 16 = a mod 4" "(a mod 4 * 16 + b div 16) mod 16 = b div 16"
    using 3 by (auto simp: div_eq_0_iff less_mult_imp_div_less)
  then show ?case by simp
qed auto

lemma sextets_length_mod: "length (sextets xs) mod 4 \<noteq> 1"
  by (induction xs rule: sextets.induct) auto

lemma octets_raw: "octets (map (\<lambda>c. the (b64_val c)) (btoa_raw s)) = map of_char s"
proof -
  have "\<forall>b \<in> set (map of_char s). b < (256::nat)" by auto
  note small = sextets_small [OF this] and inverse = octets_sextets [OF this]
  have "map (\<lambda>c. the (b64_val c)) (btoa_raw s) = sextets (map of_char s)"
    unfolding btoa_raw_def map_map by (rule map_idI) (simp add: small b64_val_char)
  then show ?thesis by (simp add: inverse)
qed

lemma btoa_raw_chars:
  "c \<in> set (btoa_raw s) \<Longrightarrow> b64_val c \<noteq> None \<and> c \<noteq> CHR ''='' \<and> \<not> atob_ws c"
proof -
  assume "c \<in> set (btoa_raw s)"
  then obtain q where "q \<in> set (sextets (map of_char s))" "c = b64_char q"
    by (auto simp: btoa_raw_def)
  moreover have "\<forall>q \<in> set (sextets (map of_char s)). q < 64" by (rule sextets_small) auto
  ultimately show ?thesis using b64_char_props b64_val_char by auto
qed

lemma strip_pad_pads:
  assumes "CHR ''='' \<notin> set s" and "k \<le> 2"
  shows "strip_pad (s @ replicate k CHR ''='') = s"
proof -
  have "k = 0 \<or> k = 1 \<or> k = 2" using assms(2) by auto
  moreover have "rev s \<noteq> CHR ''='' # u" for u using assms(1) by (metis list.set_intros(1) set_rev)
  ultimately show ?thesis
    using assms(1) by (auto simp: strip_pad_def numeral_2_eq_2 split: list.splits)
qed

lemma mod4_cases: "(n::nat) mod 4 = 0 \<or> n mod 4 = 1 \<or> n mod 4 = 2 \<or> n mod 4 = 3"
proof -
  have "n mod 4 < 4" by simp
  then show ?thesis by linarith
qed

lemma pad_len_mod: "(n::nat) mod 4 \<noteq> 1 \<Longrightarrow> pad_len n \<le> 2"
  using mod4_cases [of n] by (auto simp: pad_len_def)

lemma pad_len_sum: "(n + pad_len n) mod 4 = 0"
proof -
  have "(n mod 4 + pad_len n) mod 4 = 0"
    using mod4_cases [of n] by (auto simp: pad_len_def)
  then show ?thesis by (simp add: mod_simps)
qed

lemma atob_padded: "atob (btoa_raw s @ replicate (pad_len (length (btoa_raw s))) CHR ''='') = Some s"
proof -
  define r where "r = btoa_raw s"
  define k where "k = pad_len (length r)"
  have len: "length r mod 4 \<noteq> 1"
    using sextets_length_mod [of "map of_char s"] by (simp add: r_def btoa_raw_def)
  have k: "k \<le> 2" "(length r + k) mod 4 = 0"
    unfolding k_def using pad_len_mod [OF len] pad_len_sum by auto
  have chars: "b64_val c \<noteq> None \<and> c \<noteq> CHR ''='' \<and> \<not> atob_ws c" if "c \<in> set r" for c
    using that unfolding r_def by (rule btoa_raw_chars)
  have "\<not> atob_ws CHR ''=''" by (simp add: atob_ws_def)
  then have pads: "filter (\<lambda>c. \<not> atob_ws c) (r @ replicate k CHR ''='') = r @ replicate k CHR ''=''"
    using chars by (intro filter_True) auto
  have strip: "strip_pad (r @ replicate k CHR ''='') = r"
    using chars k(1) by (intro strip_pad_pads) auto
  have "\<not> list_ex (\<lambda>c. b64_val c = None) r"
    using chars by (auto simp: list_ex_iff)
  moreover have "map char_of (octets (map (\<lambda>c. the (b64_val c)) r)) = s"
    unfolding r_def octets_raw by (simp add: map_idI)
  moreover have "length (r @ replicate k CHR ''='') mod 4 = 0" using k(2) by simp
  ultimately have "atob (r @ replicate k CHR ''='') = Some s"
    using len by (simp only: atob_def Let_def pads strip if_True simp_thms if_False)
  then show ?thesis by (simp only: r_def k_def)
qed

lemma atob_btoa: "atob (btoa s) = Some s"
  unfolding btoa_def by (rule atob_padded)

lemma length_btoa: "length (btoa s) = 4 * ((length s + 2) div 3)"
proof -
  have "length (sextets xs) + pad_len (length (sextets xs)) = 4 * ((length xs + 2) div 3)" for xs
  proof (induction xs rule: sextets.induct)
    case (4 a b c r)
    have "(length (a # b # c # r) + 2) div 3 = Suc ((length r + 2) div 3)" by simp
    moreover have "length (sextets (a # b # c # r)) = length (sextets r) + 4" by simp
    ultimately show ?case using 4 by (simp add: pad_len_def del: length_Cons)
  qed (auto simp: pad_len_def)
  then show ?thesis by (simp add: btoa_def btoa_raw_def)
qed

end
