(* ===== verification/Api_Token.thy ===== *)
theory Api_Token
  imports Json Base64
begin

section \<open>The access token (lib/api.ts)\<close>

text \<open>
  The module state of \<^verbatim>\<open>lib/api.ts\<close> that concerns the token: the in-memory bearer, the
  \<^verbatim>\<open>exp\<close> claim decoded from it, and the timer of the next proactive refresh. Times are
  the milliseconds of \<^verbatim>\<open>Date.now()\<close>, an integer; \<^verbatim>\<open>exp\<close> is a JSON number of seconds.
  The timer is kept as the instant at which it is due. Also here: the path predicates
  that choose a request's timeout and whether it takes part in the refresh protocol.
\<close>

definition DEFAULT_TIMEOUT_MS :: nat where "DEFAULT_TIMEOUT_MS = 10000"
definition RECOVERY_TIMEOUT_MS :: nat where "RECOVERY_TIMEOUT_MS = 45000"
definition PROACTIVE_REFRESH_LEAD_SECONDS :: int where "PROACTIVE_REFRESH_LEAD_SECONDS = 60"
definition CLOCK_SKEW_TOLERANCE_SECONDS :: int where "CLOCK_SKEW_TOLERANCE_SECONDS = 5"

definition isRecoveryPath :: "string \<Rightarrow> bool" where
  "isRecoveryPath path \<longleftrightarrow>
     js_includes path ''/auth/refresh'' \<or> js_includes path ''/auth/me'' \<or> js_includes path ''/auth/status''"

definition timeoutForPath :: "string \<Rightarrow> nat" where
  "timeoutForPath path = (if isRecoveryPath path then RECOVERY_TIMEOUT_MS else DEFAULT_TIMEOUT_MS)"

definition isAuthEndpoint :: "string \<Rightarrow> bool" where
  "isAuthEndpoint path = js_starts_with path ''/api/v1/auth/''"

definition isCredCheck :: "string \<Rightarrow> bool" where
  "isCredCheck path \<longleftrightarrow>
     js_starts_with path ''/api/v1/auth/login'' \<or> js_starts_with path ''/api/v1/auth/mfa/verify''"

subsection \<open>Decoding the exp claim\<close>

text \<open>base64url to base64, then padding up to a multiple of four.\<close>

definition b64url_to_std :: "string \<Rightarrow> string" where
  "b64url_to_std s = map (\<lambda>c. if c = CHR ''-'' then CHR ''+'' else if c = CHR ''_'' then CHR ''/'' else c) s"

function pad4 :: "string \<Rightarrow> string" where
  "pad4 s = (if length s mod 4 \<noteq> 0 then pad4 (s @ ''='') else s)"
  by pat_completeness auto
termination
proof (relation "measure (\<lambda>s. pad_len (length s))")
  fix s :: string
  assume "length s mod 4 \<noteq> 0"
  then show "(s @ ''='', s) \<in> measure (\<lambda>s. pad_len (length s))"
    using mod4_cases [of "length s"] by (auto simp: pad_len_def mod_Suc)
qed simp

declare pad4.simps [simp del]

definition decodeJwtExp :: "string \<Rightarrow> rat option" where
  "decodeJwtExp token =
     (let parts = js_split CHR ''.'' token in
      if length parts \<noteq> 3 then None
      else (case atob (pad4 (b64url_to_std (parts ! 1))) of
              None \<Rightarrow> None
            | Some txt \<Rightarrow>
                (case json_parse txt of
                   None \<Rightarrow> None
                 | Some payload \<Rightarrow>
                     (case js_get payload ''exp'' of JNum q \<Rightarrow> Some q | _ \<Rightarrow> None))))"

subsection \<open>Token state\<close>

record token_state =
  ts_token :: "string option"
  ts_exp :: "rat option"
  ts_timer :: "rat option"

definition token_init :: token_state where
  "token_init = \<lparr>ts_token = None, ts_exp = None, ts_timer = None\<rparr>"

text \<open>\<^verbatim>\<open>if (accessToken)\<close>: neither null nor the empty string.\<close>

definition bearer :: "token_state \<Rightarrow> string option" where
  "bearer ts = (case ts_token ts of Some t \<Rightarrow> if t = [] then None else Some t | None \<Rightarrow> None)"

definition now_sec :: "int \<Rightarrow> int" where
  "now_sec now = now div 1000"

definition isAccessTokenNearExpiry :: "int \<Rightarrow> token_state \<Rightarrow> bool" where
  "isAccessTokenNearExpiry now ts = (case ts_exp ts of
      None \<Rightarrow> False
    | Some e \<Rightarrow> e - of_int (now_sec now)
        \<le> of_int (PROACTIVE_REFRESH_LEAD_SECONDS + CLOCK_SKEW_TOLERANCE_SECONDS))"

definition scheduleProactiveRefresh :: "bool \<Rightarrow> int \<Rightarrow> token_state \<Rightarrow> token_state" where
  "scheduleProactiveRefresh has_window now ts =
     (let ts0 = ts\<lparr>ts_timer := None\<rparr> in
      if \<not> has_window then ts0
      else (case ts_exp ts0 of
              None \<Rightarrow> ts0
            | Some e \<Rightarrow>
                (let delay = (e - of_int PROACTIVE_REFRESH_LEAD_SECONDS - of_int (now_sec now)) * 1000
                 in if delay \<le> 0 then ts0 else ts0\<lparr>ts_timer := Some (of_int now + delay)\<rparr>)))"

definition setAccessToken :: "bool \<Rightarrow> int \<Rightarrow> string option \<Rightarrow> token_state \<Rightarrow> token_state" where
  "setAccessToken has_window now token ts =
     scheduleProactiveRefresh has_window now
       (ts\<lparr>ts_token := token,
           ts_exp := (case token of Some t \<Rightarrow> if t = [] then None else decodeJwtExp t | None \<Rightarrow> None)\<rparr>)"

definition getAccessToken :: "token_state \<Rightarrow> string option" where
  "getAccessToken ts = ts_token ts"

lemma setAccessToken_token [simp]: "ts_token (setAccessToken w now t ts) = t"
  by (simp add: setAccessToken_def scheduleProactiveRefresh_def Let_def split: option.splits)

lemma setAccessToken_exp [simp]:
  "ts_exp (setAccessToken w now t ts)
     = (case t of Some t \<Rightarrow> if t = [] then None else decodeJwtExp t | None \<Rightarrow> None)"
  by (simp add: setAccessToken_def scheduleProactiveRefresh_def Let_def split: option.splits)

lemma bearer_None_exp: "ts_exp (setAccessToken w now None ts) = None"
  by simp

lemma schedule_due:
  "ts_timer (scheduleProactiveRefresh w now ts) = Some due \<Longrightarrow>
     \<exists>e. w \<and> ts_exp ts = Some e
       \<and> due = of_int now + (e - of_int PROACTIVE_REFRESH_LEAD_SECONDS - of_int (now_sec now)) * 1000
       \<and> of_int now < due"
  by (auto simp: scheduleProactiveRefresh_def Let_def split: if_splits option.splits)

subsection \<open>The decoder reads back what an issuer encodes\<close>

definition std_to_b64url :: "string \<Rightarrow> string" where
  "std_to_b64url s = map (\<lambda>c. if c = CHR ''+'' then CHR ''-'' else if c = CHR ''/'' then CHR ''_'' else c) s"

text \<open>A compact JWS: unpadded base64url payload between two dots.\<close>

definition jwt :: "string \<Rightarrow> jsval \<Rightarrow> string \<Rightarrow> string" where
  "jwt hdr payload sig = hdr @ ''.'' @ std_to_b64url (btoa_raw (json_stringify payload)) @ ''.'' @ sig"

lemma pad4_eq: "pad4 s = s @ replicate (pad_len (length s)) CHR ''=''"
proof (induction s rule: pad4.induct)
  case (1 s)
  show ?case
  proof (cases "length s mod 4 = 0")
    case True
    then show ?thesis by (simp add: pad4.simps [of s] pad_len_def)
  next
    case False
    then have "pad_len (length s) = Suc (pad_len (length (s @ ''='')))"
      using mod4_cases [of "length s"] by (auto simp: pad_len_def mod_Suc)
    with 1 False show ?thesis by (simp add: pad4.simps [of s])
  qed
qed

lemma b64url_inverse:
  assumes "\<forall>c \<in> set s. c \<noteq> CHR ''-'' \<and> c \<noteq> CHR ''_''"
  shows "b64url_to_std (std_to_b64url s) = s"
  using assms by (induction s) (auto simp: b64url_to_std_def std_to_b64url_def)

lemma js_split_single: "sep \<notin> set w \<Longrightarrow> js_split sep w = [w]"
  by (induction w) auto

lemma js_split_append: "sep \<notin> set w \<Longrightarrow> js_split sep (w @ sep # s) = w # js_split sep s"
  by (induction w) (auto split: list.splits)

lemma btoa_raw_url_chars:
  "\<forall>c \<in> set (btoa_raw s). c \<noteq> CHR ''-'' \<and> c \<noteq> CHR ''_'' \<and> c \<noteq> CHR ''.''"
proof
  fix c assume "c \<in> set (btoa_raw s)"
  then have "b64_val c \<noteq> None" using btoa_raw_chars by blast
  then show "c \<noteq> CHR ''-'' \<and> c \<noteq> CHR ''_'' \<and> c \<noteq> CHR ''.''"
    by (auto simp: b64_val_def)
qed

lemma jwt_parts:
  assumes "CHR ''.'' \<notin> set hdr" and "CHR ''.'' \<notin> set sig"
  shows "js_split CHR ''.'' (jwt hdr payload sig)
    = [hdr, std_to_b64url (btoa_raw (json_stringify payload)), sig]"
proof -
  have "CHR ''.'' \<notin> set (std_to_b64url (btoa_raw (json_stringify payload)))"
    using btoa_raw_url_chars [of "json_stringify payload"] by (auto simp: std_to_b64url_def)
  with assms show ?thesis
    by (simp add: jwt_def js_split_append js_split_single)
qed

lemma decodeJwtExp_jwt:
  assumes "CHR ''.'' \<notin> set hdr" and "CHR ''.'' \<notin> set sig" and "json_ok payload"
  shows "decodeJwtExp (jwt hdr payload sig)
    = (case js_get payload ''exp'' of JNum q \<Rightarrow> Some q | _ \<Rightarrow> None)"
proof -
  have "atob (pad4 (b64url_to_std (std_to_b64url (btoa_raw u)))) = Some u" for u
    using b64url_inverse [of "btoa_raw u"] btoa_raw_url_chars [of u] by (simp add: pad4_eq atob_padded)
  then show ?thesis
    using assms by (simp add: decodeJwtExp_def jwt_parts json_roundtrip)
qed

lemma decodeJwtExp_not_jwt:
  "length (js_split CHR ''.'' token) \<noteq> 3 \<Longrightarrow> decodeJwtExp token = None"
  by (simp add: decodeJwtExp_def)

end
