(* ===== verification/Api_Fetch.thy ===== *)
theory Api_Fetch
  imports Api_Token
begin

section \<open>Requests with a timeout, responses, and one silent refresh (lib/api.ts)\<close>

text \<open>
  \<open>fetchWithTimeout\<close> as a race between the network, the timer and the caller's abort
  signal; the translation of a response into a value or an \<open>ApiResponseError\<close>; and the
  refresh of the access token: one attempt (\<open>refreshAccessTokenOnce\<close>) and the retry
  loop around it (\<open>refreshAccessToken\<close>), as functions of what the network answers. The
  network is a service: its answers are parameters.
\<close>

subsection \<open>Responses\<close>

record response =
  rs_status :: int
  rs_status_text :: string
  rs_json :: "js_error + jsval"

definition rs_ok :: "response \<Rightarrow> bool" where
  "rs_ok r \<longleftrightarrow> 200 \<le> rs_status r \<and> rs_status r < 300"

text \<open>
  What the network does with a request: it answers after a delay, rejects after a delay
  (DNS, connection refused), or never settles.
\<close>

datatype net = NetResolve nat response | NetReject nat js_error | NetHang

text \<open>
  The earliest of the three decides. Without an answer the timer aborts the fetch at
  \<open>timeoutMs\<close> (\<open>ApiTimeoutError\<close>), unless the caller's signal aborted it first (the
  fetch rejects with the abort reason). The result carries the instant of settlement.
\<close>

definition fetchWithTimeout :: "nat \<Rightarrow> (nat \<times> js_error) option \<Rightarrow> net \<Rightarrow> nat \<times> (js_error + response)" where
  "fetchWithTimeout timeoutMs upstream net =
     (let aborts = (case upstream of
            Some (a, e) \<Rightarrow> if a < timeoutMs then (a, e) else (timeoutMs, ApiTimeoutError)
          | None \<Rightarrow> (timeoutMs, ApiTimeoutError))
      in case net of
           NetResolve d r \<Rightarrow> if d < fst aborts then (d, Inr r) else (fst aborts, Inl (snd aborts))
         | NetReject d e \<Rightarrow> if d < fst aborts then (d, Inl e) else (fst aborts, Inl (snd aborts))
         | NetHang \<Rightarrow> (fst aborts, Inl (snd aborts)))"

lemma fetchWithTimeout_bound: "fst (fetchWithTimeout t u n) \<le> t"
  by (auto simp: fetchWithTimeout_def Let_def split: net.splits option.splits)

subsection \<open>A failed response as an error\<close>

text \<open>One entry of FastAPI's 422 list, flattened to \<open>field: message\<close>.\<close>

definition validation_entry :: "jsval \<Rightarrow> string" where
  "validation_entry e =
     (let field = (case js_get e ''loc'' of
            JArr ps \<Rightarrow> js_join ''.'' (map (\<lambda>p. case p of JStr s \<Rightarrow> s | _ \<Rightarrow> [])
                (filter (\<lambda>p. p \<noteq> JStr ''body'' \<and> js_is_string p) ps))
          | _ \<Rightarrow> []);
          msg = (case js_get e ''msg'' of JStr m \<Rightarrow> m | _ \<Rightarrow> ''Invalid input'')
      in if field \<noteq> [] then field @ '': '' @ msg else msg)"

text \<open>
  Reading \<open>detail\<close> off a body that is JSON \<open>null\<close> throws a \<open>TypeError\<close>, which then
  rejects the call in place of the \<open>ApiResponseError\<close>.
\<close>

definition null_property_error :: "string \<Rightarrow> js_error" where
  "null_property_error p = PlainError ''TypeError''
     (''Cannot read properties of null (reading '' @ [CHR 0x27] @ p @ [CHR 0x27] @ '')'')"

definition responseError :: "response \<Rightarrow> js_error" where
  "responseError r =
     (let body = (case rs_json r of
            Inr v \<Rightarrow> v
          | Inl _ \<Rightarrow> JObj [(''detail'', JStr (rs_status_text r))])
      in if js_is_nullish body then null_property_error ''detail''
         else
           (let d = js_get body ''detail'' in
            case d of
              JArr es \<Rightarrow> ApiResponseError (rs_status r) (js_join ''; '' (map validation_entry es)) None d
            | JStr s \<Rightarrow> ApiResponseError (rs_status r) s None d
            | JObj _ \<Rightarrow>
                (case js_get d ''message'' of
                   JStr m \<Rightarrow> ApiResponseError (rs_status r) m
                     (case js_get d ''code'' of JStr c \<Rightarrow> Some c | _ \<Rightarrow> None) d
                 | _ \<Rightarrow> ApiResponseError (rs_status r) ''Request failed'' None d)
            | _ \<Rightarrow> ApiResponseError (rs_status r) ''Request failed'' None d))"

definition finishResponse :: "response \<Rightarrow> js_error + jsval" where
  "finishResponse r =
     (if \<not> rs_ok r then Inl (responseError r)
      else if rs_status r = 204 then Inr JUndef
      else rs_json r)"

definition extractErrorMessage :: "js_error \<Rightarrow> string \<Rightarrow> string" where
  "extractErrorMessage err fallback = (if is_error err then error_message err else fallback)"

definition safePath :: "string \<Rightarrow> string" where
  "safePath path = before_char CHR ''#'' (before_char CHR ''?'' path)"

lemma responseError_status:
  "responseError r = ApiResponseError st m c d \<Longrightarrow> st = rs_status r"
  by (auto simp: responseError_def null_property_error_def Let_def split: jsval.splits if_splits)

lemma finishResponse_not_ok: "\<not> rs_ok r \<Longrightarrow> \<exists>e. finishResponse r = Inl e"
  by (simp add: finishResponse_def)

subsection \<open>One refresh attempt\<close>

datatype refresh_result =
    RefreshOk string
  | RefreshTerminal int
  | RefreshTransient js_error "int option"

datatype outcome = OutOk | OutTerminal | OutTransient

text \<open>The events \<^verbatim>\<open>apiFetch\<close> dispatches on \<^verbatim>\<open>window\<close>.\<close>

datatype auth_event =
    RefreshAttempt nat outcome "int option" int
  | RetryAfterRefresh string int bool int
  | Unauthenticated

definition attemptEvent :: "nat \<Rightarrow> refresh_result \<Rightarrow> int \<Rightarrow> auth_event" where
  "attemptEvent attempt res ms = (case res of
      RefreshOk _ \<Rightarrow> RefreshAttempt attempt OutOk None ms
    | RefreshTerminal st \<Rightarrow> RefreshAttempt attempt OutTerminal (Some st) ms
    | RefreshTransient _ st \<Rightarrow> RefreshAttempt attempt OutTransient st ms)"

text \<open>
  How one answer to \<open>POST /api/v1/auth/refresh\<close> is classified. \<open>Inl\<close> is a rejected
  promise: reading \<open>access_token\<close> off a JSON \<open>null\<close> body throws outside every
  \<open>catch\<close>. When \<open>access_token\<close> is present it is a string, its declared type.
\<close>

definition classifyRefresh :: "js_error + response \<Rightarrow> js_error + refresh_result" where
  "classifyRefresh ans = (case ans of
      Inl err \<Rightarrow> Inr (RefreshTransient
        (if is_error err then err else PlainError ''Error'' (error_message err)) None)
    | Inr res \<Rightarrow>
        if rs_status res = 401 \<or> rs_status res = 403 then Inr (RefreshTerminal (rs_status res))
        else if \<not> rs_ok res then
          Inr (RefreshTransient (PlainError ''Error'' (''refresh returned '' @ show_int (rs_status res)))
            (Some (rs_status res)))
        else (case rs_json res of
            Inl err \<Rightarrow> Inr (RefreshTransient
              (if is_error err then err else PlainError ''Error'' ''invalid JSON'') None)
          | Inr body \<Rightarrow>
              if js_is_nullish body then Inl (null_property_error ''access_token'')
              else (case js_get body ''access_token'' of
                  JStr t \<Rightarrow> if t = [] then
                      Inr (RefreshTransient (PlainError ''Error'' ''refresh succeeded without access_token'') None)
                    else Inr (RefreshOk t)
                | _ \<Rightarrow> Inr (RefreshTransient (PlainError ''Error'' ''refresh succeeded without access_token'') None))))"

text \<open>
  The attempt: a successful one installs the token (and with it the next timer), every
  classified one dispatches its event when there is a \<^verbatim>\<open>window\<close>.
\<close>

definition refreshAccessTokenOnce ::
    "bool \<Rightarrow> int \<Rightarrow> int \<Rightarrow> nat \<Rightarrow> js_error + response \<Rightarrow> token_state
       \<Rightarrow> (js_error + refresh_result) \<times> token_state \<times> auth_event list" where
  "refreshAccessTokenOnce has_window started now attempt ans ts =
     (case classifyRefresh ans of
        Inl err \<Rightarrow> (Inl err, ts, [])
      | Inr res \<Rightarrow>
          (Inr res,
           (case res of RefreshOk t \<Rightarrow> setAccessToken has_window now (Some t) ts | _ \<Rightarrow> ts),
           (if has_window then [attemptEvent attempt res (now - started)] else [])))"

subsection \<open>The retry loop\<close>

definition REFRESH_TRANSIENT_RETRIES :: nat where "REFRESH_TRANSIENT_RETRIES = 2"
definition REFRESH_BACKOFF_BASE_MS :: nat where "REFRESH_BACKOFF_BASE_MS = 250"

definition backoffDelay :: "nat \<Rightarrow> nat" where
  "backoffDelay attempt = REFRESH_BACKOFF_BASE_MS * 2 ^ (attempt - 1)"

definition is_transient :: "refresh_result \<Rightarrow> bool" where
  "is_transient r = (case r of RefreshTransient _ _ \<Rightarrow> True | _ \<Rightarrow> False)"

text \<open>
  The loop over the answers the network would give to attempt 1, 2, 3; the result is
  the last classification, the number of attempts made and the backoff delays waited.
\<close>

fun refreshLoop ::
    "(nat \<Rightarrow> js_error + response) \<Rightarrow> nat \<Rightarrow> nat list \<Rightarrow> js_error + refresh_result
       \<Rightarrow> nat \<Rightarrow> (js_error + refresh_result) \<times> nat \<times> nat list" where
  "refreshLoop net attempt delays prev 0 = (prev, attempt, delays)"
| "refreshLoop net attempt delays prev (Suc left) =
     (case prev of
        Inl err \<Rightarrow> (prev, attempt, delays)
      | Inr res \<Rightarrow>
          if \<not> is_transient res then (prev, attempt, delays)
          else refreshLoop net (Suc attempt) (delays @ [backoffDelay attempt])
                 (classifyRefresh (net (Suc attempt))) left)"

definition refreshAccessToken ::
    "(nat \<Rightarrow> js_error + response) \<Rightarrow> (js_error + refresh_result) \<times> nat \<times> nat list" where
  "refreshAccessToken net = refreshLoop net 1 [] (classifyRefresh (net 1)) REFRESH_TRANSIENT_RETRIES"

lemma refreshAccessToken_unfold:
  "refreshAccessToken net =
     (let r1 = classifyRefresh (net 1); r2 = classifyRefresh (net 2); r3 = classifyRefresh (net 3);
          again = (\<lambda>r. \<exists>e st. r = Inr (RefreshTransient e st))
      in if \<not> again r1 then (r1, 1, [])
         else if \<not> again r2 then (r2, 2, [250])
         else (r3, 3, [250, 500]))"
  by (auto simp: refreshAccessToken_def REFRESH_TRANSIENT_RETRIES_def numeral_2_eq_2
      numeral_3_eq_3 is_transient_def backoffDelay_def REFRESH_BACKOFF_BASE_MS_def Let_def
      split: sum.splits refresh_result.splits)

lemma classify_ok_iff:
  "classifyRefresh ans = Inr (RefreshOk t) \<longleftrightarrow>
     (\<exists>res body. ans = Inr res \<and> rs_ok res \<and> rs_json res = Inr body
        \<and> js_get body ''access_token'' = JStr t \<and> t \<noteq> [])"
  by (auto simp: classifyRefresh_def rs_ok_def js_get_def js_is_nullish_def
      split: sum.splits if_splits jsval.splits)

lemma classify_terminal_iff:
  "classifyRefresh ans = Inr (RefreshTerminal st) \<longleftrightarrow>
     (\<exists>res. ans = Inr res \<and> rs_status res = st \<and> (st = 401 \<or> st = 403))"
  by (auto simp: classifyRefresh_def split: sum.splits if_splits jsval.splits)

end
