(* ===== verification/Api_Client.thy ===== *)
theory Api_Client
  imports Api_Fetch
begin

section \<open>Concurrent API calls sharing one refresh (lib/api.ts)\<close>

text \<open>
  The whole module as a transition system. Any number of \<^verbatim>\<open>apiFetch\<close> calls and
  proactive refreshes (\<^verbatim>\<open>ensureFreshAccessToken\<close>) are in flight; each is a task with a
  program counter that stands at one of the \<^verbatim>\<open>await\<close>s of the source. What runs between
  two awaits is one step, since JavaScript does not preempt; which step comes next is
  arbitrary. The module variables \<^verbatim>\<open>refreshPromise\<close>, \<^verbatim>\<open>refreshAwaiters\<close> and \<^verbatim>\<open>mePromise\<close>
  are the fields \<open>cl_refresh\<close>, \<open>cl_awaiters\<close> and \<open>cl_me\<close>; promises are indices into the
  lists of refresh and probe processes created so far.
\<close>

datatype task_kind = ApiCall | Proactive

datatype pc =
    PStart
  | PPreflight nat
  | PReady
  | PPrimary
  | PRefresh nat response
  | PRetry int
  | PProbe nat response
  | PDone "js_error + jsval"

record task =
  tk_kind :: task_kind
  tk_path :: string
  tk_auth :: "string option"
  tk_pc :: pc

datatype refresh_proc =
    Attempting nat int
  | BackingOff nat nat
  | Settled "js_error + refresh_result"

text \<open>A probe settles in two microtasks: its \<^verbatim>\<open>finally\<close> clears \<^verbatim>\<open>mePromise\<close> first.\<close>

datatype probe_proc =
    ProbeInFlight string
  | ProbeFinally bool
  | ProbeSettled bool

record client =
  cl_ts :: token_state
  cl_refresh :: "nat option"
  cl_awaiters :: int
  cl_procs :: "refresh_proc list"
  cl_me :: "nat option"
  cl_probes :: "probe_proc list"
  cl_tasks :: "task list"
  cl_events :: "auth_event list"
  cl_now :: int
  cl_window :: bool

definition client_init :: "bool \<Rightarrow> int \<Rightarrow> client" where
  "client_init has_window now = \<lparr>cl_ts = token_init, cl_refresh = None, cl_awaiters = 0, cl_procs = [],
     cl_me = None, cl_probes = [], cl_tasks = [], cl_events = [], cl_now = now, cl_window = has_window\<rparr>"

definition set_pc :: "nat \<Rightarrow> pc \<Rightarrow> client \<Rightarrow> client" where
  "set_pc i p c = c\<lparr>cl_tasks := (cl_tasks c)[i := (cl_tasks c ! i)\<lparr>tk_pc := p\<rparr>]\<rparr>"

definition set_auth :: "nat \<Rightarrow> string option \<Rightarrow> client \<Rightarrow> client" where
  "set_auth i a c = c\<lparr>cl_tasks := (cl_tasks c)[i := (cl_tasks c ! i)\<lparr>tk_auth := a\<rparr>]\<rparr>"

definition emit :: "auth_event \<Rightarrow> client \<Rightarrow> client" where
  "emit e c = (if cl_window c then c\<lparr>cl_events := cl_events c @ [e]\<rparr> else c)"

definition set_token :: "string option \<Rightarrow> client \<Rightarrow> client" where
  "set_token t c = c\<lparr>cl_ts := setAccessToken (cl_window c) (cl_now c) t (cl_ts c)\<rparr>"

text \<open>
  \<^verbatim>\<open>if (!refreshPromise) refreshPromise = refreshAccessToken(); const sharedPromise = ...;
  refreshAwaiters++\<close>: the index of the promise now awaited.
\<close>

definition join_refresh :: "client \<Rightarrow> nat \<times> client" where
  "join_refresh c =
     (let c1 = (case cl_refresh c of
            Some _ \<Rightarrow> c
          | None \<Rightarrow> c\<lparr>cl_refresh := Some (length (cl_procs c)),
                      cl_procs := cl_procs c @ [Attempting 1 (cl_now c)]\<rparr>)
      in (the (cl_refresh c1), c1\<lparr>cl_awaiters := cl_awaiters c1 + 1\<rparr>))"

text \<open>The \<^verbatim>\<open>finally\<close> of both await sites.\<close>

definition leave_refresh :: "nat \<Rightarrow> client \<Rightarrow> client" where
  "leave_refresh p c =
     (let n = cl_awaiters c - 1
      in c\<lparr>cl_awaiters := n,
           cl_refresh := (if n = 0 \<and> cl_refresh c = Some p then None else cl_refresh c)\<rparr>)"

text \<open>
  \<^verbatim>\<open>if (!mePromise) mePromise = probeAuthMeAlive().finally(...)\<close>; without a token the
  probe answers false with no request.
\<close>

definition join_probe :: "client \<Rightarrow> nat \<times> client" where
  "join_probe c =
     (let c1 = (case cl_me c of
            Some _ \<Rightarrow> c
          | None \<Rightarrow> c\<lparr>cl_me := Some (length (cl_probes c)),
                      cl_probes := cl_probes c @
                        [case bearer (cl_ts c) of Some t \<Rightarrow> ProbeInFlight t | None \<Rightarrow> ProbeFinally False]\<rparr>)
      in (the (cl_me c1), c1))"

text \<open>\<^verbatim>\<open>probeAuthMeAlive\<close>: only a 200 confirms the session.\<close>

definition probeAlive :: "js_error + response \<Rightarrow> bool" where
  "probeAlive ans = (case ans of Inl _ \<Rightarrow> False | Inr r \<Rightarrow> rs_status r = 200)"

definition needs_refresh :: "client \<Rightarrow> bool" where
  "needs_refresh c \<longleftrightarrow> bearer (cl_ts c) \<noteq> None \<and> isAccessTokenNearExpiry (cl_now c) (cl_ts c)"

definition transientError :: "js_error \<Rightarrow> js_error" where
  "transientError e = ApiResponseError 503 ''Session refresh temporarily unavailable. Please try again.''
     (Some ''refresh_transient'') (JStr (error_message e))"

subsection \<open>Steps\<close>

datatype action =
    ASpawn string "string option"
  | AProactive
  | ATimer
  | ASetToken "string option"
  | ATick nat
  | ARun nat
  | ARespond nat "js_error + response"
  | AAnswer nat "js_error + response"
  | ABackoff nat
  | AProbe nat "js_error + response"
  | AFinally nat

definition spawn :: "task_kind \<Rightarrow> string \<Rightarrow> string option \<Rightarrow> client \<Rightarrow> client" where
  "spawn k path auth c =
     c\<lparr>cl_tasks := cl_tasks c @ [\<lparr>tk_kind = k, tk_path = path, tk_auth = auth, tk_pc = PStart\<rparr>]\<rparr>"

text \<open>
  The synchronous continuation of task \<open>i\<close>: its start, or what follows an await whose
  promise has settled. A task whose promise is pending does not move.
\<close>

definition run_start :: "nat \<Rightarrow> client \<Rightarrow> client" where
  "run_start i c =
     (let t = cl_tasks c ! i in
      if tk_kind t = ApiCall \<and> isAuthEndpoint (tk_path t) then set_pc i PReady c
      else if \<not> needs_refresh c then
        set_pc i (if tk_kind t = ApiCall then PReady else PDone (Inr JUndef)) c
      else (let (p, c1) = join_refresh c in set_pc i (PPreflight p) c1))"

definition run_preflight :: "nat \<Rightarrow> nat \<Rightarrow> client \<Rightarrow> client" where
  "run_preflight i p c =
     (case cl_procs c ! p of
        Settled (Inl e) \<Rightarrow> set_pc i (PDone (Inl e)) (leave_refresh p c)
      | Settled (Inr _) \<Rightarrow>
          set_pc i (if tk_kind (cl_tasks c ! i) = ApiCall then PReady else PDone (Inr JUndef))
            (leave_refresh p c)
      | _ \<Rightarrow> c)"

definition run_ready :: "nat \<Rightarrow> client \<Rightarrow> client" where
  "run_ready i c =
     set_pc i PPrimary
       (case bearer (cl_ts c) of Some t \<Rightarrow> set_auth i (Some (''Bearer '' @ t)) c | None \<Rightarrow> c)"

definition run_refresh :: "nat \<Rightarrow> nat \<Rightarrow> response \<Rightarrow> client \<Rightarrow> client" where
  "run_refresh i p res c =
     (case cl_procs c ! p of
        Settled r \<Rightarrow>
          (let c1 = leave_refresh p c in
           case r of
             Inl e \<Rightarrow> set_pc i (PDone (Inl e)) c1
           | Inr (RefreshOk t) \<Rightarrow> set_pc i (PRetry (cl_now c)) (set_auth i (Some (''Bearer '' @ t)) c1)
           | Inr (RefreshTerminal _) \<Rightarrow> (let (m, c2) = join_probe c1 in set_pc i (PProbe m res) c2)
           | Inr (RefreshTransient e _) \<Rightarrow> set_pc i (PDone (Inl (transientError e))) c1)
      | _ \<Rightarrow> c)"

definition run_probe :: "nat \<Rightarrow> nat \<Rightarrow> response \<Rightarrow> client \<Rightarrow> client" where
  "run_probe i m res c =
     (case cl_probes c ! m of
        ProbeSettled alive \<Rightarrow>
          set_pc i (PDone (finishResponse res))
            (if \<not> alive \<and> ts_token (cl_ts c) \<noteq> None then emit Unauthenticated (set_token None c) else c)
      | _ \<Rightarrow> c)"

definition run_task :: "nat \<Rightarrow> client \<Rightarrow> client" where
  "run_task i c =
     (case tk_pc (cl_tasks c ! i) of
        PStart \<Rightarrow> run_start i c
      | PPreflight p \<Rightarrow> run_preflight i p c
      | PReady \<Rightarrow> run_ready i c
      | PRefresh p res \<Rightarrow> run_refresh i p res c
      | PProbe m res \<Rightarrow> run_probe i m res c
      | _ \<Rightarrow> c)"

text \<open>The network settles the primary request or the retry of task \<open>i\<close>.\<close>

definition respond :: "nat \<Rightarrow> js_error + response \<Rightarrow> client \<Rightarrow> client" where
  "respond i ans c =
     (let t = cl_tasks c ! i in
      case tk_pc t of
        PPrimary \<Rightarrow>
          (case ans of
             Inl e \<Rightarrow> set_pc i (PDone (Inl e)) c
           | Inr res \<Rightarrow>
               if rs_status res = 401 \<and> \<not> isCredCheck (tk_path t)
               then (let (p, c1) = join_refresh c in set_pc i (PRefresh p res) c1)
               else set_pc i (PDone (finishResponse res)) c)
      | PRetry started \<Rightarrow>
          (case ans of
             Inl e \<Rightarrow> set_pc i (PDone (Inl e)) c
           | Inr res \<Rightarrow> set_pc i (PDone (finishResponse res))
               (emit (RetryAfterRefresh (safePath (tk_path t)) (rs_status res) (rs_ok res) (cl_now c - started)) c))
      | _ \<Rightarrow> c)"

text \<open>
  One turn of the retry loop of \<^verbatim>\<open>refreshAccessToken\<close> after attempt \<open>n\<close>: back off, or
  settle the promise with the last result.
\<close>

definition after_attempt :: "nat \<Rightarrow> js_error + refresh_result \<Rightarrow> refresh_proc" where
  "after_attempt n r = (case r of
       Inl _ \<Rightarrow> Settled r
     | Inr res \<Rightarrow> if is_transient res \<and> n \<le> REFRESH_TRANSIENT_RETRIES
                  then BackingOff n (backoffDelay n) else Settled r)"

text \<open>The network settles the attempt in flight of refresh \<open>p\<close>.\<close>

definition answer_refresh :: "nat \<Rightarrow> js_error + response \<Rightarrow> client \<Rightarrow> client" where
  "answer_refresh p ans c =
     (case cl_procs c ! p of
        Attempting n started \<Rightarrow>
          (let (r, ts, evs) = refreshAccessTokenOnce (cl_window c) started (cl_now c) n ans (cl_ts c)
           in c\<lparr>cl_ts := ts, cl_events := cl_events c @ evs, cl_procs := (cl_procs c)[p := after_attempt n r]\<rparr>)
      | _ \<Rightarrow> c)"

definition backoff_done :: "nat \<Rightarrow> client \<Rightarrow> client" where
  "backoff_done p c =
     (case cl_procs c ! p of
        BackingOff n _ \<Rightarrow> c\<lparr>cl_procs := (cl_procs c)[p := Attempting (Suc n) (cl_now c)]\<rparr>
      | _ \<Rightarrow> c)"

definition answer_probe :: "nat \<Rightarrow> js_error + response \<Rightarrow> client \<Rightarrow> client" where
  "answer_probe m ans c =
     (case cl_probes c ! m of
        ProbeInFlight _ \<Rightarrow> c\<lparr>cl_probes := (cl_probes c)[m := ProbeFinally (probeAlive ans)]\<rparr>
      | _ \<Rightarrow> c)"

definition probe_finally :: "nat \<Rightarrow> client \<Rightarrow> client" where
  "probe_finally m c =
     (case cl_probes c ! m of
        ProbeFinally b \<Rightarrow> c\<lparr>cl_probes := (cl_probes c)[m := ProbeSettled b], cl_me := None\<rparr>
      | _ \<Rightarrow> c)"

definition fire_timer :: "client \<Rightarrow> client" where
  "fire_timer c =
     (case ts_timer (cl_ts c) of
        Some due \<Rightarrow>
          if due \<le> of_int (cl_now c)
          then spawn Proactive [] None (c\<lparr>cl_ts := (cl_ts c)\<lparr>ts_timer := None\<rparr>\<rparr>)
          else c
      | None \<Rightarrow> c)"

fun client_step :: "client \<Rightarrow> action \<Rightarrow> client" where
  "client_step c (ASpawn path auth) = spawn ApiCall path auth c"
| "client_step c AProactive = spawn Proactive [] None c"
| "client_step c ATimer = fire_timer c"
| "client_step c (ASetToken t) = set_token t c"
| "client_step c (ATick ms) = c\<lparr>cl_now := cl_now c + int ms\<rparr>"
| "client_step c (ARun i) = (if i < length (cl_tasks c) then run_task i c else c)"
| "client_step c (ARespond i ans) = (if i < length (cl_tasks c) then respond i ans c else c)"
| "client_step c (AAnswer p ans) = (if p < length (cl_procs c) then answer_refresh p ans c else c)"
| "client_step c (ABackoff p) = (if p < length (cl_procs c) then backoff_done p c else c)"
| "client_step c (AProbe m ans) = (if m < length (cl_probes c) then answer_probe m ans c else c)"
| "client_step c (AFinally m) = (if m < length (cl_probes c) then probe_finally m c else c)"

inductive reachable :: "bool \<Rightarrow> int \<Rightarrow> client \<Rightarrow> bool" for w t0 where
  start: "reachable w t0 (client_init w t0)"
| move: "reachable w t0 c \<Longrightarrow> reachable w t0 (client_step c a)"

end
