(* ===== verification/Api_Client_Inv.thy ===== *)
theory Api_Client_Inv
  imports Api_Client
begin

section \<open>Invariants of the API client\<close>

text \<open>
  What every reachable state of the transition system in \<open>Api_Client\<close> satisfies: the
  bookkeeping of the shared refresh promise (\<open>refresh_inv\<close>), of the shared \<^verbatim>\<open>/me\<close> probe
  (\<open>probe_inv\<close>), the shape of the refresh processes (\<open>procs_inv\<close>) and where a call may
  stand (\<open>tasks_inv\<close>). Each is kept by every step; the last part counts the work left,
  which every step of the network or of the scheduler decreases.
\<close>

subsection \<open>Updating one task\<close>

fun awaited_pc :: "pc \<Rightarrow> nat option" where
  "awaited_pc (PPreflight p) = Some p"
| "awaited_pc (PRefresh p _) = Some p"
| "awaited_pc _ = None"

fun probed_pc :: "pc \<Rightarrow> nat option" where
  "probed_pc (PProbe m _) = Some m"
| "probed_pc _ = None"

definition waits :: "task \<Rightarrow> bool" where
  "waits t = (awaited_pc (tk_pc t) \<noteq> None)"

fun is_settled :: "refresh_proc \<Rightarrow> bool" where
  "is_settled (Settled _) = True"
| "is_settled _ = False"

fun is_probe_settled :: "probe_proc \<Rightarrow> bool" where
  "is_probe_settled (ProbeSettled _) = True"
| "is_probe_settled _ = False"

lemma ball_update: "(\<forall>x \<in> set xs. P x) \<Longrightarrow> P y \<Longrightarrow> \<forall>x \<in> set (xs[i := y]). P x"
  using set_update_subset_insert by fastforce

lemma set_pc_sel [simp]:
  "cl_ts (set_pc i p c) = cl_ts c" "cl_refresh (set_pc i p c) = cl_refresh c"
  "cl_awaiters (set_pc i p c) = cl_awaiters c" "cl_procs (set_pc i p c) = cl_procs c"
  "cl_me (set_pc i p c) = cl_me c" "cl_probes (set_pc i p c) = cl_probes c"
  "cl_events (set_pc i p c) = cl_events c" "cl_now (set_pc i p c) = cl_now c"
  "cl_window (set_pc i p c) = cl_window c"
  "length (cl_tasks (set_pc i p c)) = length (cl_tasks c)"
  "cl_tasks (set_pc i p c) = (cl_tasks c)[i := (cl_tasks c ! i)\<lparr>tk_pc := p\<rparr>]"
  by (simp_all add: set_pc_def)

lemma set_auth_sel [simp]:
  "cl_ts (set_auth i p c) = cl_ts c" "cl_refresh (set_auth i p c) = cl_refresh c"
  "cl_awaiters (set_auth i p c) = cl_awaiters c" "cl_procs (set_auth i p c) = cl_procs c"
  "cl_me (set_auth i p c) = cl_me c" "cl_probes (set_auth i p c) = cl_probes c"
  "cl_events (set_auth i p c) = cl_events c" "cl_now (set_auth i p c) = cl_now c"
  "cl_window (set_auth i p c) = cl_window c"
  "cl_tasks (set_auth i a c) = (cl_tasks c)[i := (cl_tasks c ! i)\<lparr>tk_auth := a\<rparr>]"
  by (simp_all add: set_auth_def)

lemma emit_sel [simp]:
  "cl_ts (emit e c) = cl_ts c" "cl_refresh (emit e c) = cl_refresh c"
  "cl_awaiters (emit e c) = cl_awaiters c" "cl_procs (emit e c) = cl_procs c"
  "cl_me (emit e c) = cl_me c" "cl_probes (emit e c) = cl_probes c"
  "cl_tasks (emit e c) = cl_tasks c" "cl_now (emit e c) = cl_now c"
  "cl_window (emit e c) = cl_window c"
  by (simp_all add: emit_def)

lemma set_token_sel [simp]:
  "ts_token (cl_ts (set_token t c)) = t" "cl_refresh (set_token t c) = cl_refresh c"
  "cl_awaiters (set_token t c) = cl_awaiters c" "cl_procs (set_token t c) = cl_procs c"
  "cl_me (set_token t c) = cl_me c" "cl_probes (set_token t c) = cl_probes c"
  "cl_tasks (set_token t c) = cl_tasks c" "cl_now (set_token t c) = cl_now c"
  "cl_events (set_token t c) = cl_events c" "cl_window (set_token t c) = cl_window c"
  by (simp_all add: set_token_def)

lemma join_refresh_sel [simp]:
  "cl_ts (snd (join_refresh c)) = cl_ts c" "cl_me (snd (join_refresh c)) = cl_me c"
  "cl_probes (snd (join_refresh c)) = cl_probes c" "cl_tasks (snd (join_refresh c)) = cl_tasks c"
  "cl_events (snd (join_refresh c)) = cl_events c" "cl_now (snd (join_refresh c)) = cl_now c"
  "cl_window (snd (join_refresh c)) = cl_window c"
  "cl_awaiters (snd (join_refresh c)) = cl_awaiters c + 1"
  by (simp_all add: join_refresh_def Let_def split: option.splits)

lemma join_refresh_new:
  "cl_refresh c = None \<Longrightarrow> fst (join_refresh c) = length (cl_procs c)
     \<and> cl_refresh (snd (join_refresh c)) = Some (length (cl_procs c))
     \<and> cl_procs (snd (join_refresh c)) = cl_procs c @ [Attempting 1 (cl_now c)]"
  by (simp add: join_refresh_def)

lemma join_refresh_old:
  "cl_refresh c = Some p \<Longrightarrow> fst (join_refresh c) = p
     \<and> cl_refresh (snd (join_refresh c)) = Some p \<and> cl_procs (snd (join_refresh c)) = cl_procs c"
  by (simp add: join_refresh_def)

lemma leave_refresh_sel [simp]:
  "cl_ts (leave_refresh p c) = cl_ts c" "cl_procs (leave_refresh p c) = cl_procs c"
  "cl_me (leave_refresh p c) = cl_me c" "cl_probes (leave_refresh p c) = cl_probes c"
  "cl_tasks (leave_refresh p c) = cl_tasks c" "cl_events (leave_refresh p c) = cl_events c"
  "cl_now (leave_refresh p c) = cl_now c" "cl_window (leave_refresh p c) = cl_window c"
  "cl_awaiters (leave_refresh p c) = cl_awaiters c - 1"
  by (simp_all add: leave_refresh_def Let_def)

lemma join_probe_sel [simp]:
  "cl_ts (snd (join_probe c)) = cl_ts c" "cl_refresh (snd (join_probe c)) = cl_refresh c"
  "cl_awaiters (snd (join_probe c)) = cl_awaiters c" "cl_procs (snd (join_probe c)) = cl_procs c"
  "cl_tasks (snd (join_probe c)) = cl_tasks c" "cl_events (snd (join_probe c)) = cl_events c"
  "cl_now (snd (join_probe c)) = cl_now c" "cl_window (snd (join_probe c)) = cl_window c"
  by (simp_all add: join_probe_def Let_def split: option.splits)

subsection \<open>The shared refresh promise\<close>

definition refresh_inv :: "client \<Rightarrow> bool" where
  "refresh_inv c \<longleftrightarrow>
     cl_awaiters c = int (count_if waits (cl_tasks c))
   \<and> (\<forall>t \<in> set (cl_tasks c). \<forall>p. awaited_pc (tk_pc t) = Some p \<longrightarrow> cl_refresh c = Some p)
   \<and> (\<forall>p. cl_refresh c = Some p \<longrightarrow> p < length (cl_procs c) \<and> 0 < cl_awaiters c)
   \<and> (\<forall>p < length (cl_procs c). \<not> is_settled (cl_procs c ! p) \<longrightarrow> cl_refresh c = Some p)"

lemma refresh_invI:
  assumes "cl_awaiters c = int (count_if waits (cl_tasks c))"
    and "\<And>t p. t \<in> set (cl_tasks c) \<Longrightarrow> awaited_pc (tk_pc t) = Some p \<Longrightarrow> cl_refresh c = Some p"
    and "\<And>p. cl_refresh c = Some p \<Longrightarrow> p < length (cl_procs c)"
    and "\<And>p. cl_refresh c = Some p \<Longrightarrow> 0 < cl_awaiters c"
    and "\<And>p. p < length (cl_procs c) \<Longrightarrow> \<not> is_settled (cl_procs c ! p) \<Longrightarrow> cl_refresh c = Some p"
  shows "refresh_inv c"
  using assms unfolding refresh_inv_def by blast

lemma refresh_invD:
  assumes "refresh_inv c"
  shows "cl_awaiters c = int (count_if waits (cl_tasks c))"
    and "t \<in> set (cl_tasks c) \<Longrightarrow> awaited_pc (tk_pc t) = Some p \<Longrightarrow> cl_refresh c = Some p"
    and "cl_refresh c = Some p \<Longrightarrow> p < length (cl_procs c)"
    and "cl_refresh c = Some p \<Longrightarrow> 0 < cl_awaiters c"
    and "p < length (cl_procs c) \<Longrightarrow> \<not> is_settled (cl_procs c ! p) \<Longrightarrow> cl_refresh c = Some p"
  using assms unfolding refresh_inv_def by blast+

lemma refresh_inv_same:
  "cl_awaiters c' = cl_awaiters c \<Longrightarrow> cl_tasks c' = cl_tasks c \<Longrightarrow> cl_refresh c' = cl_refresh c
     \<Longrightarrow> cl_procs c' = cl_procs c \<Longrightarrow> refresh_inv c' = refresh_inv c"
  by (simp add: refresh_inv_def)

text \<open>The number of waiting tasks after one task moved.\<close>

lemma waits_pc: "waits (t\<lparr>tk_pc := p\<rparr>) = (awaited_pc p \<noteq> None)"
  by (simp add: waits_def)

lemma count_waits_pc:
  assumes "i < length ts"
  shows "count_if waits (ts[i := (ts ! i)\<lparr>tk_pc := p\<rparr>]) + (if waits (ts ! i) then 1 else 0)
    = count_if waits ts + (if awaited_pc p \<noteq> None then 1 else 0)"
  using count_if_update [OF assms, of waits "(ts ! i)\<lparr>tk_pc := p\<rparr>"] by (simp only: waits_pc)

lemma set_updateD: "x \<in> set (xs[i := y]) \<Longrightarrow> x = y \<or> x \<in> set xs"
  using set_update_subset_insert by fastforce

lemma refresh_inv_pc:
  assumes inv: "refresh_inv c" and i: "i < length (cl_tasks c)"
    and old: "awaited_pc (tk_pc (cl_tasks c ! i)) = None" and new: "awaited_pc p = None"
  shows "refresh_inv (set_pc i p c)"
proof (rule refresh_invI)
  show "cl_awaiters (set_pc i p c) = int (count_if waits (cl_tasks (set_pc i p c)))"
    using count_waits_pc [OF i, of p] old new refresh_invD(1) [OF inv] by (simp add: waits_def)
  show "cl_refresh (set_pc i p c) = Some q"
    if "t \<in> set (cl_tasks (set_pc i p c))" "awaited_pc (tk_pc t) = Some q" for t q
    using that new refresh_invD(2) [OF inv, of t q] by (auto dest!: set_updateD)
qed (simp_all, (erule (1) refresh_invD(3-5) [OF inv] | erule refresh_invD(3-5) [OF inv])+)

lemma refresh_inv_auth:
  assumes inv: "refresh_inv c" and i: "i < length (cl_tasks c)"
  shows "refresh_inv (set_auth i a c)"
proof (rule refresh_invI)
  show "cl_awaiters (set_auth i a c) = int (count_if waits (cl_tasks (set_auth i a c)))"
    using count_if_update [OF i, of waits "(cl_tasks c ! i)\<lparr>tk_auth := a\<rparr>"] refresh_invD(1) [OF inv]
    by (simp add: waits_def split: if_splits)
  show "cl_refresh (set_auth i a c) = Some p"
    if "t \<in> set (cl_tasks (set_auth i a c))" "awaited_pc (tk_pc t) = Some p" for t p
    using that i refresh_invD(2) [OF inv, of "cl_tasks c ! i" p] refresh_invD(2) [OF inv, of t p]
    by (auto dest!: set_updateD)
qed (simp_all, (erule (1) refresh_invD(3-5) [OF inv] | erule refresh_invD(3-5) [OF inv])+)

lemma refresh_inv_join:
  assumes inv: "refresh_inv c" and i: "i < length (cl_tasks c)"
    and old: "awaited_pc (tk_pc (cl_tasks c ! i)) = None"
    and new: "awaited_pc pc = Some (fst (join_refresh c))"
  shows "refresh_inv (set_pc i pc (snd (join_refresh c)))" (is "refresh_inv ?c")
proof (rule refresh_invI)
  show "cl_awaiters ?c = int (count_if waits (cl_tasks ?c))"
    using count_waits_pc [OF i, of pc] old new refresh_invD(1) [OF inv] by (simp add: waits_def)
  show "0 < cl_awaiters ?c" using refresh_invD(1) [OF inv] by simp
  have cur: "cl_refresh ?c = Some (fst (join_refresh c))"
    using join_refresh_new [of c] join_refresh_old [of c] by (cases "cl_refresh c") auto
  show "cl_refresh ?c = Some p" if "t \<in> set (cl_tasks ?c)" "awaited_pc (tk_pc t) = Some p" for t p
  proof -
    from that consider "t = (cl_tasks c ! i)\<lparr>tk_pc := pc\<rparr>" | "t \<in> set (cl_tasks c)"
      by (auto dest!: set_updateD)
    then show ?thesis
    proof cases
      case 1
      with that new cur show ?thesis by simp
    next
      case 2
      then have "cl_refresh c = Some p" by (rule refresh_invD(2) [OF inv]) (rule that(2))
      then show ?thesis using join_refresh_old [of c p] by simp
    qed
  qed
  show "p < length (cl_procs ?c)" if "cl_refresh ?c = Some p" for p
    using that cur join_refresh_new [of c] join_refresh_old [of c] refresh_invD(3) [OF inv]
    by (cases "cl_refresh c") auto
  show "cl_refresh ?c = Some p" if "p < length (cl_procs ?c)" "\<not> is_settled (cl_procs ?c ! p)" for p
    using that join_refresh_new [of c] join_refresh_old [of c] refresh_invD(5) [OF inv, of p]
    by (cases "cl_refresh c") (auto simp: nth_append less_Suc_eq split: if_splits)
qed

lemma refresh_inv_leave:
  assumes inv: "refresh_inv c" and i: "i < length (cl_tasks c)"
    and old: "awaited_pc (tk_pc (cl_tasks c ! i)) = Some p"
    and settled: "is_settled (cl_procs c ! p)"
    and new: "awaited_pc pc = None"
  shows "refresh_inv (set_pc i pc (leave_refresh p c))" (is "refresh_inv ?c")
proof (rule refresh_invI)
  have cur: "cl_refresh c = Some p"
    using refresh_invD(2) [OF inv nth_mem [OF i] old] .
  have ref: "cl_refresh ?c = (if cl_awaiters c = 1 then None else Some p)"
    using cur by (simp add: leave_refresh_def Let_def)
  show count: "cl_awaiters ?c = int (count_if waits (cl_tasks ?c))"
    using count_waits_pc [OF i, of pc] old new refresh_invD(1) [OF inv] by (simp add: waits_def)
  show "cl_refresh ?c = Some q" if t: "t \<in> set (cl_tasks ?c)" "awaited_pc (tk_pc t) = Some q" for t q
  proof -
    have "cl_awaiters ?c \<noteq> 0"
      using count t count_if_zero [of waits "cl_tasks ?c"] by (auto simp: waits_def)
    moreover have "t \<in> set (cl_tasks c)" using t new by (auto dest!: set_updateD)
    ultimately show ?thesis using refresh_invD(2) [OF inv _ t(2)] ref cur by simp
  qed
  show "0 < cl_awaiters ?c" if "cl_refresh ?c = Some q" for q
    using that ref refresh_invD(4) [OF inv cur] by (simp split: if_splits)
  show "q < length (cl_procs ?c)" if "cl_refresh ?c = Some q" for q
    using that ref refresh_invD(3) [OF inv cur] by (simp split: if_splits)
  show "cl_refresh ?c = Some q" if "q < length (cl_procs ?c)" "\<not> is_settled (cl_procs ?c ! q)" for q
    using that settled refresh_invD(5) [OF inv, of q] cur by auto
qed

lemma refresh_inv_spawn: "refresh_inv c \<Longrightarrow> refresh_inv (spawn k path a c)"
  by (rule refresh_invI, auto simp: spawn_def waits_def dest: refresh_invD)

lemma refresh_inv_proc:
  assumes inv: "refresh_inv c" and p: "p < length (cl_procs c)" and "\<not> is_settled (cl_procs c ! p)"
    and c': "cl_awaiters c' = cl_awaiters c" "cl_tasks c' = cl_tasks c" "cl_refresh c' = cl_refresh c"
      "cl_procs c' = (cl_procs c)[p := r]"
  shows "refresh_inv c'"
proof (rule refresh_invI)
  have cur: "cl_refresh c = Some p" using assms refresh_invD(5) [OF inv] by blast
  show "cl_refresh c' = Some q" if "q < length (cl_procs c')" "\<not> is_settled (cl_procs c' ! q)" for q
    using that cur c' refresh_invD(5) [OF inv, of q] by (cases "q = p") auto
  show "cl_awaiters c' = int (count_if waits (cl_tasks c'))"
    using c' refresh_invD(1) [OF inv] by simp
qed (unfold c', (erule (1) refresh_invD(2-4) [OF inv] | simp, erule refresh_invD(3) [OF inv]
      | erule refresh_invD(4) [OF inv])+)

lemma set_pc_auth:
  "i < length (cl_tasks c) \<Longrightarrow> set_pc i pc (set_auth i a c) = set_auth i a (set_pc i pc c)"
  by (cases "cl_tasks c ! i") (simp add: set_pc_def set_auth_def)

lemma refresh_inv_run_start:
  assumes "refresh_inv c" "i < length (cl_tasks c)" "tk_pc (cl_tasks c ! i) = PStart"
  shows "refresh_inv (run_start i c)"
  using assms refresh_inv_join [of c i "PPreflight (fst (join_refresh c))"]
  by (simp add: run_start_def Let_def refresh_inv_pc split_beta)

lemma refresh_inv_run_preflight:
  assumes "refresh_inv c" "i < length (cl_tasks c)" "tk_pc (cl_tasks c ! i) = PPreflight p"
  shows "refresh_inv (run_preflight i p c)"
  using assms by (simp add: run_preflight_def refresh_inv_leave split: refresh_proc.split sum.split)

lemma refresh_inv_run_ready:
  assumes "refresh_inv c" "i < length (cl_tasks c)" "tk_pc (cl_tasks c ! i) = PReady"
  shows "refresh_inv (run_ready i c)"
  using assms by (simp add: run_ready_def set_pc_auth refresh_inv_auth refresh_inv_pc split: option.split)

lemma refresh_inv_run_refresh:
  assumes "refresh_inv c" "i < length (cl_tasks c)" "tk_pc (cl_tasks c ! i) = PRefresh p res"
  shows "refresh_inv (run_refresh i p res c)"
proof (cases "cl_procs c ! p")
  case (Settled r)
  have leave: "refresh_inv (set_pc i pc (leave_refresh p c))" if "awaited_pc pc = None" for pc
    by (rule refresh_inv_leave) (use assms Settled that in auto)
  have probe: "refresh_inv (set_pc i (PProbe m res) (snd (join_probe (leave_refresh p c))))" for m
    using leave [of "PProbe m res"] by (rule refresh_inv_same [THEN iffD2, rotated -1])
      (simp_all add: set_pc_def)
  show ?thesis using assms(2) Settled leave probe
    by (simp add: run_refresh_def Let_def set_pc_auth refresh_inv_auth split_beta
        split: sum.split refresh_result.split)
qed (use assms in \<open>simp_all add: run_refresh_def\<close>)

lemma refresh_inv_run_probe:
  assumes "refresh_inv c" "i < length (cl_tasks c)" "tk_pc (cl_tasks c ! i) = PProbe m res"
  shows "refresh_inv (run_probe i m res c)"
proof -
  have "refresh_inv (emit e (set_token t c))" for e t
    using assms(1) by (subst refresh_inv_same [of _ c]) simp_all
  with assms show ?thesis
    by (simp add: run_probe_def refresh_inv_pc split: probe_proc.split)
qed

lemma refresh_inv_respond:
  assumes "refresh_inv c" "i < length (cl_tasks c)"
  shows "refresh_inv (respond i ans c)"
proof -
  have "refresh_inv (emit e c)" for e
    using assms(1) by (subst refresh_inv_same [of _ c]) simp_all
  with assms refresh_inv_join [of c i "PRefresh (fst (join_refresh c)) _"] show ?thesis
    by (simp add: respond_def Let_def refresh_inv_pc split_beta split: pc.split sum.split)
qed

lemma refresh_inv_upd [simp]:
  "refresh_inv (cl_ts_update f c) = refresh_inv c" "refresh_inv (cl_probes_update g c) = refresh_inv c"
  "refresh_inv (cl_me_update h c) = refresh_inv c" "refresh_inv (cl_now_update k c) = refresh_inv c"
  "refresh_inv (set_token t c) = refresh_inv c"
  by (rule refresh_inv_same, simp_all)+

lemma refresh_inv_run_task:
  "refresh_inv c \<Longrightarrow> i < length (cl_tasks c) \<Longrightarrow> refresh_inv (run_task i c)"
  by (simp add: run_task_def refresh_inv_run_start refresh_inv_run_preflight refresh_inv_run_ready
      refresh_inv_run_refresh refresh_inv_run_probe split: pc.split)

lemma refresh_inv_answer_refresh:
  assumes "refresh_inv c" "p < length (cl_procs c)"
  shows "refresh_inv (answer_refresh p ans c)"
proof (cases "cl_procs c ! p")
  case (Attempting n st)
  show ?thesis
    by (rule refresh_inv_proc [OF assms]) (use Attempting in \<open>simp_all add: answer_refresh_def split_beta\<close>)
qed (use assms in \<open>simp_all add: answer_refresh_def\<close>)

lemma refresh_inv_backoff_done:
  assumes "refresh_inv c" "p < length (cl_procs c)"
  shows "refresh_inv (backoff_done p c)"
proof (cases "cl_procs c ! p")
  case (BackingOff n d)
  show ?thesis
    by (rule refresh_inv_proc [OF assms]) (use BackingOff in \<open>simp_all add: backoff_done_def\<close>)
qed (use assms in \<open>simp_all add: backoff_done_def\<close>)

lemma refresh_inv_step: "refresh_inv c \<Longrightarrow> refresh_inv (client_step c a)"
  by (cases a) (simp_all add: refresh_inv_spawn refresh_inv_respond refresh_inv_run_task fire_timer_def
      refresh_inv_answer_refresh refresh_inv_backoff_done answer_probe_def probe_finally_def
      split: probe_proc.split option.split)

subsection \<open>The shared probe\<close>

definition probe_inv :: "client \<Rightarrow> bool" where
  "probe_inv c \<longleftrightarrow>
     (\<forall>t \<in> set (cl_tasks c). \<forall>m. probed_pc (tk_pc t) = Some m \<longrightarrow> m < length (cl_probes c))
   \<and> (\<forall>m. cl_me c = Some m \<longleftrightarrow> m < length (cl_probes c) \<and> \<not> is_probe_settled (cl_probes c ! m))"

lemma probe_invI:
  assumes "\<And>t m. t \<in> set (cl_tasks c) \<Longrightarrow> probed_pc (tk_pc t) = Some m \<Longrightarrow> m < length (cl_probes c)"
    and "\<And>m. cl_me c = Some m \<longleftrightarrow> m < length (cl_probes c) \<and> \<not> is_probe_settled (cl_probes c ! m)"
  shows "probe_inv c"
  using assms unfolding probe_inv_def by blast

lemma probe_invD:
  assumes "probe_inv c"
  shows "t \<in> set (cl_tasks c) \<Longrightarrow> probed_pc (tk_pc t) = Some m \<Longrightarrow> m < length (cl_probes c)"
    and "cl_me c = Some m \<longleftrightarrow> m < length (cl_probes c) \<and> \<not> is_probe_settled (cl_probes c ! m)"
  using assms unfolding probe_inv_def by blast+

lemma probe_inv_tasks:
  assumes "probe_inv c" "cl_me c' = cl_me c" "cl_probes c' = cl_probes c"
    and "\<And>t m. t \<in> set (cl_tasks c') \<Longrightarrow> probed_pc (tk_pc t) = Some m \<Longrightarrow>
        t \<in> set (cl_tasks c) \<or> m < length (cl_probes c) \<or> (\<exists>t' \<in> set (cl_tasks c). tk_pc t' = tk_pc t)"
  shows "probe_inv c'"
proof (rule probe_invI)
  show "m < length (cl_probes c')" if "t \<in> set (cl_tasks c')" "probed_pc (tk_pc t) = Some m" for t m
    using assms(4) [OF that] probe_invD(1) [OF assms(1)] that(2) assms(3) by auto
qed (use assms(2,3) probe_invD(2) [OF assms(1)] in simp)

lemma probe_inv_upd [simp]:
  "probe_inv (cl_ts_update f c) = probe_inv c" "probe_inv (cl_procs_update g c) = probe_inv c"
  "probe_inv (cl_events_update h c) = probe_inv c" "probe_inv (cl_now_update k c) = probe_inv c"
  "probe_inv (set_token t c) = probe_inv c" "probe_inv (emit e c) = probe_inv c"
  "probe_inv (leave_refresh p c) = probe_inv c" "probe_inv (snd (join_refresh c)) = probe_inv c"
  unfolding probe_inv_def by simp_all

lemma probe_inv_spawn: "probe_inv c \<Longrightarrow> probe_inv (spawn k path a c)"
  by (erule probe_inv_tasks) (auto simp: spawn_def)

lemma probe_inv_pc: "probe_inv c \<Longrightarrow> probed_pc p = None \<Longrightarrow> probe_inv (set_pc i p c)"
  by (erule probe_inv_tasks) (auto dest!: set_updateD)

lemma probe_inv_auth:
  "probe_inv c \<Longrightarrow> i < length (cl_tasks c) \<Longrightarrow> probe_inv (set_auth i a c)"
  by (erule probe_inv_tasks) (auto dest!: set_updateD intro: bexI [of _ "cl_tasks c ! i"])

lemma probe_inv_join:
  assumes inv: "probe_inv c"
  shows "probe_inv (set_pc i (PProbe (fst (join_probe c)) res) (snd (join_probe c)))"
proof (cases "cl_me c")
  case None
  then have "\<forall>m < length (cl_probes c). is_probe_settled (cl_probes c ! m)"
    using probe_invD(2) [OF inv] by auto
  with None show ?thesis
    by (intro probe_invI) (auto simp: join_probe_def nth_append less_Suc_eq dest!: set_updateD
        dest: probe_invD(1) [OF inv] split: option.splits)
next
  case (Some m)
  then have "join_probe c = (m, c)" by (simp add: join_probe_def)
  moreover have "m < length (cl_probes c)" using probe_invD(2) [OF inv] Some by blast
  ultimately show ?thesis
    by (intro probe_inv_tasks [OF inv]) (auto dest!: set_updateD)
qed

lemma probe_inv_answer:
  assumes inv: "probe_inv c" and m: "m < length (cl_probes c)"
  shows "probe_inv (answer_probe m ans c)"
proof (cases "cl_probes c ! m")
  case (ProbeInFlight t)
  show ?thesis
  proof (rule probe_invI)
    show "cl_me (answer_probe m ans c) = Some k \<longleftrightarrow> k < length (cl_probes (answer_probe m ans c))
        \<and> \<not> is_probe_settled (cl_probes (answer_probe m ans c) ! k)" for k
      using ProbeInFlight m probe_invD(2) [OF inv, of k]
      by (auto simp: answer_probe_def nth_list_update)
  qed (use ProbeInFlight probe_invD(1) [OF inv] in \<open>auto simp: answer_probe_def\<close>)
qed (use inv in \<open>simp_all add: answer_probe_def\<close>)

lemma probe_inv_finally:
  assumes inv: "probe_inv c" and m: "m < length (cl_probes c)"
  shows "probe_inv (probe_finally m c)"
proof (cases "cl_probes c ! m")
  case (ProbeFinally b)
  then have me: "cl_me c = Some m" using probe_invD(2) [OF inv] m by simp
  show ?thesis
  proof (rule probe_invI)
    show "cl_me (probe_finally m c) = Some k \<longleftrightarrow> k < length (cl_probes (probe_finally m c))
        \<and> \<not> is_probe_settled (cl_probes (probe_finally m c) ! k)" for k
      using ProbeFinally m me probe_invD(2) [OF inv, of k]
      by (auto simp: probe_finally_def nth_list_update)
  qed (use ProbeFinally probe_invD(1) [OF inv] in \<open>auto simp: probe_finally_def\<close>)
qed (use inv in \<open>simp_all add: probe_finally_def\<close>)

lemma probe_inv_run_task:
  assumes "probe_inv c" "i < length (cl_tasks c)"
  shows "probe_inv (run_task i c)"
  using assms probe_inv_join [of "leave_refresh _ c"]
  by (simp add: run_task_def run_start_def run_preflight_def run_ready_def run_refresh_def run_probe_def
      Let_def split_beta probe_inv_pc probe_inv_auth
      split: pc.split option.split refresh_proc.split probe_proc.split sum.split refresh_result.split)

lemma probe_inv_step: "probe_inv c \<Longrightarrow> probe_inv (client_step c a)"
  by (cases a) (simp_all add: probe_inv_spawn probe_inv_run_task probe_inv_answer probe_inv_finally
      fire_timer_def respond_def Let_def split_beta probe_inv_pc answer_refresh_def backoff_done_def
      split: option.split pc.split sum.split refresh_proc.split)

subsection \<open>Refresh processes and the places a call may stand\<close>

fun proc_ok :: "refresh_proc \<Rightarrow> bool" where
  "proc_ok (Attempting n _) = (1 \<le> n \<and> n \<le> 1 + REFRESH_TRANSIENT_RETRIES)"
| "proc_ok (BackingOff n d) = (1 \<le> n \<and> n \<le> REFRESH_TRANSIENT_RETRIES \<and> d = backoffDelay n)"
| "proc_ok (Settled (Inr (RefreshOk t))) = (t \<noteq> [])"
| "proc_ok (Settled _) = True"

fun task_ok :: "task_kind \<Rightarrow> string \<Rightarrow> string option \<Rightarrow> pc \<Rightarrow> bool" where
  "task_ok k path a PStart = True"
| "task_ok k path a (PPreflight p) = (k = ApiCall \<longrightarrow> \<not> isAuthEndpoint path)"
| "task_ok k path a PReady = (k = ApiCall)"
| "task_ok k path a PPrimary = (k = ApiCall)"
| "task_ok k path a (PRefresh p res) = (k = ApiCall \<and> rs_status res = 401 \<and> \<not> isCredCheck path)"
| "task_ok k path a (PRetry s) = (k = ApiCall \<and> \<not> isCredCheck path \<and> (\<exists>t. t \<noteq> [] \<and> a = Some (''Bearer '' @ t)))"
| "task_ok k path a (PProbe m res) = (k = ApiCall \<and> rs_status res = 401 \<and> \<not> isCredCheck path)"
| "task_ok k path a (PDone r) = True"

definition task_good :: "task \<Rightarrow> bool" where
  "task_good t = task_ok (tk_kind t) (tk_path t) (tk_auth t) (tk_pc t)"

definition flow_inv :: "client \<Rightarrow> bool" where
  "flow_inv c \<longleftrightarrow> (\<forall>r \<in> set (cl_procs c). proc_ok r) \<and> (\<forall>t \<in> set (cl_tasks c). task_good t)"

lemma flow_inv_upd [simp]:
  "flow_inv (cl_ts_update f c) = flow_inv c" "flow_inv (cl_probes_update g c) = flow_inv c"
  "flow_inv (cl_events_update h c) = flow_inv c" "flow_inv (cl_now_update k c) = flow_inv c"
  "flow_inv (cl_me_update l c) = flow_inv c"
  "flow_inv (set_token t c) = flow_inv c" "flow_inv (emit e c) = flow_inv c"
  "flow_inv (leave_refresh p c) = flow_inv c"
  unfolding flow_inv_def by simp_all

lemma flow_inv_join [simp]:
  "flow_inv (snd (join_refresh c)) = flow_inv c" "flow_inv (snd (join_probe c)) = flow_inv c"
  by (auto simp: flow_inv_def join_refresh_def join_probe_def REFRESH_TRANSIENT_RETRIES_def Let_def
      split: option.split)

lemma flow_inv_spawn: "flow_inv c \<Longrightarrow> flow_inv (spawn k path a c)"
  by (simp add: flow_inv_def spawn_def task_good_def)

lemma flow_inv_pc:
  "flow_inv c \<Longrightarrow> task_ok (tk_kind (cl_tasks c ! i)) (tk_path (cl_tasks c ! i)) (tk_auth (cl_tasks c ! i)) p
     \<Longrightarrow> flow_inv (set_pc i p c)"
  by (auto simp: flow_inv_def task_good_def dest!: set_updateD)

lemma flow_inv_pc_auth:
  assumes "flow_inv c" "i < length (cl_tasks c)"
    and "task_ok (tk_kind (cl_tasks c ! i)) (tk_path (cl_tasks c ! i)) a p"
  shows "flow_inv (set_pc i p (set_auth i a c))"
  using assms by (auto simp: flow_inv_def task_good_def dest!: set_updateD)

lemma flow_inv_task:
  "flow_inv c \<Longrightarrow> i < length (cl_tasks c) \<Longrightarrow> tk_pc (cl_tasks c ! i) = p \<Longrightarrow>
     task_ok (tk_kind (cl_tasks c ! i)) (tk_path (cl_tasks c ! i)) (tk_auth (cl_tasks c ! i)) p"
  unfolding flow_inv_def task_good_def by auto

lemma flow_inv_proc: "flow_inv c \<Longrightarrow> p < length (cl_procs c) \<Longrightarrow> proc_ok (cl_procs c ! p)"
  by (simp add: flow_inv_def)

lemma flow_inv_run_start:
  assumes "flow_inv c" "i < length (cl_tasks c)"
  shows "flow_inv (run_start i c)"
  using assms by (simp add: run_start_def Let_def split_beta flow_inv_pc)

lemma flow_inv_run_preflight:
  assumes "flow_inv c" "i < length (cl_tasks c)"
  shows "flow_inv (run_preflight i p c)"
  using assms by (simp add: run_preflight_def flow_inv_pc split: refresh_proc.split sum.split)

lemma flow_inv_run_ready:
  assumes "flow_inv c" "i < length (cl_tasks c)" "tk_pc (cl_tasks c ! i) = PReady"
  shows "flow_inv (run_ready i c)"
  using assms flow_inv_task [OF assms]
  by (simp add: run_ready_def flow_inv_pc flow_inv_pc_auth split: option.split)

lemma flow_inv_run_refresh:
  assumes "flow_inv c" "i < length (cl_tasks c)" "tk_pc (cl_tasks c ! i) = PRefresh p res"
    and "p < length (cl_procs c)"
  shows "flow_inv (run_refresh i p res c)"
  using assms flow_inv_task [OF assms(1-3)] flow_inv_proc [OF assms(1,4)]
  by (auto simp: run_refresh_def Let_def split_beta flow_inv_pc flow_inv_pc_auth
      split: refresh_proc.split sum.split refresh_result.split)

lemma flow_inv_run_probe:
  assumes "flow_inv c" "i < length (cl_tasks c)"
  shows "flow_inv (run_probe i m res c)"
  using assms by (simp add: run_probe_def flow_inv_pc split: probe_proc.split)

lemma flow_inv_respond:
  assumes "flow_inv c" "i < length (cl_tasks c)"
  shows "flow_inv (respond i ans c)"
  using assms flow_inv_task [OF assms]
  by (auto simp: respond_def Let_def split_beta flow_inv_pc split: pc.split sum.split)

lemma classify_ok_nonempty: "classifyRefresh ans = Inr (RefreshOk t) \<Longrightarrow> t \<noteq> []"
  by (auto simp: classify_ok_iff)

lemma proc_ok_after_attempt:
  "1 \<le> n \<Longrightarrow> proc_ok (after_attempt n (classifyRefresh ans))"
  by (auto simp: after_attempt_def is_transient_def dest: classify_ok_nonempty
      split: sum.split refresh_result.split)

lemma refreshOnce_result [simp]:
  "fst (refreshAccessTokenOnce w a b m ans ts) = classifyRefresh ans"
  by (simp add: refreshAccessTokenOnce_def split: sum.split)

lemma flow_inv_proc_upd:
  "flow_inv c \<Longrightarrow> proc_ok r \<Longrightarrow> flow_inv (c\<lparr>cl_procs := (cl_procs c)[p := r]\<rparr>)"
  by (auto simp: flow_inv_def dest!: set_updateD)

lemma flow_inv_answer_refresh:
  assumes "flow_inv c" "p < length (cl_procs c)"
  shows "flow_inv (answer_refresh p ans c)"
proof (cases "cl_procs c ! p")
  case (Attempting n st)
  have "proc_ok (after_attempt n (classifyRefresh ans))"
    using flow_inv_proc [OF assms] Attempting by (simp add: proc_ok_after_attempt)
  then have "flow_inv (c\<lparr>cl_ts := ts, cl_events := evs,
      cl_procs := (cl_procs c)[p := after_attempt n (classifyRefresh ans)]\<rparr>)" for ts evs
    using assms(1) by (auto simp: flow_inv_def dest!: set_updateD)
  then show ?thesis using Attempting by (simp add: answer_refresh_def split_beta)
qed (use assms in \<open>simp_all add: answer_refresh_def\<close>)

lemma flow_inv_backoff_done:
  assumes "flow_inv c" "p < length (cl_procs c)"
  shows "flow_inv (backoff_done p c)"
  using assms flow_inv_proc [OF assms]
  by (auto simp: backoff_done_def flow_inv_proc_upd split: refresh_proc.split)

subsection \<open>The invariant\<close>

definition client_inv :: "client \<Rightarrow> bool" where
  "client_inv c \<longleftrightarrow> refresh_inv c \<and> probe_inv c \<and> flow_inv c"

lemma flow_inv_step:
  assumes "refresh_inv c" "flow_inv c"
  shows "flow_inv (client_step c a)"
proof (cases a)
  case (ARun i)
  show ?thesis
  proof (cases "i < length (cl_tasks c)")
    case i: True
    have "p < length (cl_procs c)" if "tk_pc (cl_tasks c ! i) = PRefresh p res" for p res
      using refresh_invD(2,3) [OF assms(1)] nth_mem [OF i] that by auto
    with assms i ARun show ?thesis
      by (simp add: run_task_def flow_inv_run_start flow_inv_run_preflight flow_inv_run_ready
          flow_inv_run_refresh flow_inv_run_probe split: pc.split)
  qed (use ARun assms in simp)
qed (use assms in \<open>simp_all add: flow_inv_spawn flow_inv_respond fire_timer_def flow_inv_answer_refresh
      flow_inv_backoff_done answer_probe_def probe_finally_def split: option.split probe_proc.split\<close>)

lemma client_inv_init: "client_inv (client_init w t0)"
  by (simp add: client_inv_def client_init_def refresh_inv_def probe_inv_def flow_inv_def)

lemma client_inv_step: "client_inv c \<Longrightarrow> client_inv (client_step c a)"
  by (simp add: client_inv_def refresh_inv_step probe_inv_step flow_inv_step)

interpretation api: step_machine client_step client_inv
  by unfold_locales (rule client_inv_step)

lemma reachable_inv: "reachable w t0 c \<Longrightarrow> client_inv c"
  by (induction rule: reachable.induct) (rule client_inv_init, rule client_inv_step)

lemma reachable_run: "reachable w t0 (run client_step (client_init w t0) es)"
proof (induction es rule: rev_induct)
  case Nil
  show ?case by (simp add: reachable.start)
next
  case (snoc e es)
  then show ?case by (simp add: run_append reachable.move)
qed

end
