(* ===== verification/Api_Props.thy ===== *)
theory Api_Props
  imports Api_Client_Inv
begin

section \<open>What the API client guarantees\<close>

text \<open>
  The properties of \<open>lib/api.ts\<close>, over every interleaving of calls, timers and network
  answers: single flight, exact awaiter accounting, one logout event per session, no
  logout on transient failures, bounded progress, and the retry loop as a function of
  the network's answers. The auxiliary lemmas count events and remaining work.
\<close>

subsection \<open>Single flight\<close>

lemma count_if_at_most_one:
  "\<forall>p < length xs. P (xs ! p) \<longrightarrow> k = Some p \<Longrightarrow> count_if P xs \<le> 1"
proof (induction xs rule: rev_induct)
  case Nil
  then show ?case by simp
next
  case (snoc x xs)
  show ?case
  proof (cases "P x")
    case True
    then have k: "k = Some (length xs)" using snoc.prems by auto
    have "\<not> P (xs ! p)" if "p < length xs" for p
      using snoc.prems k that by (metis length_append_singleton less_Suc_eq nat_neq_iff nth_append option.inject)
    then have "count_if P xs = 0" by (auto simp: count_if_zero in_set_conv_nth)
    with True show ?thesis by simp
  next
    case False
    have "\<forall>p < length xs. P (xs ! p) \<longrightarrow> k = Some p"
      using snoc.prems by (metis length_append_singleton less_SucI nth_append)
    with False snoc.IH show ?thesis by simp
  qed
qed

text \<open>C1: however the calls interleave, at most one refresh of the access token is under
  way (attempting or backing off), and at most one \<^verbatim>\<open>/auth/me\<close> probe.\<close>

theorem refresh_singleflight:
  "reachable w t0 c \<Longrightarrow>
     count_if (\<lambda>r. \<not> is_settled r) (cl_procs c) \<le> 1
   \<and> count_if (\<lambda>m. \<not> is_probe_settled m) (cl_probes c) \<le> 1"
proof -
  assume "reachable w t0 c"
  then have r: "refresh_inv c" and p: "probe_inv c"
    using reachable_inv by (auto simp: client_inv_def)
  have "count_if (\<lambda>r. \<not> is_settled r) (cl_procs c) \<le> 1"
    by (rule count_if_at_most_one [of _ _ "cl_refresh c"]) (use refresh_invD(5) [OF r] in blast)
  moreover have "count_if (\<lambda>m. \<not> is_probe_settled m) (cl_probes c) \<le> 1"
    by (rule count_if_at_most_one [of _ _ "cl_me c"]) (use probe_invD(2) [OF p] in blast)
  ultimately show ?thesis ..
qed

definition demo_401 :: response where
  "demo_401 = \<lparr>rs_status = 401, rs_status_text = ''Unauthorized'', rs_json = Inr (JObj [])\<rparr>"

definition demo_two :: "action list" where
  "demo_two = [ASpawn ''/api/v1/a'' None, ASpawn ''/api/v1/b'' None, ARun 0, ARun 0, ARun 1, ARun 1,
     ARespond 0 (Inr demo_401), ARespond 1 (Inr demo_401)]"

lemmas client_eval = client_init_def spawn_def run_task_def run_start_def run_ready_def run_preflight_def
  run_refresh_def run_probe_def respond_def join_refresh_def leave_refresh_def join_probe_def
  set_pc_def set_auth_def set_token_def emit_def needs_refresh_def isAuthEndpoint_def isCredCheck_def
  token_init_def bearer_def js_starts_with_def

lemma refresh_singleflight_witness:
  "length (cl_procs (run client_step (client_init True 0) demo_two)) = 1
   \<and> count_if (\<lambda>r. \<not> is_settled r) (cl_procs (run client_step (client_init True 0) demo_two)) \<le> 1"
  using refresh_singleflight [OF reachable_run [of True 0 demo_two]]
  by (simp add: demo_two_def demo_401_def client_eval Let_def)

subsection \<open>Awaiters\<close>

text \<open>C15: \<^verbatim>\<open>refreshAwaiters\<close> is exactly the number of calls suspended on the shared promise;
  all of them await the same promise, which stays shared until the last one has left and
  is dropped then.\<close>

theorem refresh_awaiters_exact:
  assumes "reachable w t0 c"
  shows "cl_awaiters c = int (count_if waits (cl_tasks c))
    \<and> (cl_refresh c = None \<longleftrightarrow> cl_awaiters c = 0)
    \<and> (\<forall>t \<in> set (cl_tasks c). awaited_pc (tk_pc t) = None \<or> awaited_pc (tk_pc t) = cl_refresh c)"
proof -
  have inv: "refresh_inv c" using reachable_inv [OF assms] by (simp add: client_inv_def)
  have count: "cl_awaiters c = int (count_if waits (cl_tasks c))" by (rule refresh_invD(1) [OF inv])
  have all: "\<forall>t \<in> set (cl_tasks c). awaited_pc (tk_pc t) = None \<or> awaited_pc (tk_pc t) = cl_refresh c"
    using refresh_invD(2) [OF inv] by (metis option.exhaust)
  have "cl_awaiters c = 0" if "cl_refresh c = None"
    using all that count by (simp add: count_if_zero waits_def)
  moreover have "cl_refresh c = None" if "cl_awaiters c = 0"
    using refresh_invD(4) [OF inv] that by (cases "cl_refresh c") auto
  ultimately show ?thesis using count all by blast
qed

lemma refresh_awaiters_exact_witness:
  "cl_awaiters (run client_step (client_init True 0) demo_two) = 2
   \<and> cl_refresh (run client_step (client_init True 0) demo_two) \<noteq> None"
proof -
  have "cl_awaiters (run client_step (client_init True 0) demo_two) = 2"
    by (simp add: demo_two_def demo_401_def client_eval Let_def)
  with refresh_awaiters_exact [OF reachable_run [of True 0 demo_two], THEN conjunct2, THEN conjunct1]
  show ?thesis by simp
qed

subsection \<open>Logout events\<close>

text \<open>The steps that install a token: a login, or a refresh that succeeds.\<close>

fun installs :: "action \<Rightarrow> bool" where
  "installs (ASetToken t) = (t \<noteq> None)"
| "installs (AAnswer p ans) = (case classifyRefresh ans of Inr (RefreshOk _) \<Rightarrow> True | _ \<Rightarrow> False)"
| "installs _ = False"

definition logouts :: "client \<Rightarrow> nat" where
  "logouts c = count_if (\<lambda>e. e = Unauthenticated) (cl_events c)"

definition signed_in :: "client \<Rightarrow> nat" where
  "signed_in c = (if ts_token (cl_ts c) = None then 0 else 1)"

lemma attemptEvent_not_logout: "attemptEvent n r ms \<noteq> Unauthenticated"
  by (simp add: attemptEvent_def split: refresh_result.split)

lemma logouts_simps [simp]:
  "logouts (set_pc i p c) = logouts c" "logouts (set_auth i a c) = logouts c"
  "logouts (set_token t c) = logouts c" "logouts (snd (join_refresh c)) = logouts c"
  "logouts (leave_refresh q c) = logouts c" "logouts (snd (join_probe c)) = logouts c"
  "logouts (emit (RetryAfterRefresh rp st ok ms) c) = logouts c"
  "logouts (emit Unauthenticated c) = logouts c + (if cl_window c then 1 else 0)"
  "logouts (spawn k path au c) = logouts c"
  "logouts (cl_ts_update f1 c) = logouts c" "logouts (cl_procs_update f2 c) = logouts c"
  "logouts (cl_probes_update f3 c) = logouts c" "logouts (cl_me_update f4 c) = logouts c"
  "logouts (cl_now_update f5 c) = logouts c"
  by (simp_all add: logouts_def emit_def spawn_def)

lemma signed_in_simps [simp]:
  "signed_in (set_pc i p c) = signed_in c" "signed_in (set_auth i a c) = signed_in c"
  "signed_in (set_token t c) = (if t = None then 0 else 1)" "signed_in (snd (join_refresh c)) = signed_in c"
  "signed_in (leave_refresh q c) = signed_in c" "signed_in (snd (join_probe c)) = signed_in c"
  "signed_in (emit e c) = signed_in c" "signed_in (spawn k path au c) = signed_in c"
  "signed_in (cl_procs_update f2 c) = signed_in c" "signed_in (cl_events_update f6 c) = signed_in c"
  "signed_in (cl_probes_update f3 c) = signed_in c" "signed_in (cl_me_update f4 c) = signed_in c"
  "signed_in (cl_now_update f5 c) = signed_in c"
  "signed_in (c\<lparr>cl_ts := (cl_ts c)\<lparr>ts_timer := tm\<rparr>\<rparr>) = signed_in c"
  by (simp_all add: signed_in_def spawn_def)

lemma logouts_answer:
  "logouts (answer_refresh p ans c) = logouts c"
  "signed_in (answer_refresh p ans c) \<le> signed_in c + (if installs (AAnswer p ans) then 1 else 0)"
  by (auto simp: answer_refresh_def split_beta refreshAccessTokenOnce_def logouts_def signed_in_def
      attemptEvent_not_logout split: refresh_proc.split sum.split refresh_result.split)

lemma logouts_run_task: "logouts (run_task i c) + signed_in (run_task i c) \<le> logouts c + signed_in c"
proof -
  have "logouts (run_probe i m res c) + signed_in (run_probe i m res c) \<le> logouts c + signed_in c" for m res
    by (simp add: run_probe_def signed_in_def split: probe_proc.split)
  then show ?thesis
    by (simp add: run_task_def run_start_def run_preflight_def run_ready_def run_refresh_def Let_def split_beta
        split: pc.split option.split refresh_proc.split sum.split refresh_result.split)
qed

lemma logouts_step:
  "logouts (client_step c a) + signed_in (client_step c a)
     \<le> logouts c + signed_in c + (if installs a then 1 else 0)"
proof (cases a)
  case (AAnswer p ans)
  then show ?thesis using logouts_answer [of p ans c] by (auto simp del: installs.simps)
next
  case (ARun i)
  then show ?thesis using logouts_run_task [of i c] by simp
qed (auto simp: fire_timer_def respond_def Let_def split_beta backoff_done_def answer_probe_def
    probe_finally_def
    split: option.split pc.split sum.split refresh_proc.split probe_proc.split)

lemma logouts_run:
  "logouts (run client_step c es) + signed_in (run client_step c es)
     \<le> logouts c + signed_in c + count_if installs es"
proof (induction es arbitrary: c)
  case (Cons a es)
  show ?case using Cons.IH [of "client_step c a"] logouts_step [of c a] by auto
qed simp

text \<open>C14: a herd of calls that all find their session dead emits one logout event: along
  any run there are at most as many \<^verbatim>\<open>auth:unauthenticated\<close> events as tokens installed.\<close>

theorem one_logout_per_session:
  "logouts (run client_step (client_init w t0) es) \<le> count_if installs es"
  using logouts_run [of "client_init w t0" es]
  by (simp add: logouts_def signed_in_def client_init_def token_init_def)

text \<open>
  The steps that do not end a session: nobody calls \<^verbatim>\<open>setAccessToken(null)\<close>, and the
  refresh endpoint does not answer 401 or 403. Timeouts, network failures, 5xx, garbled
  bodies, and any answer to any other request are allowed.
\<close>

fun keeps_session :: "action \<Rightarrow> bool" where
  "keeps_session (ASetToken t) = (t \<noteq> None)"
| "keeps_session (AAnswer p (Inr r)) = (rs_status r \<noteq> 401 \<and> rs_status r \<noteq> 403)"
| "keeps_session _ = True"

fun is_terminal :: "refresh_proc \<Rightarrow> bool" where
  "is_terminal (Settled (Inr (RefreshTerminal _))) = True"
| "is_terminal _ = False"

definition session_safe :: "client \<Rightarrow> bool" where
  "session_safe c \<longleftrightarrow> refresh_inv c \<and> (\<forall>r \<in> set (cl_procs c). \<not> is_terminal r)
     \<and> (\<forall>t \<in> set (cl_tasks c). probed_pc (tk_pc t) = None) \<and> logouts c = 0"

lemma keeps_not_terminal:
  "keeps_session (AAnswer p ans) \<Longrightarrow> \<not> is_terminal (after_attempt n (classifyRefresh ans))"
  by (cases ans) (auto simp: after_attempt_def classify_terminal_iff split: sum.split
      elim!: is_terminal.elims(2))

lemma session_safe_run_task:
  assumes "session_safe c" "i < length (cl_tasks c)"
  shows "session_safe (run_task i c) \<and> ts_token (cl_ts (run_task i c)) = ts_token (cl_ts c)"
proof -
  have inv: "refresh_inv (run_task i c)"
    using assms by (simp add: session_safe_def refresh_inv_run_task)
  have "p < length (cl_procs c)" if "awaited_pc (tk_pc (cl_tasks c ! i)) = Some p" for p
    using assms refresh_invD(2,3) that nth_mem by (metis session_safe_def)
  then have live: "\<not> is_terminal (cl_procs c ! p)" if "awaited_pc (tk_pc (cl_tasks c ! i)) = Some p" for p
    using assms that by (simp add: session_safe_def)
  have "tk_pc (cl_tasks c ! i) \<noteq> PProbe m res" for m res
    using assms nth_mem by (fastforce simp: session_safe_def)
  moreover have "\<forall>r \<in> set (cl_procs (snd (join_refresh c))). \<not> is_terminal r"
    using assms by (auto simp: session_safe_def join_refresh_def split: option.split)
  ultimately show ?thesis
    using assms inv live unfolding session_safe_def
    by (auto simp: run_task_def run_start_def run_preflight_def run_ready_def run_refresh_def Let_def
        split_beta dest!: set_updateD split: pc.splits option.splits refresh_proc.splits sum.splits
        refresh_result.splits)
qed

lemma session_safe_answer:
  assumes "session_safe c" "p < length (cl_procs c)" "keeps_session (AAnswer p ans)"
  shows "session_safe (answer_refresh p ans c)
    \<and> (ts_token (cl_ts c) \<noteq> None \<longrightarrow> ts_token (cl_ts (answer_refresh p ans c)) \<noteq> None)"
proof -
  have "refresh_inv (answer_refresh p ans c)"
    using assms by (simp add: session_safe_def refresh_inv_answer_refresh)
  then show ?thesis
    using assms keeps_not_terminal [OF assms(3)] unfolding session_safe_def
    by (auto simp: answer_refresh_def split_beta refreshAccessTokenOnce_def logouts_def attemptEvent_not_logout
        dest!: set_updateD split: refresh_proc.splits sum.splits refresh_result.splits)
qed

lemma session_safe_respond:
  assumes "session_safe c" "i < length (cl_tasks c)"
  shows "session_safe (respond i ans c) \<and> ts_token (cl_ts (respond i ans c)) = ts_token (cl_ts c)"
proof -
  have inv: "refresh_inv (respond i ans c)"
    using assms by (simp add: session_safe_def refresh_inv_respond)
  have "\<forall>r \<in> set (cl_procs (snd (join_refresh c))). \<not> is_terminal r"
    using assms by (auto simp: session_safe_def join_refresh_def split: option.split)
  then show ?thesis
    using assms inv unfolding session_safe_def
    by (auto simp: respond_def Let_def split_beta dest!: set_updateD split: pc.splits sum.splits if_splits)
qed

lemma session_safe_step:
  assumes safe: "session_safe c" and keeps: "keeps_session a"
  shows "session_safe (client_step c a)
    \<and> (ts_token (cl_ts c) \<noteq> None \<longrightarrow> ts_token (cl_ts (client_step c a)) \<noteq> None)"
proof -
  have inv: "refresh_inv (client_step c a)"
    using safe by (simp add: session_safe_def refresh_inv_step)
  show ?thesis
  proof (cases a)
    case (ARun i)
    with safe session_safe_run_task show ?thesis by simp
  next
    case (ARespond i ans)
    with safe session_safe_respond show ?thesis by simp
  next
    case (AAnswer p ans)
    with safe keeps session_safe_answer show ?thesis by simp
  next
    case (ABackoff p)
    with safe inv show ?thesis unfolding session_safe_def
      by (auto simp: backoff_done_def dest!: set_updateD split: refresh_proc.splits)
  next
    case ATimer
    with safe inv show ?thesis unfolding session_safe_def
      by (auto simp: fire_timer_def spawn_def logouts_def split: option.splits)
  qed (use safe inv keeps in \<open>auto simp: session_safe_def spawn_def logouts_def answer_probe_def
      probe_finally_def split: probe_proc.splits\<close>)
qed

lemma session_safe_run:
  "session_safe c \<Longrightarrow> \<forall>a \<in> set es. keeps_session a \<Longrightarrow> session_safe (run client_step c es)
     \<and> (ts_token (cl_ts c) \<noteq> None \<longrightarrow> ts_token (cl_ts (run client_step c es)) \<noteq> None)"
  by (induction es arbitrary: c) (use session_safe_step in \<open>fastforce+\<close>)

lemma session_safe_init: "session_safe (client_init w t0)"
  using client_inv_init [of w t0]
  by (simp add: session_safe_def client_inv_def) (simp add: client_init_def logouts_def)

text \<open>C2: the session survives an unreliable backend. As long as the refresh endpoint does
  not answer 401 or 403 and nobody logs out, no \<^verbatim>\<open>auth:unauthenticated\<close> event is emitted and
  a token, once there, is never lost, whatever else the network does.\<close>

theorem transient_failures_keep_session:
  assumes "\<forall>a \<in> set (es @ fs). keeps_session a"
  shows "Unauthenticated \<notin> set (cl_events (run client_step (client_init w t0) (es @ fs)))
    \<and> (ts_token (cl_ts (run client_step (client_init w t0) es)) \<noteq> None
       \<longrightarrow> ts_token (cl_ts (run client_step (client_init w t0) (es @ fs))) \<noteq> None)"
proof -
  have safe: "session_safe (run client_step (client_init w t0) es)"
    using session_safe_run [OF session_safe_init] assms by auto
  have "session_safe (run client_step (client_init w t0) (es @ fs))
    \<and> (ts_token (cl_ts (run client_step (client_init w t0) es)) \<noteq> None
       \<longrightarrow> ts_token (cl_ts (run client_step (client_init w t0) (es @ fs))) \<noteq> None)"
    unfolding run_append by (rule session_safe_run [OF safe]) (use assms in auto)
  then show ?thesis by (auto simp: session_safe_def logouts_def count_if_zero)
qed

definition demo_outage :: "action list" where
  "demo_outage = [ASpawn ''/api/v1/a'' None, ARun 0, ARun 0, ARespond 0 (Inr demo_401),
     AAnswer 0 (Inl ApiTimeoutError), ABackoff 0, AAnswer 0 (Inl ApiTimeoutError), ABackoff 0,
     AAnswer 0 (Inl ApiTimeoutError), ARun 0]"

lemma transient_failures_keep_session_witness:
  "ts_token (cl_ts (run client_step (client_init True 0) ([ASetToken (Some ''t'')] @ demo_outage))) \<noteq> None"
proof -
  have "\<forall>a \<in> set ([ASetToken (Some ''t'')] @ demo_outage). keeps_session a"
    by (simp add: demo_outage_def demo_401_def)
  from transient_failures_keep_session [OF this, of True 0] show ?thesis by simp
qed

subsection \<open>Progress\<close>

text \<open>
  What the scheduler or the network can do next, and the work left: each process and each
  call carries the number of steps it may still need, the cost of the refresh and of the
  probe it may start included.
\<close>

fun enabled :: "client \<Rightarrow> action \<Rightarrow> bool" where
  "enabled c (ARun i) = (i < length (cl_tasks c) \<and> (case tk_pc (cl_tasks c ! i) of
      PStart \<Rightarrow> True
    | PPreflight p \<Rightarrow> is_settled (cl_procs c ! p)
    | PReady \<Rightarrow> True
    | PRefresh p _ \<Rightarrow> is_settled (cl_procs c ! p)
    | PProbe m _ \<Rightarrow> is_probe_settled (cl_probes c ! m)
    | _ \<Rightarrow> False))"
| "enabled c (ARespond i _) = (i < length (cl_tasks c) \<and> (case tk_pc (cl_tasks c ! i) of
      PPrimary \<Rightarrow> True | PRetry _ \<Rightarrow> True | _ \<Rightarrow> False))"
| "enabled c (AAnswer p _) = (p < length (cl_procs c) \<and> (case cl_procs c ! p of Attempting _ _ \<Rightarrow> True | _ \<Rightarrow> False))"
| "enabled c (ABackoff p) = (p < length (cl_procs c) \<and> (case cl_procs c ! p of BackingOff _ _ \<Rightarrow> True | _ \<Rightarrow> False))"
| "enabled c (AProbe m _) = (m < length (cl_probes c) \<and> (case cl_probes c ! m of ProbeInFlight _ \<Rightarrow> True | _ \<Rightarrow> False))"
| "enabled c (AFinally m) = (m < length (cl_probes c) \<and> (case cl_probes c ! m of ProbeFinally _ \<Rightarrow> True | _ \<Rightarrow> False))"
| "enabled c _ = False"

fun pc_work :: "pc \<Rightarrow> nat" where
  "pc_work PStart = 18" | "pc_work (PPreflight _) = 12" | "pc_work PReady = 11" | "pc_work PPrimary = 10"
| "pc_work (PRefresh _ _) = 4" | "pc_work (PRetry _) = 1" | "pc_work (PProbe _ _) = 1" | "pc_work (PDone _) = 0"

fun proc_work :: "refresh_proc \<Rightarrow> nat" where
  "proc_work (Attempting n _) = 2 * (3 - n) + 1"
| "proc_work (BackingOff n _) = 2 * (3 - n)"
| "proc_work (Settled _) = 0"

fun probe_work :: "probe_proc \<Rightarrow> nat" where
  "probe_work (ProbeInFlight _) = 2" | "probe_work (ProbeFinally _) = 1" | "probe_work (ProbeSettled _) = 0"

definition total :: "('a \<Rightarrow> nat) \<Rightarrow> 'a list \<Rightarrow> nat" where
  "total f xs = sum_list (map f xs)"

definition work :: "client \<Rightarrow> nat" where
  "work c = total (\<lambda>t. pc_work (tk_pc t)) (cl_tasks c) + total proc_work (cl_procs c)
     + total probe_work (cl_probes c)"

lemma total_update: "i < length xs \<Longrightarrow> total f (xs[i := y]) + f (xs ! i) = total f xs + f y"
proof (induction xs arbitrary: i)
  case (Cons x xs)
  then show ?case by (cases i) (auto simp: total_def)
qed simp

lemma total_snoc [simp]: "total f (xs @ [y]) = total f xs + f y"
  by (simp add: total_def)

lemma work_pc:
  "i < length (cl_tasks c) \<Longrightarrow> work (set_pc i p c) + pc_work (tk_pc (cl_tasks c ! i)) = work c + pc_work p"
  using total_update [of i "cl_tasks c" "\<lambda>t. pc_work (tk_pc t)" "(cl_tasks c ! i)\<lparr>tk_pc := p\<rparr>"]
  by (simp add: work_def)

lemma work_auth [simp]: "i < length (cl_tasks c) \<Longrightarrow> work (set_auth i a c) = work c"
  using total_update [of i "cl_tasks c" "\<lambda>t. pc_work (tk_pc t)" "(cl_tasks c ! i)\<lparr>tk_auth := a\<rparr>"]
  by (simp add: work_def)

lemma work_simps [simp]:
  "work (set_token t c) = work c" "work (emit e c) = work c" "work (leave_refresh p c) = work c"
  by (simp_all add: work_def)

lemma work_join_refresh: "work (snd (join_refresh c)) \<le> work c + 5"
  by (simp add: work_def join_refresh_def Let_def split: option.split)

lemma work_join_probe: "work (snd (join_probe c)) < 3 + work c"
  by (simp add: work_def join_probe_def Let_def split: option.split)

lemma work_set_pc_less:
  "i < length (cl_tasks c) \<Longrightarrow> work c + pc_work p < w + pc_work (tk_pc (cl_tasks c ! i)) \<Longrightarrow> work (set_pc i p c) < w"
  using work_pc [of i c p] by simp

lemma work_run_task:
  assumes "enabled c (ARun i)"
  shows "work (run_task i c) < work c"
proof -
  have i: "i < length (cl_tasks c)" using assms by simp
  show ?thesis
    using assms i work_join_refresh [of c] work_join_probe [of "leave_refresh _ c"]
    by (cases "tk_pc (cl_tasks c ! i)")
      (auto simp: run_task_def run_start_def run_preflight_def run_ready_def run_refresh_def run_probe_def
        Let_def split_beta intro!: work_set_pc_less
        elim!: is_settled.elims(2) is_probe_settled.elims(2)
        split: option.split sum.split refresh_result.split intro: le_less_trans)
qed

lemma work_respond:
  assumes "enabled c (ARespond i ans)"
  shows "work (respond i ans c) < work c"
  using assms work_join_refresh [of c]
  by (cases "tk_pc (cl_tasks c ! i)")
    (auto simp: respond_def Let_def split_beta intro!: work_set_pc_less split: sum.split)

lemma work_proc:
  "p < length (cl_procs c) \<Longrightarrow> proc_work r < proc_work (cl_procs c ! p) \<Longrightarrow>
     work (c\<lparr>cl_ts := ts, cl_events := evs, cl_procs := (cl_procs c)[p := r]\<rparr>) < work c"
  using total_update [of p "cl_procs c" proc_work r] by (simp add: work_def)

lemma work_probe:
  "m < length (cl_probes c) \<Longrightarrow> probe_work r < probe_work (cl_probes c ! m) \<Longrightarrow>
     cl_tasks c' = cl_tasks c \<Longrightarrow> cl_procs c' = cl_procs c \<Longrightarrow> cl_probes c' = (cl_probes c)[m := r]
     \<Longrightarrow> work c' < work c"
  using total_update [of m "cl_probes c" probe_work r] by (simp add: work_def)

lemma work_answer:
  assumes "enabled c (AAnswer p ans)"
  shows "work (answer_refresh p ans c) < work c"
proof -
  obtain n st where "cl_procs c ! p = Attempting n st" and p: "p < length (cl_procs c)"
    using assms by (auto split: refresh_proc.splits)
  moreover have "proc_work (after_attempt n r) < 2 * (3 - n) + 1" for r
    by (simp add: after_attempt_def split: sum.split)
  ultimately show ?thesis
    by (auto simp: answer_refresh_def split_beta intro!: work_proc)
qed

lemma work_backoff:
  assumes "enabled c (ABackoff p)" and "flow_inv c"
  shows "work (backoff_done p c) < work c"
proof -
  obtain n d where proc: "cl_procs c ! p = BackingOff n d" and p: "p < length (cl_procs c)"
    using assms by (auto split: refresh_proc.splits)
  moreover have "n \<le> 2"
    using flow_inv_proc [OF assms(2) p] proc by (simp add: REFRESH_TRANSIENT_RETRIES_def)
  ultimately show ?thesis
    using total_update [of p "cl_procs c" proc_work "Attempting (Suc n) (cl_now c)"]
    by (simp add: backoff_done_def work_def)
qed

lemma work_step:
  assumes "enabled c a" and inv: "flow_inv c"
  shows "work (client_step c a) < work c"
proof (cases a)
  case (ARun i)
  with assms work_run_task show ?thesis by simp
next
  case (ARespond i ans)
  with assms work_respond show ?thesis by simp
next
  case (AAnswer p ans)
  with assms work_answer show ?thesis by simp
next
  case (ABackoff p)
  with assms work_backoff show ?thesis by simp
next
  case (AProbe m ans)
  with assms show ?thesis
    by (auto simp: answer_probe_def intro!: work_probe [of m c "ProbeFinally (probeAlive ans)"] split: probe_proc.splits)
next
  case (AFinally m)
  with assms obtain b where m: "m < length (cl_probes c)" "cl_probes c ! m = ProbeFinally b"
    by (auto split: probe_proc.splits)
  then show ?thesis using AFinally
    by (auto simp: probe_finally_def intro!: work_probe [of m c "ProbeSettled b"])
qed (use assms in simp_all)

fun enabled_run :: "client \<Rightarrow> action list \<Rightarrow> bool" where
  "enabled_run c [] = True"
| "enabled_run c (a # es) = (enabled c a \<and> enabled_run (client_step c a) es)"

lemma work_run:
  "client_inv c \<Longrightarrow> enabled_run c es \<Longrightarrow> length es + work (run client_step c es) \<le> work c"
proof (induction es arbitrary: c)
  case (Cons a es)
  have "work (client_step c a) < work c"
    by (rule work_step) (use Cons.prems in \<open>auto simp: client_inv_def\<close>)
  with Cons.IH [of "client_step c a"] Cons.prems client_inv_step [of c a] show ?case by simp
qed simp

lemma stuck_done:
  assumes inv: "client_inv c" and stuck: "\<And>a. \<not> enabled c a" and t: "t \<in> set (cl_tasks c)"
  shows "\<exists>r. tk_pc t = PDone r"
proof -
  obtain i where i: "i < length (cl_tasks c)" "cl_tasks c ! i = t"
    using t by (auto simp: in_set_conv_nth)
  have proc: "is_settled (cl_procs c ! p)" if "p < length (cl_procs c)" for p
    using stuck [of "AAnswer p undefined"] stuck [of "ABackoff p"] that
    by (cases "cl_procs c ! p") auto
  have probe: "is_probe_settled (cl_probes c ! m)" if "m < length (cl_probes c)" for m
    using stuck [of "AProbe m undefined"] stuck [of "AFinally m"] that
    by (cases "cl_probes c ! m") auto
  have "p < length (cl_procs c)" if "awaited_pc (tk_pc t) = Some p" for p
    using inv refresh_invD(2,3) [of c] t that by (auto simp: client_inv_def)
  moreover have "m < length (cl_probes c)" if "probed_pc (tk_pc t) = Some m" for m
    using inv probe_invD(1) [of c] t that by (auto simp: client_inv_def)
  ultimately show ?thesis
    using stuck [of "ARun i"] stuck [of "ARespond i undefined"] i proc probe
    by (cases "tk_pc t") auto
qed

text \<open>C3: every call settles. From a reachable state the scheduler and the network can take at
  most \<open>work c\<close> steps, and when none is left every call has returned or thrown: no
  deadlock on the shared promises, no unbounded retry.\<close>

theorem calls_settle:
  assumes "reachable w t0 c" and "enabled_run c es"
  shows "length es \<le> work c
    \<and> ((\<forall>a. \<not> enabled (run client_step c es) a)
       \<longrightarrow> (\<forall>t \<in> set (cl_tasks (run client_step c es)). \<exists>r. tk_pc t = PDone r))"
  using work_run [OF reachable_inv [OF assms(1)] assms(2)]
    stuck_done [OF api.run_inv [OF reachable_inv [OF assms(1)]]] by auto

lemma calls_settle_witness:
  "length [ARun 0, ARun 0, ARespond 0 (Inr demo_401)]
     \<le> work (run client_step (client_init True 0) [ASpawn ''/api/v1/a'' None])"
proof -
  have "enabled_run (run client_step (client_init True 0) [ASpawn ''/api/v1/a'' None])
      [ARun 0, ARun 0, ARespond 0 (Inr demo_401)]"
    by (simp add: client_eval Let_def)
  from calls_settle [OF reachable_run this] show ?thesis by blast
qed

subsection \<open>Who waits for what\<close>

text \<open>a call to \<^verbatim>\<open>/auth/*\<close> never waits for the proactive refresh, a credential check never
  enters the 401 recovery, only a 401 does, and every retry carries a fresh bearer token.\<close>

theorem call_protocol:
  assumes "reachable w t0 c" and "t \<in> set (cl_tasks c)"
  shows "(\<forall>p. tk_pc t = PPreflight p \<and> tk_kind t = ApiCall \<longrightarrow> \<not> isAuthEndpoint (tk_path t))
    \<and> (\<forall>p res. tk_pc t = PRefresh p res \<longrightarrow> rs_status res = 401 \<and> \<not> isCredCheck (tk_path t))
    \<and> (\<forall>m res. tk_pc t = PProbe m res \<longrightarrow> rs_status res = 401 \<and> \<not> isCredCheck (tk_path t))
    \<and> (\<forall>s. tk_pc t = PRetry s \<longrightarrow> \<not> isCredCheck (tk_path t)
          \<and> (\<exists>tok. tok \<noteq> [] \<and> tk_auth t = Some (''Bearer '' @ tok)))"
proof -
  have "task_good t"
    using reachable_inv [OF assms(1)] assms(2) by (simp add: client_inv_def flow_inv_def)
  then show ?thesis by (auto simp: task_good_def)
qed

definition demo_refreshed :: "action list" where
  "demo_refreshed = [ASpawn ''/api/v1/a'' None, ARun 0, ARun 0, ARespond 0 (Inr demo_401),
     AAnswer 0 (Inr \<lparr>rs_status = 200, rs_status_text = [], rs_json = Inr (JObj [(''access_token'', JStr ''t'')])\<rparr>),
     ARun 0]"

lemma call_protocol_witness:
  "tk_auth (hd (cl_tasks (run client_step (client_init False 0) demo_refreshed))) \<noteq> None"
proof -
  define c where "c = run client_step (client_init False 0) demo_refreshed"
  have c: "cl_tasks c = [\<lparr>tk_kind = ApiCall, tk_path = ''/api/v1/a'', tk_auth = Some ''Bearer t'', tk_pc = PRetry 0\<rparr>]"
    unfolding c_def
    by (simp add: demo_refreshed_def demo_401_def client_eval Let_def answer_refresh_def
        refreshAccessTokenOnce_def classifyRefresh_def rs_ok_def js_get_def js_is_nullish_def after_attempt_def
        is_transient_def)
  from call_protocol [of False 0 c "hd (cl_tasks c)"] show ?thesis
    using reachable_run [of False 0 demo_refreshed] c unfolding c_def by simp
qed

subsection \<open>A shared promise runs the retry loop\<close>

fun about :: "nat \<Rightarrow> action \<Rightarrow> bool" where
  "about p (AAnswer q _) = (p = q)"
| "about p (ABackoff q) = (p = q)"
| "about p _ = False"

fun phase :: "refresh_proc \<Rightarrow> refresh_proc" where
  "phase (Attempting n _) = Attempting n 0"
| "phase r = r"

fun phase_step :: "refresh_proc \<Rightarrow> action \<Rightarrow> refresh_proc" where
  "phase_step (Attempting n _) (AAnswer _ ans) = after_attempt n (classifyRefresh ans)"
| "phase_step (BackingOff n _) (ABackoff _) = Attempting (Suc n) 0"
| "phase_step r _ = r"

lemma phase_after [simp]: "phase (after_attempt n r) = after_attempt n r"
  by (simp add: after_attempt_def split: sum.split)

lemma join_procs_nth: "p < length (cl_procs c) \<Longrightarrow> cl_procs (snd (join_refresh c)) ! p = cl_procs c ! p
    \<and> p < length (cl_procs (snd (join_refresh c)))"
  by (simp add: join_refresh_def Let_def nth_append split: option.split)

lemma proc_other:
  assumes "p < length (cl_procs c)" "\<not> about p a"
  shows "cl_procs (client_step c a) ! p = cl_procs c ! p \<and> p < length (cl_procs (client_step c a))"
  using assms join_procs_nth [of p c]
  by (cases a) (auto simp: spawn_def fire_timer_def run_task_def run_start_def run_preflight_def run_ready_def
      run_refresh_def run_probe_def respond_def answer_refresh_def backoff_done_def answer_probe_def
      probe_finally_def Let_def split_beta
      split: option.split pc.split sum.split refresh_proc.split probe_proc.split refresh_result.split)

lemma proc_about:
  assumes "p < length (cl_procs c)" "about p a"
  shows "phase (cl_procs (client_step c a) ! p) = phase_step (phase (cl_procs c ! p)) a
    \<and> p < length (cl_procs (client_step c a))"
  using assms by (cases a; cases "cl_procs c ! p")
    (auto simp: answer_refresh_def backoff_done_def split_beta)

lemma phase_run:
  "p < length (cl_procs c) \<Longrightarrow>
     phase (cl_procs (run client_step c es) ! p) = foldl phase_step (phase (cl_procs c ! p)) (filter (about p) es)"
proof (induction es arbitrary: c)
  case (Cons a es)
  then show ?case using proc_other [of p c a] proc_about [of p c a] by (cases "about p a") auto
qed simp

lemma loop_phases:
  "foldl phase_step (Attempting 1 0) [AAnswer p (net 1), ABackoff p, AAnswer p (net 2), ABackoff p, AAnswer p (net 3)]
     = Settled (fst (refreshAccessToken net))"
proof -
  have after: "after_attempt n r = (if (\<exists>e st. r = Inr (RefreshTransient e st)) \<and> n \<le> 2
      then BackingOff n (backoffDelay n) else Settled r)" for n r
    by (auto simp: after_attempt_def is_transient_def REFRESH_TRANSIENT_RETRIES_def
        split: sum.split refresh_result.split)
  show ?thesis by (simp add: after refreshAccessToken_unfold Let_def)
qed

lemma phase_settled: "phase r = Settled x \<Longrightarrow> r = Settled x"
  by (cases r) auto

text \<open>C16: the shared refresh promise implements the retry loop. Whatever the other calls do
  in between, a refresh that has just started settles with the result of
  \<^verbatim>\<open>refreshAccessToken\<close> on the network's answers to its attempts: at most three, with
  backoffs of 250 and 500 ms, stopping at the first answer that is not transient.\<close>

theorem refresh_promise_runs_loop:
  assumes "p < length (cl_procs c)" and "cl_procs c ! p = Attempting 1 s"
    and "filter (about p) es = [AAnswer p (net 1), ABackoff p, AAnswer p (net 2), ABackoff p, AAnswer p (net 3)]"
  shows "cl_procs (run client_step c es) ! p = Settled (fst (refreshAccessToken net))
    \<and> fst (snd (refreshAccessToken net)) \<le> 3
    \<and> snd (snd (refreshAccessToken net)) = take (fst (snd (refreshAccessToken net)) - 1) [250, 500]"
proof -
  have "phase (cl_procs (run client_step c es) ! p) = Settled (fst (refreshAccessToken net))"
    unfolding phase_run [OF assms(1)] assms(2,3) phase.simps by (rule loop_phases)
  then show ?thesis by (auto simp: refreshAccessToken_unfold Let_def dest: phase_settled)
qed

lemma refresh_promise_runs_loop_witness:
  "cl_procs (run client_step (client_init True 0) (demo_two @ [AAnswer 0 (Inl ApiTimeoutError), ABackoff 0, ARun 1,
     AAnswer 0 (Inl ApiTimeoutError), ABackoff 0, ATick 7, AAnswer 0 (Inr demo_401)])) ! 0
   = Settled (Inr (RefreshTerminal 401))"
proof -
  let ?c = "run client_step (client_init True 0) demo_two"
  let ?net = "\<lambda>n. if n = (3::nat) then Inr demo_401 else Inl ApiTimeoutError"
  have c: "cl_procs ?c = [Attempting 1 0]"
    by (simp add: demo_two_def demo_401_def client_eval Let_def)
  have "fst (refreshAccessToken ?net) = Inr (RefreshTerminal 401)"
    by (simp add: refreshAccessToken_unfold classifyRefresh_def is_error_def demo_401_def)
  then show ?thesis
    unfolding run_append
    using refresh_promise_runs_loop [of 0 ?c 0 "[AAnswer 0 (Inl ApiTimeoutError), ABackoff 0, ARun 1,
     AAnswer 0 (Inl ApiTimeoutError), ABackoff 0, ATick 7, AAnswer 0 (Inr demo_401)]" ?net] c
    by simp
qed

text \<open>a proactive refresh that fails is silent, with one exception. When the answer that
  settles it is classified (success, terminal or transient alike), the call that waited
  goes on to send its request; when it is a 2xx whose body is JSON \<^verbatim>\<open>null\<close>, the
  \<^verbatim>\<open>TypeError\<close> escapes and the call rejects without having sent anything.\<close>

theorem preflight_failure_silent_unless_null:
  assumes "i < length (cl_tasks c)" and "tk_pc (cl_tasks c ! i) = PPreflight p"
    and "tk_kind (cl_tasks c ! i) = ApiCall"
    and "p < length (cl_procs c)" and "cl_procs c ! p = Attempting n s"
    and "is_settled (after_attempt n (classifyRefresh ans))"
  shows "tk_pc (cl_tasks (run client_step c [AAnswer p ans, ARun i]) ! i)
    = (case classifyRefresh ans of
         Inr _ \<Rightarrow> PReady
       | Inl _ \<Rightarrow> PDone (Inl (null_property_error ''access_token'')))"
proof -
  have inl: "e = null_property_error ''access_token''" if "classifyRefresh ans = Inl e" for e
    using that by (auto simp: classifyRefresh_def split: sum.splits if_splits jsval.splits)
  have settled: "after_attempt n r = Settled r" if "is_settled (after_attempt n r)" for r
    using that by (auto simp: after_attempt_def split: sum.splits if_splits)
  show ?thesis
    using assms inl settled [OF assms(6)]
    by (auto simp: answer_refresh_def split_beta run_task_def run_preflight_def split: sum.split)
qed

lemma null_body_classified:
  "rs_ok r \<Longrightarrow> rs_json r = Inr JNull \<Longrightarrow> classifyRefresh (Inr r) = Inl (null_property_error ''access_token'')"
  by (simp add: classifyRefresh_def rs_ok_def js_is_nullish_def)

definition near_expiry_token :: token_state where
  "near_expiry_token = \<lparr>ts_token = Some ''t'', ts_exp = Some 10, ts_timer = None\<rparr>"

lemma preflight_failure_silent_unless_null_witness:
  "tk_pc (cl_tasks (run client_step ((client_init True 0)\<lparr>cl_ts := near_expiry_token\<rparr>)
     [ASpawn ''/api/v1/a'' None, ARun 0,
      AAnswer 0 (Inr \<lparr>rs_status = 200, rs_status_text = [], rs_json = Inr JNull\<rparr>), ARun 0]) ! 0)
   = PDone (Inl (null_property_error ''access_token''))"
proof -
  let ?c = "run client_step ((client_init True 0)\<lparr>cl_ts := near_expiry_token\<rparr>) [ASpawn ''/api/v1/a'' None, ARun 0]"
  let ?r = "\<lparr>rs_status = 200, rs_status_text = [], rs_json = Inr JNull\<rparr>"
  have c: "cl_tasks ?c = [\<lparr>tk_kind = ApiCall, tk_path = ''/api/v1/a'', tk_auth = None, tk_pc = PPreflight 0\<rparr>]"
    "cl_procs ?c = [Attempting 1 0]"
    by (simp_all add: client_eval near_expiry_token_def isAccessTokenNearExpiry_def now_sec_def
        PROACTIVE_REFRESH_LEAD_SECONDS_def CLOCK_SKEW_TOLERANCE_SECONDS_def Let_def)
  have r: "classifyRefresh (Inr ?r) = Inl (null_property_error ''access_token'')"
    by (rule null_body_classified) (simp_all add: rs_ok_def)
  show ?thesis
    using preflight_failure_silent_unless_null [of 0 ?c 0 1 0 "Inr ?r"] c r
    by (simp add: after_attempt_def)
qed

subsection \<open>Token lifetime, timeouts, errors\<close>

text \<open>installing an issuer's token reads its \<^verbatim>\<open>exp\<close> claim back through base64url and
  JSON, arms the timer for the lead time before expiry when that is still ahead, and
  makes the preflight check compare the claim with the clock.\<close>

theorem setAccessToken_schedules:
  assumes "CHR ''.'' \<notin> set hdr" and "CHR ''.'' \<notin> set sig" and "json_ok payload"
    and "js_get payload ''exp'' = JNum e"
  shows "let ts' = setAccessToken True now (Some (jwt hdr payload sig)) ts;
             left = e - of_int PROACTIVE_REFRESH_LEAD_SECONDS - of_int (now_sec now)
    in getAccessToken ts' = Some (jwt hdr payload sig) \<and> ts_exp ts' = Some e
      \<and> ts_timer ts' = (if left > 0 then Some (of_int now + left * 1000) else None)
      \<and> (isAccessTokenNearExpiry later ts' \<longleftrightarrow>
           e \<le> of_int (now_sec later + PROACTIVE_REFRESH_LEAD_SECONDS + CLOCK_SKEW_TOLERANCE_SECONDS))"
proof -
  let ?tok = "jwt hdr payload sig"
  have ne: "?tok \<noteq> []" by (simp add: jwt_def)
  have e: "decodeJwtExp ?tok = Some e" using decodeJwtExp_jwt [OF assms(1-3)] assms(4) by simp
  have "ts_timer (setAccessToken True now (Some ?tok) ts) =
      (if e - of_int PROACTIVE_REFRESH_LEAD_SECONDS - of_int (now_sec now) > 0
       then Some (of_int now + (e - of_int PROACTIVE_REFRESH_LEAD_SECONDS - of_int (now_sec now)) * 1000) else None)"
    using ne e by (simp add: setAccessToken_def scheduleProactiveRefresh_def Let_def mult_le_0_iff not_less)
  with ne e show ?thesis
    by (auto simp: Let_def getAccessToken_def isAccessTokenNearExpiry_def)
qed

lemma setAccessToken_schedules_witness:
  "ts_timer (setAccessToken True 0 (Some (jwt ''h'' (JObj [(''exp'', JNum 900)]) ''s'')) token_init) = Some 840000"
proof -
  have ok: "json_ok (JObj [(''exp'', JNum 900)])" by code_simp
  show ?thesis
    using setAccessToken_schedules [OF _ _ ok, of "''h''" "''s''" 900 0 token_init 0]
    by (simp add: js_get_def Let_def PROACTIVE_REFRESH_LEAD_SECONDS_def now_sec_def)
qed

text \<open>no call outlives its budget. \<^verbatim>\<open>fetchWithTimeout\<close> settles by \<^verbatim>\<open>timeoutMs\<close> at the latest;
  it resolves only with what the network answered in time, and without an abort by the
  caller a silent or late network gives \<^verbatim>\<open>ApiTimeoutError\<close> exactly at the budget.\<close>

theorem fetch_settles_in_budget:
  "fst (fetchWithTimeout t upstream net) \<le> t
   \<and> (\<forall>r. snd (fetchWithTimeout t upstream net) = Inr r
        \<longrightarrow> (\<exists>d < t. net = NetResolve d r \<and> fst (fetchWithTimeout t upstream net) = d))
   \<and> (upstream = None \<and> (case net of NetResolve d _ \<Rightarrow> t \<le> d | NetReject d _ \<Rightarrow> t \<le> d | NetHang \<Rightarrow> True)
        \<longrightarrow> fetchWithTimeout t upstream net = (t, Inl ApiTimeoutError))"
  by (auto simp: fetchWithTimeout_bound)
    (auto simp: fetchWithTimeout_def Let_def split: net.splits option.splits if_splits)

lemma fetch_settles_in_budget_witness:
  "fetchWithTimeout 10000 None NetHang = (10000, Inl ApiTimeoutError)"
  using fetch_settles_in_budget [of 10000 None NetHang] by simp

text \<open>a failed response becomes an \<^verbatim>\<open>ApiResponseError\<close> that keeps the status and the
  backend's message (a string detail, the message of a structured detail, or every
  entry of a validation list), unless its body is JSON \<^verbatim>\<open>null\<close>; a successful one yields
  its body, or nothing for 204.\<close>

theorem response_outcome:
  assumes "rs_json r \<noteq> Inr JNull" and "rs_json r \<noteq> Inr JUndef"
  shows "(rs_ok r \<longrightarrow> finishResponse r = (if rs_status r = 204 then Inr JUndef else rs_json r))
    \<and> (\<not> rs_ok r \<longrightarrow> (\<exists>m code d. finishResponse r = Inl (ApiResponseError (rs_status r) m code d)
        \<and> (\<forall>body s. rs_json r = Inr body \<and> js_get body ''detail'' = JStr s \<longrightarrow> m = s)
        \<and> (\<forall>body o' s. rs_json r = Inr body \<and> js_get body ''detail'' = JObj o'
              \<and> js_get (JObj o') ''message'' = JStr s \<longrightarrow> m = s)
        \<and> (\<forall>body es. rs_json r = Inr body \<and> js_get body ''detail'' = JArr es
              \<longrightarrow> m = js_join ''; '' (map validation_entry es))))"
proof (intro conjI impI)
  show "rs_ok r \<Longrightarrow> finishResponse r = (if rs_status r = 204 then Inr JUndef else rs_json r)"
    by (simp add: finishResponse_def)
  assume no: "\<not> rs_ok r"
  define body where "body = (case rs_json r of Inr v \<Rightarrow> v | Inl _ \<Rightarrow> JObj [(''detail'', JStr (rs_status_text r))])"
  have "\<not> js_is_nullish body"
    using assms by (auto simp: body_def js_is_nullish_def split: sum.split)
  then have "finishResponse r = Inl (responseError r)"
    "responseError r = (let d = js_get body ''detail'' in
            case d of
              JArr es \<Rightarrow> ApiResponseError (rs_status r) (js_join ''; '' (map validation_entry es)) None d
            | JStr s \<Rightarrow> ApiResponseError (rs_status r) s None d
            | JObj _ \<Rightarrow>
                (case js_get d ''message'' of
                   JStr m \<Rightarrow> ApiResponseError (rs_status r) m
                     (case js_get d ''code'' of JStr c \<Rightarrow> Some c | _ \<Rightarrow> None) d
                 | _ \<Rightarrow> ApiResponseError (rs_status r) ''Request failed'' None d)
            | _ \<Rightarrow> ApiResponseError (rs_status r) ''Request failed'' None d)"
    using no by (simp_all add: finishResponse_def responseError_def body_def)
  moreover have "rs_json r = Inr b \<Longrightarrow> body = b" for b by (simp add: body_def)
  ultimately show "\<exists>m code d. finishResponse r = Inl (ApiResponseError (rs_status r) m code d)
        \<and> (\<forall>body s. rs_json r = Inr body \<and> js_get body ''detail'' = JStr s \<longrightarrow> m = s)
        \<and> (\<forall>body o' s. rs_json r = Inr body \<and> js_get body ''detail'' = JObj o'
              \<and> js_get (JObj o') ''message'' = JStr s \<longrightarrow> m = s)
        \<and> (\<forall>body es. rs_json r = Inr body \<and> js_get body ''detail'' = JArr es
              \<longrightarrow> m = js_join ''; '' (map validation_entry es))"
    by (cases "js_get body ''detail''"; cases "js_get (js_get body ''detail'') ''message''") (auto simp: Let_def)
qed

lemma response_outcome_witness:
  "\<exists>m code d. finishResponse \<lparr>rs_status = 409, rs_status_text = [], rs_json = Inr (JObj [(''detail'', JStr ''taken'')])\<rparr>
     = Inl (ApiResponseError 409 m code d)"
  using response_outcome [of "\<lparr>rs_status = 409, rs_status_text = [], rs_json = Inr (JObj [(''detail'', JStr ''taken'')])\<rparr>"]
  by (simp add: rs_ok_def) blast

end
