(* ===== verification/Api_Types.thy ===== *)
theory Api_Types
  imports Prelude
begin

section \<open>The entities of the API (lib/types.ts)\<close>

text \<open>
  The interfaces of \<^verbatim>\<open>lib/types.ts\<close> that the modelled components read and write, one
  record per interface with its fields in the source's order, one datatype per union of
  string literals. \<^verbatim>\<open>T | null\<close> and optional fields are \<open>option\<close>; ids and days are \<open>int\<close>,
  amounts \<open>rat\<close> (a JavaScript number is read as the decimal it prints as); a field that
  the code keeps as text (\<^verbatim>\<open>amount: string\<close>) is a string.
\<close>

datatype role = Owner | Admin | Member

datatype subscription_status = Trialing | Active | PastDue | Canceled

record user =
  us_id :: int
  us_username :: string
  us_email :: string
  us_first_name :: "string option"
  us_last_name :: "string option"
  us_phone :: "string option"
  us_avatar_url :: "string option"
  us_email_verified :: bool
  us_role :: role
  us_org_id :: int
  us_org_name :: string
  us_billing_cycle_day :: int
  us_is_superadmin :: bool
  us_is_active :: bool
  us_mfa_enabled :: bool
  us_password_set :: bool
  us_onboarded_at :: "string option"
  us_allow_manual_balance_adjustment :: bool
  us_subscription_status :: "subscription_status option"
  us_subscription_plan :: "string option"
  us_trial_end :: "string option"
  us_permissions :: "string list option"

record account =
  ac_id :: int
  ac_name :: string
  ac_account_type_id :: int
  ac_account_type_name :: string
  ac_account_type_slug :: "string option"
  ac_balance :: rat
  ac_currency :: string
  ac_is_active :: bool
  ac_close_day :: "int option"
  ac_is_default :: bool
  ac_opening_balance :: "rat option"
  ac_opening_balance_date :: "string option"

datatype category_type = CatIncome | CatExpense | CatBoth

record category =
  ca_id :: int
  ca_name :: string
  ca_type :: category_type
  ca_parent_id :: "int option"
  ca_parent_name :: "string option"
  ca_description :: "string option"
  ca_slug :: "string option"
  ca_is_system :: bool
  ca_transaction_count :: int

datatype tx_type = Income | Expense
datatype tx_status = TxSettled | TxPending

record tag_summary =
  tg_id :: int
  tg_name :: string

record transaction =
  tx_id :: int
  tx_account_id :: int
  tx_account_name :: string
  tx_category_id :: int
  tx_category_name :: string
  tx_description :: string
  tx_amount :: rat
  tx_type :: tx_type
  tx_status :: tx_status
  tx_linked_transaction_id :: "int option"
  tx_recurring_id :: "int option"
  tx_date :: string
  tx_settled_date :: "string option"
  tx_is_imported :: bool
  tx_is_manual_adjustment :: bool
  tx_tags :: "tag_summary list"

subsection \<open>Import\<close>

datatype suggestion_source = OrgRule | SharedDictionary | DefaultSource
datatype match_action = MatchNone | PairWith | SuggestPair | ChooseCandidate
datatype match_confidence = SameDay | NearDate | MultiCandidate
datatype source_format = CSV | OFX

record transfer_candidate =
  tc_id :: int
  tc_date :: string
  tc_description :: string
  tc_amount :: rat
  tc_account_id :: int
  tc_account_name :: string
  tc_date_diff_days :: int
  tc_confidence :: match_confidence

record duplicate_candidate =
  dc_id :: int
  dc_date :: string
  dc_description :: string
  dc_amount :: rat
  dc_account_id :: int
  dc_account_name :: string
  dc_existing_leg_is_imported :: bool

record import_preview_row =
  ip_row_number :: int
  ip_date :: string
  ip_description :: string
  ip_amount :: rat
  ip_type :: tx_type
  ip_counterparty :: "string option"
  ip_transaction_type :: "string option"
  ip_is_duplicate :: bool
  ip_duplicate_transaction_id :: "int option"
  ip_suggested_category_id :: "int option"
  ip_suggestion_source :: "suggestion_source option"
  ip_is_duplicate_of_linked_leg :: bool
  ip_duplicate_candidate :: "duplicate_candidate option"
  ip_default_action_drop :: bool
  ip_transfer_match_action :: match_action
  ip_transfer_match_confidence :: "match_confidence option"
  ip_pair_with_transaction_id :: "int option"
  ip_transfer_candidates :: "transfer_candidate list"

record import_preview =
  pv_rows :: "import_preview_row list"
  pv_account_id :: int
  pv_file_name :: string
  pv_total_rows :: int
  pv_duplicate_count :: int
  pv_auto_paired_count :: int
  pv_suggested_pair_count :: int
  pv_multi_candidate_count :: int
  pv_duplicate_of_linked_count :: int
  pv_source_format :: "source_format option"

datatype confirm_action = ActCreate | ActPairWithExisting | ActDropAsDuplicate | ActCreateTransferPair

record import_confirm_row =
  ic_row_number :: int
  ic_date :: string
  ic_description :: string
  ic_amount :: rat
  ic_type :: tx_type
  ic_category_id :: "int option"
  ic_skip :: bool
  ic_action :: "confirm_action option"
  ic_pair_with_transaction_id :: "int option"
  ic_duplicate_of_transaction_id :: "int option"
  ic_partner_account_id :: "int option"
  ic_transfer_category_id :: "int option"
  ic_recategorize :: "bool option"
  ic_suggested_category_id :: "int option"
  ic_suggestion_source :: "suggestion_source option"

record import_confirm_request =
  cr_account_id :: int
  cr_default_category_id :: int
  cr_rows :: "import_confirm_row list"
  cr_file_name :: string
  cr_source_format :: source_format

subsection \<open>Manual batch entry\<close>

record batch_transaction =
  bt_account_id :: int
  bt_category_id :: int
  bt_description :: string
  bt_amount :: string
  bt_type :: tx_type
  bt_date :: string
  bt_status :: "tx_status option"
  bt_settled_date :: "string option"

record batch_row_input =
  bi_row_number :: int
  bi_transaction :: batch_transaction

record batch_row_result =
  br_row_number :: int
  br_transaction_id :: int

record batch_row_error =
  be_row_number :: int
  be_error :: string

record batch_response =
  bp_imported_count :: int
  bp_error_count :: int
  bp_results :: "batch_row_result list"
  bp_errors :: "batch_row_error list"

subsection \<open>Reconciliation\<close>

datatype reconciliation_state =
  RPendingReview | RMatched | RUnmatched | RSkipped | REdited | RAccepted | RRejected

datatype batch_status = BatchOpen | BatchClosed

record import_batch_header =
  ib_id :: int
  ib_account_id :: int
  ib_source_format :: source_format
  ib_file_name :: string
  ib_created_at :: string
  ib_created_by_user_id :: int
  ib_status :: batch_status
  ib_total_rows :: int
  ib_pending_count :: int

record reconciliation_row =
  rr_transaction_id :: int
  rr_date :: string
  rr_description :: string
  rr_amount :: string
  rr_type :: tx_type
  rr_state :: reconciliation_state
  rr_fitid :: "string option"
  rr_linked_transaction_id :: "int option"
  rr_duplicate_warning :: bool
  rr_duplicate_warning_target :: "int option"

record import_batch_detail =
  bd_batch :: import_batch_header
  bd_rows :: "reconciliation_row list"

record reconciliation_edits =
  re_description :: "string option"
  re_amount :: "string option"
  re_date :: "string option"
  re_category_id :: "int option"

record reconciliation_transition =
  rt_transaction_id :: int
  rt_to_state :: reconciliation_state
  rt_edits :: "reconciliation_edits option"
  rt_match_with_transaction_id :: "int option"

record reconcile_response =
  rc_import_id :: int
  rc_transitioned :: "int list"
  rc_errors :: "(int \<times> string) list"
  rc_remaining_pending :: int
  rc_batch_status :: batch_status

subsection \<open>Type-class instances\<close>

text \<open>The roles ranked: every role check of \<^verbatim>\<open>lib/auth.ts\<close> is a lower bound in this order.\<close>

instantiation role :: linorder
begin

fun role_rank :: "role \<Rightarrow> nat" where
  "role_rank Member = 0" | "role_rank Admin = 1" | "role_rank Owner = 2"

definition less_eq_role :: "role \<Rightarrow> role \<Rightarrow> bool" where
  "less_eq_role a b = (role_rank a \<le> role_rank b)"

definition less_role :: "role \<Rightarrow> role \<Rightarrow> bool" where
  "less_role a b = (role_rank a < role_rank b)"

instance
proof
  fix a b c :: role
  show "(a < b) = (a \<le> b \<and> \<not> b \<le> a)" by (auto simp: less_eq_role_def less_role_def)
  show "a \<le> a" by (simp add: less_eq_role_def)
  show "a \<le> b \<Longrightarrow> b \<le> c \<Longrightarrow> a \<le> c" by (simp add: less_eq_role_def)
  show "a \<le> b \<Longrightarrow> b \<le> a \<Longrightarrow> a = b" by (cases a; cases b) (auto simp: less_eq_role_def)
  show "a \<le> b \<or> b \<le> a" by (auto simp: less_eq_role_def)
qed

end

end
