(* ===== verification/Roles.thy ===== *)
theory Roles
  imports Api_Types
begin

section \<open>Role checks (lib/auth.ts)\<close>

text \<open>
  The predicates the pages gate their buttons and routes with. The roles are ordered
  (\<open>Member < Admin < Owner\<close>); the lemmas show that the predicates are monotone in the
  role and that a superadmin passes every one of them.
\<close>

definition isAdmin :: "user \<Rightarrow> bool" where
  "isAdmin u \<longleftrightarrow> us_role u = Owner \<or> us_role u = Admin \<or> us_is_superadmin u"

definition isOwner :: "user \<Rightarrow> bool" where
  "isOwner u \<longleftrightarrow> us_role u = Owner \<or> us_is_superadmin u"

definition isSuperadmin :: "user \<Rightarrow> bool" where
  "isSuperadmin u = us_is_superadmin u"

definition hasPlatformPermission :: "user option \<Rightarrow> string \<Rightarrow> bool" where
  "hasPlatformPermission user permission = (case user of
      None \<Rightarrow> False
    | Some u \<Rightarrow>
        if us_is_superadmin u then True
        else (case us_permissions u of Some ps \<Rightarrow> permission \<in> set ps | None \<Rightarrow> False))"

lemma isAdmin_rank: "isAdmin u \<longleftrightarrow> Admin \<le> us_role u \<or> us_is_superadmin u"
  by (cases "us_role u") (auto simp: isAdmin_def less_eq_role_def)

lemma isOwner_rank: "isOwner u \<longleftrightarrow> Owner \<le> us_role u \<or> us_is_superadmin u"
  by (cases "us_role u") (auto simp: isOwner_def less_eq_role_def)

lemma role_checks_nested:
  "(isSuperadmin u \<longrightarrow> isOwner u) \<and> (isOwner u \<longrightarrow> isAdmin u)"
  by (auto simp: isSuperadmin_def isOwner_def isAdmin_def)

lemma isAdmin_mono:
  "us_role u \<le> us_role v \<Longrightarrow> us_is_superadmin u = us_is_superadmin v \<Longrightarrow> isAdmin u \<Longrightarrow> isAdmin v"
  by (auto simp: isAdmin_rank)

end
