(* ===== verification/Logger.thy ===== *)
theory Logger
  imports Json
begin

section \<open>Structured log lines (lib/logger.ts)\<close>

text \<open>
  One call of \<open>logger\<close> is one emission to one sink, chosen by the runtime. The clock is
  a parameter.
\<close>

datatype log_level = LDebug | LInfo | LWarn | LError

definition level_name :: "log_level \<Rightarrow> string" where
  "level_name l = (case l of LDebug \<Rightarrow> ''debug'' | LInfo \<Rightarrow> ''info'' | LWarn \<Rightarrow> ''warn'' | LError \<Rightarrow> ''error'')"

definition formatEntry :: "string \<Rightarrow> log_level \<Rightarrow> string \<Rightarrow> (string \<times> jsval) list option \<Rightarrow> jsval" where
  "formatEntry timestamp level event data =
     JObj (obj_spread [(''timestamp'', JStr timestamp), (''level'', JStr (level_name level)),
        (''logger'', JStr ''frontend''), (''event'', JStr event)]
       (case data of Some d \<Rightarrow> d | None \<Rightarrow> []))"

datatype console_method = ConsoleError | ConsoleWarn | ConsoleLog

definition consoleMethodFor :: "log_level \<Rightarrow> console_method" where
  "consoleMethodFor level = (if level = LError then ConsoleError else if level = LWarn then ConsoleWarn else ConsoleLog)"

record js_runtime =
  rn_window :: bool
  rn_next_runtime :: "string option"
  rn_stdout :: bool
  rn_stderr :: bool

datatype emission =
    BrowserConsole console_method string jsval
  | StdoutWrite string
  | StderrWrite string
  | ConsoleLine console_method string

definition log_emit ::
    "js_runtime \<Rightarrow> string \<Rightarrow> log_level \<Rightarrow> string \<Rightarrow> (string \<times> jsval) list option \<Rightarrow> emission" where
  "log_emit rt timestamp level event data =
     (let entry = formatEntry timestamp level event data in
      if rn_window rt then
        BrowserConsole (consoleMethodFor level) (''['' @ level_name level @ ''] '' @ event)
          (case data of Some d \<Rightarrow> JObj d | None \<Rightarrow> JStr [])
      else
        (let line = json_stringify entry in
         if rn_next_runtime rt = Some ''nodejs'' \<and> rn_stdout rt \<and> rn_stderr rt then
           (if level = LError then StderrWrite (line @ [CHR 0x0A]) else StdoutWrite (line @ [CHR 0x0A]))
         else ConsoleLine (consoleMethodFor level) line))"

subsection \<open>A log line is one line\<close>

definition printable :: "string \<Rightarrow> bool" where
  "printable s \<longleftrightarrow> (\<forall>c \<in> set s. 32 \<le> (of_char c :: nat))"

lemma printable_simps [simp]:
  "printable []" "printable (c # s) \<longleftrightarrow> 32 \<le> (of_char c :: nat) \<and> printable s"
  "printable (s @ t) \<longleftrightarrow> printable s \<and> printable t"
  by (auto simp: printable_def)

lemma printable_join: "printable sep \<Longrightarrow> \<forall>w \<in> set ws. printable w \<Longrightarrow> printable (js_join sep ws)"
  by (induction sep ws rule: js_join.induct) auto

lemma printable_show_nat: "printable (show_nat n)"
  using show_nat_digits [of n] by (auto simp: printable_def is_digit_def Let_def)

lemma printable_show_int: "printable (show_int n)"
  by (simp add: show_int_def printable_show_nat)

lemma hex_digit_printable: "n < 16 \<Longrightarrow> 32 \<le> (of_char (hex_digit n) :: nat)"
  by (simp add: hex_digit_def)

lemma printable_quote_char: "printable (json_quote_char c)"
proof (cases "c = CHR 0x22 \<or> c = CHR 0x5C \<or> c = CHR 0x08 \<or> c = CHR 0x0C \<or> c = CHR 0x0A \<or> c = CHR 0x0D \<or> c = CHR 0x09")
  case True
  then show ?thesis by (elim disjE) (simp_all add: json_quote_char_def)
next
  case False
  have "(of_char c :: nat) div 16 < 16 \<and> (of_char c :: nat) mod 16 < 16"
    using nat_of_char_less_256 [of c] by (simp add: less_mult_imp_div_less del: nat_of_char_less_256)
  with False show ?thesis by (simp add: json_quote_char_def hex_digit_printable)
qed

lemma printable_quote: "printable (json_quote s)"
proof -
  have "printable (concat (map json_quote_char s))"
    by (induction s) (simp_all add: printable_quote_char)
  then show ?thesis by (simp add: json_quote_def)
qed

lemma printable_stringify: "printable (json_stringify v)"
proof (induction v rule: json_stringify.induct)
  case (6 vs)
  then show ?case by (auto intro!: printable_join)
next
  case (7 kvs)
  then show ?case by (auto intro!: printable_join simp: printable_quote)
qed (simp_all add: printable_show_int printable_quote)

end
