(* ===== verification/Server_Fetch.thy ===== *)
theory Server_Fetch
  imports Api_Types Logger
begin

section \<open>Server-side fetches and the server session (lib/server-fetch.ts, lib/auth-server.ts)\<close>

text \<open>
  \<open>serverFetchResult\<close> as a function of its options and of what \<^verbatim>\<open>fetch\<close> does with the request it is
  given (\<open>upstream\<close>: headers, then body, each at an instant, or never, or a rejection, of the
  network or of \<^verbatim>\<open>fetch\<close> itself, with any message); besides its result it returns the log
  entries it emits and the instant at which it settles. The URL parser behind
  \<open>safeBackendHost\<close> is the platform's: its answer is a field of the environment.
\<close>

subsection \<open>Redaction\<close>

definition MAX_ERROR_MESSAGE_LEN :: nat where "MAX_ERROR_MESSAGE_LEN = 500"

text \<open>\<^verbatim>\<open>msg.split(/\s+/)\<close>.\<close>

lemma drop_word_less:
  assumes "dropWhile (\<lambda>c. \<not> is_ws c) s \<noteq> []"
  shows "length (dropWhile is_ws (dropWhile (\<lambda>c. \<not> is_ws c) s)) < length s"
proof -
  obtain c cs where rest: "dropWhile (\<lambda>c. \<not> is_ws c) s = c # cs"
    using assms by (cases "dropWhile (\<lambda>c. \<not> is_ws c) s") auto
  then have "is_ws c" using hd_dropWhile [OF assms] by simp
  then have "length (dropWhile is_ws (c # cs)) \<le> length cs" by (simp add: length_dropWhile_le)
  also have "\<dots> < length s"
    using rest length_dropWhile_le [of "\<lambda>c. \<not> is_ws c" s] by simp
  finally show ?thesis using rest by simp
qed

function split_ws :: "string \<Rightarrow> string list" where
  "split_ws s =
     (let w = takeWhile (\<lambda>c. \<not> is_ws c) s; rest = dropWhile (\<lambda>c. \<not> is_ws c) s
      in if rest = [] then [w] else w # split_ws (dropWhile is_ws rest))"
  by auto
termination
  by (relation "measure length") (use drop_word_less in auto)

declare split_ws.simps [simp del]

definition redact_token :: "string \<Rightarrow> string" where
  "redact_token token =
     (if CHR ''?'' \<in> set token then takeWhile (\<lambda>c. c \<noteq> CHR ''?'') token @ ''?[REDACTED]'' else token)"

definition sanitizeErrorMessage :: "string \<Rightarrow> string" where
  "sanitizeErrorMessage msg =
     (let joined = js_join '' '' (map redact_token (split_ws msg))
      in if length joined > MAX_ERROR_MESSAGE_LEN
         then take MAX_ERROR_MESSAGE_LEN joined @ ''...[truncated]'' else joined)"

text \<open>The message logged for a thrown value, \<^verbatim>\<open>String(err)\<close> when it is not an \<^verbatim>\<open>Error\<close>.\<close>

definition rawMessage :: "js_error \<Rightarrow> string" where
  "rawMessage err = (case err of NonError v \<Rightarrow> js_String v | _ \<Rightarrow> error_message err)"

subsection \<open>One fetch\<close>

record server_env =
  se_api_url :: string
  se_host :: "string option"

definition safeBackendHost :: "server_env \<Rightarrow> string" where
  "safeBackendHost env = (case se_host env of Some h \<Rightarrow> h | None \<Rightarrow> ''invalid-backend-url'')"

record fetch_options =
  fo_method :: "http_method option"
  fo_body :: "string option"
  fo_access_token :: "string option"
  fo_cookie :: "string option"
  fo_silent_statuses :: "int list option"
  fo_timeout_ms :: "nat option"

datatype server_result =
    SrOk jsval
  | SrHttpError int
  | SrTimeout
  | SrAbort
  | SrNetworkError
  | SrInvalidJson

text \<open>The request that \<^verbatim>\<open>fetch\<close> is given.\<close>

record sent_request =
  sq_url :: string
  sq_method :: http_method
  sq_headers :: "(string \<times> string) list"
  sq_body :: "string option"

text \<open>What becomes of it; instants are milliseconds after the call.\<close>

datatype body_phase = BodyJson nat jsval | BodyReject nat js_error | BodyHang
datatype upstream = UpReject nat js_error | UpHang | UpHeaders nat int body_phase

definition DEFAULT_SERVER_FETCH_TIMEOUT_MS :: nat where
  "DEFAULT_SERVER_FETCH_TIMEOUT_MS = 5000"

definition method_name :: "http_method \<Rightarrow> string" where
  "method_name m = (case m of GET \<Rightarrow> ''GET'' | POST \<Rightarrow> ''POST'' | PUT \<Rightarrow> ''PUT'' | PATCH \<Rightarrow> ''PATCH'' | DELETE \<Rightarrow> ''DELETE'')"

text \<open>The error a fetch or a body read rejects with when its controller aborts.\<close>

definition abort_error :: js_error where
  "abort_error = PlainError ''AbortError'' ''This operation was aborted''"

definition request_headers :: "fetch_options \<Rightarrow> (string \<times> string) list" where
  "request_headers opts =
     (case fo_access_token opts of Some t \<Rightarrow> if t = [] then [] else [(''Authorization'', ''Bearer '' @ t)] | None \<Rightarrow> [])
   @ (case fo_cookie opts of Some c \<Rightarrow> if c = [] then [] else [(''Cookie'', c)] | None \<Rightarrow> [])
   @ (case fo_body opts of Some b \<Rightarrow> if b = [] then [] else [(''Content-Type'', ''application/json'')] | None \<Rightarrow> [])"

definition the_method :: "fetch_options \<Rightarrow> http_method" where
  "the_method opts = (case fo_method opts of Some m \<Rightarrow> m | None \<Rightarrow> GET)"

definition the_request :: "server_env \<Rightarrow> string \<Rightarrow> fetch_options \<Rightarrow> sent_request" where
  "the_request env path opts = \<lparr>sq_url = se_api_url env @ path, sq_method = the_method opts,
     sq_headers = request_headers opts, sq_body = fo_body opts\<rparr>"

type_synonym log_record = "log_level \<times> string \<times> (string \<times> jsval) list"

definition log_common :: "server_env \<Rightarrow> string \<Rightarrow> fetch_options \<Rightarrow> (string \<times> jsval) list" where
  "log_common env path opts =
     [(''backend_host'', JStr (safeBackendHost env)),
      (''method'', JStr (method_name (the_method opts))),
      (''path'', JStr (before_char CHR ''?'' path))]"

definition log_failed ::
    "server_env \<Rightarrow> string \<Rightarrow> fetch_options \<Rightarrow> js_error \<Rightarrow> string \<Rightarrow> nat \<Rightarrow> log_record" where
  "log_failed env path opts err reason timeoutMs =
     (LWarn, ''server_fetch_failed'', log_common env path opts @
        [(''error_name'', JStr (error_name err)),
         (''error_message'', JStr (sanitizeErrorMessage (rawMessage err))),
         (''reason'', JStr reason), (''timeout_ms'', JInt (int timeoutMs))])"

text \<open>The outer \<^verbatim>\<open>catch\<close>.\<close>

definition fetch_catch ::
    "server_env \<Rightarrow> string \<Rightarrow> fetch_options \<Rightarrow> nat \<Rightarrow> bool \<Rightarrow> js_error \<Rightarrow> server_result \<times> log_record list" where
  "fetch_catch env path opts timeoutMs timedOut err =
     (let (reason, kind) =
        (if timedOut then (''timeout'', SrTimeout)
         else if error_name err = ''AbortError'' \<or> error_name err = ''TimeoutError'' then (''abort'', SrAbort)
         else (''network_error'', SrNetworkError))
      in (kind, [log_failed env path opts err reason timeoutMs]))"

definition serverFetchResult ::
    "server_env \<Rightarrow> string \<Rightarrow> fetch_options \<Rightarrow> (sent_request \<Rightarrow> upstream) \<Rightarrow> server_result \<times> log_record list \<times> nat" where
  "serverFetchResult env path opts net =
     (let timeoutMs = (case fo_timeout_ms opts of Some t \<Rightarrow> t | None \<Rightarrow> DEFAULT_SERVER_FETCH_TIMEOUT_MS);
          aborted = (let (r, l) = fetch_catch env path opts timeoutMs True abort_error in (r, l, timeoutMs))
      in case net (the_request env path opts) of
           UpHang \<Rightarrow> aborted
         | UpReject d err \<Rightarrow>
             if d < timeoutMs then (let (r, l) = fetch_catch env path opts timeoutMs False err in (r, l, d)) else aborted
         | UpHeaders d status body \<Rightarrow>
             if \<not> d < timeoutMs then aborted
             else if \<not> (200 \<le> status \<and> status < 300) then
               (SrHttpError status,
                if status \<in> set (case fo_silent_statuses opts of Some ss \<Rightarrow> ss | None \<Rightarrow> []) then []
                else [(LWarn, ''server_fetch_non_ok'', log_common env path opts @ [(''status'', JInt status)])], d)
             else
               (let invalid = (\<lambda>err t. (SrInvalidJson, [log_failed env path opts err ''invalid_json'' timeoutMs], t))
                in case body of
                     BodyJson b v \<Rightarrow> if max d b < timeoutMs then (SrOk v, [], max d b) else invalid abort_error timeoutMs
                   | BodyReject b err \<Rightarrow> if max d b < timeoutMs then invalid err (max d b) else invalid abort_error timeoutMs
                   | BodyHang \<Rightarrow> invalid abort_error timeoutMs))"

definition serverFetch :: "server_env \<Rightarrow> string \<Rightarrow> fetch_options \<Rightarrow> (sent_request \<Rightarrow> upstream) \<Rightarrow> jsval option" where
  "serverFetch env path opts net = (case fst (serverFetchResult env path opts net) of SrOk v \<Rightarrow> Some v | _ \<Rightarrow> None)"

subsection \<open>The server session\<close>

definition VERIFY_TIMEOUT_MS :: nat where "VERIFY_TIMEOUT_MS = 5000"

datatype transient_reason = TrTimeout | TrNetwork | TrServerError | TrInvalidPayload

text \<open>An authenticated session carries the payload's user and access token.\<close>

datatype session_result =
    Authenticated jsval jsval
  | Unauthenticated_session
  | TransientSession transient_reason

definition verify_options :: "string \<Rightarrow> fetch_options" where
  "verify_options cookie = \<lparr>fo_method = Some POST, fo_body = None, fo_access_token = None,
     fo_cookie = Some (''refresh_token='' @ cookie), fo_silent_statuses = Some [401],
     fo_timeout_ms = Some VERIFY_TIMEOUT_MS\<rparr>"

definition session_of_result :: "server_result \<Rightarrow> session_result" where
  "session_of_result r = (case r of
      SrOk payload \<Rightarrow>
        if \<not> js_truthy payload \<or> \<not> js_truthy (js_get payload ''access_token'') \<or> \<not> js_truthy (js_get payload ''user'')
        then TransientSession TrInvalidPayload
        else Authenticated (js_get payload ''user'') (js_get payload ''access_token'')
    | SrHttpError st \<Rightarrow>
        if st = 401 \<or> st = 403 then Unauthenticated_session else TransientSession TrServerError
    | SrTimeout \<Rightarrow> TransientSession TrTimeout
    | SrAbort \<Rightarrow> TransientSession TrTimeout
    | SrNetworkError \<Rightarrow> TransientSession TrNetwork
    | SrInvalidJson \<Rightarrow> TransientSession TrInvalidPayload)"

definition getServerSessionResult :: "server_env \<Rightarrow> string option \<Rightarrow> (sent_request \<Rightarrow> upstream) \<Rightarrow> session_result" where
  "getServerSessionResult env cookie net = (case cookie of
      None \<Rightarrow> Unauthenticated_session
    | Some c \<Rightarrow> session_of_result (fst (serverFetchResult env ''/api/v1/auth/verify'' (verify_options c) net)))"

subsection \<open>Lemmas\<close>

lemma split_ws_join_cut:
  assumes "\<forall>c \<in> set s. \<not> is_ws c" and "is_ws w"
  shows "split_ws (s @ w # t) = s # split_ws (dropWhile is_ws t)"
  using assms by (subst split_ws.simps) (simp add: Let_def takeWhile_tail dropWhile_append2)

lemma split_ws_word: "\<forall>c \<in> set s. \<not> is_ws c \<Longrightarrow> split_ws s = [s]"
  by (subst split_ws.simps) (simp add: Let_def)

lemma redact_token_cut:
  "redact_token (a @ CHR ''?'' # s) = redact_token (a @ CHR ''?'' # s')"
  by (induction a) (auto simp: redact_token_def)

lemma sanitize_bound: "length (sanitizeErrorMessage msg) \<le> MAX_ERROR_MESSAGE_LEN + 14"
  by (simp add: sanitizeErrorMessage_def Let_def MAX_ERROR_MESSAGE_LEN_def)

end
