(* ===== verification/Server_Props.thy ===== *)
theory Server_Props
  imports Server_Fetch
begin

section \<open>What the server-side fetch guarantees\<close>

text \<open>
  Bounded settlement, paths logged without their query, redaction of query strings in error
  messages and what it does not catch, and the classification of a session: no transient
  failure of the backend reads as a logged-out user.
\<close>

definition budget :: "fetch_options \<Rightarrow> nat" where
  "budget opts = (case fo_timeout_ms opts of Some t \<Rightarrow> t | None \<Rightarrow> DEFAULT_SERVER_FETCH_TIMEOUT_MS)"

text \<open>a server-side fetch always settles by its budget, whatever the backend does,
  with a result whenever the network was done in time.\<close>

theorem server_fetch_settles:
  "snd (snd (serverFetchResult env path opts net)) \<le> budget opts
   \<and> (\<forall>v. fst (serverFetchResult env path opts net) = SrOk v \<longleftrightarrow>
        (\<exists>d st b. net (the_request env path opts) = UpHeaders d st (BodyJson b v) \<and> 200 \<le> st \<and> st < 300
            \<and> d < budget opts \<and> b < budget opts))"
  by (auto simp: serverFetchResult_def fetch_catch_def budget_def Let_def
      split: upstream.split body_phase.split option.split)

lemma server_fetch_settles_witness:
  "snd (snd (serverFetchResult \<lparr>se_api_url = ''http://api'', se_host = None\<rparr> ''/x'' (verify_options ''c'') (\<lambda>_. UpHang))) \<le> 5000"
  using server_fetch_settles [of "\<lparr>se_api_url = ''http://api'', se_host = None\<rparr>" "''/x''" "verify_options ''c''" "\<lambda>_. UpHang"]
  by (simp add: budget_def verify_options_def VERIFY_TIMEOUT_MS_def)

text \<open>Every record that is logged names the path without its query.\<close>

theorem logged_path_has_no_query:
  assumes "(l, ev, entries) \<in> set (fst (snd (serverFetchResult env path opts net)))"
  shows "\<exists>p. map_of entries ''path'' = Some (JStr p) \<and> CHR ''?'' \<notin> set p \<and> js_starts_with path p"
proof -
  have "\<exists>rest. entries = log_common env path opts @ rest"
    using assms by (auto simp: serverFetchResult_def fetch_catch_def log_failed_def Let_def
        split: upstream.splits body_phase.splits option.splits if_splits)
  then have "map_of entries ''path'' = Some (JStr (before_char CHR ''?'' path))" by (auto simp: log_common_def)
  moreover have "js_starts_with path (before_char CHR ''?'' path)"
    by (metis before_char_takeWhile takeWhile_dropWhile_id js_starts_with_append)
  ultimately show ?thesis using before_char_free by blast
qed

lemma dropWhile_stop: "\<not> P y \<Longrightarrow> dropWhile P (xs @ y # ys) = dropWhile P xs @ y # ys"
  by (induction xs) auto

lemma split_ws_cut:
  assumes "\<exists>c \<in> set p. is_ws c" and "\<not> is_ws q"
  shows "split_ws (p @ q # u) = takeWhile (\<lambda>c. \<not> is_ws c) p
    # split_ws (dropWhile is_ws (dropWhile (\<lambda>c. \<not> is_ws c) p) @ q # u)"
proof -
  obtain c where c: "c \<in> set p" "is_ws c" using assms(1) by blast
  have "takeWhile (\<lambda>c. \<not> is_ws c) (p @ q # u) = takeWhile (\<lambda>c. \<not> is_ws c) p"
    by (rule takeWhile_append1 [OF c(1)]) (simp add: c)
  moreover have "dropWhile (\<lambda>c. \<not> is_ws c) (p @ q # u) = dropWhile (\<lambda>c. \<not> is_ws c) p @ q # u"
    by (rule dropWhile_append1 [OF c(1)]) (simp add: c)
  ultimately show ?thesis
    by (subst split_ws.simps) (simp add: Let_def dropWhile_stop assms(2))
qed

lemma split_ws_query:
  assumes "\<forall>c \<in> set s. \<not> is_ws c" and "\<forall>c \<in> set s'. \<not> is_ws c" and "rest = [] \<or> is_ws (hd rest)"
  shows "map redact_token (split_ws (p @ CHR ''?'' # s @ rest)) = map redact_token (split_ws (p @ CHR ''?'' # s' @ rest))"
proof (induction p rule: split_ws.induct)
  case (1 p)
  have q: "\<not> is_ws CHR ''?''" by (simp add: is_ws_def)
  show ?case
  proof (cases "\<exists>c \<in> set p. is_ws c")
    case False
    then have word: "\<forall>c \<in> set (p @ CHR ''?'' # s). \<not> is_ws c" "\<forall>c \<in> set (p @ CHR ''?'' # s'). \<not> is_ws c"
      using assms q by auto
    show ?thesis
    proof (cases rest)
      case Nil
      then show ?thesis
        using split_ws_word [OF word(1)] split_ws_word [OF word(2)] redact_token_cut [of p s s'] by simp
    next
      case (Cons w t)
      then have "is_ws w" using assms(3) by simp
      then show ?thesis
        using split_ws_join_cut [OF word(1)] split_ws_join_cut [OF word(2)] redact_token_cut [of p s s'] Cons by simp
    qed
  next
    case True
    then have ne: "dropWhile (\<lambda>c. \<not> is_ws c) p \<noteq> []" by (auto simp: dropWhile_eq_Nil_conv)
    show ?thesis unfolding split_ws_cut [OF True q] list.map using 1 [OF refl refl ne] by simp
  qed
qed

text \<open>an error message that quotes a URL does not leak its query string: the text between
  a question mark and the end of its word has no influence on what is logged, and the
  logged message has bounded length.\<close>

theorem error_message_redacted:
  assumes "\<forall>c \<in> set s. \<not> is_ws c" and "\<forall>c \<in> set s'. \<not> is_ws c" and "rest = [] \<or> is_ws (hd rest)"
  shows "sanitizeErrorMessage (p @ ''?'' @ s @ rest) = sanitizeErrorMessage (p @ ''?'' @ s' @ rest)
    \<and> length (sanitizeErrorMessage (p @ ''?'' @ s @ rest)) \<le> MAX_ERROR_MESSAGE_LEN + 14"
  using split_ws_query [OF assms, of p] sanitize_bound by (simp add: sanitizeErrorMessage_def)

lemma error_message_redacted_witness:
  "sanitizeErrorMessage (''GET /api'' @ ''?'' @ ''t=SECRET'' @ '' failed'')
     = sanitizeErrorMessage (''GET /api'' @ ''?'' @ ''t=OTHER'' @ '' failed'')"
proof -
  have "\<forall>c \<in> set ''t=SECRET''. \<not> is_ws c" "\<forall>c \<in> set ''t=OTHER''. \<not> is_ws c"
    "'' failed'' = [] \<or> is_ws (hd '' failed'')"
    by (simp_all add: is_ws_def)
  from error_message_redacted [OF this, of "''GET /api''"] show ?thesis by blast
qed

text \<open>
  What the redaction does not catch: \<^verbatim>\<open>fetch\<close> rejects a header with an illegal value, and a message
  of its that quotes the value is logged as it is. A cookie is stored percent-encoded and handed
  to the request decoded, so it can have such a value.
\<close>

definition quoting :: "sent_request \<Rightarrow> upstream" where
  "quoting rq = UpReject 0 (PlainError ''TypeError'' (snd (hd (sq_headers rq)) @ '' is an invalid header value.''))"

lemma sanitize_words:
  assumes "c \<noteq> []" and "\<forall>x \<in> set c. \<not> is_ws x \<and> x \<noteq> CHR ''?''" and "length c \<le> 400"
  shows "sanitizeErrorMessage (c @ '' is an invalid header value.'') = c @ '' is an invalid header value.''"
proof -
  have "split_ws (c @ '' is an invalid header value.'') = c # split_ws ''is an invalid header value.''"
    using split_ws_join_cut [of c "CHR '' ''" "''is an invalid header value.''"] assms(2) by (simp add: is_ws_def)
  moreover have "split_ws ''is an invalid header value.'' = [''is'', ''an'', ''invalid'', ''header'', ''value.'']" by code_simp
  moreover have "redact_token c = c" using assms(2) by (auto simp: redact_token_def)
  ultimately show ?thesis
    using assms(3) by (simp add: sanitizeErrorMessage_def redact_token_def Let_def MAX_ERROR_MESSAGE_LEN_def)
qed

theorem rejected_cookie_is_logged:
  assumes "\<forall>x \<in> set c. \<not> is_ws x \<and> x \<noteq> CHR ''?''" and "length c \<le> 300"
  shows "\<exists>entries. serverFetchResult env ''/api/v1/auth/verify'' (verify_options c) quoting
      = (SrNetworkError, [(LWarn, ''server_fetch_failed'', entries)], 0)
    \<and> map_of entries ''error_message'' = Some (JStr (''refresh_token='' @ c @ '' is an invalid header value.''))"
proof -
  define m where "m = ''refresh_token='' @ c"
  have m: "m \<noteq> []" "\<forall>x \<in> set m. \<not> is_ws x \<and> x \<noteq> CHR ''?''" "length m \<le> 400"
    using assms by (auto simp: m_def is_ws_def)
  have "the_request env ''/api/v1/auth/verify'' (verify_options c) = \<lparr>sq_url = se_api_url env @ ''/api/v1/auth/verify'',
      sq_method = POST, sq_headers = [(''Cookie'', m)], sq_body = None\<rparr>"
    by (simp add: the_request_def request_headers_def verify_options_def the_method_def m_def)
  then have q: "quoting (the_request env ''/api/v1/auth/verify'' (verify_options c))
      = UpReject 0 (PlainError ''TypeError'' (m @ '' is an invalid header value.''))"
    by (simp only: quoting_def) simp
  have "''refresh_token='' @ c @ '' is an invalid header value.'' = m @ '' is an invalid header value.''" by (simp add: m_def)
  then show ?thesis
    by (simp only: serverFetchResult_def q)
      (simp add: fetch_catch_def log_failed_def log_common_def rawMessage_def error_message_def error_name_def
        sanitize_words [OF m] verify_options_def VERIFY_TIMEOUT_MS_def Let_def)
qed

text \<open>C19: A user is taken for logged out only when there is no refresh cookie or the backend answered the
  verification of that cookie with 401 or 403 in time; a timeout, a rejected fetch, a 5xx or a
  malformed payload all leave the session transient. A user counts as signed in only with a
  2xx answer whose body came in time and has a user and a token, which are the session's.\<close>

theorem session_classification:
  "(getServerSessionResult env cookie net = Unauthenticated_session \<longleftrightarrow> cookie = None
      \<or> (\<exists>c d st b. cookie = Some c \<and> net (the_request env ''/api/v1/auth/verify'' (verify_options c)) = UpHeaders d st b
          \<and> d < VERIFY_TIMEOUT_MS \<and> (st = 401 \<or> st = 403)))
   \<and> (\<forall>u t. getServerSessionResult env cookie net = Authenticated u t \<longleftrightarrow>
      js_truthy u \<and> js_truthy t \<and> (\<exists>c d st b v. cookie = Some c
          \<and> net (the_request env ''/api/v1/auth/verify'' (verify_options c)) = UpHeaders d st (BodyJson b v)
          \<and> d < VERIFY_TIMEOUT_MS \<and> b < VERIFY_TIMEOUT_MS \<and> 200 \<le> st \<and> st < 300
          \<and> js_truthy v \<and> u = js_get v ''user'' \<and> t = js_get v ''access_token''))"
  by (cases cookie; cases "net (the_request env ''/api/v1/auth/verify'' (verify_options (the cookie)))")
    (auto simp: getServerSessionResult_def serverFetchResult_def session_of_result_def fetch_catch_def
      verify_options_def Let_def not_less split: body_phase.splits if_splits)

lemma session_classification_witness:
  "getServerSessionResult \<lparr>se_api_url = ''http://api'', se_host = None\<rparr> (Some ''c'') (\<lambda>_. UpHang) \<noteq> Unauthenticated_session"
  using session_classification [of "\<lparr>se_api_url = ''http://api'', se_host = None\<rparr>" "Some ''c''" "\<lambda>_. UpHang"] by simp

text \<open>a body that stalls until the timer aborts it is reported as invalid JSON, and the
  session as an invalid payload: the \<^verbatim>\<open>timeout\<close> result covers only the wait for headers.\<close>

theorem stalled_body_is_invalid_json:
  assumes "d < budget opts" and "200 \<le> st" and "st < 300"
  shows "fst (serverFetchResult env path opts (\<lambda>_. UpHeaders d st BodyHang)) = SrInvalidJson
    \<and> (\<exists>entries. fst (snd (serverFetchResult env path opts (\<lambda>_. UpHeaders d st BodyHang)))
           = [(LWarn, ''server_fetch_failed'', entries)] \<and> map_of entries ''reason'' = Some (JStr ''invalid_json''))
    \<and> fst (serverFetchResult env path opts (\<lambda>_. UpHang)) = SrTimeout"
  using assms
  by (simp add: serverFetchResult_def budget_def fetch_catch_def log_failed_def log_common_def Let_def)

lemma stalled_body_is_invalid_json_witness:
  "fst (serverFetchResult \<lparr>se_api_url = ''http://api'', se_host = None\<rparr> ''/api/v1/auth/verify'' (verify_options ''c'') (\<lambda>_. UpHeaders 10 200 BodyHang)) = SrInvalidJson"
  using stalled_body_is_invalid_json [of 10 "verify_options ''c''" 200 "\<lparr>se_api_url = ''http://api'', se_host = None\<rparr>" "''/api/v1/auth/verify''"]
  by (simp add: budget_def verify_options_def VERIFY_TIMEOUT_MS_def)

text \<open>on a server runtime every log call is exactly one line, whatever the event and the
  data contain: no control character gets through, so no caller can forge a second line.\<close>

theorem server_log_is_one_line:
  "\<not> rn_window rt \<Longrightarrow> (case log_emit rt timestamp level event data of
      StdoutWrite s \<Rightarrow> level \<noteq> LError \<and> (\<exists>l. s = l @ [CHR 0x0A] \<and> printable l)
    | StderrWrite s \<Rightarrow> level = LError \<and> (\<exists>l. s = l @ [CHR 0x0A] \<and> printable l)
    | ConsoleLine m l \<Rightarrow> m = consoleMethodFor level \<and> printable l
    | BrowserConsole _ _ _ \<Rightarrow> False)"
  by (simp add: log_emit_def Let_def printable_stringify)

lemma server_log_is_one_line_witness:
  "\<exists>l. log_emit \<lparr>rn_window = False, rn_next_runtime = Some ''nodejs'', rn_stdout = True, rn_stderr = True\<rparr>
      ''t'' LInfo [CHR 0x0A] None = StdoutWrite (l @ [CHR 0x0A]) \<and> printable l"
  using server_log_is_one_line [of "\<lparr>rn_window = False, rn_next_runtime = Some ''nodejs'', rn_stdout = True, rn_stderr = True\<rparr>"
      LInfo "''t''" "[CHR 0x0A]" None]
  by (auto simp: log_emit_def Let_def)

end
