(* ===== verification/Security_Headers.thy ===== *)
theory Security_Headers
  imports Prelude
begin

section \<open>The security header pack (lib/security-headers.ts, lib/nonce.ts, lib/links.ts)\<close>

text \<open>
  The content security policy as a function of the build (development or production),
  the origin of \<^verbatim>\<open>NEXT_PUBLIC_API_URL\<close> (the URL parser is the platform's, its answer a
  field of the build) and the nonce; the header pack; the nonce reader; and the CTA links
  of the two build targets.
\<close>

record build_env =
  be_dev :: bool
  be_api_origin :: "string option"
  be_apex :: bool
  be_app_url :: "string option"

text \<open>A keyword of a policy, in single quotes.\<close>

definition sq :: "string \<Rightarrow> string" where
  "sq s = [CHR 0x27] @ s @ [CHR 0x27]"

definition apiOrigin :: "build_env \<Rightarrow> string" where
  "apiOrigin env = (case be_api_origin env of Some origin \<Rightarrow> origin | None \<Rightarrow> [])"

definition connect_src :: "build_env \<Rightarrow> string" where
  "connect_src env = ''connect-src '' @ sq ''self''
     @ (if apiOrigin env \<noteq> [] then '' '' @ apiOrigin env else [])
     @ (if be_dev env then '' ws: wss:'' else [])"

definition script_src :: "build_env \<Rightarrow> string \<Rightarrow> string" where
  "script_src env nonce =
     (if be_dev env
      then js_join '' '' [''script-src'', sq ''self'', sq (''nonce-'' @ nonce), sq ''strict-dynamic'',
             sq ''unsafe-inline'', sq ''unsafe-eval'']
      else js_join '' '' [''script-src'', sq ''self'', sq (''nonce-'' @ nonce), sq ''strict-dynamic''])"

definition style_src :: "build_env \<Rightarrow> string \<Rightarrow> string" where
  "style_src env nonce =
     (if be_dev env
      then js_join '' '' [''style-src'', sq ''self'', sq (''nonce-'' @ nonce), sq ''unsafe-inline'',
             ''https://fonts.googleapis.com'']
      else js_join '' '' [''style-src'', sq ''self'', sq (''nonce-'' @ nonce), ''https://fonts.googleapis.com''])"

definition csp_directive_list :: "build_env \<Rightarrow> string \<Rightarrow> string list" where
  "csp_directive_list env nonce =
     [''default-src '' @ sq ''self'', script_src env nonce, style_src env nonce,
      ''style-src-attr '' @ sq ''unsafe-inline'',
      ''img-src '' @ sq ''self'' @ '' data: blob:'',
      ''font-src '' @ sq ''self'' @ '' data: https://fonts.gstatic.com'',
      connect_src env,
      ''frame-ancestors '' @ sq ''none'', ''base-uri '' @ sq ''self'', ''form-action '' @ sq ''self'',
      ''object-src '' @ sq ''none'', ''upgrade-insecure-requests'']"

definition buildCspDirectives :: "build_env \<Rightarrow> string \<Rightarrow> string" where
  "buildCspDirectives env nonce = js_join ''; '' (csp_directive_list env nonce)"

text \<open>The fallback without a nonce.\<close>

definition cspDirectives :: "build_env \<Rightarrow> string" where
  "cspDirectives env = js_join ''; ''
     [''default-src '' @ sq ''self'',
      ''script-src '' @ sq ''self''
        @ (if be_dev env then '' '' @ sq ''unsafe-inline'' @ '' '' @ sq ''unsafe-eval'' else []),
      ''style-src '' @ sq ''self'' @ '' '' @ sq ''unsafe-inline'' @ '' https://fonts.googleapis.com'',
      ''style-src-attr '' @ sq ''unsafe-inline'',
      ''img-src '' @ sq ''self'' @ '' data: blob:'',
      ''font-src '' @ sq ''self'' @ '' data: https://fonts.gstatic.com'',
      connect_src env,
      ''frame-ancestors '' @ sq ''none'', ''base-uri '' @ sq ''self'', ''form-action '' @ sq ''self'',
      ''object-src '' @ sq ''none'', ''upgrade-insecure-requests'']"

definition securityHeaders :: "build_env \<Rightarrow> (string \<times> string) list" where
  "securityHeaders env =
     [(''Content-Security-Policy'', cspDirectives env),
      (''X-Frame-Options'', ''DENY''),
      (''X-Content-Type-Options'', ''nosniff''),
      (''Referrer-Policy'', ''strict-origin-when-cross-origin''),
      (''Permissions-Policy'', ''camera=(), microphone=(), geolocation=(), interest-cohort=()''),
      (''Strict-Transport-Security'', ''max-age=63072000; includeSubDomains; preload''),
      (''Cross-Origin-Opener-Policy'', ''same-origin''),
      (''Cross-Origin-Resource-Policy'', ''same-origin'')]"

definition securityHeadersTuplesWithNonce :: "build_env \<Rightarrow> string \<Rightarrow> (string \<times> string) list" where
  "securityHeadersTuplesWithNonce env nonce =
     map (\<lambda>(key, val). if key = ''Content-Security-Policy'' then (key, buildCspDirectives env nonce) else (key, val))
       (securityHeaders env)"

definition securityHeadersTuples :: "build_env \<Rightarrow> (string \<times> string) list" where
  "securityHeadersTuples env = map (\<lambda>(key, val). (key, val)) (securityHeaders env)"

subsection \<open>Nonce reader and links\<close>

text \<open>\<open>hdrs\<close> is what \<^verbatim>\<open>headers()\<close> gives: the request headers, or a throw outside a request.\<close>

definition readNonce :: "build_env \<Rightarrow> (string \<times> string) list option \<Rightarrow> string" where
  "readNonce env hdrs =
     (if be_apex env then []
      else (case hdrs of
              Some hs \<Rightarrow> (case map_of hs ''x-nonce'' of Some n \<Rightarrow> n | None \<Rightarrow> [])
            | None \<Rightarrow> []))"

definition BRAND_APP_URL :: "build_env \<Rightarrow> string" where
  "BRAND_APP_URL env =
     (let raw = js_trim (case be_app_url env of Some u \<Rightarrow> u | None \<Rightarrow> []);
          url = (if raw \<noteq> [] then raw else ''https://app.thebetterdecision.com'')
      in if last url = CHR ''/'' then butlast url else url)"

definition joinAppUrl :: "build_env \<Rightarrow> string \<Rightarrow> string" where
  "joinAppUrl env path =
     (if \<not> js_starts_with path ''/'' then BRAND_APP_URL env @ ''/'' @ path else BRAND_APP_URL env @ path)"

definition ctaHref :: "build_env \<Rightarrow> string \<Rightarrow> string" where
  "ctaHref env path = (if be_apex env then joinAppUrl env path else path)"

definition signupHref :: "build_env \<Rightarrow> string" where "signupHref env = ctaHref env ''/register''"
definition signinHref :: "build_env \<Rightarrow> string" where "signinHref env = ctaHref env ''/login''"

subsection \<open>Lemmas\<close>

lemma header_pack_names: "map fst (securityHeadersTuplesWithNonce env nonce) = map fst (securityHeaders env)"
  by (simp add: securityHeadersTuplesWithNonce_def securityHeaders_def)

lemma header_pack_csp:
  "map_of (securityHeadersTuplesWithNonce env nonce) ''Content-Security-Policy'' = Some (buildCspDirectives env nonce)"
  by (simp add: securityHeadersTuplesWithNonce_def securityHeaders_def)

lemma script_src_in_csp: "js_includes (buildCspDirectives env nonce) (script_src env nonce)"
proof -
  have "buildCspDirectives env nonce = (''default-src '' @ sq ''self'' @ ''; '') @ script_src env nonce
      @ ''; '' @ js_join ''; '' (drop 2 (csp_directive_list env nonce))"
    by (simp add: buildCspDirectives_def csp_directive_list_def)
  then show ?thesis by (metis js_includes_append)
qed

end
