(* ===== verification/Proxy.thy ===== *)
theory Proxy
  imports Security_Headers Json Base64
begin

section \<open>The request proxy (proxy.ts)\<close>

text \<open>
  The middleware that runs before every page: it coerces the request id, draws a nonce,
  redirects the app host's root, stamps the header pack and writes one access-log line.
  \<^verbatim>\<open>URLSearchParams\<close> is modelled on bytes: the query of a parsed URL is ASCII, its
  percent escapes decode to bytes. Header lists hold lower-case names, one entry each.
  The random bytes of the nonce, the random UUID and the clock are parameters.
\<close>

definition APP_HOST :: string where "APP_HOST = ''app.thebetterdecision.com''"

subsection \<open>Nonce and request id\<close>

definition generateNonce :: "char list \<Rightarrow> string" where
  "generateNonce bytes = btoa bytes"

definition REQUEST_ID_MAX_LEN :: nat where "REQUEST_ID_MAX_LEN = 64"

definition request_id_char :: "char \<Rightarrow> bool" where
  "request_id_char c = (let n = of_char c :: nat in
     (48 \<le> n \<and> n \<le> 57) \<or> (65 \<le> n \<and> n \<le> 90) \<or> (97 \<le> n \<and> n \<le> 122) \<or> n = 95 \<or> n = 46 \<or> n = 45)"

definition REQUEST_ID_RE :: "string \<Rightarrow> bool" where
  "REQUEST_ID_RE s = (s \<noteq> [] \<and> list_all request_id_char s)"

definition coerceRequestId :: "string \<Rightarrow> string option \<Rightarrow> string" where
  "coerceRequestId uuid raw = (case raw of
      Some r \<Rightarrow> if r \<noteq> [] \<and> length r > 0 \<and> length r \<le> REQUEST_ID_MAX_LEN \<and> REQUEST_ID_RE r then r
               else filter (\<lambda>c. c \<noteq> CHR ''-'') uuid
    | None \<Rightarrow> filter (\<lambda>c. c \<noteq> CHR ''-'') uuid)"

subsection \<open>Query strings\<close>

definition hex_nibble :: "char \<Rightarrow> nat option" where
  "hex_nibble c = (let n = of_char c :: nat in
     if 48 \<le> n \<and> n \<le> 57 then Some (n - 48)
     else if 65 \<le> n \<and> n \<le> 70 then Some (n - 55)
     else if 97 \<le> n \<and> n \<le> 102 then Some (n - 87) else None)"

fun percent_decode :: "string \<Rightarrow> string" where
  "percent_decode (c # a # b # cs) =
     (case (hex_nibble a, hex_nibble b) of
        (Some x, Some y) \<Rightarrow> if c = CHR ''%'' then char_of (16 * x + y) # percent_decode cs
                           else c # percent_decode (a # b # cs)
      | _ \<Rightarrow> c # percent_decode (a # b # cs))"
| "percent_decode (c # cs) = c # percent_decode cs"
| "percent_decode [] = []"

definition form_decode :: "string \<Rightarrow> string" where
  "form_decode s = percent_decode (map (\<lambda>c. if c = CHR ''+'' then CHR '' '' else c) s)"

definition parse_pair :: "string \<Rightarrow> string \<times> string" where
  "parse_pair s = (form_decode (takeWhile (\<lambda>c. c \<noteq> CHR ''='') s),
                   form_decode (tl (dropWhile (\<lambda>c. c \<noteq> CHR ''='') s)))"

definition parse_query :: "string \<Rightarrow> (string \<times> string) list" where
  "parse_query search =
     (let q = (case search of c # cs \<Rightarrow> if c = CHR ''?'' then cs else search | [] \<Rightarrow> [])
      in map parse_pair (filter (\<lambda>p. p \<noteq> []) (js_split CHR ''&'' q)))"

definition upper_hex :: "nat \<Rightarrow> char" where
  "upper_hex n = (if n < 10 then char_of (48 + n) else char_of (55 + n))"

definition form_safe :: "char \<Rightarrow> bool" where
  "form_safe c = (let n = of_char c :: nat in
     (48 \<le> n \<and> n \<le> 57) \<or> (65 \<le> n \<and> n \<le> 90) \<or> (97 \<le> n \<and> n \<le> 122)
     \<or> n = 42 \<or> n = 45 \<or> n = 46 \<or> n = 95)"

definition form_encode_char :: "char \<Rightarrow> string" where
  "form_encode_char c =
     (if form_safe c then [c] else if c = CHR '' '' then ''+''
      else [CHR ''%'', upper_hex (of_char c div 16), upper_hex (of_char c mod 16)])"

definition form_encode :: "string \<Rightarrow> string" where
  "form_encode s = concat (map form_encode_char s)"

definition serialize_query :: "(string \<times> string) list \<Rightarrow> string" where
  "serialize_query ps = js_join ''&'' (map (\<lambda>(k, v). form_encode k @ ''='' @ form_encode v) ps)"

definition SENSITIVE_PARAMS :: "string list" where
  "SENSITIVE_PARAMS = [''token'', ''code'', ''access_token'', ''refresh_token'', ''mfa_token'', ''key'', ''secret'', ''password'']"

definition sensitive :: "string \<Rightarrow> bool" where
  "sensitive k = (js_to_lower k \<in> set SENSITIVE_PARAMS)"

text \<open>\<^verbatim>\<open>params.set(k, v)\<close>: the first entry is replaced, later ones are removed.\<close>

fun params_set :: "string \<Rightarrow> string \<Rightarrow> (string \<times> string) list \<Rightarrow> (string \<times> string) list" where
  "params_set k v [] = [(k, v)]"
| "params_set k v (p # ps) = (if fst p = k then (k, v) # filter (\<lambda>q. fst q \<noteq> k) ps else p # params_set k v ps)"

text \<open>
  The loop over \<^verbatim>\<open>params.keys()\<close> is live: the iterator is an index into a list that the
  body shrinks.
\<close>

lemma params_set_length: "(k, w) \<in> set ps \<Longrightarrow> length (params_set k v ps) \<le> length ps"
  by (induction ps) (auto simp: le_imp_less_Suc)

function redact_from :: "nat \<Rightarrow> (string \<times> string) list \<Rightarrow> (string \<times> string) list" where
  "redact_from i ps =
     (if length ps \<le> i then ps
      else if sensitive (fst (ps ! i)) then redact_from (Suc i) (params_set (fst (ps ! i)) ''[REDACTED]'' ps)
      else redact_from (Suc i) ps)"
  by auto
termination
proof (relation "measure (\<lambda>(i, ps). length ps - i)", simp, goal_cases)
  case (1 i ps)
  then have "(fst (ps ! i), snd (ps ! i)) \<in> set ps" by simp
  then have "length (params_set (fst (ps ! i)) ''[REDACTED]'' ps) \<le> length ps" by (rule params_set_length)
  with 1 show ?case by simp
qed auto

declare redact_from.simps [simp del]

definition sanitizeQuery :: "string \<Rightarrow> string option" where
  "sanitizeQuery search =
     (if search = [] then None
      else (let result = serialize_query (redact_from 0 (parse_query search))
            in if result = [] then None else Some result))"

subsection \<open>The proxy\<close>

record proxy_request =
  pq_method :: string
  pq_pathname :: string
  pq_search :: string
  pq_headers :: "(string \<times> string) list"

text \<open>\<^verbatim>\<open>headers.set\<close> and \<^verbatim>\<open>headers.get\<close>: names compare without case.\<close>

definition header_set :: "(string \<times> string) list \<Rightarrow> string \<times> string \<Rightarrow> (string \<times> string) list" where
  "header_set hs nv =
     (let n = js_to_lower (fst nv)
      in if n \<in> fst ` set hs then map (\<lambda>p. if fst p = n then (n, snd nv) else p) hs else hs @ [(n, snd nv)])"

definition header_get :: "(string \<times> string) list \<Rightarrow> string \<Rightarrow> string option" where
  "header_get hs n = map_of hs (js_to_lower n)"

definition applySecurityHeaders :: "build_env \<Rightarrow> string \<Rightarrow> (string \<times> string) list \<Rightarrow> (string \<times> string) list" where
  "applySecurityHeaders env nonce hs = foldl header_set hs (securityHeadersTuplesWithNonce env nonce)"

definition clientIp :: "proxy_request \<Rightarrow> string" where
  "clientIp request =
     (let fallback = (case header_get (pq_headers request) ''x-real-ip'' of
            Some ip \<Rightarrow> if ip = [] then ''unknown'' else ip | None \<Rightarrow> ''unknown'')
      in case header_get (pq_headers request) ''x-forwarded-for'' of
           Some xff \<Rightarrow> if xff = [] then fallback else js_trim (hd (js_split CHR '','' xff))
         | None \<Rightarrow> fallback)"

datatype proxy_response =
    ProxyRedirect int string string "(string \<times> string) list"
  | ProxyNext "(string \<times> string) list" "(string \<times> string) list"

fun response_headers :: "proxy_response \<Rightarrow> (string \<times> string) list" where
  "response_headers (ProxyRedirect _ _ _ hs) = hs"
| "response_headers (ProxyNext _ hs) = hs"

definition js_of_option :: "string option \<Rightarrow> jsval" where
  "js_of_option s = (case s of Some x \<Rightarrow> JStr x | None \<Rightarrow> JUndef)"

definition js_or_undefined :: "string option \<Rightarrow> jsval" where
  "js_or_undefined s = (case s of Some x \<Rightarrow> if x = [] then JUndef else JStr x | None \<Rightarrow> JUndef)"

definition access_entry :: "string \<Rightarrow> string \<Rightarrow> proxy_request \<Rightarrow> (string \<times> jsval) list" where
  "access_entry timestamp requestId request = filter (\<lambda>(_, v). v \<noteq> JUndef)
     [(''timestamp'', JStr timestamp), (''level'', JStr ''info''), (''logger'', JStr ''frontend.access''),
      (''request_id'', JStr requestId), (''method'', JStr (pq_method request)),
      (''path'', JStr (pq_pathname request)), (''query'', js_of_option (sanitizeQuery (pq_search request))),
      (''remote_addr'', JStr (clientIp request)),
      (''user_agent'', js_or_undefined (header_get (pq_headers request) ''user-agent'')),
      (''referer'', js_or_undefined (header_get (pq_headers request) ''referer''))]"

text \<open>The response and the log line, which a redirect does not write.\<close>

definition proxy ::
    "build_env \<Rightarrow> char list \<Rightarrow> string \<Rightarrow> string \<Rightarrow> proxy_request \<Rightarrow> proxy_response \<times> string option" where
  "proxy env bytes uuid timestamp request =
     (let requestId = coerceRequestId uuid (header_get (pq_headers request) ''x-request-id'');
          nonce = generateNonce bytes
      in if pq_pathname request = ''/'' \<and> header_get (pq_headers request) ''host'' = Some APP_HOST then
           (ProxyRedirect 307 ''/login'' (pq_search request)
              (applySecurityHeaders env nonce (header_set [] (''x-request-id'', requestId))), None)
         else
           (let csp = buildCspDirectives env nonce;
                requestHeaders = header_set (header_set (header_set (pq_headers request)
                    (''x-request-id'', requestId)) (''x-nonce'', nonce)) (''Content-Security-Policy'', csp)
            in (ProxyNext requestHeaders
                  (applySecurityHeaders env nonce (header_set [] (''x-request-id'', requestId))),
                Some (json_stringify (JObj (access_entry timestamp requestId request))))))"

end
