(* ===== verification/Proxy_Props.thy ===== *)
theory Proxy_Props
  imports Proxy
begin

section \<open>What the proxy guarantees\<close>

text \<open>
  The redaction loop against a reference definition, its independence of the redacted
  values, the header pack on every response, nonce and request id well formed, and the
  production policy; last, what the access log still carries.
\<close>

subsection \<open>The redaction loop\<close>

text \<open>
  Reference: one pass that keeps the other parameters and the first entry of every
  sensitive name, redacted.
\<close>

fun redact_spec :: "string set \<Rightarrow> (string \<times> string) list \<Rightarrow> (string \<times> string) list" where
  "redact_spec seen [] = []"
| "redact_spec seen ((k, v) # ps) =
     (if \<not> sensitive k then (k, v) # redact_spec seen ps
      else if k \<in> seen then redact_spec seen ps
      else (k, ''[REDACTED]'') # redact_spec (insert k seen) ps)"

definition redact_head :: "(string \<times> string) list \<Rightarrow> bool" where
  "redact_head ps \<longleftrightarrow> (\<forall>(k, v) \<in> set ps. sensitive k \<longrightarrow> v = ''[REDACTED]'')"

lemma params_set_append:
  "k \<notin> fst ` set xs \<Longrightarrow> params_set k v (xs @ (k, w) # ys) = xs @ (k, v) # filter (\<lambda>q. fst q \<noteq> k) ys"
  by (induction xs) auto

lemma redact_spec_filter:
  "sensitive k \<Longrightarrow> redact_spec (insert k seen) ps = redact_spec seen (filter (\<lambda>q. fst q \<noteq> k) ps)"
proof (induction ps arbitrary: seen)
  case (Cons p ps)
  obtain j v where p: "p = (j, v)" by (cases p)
  show ?case
    using Cons.IH [OF Cons.prems, of "insert j seen"] Cons.IH [OF Cons.prems, of seen] Cons.prems
    by (simp add: p insert_commute)
qed simp

lemma redact_from_append:
  assumes "\<forall>k. sensitive k \<longrightarrow> k \<in> fst ` set xs \<longrightarrow> k \<notin> fst ` set ys"
  shows "redact_from (length xs) (xs @ ys) = xs @ redact_spec {} ys"
  using assms
proof (induction "length ys" arbitrary: xs ys rule: less_induct)
  case less
  show ?case
  proof (cases ys)
    case Nil
    then show ?thesis by (subst redact_from.simps) simp
  next
    case (Cons p zs)
    obtain k v where p: "p = (k, v)" by (cases p)
    show ?thesis
    proof (cases "sensitive k")
      case True
      let ?zs = "filter (\<lambda>q. fst q \<noteq> k) zs"
      have k: "k \<notin> fst ` set xs" using less.prems True Cons p by auto
      have "redact_from (length xs) (xs @ ys) = redact_from (length (xs @ [(k, ''[REDACTED]'')])) ((xs @ [(k, ''[REDACTED]'')]) @ ?zs)"
        using True Cons p by (subst redact_from.simps) (simp add: params_set_append [OF k])
      also have "\<dots> = (xs @ [(k, ''[REDACTED]'')]) @ redact_spec {} ?zs"
      proof (rule less.hyps)
        show "length ?zs < length ys" using Cons by (simp add: le_imp_less_Suc)
        show "\<forall>j. sensitive j \<longrightarrow> j \<in> fst ` set (xs @ [(k, ''[REDACTED]'')]) \<longrightarrow> j \<notin> fst ` set ?zs"
          using less.prems Cons p by auto
      qed
      also have "redact_spec {} ?zs = redact_spec {k} zs"
        using redact_spec_filter [OF True, of "{}" zs] by simp
      finally show ?thesis using True Cons p by simp
    next
      case False
      have "redact_from (length xs) (xs @ ys) = redact_from (length (xs @ [p])) ((xs @ [p]) @ zs)"
        using False Cons p by (subst redact_from.simps) simp
      also have "\<dots> = (xs @ [p]) @ redact_spec {} zs"
        by (rule less.hyps) (use less.prems False Cons p in auto)
      finally show ?thesis using False Cons p by simp
    qed
  qed
qed

lemma redact_from_spec: "redact_from 0 ps = redact_spec {} ps"
  using redact_from_append [of "[]" ps] by simp

lemma redact_spec_redacted: "redact_head (redact_spec seen ps)"
  by (induction seen ps rule: redact_spec.induct) (auto simp: redact_head_def)

lemma redact_spec_other: "filter (\<lambda>p. \<not> sensitive (fst p)) (redact_spec seen ps) = filter (\<lambda>p. \<not> sensitive (fst p)) ps"
  by (induction seen ps rule: redact_spec.induct) auto

lemma redact_spec_cong:
  "map fst ps = map fst qs \<Longrightarrow> filter (\<lambda>p. \<not> sensitive (fst p)) ps = filter (\<lambda>p. \<not> sensitive (fst p)) qs
     \<Longrightarrow> redact_spec seen ps = redact_spec seen qs"
proof (induction ps arbitrary: qs seen)
  case (Cons p ps)
  obtain k v where p: "p = (k, v)" by (cases p)
  obtain w rs where q: "qs = (k, w) # rs" using Cons.prems(1) p by (cases qs) auto
  show ?case
    using Cons.IH [of rs] Cons.prems p q by (cases "sensitive k") auto
qed simp

text \<open>C17: the loop over the live key iterator skips nothing: it equals the one-pass
  reference, so every sensitive parameter of the result is redacted, whatever its case
  and however often it is repeated, and the other parameters are unchanged.\<close>

theorem redaction_loop_correct:
  "redact_from 0 ps = redact_spec {} ps
   \<and> (\<forall>(k, v) \<in> set (redact_from 0 ps). sensitive k \<longrightarrow> v = ''[REDACTED]'')
   \<and> filter (\<lambda>p. \<not> sensitive (fst p)) (redact_from 0 ps) = filter (\<lambda>p. \<not> sensitive (fst p)) ps"
  using redact_spec_redacted [of "{}" ps] by (simp add: redact_from_spec redact_spec_other redact_head_def)

theorem redaction_loop_correct_witness:
  "redact_from 0 [(''Token'', ''s1''), (''q'', ''x''), (''Token'', ''s2''), (''key'', ''s3'')]
     = [(''Token'', ''[REDACTED]''), (''q'', ''x''), (''key'', ''[REDACTED]'')]"
proof -
  let ?ps = "[(''Token'', ''s1''), (''q'', ''x''), (''Token'', ''s2''), (''key'', ''s3'')]"
  have "redact_from 0 ?ps = redact_spec {} ?ps" using redaction_loop_correct [of ?ps] by (rule conjunct1)
  also have "\<dots> = [(''Token'', ''[REDACTED]''), (''q'', ''x''), (''key'', ''[REDACTED]'')]" by code_simp
  finally show ?thesis .
qed

text \<open>C18: the query that is logged does not depend on the values of the sensitive parameters.\<close>

theorem logged_query_hides_secrets:
  assumes "map fst (parse_query s) = map fst (parse_query s')"
    and "filter (\<lambda>p. \<not> sensitive (fst p)) (parse_query s) = filter (\<lambda>p. \<not> sensitive (fst p)) (parse_query s')"
  shows "sanitizeQuery s = sanitizeQuery s'"
proof -
  have "redact_from 0 (parse_query s) = redact_from 0 (parse_query s')"
    unfolding redact_from_spec by (rule redact_spec_cong [OF assms])
  moreover have "parse_query [] = []" by (simp add: parse_query_def)
  ultimately show ?thesis
    using assms(1) by (cases "s = []"; cases "s' = []")
      (auto simp: sanitizeQuery_def Let_def redact_from_spec serialize_query_def)
qed

lemma logged_query_hides_secrets_witness:
  "sanitizeQuery ''?a=1&TOKEN=abc'' = sanitizeQuery ''?a=1&TOKEN=%41''"
proof -
  have p: "parse_query ''?a=1&TOKEN=abc'' = [(''a'', ''1''), (''TOKEN'', ''abc'')]"
    "parse_query ''?a=1&TOKEN=%41'' = [(''a'', ''1''), (''TOKEN'', ''A'')]" by code_simp+
  have "sensitive ''TOKEN''" "\<not> sensitive ''a''" by code_simp+
  with p show ?thesis
    using logged_query_hides_secrets [of "''?a=1&TOKEN=abc''" "''?a=1&TOKEN=%41''"] by simp
qed

subsection \<open>Headers, nonce, request id\<close>

lemma map_of_replace:
  "map_of (map (\<lambda>p. if fst p = x then (x, v) else p) hs) y
     = (if x = y \<and> x \<in> fst ` set hs then Some v else map_of hs y)"
proof (induction hs)
  case (Cons p hs)
  then show ?case by (cases p) (force simp del: image_iff)
qed simp

lemma header_get_set:
  "header_get (header_set hs (n, v)) m = (if js_to_lower n = js_to_lower m then Some v else header_get hs m)"
proof -
  have put: "map_of (map (\<lambda>p. if fst p = x then (x, v) else p) hs) y = (if x = y then Some v else map_of hs y)"
    if "x \<in> fst ` set hs" for x y using that map_of_replace [of x v hs y] by auto
  have new: "map_of (hs @ [(x, v)]) y = (if x = y then Some v else map_of hs y)"
    if "x \<notin> fst ` set hs" for x y
    using that by (induction hs) auto
  show ?thesis
    unfolding header_set_def header_get_def Let_def fst_conv snd_conv
    by (cases "js_to_lower n \<in> fst ` set hs") (simp_all only: put new if_True if_False simp_thms)
qed

lemma header_get_apply:
  "header_get (applySecurityHeaders env nonce hs) n =
     (case map_of (map (\<lambda>(k, v). (js_to_lower k, v)) (securityHeadersTuplesWithNonce env nonce)) (js_to_lower n) of
        Some v \<Rightarrow> Some v | None \<Rightarrow> header_get hs n)"
proof -
  have fold: "header_get (foldl header_set hs ps) n =
      (case map_of (map (\<lambda>(k, v). (js_to_lower k, v)) ps) (js_to_lower n) of
        Some v \<Rightarrow> Some v | None \<Rightarrow> header_get hs n)"
    if "distinct (map (\<lambda>p. js_to_lower (fst p)) ps)" for ps
    using that
  proof (induction ps arbitrary: hs)
    case (Cons p ps)
    obtain k v where p: "p = (k, v)" by (cases p)
    have "map_of (map (\<lambda>(k, v). (js_to_lower k, v)) ps) (js_to_lower k) = None"
      using Cons.prems p by (force simp: map_of_eq_None_iff)
    then show ?case
      using Cons.IH [of "header_set hs p"] Cons.prems p by (auto simp: header_get_set split: option.split)
  qed simp
  have names: "map (\<lambda>p. js_to_lower (fst p)) (securityHeadersTuplesWithNonce env nonce)
      = map js_to_lower (map fst (securityHeaders env))"
    unfolding header_pack_names [of env nonce, symmetric] by simp
  have "map js_to_lower [''Content-Security-Policy'', ''X-Frame-Options'', ''X-Content-Type-Options'',
        ''Referrer-Policy'', ''Permissions-Policy'', ''Strict-Transport-Security'',
        ''Cross-Origin-Opener-Policy'', ''Cross-Origin-Resource-Policy''] =
      [''content-security-policy'', ''x-frame-options'', ''x-content-type-options'', ''referrer-policy'',
       ''permissions-policy'', ''strict-transport-security'', ''cross-origin-opener-policy'',
       ''cross-origin-resource-policy'']"
    by code_simp
  then have "distinct (map (\<lambda>p. js_to_lower (fst p)) (securityHeadersTuplesWithNonce env nonce))"
    unfolding names by (simp add: securityHeaders_def del: list.map(2)) simp
  from fold [OF this] show ?thesis by (simp add: applySecurityHeaders_def)
qed

definition hex32 :: "string \<Rightarrow> bool" where
  "hex32 uuid \<longleftrightarrow> length (filter (\<lambda>c. c \<noteq> CHR ''-'') uuid) \<le> REQUEST_ID_MAX_LEN \<and> list_all request_id_char uuid"

lemma coerceRequestId_safe:
  "hex32 uuid \<Longrightarrow> length (coerceRequestId uuid raw) \<le> REQUEST_ID_MAX_LEN
     \<and> list_all request_id_char (coerceRequestId uuid raw)"
  by (auto simp: coerceRequestId_def REQUEST_ID_RE_def hex32_def list_all_iff split: option.split)

lemma pack_lower_keys:
  "map_of (map (\<lambda>(k, v). (js_to_lower k, v)) (securityHeadersTuplesWithNonce env nonce)) ''x-request-id'' = None"
  "map_of (map (\<lambda>(k, v). (js_to_lower k, v)) (securityHeadersTuplesWithNonce env nonce)) ''x-nonce'' = None"
  "map_of (map (\<lambda>(k, v). (js_to_lower k, v)) (securityHeadersTuplesWithNonce env nonce)) ''content-security-policy''
     = Some (buildCspDirectives env nonce)"
  "map_of (map (\<lambda>(k, v). (js_to_lower k, v)) (securityHeadersTuplesWithNonce env nonce)) ''strict-transport-security''
     = Some ''max-age=63072000; includeSubDomains; preload''"
proof -
  have lower: "js_to_lower ''Content-Security-Policy'' = ''content-security-policy''"
    "js_to_lower ''X-Frame-Options'' = ''x-frame-options''"
    "js_to_lower ''X-Content-Type-Options'' = ''x-content-type-options''"
    "js_to_lower ''Referrer-Policy'' = ''referrer-policy''"
    "js_to_lower ''Permissions-Policy'' = ''permissions-policy''"
    "js_to_lower ''Strict-Transport-Security'' = ''strict-transport-security''"
    "js_to_lower ''Cross-Origin-Opener-Policy'' = ''cross-origin-opener-policy''"
    "js_to_lower ''Cross-Origin-Resource-Policy'' = ''cross-origin-resource-policy''"
    by code_simp+
  show "map_of (map (\<lambda>(k, v). (js_to_lower k, v)) (securityHeadersTuplesWithNonce env nonce)) ''x-request-id'' = None"
    "map_of (map (\<lambda>(k, v). (js_to_lower k, v)) (securityHeadersTuplesWithNonce env nonce)) ''x-nonce'' = None"
    "map_of (map (\<lambda>(k, v). (js_to_lower k, v)) (securityHeadersTuplesWithNonce env nonce)) ''content-security-policy''
       = Some (buildCspDirectives env nonce)"
    "map_of (map (\<lambda>(k, v). (js_to_lower k, v)) (securityHeadersTuplesWithNonce env nonce)) ''strict-transport-security''
       = Some ''max-age=63072000; includeSubDomains; preload''"
    by (simp_all add: securityHeadersTuplesWithNonce_def securityHeaders_def lower)
qed

lemma lower_header_names:
  "js_to_lower ''x-request-id'' = ''x-request-id''" "js_to_lower ''x-nonce'' = ''x-nonce''"
  "js_to_lower ''Content-Security-Policy'' = ''content-security-policy''"
  "js_to_lower ''Strict-Transport-Security'' = ''strict-transport-security''"
  by code_simp+

text \<open>every response, the redirect of the app host's root included, carries the policy
  built for this request's nonce, HSTS and a bounded request id free of control
  characters; a forwarded request carries the same nonce, policy and id.\<close>

theorem every_response_is_stamped:
  assumes "hex32 uuid"
  shows "case proxy env bytes uuid timestamp request of (response, line) \<Rightarrow>
    (let csp = Some (buildCspDirectives env (generateNonce bytes));
         rid = coerceRequestId uuid (header_get (pq_headers request) ''x-request-id'') in
     header_get (response_headers response) ''Content-Security-Policy'' = csp
     \<and> header_get (response_headers response) ''Strict-Transport-Security''
         = Some ''max-age=63072000; includeSubDomains; preload''
     \<and> header_get (response_headers response) ''x-request-id'' = Some rid
     \<and> length rid \<le> REQUEST_ID_MAX_LEN \<and> list_all request_id_char rid
     \<and> (\<forall>req hs. response = ProxyNext req hs \<longrightarrow>
          header_get req ''Content-Security-Policy'' = csp
          \<and> header_get req ''x-nonce'' = Some (generateNonce bytes)
          \<and> header_get req ''x-request-id'' = Some rid))"
proof -
  note keys = header_get_apply header_get_set pack_lower_keys lower_header_names
  have rid: "length (coerceRequestId uuid raw) \<le> REQUEST_ID_MAX_LEN" "list_all request_id_char (coerceRequestId uuid raw)" for raw
    using coerceRequestId_safe [OF assms] by blast+
  show ?thesis by (simp add: proxy_def Let_def keys rid)
qed

definition demo_root :: proxy_request where
  "demo_root = \<lparr>pq_method = ''GET'', pq_pathname = ''/'', pq_search = [],
     pq_headers = [(''host'', ''app.thebetterdecision.com'')]\<rparr>"

definition demo_env :: build_env where
  "demo_env = \<lparr>be_dev = False, be_api_origin = None, be_apex = False, be_app_url = None\<rparr>"

lemma every_response_is_stamped_witness:
  "header_get (response_headers (fst (proxy demo_env (replicate 16 CHR ''a'') ''ab-cd'' ''t'' demo_root)))
     ''Strict-Transport-Security'' = Some ''max-age=63072000; includeSubDomains; preload''"
proof -
  have "hex32 ''ab-cd''" by (simp add: hex32_def REQUEST_ID_MAX_LEN_def request_id_char_def Let_def)
  from every_response_is_stamped [OF this, where env = demo_env and bytes = "replicate 16 CHR ''a''"
      and request = demo_root and timestamp = "''t''"]
  show ?thesis by (simp only: Let_def split_beta)
qed

lemma b64_val_range: "b64_val c \<noteq> None \<Longrightarrow> c \<noteq> CHR '' '' \<and> c \<noteq> CHR '';'' \<and> c \<noteq> CHR 0x27"
  by (auto simp: b64_val_def)

lemma btoa_chars: "c \<in> set (btoa s) \<Longrightarrow> c \<noteq> CHR '' '' \<and> c \<noteq> CHR '';'' \<and> c \<noteq> CHR 0x27"
  using btoa_raw_chars [of c s] b64_val_range [of c] by (auto simp: btoa_def)

text \<open>the nonce encodes all sixteen random bytes (distinct bytes give distinct nonces), has
  24 characters, and contains none that could end a policy keyword or directive.\<close>

theorem nonce_faithful:
  assumes "length bytes = 16"
  shows "length (generateNonce bytes) = 24 \<and> atob (generateNonce bytes) = Some bytes
    \<and> (\<forall>c \<in> set (generateNonce bytes). c \<noteq> CHR '' '' \<and> c \<noteq> CHR '';'' \<and> c \<noteq> CHR 0x27)"
  using assms length_btoa [of bytes] atob_btoa [of bytes] btoa_chars [of _ bytes] by (simp add: generateNonce_def)

lemma nonce_faithful_witness: "length (generateNonce (replicate 16 CHR ''x'')) = 24"
  using nonce_faithful [of "replicate 16 CHR ''x''"] by simp

lemma js_split_words:
  "sep \<notin> set w \<Longrightarrow> js_split sep (w @ sep # s) = w # js_split sep s"
  by (induction w) (auto split: list.splits)

lemma js_split_free: "sep \<notin> set w \<Longrightarrow> js_split sep w = [w]"
  by (induction w) auto

lemma js_split_join:
  "\<forall>w \<in> set ws. sep \<notin> set w \<Longrightarrow> ws \<noteq> [] \<Longrightarrow> js_split sep (js_join [sep] ws) = ws"
proof (induction ws)
  case (Cons w ws)
  then show ?case by (cases ws) (auto simp: js_split_words js_split_free)
qed simp

text \<open>in production the script sources are exactly the site itself, this nonce and
  \<^verbatim>\<open>strict-dynamic\<close>: neither inline scripts nor \<^verbatim>\<open>eval\<close>, whatever bytes were drawn.\<close>

theorem production_script_sources:
  assumes "\<not> be_dev env"
  shows "js_split CHR '' '' (script_src env (generateNonce bytes))
      = [''script-src'', sq ''self'', sq (''nonce-'' @ generateNonce bytes), sq ''strict-dynamic'']
    \<and> sq ''unsafe-inline'' \<notin> set (js_split CHR '' '' (script_src env (generateNonce bytes)))
    \<and> js_includes (buildCspDirectives env (generateNonce bytes)) (script_src env (generateNonce bytes))"
proof -
  have "CHR '' '' \<notin> set (generateNonce bytes)" using btoa_chars by (auto simp: generateNonce_def)
  then have "js_split CHR '' '' (script_src env (generateNonce bytes))
      = [''script-src'', sq ''self'', sq (''nonce-'' @ generateNonce bytes), sq ''strict-dynamic'']"
    using assms js_split_join [of "[''script-src'', sq ''self'', sq (''nonce-'' @ generateNonce bytes), sq ''strict-dynamic'']" "CHR '' ''"]
    unfolding script_src_def by (simp only: if_False) (simp add: sq_def)
  moreover have "sq ''unsafe-inline'' \<noteq> sq (''nonce-'' @ generateNonce bytes)" by (simp add: sq_def)
  ultimately show ?thesis by (simp add: script_src_in_csp) (simp add: sq_def)
qed

lemma production_script_sources_witness:
  "sq ''unsafe-inline'' \<notin> set (js_split CHR '' '' (script_src demo_env (generateNonce (replicate 16 CHR ''a''))))"
proof -
  have "\<not> be_dev demo_env" by (simp add: demo_env_def)
  from production_script_sources [OF this] show ?thesis by blast
qed

subsection \<open>What the access log still carries\<close>

lemma js_join_member: "w \<in> set ws \<Longrightarrow> js_includes (js_join sep ws) w"
proof (induction ws)
  case (Cons v ws)
  show ?case
  proof (cases "w = v")
    case True
    then have "js_join sep (v # ws) = [] @ w @ (case ws of [] \<Rightarrow> [] | _ \<Rightarrow> sep @ js_join sep ws)"
      by (cases ws) auto
    then show ?thesis by (metis js_includes_append)
  next
    case False
    with Cons have "js_includes (js_join sep ws) w" "ws \<noteq> []" by auto
    then obtain a b where "js_join sep ws = a @ w @ b" by (auto simp: js_includes_iff)
    then have "js_join sep (v # ws) = (v @ sep @ a) @ w @ b" using \<open>ws \<noteq> []\<close> by (cases ws) auto
    then show ?thesis by (metis js_includes_append)
  qed
qed simp

lemma js_includes_trans: "js_includes s t \<Longrightarrow> js_includes t u \<Longrightarrow> js_includes s u"
proof -
  assume "js_includes s t" "js_includes t u"
  then obtain a b c d where "s = a @ t @ b" "t = c @ u @ d" by (auto simp: js_includes_iff)
  then have "s = (a @ c) @ u @ (d @ b)" by simp
  then show ?thesis by (metis js_includes_append)
qed

definition plain_text :: "string \<Rightarrow> bool" where
  "plain_text s \<longleftrightarrow> (\<forall>c \<in> set s. json_quote_char c = [c])"

lemma plain_quote: "plain_text s \<Longrightarrow> json_quote s = [CHR 0x22] @ s @ [CHR 0x22]"
proof -
  assume "plain_text s"
  then have "concat (map json_quote_char s) = s" by (induction s) (auto simp: plain_text_def)
  then show ?thesis by (simp add: json_quote_def)
qed

lemma stringify_member:
  assumes "(k, JStr v) \<in> set kvs" and "plain_text v"
  shows "js_includes (json_stringify (JObj kvs)) v"
proof -
  have member: "js_includes (json_stringify (JObj kvs)) (json_quote k @ '':'' @ json_quote v)"
  proof -
    have "json_quote k @ '':'' @ json_quote v \<in> set (map (\<lambda>(k, v). json_quote k @ '':'' @ json_stringify v)
        (filter (\<lambda>(k, v). v \<noteq> JUndef) kvs))"
      using assms(1) by force
    from js_join_member [OF this, of "'',''"] show ?thesis
      by (simp only: json_stringify.simps) (rule js_includes_trans [OF js_includes_append])
  qed
  moreover have "js_includes (json_quote k @ '':'' @ json_quote v) v"
    using js_includes_append [of "json_quote k @ '':'' @ [CHR 0x22]" v "[CHR 0x22]"]
    by (simp add: plain_quote [OF assms(2)])
  ultimately show ?thesis by (rule js_includes_trans)
qed

text \<open>the referer is logged as it came. A page whose own URL holds a sensitive parameter
  puts it, unredacted, in the log line of every same-origin request it makes.\<close>

theorem referer_logged_verbatim:
  assumes "pq_pathname request \<noteq> ''/''" and "header_get (pq_headers request) ''referer'' = Some ref"
    and "ref \<noteq> []" and "plain_text ref"
  shows "\<exists>line. snd (proxy env bytes uuid timestamp request) = Some line \<and> js_includes line ref"
proof -
  have "(''referer'', JStr ref) \<in> set (access_entry timestamp rid request)" for rid
    using assms(2,3) by (simp add: access_entry_def js_or_undefined_def)
  from stringify_member [OF this assms(4)] show ?thesis
    using assms(1) by (simp add: proxy_def Let_def)
qed

definition demo_reset :: proxy_request where
  "demo_reset = \<lparr>pq_method = ''GET'', pq_pathname = ''/login'', pq_search = [],
     pq_headers = [(''host'', ''app.thebetterdecision.com''),
       (''referer'', ''https://app.thebetterdecision.com/reset-password?token=SECRET'')]\<rparr>"

lemma referer_logged_verbatim_witness:
  "\<exists>line. snd (proxy demo_env [] [] [] demo_reset) = Some line
     \<and> js_includes line ''https://app.thebetterdecision.com/reset-password?token=SECRET''"
proof -
  have "plain_text ''https://app.thebetterdecision.com/reset-password?token=SECRET''"
    unfolding plain_text_def by code_simp
  moreover have "header_get (pq_headers demo_reset) ''referer'' = Some ''https://app.thebetterdecision.com/reset-password?token=SECRET''"
    unfolding demo_reset_def by code_simp
  ultimately show ?thesis
    using referer_logged_verbatim [of demo_reset] by (simp add: demo_reset_def)
qed

end
