(* ===== verification/Keep_Warm.thy ===== *)
theory Keep_Warm
  imports Prelude
begin

section \<open>The keep-warm heartbeat (lib/keep-warm.ts)\<close>

text \<open>
  The closure of \<open>startKeepWarm\<close> as a record: the interval (the instant of its next
  tick), \<^verbatim>\<open>stoppedPermanently\<close>, whether the listeners are attached, and the pings sent.
  The document's visibility is part of the state because the flag changes before the
  event is delivered; the two are separate steps, in any order with the ticks.
\<close>

definition KEEP_WARM_INTERVAL_MS :: int where "KEEP_WARM_INTERVAL_MS = 4 * 60 * 1000"

record keep_warm =
  kw_now :: int
  kw_hidden :: bool
  kw_timer :: "int option"
  kw_stopped :: bool
  kw_listening :: bool
  kw_pings :: "(int \<times> bool) list"

definition kw_ping :: "keep_warm \<Rightarrow> keep_warm" where
  "kw_ping k = (if kw_hidden k then k else k\<lparr>kw_pings := kw_pings k @ [(kw_now k, kw_hidden k)]\<rparr>)"

definition kw_start :: "keep_warm \<Rightarrow> keep_warm" where
  "kw_start k =
     (if kw_stopped k then k
      else if kw_timer k \<noteq> None then k
      else (kw_ping k)\<lparr>kw_timer := Some (kw_now k + KEEP_WARM_INTERVAL_MS)\<rparr>)"

definition kw_stop :: "keep_warm \<Rightarrow> keep_warm" where
  "kw_stop k = (if kw_timer k \<noteq> None then k\<lparr>kw_timer := None\<rparr> else k)"

definition onVisibilityChange :: "keep_warm \<Rightarrow> keep_warm" where
  "onVisibilityChange k = (if kw_hidden k then kw_stop k else kw_start k)"

definition onUnauthenticated :: "keep_warm \<Rightarrow> keep_warm" where
  "onUnauthenticated k = kw_stop (k\<lparr>kw_stopped := True\<rparr>)"

definition startKeepWarm :: "int \<Rightarrow> bool \<Rightarrow> keep_warm" where
  "startKeepWarm now hidden = kw_start \<lparr>kw_now = now, kw_hidden = hidden, kw_timer = None,
     kw_stopped = False, kw_listening = True, kw_pings = []\<rparr>"

definition kw_cleanup :: "keep_warm \<Rightarrow> keep_warm" where
  "kw_cleanup k = (kw_stop k)\<lparr>kw_listening := False\<rparr>"

text \<open>The interval's callback; a cleared interval does not tick.\<close>

definition kw_tick :: "keep_warm \<Rightarrow> keep_warm" where
  "kw_tick k = (case kw_timer k of
      Some due \<Rightarrow> if due \<le> kw_now k then (kw_ping k)\<lparr>kw_timer := Some (due + KEEP_WARM_INTERVAL_MS)\<rparr> else k
    | None \<Rightarrow> k)"

datatype kw_event = KwHidden bool | KwVisibility | KwUnauthenticated | KwCleanup | KwTime nat | KwTick

fun kw_step :: "keep_warm \<Rightarrow> kw_event \<Rightarrow> keep_warm" where
  "kw_step k (KwHidden h) = k\<lparr>kw_hidden := h\<rparr>"
| "kw_step k KwVisibility = (if kw_listening k then onVisibilityChange k else k)"
| "kw_step k KwUnauthenticated = (if kw_listening k then onUnauthenticated k else k)"
| "kw_step k KwCleanup = kw_cleanup k"
| "kw_step k (KwTime ms) = k\<lparr>kw_now := kw_now k + int ms\<rparr>"
| "kw_step k KwTick = kw_tick k"

subsection \<open>Lemmas\<close>

lemmas kw_defs = kw_ping_def kw_start_def kw_stop_def onVisibilityChange_def onUnauthenticated_def
  kw_cleanup_def kw_tick_def startKeepWarm_def

text \<open>Signed out or torn down: no interval, and nothing that could start one.\<close>

definition kw_dead :: "keep_warm \<Rightarrow> bool" where
  "kw_dead k \<longleftrightarrow> kw_timer k = None \<and> (kw_stopped k \<or> \<not> kw_listening k)"

definition kw_inv :: "keep_warm \<Rightarrow> bool" where
  "kw_inv k \<longleftrightarrow> (\<forall>p \<in> set (kw_pings k). \<not> snd p) \<and> (kw_stopped k \<longrightarrow> kw_timer k = None)
     \<and> (\<not> kw_listening k \<longrightarrow> kw_timer k = None)"

interpretation heartbeat: step_machine kw_step kw_inv
proof
  fix k e assume "kw_inv k"
  then show "kw_inv (kw_step k e)"
    by (cases e) (auto simp: kw_inv_def kw_defs split: option.splits)
qed

interpretation heartbeat_off: absorbing_machine kw_step kw_dead kw_pings
proof
  fix k e assume "kw_dead k"
  then show "kw_dead (kw_step k e)" and "kw_pings (kw_step k e) = kw_pings k"
    by (cases e; auto simp: kw_dead_def kw_defs)+
qed

lemma kw_inv_init: "kw_inv (startKeepWarm now hidden)"
  by (simp add: kw_inv_def kw_defs)

lemma kw_end:
  assumes "kw_inv k"
  shows "kw_dead (kw_step k KwUnauthenticated) \<and> kw_pings (kw_step k KwUnauthenticated) = kw_pings k"
    and "kw_dead (kw_step k KwCleanup) \<and> kw_pings (kw_step k KwCleanup) = kw_pings k"
  using assms by (auto simp: kw_dead_def kw_inv_def kw_defs)

text \<open>the heartbeat never pings from a hidden tab, and once the session has ended (or the
  component unmounted) it never pings again, whatever visibility changes, ticks and time
  follow.\<close>

theorem heartbeat_stops:
  assumes "e = KwUnauthenticated \<or> e = KwCleanup"
  shows "(\<forall>p \<in> set (kw_pings (run kw_step (startKeepWarm now hidden) es)). \<not> snd p)
    \<and> kw_pings (run kw_step (startKeepWarm now hidden) (es @ e # fs))
       = kw_pings (run kw_step (startKeepWarm now hidden) es)"
proof -
  let ?k = "run kw_step (startKeepWarm now hidden) es"
  have inv: "kw_inv ?k" by (rule heartbeat.run_inv [OF kw_inv_init])
  have dead: "kw_dead (kw_step ?k e)" and same: "kw_pings (kw_step ?k e) = kw_pings ?k"
    using assms kw_end [OF inv] by auto
  have "kw_pings (run kw_step (kw_step ?k e) fs) = kw_pings (kw_step ?k e)"
    by (rule heartbeat_off.run_obs [OF dead])
  with inv same show ?thesis by (simp add: run_append kw_inv_def)
qed

lemma heartbeat_stops_witness:
  "kw_pings (run kw_step (startKeepWarm 0 False)
     ([] @ KwUnauthenticated # [KwHidden True, KwVisibility, KwHidden False, KwVisibility, KwTime 240000, KwTick]))
   = [(0, False)]"
proof -
  have "kw_pings (run kw_step (startKeepWarm 0 False) []) = [(0, False)]" by (simp add: kw_defs)
  moreover have "KwUnauthenticated = KwUnauthenticated \<or> KwUnauthenticated = KwCleanup" by simp
  ultimately show ?thesis using heartbeat_stops [of KwUnauthenticated 0 False "[]"] by metis
qed

end
