(* ===== verification/Tour.thy ===== *)
theory Tour
  imports Prelude
begin

section \<open>The product tour (components/tour/useTour.ts, TourProvider.tsx)\<close>

text \<open>
  The engine's React state with its re-entrancy guard, the values it exposes, the
  automatic start from the onboarding wizard's session flag, and the decisions of the
  overlay: skipping a step whose anchor is not in the document, closing on Escape, and
  where the card goes. State updates are functions of the previous state; the microtask
  that releases the guard is a step of its own.
\<close>

subsection \<open>Engine\<close>

datatype tour_phase = TourIdle | TourActive | TourFinished

record tour =
  to_phase :: tour_phase
  to_steps :: "string list"
  to_index :: int
  to_guard :: bool

definition tour_initial :: tour where
  "tour_initial = \<lparr>to_phase = TourIdle, to_steps = [], to_index = - 1, to_guard = False\<rparr>"

definition tour_start :: "string list \<Rightarrow> tour \<Rightarrow> tour" where
  "tour_start steps t =
     (if to_guard t then t
      else if steps = [] then t
      else \<lparr>to_phase = TourActive, to_steps = steps, to_index = 0, to_guard = True\<rparr>)"

definition tour_next :: "tour \<Rightarrow> tour" where
  "tour_next t =
     (if to_phase t \<noteq> TourActive then t
      else (let nextIdx = to_index t + 1 in
            if nextIdx \<ge> int (length (to_steps t)) then t\<lparr>to_phase := TourFinished, to_index := - 1\<rparr>
            else t\<lparr>to_index := nextIdx\<rparr>))"

definition tour_prev :: "tour \<Rightarrow> tour" where
  "tour_prev t =
     (if to_phase t \<noteq> TourActive then t
      else if to_index t \<le> 0 then t
      else t\<lparr>to_index := to_index t - 1\<rparr>)"

definition tour_close :: "tour \<Rightarrow> tour" where
  "tour_close t = (if to_phase t \<noteq> TourActive then t else t\<lparr>to_phase := TourFinished, to_index := - 1\<rparr>)"

definition tour_finish :: "tour \<Rightarrow> tour" where
  "tour_finish t = t\<lparr>to_phase := TourFinished, to_index := - 1\<rparr>"

definition tour_reset :: "tour \<Rightarrow> tour" where
  "tour_reset t = tour_initial\<lparr>to_guard := to_guard t\<rparr>"

definition isActive :: "tour \<Rightarrow> bool" where
  "isActive t = (to_phase t = TourActive)"

definition currentStep :: "tour \<Rightarrow> string option" where
  "currentStep t =
     (if to_phase t = TourActive \<and> to_index t \<ge> 0
      then (if nat (to_index t) < length (to_steps t) then Some (to_steps t ! nat (to_index t)) else None)
      else None)"

definition currentIndex :: "tour \<Rightarrow> int" where
  "currentIndex t = (if to_phase t = TourActive then to_index t else - 1)"

definition totalSteps :: "tour \<Rightarrow> nat" where
  "totalSteps t = length (to_steps t)"

subsection \<open>Overlay and automatic start\<close>

record anchor_rect =
  an_top :: rat
  an_left :: rat
  an_width :: rat
  an_height :: rat

text \<open>The document: the anchors in it, by tour id.\<close>

definition getAnchorRect :: "(string \<Rightarrow> anchor_rect option) \<Rightarrow> string option \<Rightarrow> anchor_rect option" where
  "getAnchorRect doc stepId = (case stepId of None \<Rightarrow> None | Some s \<Rightarrow> if s = [] then None else doc s)"

text \<open>The grace timer of the overlay: it looks again, then advances.\<close>

definition overlay_timeout :: "(string \<Rightarrow> anchor_rect option) \<Rightarrow> tour \<Rightarrow> tour" where
  "overlay_timeout doc t =
     (if \<not> isActive t then t
      else (case getAnchorRect doc (currentStep t) of None \<Rightarrow> tour_next t | Some _ \<Rightarrow> t))"

definition overlay_key :: "string \<Rightarrow> tour \<Rightarrow> tour" where
  "overlay_key key t = (if isActive t \<and> key = ''Escape'' then tour_close t else t)"

definition card_position :: "rat \<Rightarrow> rat \<Rightarrow> anchor_rect option \<Rightarrow> rat \<times> rat" where
  "card_position innerWidth innerHeight rect = (case rect of
      Some r \<Rightarrow> (max 16 (an_top r + an_height r + 12), max 16 (min (an_left r) (innerWidth - 360)))
    | None \<Rightarrow> (innerHeight / 2 - 100, innerWidth / 2 - 180))"

definition DASHBOARD_TOUR_STEPS :: "string list" where
  "DASHBOARD_TOUR_STEPS = [''dashboard.header'', ''dashboard.import-cta'', ''dashboard.period-nav'',
     ''dashboard.on-track-tile'', ''dashboard.account-forecast'']"

text \<open>
  The effect of \<^verbatim>\<open>DashboardTourAutoStart\<close>: it consumes the flag and arms a timer; its
  cleanup clears the timer. \<open>None\<close> for the flag store is a storage that throws.
\<close>

record autostart =
  as_flag :: "string option option"
  as_timer :: bool
  as_tour :: tour

definition autostart_effect :: "string \<Rightarrow> autostart \<Rightarrow> autostart" where
  "autostart_effect pathname a =
     (if pathname \<noteq> ''/dashboard'' then a
      else (case as_flag a of
              None \<Rightarrow> a
            | Some flag \<Rightarrow> if flag \<noteq> Some ''1'' then a else a\<lparr>as_flag := Some None, as_timer := True\<rparr>))"

definition autostart_cleanup :: "autostart \<Rightarrow> autostart" where
  "autostart_cleanup a = a\<lparr>as_timer := False\<rparr>"

definition autostart_fire :: "autostart \<Rightarrow> autostart" where
  "autostart_fire a =
     (if as_timer a then a\<lparr>as_timer := False, as_tour := tour_start DASHBOARD_TOUR_STEPS (as_tour a)\<rparr> else a)"

subsection \<open>Runs of the engine\<close>

datatype tour_event =
    EvStart "string list" | EvMicrotask | EvNext | EvPrev | EvClose | EvFinish | EvReset
  | EvGrace "string \<Rightarrow> anchor_rect option" | EvKey string

fun tour_step :: "tour \<Rightarrow> tour_event \<Rightarrow> tour" where
  "tour_step t (EvStart steps) = tour_start steps t"
| "tour_step t EvMicrotask = t\<lparr>to_guard := False\<rparr>"
| "tour_step t EvNext = tour_next t"
| "tour_step t EvPrev = tour_prev t"
| "tour_step t EvClose = tour_close t"
| "tour_step t EvFinish = tour_finish t"
| "tour_step t EvReset = tour_reset t"
| "tour_step t (EvGrace doc) = overlay_timeout doc t"
| "tour_step t (EvKey key) = overlay_key key t"

lemmas tour_defs = tour_start_def tour_next_def tour_prev_def tour_close_def tour_finish_def tour_reset_def
  overlay_timeout_def overlay_key_def isActive_def tour_initial_def

definition tour_inv :: "tour \<Rightarrow> bool" where
  "tour_inv t \<longleftrightarrow> (if to_phase t = TourActive then 0 \<le> to_index t \<and> to_index t < int (length (to_steps t))
                   else to_index t = - 1)"

interpretation tour: step_machine tour_step tour_inv
proof
  fix t e assume "tour_inv t"
  then show "tour_inv (tour_step t e)"
    by (cases e) (auto simp: tour_inv_def tour_defs Let_def split: option.split)
qed

lemma tour_inv_initial: "tour_inv tour_initial"
  by (simp add: tour_inv_def tour_initial_def)

text \<open>whatever the user and the document do, an active tour always shows one of its steps,
  and a tour that is not active shows none.\<close>

theorem tour_shows_a_step:
  "(let t = run tour_step tour_initial es in
     (isActive t \<longrightarrow> currentStep t = Some (to_steps t ! nat (currentIndex t)) \<and> 0 \<le> currentIndex t
        \<and> nat (currentIndex t) < totalSteps t)
   \<and> (\<not> isActive t \<longrightarrow> currentStep t = None \<and> currentIndex t = - 1))"
  using tour.run_inv [OF tour_inv_initial, of es]
  by (auto simp: Let_def tour_inv_def isActive_def currentStep_def currentIndex_def totalSteps_def split: if_splits)

lemma tour_shows_a_step_witness:
  "currentStep (run tour_step tour_initial [EvStart [''a'', ''b''], EvNext, EvPrev]) = Some ''a''"
proof -
  have "isActive (run tour_step tour_initial [EvStart [''a'', ''b''], EvNext, EvPrev])"
    "to_steps (run tour_step tour_initial [EvStart [''a'', ''b''], EvNext, EvPrev]) = [''a'', ''b'']"
    "currentIndex (run tour_step tour_initial [EvStart [''a'', ''b''], EvNext, EvPrev]) = 0"
    by (simp_all add: tour_defs Let_def currentIndex_def)
  with tour_shows_a_step [of "[EvStart [''a'', ''b''], EvNext, EvPrev]"] show ?thesis
    by (simp add: Let_def del: run_simps)
qed

lemma grace_active:
  assumes "tour_inv t" "isActive t" "\<forall>s \<in> set (to_steps t). doc s = None"
  shows "overlay_timeout doc t = tour_next t"
proof -
  have "getAnchorRect doc (currentStep t) = None"
    using assms by (auto simp: getAnchorRect_def currentStep_def isActive_def tour_inv_def split: option.split)
  with assms(2) show ?thesis by (simp add: overlay_timeout_def)
qed

lemma grace_run:
  "tour_inv t \<Longrightarrow> isActive t \<Longrightarrow> \<forall>s \<in> set (to_steps t). doc s = None \<Longrightarrow>
     int n = int (length (to_steps t)) - to_index t \<Longrightarrow>
     to_phase (run tour_step t (replicate n (EvGrace doc))) = TourFinished"
proof (induction n arbitrary: t)
  case 0
  then show ?case by (simp add: tour_inv_def isActive_def)
next
  case (Suc n)
  have stop: "to_phase (run tour_step u (replicate m (EvGrace doc))) = TourFinished" if "to_phase u = TourFinished" for u m
    using that by (induction m arbitrary: u) (auto simp: overlay_timeout_def isActive_def)
  have step: "overlay_timeout doc t = tour_next t" by (rule grace_active [OF Suc.prems(1-3)])
  show ?case
  proof (cases n)
    case 0
    then show ?thesis using Suc.prems by (simp add: step tour_next_def isActive_def Let_def)
  next
    case (Suc m)
    have "to_phase (run tour_step (tour_next t) (replicate n (EvGrace doc))) = TourFinished"
      by (rule Suc.IH) (use Suc.prems Suc in \<open>auto simp: tour_next_def isActive_def tour_inv_def Let_def\<close>)
    then show ?thesis by (simp add: step)
  qed
qed

text \<open>a tour whose anchors have all left the document cannot hang: the grace timer skips
  every step and the tour finishes after as many timeouts as it has steps.\<close>

theorem tour_without_anchors_finishes:
  assumes "steps \<noteq> []" and "\<not> to_guard t" and "\<forall>s \<in> set steps. doc s = None"
  shows "to_phase (run tour_step t (EvStart steps # replicate (length steps) (EvGrace doc))) = TourFinished"
proof -
  have "to_phase (run tour_step (tour_start steps t) (replicate (length steps) (EvGrace doc))) = TourFinished"
    by (rule grace_run) (use assms in \<open>auto simp: tour_start_def tour_inv_def isActive_def\<close>)
  then show ?thesis by simp
qed

lemma tour_without_anchors_finishes_witness:
  "to_phase (run tour_step tour_initial (EvStart DASHBOARD_TOUR_STEPS #
     replicate (length DASHBOARD_TOUR_STEPS) (EvGrace (\<lambda>_. None)))) = TourFinished"
  using tour_without_anchors_finishes [of DASHBOARD_TOUR_STEPS tour_initial "\<lambda>_. None"]
  by (simp add: DASHBOARD_TOUR_STEPS_def tour_initial_def)

lemma card_visible:
  "376 \<le> w \<Longrightarrow> card_position w h (Some r) = (y, x) \<Longrightarrow> 16 \<le> x \<and> x + 360 \<le> w \<and> 16 \<le> y"
  by (auto simp: card_position_def)

end
