(* ===== verification/Persisted.thy ===== *)
theory Persisted
  imports Json
begin

section \<open>Persisted state (lib/persisted-state.ts, lib/hooks/use-persisted-*.ts)\<close>

text \<open>
  Browser storage as a record: whether there is a window, whether reads and writes are
  refused (private mode, quota), and the items. The two hooks read it once on mount and
  write through on every change; a mount is a function of the storage, so a reload is a
  second mount on the storage the first one left.

  The interface the hooks rely on is the locale \<open>json_store\<close>; it is interpreted on the
  three functions of \<^verbatim>\<open>lib/persisted-state.ts\<close>.
\<close>

subsection \<open>The store\<close>

record storage =
  st_window :: bool
  st_readable :: bool
  st_writable :: bool
  st_items :: "string \<rightharpoonup> string"

definition readPersisted :: "storage \<Rightarrow> string \<Rightarrow> jsval \<Rightarrow> (jsval \<Rightarrow> bool) option \<Rightarrow> jsval" where
  "readPersisted st key fallback validate =
     (if \<not> st_window st then fallback
      else if \<not> st_readable st then fallback
      else (case st_items st key of
              None \<Rightarrow> fallback
            | Some raw \<Rightarrow>
                (case json_parse raw of
                   None \<Rightarrow> fallback
                 | Some parsed \<Rightarrow>
                     (case validate of
                        Some ok \<Rightarrow> if \<not> ok parsed then fallback else parsed
                      | None \<Rightarrow> parsed))))"

definition writePersisted :: "string \<Rightarrow> jsval \<Rightarrow> storage \<Rightarrow> storage" where
  "writePersisted key v st =
     (if \<not> st_window st then st
      else if \<not> st_writable st then st
      else st\<lparr>st_items := (st_items st)(key \<mapsto> json_stringify v)\<rparr>)"

definition clearPersisted :: "string \<Rightarrow> storage \<Rightarrow> storage" where
  "clearPersisted key st =
     (if \<not> st_window st then st
      else if \<not> st_writable st then st
      else st\<lparr>st_items := (st_items st)(key := None)\<rparr>)"

definition storage_ok :: "storage \<Rightarrow> bool" where
  "storage_ok st \<longleftrightarrow> st_window st \<and> st_readable st \<and> st_writable st"

text \<open>
  What a client may rely on when the browser cooperates: it reads back the last value
  written under a key, a cleared key gives the fallback, and keys do not interfere.
\<close>

locale json_store =
  fixes rd :: "'s \<Rightarrow> string \<Rightarrow> jsval \<Rightarrow> (jsval \<Rightarrow> bool) option \<Rightarrow> jsval"
    and wr :: "string \<Rightarrow> jsval \<Rightarrow> 's \<Rightarrow> 's"
    and cl :: "string \<Rightarrow> 's \<Rightarrow> 's"
    and good :: "'s \<Rightarrow> bool"
    and storable :: "jsval \<Rightarrow> bool"
  assumes rd_wr: "good s \<Longrightarrow> storable v \<Longrightarrow> (\<And>ok. chk = Some ok \<Longrightarrow> ok v) \<Longrightarrow> rd (wr k v s) k fb chk = v"
    and rd_wr_other: "k \<noteq> k' \<Longrightarrow> rd (wr k v s) k' fb chk = rd s k' fb chk"
    and rd_cl: "good s \<Longrightarrow> rd (cl k s) k fb chk = fb"
    and rd_cl_other: "k \<noteq> k' \<Longrightarrow> rd (cl k s) k' fb chk = rd s k' fb chk"
    and good_wr: "good s \<Longrightarrow> good (wr k v s)"
    and good_cl: "good s \<Longrightarrow> good (cl k s)"
begin

text \<open>A history of writes and clears; the last entry for a key decides what it reads.\<close>

fun replay :: "(string \<times> jsval option) list \<Rightarrow> 's \<Rightarrow> 's" where
  "replay [] s = s"
| "replay ((k, Some v) # h) s = replay h (wr k v s)"
| "replay ((k, None) # h) s = replay h (cl k s)"

lemma replay_append: "replay (h @ h') s = replay h' (replay h s)"
  by (induction h s rule: replay.induct) auto

lemma good_replay: "good s \<Longrightarrow> good (replay h s)"
  by (induction h s rule: replay.induct) (auto intro: good_wr good_cl)

lemma replay_other: "k \<notin> fst ` set h \<Longrightarrow> rd (replay h s) k fb chk = rd s k fb chk"
  by (induction h s rule: replay.induct) (auto simp: rd_wr_other rd_cl_other)

lemma replay_last_write:
  assumes "good s" "storable v" "\<And>ok. chk = Some ok \<Longrightarrow> ok v" "k \<notin> fst ` set h'"
  shows "rd (replay (h @ (k, Some v) # h') s) k fb chk = v"
proof -
  have "rd (wr k v (replay h s)) k fb chk = v"
    by (rule rd_wr [OF good_replay [OF assms(1)] assms(2)]) (rule assms(3))
  then show ?thesis using assms(4) by (simp add: replay_append replay_other)
qed

lemma replay_last_clear:
  assumes "good s" "k \<notin> fst ` set h'"
  shows "rd (replay (h @ (k, None) # h') s) k fb chk = fb"
  using assms by (simp add: replay_append replay_other good_replay rd_cl)

end

interpretation persisted: json_store readPersisted writePersisted clearPersisted storage_ok json_ok
proof
  show "readPersisted (writePersisted k v s) k fb chk = v"
    if "storage_ok s" "json_ok v" "\<And>ok. chk = Some ok \<Longrightarrow> ok v" for s v chk k fb
    using that by (auto simp: readPersisted_def writePersisted_def storage_ok_def json_roundtrip split: option.split)
qed (auto simp: readPersisted_def writePersisted_def clearPersisted_def storage_ok_def split: option.split)

subsection \<open>Sort order\<close>

datatype sort_dir = Asc | Desc

record sort_state =
  so_field :: string
  so_dir :: sort_dir

definition dir_json :: "sort_dir \<Rightarrow> jsval" where
  "dir_json d = JStr (case d of Asc \<Rightarrow> ''asc'' | Desc \<Rightarrow> ''desc'')"

definition sort_json :: "string \<Rightarrow> sort_dir \<Rightarrow> jsval" where
  "sort_json field dir = JObj [(''field'', JStr field), (''dir'', dir_json dir)]"

definition isStoredSort :: "jsval \<Rightarrow> bool" where
  "isStoredSort v =
     (if \<not> js_truthy v \<or> \<not> js_is_object v then False
      else js_is_string (js_get v ''field'') \<and> (js_get v ''dir'' = JStr ''asc'' \<or> js_get v ''dir'' = JStr ''desc''))"

definition sort_of_json :: "jsval \<Rightarrow> sort_state" where
  "sort_of_json v = \<lparr>so_field = (case js_get v ''field'' of JStr s \<Rightarrow> s | _ \<Rightarrow> []),
     so_dir = (if js_get v ''dir'' = JStr ''asc'' then Asc else Desc)\<rparr>"

text \<open>The mount, and the two operations.\<close>

definition usePersistedSort ::
    "storage \<Rightarrow> string \<Rightarrow> string \<Rightarrow> sort_dir \<Rightarrow> string list option \<Rightarrow> sort_state" where
  "usePersistedSort st key defaultField defaultDir allowedFields =
     (let stored = sort_of_json (readPersisted st key (sort_json defaultField defaultDir) (Some isStoredSort))
      in case allowedFields of
           Some fs \<Rightarrow> if so_field stored \<notin> set fs then \<lparr>so_field = defaultField, so_dir = defaultDir\<rparr> else stored
         | None \<Rightarrow> stored)"

definition setSort :: "string \<Rightarrow> string \<Rightarrow> sort_dir \<Rightarrow> sort_state \<times> storage \<Rightarrow> sort_state \<times> storage" where
  "setSort key field dir s =
     (\<lparr>so_field = field, so_dir = dir\<rparr>, writePersisted key (sort_json field dir) (snd s))"

definition reset_sort :: "string \<Rightarrow> string \<Rightarrow> sort_dir \<Rightarrow> sort_state \<times> storage \<Rightarrow> sort_state \<times> storage" where
  "reset_sort key defaultField defaultDir s =
     (\<lparr>so_field = defaultField, so_dir = defaultDir\<rparr>, clearPersisted key (snd s))"

definition sort_isDefault :: "string \<Rightarrow> sort_dir \<Rightarrow> sort_state \<Rightarrow> bool" where
  "sort_isDefault defaultField defaultDir s \<longleftrightarrow> so_field s = defaultField \<and> so_dir s = defaultDir"

lemma sort_json_facts [simp]:
  "json_ok (sort_json f d)" "isStoredSort (sort_json f d)"
  "sort_of_json (sort_json f d) = \<lparr>so_field = f, so_dir = d\<rparr>"
  by (cases d; simp add: sort_json_def dir_json_def isStoredSort_def sort_of_json_def js_get_def
      js_truthy_def js_is_object_def js_is_string_def)+

subsection \<open>Filters\<close>

definition isPlainObject :: "jsval \<Rightarrow> bool" where
  "isPlainObject v = (case v of JObj _ \<Rightarrow> True | _ \<Rightarrow> False)"

definition is_primitive :: "jsval \<Rightarrow> bool" where
  "is_primitive v = (case v of JNull \<Rightarrow> True | JBool _ \<Rightarrow> True | JNum _ \<Rightarrow> True | JStr _ \<Rightarrow> True | _ \<Rightarrow> False)"

type_synonym filters = "(string \<times> jsval) list"

definition shallowEqual :: "filters \<Rightarrow> filters \<Rightarrow> bool" where
  "shallowEqual a b \<longleftrightarrow> length a = length b \<and> (\<forall>(k, _) \<in> set a. js_get (JObj a) k = js_get (JObj b) k)"

definition merge_stored :: "filters \<Rightarrow> jsval \<Rightarrow> filters" where
  "merge_stored defaults stored =
     map (\<lambda>(k, d). (k, let incoming = js_get stored k in
            if incoming = JUndef then d else if is_primitive incoming then incoming else d)) defaults"

definition usePersistedFilters :: "storage \<Rightarrow> string \<Rightarrow> filters \<Rightarrow> filters" where
  "usePersistedFilters st key defaults =
     (let stored = readPersisted st key (JObj defaults) None
      in if \<not> isPlainObject stored then defaults else merge_stored defaults stored)"

definition set_filters :: "string \<Rightarrow> filters \<Rightarrow> filters \<times> storage \<Rightarrow> filters \<times> storage" where
  "set_filters key patch s =
     (let next_val = obj_spread (fst s) patch in (next_val, writePersisted key (JObj next_val) (snd s)))"

definition setField :: "string \<Rightarrow> string \<Rightarrow> jsval \<Rightarrow> filters \<times> storage \<Rightarrow> filters \<times> storage" where
  "setField key field val s = set_filters key [(field, val)] s"

definition reset_filters :: "string \<Rightarrow> filters \<Rightarrow> filters \<times> storage \<Rightarrow> filters \<times> storage" where
  "reset_filters key defaults s = (defaults, clearPersisted key (snd s))"

definition filters_isDefault :: "filters \<Rightarrow> filters \<Rightarrow> bool" where
  "filters_isDefault defaults fs = shallowEqual fs defaults"

lemma merge_keys: "map fst (merge_stored defaults stored) = map fst defaults"
  by (induction defaults) (auto simp: merge_stored_def)

lemma merge_self:
  assumes "distinct (map fst fs)" "map fst fs = map fst defaults" "\<forall>(k, v) \<in> set fs. is_primitive v"
  shows "merge_stored defaults (JObj fs) = fs"
proof (rule nth_equalityI)
  have len: "length fs = length defaults" using assms(2) by (metis length_map)
  then show "length (merge_stored defaults (JObj fs)) = length fs" by (simp add: merge_stored_def)
  fix i assume "i < length (merge_stored defaults (JObj fs))"
  then have i: "i < length defaults" "i < length fs" using len by (simp_all add: merge_stored_def)
  obtain k v where kv: "fs ! i = (k, v)" by (cases "fs ! i")
  then have "(k, v) \<in> set fs" using i nth_mem by metis
  then have "map_of fs k = Some v" "is_primitive v" using assms(1,3) by auto
  moreover have "fst (defaults ! i) = k" using assms(2) i kv by (metis fst_conv nth_map)
  ultimately show "merge_stored defaults (JObj fs) ! i = fs ! i"
    using i kv by (cases "defaults ! i") (auto simp: merge_stored_def js_get_def is_primitive_def split: jsval.splits)
qed

subsection \<open>A reload shows what the last change left\<close>

text \<open>on a cooperating browser the sort a user chose survives a reload, a reset brings the
  default back, and neither is disturbed by what other surfaces persist in between.\<close>

theorem sort_survives_reload:
  assumes "storage_ok st" and "f \<in> set fs" and "key \<notin> fst ` set h'"
  shows "usePersistedSort (persisted.replay h' (snd (setSort key f d (s, persisted.replay h st)))) key df dd (Some fs)
      = fst (setSort key f d (s, persisted.replay h st))
    \<and> (df \<in> set fs \<longrightarrow>
        usePersistedSort (persisted.replay h' (snd (reset_sort key df dd (s, persisted.replay h st)))) key df dd (Some fs)
          = fst (reset_sort key df dd (s, persisted.replay h st)))"
proof -
  have "readPersisted (persisted.replay (h @ (key, Some (sort_json f d)) # h') st) key (sort_json df dd) (Some isStoredSort)
      = sort_json f d"
    by (rule persisted.replay_last_write [OF assms(1) _ _ assms(3)]) auto
  moreover have "readPersisted (persisted.replay (h @ (key, None) # h') st) key (sort_json df dd) (Some isStoredSort)
      = sort_json df dd"
    by (rule persisted.replay_last_clear [OF assms(1,3)])
  ultimately show ?thesis
    using assms(2) by (simp add: usePersistedSort_def setSort_def reset_sort_def persisted.replay_append)
qed

definition empty_storage :: storage where
  "empty_storage = \<lparr>st_window = True, st_readable = True, st_writable = True, st_items = Map.empty\<rparr>"

lemma sort_survives_reload_witness:
  "usePersistedSort (snd (setSort ''pfv:sort:transactions'' ''amount'' Asc (undefined, empty_storage)))
     ''pfv:sort:transactions'' ''date'' Desc (Some [''date'', ''amount'']) = \<lparr>so_field = ''amount'', so_dir = Asc\<rparr>"
  using sort_survives_reload [of empty_storage "''amount''" "[''date'', ''amount'']" "''pfv:sort:transactions''" "[]"
      Asc undefined "[]" "''date''" Desc]
  by (simp add: empty_storage_def storage_ok_def setSort_def)

text \<open>no stored text can brick a surface: whatever is in the storage, a mount yields an
  allowed sort field (or the default) and filters with exactly the default's fields, each
  a primitive.\<close>

theorem corrupted_storage_harmless:
  assumes "\<forall>(k, v) \<in> set defaults. is_primitive v"
  shows "(so_field (usePersistedSort st key df dd (Some fs)) \<in> set fs
       \<or> usePersistedSort st key df dd (Some fs) = \<lparr>so_field = df, so_dir = dd\<rparr>)
    \<and> map fst (usePersistedFilters st key defaults) = map fst defaults
    \<and> (\<forall>(k, v) \<in> set (usePersistedFilters st key defaults). is_primitive v)"
proof (intro conjI)
  show "so_field (usePersistedSort st key df dd (Some fs)) \<in> set fs
       \<or> usePersistedSort st key df dd (Some fs) = \<lparr>so_field = df, so_dir = dd\<rparr>"
    by (simp add: usePersistedSort_def Let_def)
  show "map fst (usePersistedFilters st key defaults) = map fst defaults"
    by (simp add: usePersistedFilters_def Let_def merge_keys)
  show "\<forall>(k, v) \<in> set (usePersistedFilters st key defaults). is_primitive v"
    using assms by (auto simp: usePersistedFilters_def merge_stored_def Let_def)
qed

lemma corrupted_storage_harmless_witness:
  "map fst (usePersistedFilters (empty_storage\<lparr>st_items := [''k'' \<mapsto> ''{broken'']\<rparr>) ''k'' [(''type'', JStr [])]) = [''type'']"
  using corrupted_storage_harmless [of "[(''type'', JStr [])]" "empty_storage\<lparr>st_items := [''k'' \<mapsto> ''{broken'']\<rparr>" "''k''" "[]" Asc "[]"]
  by (simp add: is_primitive_def)

text \<open>filters changed field by field survive a reload, and a field set to its default
  again makes the set count as default.\<close>

theorem filters_survive_reload:
  assumes "storage_ok st" and "distinct (map fst defaults)" and "map fst fs = map fst defaults"
    and "field \<in> fst ` set defaults" and "\<forall>(k, v) \<in> set fs. is_primitive v" and "is_primitive val"
    and "\<forall>(k, v) \<in> set fs. json_ok v" and "json_ok val"
  shows "usePersistedFilters (snd (setField key field val (fs, st))) key defaults = fst (setField key field val (fs, st))
    \<and> usePersistedFilters (snd (reset_filters key defaults (fs, st))) key defaults = fst (reset_filters key defaults (fs, st))
    \<and> filters_isDefault defaults (fst (reset_filters key defaults (fs, st)))"
proof -
  let ?next = "obj_put fs (field, val)"
  have mem: "field \<in> fst ` set fs" using assms(3,4) by (metis set_map)
  then have nxt: "?next = map (\<lambda>p. if fst p = field then (field, val) else p) fs" by (simp add: obj_put_def)
  have keys: "map fst ?next = map fst defaults"
    unfolding nxt assms(3) [symmetric] by (induction fs) auto
  have prim: "\<forall>(k, v) \<in> set ?next. is_primitive v \<and> json_ok v"
    unfolding nxt using assms(5-8) by auto
  have ok: "json_ok (JObj ?next)" using keys assms(2) prim by auto
  have "readPersisted (writePersisted key (JObj ?next) st) key (JObj defaults) None = JObj ?next"
    by (rule persisted.rd_wr [OF assms(1) ok]) simp
  moreover have "merge_stored defaults (JObj ?next) = ?next"
    by (rule merge_self) (use keys assms(2) prim in auto)
  moreover have "readPersisted (clearPersisted key st) key (JObj defaults) None = JObj defaults"
    by (rule persisted.rd_cl [OF assms(1)])
  moreover have "merge_stored defaults (JObj defaults) = defaults"
  proof -
    have "js_get (JObj defaults) k = d" if "(k, d) \<in> set defaults" for k d
      using that assms(2) by (simp add: js_get_def)
    then have "(k, let incoming = js_get (JObj defaults) k in
        if incoming = JUndef then d else if is_primitive incoming then incoming else d) = (k, d)"
      if "(k, d) \<in> set defaults" for k d using that by (simp add: Let_def)
    then show ?thesis by (simp add: merge_stored_def map_idI split_beta)
  qed
  ultimately show ?thesis
    by (simp add: usePersistedFilters_def setField_def set_filters_def reset_filters_def filters_isDefault_def
        isPlainObject_def obj_spread_def shallowEqual_def Let_def)
qed

lemma filters_survive_reload_witness:
  "usePersistedFilters (snd (setField ''k'' ''type'' (JStr ''income'') ([(''type'', JStr [])], empty_storage))) ''k'' [(''type'', JStr [])]
     = [(''type'', JStr ''income'')]"
  using filters_survive_reload [of empty_storage "[(''type'', JStr [])]" "[(''type'', JStr [])]" "''type''" "JStr ''income''" "''k''"]
  by (simp add: empty_storage_def storage_ok_def is_primitive_def setField_def set_filters_def obj_spread_def obj_put_def Let_def)

end
