(* ===== verification/Form_Errors.thy ===== *)
theory Form_Errors
  imports Prelude
begin

section \<open>Messages for failed settings forms (lib/formErrors.ts)\<close>

text \<open>
  The five mappers from a thrown error to a sentence, and the validation of a billing
  cycle day. A case-insensitive regular expression of literal text is a substring test
  on the lower-cased message; \<^verbatim>\<open>/a.*b/i\<close> is \<open>matches_then\<close>, whose gap has no line
  terminator. All five keep one contract, the locale \<open>message_map\<close>.
\<close>

definition tests_i :: "string \<Rightarrow> string \<Rightarrow> bool" where
  "tests_i lit msg = js_includes (js_to_lower msg) lit"

definition line_part :: "string \<Rightarrow> string" where
  "line_part s = takeWhile (\<lambda>c. c \<noteq> CHR 0x0A \<and> c \<noteq> CHR 0x0D) s"

fun matches_then :: "string \<Rightarrow> string \<Rightarrow> string \<Rightarrow> bool" where
  "matches_then a b [] = (a = [] \<and> b = [])"
| "matches_then a b (c # s) =
     ((js_starts_with (c # s) a \<and> js_includes (line_part (drop (length a) (c # s))) b) \<or> matches_then a b s)"

definition tests_then_i :: "string \<Rightarrow> string \<Rightarrow> string \<Rightarrow> bool" where
  "tests_then_i a b msg = matches_then a b (js_to_lower msg)"

text \<open>\<^verbatim>\<open>if (!(err instanceof ApiResponseError)) return ...\<close>\<close>

definition not_api_error :: "js_error \<Rightarrow> string \<Rightarrow> string" where
  "not_api_error err fallback = (if is_error err then error_message err else fallback)"

definition mapMfaSetupError :: "js_error \<Rightarrow> string \<Rightarrow> string" where
  "mapMfaSetupError err fallback = (case err of
      ApiResponseError status message _ _ \<Rightarrow>
        if status = 400 then
          (if tests_i ''already enabled'' message then ''Two-factor authentication is already on. Refresh the page.''
           else if tests_i ''totp'' message \<or> tests_i ''code'' message then
             ''That code did not match. Codes refresh every 30 seconds, so use the latest one.''
           else ''We could not start setup. Try again in a moment.'')
        else if status = 401 then ''That code did not match. Try the next code your app shows.''
        else if status = 429 then ''Too many attempts. Wait a minute and try again.''
        else if status = 503 then ''Two-factor setup is temporarily unavailable. Try again later.''
        else fallback
    | _ \<Rightarrow> not_api_error err fallback)"

definition mapMfaDisableError :: "js_error \<Rightarrow> string \<Rightarrow> string" where
  "mapMfaDisableError err fallback = (case err of
      ApiResponseError status message _ _ \<Rightarrow>
        if status = 400 then
          (if tests_i ''not enabled'' message then ''Two-factor authentication is not on. Refresh the page.''
           else fallback)
        else if status = 401 \<or> status = 403 then ''That password did not match. Check it and try again.''
        else if status = 429 then ''Too many attempts. Wait a minute and try again.''
        else fallback
    | _ \<Rightarrow> not_api_error err fallback)"

definition mapMfaRegenerateError :: "js_error \<Rightarrow> string \<Rightarrow> string" where
  "mapMfaRegenerateError err fallback = (case err of
      ApiResponseError status message _ _ \<Rightarrow>
        if status = 400 then
          (if tests_i ''not enabled'' message then ''Two-factor authentication is not on. Turn it on first.''
           else fallback)
        else if status = 401 \<or> status = 403 then ''That password did not match. Check it and try again.''
        else if status = 429 then ''Too many attempts. Wait a minute and try again.''
        else fallback
    | _ \<Rightarrow> not_api_error err fallback)"

definition mapBillingCycleError :: "js_error \<Rightarrow> string \<Rightarrow> string" where
  "mapBillingCycleError err fallback = (case err of
      ApiResponseError status message _ _ \<Rightarrow>
        if status = 400 \<or> status = 422 then ''Pick a whole number between 1 and 28.''
        else if status = 403 then ''You do not have permission to change the billing cycle.''
        else if status = 429 then ''Too many save attempts. Wait a moment and try again.''
        else fallback
    | _ \<Rightarrow> not_api_error err fallback)"

definition mapBillingPeriodCloseError :: "js_error \<Rightarrow> string \<Rightarrow> string" where
  "mapBillingPeriodCloseError err fallback = (case err of
      ApiResponseError status message _ _ \<Rightarrow>
        if status = 400 then
          (if tests_then_i ''already'' ''closed'' message \<or> tests_then_i ''no'' ''open'' message
           then ''This period is already closed. Refresh the page to see the next one.''
           else fallback)
        else if status = 403 then ''You do not have permission to close the period.''
        else if status = 429 then ''Too many attempts. Wait a moment and try again.''
        else fallback
    | _ \<Rightarrow> not_api_error err fallback)"

definition validateBillingCycleDay :: "string \<Rightarrow> string option" where
  "validateBillingCycleDay raw =
     (let trimmed = js_trim raw in
      if trimmed = [] then Some ''Enter a day between 1 and 28.''
      else if \<not> list_all is_digit trimmed then Some ''Use digits only.''
      else (let day = digits_val trimmed in
            if day < 1 \<or> day > 28 then Some ''Pick a whole number between 1 and 28.'' else None))"

subsection \<open>The contract of the mappers\<close>

text \<open>
  An answer of the backend is shown as one of a fixed list of sentences or as the
  fallback: neither its message nor its detail reaches the screen. Any other error shows
  its own message.
\<close>

locale message_map =
  fixes to_message :: "js_error \<Rightarrow> string \<Rightarrow> string" and sentences :: "string list"
  assumes closed: "to_message (ApiResponseError st m c d) fb \<in> insert fb (set sentences)"
    and other: "\<not> (\<exists>st m c d. err = ApiResponseError st m c d) \<Longrightarrow> to_message err fb = not_api_error err fb"
    and detail_free: "to_message (ApiResponseError st m c d) fb = to_message (ApiResponseError st m c' d') fb"
begin

lemma shown: "to_message err fb \<in> insert fb (set sentences) \<or> to_message err fb = error_message err"
proof (cases "\<exists>st m c d. err = ApiResponseError st m c d")
  case True
  then show ?thesis using closed by blast
next
  case False
  then show ?thesis by (simp add: other not_api_error_def)
qed

lemma hides: "\<not> js_includes fb secret \<Longrightarrow> \<forall>s \<in> set sentences. \<not> js_includes s secret \<Longrightarrow>
    \<not> js_includes (to_message (ApiResponseError st m c d) fb) secret"
  using closed [of st m c d fb] by auto

end

definition mfa_sentences :: "string list" where
  "mfa_sentences =
     [''Two-factor authentication is already on. Refresh the page.'',
      ''That code did not match. Codes refresh every 30 seconds, so use the latest one.'',
      ''We could not start setup. Try again in a moment.'',
      ''That code did not match. Try the next code your app shows.'',
      ''Too many attempts. Wait a minute and try again.'',
      ''Two-factor setup is temporarily unavailable. Try again later.'',
      ''Two-factor authentication is not on. Refresh the page.'',
      ''That password did not match. Check it and try again.'',
      ''Two-factor authentication is not on. Turn it on first.'']"

definition billing_sentences :: "string list" where
  "billing_sentences =
     [''Pick a whole number between 1 and 28.'', ''You do not have permission to change the billing cycle.'',
      ''Too many save attempts. Wait a moment and try again.'',
      ''This period is already closed. Refresh the page to see the next one.'',
      ''You do not have permission to close the period.'', ''Too many attempts. Wait a moment and try again.'']"

interpretation mfa_setup: message_map mapMfaSetupError mfa_sentences
  by unfold_locales (auto simp: mapMfaSetupError_def mfa_sentences_def split: js_error.split)

interpretation mfa_disable: message_map mapMfaDisableError mfa_sentences
  by unfold_locales (auto simp: mapMfaDisableError_def mfa_sentences_def split: js_error.split)

interpretation mfa_regenerate: message_map mapMfaRegenerateError mfa_sentences
  by unfold_locales (auto simp: mapMfaRegenerateError_def mfa_sentences_def split: js_error.split)

interpretation billing_cycle: message_map mapBillingCycleError billing_sentences
  by unfold_locales (auto simp: mapBillingCycleError_def billing_sentences_def split: js_error.split)

interpretation period_close: message_map mapBillingPeriodCloseError billing_sentences
  by unfold_locales (auto simp: mapBillingPeriodCloseError_def billing_sentences_def split: js_error.split)

text \<open>no form message discloses what the backend said: on an API error each of the five
  mappers shows its fallback or one of fifteen fixed sentences.\<close>

theorem form_messages_closed:
  "(\<forall>f \<in> {mapMfaSetupError, mapMfaDisableError, mapMfaRegenerateError}.
      f (ApiResponseError st m c d) fb \<in> insert fb (set mfa_sentences))
   \<and> (\<forall>f \<in> {mapBillingCycleError, mapBillingPeriodCloseError}.
      f (ApiResponseError st m c d) fb \<in> insert fb (set billing_sentences))"
  by (simp only: ball_simps mfa_setup.closed mfa_disable.closed mfa_regenerate.closed billing_cycle.closed
      period_close.closed simp_thms)

lemma form_messages_closed_witness:
  "mapMfaDisableError (ApiResponseError 500 ''db password is x'' None JNull) ''fallback''
     \<in> insert ''fallback'' (set mfa_sentences)"
  using form_messages_closed [of 500 "''db password is x''" None JNull "''fallback''"] by blast

lemma digit_not_ws: "is_digit c \<Longrightarrow> \<not> is_ws c"
  by (auto simp: is_digit_def is_ws_def Let_def)

lemma js_trim_padded:
  assumes "\<forall>c \<in> set w. is_ws c" "\<forall>c \<in> set w'. is_ws c" "s \<noteq> []" "\<not> is_ws (hd s)" "\<not> is_ws (last s)"
  shows "js_trim (w @ s @ w') = s"
proof -
  obtain c cs where s: "s = c # cs" using assms(3) by (cases s) auto
  have front: "dropWhile is_ws (w @ s @ w') = s @ w'"
    using assms(1,4) s by (simp add: dropWhile_append)
  obtain e es where e: "rev s = e # es" using assms(3) by (cases "rev s") auto
  then have "\<not> is_ws e" using assms(3,5) by (metis hd_rev list.sel(1))
  with e have "dropWhile is_ws (rev w' @ rev s) = rev s"
    using assms(2) by (simp add: dropWhile_append)
  then show ?thesis by (simp add: js_trim_def front)
qed

text \<open>the day validator accepts every day from 1 to 28, however padded with white space,
  and rejects every other number.\<close>

theorem billing_day_accepted:
  assumes "\<forall>c \<in> set w. is_ws c" and "\<forall>c \<in> set w'. is_ws c"
  shows "validateBillingCycleDay (w @ show_nat n @ w') = None \<longleftrightarrow> 1 \<le> n \<and> n \<le> 28"
proof -
  have "is_digit (hd (show_nat n))" using show_nat_digits [of n] hd_in_set [of "show_nat n"] by simp
  moreover have "is_digit (last (show_nat n))" using show_nat_digits [of n] last_in_set [of "show_nat n"] by simp
  ultimately
  have "js_trim (w @ show_nat n @ w') = show_nat n"
    by (intro js_trim_padded assms) (auto dest: digit_not_ws)
  moreover have "list_all is_digit (show_nat n)"
    using show_nat_digits by (simp add: list_all_iff)
  ultimately show ?thesis by (simp add: validateBillingCycleDay_def Let_def)
qed

lemma billing_day_accepted_witness: "validateBillingCycleDay ('' '' @ show_nat 28 @ []) = None"
  using billing_day_accepted [of "'' ''" "[]" 28] by (simp add: is_ws_def)

end
