(* ===== verification/Format.thy ===== *)
theory Format
  imports Prelude
begin

section \<open>Dates and decimal amounts (lib/format.ts)\<close>

text \<open>
  Calendar dates as triples of year, month (1 to 12) and day, with the part of \<^verbatim>\<open>Date\<close>
  arithmetic the sources use; and the comparison of decimal strings without floats. A
  date string is accepted when it names a day of the calendar; a \<^verbatim>\<open>NaN\<close> argument is
  \<open>None\<close>. \<^verbatim>\<open>formatAmount\<close> and \<^verbatim>\<open>toEditAmount\<close> depend on locale data and on binary
  floats and are not modelled.
\<close>

subsection \<open>Dates\<close>

type_synonym ymd = "int \<times> int \<times> int"

definition leap_year :: "int \<Rightarrow> bool" where
  "leap_year y \<longleftrightarrow> y mod 4 = 0 \<and> (y mod 100 \<noteq> 0 \<or> y mod 400 = 0)"

definition days_in_month :: "int \<Rightarrow> int \<Rightarrow> int" where
  "days_in_month y m = (if m = 2 then (if leap_year y then 29 else 28)
     else if m = 4 \<or> m = 6 \<or> m = 9 \<or> m = 11 then 30 else 31)"

fun valid_date :: "ymd \<Rightarrow> bool" where
  "valid_date (y, m, d) \<longleftrightarrow> 1 \<le> m \<and> m \<le> 12 \<and> 1 \<le> d \<and> d \<le> days_in_month y m"

fun date_le :: "ymd \<Rightarrow> ymd \<Rightarrow> bool" where
  "date_le (y, m, d) (y', m', d') \<longleftrightarrow> y < y' \<or> (y = y' \<and> (m < m' \<or> (m = m' \<and> d \<le> d')))"

fun prev_day :: "ymd \<Rightarrow> ymd" where
  "prev_day (y, m, d) =
     (if d > 1 then (y, m, d - 1)
      else if m > 1 then (y, m - 1, days_in_month y (m - 1)) else (y - 1, 12, 31))"

fun next_day :: "ymd \<Rightarrow> ymd" where
  "next_day (y, m, d) =
     (if d < days_in_month y m then (y, m, d + 1) else if m < 12 then (y, m + 1, 1) else (y + 1, 1, 1))"

definition pad2 :: "int \<Rightarrow> string" where
  "pad2 n = (let s = show_int n in if length s < 2 then replicate (2 - length s) CHR ''0'' @ s else s)"

fun formatLocalDate :: "ymd \<Rightarrow> string" where
  "formatLocalDate (y, m, d) = show_int y @ ''-'' @ pad2 m @ ''-'' @ pad2 d"

definition todayISO :: "ymd \<Rightarrow> string" where
  "todayISO now = formatLocalDate now"

text \<open>\<^verbatim>\<open>new Date(iso + "T00:00:00")\<close>.\<close>

definition parse_iso :: "string \<Rightarrow> ymd option" where
  "parse_iso s =
     (let y = take 4 s; m = take 2 (drop 5 s); d = drop 8 s in
      if length s = 10 \<and> s ! 4 = CHR ''-'' \<and> s ! 7 = CHR ''-'' \<and> list_all is_digit (y @ m @ d)
         \<and> valid_date (int (digits_val y), int (digits_val m), int (digits_val d))
      then Some (int (digits_val y), int (digits_val m), int (digits_val d)) else None)"

definition projectedPeriodEnd :: "string \<Rightarrow> rat option \<Rightarrow> string option" where
  "projectedPeriodEnd startISO cycleDay = (case cycleDay of
      None \<Rightarrow> None
    | Some q \<Rightarrow>
        if of_int \<lfloor>q\<rfloor> \<noteq> q \<or> q < 1 \<or> q > 28 then None
        else (case parse_iso startISO of
            None \<Rightarrow> None
          | Some (y, m, _) \<Rightarrow>
              (let next_cycle = (if m = 12 then (y + 1, 1, \<lfloor>q\<rfloor>) else (y, m + 1, \<lfloor>q\<rfloor>))
               in Some (formatLocalDate (prev_day next_cycle)))))"

subsection \<open>Amounts\<close>

text \<open>\<^verbatim>\<open>whole.replace(/^0+(?=\d)/, "")\<close>.\<close>

fun strip_zeros :: "string \<Rightarrow> string" where
  "strip_zeros (c # c' # s) = (if c = CHR ''0'' \<and> is_digit c' then strip_zeros (c' # s) else c # c' # s)"
| "strip_zeros s = s"

definition normalizeAmount :: "string \<Rightarrow> string" where
  "normalizeAmount s =
     (let sign = (if js_starts_with s ''-'' then ''-'' else []);
          body = (if js_starts_with s ''-'' then tl s else s);
          parts = js_split CHR ''.'' body;
          whole = hd parts;
          frac = (if length parts > 1 then parts ! 1 else []);
          wholeN = (if strip_zeros whole = [] then ''0'' else strip_zeros whole);
          fracN = rev (dropWhile (\<lambda>c. c = CHR ''0'') (rev frac))
      in sign @ (if fracN \<noteq> [] then wholeN @ ''.'' @ fracN else wholeN))"

definition equalsAmount :: "string \<Rightarrow> string \<Rightarrow> bool" where
  "equalsAmount a b \<longleftrightarrow> normalizeAmount a = normalizeAmount b"

subsection \<open>Lemmas on dates\<close>

lemma days_in_month_range: "28 \<le> days_in_month y m \<and> days_in_month y m \<le> 31"
  by (simp add: days_in_month_def)

lemma show_nat_4:
  assumes "1000 \<le> n" "n \<le> 9999"
  shows "\<exists>a b c d. show_nat n = [a, b, c, d]"
proof -
  have a: "100 \<le> n div 10 \<and> n div 10 \<le> 999" using assms by linarith
  then have b: "10 \<le> n div 10 div 10 \<and> n div 10 div 10 \<le> 99" by linarith
  then have c: "1 \<le> n div 10 div 10 div 10 \<and> n div 10 div 10 div 10 \<le> 9" by linarith
  have "show_nat n = [digit_char (n div 10 div 10 div 10), digit_char (n div 10 div 10 mod 10),
      digit_char (n div 10 mod 10), digit_char (n mod 10)]"
    using assms a b c by (simp only: show_nat.simps [of n] show_nat.simps [of "n div 10"]
        show_nat.simps [of "n div 10 div 10"] show_nat.simps [of "n div 10 div 10 div 10"]) simp
  then show ?thesis by blast
qed

lemma pad2_digits:
  assumes "0 \<le> n" "n \<le> 99"
  shows "\<exists>a b. pad2 n = [a, b] \<and> is_digit a \<and> is_digit b \<and> digits_val [a, b] = nat n"
proof (cases "n < 10")
  case True
  then have "nat n < 10" using assms by simp
  then have "pad2 n = [CHR ''0'', digit_char (nat n)]"
    using assms by (simp add: pad2_def show_int_def show_nat.simps [of "nat n"] Let_def)
  moreover have "is_digit CHR ''0''" "digits_val [CHR ''0'', digit_char (nat n)] = nat n"
    using \<open>nat n < 10\<close> by (simp_all add: is_digit_def digits_val_def)
  ultimately show ?thesis using \<open>nat n < 10\<close> by simp
next
  case False
  then have "\<not> nat n < 10" "nat n div 10 < 10" using assms by linarith+
  then have "show_nat (nat n) = [digit_char (nat n div 10), digit_char (nat n mod 10)]"
    by (simp only: show_nat.simps [of "nat n"] show_nat.simps [of "nat n div 10"]) simp
  moreover have "pad2 n = show_nat (nat n)"
    using False calculation by (simp add: pad2_def show_int_def Let_def)
  moreover have "digits_val (show_nat (nat n)) = nat n" by simp
  ultimately show ?thesis using assms show_nat_digits [of "nat n"] by auto
qed

lemma parse_format:
  assumes "valid_date (y, m, d)" "1000 \<le> y" "y \<le> 9999"
  shows "parse_iso (formatLocalDate (y, m, d)) = Some (y, m, d)"
proof -
  have "1000 \<le> nat y" "nat y \<le> 9999" using assms(2,3) by simp_all
  then obtain a b c e where Y: "show_nat (nat y) = [a, b, c, e]" using show_nat_4 by blast
  have yv: "digits_val [a, b, c, e] = nat y" and yd: "list_all is_digit [a, b, c, e]"
    using Y [symmetric] show_nat_digits [of "nat y"] by (simp_all add: list_all_iff)
  have "0 \<le> m \<and> m \<le> 99 \<and> 0 \<le> d \<and> d \<le> 99"
    using assms(1) days_in_month_range [of y m] by auto
  then obtain p q r s where "pad2 m = [p, q]" "pad2 d = [r, s]"
    and "is_digit p" "is_digit q" "is_digit r" "is_digit s"
    and "digits_val [p, q] = nat m" "digits_val [r, s] = nat d"
    using pad2_digits [of m] pad2_digits [of d] by auto
  moreover have "show_int y = [a, b, c, e]" using Y assms by (simp add: show_int_def)
  moreover have "nat m \<le> 12" "Suc 0 \<le> nat m" "Suc 0 \<le> nat d" using assms(1) by auto
  ultimately show ?thesis using assms yv yd by (simp add: parse_iso_def Let_def)
qed

lemma prev_day_facts:
  "valid_date (y, m, d) \<Longrightarrow> next_day (prev_day (y, m, d)) = (y, m, d) \<and> valid_date (prev_day (y, m, d))"
  using days_in_month_range [of y "m - 1"] by (auto simp: days_in_month_def)

definition next_cycle :: "int \<Rightarrow> int \<Rightarrow> int \<Rightarrow> ymd" where
  "next_cycle y m c = (if m = 12 then (y + 1, 1, c) else (y, m + 1, c))"

lemma next_cycle_valid:
  "1 \<le> m \<Longrightarrow> m \<le> 12 \<Longrightarrow> 1 \<le> c \<Longrightarrow> c \<le> 28 \<Longrightarrow> valid_date (next_cycle y m c)"
  using days_in_month_range [of "y + 1" 1] days_in_month_range [of y "m + 1"] by (auto simp: next_cycle_def)

lemma prev_next_cycle:
  "1 \<le> m \<Longrightarrow> m \<le> 12 \<Longrightarrow> prev_day (next_cycle y m c)
     = (if c > 1 then (if m = 12 then (y + 1, 1, c - 1) else (y, m + 1, c - 1)) else (y, m, days_in_month y m))"
  by (simp add: next_cycle_def days_in_month_def)

text \<open>for a period that starts on the cycle day, the projected end is the day before the
  cycle day of the following month; for any other start it is the same day, so never
  before the start.\<close>

theorem projected_end_correct:
  assumes "valid_date (y, m, d)" and "1000 \<le> y" and "y \<le> 9999" and "1 \<le> c" and "c \<le> 28"
  shows "\<exists>e. projectedPeriodEnd (formatLocalDate (y, m, d)) (Some (of_int c)) = Some (formatLocalDate e)
    \<and> next_day e = (if m = 12 then (y + 1, 1, c) else (y, m + 1, c)) \<and> valid_date e \<and> date_le (y, m, d) e"
proof -
  let ?e = "prev_day (next_cycle y m c)"
  have m: "1 \<le> m" "m \<le> 12" "d \<le> days_in_month y m" using assms(1) by auto
  obtain a b f where n: "next_cycle y m c = (a, b, f)" by (cases "next_cycle y m c")
  have "valid_date (a, b, f)" using next_cycle_valid [OF m(1,2) assms(4,5), of y] n by simp
  then have e: "next_day ?e = next_cycle y m c" "valid_date ?e" using prev_day_facts [of a b f] n by auto
  have "date_le (y, m, d) ?e"
    unfolding prev_next_cycle [OF m(1,2)] using m(3) by simp
  moreover have "projectedPeriodEnd (formatLocalDate (y, m, d)) (Some (of_int c)) = Some (formatLocalDate ?e)"
    using assms parse_format [OF assms(1-3)]
    by (simp add: projectedPeriodEnd_def next_cycle_def del: formatLocalDate.simps prev_day.simps)
  ultimately show ?thesis using e unfolding next_cycle_def by blast
qed

lemma projected_end_correct_witness:
  "\<exists>e. projectedPeriodEnd (formatLocalDate (2024, 1, 31)) (Some (of_int 1)) = Some (formatLocalDate e)
     \<and> next_day e = (2024, 2, 1)"
proof -
  have "valid_date (2024, 1, 31)" by (simp add: days_in_month_def)
  from projected_end_correct [OF this, of 1] show ?thesis by (simp del: formatLocalDate.simps next_day.simps valid_date.simps) blast
qed

text \<open>the projection goes to the following month even when the cycle day is still ahead in
  the month of the start, where the next occurrence of the cycle day is sooner.\<close>

theorem projected_end_skips_nearest_cycle_day:
  assumes "valid_date (y, m, d)" and "1000 \<le> y" and "y \<le> 9999" and "d < c" and "c \<le> 28" and "2 \<le> c" and "m < 12"
  shows "projectedPeriodEnd (formatLocalDate (y, m, d)) (Some (of_int c)) = Some (formatLocalDate (y, m + 1, c - 1))
    \<and> \<not> date_le (y, m + 1, c - 1) (y, m, c - 1)"
  using assms by (auto simp: projectedPeriodEnd_def parse_format simp del: formatLocalDate.simps)

lemma projected_end_skips_nearest_cycle_day_witness:
  "projectedPeriodEnd ''2024-03-05'' (Some (of_int 10)) = Some ''2024-04-09''"
proof -
  have "formatLocalDate (2024, 3, 5) = ''2024-03-05''" "formatLocalDate (2024, 4, 9) = ''2024-04-09''"
    by code_simp+
  with projected_end_skips_nearest_cycle_day [of 2024 3 5 10] show ?thesis by (simp add: days_in_month_def)
qed

end
