(* ===== verification/Tags.thy ===== *)
theory Tags
  imports Api_Types
begin

section \<open>The tag input (components/transactions/TagChipInput.tsx)\<close>

text \<open>
  The name a chip gets, the backend's normalisation of a tag name
  (\<^verbatim>\<open>tag_service.py\<close>), and the input itself as a state machine: its handlers, the
  debounced suggestion fetch with its abort, and the parent's chip list (\<open>ti_value\<close>, which
  \<^verbatim>\<open>onChange\<close> replaces). Characters are 8-bit; the input keeps only ASCII ones.
\<close>

subsection \<open>Names\<close>

definition MAX_TAGS_PER_TRANSACTION :: nat where "MAX_TAGS_PER_TRANSACTION = 5"
definition TAG_NAME_MAX_LENGTH :: nat where "TAG_NAME_MAX_LENGTH = 32"

definition tag_char :: "char \<Rightarrow> bool" where
  "tag_char c = (let n = of_char c :: nat in (97 \<le> n \<and> n \<le> 122) \<or> (48 \<le> n \<and> n \<le> 57) \<or> n = 32 \<or> n = 45)"

text \<open>Every run of white space becomes one space; the flag says that a run is being read.\<close>

fun collapse_ws :: "(char \<Rightarrow> bool) \<Rightarrow> bool \<Rightarrow> string \<Rightarrow> string" where
  "collapse_ws ws b [] = []"
| "collapse_ws ws b (c # cs) =
     (if ws c then (if b then collapse_ws ws True cs else CHR '' '' # collapse_ws ws True cs)
      else c # collapse_ws ws False cs)"

definition normalizeName :: "string \<Rightarrow> string" where
  "normalizeName raw = js_trim (collapse_ws is_ws False (filter tag_char (js_to_lower raw)))"

text \<open>
  \<^verbatim>\<open>normalize_tag_name\<close> of the backend; Python's white space below 256. Its \<^verbatim>\<open>lower\<close> also
  lowers accented letters, which the last check refuses in either case.
\<close>

definition py_ws :: "char \<Rightarrow> bool" where
  "py_ws c = (let n = of_char c :: nat in (9 \<le> n \<and> n \<le> 13) \<or> (28 \<le> n \<and> n \<le> 32) \<or> n = 133 \<or> n = 160)"

definition py_strip :: "string \<Rightarrow> string" where
  "py_strip s = rev (dropWhile py_ws (rev (dropWhile py_ws s)))"

definition normalize_tag_name :: "string \<Rightarrow> string + string" where
  "normalize_tag_name raw =
     (let cleaned = collapse_ws py_ws False (js_to_lower (py_strip raw)) in
      if cleaned = [] then Inl ''Tag name is required''
      else if length cleaned > TAG_NAME_MAX_LENGTH then Inl ''Tag name must be 32 characters or fewer''
      else if \<not> list_all tag_char cleaned
        then Inl ''Tag name may only contain lowercase letters, digits, spaces, and hyphens''
      else Inr cleaned)"

subsection \<open>State\<close>

record tag_suggestion =
  tg_name :: string
  tg_source :: string
  tg_weight :: rat

text \<open>
  The effect of the last change of the draft or the chips: nothing, a timer that will
  fetch for a prefix, or a fetch under way. A fetch that was aborted is gone: its
  completion changes nothing.
\<close>

datatype suggest = NoSuggest | Debounce string | Fetching string

record tag_input =
  ti_value :: "string list"
  ti_draft :: string
  ti_suggestions :: "tag_suggestion list"
  ti_open :: bool
  ti_highlight :: int
  ti_loading :: bool
  ti_announce :: string
  ti_error :: string
  ti_suggest :: suggest

definition tag_input_init :: "string list \<Rightarrow> tag_input" where
  "tag_input_init names = \<lparr>ti_value = names, ti_draft = [], ti_suggestions = [], ti_open = False, ti_highlight = -1,
     ti_loading = False, ti_announce = [], ti_error = [], ti_suggest = NoSuggest\<rparr>"

definition atCap :: "nat \<Rightarrow> tag_input \<Rightarrow> bool" where
  "atCap maxTags t = (length (ti_value t) \<ge> maxTags)"

text \<open>The cleanup of the previous effect (timer cleared, fetch aborted) and the effect.\<close>

definition suggest_effect :: "bool \<Rightarrow> nat \<Rightarrow> tag_input \<Rightarrow> tag_input" where
  "suggest_effect disabled maxTags t0 =
     (let t = t0\<lparr>ti_suggest := NoSuggest\<rparr> in
      if disabled then t
      else if atCap maxTags t then t\<lparr>ti_suggestions := [], ti_open := False, ti_highlight := -1\<rparr>
      else if js_trim (ti_draft t) = [] then t\<lparr>ti_suggestions := [], ti_highlight := -1, ti_open := False\<rparr>
      else t\<lparr>ti_suggest := Debounce (js_trim (ti_draft t))\<rparr>)"

definition debounce_fires :: "tag_input \<Rightarrow> tag_input" where
  "debounce_fires t = (case ti_suggest t of
      Debounce prefix \<Rightarrow> t\<lparr>ti_suggest := Fetching prefix, ti_loading := True\<rparr>
    | _ \<Rightarrow> t)"

definition isAbortError :: "js_error \<Rightarrow> bool" where
  "isAbortError e = (case e of NonError v \<Rightarrow> js_is_object v \<and> js_get v ''name'' = JStr ''AbortError''
    | _ \<Rightarrow> error_name e = ''AbortError'')"

definition fetch_done :: "js_error + tag_suggestion list \<Rightarrow> tag_input \<Rightarrow> tag_input" where
  "fetch_done ans t = (case ti_suggest t of
      Fetching _ \<Rightarrow>
        (case ans of
           Inr ss \<Rightarrow>
             (let filtered = filter (\<lambda>s. tg_name s \<notin> set (ti_value t)) ss; n = length filtered in
              t\<lparr>ti_suggestions := filtered, ti_highlight := (if n > 0 then 0 else -1), ti_open := True,
                ti_announce := (if n = 0 then ''No suggestions''
                   else show_nat n @ '' '' @ (if n = 1 then ''suggestion'' else ''suggestions'') @ '' available''),
                ti_loading := False, ti_suggest := NoSuggest\<rparr>)
         | Inl err \<Rightarrow>
             (if isAbortError err then t\<lparr>ti_loading := False, ti_suggest := NoSuggest\<rparr>
              else t\<lparr>ti_suggestions := [], ti_highlight := -1, ti_loading := False, ti_suggest := NoSuggest\<rparr>))
    | _ \<Rightarrow> t)"

subsection \<open>Handlers\<close>

definition draft_cleared :: "tag_input \<Rightarrow> tag_input" where
  "draft_cleared t = t\<lparr>ti_draft := [], ti_open := False, ti_highlight := -1\<rparr>"

text \<open>The effect runs when the handler changed the draft or replaced the chip list.\<close>

definition commitChip :: "bool \<Rightarrow> nat \<Rightarrow> string \<Rightarrow> tag_input \<Rightarrow> tag_input" where
  "commitChip disabled maxTags raw t =
     (let name = normalizeName raw in
      if name = [] then t
      else if length name > TAG_NAME_MAX_LENGTH then
        t\<lparr>ti_error := ''Tag must be '' @ show_nat TAG_NAME_MAX_LENGTH @ '' characters or fewer''\<rparr>
      else if name \<in> set (ti_value t) then
        (if ti_draft t = [] then draft_cleared t else suggest_effect disabled maxTags (draft_cleared t))
      else if length (ti_value t) \<ge> maxTags then
        t\<lparr>ti_error := ''Maximum '' @ show_nat maxTags @ '' tags per transaction''\<rparr>
      else suggest_effect disabled maxTags
             (draft_cleared (t\<lparr>ti_error := [], ti_value := ti_value t @ [name]\<rparr>)))"

definition removeChip :: "bool \<Rightarrow> nat \<Rightarrow> string \<Rightarrow> tag_input \<Rightarrow> tag_input" where
  "removeChip disabled maxTags name t =
     suggest_effect disabled maxTags (t\<lparr>ti_value := filter (\<lambda>x. x \<noteq> name) (ti_value t), ti_error := []\<rparr>)"

definition handleInput :: "bool \<Rightarrow> nat \<Rightarrow> string \<Rightarrow> tag_input \<Rightarrow> tag_input" where
  "handleInput disabled maxTags nxt t =
     (let t1 = t\<lparr>ti_draft := nxt, ti_error := []\<rparr>
      in if nxt = ti_draft t then t1 else suggest_effect disabled maxTags t1)"

definition handleFocus :: "tag_input \<Rightarrow> tag_input" where
  "handleFocus t = (if ti_suggestions t \<noteq> [] \<and> js_trim (ti_draft t) \<noteq> [] then t\<lparr>ti_open := True\<rparr> else t)"

definition handleKeyDown :: "bool \<Rightarrow> nat \<Rightarrow> string \<Rightarrow> tag_input \<Rightarrow> tag_input" where
  "handleKeyDown disabled maxTags key t =
     (if key = ''Enter'' \<or> key = ''Tab'' \<or> key = '','' then
        (if key = ''Tab'' \<and> js_trim (ti_draft t) = [] \<and> ti_highlight t < 0 then t
         else if ti_open t \<and> ti_highlight t \<ge> 0 \<and> ti_highlight t < int (length (ti_suggestions t)) then
           commitChip disabled maxTags (tg_name (ti_suggestions t ! nat (ti_highlight t))) t
         else if js_trim (ti_draft t) \<noteq> [] then commitChip disabled maxTags (ti_draft t) t
         else t)
      else if key = ''Backspace'' \<and> ti_draft t = [] \<and> length (ti_value t) > 0 then
        removeChip disabled maxTags (ti_value t ! (length (ti_value t) - 1)) t
      else if \<not> ti_open t \<or> ti_suggestions t = [] then t
      else if key = ''ArrowDown'' then t\<lparr>ti_highlight := (ti_highlight t + 1) mod int (length (ti_suggestions t))\<rparr>
      else if key = ''ArrowUp'' then
        t\<lparr>ti_highlight := (if ti_highlight t \<le> 0 then int (length (ti_suggestions t)) - 1 else ti_highlight t - 1)\<rparr>
      else if key = ''Escape'' then t\<lparr>ti_open := False, ti_highlight := -1\<rparr>
      else t)"

subsection \<open>The input as a state machine\<close>

text \<open>
  The input takes no key and no text while disabled or at the cap; suggestions can be
  hovered and picked while they are shown.
\<close>

datatype tag_event =
    TgInput string | TgKey string | TgFocus | TgOutside | TgRemove string | TgPick nat | TgHover nat
  | TgTimer | TgFetched "js_error + tag_suggestion list"

definition tag_input_on :: "nat \<Rightarrow> tag_input \<Rightarrow> bool" where
  "tag_input_on maxTags t \<longleftrightarrow> \<not> atCap maxTags t"

fun tag_step :: "nat \<Rightarrow> tag_input \<Rightarrow> tag_event \<Rightarrow> tag_input" where
  "tag_step maxTags t (TgInput s) = (if tag_input_on maxTags t then handleInput False maxTags s t else t)"
| "tag_step maxTags t (TgKey key) = (if tag_input_on maxTags t then handleKeyDown False maxTags key t else t)"
| "tag_step maxTags t TgFocus = (if tag_input_on maxTags t then handleFocus t else t)"
| "tag_step maxTags t TgOutside = t\<lparr>ti_open := False\<rparr>"
| "tag_step maxTags t (TgRemove name) = removeChip False maxTags name t"
| "tag_step maxTags t (TgPick i) =
     (if ti_open t \<and> i < length (ti_suggestions t) then commitChip False maxTags (tg_name (ti_suggestions t ! i)) t else t)"
| "tag_step maxTags t (TgHover i) =
     (if ti_open t \<and> i < length (ti_suggestions t) then t\<lparr>ti_highlight := int i\<rparr> else t)"
| "tag_step maxTags t TgTimer = debounce_fires t"
| "tag_step maxTags t (TgFetched ans) = fetch_done ans t"

subsection \<open>What the client sends is what the backend stores\<close>

definition single_ws :: "string \<Rightarrow> bool" where
  "single_ws s = successively (\<lambda>c d. \<not> (c = CHR '' '' \<and> d = CHR '' '')) s"

lemma tag_char_ws:
  assumes "tag_char c"
  shows "is_ws c \<longleftrightarrow> c = CHR '' ''" "py_ws c \<longleftrightarrow> c = CHR '' ''" "lower_char c = c"
proof -
  have "c = CHR '' '' \<longleftrightarrow> (of_char c :: nat) = of_char (CHR '' '')" by (simp only: of_char_eq_iff)
  also have "of_char (CHR '' '') = (32 :: nat)" by simp
  finally have e: "c = CHR '' '' \<longleftrightarrow> (of_char c :: nat) = 32" .
  show "is_ws c \<longleftrightarrow> c = CHR '' ''" "py_ws c \<longleftrightarrow> c = CHR '' ''" "lower_char c = c"
    using assms unfolding e by (auto simp: tag_char_def is_ws_def py_ws_def lower_char_def Let_def)
qed

lemma tag_char_space: "tag_char CHR '' ''"
  by (simp add: tag_char_def)

lemma collapse_tag_chars: "list_all tag_char s \<Longrightarrow> list_all tag_char (collapse_ws is_ws b s)"
  by (induction s arbitrary: b) (auto simp: tag_char_space)

lemma collapse_hd: "collapse_ws ws True s \<noteq> [] \<Longrightarrow> \<not> ws (hd (collapse_ws ws True s))"
  by (induction s) auto

lemma collapse_single:
  "list_all tag_char s \<Longrightarrow> single_ws (collapse_ws is_ws b s)"
proof (induction s arbitrary: b)
  case (Cons c s)
  have hd: "collapse_ws is_ws True s = [] \<or> hd (collapse_ws is_ws True s) \<noteq> CHR '' ''"
    using collapse_hd [of is_ws s] by (auto simp: is_ws_def)
  show ?case
    using Cons hd tag_char_ws [of c] by (auto simp: single_ws_def successively_Cons)
qed (simp add: single_ws_def)

lemma collapse_id:
  "list_all tag_char s \<Longrightarrow> single_ws s \<Longrightarrow> b \<longrightarrow> s = [] \<or> hd s \<noteq> CHR '' '' \<Longrightarrow> collapse_ws py_ws b s = s"
proof (induction s arbitrary: b)
  case (Cons c s)
  have sw: "single_ws s" "c = CHR '' '' \<longrightarrow> s = [] \<or> hd s \<noteq> CHR '' ''"
    using Cons.prems(2) by (auto simp: single_ws_def successively_Cons)
  show ?case
  proof (cases "c = CHR '' ''")
    case True
    then have "py_ws c" "\<not> b" using Cons.prems tag_char_ws [of c] by auto
    then show ?thesis using Cons.IH [of True] Cons.prems sw True by simp
  next
    case False
    then have "\<not> py_ws c" using Cons.prems(1) tag_char_ws [of c] by simp
    then show ?thesis using Cons.IH [of False] Cons.prems sw by simp
  qed
qed simp

lemma trim_parts: "\<exists>a b. s = a @ js_trim s @ b"
proof -
  let ?d = "dropWhile is_ws s"
  have "rev ?d = takeWhile is_ws (rev ?d) @ dropWhile is_ws (rev ?d)" by simp
  then have "?d = js_trim s @ rev (takeWhile is_ws (rev ?d))"
    unfolding js_trim_def by (metis rev_append rev_rev_ident)
  then have "s = takeWhile is_ws s @ js_trim s @ rev (takeWhile is_ws (rev ?d))"
    by (metis takeWhile_dropWhile_id)
  then show ?thesis by blast
qed

lemma trim_ends:
  "js_trim s \<noteq> [] \<Longrightarrow> \<not> is_ws (hd (js_trim s)) \<and> \<not> is_ws (last (js_trim s))"
proof -
  let ?d = "dropWhile is_ws s"
  assume ne: "js_trim s \<noteq> []"
  have l: "\<not> is_ws (last (js_trim s))"
    using ne hd_dropWhile [of is_ws "rev ?d"] by (simp add: js_trim_def last_rev)
  have "?d = js_trim s @ rev (takeWhile is_ws (rev ?d))"
    unfolding js_trim_def by (metis rev_append rev_rev_ident takeWhile_dropWhile_id)
  then have "?d \<noteq> []" "hd ?d = hd (js_trim s)" using ne by (metis append_is_Nil_conv, metis hd_append2)
  then show ?thesis using l hd_dropWhile [of is_ws s] by metis
qed

lemma py_strip_id:
  assumes "s = [] \<or> \<not> py_ws (hd s) \<and> \<not> py_ws (last s)"
  shows "py_strip s = s"
proof (cases "s = []")
  case False
  then have "dropWhile py_ws s = s" using assms by (cases s) auto
  moreover have "dropWhile py_ws (rev s) = rev s" using assms False by (cases "rev s") (auto simp: hd_rev)
  ultimately show ?thesis by (simp add: py_strip_def)
qed (simp add: py_strip_def)

definition tag_name_ok :: "string \<Rightarrow> bool" where
  "tag_name_ok name \<longleftrightarrow> name \<noteq> [] \<and> length name \<le> TAG_NAME_MAX_LENGTH \<and> normalize_tag_name name = Inr name"

lemma normalizeName_ok:
  assumes "normalizeName raw \<noteq> []" and "length (normalizeName raw) \<le> TAG_NAME_MAX_LENGTH"
  shows "tag_name_ok (normalizeName raw)"
proof -
  let ?f = "filter tag_char (js_to_lower raw)" and ?n = "normalizeName raw"
  have "list_all tag_char ?f" by (simp add: list_all_iff)
  then have c: "list_all tag_char (collapse_ws is_ws False ?f)" "single_ws (collapse_ws is_ws False ?f)"
    by (rule collapse_tag_chars, rule collapse_single)
  obtain a b where "collapse_ws is_ws False ?f = a @ ?n @ b"
    using trim_parts [of "collapse_ws is_ws False ?f"] by (auto simp: normalizeName_def)
  then have n: "list_all tag_char ?n" "single_ws ?n"
    using c by (auto simp: single_ws_def successively_append_iff)
  have "tag_char (hd ?n)" "tag_char (last ?n)" using n(1) assms(1) by (auto simp: list_all_iff)
  moreover have "\<not> is_ws (hd ?n)" "\<not> is_ws (last ?n)"
    using trim_ends assms(1) by (auto simp: normalizeName_def)
  ultimately have "\<not> py_ws (hd ?n)" "\<not> py_ws (last ?n)" using tag_char_ws by metis+
  then have "py_strip ?n = ?n" by (intro py_strip_id) simp
  moreover have "js_to_lower ?n = ?n"
    unfolding js_to_lower_def using n(1) tag_char_ws(3) by (intro map_idI) (auto simp: list_all_iff)
  moreover have "collapse_ws py_ws False ?n = ?n" using n by (intro collapse_id) simp_all
  ultimately show ?thesis
    using assms n(1) by (simp add: tag_name_ok_def normalize_tag_name_def Let_def)
qed

subsection \<open>Invariant\<close>

definition tag_inv :: "nat \<Rightarrow> tag_input \<Rightarrow> bool" where
  "tag_inv maxTags t \<longleftrightarrow> distinct (ti_value t) \<and> length (ti_value t) \<le> maxTags \<and> (\<forall>name \<in> set (ti_value t). tag_name_ok name)
     \<and> (ti_highlight t = -1 \<or> 0 \<le> ti_highlight t \<and> ti_highlight t < int (length (ti_suggestions t)))"

lemma suggest_effect_inv: "tag_inv m t \<Longrightarrow> tag_inv m (suggest_effect d m t)"
  by (auto simp: tag_inv_def suggest_effect_def Let_def atCap_def)

lemma draft_cleared_inv: "tag_inv m t \<Longrightarrow> tag_inv m (draft_cleared t)"
  by (auto simp: tag_inv_def draft_cleared_def)

lemma commitChip_inv:
  assumes "tag_inv m t"
  shows "tag_inv m (commitChip d m raw t)"
proof -
  let ?n = "normalizeName raw"
  have err: "tag_inv m (t\<lparr>ti_error := e\<rparr>)" for e using assms by (auto simp: tag_inv_def)
  have add: "tag_inv m (t\<lparr>ti_error := [], ti_value := ti_value t @ [?n]\<rparr>)"
    if "?n \<noteq> []" "length ?n \<le> TAG_NAME_MAX_LENGTH" "?n \<notin> set (ti_value t)" "length (ti_value t) < m"
    using assms that normalizeName_ok [of raw] by (auto simp: tag_inv_def)
  show ?thesis
    using assms err add by (simp add: commitChip_def Let_def suggest_effect_inv draft_cleared_inv)
qed

lemma removeChip_inv: "tag_inv m t \<Longrightarrow> tag_inv m (removeChip d m name t)"
  unfolding removeChip_def
  by (rule suggest_effect_inv) (auto simp: tag_inv_def intro: order_trans [OF length_filter_le])

lemma tag_step_inv: "tag_inv m t \<Longrightarrow> tag_inv m (tag_step m t e)"
proof (induction m t e rule: tag_step.induct)
  case (1 m t s)
  have "tag_inv m (t\<lparr>ti_draft := s, ti_error := []\<rparr>)" using 1 by (auto simp: tag_inv_def)
  moreover have "tag_inv m (t\<lparr>ti_error := []\<rparr>)" using 1 by (auto simp: tag_inv_def)
  ultimately show ?case using 1 by (simp add: handleInput_def Let_def suggest_effect_inv)
next
  case (2 m t key)
  have down: "tag_inv m (t\<lparr>ti_highlight := (ti_highlight t + 1) mod int (length (ti_suggestions t))\<rparr>)"
    if "ti_suggestions t \<noteq> []" using 2 that by (auto simp: tag_inv_def)
  have up: "tag_inv m (t\<lparr>ti_highlight := (if ti_highlight t \<le> 0 then int (length (ti_suggestions t)) - 1 else ti_highlight t - 1)\<rparr>)"
    if "ti_suggestions t \<noteq> []" using 2 that by (auto simp: tag_inv_def Suc_le_eq)
  have esc: "tag_inv m (t\<lparr>ti_open := False, ti_highlight := -1\<rparr>)" using 2 by (auto simp: tag_inv_def)
  show ?case
    using 2 down up esc by (simp add: handleKeyDown_def commitChip_inv removeChip_inv)
next
  case (3 m t)
  then show ?case by (auto simp: handleFocus_def tag_inv_def)
next
  case (9 m t ans)
  then show ?case by (auto simp: fetch_done_def Let_def tag_inv_def split: suggest.splits sum.splits)
next
  case (5 m t name)
  then show ?case by (simp add: removeChip_inv)
next
  case (6 m t i)
  then show ?case by (simp add: commitChip_inv)
qed (auto simp: debounce_fires_def tag_inv_def split: suggest.splits)

text \<open>The machine of an input with the default cap, on which the page's forms mount it.\<close>

interpretation tag_chips: step_machine "tag_step MAX_TAGS_PER_TRANSACTION" "tag_inv MAX_TAGS_PER_TRANSACTION"
  by unfold_locales (rule tag_step_inv)

text \<open>C35: Whatever the user types, pastes, picks, removes or hovers, and whatever suggestions come:
  the chips of a transaction stay at most five, all different, and each is a name that the
  backend's own normalisation accepts and stores unchanged; the highlighted option is
  always one of those shown, or none.\<close>

theorem chips_accepted_by_backend:
  assumes "distinct names" and "length names \<le> MAX_TAGS_PER_TRANSACTION" and "\<forall>n \<in> set names. normalize_tag_name n = Inr n"
    and "t = run (tag_step MAX_TAGS_PER_TRANSACTION) (tag_input_init names) es"
  shows "length (ti_value t) \<le> 5 \<and> distinct (ti_value t) \<and> (\<forall>n \<in> set (ti_value t). normalize_tag_name n = Inr n) \<and>
     (ti_highlight t = -1 \<or> 0 \<le> ti_highlight t \<and> ti_highlight t < int (length (ti_suggestions t)))"
proof -
  have "tag_name_ok n" if "normalize_tag_name n = Inr n" for n
    using that by (auto simp: tag_name_ok_def normalize_tag_name_def Let_def split: if_splits)
  then have "tag_inv MAX_TAGS_PER_TRANSACTION (tag_input_init names)"
    using assms(1-3) by (auto simp: tag_inv_def tag_input_init_def)
  then have "tag_inv MAX_TAGS_PER_TRANSACTION t" unfolding assms(4) by (rule tag_chips.run_inv)
  then show ?thesis by (auto simp: tag_inv_def tag_name_ok_def MAX_TAGS_PER_TRANSACTION_def)
qed

theorem chips_accepted_by_backend_witness:
  "length (ti_value (run (tag_step MAX_TAGS_PER_TRANSACTION) (tag_input_init []) [TgInput ''Coffee'', TgKey ''Enter''])) \<le> 5"
  using chips_accepted_by_backend [of "[]", OF _ _ _ refl, of "[TgInput ''Coffee'', TgKey ''Enter'']"]
  by (simp del: run_simps add: MAX_TAGS_PER_TRANSACTION_def)

text \<open>A suggestion fetch that is aborted because the draft became blank leaves the input in
  its loading state: nothing is under way any more, no timer and no answer changes
  anything, and screen readers are told that suggestions are loading until some later
  fetch ends.\<close>

theorem aborted_fetch_leaves_loading:
  assumes "ti_suggest t = Fetching prefix" and "ti_loading t" and "tag_input_on m t"
    and "ti_draft t \<noteq> blank" and "js_trim blank = []"
  shows "ti_loading (tag_step m t (TgInput blank)) \<and> ti_suggest (tag_step m t (TgInput blank)) = NoSuggest \<and>
     (\<forall>ans. tag_step m (tag_step m t (TgInput blank)) (TgFetched ans) = tag_step m t (TgInput blank)) \<and>
     tag_step m (tag_step m t (TgInput blank)) TgTimer = tag_step m t (TgInput blank)"
proof -
  let ?t = "tag_step m t (TgInput blank)"
  have "?t = t\<lparr>ti_draft := blank, ti_error := [], ti_suggest := NoSuggest, ti_suggestions := [], ti_highlight := -1, ti_open := False\<rparr>"
    using assms(3-5) by (simp add: handleInput_def suggest_effect_def Let_def tag_input_on_def atCap_def)
  then have "ti_loading ?t" "ti_suggest ?t = NoSuggest" using assms(2) by simp_all
  then show ?thesis by (simp add: fetch_done_def debounce_fires_def)
qed

definition demo_tags :: tag_input where
  "demo_tags = (tag_input_init [])\<lparr>ti_draft := ''ca'', ti_suggest := Fetching ''ca'', ti_loading := True\<rparr>"

theorem aborted_fetch_leaves_loading_witness:
  "ti_loading (tag_step 5 demo_tags (TgInput []))"
proof -
  have "ti_suggest demo_tags = Fetching ''ca''" "ti_loading demo_tags" "tag_input_on 5 demo_tags" "ti_draft demo_tags \<noteq> []" "js_trim [] = []"
    by (simp_all add: demo_tags_def tag_input_init_def tag_input_on_def atCap_def js_trim_def)
  then show ?thesis using aborted_fetch_leaves_loading by blast
qed

end
