(* ===== verification/Schema_Fields.thy ===== *)
theory Schema_Fields
  imports Js_Number Tags Format
begin

section \<open>What the backend's schemas read\<close>

text \<open>
  Fields of a request body as the schemas of the backend read them. A \<^verbatim>\<open>Decimal\<close> takes the text
  that \<^verbatim>\<open>decimal.Decimal\<close> takes, white space at the ends and underscores left out: the decimal
  texts of \<open>js_Number\<close>; infinities and \<^verbatim>\<open>NaN\<close> are refused. \<^verbatim>\<open>max_digits\<close> and \<^verbatim>\<open>decimal_places\<close> do not
  count trailing zeros, so they bound the value. Of a date only the form that a date input gives
  is read. The schema library is not part of the repository; this is what its documentation says.
\<close>

definition py_Decimal :: "string \<Rightarrow> rat option" where
  "py_Decimal s = (let t = filter (\<lambda>c. c \<noteq> CHR ''_'') (py_strip s) in
     if t = [] \<or> is_ws (hd t) \<or> is_ws (last t) then None else js_Number t)"

text \<open>\<^verbatim>\<open>Field(gt=0)\<close>\<close>

definition positive_field :: "string \<Rightarrow> rat option" where
  "positive_field s = (case py_Decimal s of Some q \<Rightarrow> if 0 < q then Some q else None | None \<Rightarrow> None)"

text \<open>\<^verbatim>\<open>Field(gt=0, max_digits=12, decimal_places=2)\<close>\<close>

definition money_field :: "string \<Rightarrow> rat option" where
  "money_field s = (case py_Decimal s of
      Some q \<Rightarrow> if 0 < q \<and> is_integer (q * 100) \<and> q < 10 ^ 10 then Some q else None
    | None \<Rightarrow> None)"

definition date_field :: "string \<Rightarrow> ymd option" where
  "date_field s = (case parse_iso s of Some (y, m, d) \<Rightarrow> if 1 \<le> y then Some (y, m, d) else None | None \<Rightarrow> None)"

subsection \<open>Texts of number inputs\<close>

text \<open>Whatever \<open>js_Number\<close> takes as a number and is not blank, a \<^verbatim>\<open>Decimal\<close> takes as the same number.\<close>

definition number_text :: "string \<Rightarrow> bool" where
  "number_text s \<longleftrightarrow> list_all (\<lambda>c. is_digit c \<or> c \<in> set ''+-.eE'') s"

lemma number_text_simps [simp]:
  "number_text []" "number_text (c # s) \<longleftrightarrow> (is_digit c \<or> c \<in> set ''+-.eE'') \<and> number_text s"
  "number_text (s @ t) \<longleftrightarrow> number_text s \<and> number_text t"
  by (simp_all add: number_text_def)

lemma number_text_digits [simp]: "number_text (takeWhile is_digit s)"
  by (auto simp: number_text_def list_all_iff dest: set_takeWhileD)

lemma number_char:
  assumes "is_digit c \<or> c \<in> set ''+-.eE''"
  shows "\<not> py_ws c" "\<not> is_ws c" "c \<noteq> CHR ''_''"
  using assms by (auto simp: is_digit_def py_ws_def is_ws_def Let_def)

lemma frac_text: "frac_part_of s = (f, r) \<Longrightarrow> number_text r \<Longrightarrow> number_text s"
proof (cases s)
  case (Cons c cs)
  assume "frac_part_of s = (f, r)" "number_text r"
  then have "if c = CHR ''.'' then number_text (dropWhile is_digit cs) else number_text s"
    using Cons by (auto simp: frac_part_of_def split: if_splits)
  then show ?thesis
    using Cons number_text_simps(3) [of "takeWhile is_digit cs" "dropWhile is_digit cs"] by (auto split: if_splits)
qed simp

lemma exp_text: "parse_exp s = Some (e, []) \<Longrightarrow> number_text s"
proof (cases s)
  case (Cons c cs)
  assume p: "parse_exp s = Some (e, [])"
  then have c: "c = CHR ''e'' \<or> c = CHR ''E''" using Cons by (auto simp: parse_exp_def split: if_splits)
  define body where "body = (if cs \<noteq> [] \<and> (hd cs = CHR ''-'' \<or> hd cs = CHR ''+'') then tl cs else cs)"
  have "dropWhile is_digit body = []" using p Cons c by (auto simp: parse_exp_def Let_def body_def split: if_splits)
  then have "number_text (dropWhile is_digit body)" by (simp only: number_text_simps)
  then have "number_text body"
    using number_text_simps(3) [of "takeWhile is_digit body" "dropWhile is_digit body"] by simp
  then have "number_text cs" by (cases cs) (auto simp: body_def split: if_splits)
  then show ?thesis using Cons c by auto
qed simp

lemma js_Number_text: "js_Number s = Some q \<Longrightarrow> number_text (js_trim s)"
proof (cases "js_trim s = []")
  case False
  assume q: "js_Number s = Some q"
  define t body where "t = js_trim s" and "body = (if hd t = CHR ''-'' \<or> hd t = CHR ''+'' then tl t else t)"
  obtain f r where f: "frac_part_of (dropWhile is_digit body) = (f, r)" by fastforce
  have "\<exists>e. parse_exp r = Some (e, [])"
    using q False f by (auto simp: js_Number_def Let_def t_def [symmetric] body_def split: if_splits option.splits list.splits)
  then have "number_text (dropWhile is_digit body)" using frac_text [OF f] exp_text by blast
  then have "number_text body"
    using number_text_simps(3) [of "takeWhile is_digit body" "dropWhile is_digit body"] by simp
  then have "number_text t" by (cases t) (auto simp: body_def split: if_splits)
  then show ?thesis by (simp add: t_def)
qed simp

lemma ws_py: "is_ws c \<Longrightarrow> py_ws c"
  by (auto simp: is_ws_def py_ws_def Let_def)

lemma strip_same:
  assumes "js_trim s \<noteq> []" and "\<forall>c \<in> set (js_trim s). \<not> py_ws c"
  shows "py_strip s = js_trim s"
proof -
  obtain a b where s: "s = a @ js_trim s @ b" and ab: "list_all is_ws a" "list_all is_ws b"
  proof -
    define u where "u = dropWhile is_ws s"
    have "s = takeWhile is_ws s @ u" by (simp add: u_def)
    moreover have "u = js_trim s @ rev (takeWhile is_ws (rev u))"
      unfolding js_trim_def u_def [symmetric] by (metis rev_append rev_rev_ident takeWhile_dropWhile_id)
    moreover have "list_all is_ws (takeWhile is_ws s)" "list_all is_ws (rev (takeWhile is_ws (rev u)))"
      by (auto simp: list_all_iff dest: set_takeWhileD)
    ultimately show thesis using that by metis
  qed
  define t where "t = js_trim s"
  have t: "t \<noteq> []" "\<forall>c \<in> set t. \<not> py_ws c" using assms by (simp_all add: t_def)
  have drop: "dropWhile py_ws (x @ v @ y) = v @ y" if "list_all is_ws x" "v \<noteq> []" "\<forall>c \<in> set v. \<not> py_ws c" for x v y
    using that ws_py by (cases v) (auto simp: dropWhile_append2 list_all_iff)
  have "py_strip (a @ t @ b) = t"
    using drop [OF ab(1) t, of b] drop [of "rev b" "rev t" "[]"] ab(2) t by (simp add: py_strip_def)
  then show ?thesis using s by (simp add: t_def)
qed

lemma py_Decimal_number:
  assumes "js_Number s = Some q" and "js_trim s \<noteq> []"
  shows "py_Decimal s = Some q"
proof -
  define t where "t = js_trim s"
  have c: "\<not> py_ws c \<and> \<not> is_ws c \<and> c \<noteq> CHR ''_''" if "c \<in> set t" for c
    using js_Number_text [OF assms(1)] number_char that by (auto simp: t_def number_text_def list_all_iff)
  have "py_strip s = t" using strip_same [OF assms(2)] c by (simp add: t_def)
  moreover have "filter (\<lambda>c. c \<noteq> CHR ''_'') t = t" using c by (intro filter_True) blast
  moreover have "js_trim t = t" using c by (intro js_trim_no_ws) blast
  then have "js_Number t = js_Number s" by (simp add: js_Number_def t_def [symmetric])
  moreover have "t \<noteq> []" using assms(2) by (simp add: t_def)
  ultimately show ?thesis using c [of "hd t"] c [of "last t"] assms(1) by (simp add: py_Decimal_def)
qed

lemma blank_number: "js_trim s = [] \<Longrightarrow> js_Number s = Some 0"
  by (simp add: js_Number_def)

lemma positive_number: "js_Number s = Some q \<Longrightarrow> 0 < q \<Longrightarrow> positive_field s = Some q"
  using blank_number [of s] py_Decimal_number [of s q] by (cases "js_trim s = []") (auto simp: positive_field_def)

end
