(* ===== verification/Amounts.thy ===== *)
theory Amounts
  imports Format
begin

section \<open>Decimal comparison is correct (lib/format.ts)\<close>

text \<open>
  The normal form of a decimal numeral determines the number and is determined by it: the
  whole part is the shortest numeral of its value, the fraction has no trailing zero.
\<close>

lemma digit_char_of: "is_digit c \<Longrightarrow> digit_char (of_char c - 48) = c"
  by (auto simp: is_digit_def digit_char_def Let_def)

lemma digit_lt: "is_digit c \<Longrightarrow> (of_char c :: nat) - 48 < 10"
  by (auto simp: is_digit_def Let_def)

lemma digit_pos: "is_digit c \<Longrightarrow> c \<noteq> CHR ''0'' \<Longrightarrow> 0 < (of_char c :: nat) - 48"
proof -
  assume d: "is_digit c" and z: "c \<noteq> CHR ''0''"
  have "(of_char c :: nat) \<noteq> 48"
  proof
    assume "(of_char c :: nat) = 48"
    moreover have "char_of (of_char c :: nat) = c" by simp
    moreover have "char_of (48 :: nat) = CHR ''0''" by code_simp
    ultimately have "c = CHR ''0''" by simp
    with z show False by simp
  qed
  with d show ?thesis by (auto simp: is_digit_def Let_def)
qed

lemma digits_val_Nil [simp]: "digits_val [] = 0"
  by (simp add: digits_val_def)

lemma digits_val_zero_cons: "digits_val (CHR ''0'' # s) = digits_val s"
  by (simp add: digits_val_def)

lemma digits_val_pos: "list_all is_digit (c # s) \<Longrightarrow> c \<noteq> CHR ''0'' \<Longrightarrow> 0 < digits_val (c # s)"
proof (induction s rule: rev_induct)
  case Nil
  then show ?case using digit_pos [of c] by (simp add: digits_val_def)
next
  case (snoc e s)
  then have "0 < digits_val (c # s)" by simp
  then show ?case using digits_val_snoc [of "c # s" e] by simp
qed

lemma show_digits_val:
  "w \<noteq> [] \<Longrightarrow> list_all is_digit w \<Longrightarrow> hd w \<noteq> CHR ''0'' \<or> length w = 1 \<Longrightarrow> show_nat (digits_val w) = w"
proof (induction w rule: rev_induct)
  case (snoc c v)
  have c: "is_digit c" using snoc.prems by simp
  show ?case
  proof (cases v)
    case Nil
    then show ?thesis using digit_lt [OF c] digit_char_of [OF c]
      by (subst show_nat.simps) (simp add: digits_val_def)
  next
    case (Cons a u)
    then have "0 < digits_val v" using snoc.prems digits_val_pos [of a u] by simp
    moreover have "show_nat (digits_val v) = v" using snoc Cons by auto
    ultimately show ?thesis using digit_lt [OF c] digit_char_of [OF c]
      by (subst show_nat.simps) simp
  qed
qed simp

lemma strip_zeros_show: "w \<noteq> [] \<Longrightarrow> list_all is_digit w \<Longrightarrow> strip_zeros w = show_nat (digits_val w)"
proof (induction w rule: strip_zeros.induct)
  case (1 c c' s)
  show ?case
  proof (cases "c = CHR ''0''")
    case True
    with 1 show ?thesis using digits_val_zero_cons [of "c' # s"] by simp
  next
    case False
    with 1 show ?thesis using show_digits_val [of "c # c' # s"] by simp
  qed
qed (simp_all add: show_digits_val)

definition strip_tail :: "string \<Rightarrow> string" where
  "strip_tail f = rev (dropWhile (\<lambda>c. c = CHR ''0'') (rev f))"

lemma strip_tail_snoc: "strip_tail (f @ [c]) = (if c = CHR ''0'' then strip_tail f else f @ [c])"
  by (simp add: strip_tail_def)

lemma strip_tail_zeros: "strip_tail (f @ replicate k CHR ''0'') = strip_tail f"
proof (induction k)
  case (Suc k)
  have "f @ replicate (Suc k) CHR ''0'' = (f @ replicate k CHR ''0'') @ [CHR ''0'']"
    by (simp add: replicate_append_same)
  with Suc show ?case by (simp only: strip_tail_snoc) simp
qed simp

lemma strip_tail_split: "\<exists>k. f = strip_tail f @ replicate k CHR ''0''"
proof (induction f rule: rev_induct)
  case (snoc c f)
  then obtain k where k: "f = strip_tail f @ replicate k CHR ''0''" by blast
  show ?case
  proof (cases "c = CHR ''0''")
    case True
    then have "f @ [c] = strip_tail (f @ [c]) @ replicate (Suc k) CHR ''0''"
      using k by (simp add: strip_tail_snoc replicate_append_same [symmetric] flip: append_assoc)
    then show ?thesis by blast
  next
    case False
    then have "f @ [c] = strip_tail (f @ [c]) @ replicate 0 CHR ''0''" by (simp add: strip_tail_snoc)
    then show ?thesis by blast
  qed
qed (simp add: strip_tail_def)

lemma digits_val_zeros: "digits_val (f @ replicate k CHR ''0'') = digits_val f * 10 ^ k"
proof (induction k)
  case (Suc k)
  have "digits_val (f @ replicate (Suc k) CHR ''0'') = digits_val ((f @ replicate k CHR ''0'') @ [CHR ''0''])"
    by (simp add: replicate_append_same)
  with Suc show ?case by (simp only: digits_val_snoc) simp
qed simp

lemma base10_unique: "(a :: nat) * 10 + x = b * 10 + y \<Longrightarrow> x < 10 \<Longrightarrow> y < 10 \<Longrightarrow> a = b \<and> x = y"
  by presburger

lemma digits_val_inj:
  "length a = length b \<Longrightarrow> list_all is_digit a \<Longrightarrow> list_all is_digit b \<Longrightarrow> digits_val a = digits_val b \<Longrightarrow> a = b"
proof (induction a arbitrary: b rule: rev_induct)
  case (snoc c a)
  obtain b' e where b: "b = b' @ [e]" using snoc.prems(1) by (cases b rule: rev_cases) auto
  let ?d = "\<lambda>c. (of_char c :: nat) - 48"
  have "digits_val a * 10 + ?d c = digits_val b' * 10 + ?d e" using snoc.prems(4) b by simp
  moreover have "?d c < 10" "?d e < 10" using snoc.prems b digit_lt by auto
  ultimately have v: "digits_val a = digits_val b'" and d: "?d c = ?d e"
    using base10_unique [of "digits_val a" "?d c" "digits_val b'" "?d e"] by blast+
  have "is_digit c" "is_digit e" using snoc.prems b by simp_all
  then have "c = e" using d digit_char_of by metis
  with v show ?case using snoc.IH [of b'] snoc.prems b by simp
qed simp

text \<open>The fraction a digit string stands for, behind the point.\<close>

definition frac_val :: "string \<Rightarrow> rat" where
  "frac_val f = of_nat (digits_val f) / 10 ^ length f"

lemma frac_val_eq_iff:
  assumes "list_all is_digit f" "list_all is_digit g"
  shows "frac_val f = frac_val g \<longleftrightarrow> strip_tail f = strip_tail g"
proof
  assume "frac_val f = frac_val g"
  then have "of_nat (digits_val f * 10 ^ length g) = (of_nat (digits_val g * 10 ^ length f) :: rat)"
    by (simp add: frac_val_def field_simps)
  then have "digits_val (f @ replicate (length g) CHR ''0'') = digits_val (g @ replicate (length f) CHR ''0'')"
    unfolding digits_val_zeros by (simp only: of_nat_eq_iff)
  then have "f @ replicate (length g) CHR ''0'' = g @ replicate (length f) CHR ''0''"
    by (intro digits_val_inj) (use assms in \<open>auto simp: list_all_iff is_digit_def\<close>)
  then show "strip_tail f = strip_tail g" by (metis strip_tail_zeros)
next
  have same: "frac_val h = frac_val (strip_tail h)" for h
  proof -
    obtain k where "h = strip_tail h @ replicate k CHR ''0''" using strip_tail_split by blast
    then have "frac_val h = of_nat (digits_val (strip_tail h) * 10 ^ k) / 10 ^ (length (strip_tail h) + k)"
      unfolding frac_val_def by (metis digits_val_zeros length_append length_replicate)
    then show ?thesis by (simp add: frac_val_def power_add)
  qed
  assume "strip_tail f = strip_tail g"
  then show "frac_val f = frac_val g" using same [of f] same [of g] by simp
qed

lemma frac_val_range: "list_all is_digit f \<Longrightarrow> 0 \<le> frac_val f \<and> frac_val f < 1"
proof -
  assume "list_all is_digit f"
  then have "digits_val f < 10 ^ length f"
  proof (induction f rule: rev_induct)
    case (snoc c f)
    then have "digits_val f + 1 \<le> 10 ^ length f" by simp
    then have "(digits_val f + 1) * 10 \<le> 10 ^ length f * 10" by (rule mult_le_mono1)
    moreover have "(of_char c :: nat) - 48 < 10" using snoc.prems digit_lt by simp
    ultimately show ?case by simp
  qed simp
  then have "(of_nat (digits_val f) :: rat) < of_nat (10 ^ length f)" by (simp only: of_nat_less_iff)
  then show ?thesis by (simp add: frac_val_def)
qed

text \<open>A decimal numeral: sign, digits, optionally a point and digits.\<close>

definition decimal :: "bool \<Rightarrow> string \<Rightarrow> string option \<Rightarrow> string" where
  "decimal neg w f = (if neg then ''-'' else []) @ w @ (case f of None \<Rightarrow> [] | Some x \<Rightarrow> ''.'' @ x)"

definition decimal_ok :: "string \<Rightarrow> string option \<Rightarrow> bool" where
  "decimal_ok w f \<longleftrightarrow> w \<noteq> [] \<and> list_all is_digit w \<and> (case f of None \<Rightarrow> True | Some x \<Rightarrow> list_all is_digit x)"

definition frac_part :: "string option \<Rightarrow> string" where
  "frac_part f = (case f of None \<Rightarrow> [] | Some x \<Rightarrow> x)"

definition decimal_val :: "bool \<Rightarrow> string \<Rightarrow> string option \<Rightarrow> rat" where
  "decimal_val neg w f = (if neg then - 1 else 1) * (of_nat (digits_val w) + frac_val (frac_part f))"

lemma digits_no_point: "list_all is_digit w \<Longrightarrow> CHR ''.'' \<notin> set w \<and> CHR ''-'' \<notin> set w"
proof -
  assume w: "list_all is_digit w"
  have "\<not> is_digit CHR ''.''" "\<not> is_digit CHR ''-''" by (simp_all add: is_digit_def)
  with w show ?thesis by (auto simp: list_all_iff)
qed

lemma split_no_point: "CHR ''.'' \<notin> set w \<Longrightarrow> js_split CHR ''.'' w = [w]"
  by (induction w) auto

lemma split_point: "CHR ''.'' \<notin> set w \<Longrightarrow> js_split CHR ''.'' (w @ CHR ''.'' # s) = w # js_split CHR ''.'' s"
  by (induction w) (auto split: list.splits)

definition canonical :: "bool \<Rightarrow> nat \<Rightarrow> string \<Rightarrow> string" where
  "canonical neg n f = (if neg then ''-'' else []) @ show_nat n @ (if f = [] then [] else ''.'' @ f)"

lemma normalize_decimal:
  assumes "decimal_ok w f"
  shows "normalizeAmount (decimal neg w f) = canonical neg (digits_val w) (strip_tail (frac_part f))"
proof -
  have w: "w \<noteq> []" "list_all is_digit w" "CHR ''.'' \<notin> set w" "CHR ''-'' \<notin> set w"
    using assms digits_no_point [of w] by (auto simp: decimal_ok_def)
  have strip: "strip_zeros w = show_nat (digits_val w)" by (rule strip_zeros_show [OF w(1,2)])
  have sign: "js_starts_with (w @ u) ''-'' \<longleftrightarrow> False" for u
    using w by (cases w) (auto simp: js_starts_with_def)
  show ?thesis
  proof (cases f)
    case None
    then show ?thesis using w sign [of "[]"]
      by (auto simp: normalizeAmount_def decimal_def canonical_def frac_part_def strip_tail_def Let_def
          js_starts_with_def split_no_point strip)
  next
    case (Some x)
    then have "CHR ''.'' \<notin> set x" using assms digits_no_point [of x] by (simp add: decimal_ok_def)
    then show ?thesis using w sign [of "CHR ''.'' # x"] Some
      by (auto simp: normalizeAmount_def decimal_def canonical_def frac_part_def strip_tail_def Let_def
          js_starts_with_def split_point split_no_point strip)
  qed
qed

lemma canonical_inj:
  assumes "canonical neg n f = canonical neg' n' f'"
    and "list_all is_digit f" "list_all is_digit f'"
  shows "neg = neg' \<and> n = n' \<and> f = f'"
proof -
  have minus: "\<not> is_digit CHR ''-''" "\<not> is_digit CHR ''.''" by (simp_all add: is_digit_def)
  have hd_n: "hd (show_nat k @ u) \<noteq> CHR ''-''" for k u
    using hd_show_nat_ne_minus [of k] by (simp add: hd_append)
  have neg: "neg = neg'"
    using assms(1) hd_n [of n] hd_n [of n'] by (auto simp: canonical_def split: if_splits dest: arg_cong [where f = hd])
  with assms(1) have eq: "show_nat n @ (if f = [] then [] else ''.'' @ f) = show_nat n' @ (if f' = [] then [] else ''.'' @ f')"
    by (simp add: canonical_def)
  have take: "takeWhile is_digit (show_nat k @ (if g = [] then [] else ''.'' @ g)) = show_nat k" for k g
    using show_nat_digits [of k] minus by (simp add: takeWhile_append)
  have n: "show_nat n = show_nat n'" using eq take by metis
  with eq have "(if f = [] then [] else ''.'' @ f) = (if f' = [] then [] else ''.'' @ f')" by simp
  then have "f = f'" by (auto split: if_splits)
  with neg show_nat_inj [OF n] show ?thesis by simp
qed

lemma decimal_parts_eq:
  assumes "decimal_ok w f" "decimal_ok w' f'"
  shows "of_nat (digits_val w) + frac_val (frac_part f) = of_nat (digits_val w') + frac_val (frac_part f')
    \<longleftrightarrow> digits_val w = digits_val w' \<and> strip_tail (frac_part f) = strip_tail (frac_part f')"
proof -
  have d: "list_all is_digit (frac_part f)" "list_all is_digit (frac_part f')"
    using assms by (auto simp: decimal_ok_def frac_part_def split: option.splits)
  have "\<lfloor>of_nat (digits_val w) + frac_val (frac_part f)\<rfloor> = int (digits_val w)"
    "\<lfloor>of_nat (digits_val w') + frac_val (frac_part f')\<rfloor> = int (digits_val w')"
    using frac_val_range [OF d(1)] frac_val_range [OF d(2)] by (auto intro!: floor_unique)
  then have "of_nat (digits_val w) + frac_val (frac_part f) = of_nat (digits_val w') + frac_val (frac_part f')
      \<Longrightarrow> digits_val w = digits_val w'" by (metis of_nat_eq_iff)
  then show ?thesis using frac_val_eq_iff [OF d] by auto
qed

lemma equalsAmount_iff:
  assumes "decimal_ok w f" and "decimal_ok w' f'"
  shows "equalsAmount (decimal neg w f) (decimal neg' w' f')
    \<longleftrightarrow> decimal_val neg w f = decimal_val neg' w' f' \<and> (decimal_val neg w f = 0 \<longrightarrow> neg = neg')"
proof -
  let ?a = "of_nat (digits_val w) + frac_val (frac_part f)"
  let ?b = "of_nat (digits_val w') + frac_val (frac_part f')"
  have d: "list_all is_digit (frac_part f)" "list_all is_digit (frac_part f')"
    using assms by (auto simp: decimal_ok_def frac_part_def split: option.splits)
  then have tails: "list_all is_digit (strip_tail (frac_part f))" "list_all is_digit (strip_tail (frac_part f'))"
    using strip_tail_split by (metis list_all_append)+
  have "equalsAmount (decimal neg w f) (decimal neg' w' f') \<longleftrightarrow> neg = neg' \<and> ?a = ?b"
    unfolding equalsAmount_def normalize_decimal [OF assms(1)] normalize_decimal [OF assms(2)] decimal_parts_eq [OF assms]
    using canonical_inj [OF _ tails] by auto
  moreover have "0 \<le> ?a" "0 \<le> ?b" using frac_val_range d by simp_all
  ultimately show ?thesis by (auto simp: decimal_val_def)
qed

text \<open>on decimal numerals the float-free comparison is equality of the numbers they stand
  for, with one exception: a signed zero differs from zero.\<close>

theorem equalsAmount_correct:
  assumes "decimal_ok w f" and "decimal_ok w' f'"
  shows "equalsAmount (decimal neg w f) (decimal neg' w' f')
    \<longleftrightarrow> decimal_val neg w f = decimal_val neg' w' f' \<and> (decimal_val neg w f = 0 \<longrightarrow> neg = neg')"
  by (rule equalsAmount_iff [OF assms])

lemma equalsAmount_correct_witness:
  "equalsAmount ''0012.50'' ''12.5'' \<and> \<not> equalsAmount ''-0'' ''0''"
proof -
  have ok: "decimal_ok ''0012'' (Some ''50'')" "decimal_ok ''12'' (Some ''5'')" "decimal_ok ''0'' None"
    by (simp_all add: decimal_ok_def is_digit_def)
  have "decimal_val False ''0012'' (Some ''50'') = 25/2" "decimal_val False ''12'' (Some ''5'') = 25/2"
    "decimal_val True ''0'' None = 0"
    by (simp_all add: decimal_val_def digits_val_def frac_val_def frac_part_def)
  then show ?thesis
    using equalsAmount_correct [OF ok(1,2), of False False] equalsAmount_correct [OF ok(3,3), of True False]
    by (simp add: decimal_def)
qed

end
