(* ===== verification/Pagination.thy ===== *)
theory Pagination
  imports Prelude
begin

section \<open>Paging through a list endpoint (lib/pagination.ts)\<close>

text \<open>
  \<open>fetchAll\<close> against an endpoint given as a function of the URL: a page, a body that is not
  an array, or a rejected promise. The loop variable is the page number; the bound of one
  hundred pages is the source's, so the recursion on the pages left is total.
\<close>

datatype 'a page = PageRows "'a list" | PageOther | PageFails js_error

definition page_url :: "string \<Rightarrow> nat \<Rightarrow> nat \<Rightarrow> string" where
  "page_url baseUrl pageSize offset =
     (let sep = (if js_includes baseUrl ''?'' then ''&'' else ''?'')
      in baseUrl @ sep @ ''limit='' @ show_nat pageSize @ ''&offset='' @ show_nat offset)"

text \<open>The result, and the URLs requested.\<close>

fun fetch_pages ::
    "(string \<Rightarrow> 'a page) \<Rightarrow> string \<Rightarrow> nat \<Rightarrow> nat \<Rightarrow> nat \<Rightarrow> 'a list \<Rightarrow> string list
       \<Rightarrow> (js_error + 'a list) \<times> string list" where
  "fetch_pages api baseUrl pageSize 0 offset result urls = (Inr result, urls)"
| "fetch_pages api baseUrl pageSize (Suc left) offset result urls =
     (let url = page_url baseUrl pageSize offset; urls' = urls @ [url] in
      case api url of
        PageFails e \<Rightarrow> (Inl e, urls')
      | PageOther \<Rightarrow> (Inr result, urls')
      | PageRows rows \<Rightarrow>
          if rows = [] then (Inr result, urls')
          else if length rows < pageSize then (Inr (result @ rows), urls')
          else fetch_pages api baseUrl pageSize left (offset + pageSize) (result @ rows) urls')"

definition fetchAll :: "(string \<Rightarrow> 'a page) \<Rightarrow> string \<Rightarrow> nat \<Rightarrow> (js_error + 'a list) \<times> string list" where
  "fetchAll api baseUrl pageSize = fetch_pages api baseUrl pageSize 100 0 [] []"

text \<open>An endpoint that serves a list by limit and offset.\<close>

definition serves :: "(string \<Rightarrow> 'a page) \<Rightarrow> string \<Rightarrow> nat \<Rightarrow> 'a list \<Rightarrow> bool" where
  "serves api baseUrl pageSize items \<longleftrightarrow>
     (\<forall>n. api (page_url baseUrl pageSize (n * pageSize)) = PageRows (take pageSize (drop (n * pageSize) items)))"

lemma fetch_pages_serves:
  assumes "serves api baseUrl pageSize items" "0 < pageSize"
  shows "fst (fetch_pages api baseUrl pageSize left (n * pageSize) (take (n * pageSize) items) urls)
    = Inr (take ((n + left) * pageSize) items)"
proof (induction left arbitrary: n urls)
  case (Suc left)
  let ?rows = "take pageSize (drop (n * pageSize) items)"
  have url: "api (page_url baseUrl pageSize (n * pageSize)) = PageRows ?rows"
    using assms(1) by (simp add: serves_def)
  have acc: "take (n * pageSize) items @ ?rows = take (Suc n * pageSize) items"
    using take_add [of "n * pageSize" pageSize items] by (simp add: add.commute)
  consider "?rows = []" | "?rows \<noteq> []" "length ?rows < pageSize" | "?rows \<noteq> []" "\<not> length ?rows < pageSize"
    by blast
  then show ?case
  proof cases
    case 1
    then have len: "length items \<le> n * pageSize" using assms(2) by simp
    moreover have "n * pageSize \<le> (n + Suc left) * pageSize" by (rule mult_le_mono1) simp
    ultimately have "length items \<le> (n + Suc left) * pageSize" by linarith
    with 1 len url show ?thesis by (simp add: Let_def del: mult_Suc add_mult_distrib)
  next
    case 2
    then have "length items \<le> Suc n * pageSize" by (simp add: add.commute min_def split: if_splits)
    then have "length items \<le> (n + Suc left) * pageSize"
      by (rule order_trans) (simp add: mult_le_mono1)
    moreover have "length items - n * pageSize < pageSize" using 2 assms(2) by (simp add: min_def split: if_splits)
    ultimately show ?thesis using 2 url acc by (simp add: Let_def)
  next
    case 3
    then show ?thesis using url Suc.IH [of "Suc n"] acc by (simp add: Let_def add.commute [of pageSize])
  qed
qed simp

lemma fetch_pages_log:
  "length (snd (fetch_pages api baseUrl pageSize left offset result urls)) \<le> length urls + left"
proof (induction left arbitrary: offset result urls)
  case (Suc left)
  then show ?case
    using Suc.IH [of "offset + pageSize" _ "urls @ [page_url baseUrl pageSize offset]"]
    by (auto simp: Let_def split: page.split)
qed simp

text \<open>C38: against an endpoint that serves a list by limit and offset, \<open>fetchAll\<close> returns the
  list, cut only at one hundred pages, with at most one hundred requests.\<close>

theorem fetchAll_complete:
  assumes "serves api baseUrl pageSize items" and "0 < pageSize"
  shows "fst (fetchAll api baseUrl pageSize) = Inr (take (100 * pageSize) items)
    \<and> length (snd (fetchAll api baseUrl pageSize)) \<le> 100"
  using fetch_pages_serves [OF assms, of 100 0 "[]"] fetch_pages_log [of api baseUrl pageSize 100 0 "[]" "[]"]
  by (simp add: fetchAll_def)

text \<open>The concrete endpoint of the witness: three items, looked up by their URL.\<close>

definition demo_api :: "string \<Rightarrow> nat page" where
  "demo_api url =
     (if url = page_url ''/t'' 2 0 then PageRows [1, 2] else if url = page_url ''/t'' 2 2 then PageRows [3] else PageRows [])"

lemma page_url_inj: "page_url b s m = page_url b s n \<Longrightarrow> m = n"
  by (auto simp: page_url_def Let_def split: if_splits dest: show_nat_inj)

lemma fetchAll_complete_witness: "fst (fetchAll demo_api ''/t'' 2) = Inr [1, 2, 3]"
proof -
  have "serves demo_api ''/t'' 2 [1, 2, 3]"
    unfolding serves_def
  proof
    fix n :: nat
    consider "n = 0" | "n = 1" | "2 \<le> n" by linarith
    then show "demo_api (page_url ''/t'' 2 (n * 2)) = PageRows (take 2 (drop (n * 2) [1, 2, 3]))"
    proof cases
      case 3
      then have "page_url ''/t'' 2 (n * 2) \<noteq> page_url ''/t'' 2 0" "page_url ''/t'' 2 (n * 2) \<noteq> page_url ''/t'' 2 2"
        using page_url_inj [of "''/t''" 2 "n * 2"] by fastforce+
      with 3 show ?thesis by (simp add: demo_api_def)
    qed (auto simp: demo_api_def dest: page_url_inj)
  qed
  from fetchAll_complete [OF this] show ?thesis by simp
qed

end
