(* ===== verification/Auth_Provider.thy ===== *)
theory Auth_Provider
  imports Prelude
begin

section \<open>The authentication provider (components/auth/AuthProvider.tsx)\<close>

text \<open>
  The provider's React state with the access token beside it (the token module itself is
  \<open>Api_Token\<close>), the retry helper, and the session operations: the restore on mount,
  \<open>fetchMe\<close>, login, registration, logout and the handler of \<^verbatim>\<open>auth:unauthenticated\<close>.
  Each is a function of the state and of the backend, which may answer every request as it
  likes; it returns the new state with the requests made. JSON values stay \<open>jsval\<close>: a
  property read on \<^verbatim>\<open>null\<close> throws, as in the language.
\<close>

record auth =
  au_user :: jsval
  au_loading :: bool
  au_needs_setup :: bool
  au_token :: jsval

definition auth_init :: "jsval \<Rightarrow> auth" where
  "auth_init token = \<lparr>au_user = JNull, au_loading = True, au_needs_setup = False, au_token = token\<rparr>"

definition isTransientAuthError :: "js_error \<Rightarrow> bool" where
  "isTransientAuthError err = (case err of
      ApiTimeoutError \<Rightarrow> True
    | ApiResponseError status _ _ _ \<Rightarrow> status = 0 \<or> status \<ge> 500
    | _ \<Rightarrow> True)"

definition isTerminalAuthError :: "js_error \<Rightarrow> bool" where
  "isTerminalAuthError err = (case err of
      ApiResponseError status _ _ _ \<Rightarrow> status = 401 \<or> status = 403
    | _ \<Rightarrow> False)"

text \<open>One call through the backend, logged.\<close>

definition api_call :: "backend \<Rightarrow> request \<Rightarrow> request list \<Rightarrow> (js_error + jsval) \<times> request list" where
  "api_call be rq reqs = (be reqs rq, reqs @ [rq])"

text \<open>
  The loop over the delays \<open>[0, 250, 500]\<close>; \<open>lastErr\<close> is \<open>undefined\<close> until a call fails.
  The result is the outcome, the requests, and the delays waited.
\<close>

fun retry_loop ::
    "backend \<Rightarrow> request \<Rightarrow> nat list \<Rightarrow> js_error \<Rightarrow> request list \<Rightarrow> nat
       \<Rightarrow> (js_error + jsval) \<times> request list \<times> nat" where
  "retry_loop be rq [] lastErr reqs waited = (Inl lastErr, reqs, waited)"
| "retry_loop be rq (delay # delays) lastErr reqs waited =
     (let (ans, reqs') = api_call be rq reqs in
      case ans of
        Inr v \<Rightarrow> (Inr v, reqs', waited + delay)
      | Inl err \<Rightarrow>
          if \<not> isTransientAuthError err then (Inl err, reqs', waited + delay)
          else retry_loop be rq delays err reqs' (waited + delay))"

definition withAuthRetry :: "backend \<Rightarrow> request \<Rightarrow> request list \<Rightarrow> (js_error + jsval) \<times> request list" where
  "withAuthRetry be rq reqs =
     (let (r, reqs', _) = retry_loop be rq [0, 250, 500] (NonError JUndef) reqs 0 in (r, reqs'))"

definition get_prop :: "jsval \<Rightarrow> string \<Rightarrow> js_error + jsval" where
  "get_prop v p = (if js_is_nullish v then Inl (PlainError ''TypeError'' (''Cannot read properties of null (reading '' @ p @ '')''))
                   else Inr (js_get v p))"

definition me_request :: request where "me_request = mk_req GET ''/api/v1/auth/me'' JUndef"
definition status_request :: request where "status_request = mk_req GET ''/api/v1/auth/status'' JUndef"
definition refresh_request :: request where "refresh_request = mk_req POST ''/api/v1/auth/refresh'' JUndef"
definition logout_request :: request where "logout_request = mk_req POST ''/api/v1/auth/logout'' JUndef"

text \<open>\<open>fetchMe\<close>: the error it rethrows, if any.\<close>

definition fetchMe :: "backend \<Rightarrow> auth \<Rightarrow> request list \<Rightarrow> js_error option \<times> auth \<times> request list" where
  "fetchMe be a reqs =
     (let (r, reqs') = withAuthRetry be me_request reqs in
      case r of
        Inr u \<Rightarrow> (None, a\<lparr>au_user := u\<rparr>, reqs')
      | Inl err \<Rightarrow>
          (Some err, (if isTerminalAuthError err then a\<lparr>au_user := JNull, au_token := JNull\<rparr> else a), reqs'))"

definition restore_catch :: "js_error \<Rightarrow> auth \<Rightarrow> auth" where
  "restore_catch err a =
     (if isTerminalAuthError err then a\<lparr>au_token := JNull, au_user := JNull, au_loading := False\<rparr> else a)"

definition restore :: "backend \<Rightarrow> auth \<Rightarrow> request list \<Rightarrow> auth \<times> request list" where
  "restore be a reqs =
     (let (status, reqs1) = withAuthRetry be status_request reqs in
      case status of
        Inl err \<Rightarrow> (restore_catch err a, reqs1)
      | Inr st \<Rightarrow>
        (case get_prop st ''needs_setup'' of
           Inl err \<Rightarrow> (restore_catch err a, reqs1)
         | Inr ns \<Rightarrow>
           if js_truthy ns then (a\<lparr>au_needs_setup := True, au_loading := False\<rparr>, reqs1)
           else
             (let (data, reqs2) = withAuthRetry be refresh_request reqs1 in
              case data of
                Inl err \<Rightarrow> (restore_catch err a, reqs2)
              | Inr d \<Rightarrow>
                (case get_prop d ''access_token'' of
                   Inl err \<Rightarrow> (restore_catch err a, reqs2)
                 | Inr tok \<Rightarrow>
                   (let a1 = a\<lparr>au_token := tok\<rparr>;
                        (me, reqs3) = withAuthRetry be me_request reqs2 in
                    case me of
                      Inl err \<Rightarrow> (restore_catch err a1, reqs3)
                    | Inr u \<Rightarrow> (a1\<lparr>au_user := u, au_loading := False\<rparr>, reqs3))))))"

definition unauthenticated_handler :: "auth \<Rightarrow> auth" where
  "unauthenticated_handler a = a\<lparr>au_user := JNull, au_token := JNull\<rparr>"

datatype login_outcome = LoginDone | LoginMfa jsval | LoginFails js_error

definition login_request :: "string \<Rightarrow> string \<Rightarrow> request" where
  "login_request loginId password =
     mk_req POST ''/api/v1/auth/login'' (JObj [(''login'', JStr loginId), (''password'', JStr password)])"

text \<open>\<^verbatim>\<open>"mfa_required" in data\<close> throws on a value that is not an object.\<close>

definition login :: "backend \<Rightarrow> string \<Rightarrow> string \<Rightarrow> auth \<Rightarrow> request list \<Rightarrow> login_outcome \<times> auth \<times> request list" where
  "login be loginId password a reqs =
     (let (r, reqs1) = api_call be (login_request loginId password) reqs in
      case r of
        Inl err \<Rightarrow> (LoginFails err, a, reqs1)
      | Inr data \<Rightarrow>
          if \<not> js_is_object data then (LoginFails (PlainError ''TypeError'' ''Cannot use 'in' operator''), a, reqs1)
          else if js_truthy (js_get data ''mfa_required'') then (LoginMfa (js_get data ''mfa_token''), a, reqs1)
          else
            (let (err, a2, reqs2) = fetchMe be (a\<lparr>au_token := js_get data ''access_token''\<rparr>) reqs1 in
             case err of
               Some e \<Rightarrow> (LoginFails e, a2, reqs2)
             | None \<Rightarrow> (LoginDone, a2\<lparr>au_needs_setup := False\<rparr>, reqs2)))"

definition or_undefined :: "string \<Rightarrow> jsval" where
  "or_undefined s = (if s = [] then JUndef else JStr s)"

definition register ::
    "backend \<Rightarrow> string \<Rightarrow> string \<Rightarrow> string \<Rightarrow> string \<Rightarrow> string \<Rightarrow> string \<Rightarrow> request list
       \<Rightarrow> js_error option \<times> request list" where
  "register be username email password orgName firstName lastName reqs =
     (let (r, reqs1) = api_call be (mk_req POST ''/api/v1/auth/register''
          (JObj [(''username'', JStr username), (''email'', JStr email), (''password'', JStr password),
             (''org_name'', or_undefined orgName), (''first_name'', or_undefined firstName),
             (''last_name'', or_undefined lastName)])) reqs
      in (case r of Inl err \<Rightarrow> Some err | Inr _ \<Rightarrow> None, reqs1))"

definition logout :: "backend \<Rightarrow> auth \<Rightarrow> request list \<Rightarrow> auth \<times> request list" where
  "logout be a reqs =
     (let (_, reqs1) = api_call be logout_request reqs in (a\<lparr>au_token := JNull, au_user := JNull\<rparr>, reqs1))"

subsection \<open>Retry\<close>

lemma withAuthRetry_unfold:
  "withAuthRetry be rq reqs =
     (let a1 = be reqs rq; a2 = be (reqs @ [rq]) rq; a3 = be (reqs @ [rq, rq]) rq;
          again = (\<lambda>a. \<exists>e. a = Inl e \<and> isTransientAuthError e)
      in if \<not> again a1 then (a1, reqs @ [rq])
         else if \<not> again a2 then (a2, reqs @ [rq, rq])
         else (a3, reqs @ [rq, rq, rq]))"
  by (auto simp: withAuthRetry_def api_call_def Let_def split: sum.splits)

lemma terminal_not_transient: "isTerminalAuthError e \<Longrightarrow> \<not> isTransientAuthError e"
  by (auto simp: isTerminalAuthError_def isTransientAuthError_def split: js_error.splits)

text \<open>C37: the retry helper makes between one and three calls, stops at the first success or
  non-transient error, and returns the last outcome; a transient error comes out only
  after three of them.\<close>

theorem auth_retry_bounded:
  "\<exists>k. 1 \<le> k \<and> k \<le> 3 \<and> snd (withAuthRetry be rq reqs) = reqs @ replicate k rq
    \<and> fst (withAuthRetry be rq reqs) = be (reqs @ replicate (k - 1) rq) rq
    \<and> (\<forall>i < k - 1. \<exists>e. be (reqs @ replicate i rq) rq = Inl e \<and> isTransientAuthError e)
    \<and> (k < 3 \<longrightarrow> (\<forall>e. fst (withAuthRetry be rq reqs) = Inl e \<longrightarrow> \<not> isTransientAuthError e))"
proof -
  let ?again = "\<lambda>a. \<exists>e. a = Inl e \<and> isTransientAuthError e"
  consider "\<not> ?again (be reqs rq)" | "?again (be reqs rq)" "\<not> ?again (be (reqs @ [rq]) rq)"
    | "?again (be reqs rq)" "?again (be (reqs @ [rq]) rq)" by blast
  then show ?thesis
  proof cases
    case 1
    then show ?thesis by (intro exI [of _ 1]) (auto simp: withAuthRetry_unfold Let_def)
  next
    case 2
    then show ?thesis
      by (intro exI [of _ 2]) (auto simp: withAuthRetry_unfold Let_def numeral_2_eq_2)
  next
    case 3
    then show ?thesis
      by (intro exI [of _ 3]) (auto simp: withAuthRetry_unfold Let_def numeral_3_eq_3 less_Suc_eq)
  qed
qed

lemma auth_retry_bounded_witness:
  "\<exists>k. 1 \<le> k \<and> k \<le> 3 \<and> snd (withAuthRetry (\<lambda>_ _. Inl ApiTimeoutError) me_request []) = [] @ replicate k me_request"
  using auth_retry_bounded [of "\<lambda>_ _. Inl ApiTimeoutError" me_request "[]"] by blast

subsection \<open>Session outcomes\<close>

lemma retry_Inl_transient:
  "fst (withAuthRetry be rq reqs) = Inl e \<Longrightarrow> \<exists>n \<le> 2. be (reqs @ replicate n rq) rq = Inl e"
  by (auto simp: withAuthRetry_unfold Let_def numeral_2_eq_2 split: if_splits
      intro: exI [of _ 0] exI [of _ 1] exI [of _ 2])

definition said_dead :: "backend \<Rightarrow> bool" where
  "said_dead be \<longleftrightarrow> (\<exists>reqs rq e. be reqs rq = Inl e \<and> isTerminalAuthError e)"

lemma retry_terminal_said:
  "fst (withAuthRetry be rq reqs) = Inl e \<Longrightarrow> isTerminalAuthError e \<Longrightarrow> said_dead be"
  using retry_Inl_transient unfolding said_dead_def by blast

lemma get_prop_not_terminal: "get_prop v p = Inl e \<Longrightarrow> \<not> isTerminalAuthError e"
  by (auto simp: get_prop_def isTerminalAuthError_def split: if_splits)

text \<open>C36: a reload never sends a user with a healthy session to the login page because the
  backend is slow or failing: unless some request was answered 401 or 403, the restore
  leaves the page loading, offers the setup, or ends with the user the backend gave.\<close>

theorem restore_never_false_logout:
  assumes "\<not> (\<exists>reqs rq e. be reqs rq = Inl e \<and> isTerminalAuthError e)"
  shows "case restore be (auth_init token) reqs of (a, _) \<Rightarrow>
      au_loading a \<or> au_needs_setup a \<or> (\<exists>r. be r me_request = Inr (au_user a))"
proof -
  have none: "\<not> isTerminalAuthError e" if "fst (withAuthRetry be rq r) = Inl e" for rq r e
    using retry_terminal_said [OF that] assms by (auto simp: said_dead_def)
  have me: "\<exists>r'. be r' rq = Inr u" if "fst (withAuthRetry be rq r) = Inr u" for rq r u
    using that by (auto simp: withAuthRetry_unfold Let_def split: if_splits)
  show ?thesis
    using none get_prop_not_terminal me
    by (simp add: restore_def restore_catch_def auth_init_def Let_def split_beta split: sum.split)
qed

lemma restore_never_false_logout_witness:
  "au_loading (fst (restore (\<lambda>_ _. Inl ApiTimeoutError) (auth_init JUndef) []))"
proof -
  have "\<not> (\<exists>reqs rq e. (Inl ApiTimeoutError :: js_error + jsval) = Inl e \<and> isTerminalAuthError e)"
    by (auto simp: isTerminalAuthError_def)
  from restore_never_false_logout [of "\<lambda>_ _. Inl ApiTimeoutError" JUndef "[]"] this
  show ?thesis
    by (auto simp: restore_def restore_catch_def auth_init_def withAuthRetry_unfold isTransientAuthError_def
        isTerminalAuthError_def Let_def split_beta)
qed

text \<open>a login resolves only with a loaded user and the token of this login; an MFA
  challenge or a refused password leaves the session state as it was; and when only the
  load of the user fails for a transient reason, the new token is kept.\<close>

theorem login_outcomes:
  "case login be l p a reqs of (outcome, a', _) \<Rightarrow>
     (outcome = LoginDone \<longrightarrow> (\<exists>r d. be r me_request = Inr (au_user a') \<and> be reqs (login_request l p) = Inr d
          \<and> au_token a' = js_get d ''access_token'') \<and> \<not> au_needs_setup a')
   \<and> (\<forall>t. outcome = LoginMfa t \<longrightarrow> a' = a)
   \<and> (\<forall>e. be reqs (login_request l p) = Inl e \<longrightarrow> a' = a \<and> outcome = LoginFails e)
   \<and> (\<forall>e d. outcome = LoginFails e \<and> be reqs (login_request l p) = Inr d \<and> js_is_object d
          \<and> \<not> isTerminalAuthError e \<longrightarrow> au_token a' = js_get d ''access_token'' \<and> au_user a' = au_user a)"
proof -
  have me: "\<exists>r'. be r' rq = Inr u" if "fst (withAuthRetry be rq r) = Inr u" for rq r u
    using that by (auto simp: withAuthRetry_unfold Let_def split: if_splits)
  show ?thesis
    using me by (auto simp: login_def fetchMe_def api_call_def split_beta Let_def split: sum.split)
qed

lemma login_outcomes_witness:
  "case login (\<lambda>_ _. Inl (ApiResponseError 401 [] None JUndef)) ''me'' ''pw'' (auth_init JUndef) [] of
     (outcome, a', _) \<Rightarrow> a' = auth_init JUndef"
  using login_outcomes [where be = "\<lambda>_ _. Inl (ApiResponseError 401 [] None JUndef)" and l = "''me''" and p = "''pw''"
      and a = "auth_init JUndef" and reqs = "[]"]
  by (auto simp: split_beta)

text \<open>an error that is neither transient nor terminal strands the page. When the status
  call is answered with such a status (a 429, say), the restore gives up after that one
  request, with no retry, and loading never ends.\<close>

theorem restore_stranded:
  assumes "be reqs status_request = Inl (ApiResponseError st m c d)"
    and "st \<noteq> 0" and "st < 500" and "st \<noteq> 401" and "st \<noteq> 403"
  shows "restore be (auth_init token) reqs = (auth_init token, reqs @ [status_request])
    \<and> au_loading (fst (restore be (auth_init token) reqs))"
  using assms
  by (simp add: restore_def withAuthRetry_unfold Let_def restore_catch_def isTransientAuthError_def
      isTerminalAuthError_def auth_init_def)

lemma restore_stranded_witness:
  "restore (\<lambda>_ _. Inl (ApiResponseError 429 ''rate limited'' None JUndef)) (auth_init JUndef) []
     = (auth_init JUndef, [status_request])"
  using restore_stranded [of "\<lambda>_ _. Inl (ApiResponseError 429 ''rate limited'' None JUndef)" "[]" 429 "''rate limited''" None JUndef]
  by simp

end
