(* ===== verification/Import.thy ===== *)
theory Import
  imports Api_Types
begin

section \<open>The import page (app/import/page.tsx)\<close>

text \<open>
  The three-step wizard: upload, preview, results. The React state is a record; a handler
  with an \<^verbatim>\<open>await\<close> is two steps, what it does before the request and what it does with
  the answer, so other events may come between them. The backend's answers are typed as
  the page types them. \<^verbatim>\<open>""\<close> in a select is \<open>None\<close>.
\<close>

subsection \<open>Confirm rows\<close>

record transfer_ui =
  ui_panelOpen :: bool
  ui_pairAccepted :: bool
  ui_selectedCandidateId :: "int option"
  ui_dropAccepted :: bool
  ui_markTransferDestAccountId :: "int option"

definition default_ui :: transfer_ui where
  "default_ui = \<lparr>ui_panelOpen = False, ui_pairAccepted = False, ui_selectedCandidateId = None,
     ui_dropAccepted = False, ui_markTransferDestAccountId = None\<rparr>"

definition hasPairChoice :: "match_action \<Rightarrow> transfer_ui \<Rightarrow> bool" where
  "hasPairChoice matchAction ui =
     (if matchAction = PairWith \<or> matchAction = SuggestPair then ui_pairAccepted ui
      else if matchAction = ChooseCandidate then ui_selectedCandidateId ui \<noteq> None
      else False)"

definition buildConfirmRow :: "import_confirm_row \<Rightarrow> import_preview_row \<Rightarrow> transfer_ui \<Rightarrow> import_confirm_row" where
  "buildConfirmRow rowState preview ui =
     (let isDup = ip_is_duplicate_of_linked_leg preview; matchAction = ip_transfer_match_action preview in
      if isDup \<and> ui_dropAccepted ui then
        rowState\<lparr>ic_action := Some ActDropAsDuplicate,
          ic_duplicate_of_transaction_id := map_option dc_id (ip_duplicate_candidate preview),
          ic_pair_with_transaction_id := None, ic_transfer_category_id := None, ic_recategorize := None\<rparr>
      else if matchAction \<noteq> MatchNone \<and> hasPairChoice matchAction ui then
        rowState\<lparr>ic_action := Some ActPairWithExisting,
          ic_pair_with_transaction_id :=
            (if matchAction = ChooseCandidate then ui_selectedCandidateId ui else ip_pair_with_transaction_id preview),
          ic_duplicate_of_transaction_id := None, ic_transfer_category_id := None, ic_recategorize := Some True\<rparr>
      else if ui_markTransferDestAccountId ui \<noteq> None then
        rowState\<lparr>ic_action := Some ActCreateTransferPair,
          ic_partner_account_id := ui_markTransferDestAccountId ui,
          ic_pair_with_transaction_id := None, ic_duplicate_of_transaction_id := None,
          ic_transfer_category_id := None, ic_recategorize := Some True\<rparr>
      else
        rowState\<lparr>ic_action := Some ActCreate,
          ic_pair_with_transaction_id := None, ic_duplicate_of_transaction_id := None,
          ic_transfer_category_id := None, ic_recategorize := None\<rparr>)"

subsection \<open>State\<close>

datatype wizard_step = StepUpload | StepPreview | StepResults

record 'r import_state =
  im_step :: wizard_step
  im_errorMsg :: string
  im_missingTypes :: "string list option"
  im_loading :: bool
  im_file :: "string option"
  im_accountId :: "int option"
  im_preview :: "import_preview option"
  im_rowStates :: "import_confirm_row list"
  im_defaultCategoryId :: "int option"
  im_transferUi :: "int \<rightharpoonup> transfer_ui"
  im_reviewPairingsOnly :: bool
  im_results :: "'r option"
  im_markTransferModalRow :: "import_preview_row option"

definition import_init :: "'r import_state" where
  "import_init = \<lparr>im_step = StepUpload, im_errorMsg = [], im_missingTypes = None, im_loading = False,
     im_file = None, im_accountId = None, im_preview = None, im_rowStates = [], im_defaultCategoryId = None,
     im_transferUi = Map.empty, im_reviewPairingsOnly = False, im_results = None, im_markTransferModalRow = None\<rparr>"

definition activeAccounts :: "account list \<Rightarrow> account list" where
  "activeAccounts accounts = filter ac_is_active accounts"

definition defaultAccount :: "account list \<Rightarrow> account option" where
  "defaultAccount accounts = js_find ac_is_default (activeAccounts accounts)"

definition expenseCategories :: "category list \<Rightarrow> category list" where
  "expenseCategories cats = filter (\<lambda>c. ca_type c = CatExpense \<or> ca_type c = CatBoth) cats"

definition incomeCategories :: "category list \<Rightarrow> category list" where
  "incomeCategories cats = filter (\<lambda>c. ca_type c = CatIncome \<or> ca_type c = CatBoth) cats"

text \<open>
  The effect that preselects the account, run after every change of the parameter, of the
  default account or of the selection. \<open>param\<close> is the number in \<^verbatim>\<open>?account=\<close>.
\<close>

definition preselect_effect :: "int option \<Rightarrow> account list \<Rightarrow> 'r import_state \<Rightarrow> 'r import_state" where
  "preselect_effect param accounts s = (case param of
      Some p \<Rightarrow> s\<lparr>im_accountId := Some p\<rparr>
    | None \<Rightarrow>
        (case defaultAccount accounts of
           Some a \<Rightarrow> if im_accountId s = None then s\<lparr>im_accountId := Some (ac_id a)\<rparr> else s
         | None \<Rightarrow> s))"

definition select_account :: "int option \<Rightarrow> account list \<Rightarrow> int option \<Rightarrow> 'r import_state \<Rightarrow> 'r import_state" where
  "select_account param accounts v s = preselect_effect param accounts (s\<lparr>im_accountId := v\<rparr>)"

subsection \<open>Upload\<close>

definition row_state_of :: "import_preview_row \<Rightarrow> import_confirm_row" where
  "row_state_of r = \<lparr>ic_row_number = ip_row_number r, ic_date = ip_date r, ic_description = ip_description r,
     ic_amount = ip_amount r, ic_type = ip_type r, ic_category_id = ip_suggested_category_id r,
     ic_skip = ip_is_duplicate r, ic_action = Some ActCreate, ic_pair_with_transaction_id = None,
     ic_duplicate_of_transaction_id = None, ic_partner_account_id = None, ic_transfer_category_id = None,
     ic_recategorize = None, ic_suggested_category_id = ip_suggested_category_id r,
     ic_suggestion_source = ip_suggestion_source r\<rparr>"

definition ui_of :: "import_preview_row \<Rightarrow> transfer_ui" where
  "ui_of r = \<lparr>ui_panelOpen = False, ui_pairAccepted = (ip_transfer_match_action r = PairWith),
     ui_selectedCandidateId = None, ui_dropAccepted = ip_is_duplicate_of_linked_leg r,
     ui_markTransferDestAccountId = None\<rparr>"

definition ui_map :: "import_preview_row list \<Rightarrow> int \<rightharpoonup> transfer_ui" where
  "ui_map rows = foldl (\<lambda>m r. m(ip_row_number r \<mapsto> ui_of r)) Map.empty rows"

definition upload_begin :: "'r import_state \<Rightarrow> 'r import_state" where
  "upload_begin s =
     (if im_file s = None \<or> im_accountId s = None then s
      else s\<lparr>im_errorMsg := [], im_missingTypes := None, im_loading := True\<rparr>)"

definition upload_error :: "js_error \<Rightarrow> 'r import_state \<Rightarrow> 'r import_state" where
  "upload_error err s = (case err of
      ApiResponseError _ _ code detail \<Rightarrow>
        (case (code = Some ''missing_category_type'', js_get detail ''missing_types'') of
           (True, JArr ts) \<Rightarrow>
             s\<lparr>im_missingTypes := Some (List.map_filter (\<lambda>t. case t of JStr x \<Rightarrow> Some x | _ \<Rightarrow> None) ts), im_errorMsg := []\<rparr>
         | _ \<Rightarrow> s\<lparr>im_errorMsg := error_message err\<rparr>)
    | _ \<Rightarrow> s\<lparr>im_errorMsg := (if is_error err then error_message err else ''Failed to parse file'')\<rparr>)"

definition upload_end :: "js_error + import_preview \<Rightarrow> 'r import_state \<Rightarrow> 'r import_state" where
  "upload_end ans s = (case ans of
      Inr data \<Rightarrow> s\<lparr>im_preview := Some data, im_rowStates := map row_state_of (pv_rows data),
         im_transferUi := ui_map (pv_rows data), im_step := StepPreview, im_loading := False\<rparr>
    | Inl err \<Rightarrow> (upload_error err s)\<lparr>im_loading := False\<rparr>)"

subsection \<open>Confirm\<close>

text \<open>\<^verbatim>\<open>new Map(rows.map(r => [r.row_number, r]))\<close>: the last row of a number wins.\<close>

definition previewByRow :: "import_preview_row list \<Rightarrow> int \<rightharpoonup> import_preview_row" where
  "previewByRow rows = foldl (\<lambda>m r. m(ip_row_number r \<mapsto> r)) Map.empty rows"

definition payloadRows :: "'r import_state \<Rightarrow> import_preview \<Rightarrow> import_confirm_row list" where
  "payloadRows s pv = map (\<lambda>rs. case previewByRow (pv_rows pv) (ic_row_number rs) of
        None \<Rightarrow> rs
      | Some p \<Rightarrow> buildConfirmRow rs p
          (case im_transferUi s (ic_row_number rs) of Some ui \<Rightarrow> ui | None \<Rightarrow> default_ui)) (im_rowStates s)"

definition confirm_request :: "'r import_state \<Rightarrow> import_confirm_request option" where
  "confirm_request s = (case (im_preview s, im_defaultCategoryId s) of
      (Some pv, Some cat) \<Rightarrow> Some \<lparr>cr_account_id = pv_account_id pv, cr_default_category_id = cat,
         cr_rows = payloadRows s pv, cr_file_name = pv_file_name pv,
         cr_source_format = (case pv_source_format pv of Some f \<Rightarrow> f | None \<Rightarrow> CSV)\<rparr>
    | _ \<Rightarrow> None)"

definition confirm_begin :: "'r import_state \<Rightarrow> 'r import_state" where
  "confirm_begin s = (if confirm_request s = None then s else s\<lparr>im_errorMsg := [], im_loading := True\<rparr>)"

definition confirm_end :: "js_error + 'r \<Rightarrow> 'r import_state \<Rightarrow> 'r import_state" where
  "confirm_end ans s = (case ans of
      Inr data \<Rightarrow> s\<lparr>im_results := Some data, im_step := StepResults, im_loading := False\<rparr>
    | Inl err \<Rightarrow> s\<lparr>im_errorMsg := (if is_error err then error_message err else ''Import failed''), im_loading := False\<rparr>)"

subsection \<open>Row edits\<close>

definition updateRow :: "int \<Rightarrow> (import_confirm_row \<Rightarrow> import_confirm_row) \<Rightarrow> 'r import_state \<Rightarrow> 'r import_state" where
  "updateRow rowNum patch s =
     s\<lparr>im_rowStates := map (\<lambda>r. if ic_row_number r = rowNum then patch r else r) (im_rowStates s)\<rparr>"

definition updateTransferUi :: "int \<Rightarrow> (transfer_ui \<Rightarrow> transfer_ui) \<Rightarrow> 'r import_state \<Rightarrow> 'r import_state" where
  "updateTransferUi rowNum patch s =
     s\<lparr>im_transferUi := (im_transferUi s)(rowNum \<mapsto>
        patch (case im_transferUi s rowNum of Some ui \<Rightarrow> ui | None \<Rightarrow> default_ui))\<rparr>"

definition set_skip :: "int \<Rightarrow> bool \<Rightarrow> 'r import_state \<Rightarrow> 'r import_state" where
  "set_skip rowNum b = updateRow rowNum (\<lambda>r. r\<lparr>ic_skip := b\<rparr>)"

definition set_row_category :: "int \<Rightarrow> int option \<Rightarrow> 'r import_state \<Rightarrow> 'r import_state" where
  "set_row_category rowNum c = updateRow rowNum (\<lambda>r. r\<lparr>ic_category_id := c\<rparr>)"

definition back_to_upload :: "'r import_state \<Rightarrow> 'r import_state" where
  "back_to_upload s = s\<lparr>im_step := StepUpload, im_preview := None, im_file := None\<rparr>"

definition confirm_mark_transfer :: "int \<Rightarrow> 'r import_state \<Rightarrow> 'r import_state" where
  "confirm_mark_transfer dest s = (case im_markTransferModalRow s of
      None \<Rightarrow> s
    | Some r \<Rightarrow> (updateTransferUi (ip_row_number r) (\<lambda>u. u\<lparr>ui_markTransferDestAccountId := Some dest\<rparr>) s)
                 \<lparr>im_markTransferModalRow := None\<rparr>)"

definition activeRows :: "'r import_state \<Rightarrow> import_confirm_row list" where
  "activeRows s = filter (\<lambda>r. \<not> ic_skip r) (im_rowStates s)"

definition eligibleForManualMark :: "account list \<Rightarrow> import_preview \<Rightarrow> bool" where
  "eligibleForManualMark accounts pv = (case js_find (\<lambda>a. ac_id a = pv_account_id pv) accounts of
      None \<Rightarrow> False
    | Some cur \<Rightarrow> length (filter (\<lambda>a. ac_id a \<noteq> pv_account_id pv \<and> ac_currency a = ac_currency cur \<and> ac_is_active a) accounts) > 0)"

definition row_visible :: "'r import_state \<Rightarrow> import_preview_row \<Rightarrow> bool" where
  "row_visible s r \<longleftrightarrow> \<not> (im_reviewPairingsOnly s \<and> ip_transfer_match_action r = MatchNone
     \<and> \<not> ip_is_duplicate_of_linked_leg r
     \<and> (case im_transferUi s (ip_row_number r) of Some ui \<Rightarrow> ui_markTransferDestAccountId ui | None \<Rightarrow> None) = None)"

datatype 'r import_event =
    ImFile "string option" | ImAccount "int option" | ImUpload | ImUploaded "js_error + import_preview"
  | ImSkip int bool | ImCategory int "int option" | ImPanel int bool | ImPair int bool | ImCandidate int int | ImNoCandidate int
  | ImDrop int bool | ImMarkOpen "import_preview_row option" | ImMarkConfirm int | ImMarkClear int
  | ImDefaultCategory "int option" | ImReview bool | ImBack | ImConfirm | ImConfirmed "js_error + 'r"

fun import_step :: "'r import_state \<Rightarrow> 'r import_event \<Rightarrow> 'r import_state" where
  "import_step s (ImFile f) = s\<lparr>im_file := f\<rparr>"
| "import_step s (ImAccount a) = s\<lparr>im_accountId := a\<rparr>"
| "import_step s ImUpload = upload_begin s"
| "import_step s (ImUploaded ans) = upload_end ans s"
| "import_step s (ImSkip n b) = set_skip n b s"
| "import_step s (ImCategory n c) = set_row_category n c s"
| "import_step s (ImPanel n b) = updateTransferUi n (\<lambda>u. u\<lparr>ui_panelOpen := b\<rparr>) s"
| "import_step s (ImPair n b) = updateTransferUi n (\<lambda>u. u\<lparr>ui_pairAccepted := b\<rparr>) s"
| "import_step s (ImCandidate n c) = updateTransferUi n (\<lambda>u. u\<lparr>ui_selectedCandidateId := Some c, ui_pairAccepted := True\<rparr>) s"
| "import_step s (ImNoCandidate n) =
     updateTransferUi n (\<lambda>u. u\<lparr>ui_selectedCandidateId := None, ui_pairAccepted := False\<rparr>) s"
| "import_step s (ImDrop n b) = updateTransferUi n (\<lambda>u. u\<lparr>ui_dropAccepted := b\<rparr>) s"
| "import_step s (ImMarkOpen r) = s\<lparr>im_markTransferModalRow := r\<rparr>"
| "import_step s (ImMarkConfirm d) = confirm_mark_transfer d s"
| "import_step s (ImMarkClear n) = updateTransferUi n (\<lambda>u. u\<lparr>ui_markTransferDestAccountId := None\<rparr>) s"
| "import_step s (ImDefaultCategory c) = s\<lparr>im_defaultCategoryId := c\<rparr>"
| "import_step s (ImReview b) = s\<lparr>im_reviewPairingsOnly := b\<rparr>"
| "import_step s ImBack = back_to_upload s"
| "import_step s ImConfirm = confirm_begin s"
| "import_step s (ImConfirmed ans) = confirm_end ans s"

subsection \<open>What is sent\<close>

lemma fold_map_None:
  "n \<notin> key ` set rows \<Longrightarrow> foldl (\<lambda>m r. m(key r \<mapsto> val r)) m0 rows n = m0 n"
  by (induction rows arbitrary: m0) auto

lemma previewByRow_Some:
  assumes "distinct (map ip_row_number rows)" and "r \<in> set rows"
  shows "previewByRow rows (ip_row_number r) = Some r"
proof -
  obtain xs ys where rows: "rows = xs @ r # ys" using split_list [OF assms(2)] by blast
  then have "ip_row_number r \<notin> ip_row_number ` set ys" using assms(1) by auto
  then show ?thesis
    by (simp add: previewByRow_def rows fold_map_None [of _ ip_row_number _ "\<lambda>r. r"])
qed

text \<open>
  While a preview is shown the row states are its rows, in order, whatever the user
  edited; skipping and the category are the only fields that may differ.
\<close>

definition row_of :: "import_preview_row \<Rightarrow> import_confirm_row \<Rightarrow> bool" where
  "row_of p r \<longleftrightarrow> r = (row_state_of p)\<lparr>ic_skip := ic_skip r, ic_category_id := ic_category_id r\<rparr>"

definition import_inv :: "'r import_state \<Rightarrow> bool" where
  "import_inv s \<longleftrightarrow> (\<forall>pv. im_preview s = Some pv \<longrightarrow> list_all2 row_of (pv_rows pv) (im_rowStates s))"

lemma list_all2_map_keep:
  "list_all2 P xs ys \<Longrightarrow> (\<And>x y. P x y \<Longrightarrow> P x (f y)) \<Longrightarrow> list_all2 P xs (map f ys)"
  by (induction rule: list_all2_induct) auto

lemma row_of_self: "row_of p (row_state_of p)"
  by (simp add: row_of_def row_state_of_def)

lemma row_of_edit:
  "row_of p r \<Longrightarrow> row_of p (r\<lparr>ic_skip := b\<rparr>)" "row_of p r \<Longrightarrow> row_of p (r\<lparr>ic_category_id := c\<rparr>)"
  by (cases r; simp add: row_of_def row_state_of_def)+

lemma upload_error_sel [simp]:
  "im_preview (upload_error e s) = im_preview s" "im_rowStates (upload_error e s) = im_rowStates s"
  by (auto simp: upload_error_def split: js_error.split bool.split jsval.split)

interpretation import_page: step_machine import_step import_inv
proof
  fix s :: "'a import_state" and e :: "'a import_event"
  assume inv: "import_inv s"
  show "import_inv (import_step s e)"
  proof (cases e)
    case (ImUploaded ans)
    have "list_all2 row_of ps (map row_state_of ps)" for ps by (induction ps) (auto simp: row_of_self)
    with inv ImUploaded show ?thesis by (auto simp: import_inv_def upload_end_def split: sum.split)
  next
    case (ImSkip n b)
    with inv show ?thesis
      by (auto simp: import_inv_def set_skip_def updateRow_def intro!: list_all2_map_keep row_of_edit)
  next
    case (ImCategory n c)
    with inv show ?thesis
      by (auto simp: import_inv_def set_row_category_def updateRow_def intro!: list_all2_map_keep row_of_edit)
  qed (use inv in \<open>auto simp: import_inv_def upload_begin_def updateTransferUi_def back_to_upload_def
      confirm_begin_def confirm_end_def confirm_mark_transfer_def split: option.split sum.split\<close>)
qed

lemma import_inv_init: "import_inv import_init"
  by (simp add: import_inv_def import_init_def)

text \<open>How a row of the request may look.\<close>

definition row_consistent :: "import_preview_row \<Rightarrow> import_confirm_row \<Rightarrow> bool" where
  "row_consistent p r \<longleftrightarrow>
     (ic_row_number r = ip_row_number p \<and> ic_date r = ip_date p \<and> ic_description r = ip_description p
      \<and> ic_amount r = ip_amount p \<and> ic_type r = ip_type p
      \<and> ic_suggested_category_id r = ip_suggested_category_id p)
   \<and> (case ic_action r of
        None \<Rightarrow> False
      | Some ActCreate \<Rightarrow> ic_pair_with_transaction_id r = None \<and> ic_duplicate_of_transaction_id r = None \<and> ic_partner_account_id r = None
      | Some ActDropAsDuplicate \<Rightarrow> ip_is_duplicate_of_linked_leg p \<and> ic_pair_with_transaction_id r = None \<and> ic_partner_account_id r = None
          \<and> ic_duplicate_of_transaction_id r = map_option dc_id (ip_duplicate_candidate p)
      | Some ActPairWithExisting \<Rightarrow> ip_transfer_match_action p \<noteq> MatchNone \<and> ic_duplicate_of_transaction_id r = None \<and> ic_partner_account_id r = None
          \<and> (ip_transfer_match_action p = ChooseCandidate \<longrightarrow> ic_pair_with_transaction_id r \<noteq> None)
          \<and> (ip_transfer_match_action p \<noteq> ChooseCandidate \<longrightarrow> ic_pair_with_transaction_id r = ip_pair_with_transaction_id p)
      | Some ActCreateTransferPair \<Rightarrow> ic_partner_account_id r \<noteq> None \<and> ic_pair_with_transaction_id r = None \<and> ic_duplicate_of_transaction_id r = None)"

lemma buildConfirmRow_consistent: "row_of p r \<Longrightarrow> row_consistent p (buildConfirmRow r p ui)"
proof -
  assume "row_of p r"
  then obtain b c where r: "r = (row_state_of p)\<lparr>ic_skip := b, ic_category_id := c\<rparr>" unfolding row_of_def by blast
  show ?thesis
    unfolding r by (auto simp: row_consistent_def buildConfirmRow_def row_state_of_def Let_def hasPairChoice_def
        split: if_splits)
qed

lemma buildConfirmRow_keeps [simp]:
  "ic_skip (buildConfirmRow r p ui) = ic_skip r" "ic_category_id (buildConfirmRow r p ui) = ic_category_id r"
  by (auto simp: buildConfirmRow_def Let_def)

lemma list_all2_rows:
  "list_all2 P xs ys \<Longrightarrow> (\<And>x y. x \<in> set xs \<Longrightarrow> P x y \<Longrightarrow> Q x (f y)) \<Longrightarrow> list_all2 (\<lambda>x y. Q x (f y)) xs ys"
  by (induction rule: list_all2_induct) auto

text \<open>C20: whatever was edited, what an import confirms is the previewed file: one row per
  previewed row, in order, with its date, text, amount and type, the skip mark and
  category the user sees, and an action with exactly the partner ids it needs.\<close>

theorem import_request_faithful:
  fixes es :: "'r import_event list"
  assumes "im_preview (run import_step import_init es) = Some pv"
    and "confirm_request (run import_step import_init es) = Some req"
    and "distinct (map ip_row_number (pv_rows pv))"
  shows "cr_account_id req = pv_account_id pv \<and> cr_file_name req = pv_file_name pv
    \<and> list_all2 row_consistent (pv_rows pv) (cr_rows req)
    \<and> map ic_skip (cr_rows req) = map ic_skip (im_rowStates (run import_step import_init es))
    \<and> map ic_category_id (cr_rows req) = map ic_category_id (im_rowStates (run import_step import_init es))"
proof -
  let ?s = "run import_step import_init es :: 'r import_state"
  have "import_inv ?s" by (rule import_page.run_inv [OF import_inv_init])
  then have rows: "list_all2 row_of (pv_rows pv) (im_rowStates ?s)" using assms(1) by (simp add: import_inv_def)
  obtain cat where req: "req = \<lparr>cr_account_id = pv_account_id pv, cr_default_category_id = cat,
      cr_rows = payloadRows ?s pv, cr_file_name = pv_file_name pv,
      cr_source_format = (case pv_source_format pv of Some f \<Rightarrow> f | None \<Rightarrow> CSV)\<rparr>"
    using assms(1,2) by (auto simp: confirm_request_def split: option.splits)
  have found: "previewByRow (pv_rows pv) (ic_row_number r) = Some p" if "p \<in> set (pv_rows pv)" "row_of p r" for p r
  proof -
    from that(2) obtain b c where "r = (row_state_of p)\<lparr>ic_skip := b, ic_category_id := c\<rparr>" unfolding row_of_def by blast
    then have "ic_row_number r = ip_row_number p" by (simp add: row_state_of_def)
    then show ?thesis using previewByRow_Some [OF assms(3) that(1)] by simp
  qed
  have "list_all2 row_consistent (pv_rows pv) (payloadRows ?s pv)"
    unfolding payloadRows_def list_all2_map2
    by (rule list_all2_rows [OF rows]) (simp add: found buildConfirmRow_consistent)
  moreover have "map ic_skip (payloadRows ?s pv) = map ic_skip (im_rowStates ?s)"
    "map ic_category_id (payloadRows ?s pv) = map ic_category_id (im_rowStates ?s)"
    by (simp_all add: payloadRows_def split: option.split)
  ultimately show ?thesis by (simp add: req)
qed

definition demo_row :: import_preview_row where
  "demo_row = \<lparr>ip_row_number = 1, ip_date = ''2024-01-02'', ip_description = ''rent'', ip_amount = 900, ip_type = Expense,
     ip_counterparty = None, ip_transaction_type = None, ip_is_duplicate = False, ip_duplicate_transaction_id = None,
     ip_suggested_category_id = None, ip_suggestion_source = None, ip_is_duplicate_of_linked_leg = False,
     ip_duplicate_candidate = None, ip_default_action_drop = False, ip_transfer_match_action = PairWith,
     ip_transfer_match_confidence = Some SameDay, ip_pair_with_transaction_id = Some 77, ip_transfer_candidates = []\<rparr>"

definition demo_preview :: import_preview where
  "demo_preview = \<lparr>pv_rows = [demo_row], pv_account_id = 3, pv_file_name = ''a.csv'', pv_total_rows = 1,
     pv_duplicate_count = 0, pv_auto_paired_count = 1, pv_suggested_pair_count = 0, pv_multi_candidate_count = 0,
     pv_duplicate_of_linked_count = 0, pv_source_format = None\<rparr>"

definition demo_session :: "unit import_event list" where
  "demo_session = [ImFile (Some ''a.csv''), ImAccount (Some 3), ImUpload, ImUploaded (Inr demo_preview),
     ImDefaultCategory (Some 9), ImSkip 1 True]"

lemma import_request_faithful_witness:
  "\<exists>req. confirm_request (run import_step import_init demo_session) = Some req \<and> map ic_skip (cr_rows req) = [True]"
proof -
  have s: "im_preview (run import_step import_init demo_session) = Some demo_preview"
    "im_defaultCategoryId (run import_step import_init demo_session) = Some 9"
    "map ic_skip (im_rowStates (run import_step import_init demo_session)) = [True]"
    by (simp_all add: demo_session_def demo_preview_def demo_row_def import_init_def upload_begin_def upload_end_def
        set_skip_def updateRow_def row_state_of_def)
  then obtain req where req: "confirm_request (run import_step import_init demo_session) = Some req"
    by (simp add: confirm_request_def)
  from import_request_faithful [OF s(1) req] s(3) req show ?thesis by (simp add: demo_preview_def)
qed

text \<open>a link with an account parameter locks the account: whatever the user picks in the
  select, the effect that follows the change puts the parameter's account back.\<close>

theorem account_parameter_locks_selection:
  "im_accountId (select_account (Some p) accounts choice s) = Some p
   \<and> (\<forall>a. choice = Some a \<longrightarrow> im_accountId (select_account None accounts choice s) = Some a)"
  by (simp add: select_account_def preselect_effect_def split: option.split)

lemma account_parameter_locks_selection_witness:
  "im_accountId (select_account (Some 5) [] (Some 7) (import_init :: unit import_state)) = Some 5"
  using account_parameter_locks_selection [of 5 "[]" "Some 7" "import_init :: unit import_state"] by simp

end
