(* ===== verification/Categories.thy ===== *)
theory Categories
  imports Api_Types "HOL-Library.Multiset"
begin

section \<open>Moving and deleting categories (components/categories, app/categories/page.tsx)\<close>

text \<open>
  The pure helpers of the drag-and-drop move, the two batch dialogs, and the handlers of
  the categories page. The backend answers JSON calls as a \<open>backend\<close>; the category list
  itself is a typed answer. An effect that React runs after a change of its dependencies
  is a function applied by the handler that makes the change.
\<close>

subsection \<open>Drag and drop (dragMoveHelpers.ts)\<close>

definition category_type_of :: "jsval \<Rightarrow> category_type option" where
  "category_type_of v = map_of [(JStr ''income'', CatIncome), (JStr ''expense'', CatExpense), (JStr ''both'', CatBoth)] v"

record sub_data =
  sd_id :: rat
  sd_name :: string
  sd_type :: category_type
  sd_parent :: rat

record master_data =
  md_id :: rat
  md_type :: category_type

definition asSubcategoryData :: "jsval \<Rightarrow> sub_data option" where
  "asSubcategoryData d =
     (if \<not> js_truthy d \<or> \<not> js_is_object d then None
      else if js_get d ''kind'' \<noteq> JStr ''subcategory'' then None
      else (case (js_get d ''subcategoryId'', js_get d ''subcategoryName'', category_type_of (js_get d ''subcategoryType''), js_get d ''parentId'') of
              (JNum i, JStr n, Some t, JNum p) \<Rightarrow> Some \<lparr>sd_id = i, sd_name = n, sd_type = t, sd_parent = p\<rparr>
            | _ \<Rightarrow> None))"

definition asMasterData :: "jsval \<Rightarrow> master_data option" where
  "asMasterData d =
     (if \<not> js_truthy d \<or> \<not> js_is_object d then None
      else if js_get d ''kind'' \<noteq> JStr ''master'' then None
      else (case (js_get d ''masterId'', category_type_of (js_get d ''masterType'')) of
              (JNum i, Some t) \<Rightarrow> Some \<lparr>md_id = i, md_type = t\<rparr>
            | _ \<Rightarrow> None))"

datatype drop_class = DropValid sub_data master_data | DropSourceParent sub_data master_data
  | DropCrossType sub_data master_data | DropNone | DropWrongKind

definition classifyDrop :: "jsval \<Rightarrow> jsval \<Rightarrow> drop_class" where
  "classifyDrop activeData overData =
     (if js_is_nullish overData then DropNone
      else (case (asSubcategoryData activeData, asMasterData overData) of
              (Some sub, Some target) \<Rightarrow>
                if md_id target = sd_parent sub then DropSourceParent sub target
                else if md_type target \<noteq> sd_type sub then DropCrossType sub target
                else DropValid sub target
            | _ \<Rightarrow> DropWrongKind))"

definition dq :: "string \<Rightarrow> string" where "dq s = [CHR 0x22] @ s @ [CHR 0x22]"

definition error_detail :: "js_error \<Rightarrow> jsval" where
  "error_detail err = (case err of ApiResponseError _ _ _ d \<Rightarrow> d | _ \<Rightarrow> JUndef)"

definition buildMoveErrorMessage :: "js_error \<Rightarrow> string \<Rightarrow> string \<Rightarrow> string" where
  "buildMoveErrorMessage err subName targetName =
     (if is_error err then
        (let detail = error_detail err;
             fallback = (if error_message err \<noteq> [] then error_message err else ''Move failed for '' @ dq subName @ ''.'')
         in if js_is_object detail then
              (if js_get detail ''detail'' = JStr ''name_collision'' \<and> js_truthy (js_get detail ''conflicting_child_name'') then
                 ''Cannot move '' @ dq subName @ '' to '' @ dq targetName @ '': a subcategory named ''
                   @ dq (js_String (js_get detail ''conflicting_child_name'')) @ '' already exists there. Rename one before moving.''
               else if js_get detail ''detail'' = JStr ''type_mismatch'' then
                 ''Cannot move '' @ dq subName @ '' to '' @ dq targetName @ '': types are incompatible.''
               else (case js_get detail ''detail'' of JStr s \<Rightarrow> ''Move failed: '' @ s | _ \<Rightarrow> fallback))
            else fallback)
      else ''Move failed for '' @ dq subName @ ''.'')"

subsection \<open>The batch move dialog (BatchMoveModal.tsx)\<close>

definition selectedSubs :: "int list \<Rightarrow> category list \<Rightarrow> category list" where
  "selectedSubs selectedIds cats = filter (\<lambda>c. ca_id c \<in> set selectedIds \<and> ca_parent_id c \<noteq> None) cats"

definition selectedTypes :: "category list \<Rightarrow> category_type list" where
  "selectedTypes subs = remdups (map ca_type subs)"

definition mixedSelection :: "category list \<Rightarrow> bool" where
  "mixedSelection subs = (length (selectedTypes subs) > 1)"

definition soleType :: "category list \<Rightarrow> category_type option" where
  "soleType subs = (case selectedTypes subs of [t] \<Rightarrow> Some t | _ \<Rightarrow> None)"

definition sourceParentIds :: "category list \<Rightarrow> int set" where
  "sourceParentIds subs = set (List.map_filter ca_parent_id subs)"

definition typeCompatMasters :: "string \<Rightarrow> category list \<Rightarrow> category list \<Rightarrow> category list" where
  "typeCompatMasters filt subs cats =
     (if mixedSelection subs then []
      else (case soleType subs of
              None \<Rightarrow> []
            | Some t \<Rightarrow>
                (let sq = js_to_lower (js_trim filt) in
                 filter (\<lambda>m. if sq \<noteq> [] then js_includes (js_to_lower (ca_name m)) sq else True)
                   (filter (\<lambda>c. ca_type c = t) (filter (\<lambda>c. ca_parent_id c = None) cats)))))"

definition candidateMasters :: "string \<Rightarrow> category list \<Rightarrow> category list \<Rightarrow> category list" where
  "candidateMasters filt subs cats =
     filter (\<lambda>m. ca_id m \<notin> sourceParentIds subs) (typeCompatMasters filt subs cats)"

definition allCompatAreSources :: "string \<Rightarrow> category list \<Rightarrow> category list \<Rightarrow> bool" where
  "allCompatAreSources filt subs cats =
     (if mixedSelection subs then False
      else (case soleType subs of
              None \<Rightarrow> False
            | Some t \<Rightarrow>
                if length (js_trim filt) > 0 then False
                else (let allCompat = filter (\<lambda>c. ca_type c = t) (filter (\<lambda>c. ca_parent_id c = None) cats) in
                      if allCompat = [] then False else list_all (\<lambda>m. ca_id m \<in> sourceParentIds subs) allCompat)))"

record move_result =
  mr_affected_transaction_count :: int
  mr_affected_recurring_count :: int
  mr_affected_forecast_item_count :: int
  mr_budget_actuals_shifted :: bool

record preview_aggregate =
  pa_transactions :: int
  pa_recurring :: int
  pa_forecast :: int
  pa_budget_actuals_shifted :: bool

definition aggregate_preview :: "move_result list \<Rightarrow> preview_aggregate" where
  "aggregate_preview results = foldl (\<lambda>agg r. \<lparr>pa_transactions = pa_transactions agg + mr_affected_transaction_count r,
       pa_recurring = pa_recurring agg + mr_affected_recurring_count r,
       pa_forecast = pa_forecast agg + mr_affected_forecast_item_count r,
       pa_budget_actuals_shifted = pa_budget_actuals_shifted agg \<or> mr_budget_actuals_shifted r\<rparr>)
     \<lparr>pa_transactions = 0, pa_recurring = 0, pa_forecast = 0, pa_budget_actuals_shifted = False\<rparr> results"

record batch_move =
  bm_filter :: string
  bm_targetId :: "int option"
  bm_previewing :: bool
  bm_preview :: "preview_aggregate option"
  bm_previewError :: string
  bm_submitting :: bool
  bm_submitError :: string
  bm_refreshError :: string

definition batch_move_closed :: batch_move where
  "batch_move_closed = \<lparr>bm_filter = [], bm_targetId = None, bm_previewing = False, bm_preview = None,
     bm_previewError = [], bm_submitting = False, bm_submitError = [], bm_refreshError = []\<rparr>"

text \<open>The preview effect after the target changed, and its completion unless cancelled.\<close>

definition preview_begin :: "int option \<Rightarrow> batch_move \<Rightarrow> batch_move" where
  "preview_begin target b = (case target of
      None \<Rightarrow> b\<lparr>bm_targetId := None, bm_preview := None, bm_previewError := []\<rparr>
    | Some t \<Rightarrow> b\<lparr>bm_targetId := Some t, bm_previewing := True, bm_preview := None, bm_previewError := []\<rparr>)"

definition preview_end :: "bool \<Rightarrow> js_error + move_result list \<Rightarrow> batch_move \<Rightarrow> batch_move" where
  "preview_end cancelled ans b =
     (if cancelled then b
      else (case ans of
              Inr rs \<Rightarrow> b\<lparr>bm_preview := Some (aggregate_preview rs), bm_previewing := False\<rparr>
            | Inl err \<Rightarrow> b\<lparr>bm_previewError := (if is_error err then error_message err else ''Could not load preview''),
                bm_previewing := False\<rparr>))"

definition buildBatchErrorMessage :: "js_error \<Rightarrow> category list \<Rightarrow> string" where
  "buildBatchErrorMessage err subs =
     (let detail = error_detail err;
          fallback = (if error_message err \<noteq> [] then error_message err
             else ''Move failed for '' @ show_nat (length subs) @ '' subcategor'' @ (if length subs = 1 then ''y'' else ''ies'') @ ''.'')
      in if js_is_object detail then
           (if js_get detail ''detail'' = JStr ''name_collision'' \<and> js_truthy (js_get detail ''conflicting_child_name'') then
              ''Target master already has a subcategory named ''
                @ dq (js_String (js_get detail ''conflicting_child_name'')) @ ''. Rename one before moving.''
            else if js_get detail ''detail'' = JStr ''type_mismatch'' then
              (let bd = js_get detail ''dependent_breakdown'';
                   breakdown = (if js_truthy bd then '' ('' @ js_String (js_get bd ''income'') @ '' income, ''
                       @ js_String (js_get bd ''expense'') @ '' expense)'' else [])
               in ''Type mismatch'' @ breakdown @ ''. Pick a target compatible with the selected subcategories.'')
            else fallback)
         else fallback)"

definition batch_move_request :: "int \<Rightarrow> category list \<Rightarrow> request" where
  "batch_move_request target subs = mk_req POST ''/api/v1/categories/batch-move''
     (JObj [(''moves'', JArr (map (\<lambda>s. JObj [(''subcategory_id'', JInt (ca_id s)), (''target_parent_id'', JInt target)]) subs))])"

text \<open>\<open>onSuccess\<close> is the page's: its failure, if any.\<close>

definition runRefresh_move :: "js_error option \<Rightarrow> batch_move \<Rightarrow> batch_move" where
  "runRefresh_move failed b = (case failed of
      None \<Rightarrow> b\<lparr>bm_refreshError := []\<rparr>
    | Some err \<Rightarrow> b\<lparr>bm_refreshError := (if is_error err then ''Move succeeded but the page failed to refresh: '' @ error_message err
        else ''Move succeeded but the page failed to refresh.'')\<rparr>)"

definition handleConfirm_move ::
    "backend \<Rightarrow> js_error option \<Rightarrow> category list \<Rightarrow> batch_move \<Rightarrow> request list \<Rightarrow> batch_move \<times> request list" where
  "handleConfirm_move be refresh subs b reqs = (case bm_targetId b of
      None \<Rightarrow> (b, reqs)
    | Some t \<Rightarrow>
        (let b1 = b\<lparr>bm_submitting := True, bm_submitError := [], bm_refreshError := []\<rparr>;
             rq = batch_move_request t subs; reqs1 = reqs @ [rq]
         in case be reqs rq of
              Inr _ \<Rightarrow> ((runRefresh_move refresh b1)\<lparr>bm_submitting := False\<rparr>, reqs1)
            | Inl err \<Rightarrow>
                (b1\<lparr>bm_submitError := (if js_truthy (error_detail err) then buildBatchErrorMessage err subs
                      else if is_error err then error_message err else ''Move failed''), bm_submitting := False\<rparr>, reqs1)))"

subsection \<open>The batch delete dialog (BatchDeleteModal.tsx)\<close>

record failure_row =
  fr_category_id :: int
  fr_category_name :: string
  fr_reason :: string
  fr_reason_code :: "string option"

record batch_delete =
  bx_migrationTargets :: "int \<rightharpoonup> int option"
  bx_pendingIds :: "int list"
  bx_failures :: "failure_row list"
  bx_submitting :: bool
  bx_globalError :: string
  bx_refreshError :: string
  bx_lastFailures :: "failure_row list option"

text \<open>The reset effect, on \<^verbatim>\<open>[open, selectedSubs]\<close>.\<close>

definition batch_delete_reset :: "category list \<Rightarrow> batch_delete \<Rightarrow> batch_delete" where
  "batch_delete_reset subs b = b\<lparr>bx_migrationTargets := Map.empty, bx_pendingIds := map ca_id subs,
     bx_failures := [], bx_globalError := [], bx_refreshError := [], bx_submitting := False, bx_lastFailures := None\<rparr>"

definition rowsToShow :: "category list \<Rightarrow> batch_delete \<Rightarrow> category list" where
  "rowsToShow subs b = filter (\<lambda>s. ca_id s \<in> set (bx_pendingIds b)) subs"

definition delete_aggregate :: "category list \<Rightarrow> int \<times> int" where
  "delete_aggregate rows = foldl (\<lambda>(withTx, txCount) s.
     (if ca_transaction_count s > 0 then withTx + 1 else withTx, txCount + ca_transaction_count s)) (0, 0) rows"

definition compatibleTargets :: "category \<Rightarrow> category list \<Rightarrow> category list \<Rightarrow> category list" where
  "compatibleTargets sub rows cats = filter (\<lambda>c.
     if ca_id c = ca_id sub then False
     else if ca_parent_id c \<noteq> None then False
     else if ca_id c \<in> ca_id ` set rows then False
     else if ca_type sub = CatIncome then ca_type c = CatIncome \<or> ca_type c = CatBoth
     else if ca_type sub = CatExpense then ca_type c = CatExpense \<or> ca_type c = CatBoth
     else ca_type c = CatBoth) cats"

definition target_picked :: "batch_delete \<Rightarrow> category \<Rightarrow> int option" where
  "target_picked b s = (case bx_migrationTargets b (ca_id s) of
      Some (Some t) \<Rightarrow> if t = 0 then None else Some t
    | _ \<Rightarrow> None)"

definition allTargetsPicked :: "category list \<Rightarrow> batch_delete \<Rightarrow> bool" where
  "allTargetsPicked subs b = list_all (\<lambda>s. target_picked b s \<noteq> None) (rowsToShow subs b)"

definition or_else :: "jsval \<Rightarrow> string \<Rightarrow> string" where
  "or_else v dflt = (if js_is_nullish v then dflt else js_String v)"

definition buildFailure :: "category \<Rightarrow> js_error \<Rightarrow> failure_row" where
  "buildFailure sub err =
     (let mk = (\<lambda>reason code. \<lparr>fr_category_id = ca_id sub, fr_category_name = ca_name sub, fr_reason = reason, fr_reason_code = code\<rparr>)
      in case err of
           ApiResponseError _ message _ detail \<Rightarrow>
             (let kind = js_get detail ''detail'' in
              if js_is_object detail \<and> kind = JStr ''last_in_type'' then
                mk (''Cannot delete the only '' @ or_else (js_get detail ''type'') [] @ '' ''
                  @ or_else (js_get detail ''scope'') ''subcategory'' @ ''.'') (Some ''last_in_type'')
              else if js_is_object detail \<and> kind = JStr ''has_children'' then
                (let names = (case js_get detail ''child_names'' of JArr ns \<Rightarrow> ns | _ \<Rightarrow> []);
                     sample = (case names of n # _ \<Rightarrow> or_else n ''subcategory'' | [] \<Rightarrow> ''subcategory'');
                     more = int (length names) - 1
                 in mk (''Has subcategories. Move or delete '' @ dq sample
                      @ (if more > 0 then '' and '' @ show_int more @ '' other'' @ (if more = 1 then [] else ''s'') else [])
                      @ '' first.'') (Some ''has_children''))
              else if js_is_object detail \<and> kind = JStr ''type_mismatch'' then
                mk (''Migration target type '' @ or_else (js_get detail ''target_type'') [] @ '' is not compatible with ''
                  @ or_else (js_get detail ''source_type'') ''source'' @ ''.'') (Some ''type_mismatch'')
              else if js_is_object detail \<and> kind = JStr ''name_collision'' then
                mk (''Name collision: '' @ dq (or_else (js_get detail ''conflicting_child_name'') (ca_name sub))
                  @ '' already exists on the target.'') (Some ''name_collision'')
              else if js_is_object detail \<and> kind = JStr ''migration_target_required'' then
                mk ''Migration target required.'' (Some ''migration_target_required'')
              else mk (if message \<noteq> [] then message else ''Delete failed'') None)
         | _ \<Rightarrow> mk (if is_error err then error_message err else ''Delete failed'') None)"

definition delete_request :: "int \<Rightarrow> int \<Rightarrow> request" where
  "delete_request i target = mk_req DELETE (''/api/v1/categories/'' @ show_int i @ ''?target_category_id='' @ show_int target) JUndef"

text \<open>The loop over the rows: failures, succeeded ids, requests.\<close>

fun delete_rows ::
    "backend \<Rightarrow> batch_delete \<Rightarrow> category list \<Rightarrow> request list \<Rightarrow> failure_row list \<times> int list \<times> request list" where
  "delete_rows be b [] reqs = ([], [], reqs)"
| "delete_rows be b (sub # subs) reqs =
     (case target_picked b sub of
        None \<Rightarrow>
          (let (fs, oks, reqs') = delete_rows be b subs reqs in
           (\<lparr>fr_category_id = ca_id sub, fr_category_name = ca_name sub,
              fr_reason = ''Pick a migration target for this subcategory.'',
              fr_reason_code = Some ''migration_target_required''\<rparr> # fs, oks, reqs'))
      | Some t \<Rightarrow>
          (let rq = delete_request (ca_id sub) t; (fs, oks, reqs') = delete_rows be b subs (reqs @ [rq]) in
           case be reqs rq of
             Inr _ \<Rightarrow> (fs, ca_id sub # oks, reqs')
           | Inl err \<Rightarrow> (buildFailure sub err # fs, oks, reqs')))"

definition runRefresh_delete :: "js_error option \<Rightarrow> batch_delete \<Rightarrow> batch_delete" where
  "runRefresh_delete failed b = (case failed of
      None \<Rightarrow> b\<lparr>bx_refreshError := []\<rparr>
    | Some err \<Rightarrow> b\<lparr>bx_refreshError := (if is_error err then ''Delete completed but the page failed to refresh: '' @ error_message err
        else ''Delete completed but the page failed to refresh.'')\<rparr>)"

text \<open>
  The handler up to its call of \<open>runRefresh\<close>; the flag says whether that call is made, and
  with which failures.
\<close>

definition handleConfirm_delete ::
    "backend \<Rightarrow> category list \<Rightarrow> batch_delete \<Rightarrow> request list \<Rightarrow> batch_delete \<times> failure_row list option \<times> request list" where
  "handleConfirm_delete be subs b reqs =
     (let b1 = b\<lparr>bx_submitting := True, bx_globalError := [], bx_refreshError := []\<rparr>;
          (newFailures, succeeded, reqs') = delete_rows be b1 (rowsToShow subs b1) reqs;
          b2 = b1\<lparr>bx_submitting := False\<rparr>
      in if newFailures = [] then
           (b2\<lparr>bx_failures := [], bx_pendingIds := [], bx_lastFailures := Some []\<rparr>, Some [], reqs')
         else
           (b2\<lparr>bx_failures := newFailures, bx_pendingIds := map fr_category_id newFailures, bx_lastFailures := Some newFailures\<rparr>,
            (if succeeded \<noteq> [] then Some newFailures else None), reqs'))"


subsection \<open>The move dialog offers what the backend accepts\<close>

definition movable_to :: "category list \<Rightarrow> category \<Rightarrow> bool" where
  "movable_to subs m = (ca_parent_id m = None \<and> (\<forall>s \<in> set subs. ca_type m = ca_type s \<and> ca_parent_id s \<noteq> Some (ca_id m)))"

lemma selectedTypes_set: "set (selectedTypes subs) = ca_type ` set subs"
  by (simp add: selectedTypes_def)

lemma soleType_iff: "soleType subs = Some t \<longleftrightarrow> subs \<noteq> [] \<and> (\<forall>s \<in> set subs. ca_type s = t)"
proof
  assume "soleType subs = Some t"
  then have st: "selectedTypes subs = [t]"
    by (simp add: soleType_def split: list.splits)
  have "ca_type ` set subs = {t}"
    using selectedTypes_set [of subs] st by simp
  then show "subs \<noteq> [] \<and> (\<forall>s \<in> set subs. ca_type s = t)" by auto
next
  assume a: "subs \<noteq> [] \<and> (\<forall>s \<in> set subs. ca_type s = t)"
  have "set (selectedTypes subs) = {t}"
    using a selectedTypes_set [of subs] by (cases subs) auto
  moreover have "distinct (selectedTypes subs)" by (simp add: selectedTypes_def)
  ultimately have "length (selectedTypes subs) = 1"
    using distinct_card [of "selectedTypes subs"] by simp
  then obtain x where "selectedTypes subs = [x]" by (auto simp: length_Suc_conv)
  then show "soleType subs = Some t"
    using \<open>set (selectedTypes subs) = {t}\<close> by (simp add: soleType_def)
qed

lemma soleType_not_mixed: "soleType subs = Some t \<Longrightarrow> \<not> mixedSelection subs"
  by (simp add: soleType_def mixedSelection_def split: list.splits)

lemma sourceParentIds_iff: "i \<in> sourceParentIds subs \<longleftrightarrow> (\<exists>s \<in> set subs. ca_parent_id s = Some i)"
  by (auto simp: sourceParentIds_def map_filter_def image_iff)

lemma candidateMasters_iff:
  assumes "subs \<noteq> []"
  shows "m \<in> set (candidateMasters filt subs cats) \<longleftrightarrow>
     m \<in> set cats \<and> movable_to subs m \<and>
     (js_to_lower (js_trim filt) \<noteq> [] \<longrightarrow> js_includes (js_to_lower (ca_name m)) (js_to_lower (js_trim filt)))"
proof (cases "soleType subs")
  case None
  have "\<not> movable_to subs m"
  proof
    assume "movable_to subs m"
    then have "soleType subs = Some (ca_type m)"
      using assms by (simp add: soleType_iff movable_to_def)
    then show False using None by simp
  qed
  then show ?thesis using None by (simp add: candidateMasters_def typeCompatMasters_def)
next
  case (Some t)
  then have "\<And>s. s \<in> set subs \<Longrightarrow> ca_type s = t" by (simp add: soleType_iff)
  moreover obtain s0 where "s0 \<in> set subs" using assms by (cases subs) auto
  ultimately have ty: "(\<forall>s \<in> set subs. ca_type m = ca_type s) \<longleftrightarrow> ca_type m = t" by metis
  have mv: "movable_to subs m \<longleftrightarrow> ca_parent_id m = None \<and> ca_type m = t \<and> ca_id m \<notin> sourceParentIds subs"
    using ty by (auto simp: movable_to_def sourceParentIds_iff)
  show ?thesis
    using soleType_not_mixed [OF Some] Some mv
    by (auto simp: candidateMasters_def typeCompatMasters_def Let_def)
qed

text \<open>The move dialog offers exactly the masters the backend accepts as targets. With
  an empty filter the candidates for a non-empty selection are the masters of the list
  that have the type of every selected subcategory and are the parent of none of them, so
  a mixed selection gets no candidate; and every candidate, whatever the filter, is such a
  master. The message "every compatible master is a source" appears exactly when no filter
  is set, the selection has one type, that type has a master, and no candidate is left.\<close>

theorem move_candidates_exact:
  assumes "subs = selectedSubs sel cats" and "subs \<noteq> []"
  shows "set (candidateMasters [] subs cats) = {m \<in> set cats. movable_to subs m} \<and>
     set (candidateMasters filt subs cats) \<subseteq> {m \<in> set cats. movable_to subs m} \<and>
     (mixedSelection subs \<longrightarrow> candidateMasters filt subs cats = []) \<and>
     (allCompatAreSources filt subs cats \<longleftrightarrow>
        js_trim filt = [] \<and> (\<exists>m \<in> set cats. ca_parent_id m = None \<and> (\<forall>s \<in> set subs. ca_type s = ca_type m)) \<and>
        candidateMasters filt subs cats = [])"
proof (intro conjI)
  have "js_to_lower (js_trim []) = []" by (simp add: js_trim_def js_to_lower_def)
  then show "set (candidateMasters [] subs cats) = {m \<in> set cats. movable_to subs m}"
    using candidateMasters_iff [OF assms(2)] by auto
  show "set (candidateMasters filt subs cats) \<subseteq> {m \<in> set cats. movable_to subs m}"
    using candidateMasters_iff [OF assms(2)] by auto
  show "mixedSelection subs \<longrightarrow> candidateMasters filt subs cats = []"
    by (simp add: candidateMasters_def typeCompatMasters_def)
  show "allCompatAreSources filt subs cats \<longleftrightarrow>
        js_trim filt = [] \<and> (\<exists>m \<in> set cats. ca_parent_id m = None \<and> (\<forall>s \<in> set subs. ca_type s = ca_type m)) \<and>
        candidateMasters filt subs cats = []" (is "_ \<longleftrightarrow> ?R")
  proof (cases "soleType subs")
    case None
    then have "\<not> (\<exists>m \<in> set cats. ca_parent_id m = None \<and> (\<forall>s \<in> set subs. ca_type s = ca_type m))"
      using soleType_iff [of subs] assms(2) by auto
    then show ?thesis using None by (simp add: allCompatAreSources_def)
  next
    case (Some t)
    have ty: "\<And>m. (\<forall>s \<in> set subs. ca_type s = ca_type m) \<longleftrightarrow> ca_type m = t"
      using Some assms(2) soleType_iff by fastforce
    have lo: "js_trim filt = [] \<Longrightarrow> js_to_lower (js_trim filt) = []" by (simp add: js_to_lower_def)
    show ?thesis
      unfolding ty
      using soleType_not_mixed [OF Some] Some lo
      by (auto simp: allCompatAreSources_def candidateMasters_def typeCompatMasters_def Let_def filter_empty_conv list_all_iff)
  qed
qed

definition demo_cat :: "int \<Rightarrow> int option \<Rightarrow> category_type \<Rightarrow> category" where
  "demo_cat i p t = \<lparr>ca_id = i, ca_name = ''c'', ca_type = t, ca_parent_id = p, ca_parent_name = None,
     ca_description = None, ca_slug = None, ca_is_system = False, ca_transaction_count = 0\<rparr>"

definition demo_cats :: "category list" where
  "demo_cats = [demo_cat 1 None CatExpense, demo_cat 2 None CatExpense, demo_cat 3 None CatIncome,
     demo_cat 11 (Some 1) CatExpense, demo_cat 12 (Some 1) CatExpense]"

theorem move_candidates_exact_witness:
  "set (candidateMasters [] (selectedSubs [11, 12] demo_cats) demo_cats) = {demo_cat 2 None CatExpense}"
proof -
  let ?S = "selectedSubs [11, 12] demo_cats"
  have s: "?S = [demo_cat 11 (Some 1) CatExpense, demo_cat 12 (Some 1) CatExpense]"
    by (simp add: selectedSubs_def demo_cats_def demo_cat_def)
  have "set (candidateMasters [] ?S demo_cats) = {m \<in> set demo_cats. movable_to ?S m}"
    using move_candidates_exact [where sel = "[11, 12]" and cats = demo_cats and filt = "[]", OF refl] s by simp
  also have "\<dots> = {demo_cat 2 None CatExpense}"
    unfolding s by (auto simp: demo_cats_def movable_to_def demo_cat_def)
  finally show ?thesis .
qed

subsection \<open>The delete loop\<close>

lemma fr_id_buildFailure [simp]: "fr_category_id (buildFailure s e) = ca_id s"
  by (simp add: buildFailure_def Let_def split: js_error.splits)

lemma delete_rows_perm:
  "delete_rows be b rows reqs = (fs, oks, reqs') \<Longrightarrow>
     mset (map fr_category_id fs @ oks) = mset (map ca_id rows)"
proof (induction rows arbitrary: reqs fs oks reqs')
  case Nil
  then show ?case by simp
next
  case (Cons s rows)
  obtain fs1 oks1 r1 where n: "delete_rows be b rows reqs = (fs1, oks1, r1)" by (metis prod_cases3)
  obtain fs2 oks2 r2 where t: "delete_rows be b rows (reqs @ [delete_request (ca_id s) (the (target_picked b s))]) = (fs2, oks2, r2)"
    by (metis prod_cases3)
  show ?case
    using Cons.prems Cons.IH [OF n] Cons.IH [OF t] n t
    by (auto simp: Let_def split: option.splits sum.splits)
qed

lemma delete_rows_requests:
  "delete_rows be b rows reqs = (fs, oks, reqs') \<Longrightarrow>
     reqs' = reqs @ map (\<lambda>s. delete_request (ca_id s) (the (target_picked b s))) (filter (\<lambda>s. target_picked b s \<noteq> None) rows)"
proof (induction rows arbitrary: reqs fs oks reqs')
  case Nil
  then show ?case by simp
next
  case (Cons s rows)
  obtain fs1 oks1 r1 where n: "delete_rows be b rows reqs = (fs1, oks1, r1)" by (metis prod_cases3)
  obtain fs2 oks2 r2 where t: "delete_rows be b rows (reqs @ [delete_request (ca_id s) (the (target_picked b s))]) = (fs2, oks2, r2)"
    by (metis prod_cases3)
  show ?case
  proof (cases "target_picked b s")
    case None
    then have "reqs' = r1" using Cons.prems n by simp
    then show ?thesis using Cons.IH [OF n] None by simp
  next
    case (Some a)
    then have "reqs' = r2" using Cons.prems t by (simp add: Let_def split: sum.splits)
    then show ?thesis using Cons.IH [OF t] Some by simp
  qed
qed

lemma delete_rows_spec:
  assumes "delete_rows be b rows reqs = (fs, oks, reqs')" and "distinct (map ca_id rows)"
  shows "set (map fr_category_id fs) \<union> set oks = ca_id ` set rows"
    and "distinct (map fr_category_id fs @ oks)"
  using delete_rows_perm [OF assms(1)] assms(2)
  by (metis mset_eq_setD set_append set_map) (metis mset_eq_imp_distinct_iff delete_rows_perm [OF assms(1)] assms(2))

text \<open>A confirmed batch delete sends exactly one \<^verbatim>\<open>DELETE\<close> for each shown row that has a
  migration target, in the order of the rows, and none for the others; afterwards every
  shown row is either deleted, or listed as a failure and still pending, and no row is
  both, so a retry asks for the failed rows only and never deletes a row twice. The parent
  is told of the failures exactly when something was deleted or nothing failed.\<close>

theorem batch_delete_accounts_for_every_row:
  assumes "handleConfirm_delete be subs b reqs = (b', told, reqs')"
    and "distinct (map ca_id subs)"
  shows "\<exists>oks. reqs' = reqs @ map (\<lambda>s. delete_request (ca_id s) (the (target_picked b s)))
                 (filter (\<lambda>s. target_picked b s \<noteq> None) (rowsToShow subs b)) \<and>
     bx_pendingIds b' = map fr_category_id (bx_failures b') \<and>
     set oks \<union> set (bx_pendingIds b') = ca_id ` set (rowsToShow subs b) \<and>
     set oks \<inter> set (bx_pendingIds b') = {} \<and> distinct (bx_pendingIds b') \<and>
     rowsToShow subs b' = filter (\<lambda>s. ca_id s \<notin> set oks) (rowsToShow subs b) \<and>
     told = (if bx_failures b' = [] \<or> oks \<noteq> [] then Some (bx_failures b') else None) \<and> \<not> bx_submitting b'"
proof -
  let ?b = "b\<lparr>bx_submitting := True, bx_globalError := [], bx_refreshError := []\<rparr>"
  have rw: "rowsToShow subs ?b = rowsToShow subs b" by (simp add: rowsToShow_def)
  have tp: "\<And>s. target_picked ?b s = target_picked b s" by (simp add: target_picked_def)
  obtain fs oks r where r: "delete_rows be ?b (rowsToShow subs b) reqs = (fs, oks, r)" by (metis prod_cases3)
  note sp = delete_rows_requests [OF r, unfolded tp]
  have d: "distinct (map ca_id (rowsToShow subs b))"
    using assms(2) by (simp add: rowsToShow_def distinct_map_filter)
  have res: "r = reqs'" "bx_failures b' = fs" "bx_pendingIds b' = map fr_category_id fs" "\<not> bx_submitting b'"
      "told = (if fs = [] \<or> oks \<noteq> [] then Some fs else None)"
    using assms(1) unfolding handleConfirm_delete_def Let_def rw r by (auto split: if_splits)
  have un: "set (map fr_category_id fs) \<union> set oks = ca_id ` set (rowsToShow subs b)"
    and di: "distinct (map fr_category_id fs @ oks)" by (rule delete_rows_spec [OF r d])+
  have rest: "rowsToShow subs b' = filter (\<lambda>s. ca_id s \<notin> set oks) (rowsToShow subs b)"
  proof -
    have "ca_id s \<in> set (map fr_category_id fs) \<longleftrightarrow> ca_id s \<in> set (bx_pendingIds b) \<and> ca_id s \<notin> set oks"
      if "s \<in> set subs" for s
    proof -
      have "ca_id s \<in> set (bx_pendingIds b) \<longleftrightarrow> ca_id s \<in> ca_id ` set (rowsToShow subs b)"
        using that by (auto simp: rowsToShow_def)
      then show ?thesis using un di by auto
    qed
    then have "filter (\<lambda>s. ca_id s \<in> set (map fr_category_id fs)) subs
        = filter (\<lambda>s. ca_id s \<in> set (bx_pendingIds b) \<and> ca_id s \<notin> set oks) subs"
      by (rule filter_cong [OF refl])
    then show ?thesis unfolding rowsToShow_def res(3) by (simp add: conj_commute)
  qed
  show ?thesis
    by (rule exI [of _ oks]) (use sp res un di rest in \<open>simp add: Un_commute Int_commute\<close>)
qed

definition demo_subs :: "category list" where
  "demo_subs = [demo_cat 11 (Some 1) CatExpense, demo_cat 12 (Some 1) CatExpense]"

definition demo_delete :: batch_delete where
  "demo_delete = (batch_delete_reset demo_subs
     \<lparr>bx_migrationTargets = Map.empty, bx_pendingIds = [], bx_failures = [], bx_submitting = False,
      bx_globalError = [], bx_refreshError = [], bx_lastFailures = None\<rparr>)
     \<lparr>bx_migrationTargets := [11 \<mapsto> Some 2]\<rparr>"

theorem batch_delete_accounts_for_every_row_witness:
  "\<exists>b' told reqs' oks. handleConfirm_delete (\<lambda>_ _. Inr JUndef) demo_subs demo_delete [] = (b', told, reqs') \<and>
     reqs' = [delete_request 11 2] \<and> set oks \<inter> set (bx_pendingIds b') = {}"
proof -
  obtain b' told reqs' where h: "handleConfirm_delete (\<lambda>_ _. Inr JUndef) demo_subs demo_delete [] = (b', told, reqs')"
    by (metis prod_cases3)
  have d: "distinct (map ca_id demo_subs)" by (simp add: demo_subs_def demo_cat_def)
  have rq: "map (\<lambda>s. delete_request (ca_id s) (the (target_picked demo_delete s)))
                 (filter (\<lambda>s. target_picked demo_delete s \<noteq> None) (rowsToShow demo_subs demo_delete)) = [delete_request 11 2]"
    by (simp add: demo_delete_def demo_subs_def demo_cat_def rowsToShow_def target_picked_def batch_delete_reset_def)
  obtain oks where "reqs' = [] @ [delete_request 11 2]" "set oks \<inter> set (bx_pendingIds b') = {}"
    using batch_delete_accounts_for_every_row [OF h d] unfolding rq by blast
  then show ?thesis using h by auto
qed

end
