(* ===== verification/Categories_Page.thy ===== *)
theory Categories_Page
  imports Categories Api_Fetch
begin

section \<open>The categories page (app/categories/page.tsx)\<close>

text \<open>
  The page's React state and its handlers. A handler with an \<^verbatim>\<open>await\<close> is two functions:
  what it does before the request, and what it does with the answers of the request and of
  the \<open>reload\<close> that follows it. The events of \<open>cat_step\<close> are enabled as the rendering
  enables them: checkboxes, drag handles and the batch bar exist in edit mode only, and
  the buttons of a dialog exist while it is open.
\<close>

subsection \<open>State\<close>

record pending_drag =
  pd_subcategoryId :: rat
  pd_subcategoryName :: string
  pd_subcategoryType :: category_type
  pd_sourceParentId :: rat
  pd_targetMasterId :: rat
  pd_targetMasterName :: string

record cat_page =
  cp_categories :: "category list"
  cp_fetching :: bool
  cp_error :: string
  cp_editingCatId :: "int option"
  cp_editCatName :: string
  cp_editCatDesc :: string
  cp_addingToMaster :: "int option"
  cp_newSubName :: string
  cp_newSubDesc :: string
  cp_confirmDeleteId :: "int option"
  cp_showRestoreConfirm :: bool
  cp_restoring :: bool
  cp_restoreSuccess :: "jsval option"
  cp_refreshError :: bool
  cp_refreshing :: bool
  cp_editMode :: bool
  cp_selectedIds :: "int list"
  cp_batchMoveOpen :: bool
  cp_batchDeleteOpen :: bool
  cp_activeDragSub :: "(jsval \<times> jsval \<times> jsval \<times> jsval) option"
  cp_pendingDrag :: "pending_drag option"
  cp_pendingPreview :: "move_result option"
  cp_pendingPreviewLoading :: bool
  cp_pendingPreviewError :: string
  cp_pendingMoveSubmitting :: bool
  cp_dragMoveError :: string

definition cat_init :: cat_page where
  "cat_init = \<lparr>cp_categories = [], cp_fetching = True, cp_error = [], cp_editingCatId = None, cp_editCatName = [],
     cp_editCatDesc = [], cp_addingToMaster = None, cp_newSubName = [], cp_newSubDesc = [], cp_confirmDeleteId = None,
     cp_showRestoreConfirm = False, cp_restoring = False, cp_restoreSuccess = None, cp_refreshError = False,
     cp_refreshing = False, cp_editMode = False, cp_selectedIds = [], cp_batchMoveOpen = False,
     cp_batchDeleteOpen = False, cp_activeDragSub = None, cp_pendingDrag = None, cp_pendingPreview = None,
     cp_pendingPreviewLoading = False, cp_pendingPreviewError = [], cp_pendingMoveSubmitting = False,
     cp_dragMoveError = []\<rparr>"

subsection \<open>Edit mode and selection\<close>

definition clearPendingDrag :: "cat_page \<Rightarrow> cat_page" where
  "clearPendingDrag p = p\<lparr>cp_pendingDrag := None, cp_pendingPreview := None, cp_pendingPreviewError := [],
     cp_pendingPreviewLoading := False, cp_pendingMoveSubmitting := False\<rparr>"

definition exitEditMode :: "cat_page \<Rightarrow> cat_page" where
  "exitEditMode p = (clearPendingDrag (p\<lparr>cp_editMode := False, cp_selectedIds := [], cp_batchMoveOpen := False,
     cp_batchDeleteOpen := False, cp_activeDragSub := None\<rparr>))\<lparr>cp_dragMoveError := []\<rparr>"

definition toggleEdit :: "cat_page \<Rightarrow> cat_page" where
  "toggleEdit p = (if cp_editMode p then exitEditMode p else p\<lparr>cp_editMode := True\<rparr>)"

definition toggleSelected :: "int \<Rightarrow> cat_page \<Rightarrow> cat_page" where
  "toggleSelected i p = p\<lparr>cp_selectedIds := (if i \<in> set (cp_selectedIds p)
     then filter (\<lambda>x. x \<noteq> i) (cp_selectedIds p) else cp_selectedIds p @ [i])\<rparr>"

definition esc_key :: "cat_page \<Rightarrow> cat_page" where
  "esc_key p =
     (if \<not> cp_editMode p then p
      else if cp_batchMoveOpen p \<or> cp_batchDeleteOpen p \<or> cp_confirmDeleteId p \<noteq> None then p
      else if cp_editingCatId p \<noteq> None \<or> cp_addingToMaster p \<noteq> None then p
      else if cp_pendingDrag p \<noteq> None then p
      else exitEditMode p)"

subsection \<open>Loading\<close>

type_synonym reload_answer = "js_error + category list option"

definition reload_end :: "category list option \<Rightarrow> cat_page \<Rightarrow> cat_page" where
  "reload_end data p = p\<lparr>cp_categories := (case data of Some cs \<Rightarrow> cs | None \<Rightarrow> []), cp_fetching := False\<rparr>"

definition initial_load :: "reload_answer \<Rightarrow> cat_page \<Rightarrow> cat_page" where
  "initial_load rl p = (case rl of Inr d \<Rightarrow> reload_end d p | Inl _ \<Rightarrow> p\<lparr>cp_fetching := False\<rparr>)"

definition refresh_begin :: "bool \<Rightarrow> bool \<Rightarrow> cat_page \<Rightarrow> cat_page" where
  "refresh_begin authLoading hasUser p = (if authLoading \<or> \<not> hasUser then p else p\<lparr>cp_refreshing := True\<rparr>)"

definition refresh_end :: "reload_answer \<Rightarrow> cat_page \<Rightarrow> cat_page" where
  "refresh_end rl p = (case rl of
      Inr d \<Rightarrow> (reload_end d p)\<lparr>cp_refreshError := False, cp_refreshing := False\<rparr>
    | Inl _ \<Rightarrow> p\<lparr>cp_refreshError := True, cp_refreshing := False\<rparr>)"

subsection \<open>The tree and the search\<close>

definition allMasters :: "category list \<Rightarrow> category list" where
  "allMasters cs = filter (\<lambda>c. ca_parent_id c = None) cs"

definition childrenMap :: "category list \<Rightarrow> int \<rightharpoonup> category list" where
  "childrenMap cs = foldl (\<lambda>m c. case ca_parent_id c of
      None \<Rightarrow> m
    | Some q \<Rightarrow> m(q \<mapsto> (case m q of Some l \<Rightarrow> l | None \<Rightarrow> []) @ [c])) Map.empty cs"

definition childrenOf :: "category list \<Rightarrow> int \<Rightarrow> category list" where
  "childrenOf cs i = (case childrenMap cs i of Some l \<Rightarrow> l | None \<Rightarrow> [])"

definition visibleMasters :: "string \<Rightarrow> category list \<Rightarrow> category list" where
  "visibleMasters search cs =
     (let sq = js_to_lower search in
      if sq \<noteq> [] then filter (\<lambda>m. js_includes (js_to_lower (ca_name m)) sq \<or>
          list_ex (\<lambda>c. js_includes (js_to_lower (ca_name c)) sq) (childrenOf cs (ca_id m))) (allMasters cs)
      else allMasters cs)"

subsection \<open>Create, edit, delete, restore\<close>

definition cat_type_str :: "category_type \<Rightarrow> string" where
  "cat_type_str t = (case t of CatIncome \<Rightarrow> ''income'' | CatExpense \<Rightarrow> ''expense'' | CatBoth \<Rightarrow> ''both'')"

definition str_or_null :: "string \<Rightarrow> jsval" where
  "str_or_null s = (if s = [] then JNull else JStr s)"

text \<open>\<^verbatim>\<open>!addingToMaster\<close> is true of \<^verbatim>\<open>null\<close> and of 0.\<close>

definition handleAddSub_begin :: "cat_page \<Rightarrow> cat_page \<times> request option" where
  "handleAddSub_begin p = (case cp_addingToMaster p of
      None \<Rightarrow> (p, None)
    | Some i \<Rightarrow>
        if i = 0 then (p, None)
        else (p\<lparr>cp_error := []\<rparr>,
          Some (mk_req POST ''/api/v1/categories'' (JObj
            [(''name'', JStr (cp_newSubName p)), (''description'', str_or_null (cp_newSubDesc p)),
             (''parent_id'', JInt i),
             (''type'', JStr (case js_find (\<lambda>c. ca_id c = i) (cp_categories p) of
                 Some m \<Rightarrow> cat_type_str (ca_type m) | None \<Rightarrow> ''expense''))]))))"

definition end_with_reload :: "js_error + jsval \<Rightarrow> reload_answer \<Rightarrow> (cat_page \<Rightarrow> cat_page) \<Rightarrow> string \<Rightarrow> cat_page \<Rightarrow> cat_page" where
  "end_with_reload ans rl upd fallback p = (case ans of
      Inl err \<Rightarrow> p\<lparr>cp_error := extractErrorMessage err fallback\<rparr>
    | Inr _ \<Rightarrow> (case rl of
          Inl err \<Rightarrow> (upd p)\<lparr>cp_error := extractErrorMessage err fallback\<rparr>
        | Inr d \<Rightarrow> reload_end d (upd p)))"

definition handleAddSub_end :: "js_error + jsval \<Rightarrow> reload_answer \<Rightarrow> cat_page \<Rightarrow> cat_page" where
  "handleAddSub_end ans rl =
     end_with_reload ans rl (\<lambda>p. p\<lparr>cp_newSubName := [], cp_newSubDesc := [], cp_addingToMaster := None\<rparr>) ''Failed''"

definition handleEditCat_begin :: "int \<Rightarrow> cat_page \<Rightarrow> cat_page \<times> request option" where
  "handleEditCat_begin i p =
     (if js_trim (cp_editCatName p) = [] then (p, None)
      else (p\<lparr>cp_error := []\<rparr>,
        Some (mk_req PUT (''/api/v1/categories/'' @ show_int i) (JObj
          [(''name'', JStr (cp_editCatName p)), (''description'', str_or_null (js_trim (cp_editCatDesc p)))]))))"

definition handleEditCat_end :: "js_error + jsval \<Rightarrow> reload_answer \<Rightarrow> cat_page \<Rightarrow> cat_page" where
  "handleEditCat_end ans rl = end_with_reload ans rl (\<lambda>p. p\<lparr>cp_editingCatId := None\<rparr>) ''Failed''"

definition handleDelete_begin :: "int \<Rightarrow> cat_page \<Rightarrow> cat_page \<times> request" where
  "handleDelete_begin i p = (p\<lparr>cp_confirmDeleteId := None, cp_error := []\<rparr>,
     mk_req DELETE (''/api/v1/categories/'' @ show_int i) JUndef)"

definition handleDelete_end :: "js_error + jsval \<Rightarrow> reload_answer \<Rightarrow> cat_page \<Rightarrow> cat_page" where
  "handleDelete_end ans rl = end_with_reload ans rl (\<lambda>p. p) ''Failed''"

definition handleRestoreRecommended_begin :: "cat_page \<Rightarrow> cat_page \<times> request" where
  "handleRestoreRecommended_begin p =
     (p\<lparr>cp_showRestoreConfirm := False, cp_restoring := True, cp_error := [], cp_restoreSuccess := None\<rparr>,
      mk_req POST ''/api/v1/categories/restore-recommended'' JUndef)"

definition handleRestoreRecommended_end :: "js_error + jsval \<Rightarrow> reload_answer \<Rightarrow> cat_page \<Rightarrow> cat_page" where
  "handleRestoreRecommended_end ans rl p =
     (end_with_reload ans rl
        (\<lambda>p. p\<lparr>cp_restoreSuccess := Some (let v = js_get (case ans of Inr a \<Rightarrow> a | Inl _ \<Rightarrow> JUndef) ''created_count'' in
                 if js_is_nullish v then JInt 0 else v)\<rparr>)
        ''Failed to restore recommended categories'' p)\<lparr>cp_restoring := False\<rparr>"

subsection \<open>Drag and drop\<close>

definition handleDragStart :: "jsval \<Rightarrow> cat_page \<Rightarrow> cat_page" where
  "handleDragStart d p =
     (if \<not> js_truthy d \<or> js_get d ''kind'' \<noteq> JStr ''subcategory'' then p
      else if js_get d ''subcategoryId'' = JUndef \<or> js_get d ''subcategoryName'' = JUndef
              \<or> js_get d ''subcategoryType'' = JUndef \<or> js_get d ''parentId'' = JUndef then p
      else p\<lparr>cp_dragMoveError := [],
             cp_activeDragSub := Some (js_get d ''subcategoryId'', js_get d ''subcategoryName'',
                js_get d ''subcategoryType'', js_get d ''parentId'')\<rparr>)"

definition handleDragCancel :: "cat_page \<Rightarrow> cat_page" where
  "handleDragCancel p = p\<lparr>cp_activeDragSub := None\<rparr>"

text \<open>The drop, with the preview effect that runs when it sets \<^verbatim>\<open>pendingDrag\<close>.\<close>

definition handleDragEnd :: "jsval \<Rightarrow> jsval \<Rightarrow> cat_page \<Rightarrow> cat_page" where
  "handleDragEnd active over p =
     (let p1 = p\<lparr>cp_activeDragSub := None\<rparr> in
      if \<not> cp_editMode p then p1
      else (case classifyDrop active over of
              DropValid sub target \<Rightarrow>
                p1\<lparr>cp_pendingDrag := Some \<lparr>pd_subcategoryId = sd_id sub, pd_subcategoryName = sd_name sub,
                     pd_subcategoryType = sd_type sub, pd_sourceParentId = sd_parent sub,
                     pd_targetMasterId = md_id target,
                     pd_targetMasterName = (case js_find (\<lambda>c. of_int (ca_id c) = md_id target) (cp_categories p) of
                        Some m \<Rightarrow> ca_name m | None \<Rightarrow> ''target master'')\<rparr>,
                   cp_pendingPreviewLoading := True, cp_pendingPreview := None, cp_pendingPreviewError := []\<rparr>
            | _ \<Rightarrow> p1))"

text \<open>The preview's answer, unless its effect was cancelled by another \<^verbatim>\<open>pendingDrag\<close>.\<close>

definition drag_preview_end :: "pending_drag \<Rightarrow> js_error + move_result \<Rightarrow> cat_page \<Rightarrow> cat_page" where
  "drag_preview_end d ans p =
     (if cp_pendingDrag p \<noteq> Some d then p
      else (case ans of
              Inr r \<Rightarrow> p\<lparr>cp_pendingPreview := Some r, cp_pendingPreviewLoading := False\<rparr>
            | Inl err \<Rightarrow> p\<lparr>cp_pendingPreviewError := buildMoveErrorMessage err (pd_subcategoryName d) (pd_targetMasterName d),
                cp_pendingPreviewLoading := False\<rparr>))"

definition handleConfirmDragMove_begin :: "cat_page \<Rightarrow> cat_page \<times> request option" where
  "handleConfirmDragMove_begin p = (case cp_pendingDrag p of
      None \<Rightarrow> (p, None)
    | Some d \<Rightarrow> (p\<lparr>cp_pendingMoveSubmitting := True, cp_dragMoveError := []\<rparr>,
        Some (mk_req PATCH (''/api/v1/categories/'' @ js_String (JNum (pd_subcategoryId d)) @ ''/move'')
          (JObj [(''target_parent_id'', JNum (pd_targetMasterId d))]))))"

definition handleConfirmDragMove_end :: "pending_drag \<Rightarrow> js_error + jsval \<Rightarrow> reload_answer \<Rightarrow> cat_page \<Rightarrow> cat_page" where
  "handleConfirmDragMove_end d ans rl p =
     (let fail = (\<lambda>err. p\<lparr>cp_dragMoveError := buildMoveErrorMessage err (pd_subcategoryName d) (pd_targetMasterName d),
                     cp_pendingMoveSubmitting := False\<rparr>)
      in case ans of
           Inl err \<Rightarrow> fail err
         | Inr _ \<Rightarrow> (case rl of Inl err \<Rightarrow> fail err | Inr data \<Rightarrow> clearPendingDrag (reload_end data p)))"

definition handleCancelDragMove :: "cat_page \<Rightarrow> cat_page" where
  "handleCancelDragMove p = (clearPendingDrag p)\<lparr>cp_dragMoveError := []\<rparr>"

subsection \<open>What the page does after a batch\<close>

text \<open>The \<open>onSuccess\<close> of the two dialogs: a failed reload is thrown back to the dialog.\<close>

definition move_onSuccess :: "reload_answer \<Rightarrow> cat_page \<Rightarrow> cat_page \<times> js_error option" where
  "move_onSuccess rl p = (case rl of
      Inl err \<Rightarrow> (p, Some err)
    | Inr d \<Rightarrow> (exitEditMode ((reload_end d p)\<lparr>cp_batchMoveOpen := False\<rparr>), None))"

definition delete_onSuccess :: "failure_row list \<Rightarrow> reload_answer \<Rightarrow> cat_page \<Rightarrow> cat_page \<times> js_error option" where
  "delete_onSuccess failures rl p = (case rl of
      Inl err \<Rightarrow> (p, Some err)
    | Inr d \<Rightarrow>
        (let p1 = reload_end d p in
         if failures = [] then (exitEditMode (p1\<lparr>cp_batchDeleteOpen := False\<rparr>), None)
         else (p1\<lparr>cp_selectedIds := filter (\<lambda>i. i \<in> fr_category_id ` set failures) (cp_selectedIds p1)\<rparr>, None)))"


text \<open>
  The delete dialog run on the page: the handler, the page's \<open>onSuccess\<close>, and the reset
  effect of the dialog, which depends on \<^verbatim>\<open>selectedSubs\<close> and so runs again when the
  page's reload or its change of the selection replaces that list while the dialog is open.
\<close>

definition page_delete_confirm ::
    "backend \<Rightarrow> reload_answer \<Rightarrow> cat_page \<Rightarrow> batch_delete \<Rightarrow> request list \<Rightarrow> cat_page \<times> batch_delete \<times> request list" where
  "page_delete_confirm be rl p b reqs =
     (let (b1, told, reqs1) = handleConfirm_delete be (selectedSubs (cp_selectedIds p) (cp_categories p)) b reqs
      in case told of
           None \<Rightarrow> (p, b1, reqs1)
         | Some fs \<Rightarrow>
             (let (p2, failed) = delete_onSuccess fs rl p in
              if failed = None \<and> cp_batchDeleteOpen p2
              then (p2, batch_delete_reset (selectedSubs (cp_selectedIds p2) (cp_categories p2)) b1, reqs1)
              else (p2, runRefresh_delete failed b1, reqs1)))"

subsection \<open>The page as a state machine\<close>

datatype cat_event =
    CatToggleEdit | CatEsc | CatSelect int | CatClearSelection
  | CatOpenMove | CatOpenDelete | CatCloseMove | CatCloseDelete
  | CatMoveDone reload_answer | CatDeleteDone "failure_row list" reload_answer
  | CatDragStart jsval | CatDragCancel | CatDragEnd jsval jsval
  | CatPreviewEnd pending_drag "js_error + move_result"
  | CatConfirmDrag | CatConfirmDragEnd pending_drag "js_error + jsval" reload_answer | CatCancelDrag
  | CatInitialLoad reload_answer | CatRefreshBegin | CatRefreshEnd reload_answer
  | CatAddToggle int | CatAdd | CatAddEnd "js_error + jsval" reload_answer
  | CatEditStart category | CatEditCancel | CatEdit int | CatEditEnd "js_error + jsval" reload_answer
  | CatAskDelete int | CatCancelDelete | CatDelete int | CatDeleteEnd "js_error + jsval" reload_answer
  | CatRestore | CatRestoreEnd "js_error + jsval" reload_answer

fun cat_step :: "cat_page \<Rightarrow> cat_event \<Rightarrow> cat_page" where
  "cat_step p CatToggleEdit = toggleEdit p"
| "cat_step p CatEsc = esc_key p"
| "cat_step p (CatSelect i) = (if cp_editMode p then toggleSelected i p else p)"
| "cat_step p CatClearSelection = p\<lparr>cp_selectedIds := []\<rparr>"
| "cat_step p CatOpenMove = (if cp_editMode p then p\<lparr>cp_batchMoveOpen := True\<rparr> else p)"
| "cat_step p CatOpenDelete = (if cp_editMode p then p\<lparr>cp_batchDeleteOpen := True\<rparr> else p)"
| "cat_step p CatCloseMove = p\<lparr>cp_batchMoveOpen := False\<rparr>"
| "cat_step p CatCloseDelete = p\<lparr>cp_batchDeleteOpen := False\<rparr>"
| "cat_step p (CatMoveDone rl) = fst (move_onSuccess rl p)"
| "cat_step p (CatDeleteDone fs rl) = fst (delete_onSuccess fs rl p)"
| "cat_step p (CatDragStart d) = (if cp_editMode p then handleDragStart d p else p)"
| "cat_step p CatDragCancel = handleDragCancel p"
| "cat_step p (CatDragEnd a v) = handleDragEnd a v p"
| "cat_step p (CatPreviewEnd d ans) = drag_preview_end d ans p"
| "cat_step p CatConfirmDrag = fst (handleConfirmDragMove_begin p)"
| "cat_step p (CatConfirmDragEnd d ans rl) = handleConfirmDragMove_end d ans rl p"
| "cat_step p CatCancelDrag = handleCancelDragMove p"
| "cat_step p (CatInitialLoad rl) = initial_load rl p"
| "cat_step p CatRefreshBegin = refresh_begin False True p"
| "cat_step p (CatRefreshEnd rl) = refresh_end rl p"
| "cat_step p (CatAddToggle i) = p\<lparr>cp_addingToMaster := (if cp_addingToMaster p = Some i then None else Some i),
     cp_newSubName := [], cp_newSubDesc := []\<rparr>"
| "cat_step p CatAdd = fst (handleAddSub_begin p)"
| "cat_step p (CatAddEnd ans rl) = handleAddSub_end ans rl p"
| "cat_step p (CatEditStart c) = p\<lparr>cp_editingCatId := Some (ca_id c), cp_editCatName := ca_name c,
     cp_editCatDesc := (case ca_description c of Some d \<Rightarrow> d | None \<Rightarrow> [])\<rparr>"
| "cat_step p CatEditCancel = p\<lparr>cp_editingCatId := None\<rparr>"
| "cat_step p (CatEdit i) = fst (handleEditCat_begin i p)"
| "cat_step p (CatEditEnd ans rl) = handleEditCat_end ans rl p"
| "cat_step p (CatAskDelete i) = p\<lparr>cp_confirmDeleteId := Some i\<rparr>"
| "cat_step p CatCancelDelete = p\<lparr>cp_confirmDeleteId := None\<rparr>"
| "cat_step p (CatDelete i) = fst (handleDelete_begin i p)"
| "cat_step p (CatDeleteEnd ans rl) = handleDelete_end ans rl p"
| "cat_step p CatRestore = fst (handleRestoreRecommended_begin p)"
| "cat_step p (CatRestoreEnd ans rl) = handleRestoreRecommended_end ans rl p"

definition cat_inv :: "cat_page \<Rightarrow> bool" where
  "cat_inv p =
     ((\<not> cp_editMode p \<longrightarrow> cp_selectedIds p = [] \<and> \<not> cp_batchMoveOpen p \<and> \<not> cp_batchDeleteOpen p \<and>
         cp_activeDragSub p = None \<and> cp_pendingDrag p = None) \<and>
      distinct (cp_selectedIds p) \<and>
      (case cp_pendingDrag p of None \<Rightarrow> True | Some d \<Rightarrow> pd_targetMasterId d \<noteq> pd_sourceParentId d))"

lemma cat_inv_frame:
  assumes "cat_inv p"
    and "cp_editMode q = cp_editMode p" "cp_selectedIds q = cp_selectedIds p"
      "cp_batchMoveOpen q = cp_batchMoveOpen p" "cp_batchDeleteOpen q = cp_batchDeleteOpen p"
      "cp_activeDragSub q = cp_activeDragSub p" "cp_pendingDrag q = cp_pendingDrag p"
  shows "cat_inv q"
  using assms by (simp add: cat_inv_def)

lemma exitEditMode_inv: "cat_inv (exitEditMode p)"
  by (simp add: cat_inv_def exitEditMode_def clearPendingDrag_def)

lemma clearPendingDrag_inv: "cat_inv p \<Longrightarrow> cat_inv (clearPendingDrag p)"
  by (auto simp: cat_inv_def clearPendingDrag_def)

lemma reload_end_inv [simp]: "cat_inv (reload_end d p) = cat_inv p"
  by (simp add: cat_inv_def reload_end_def)

lemma classifyDrop_valid:
  "classifyDrop a v = DropValid sub target \<Longrightarrow>
     asSubcategoryData a = Some sub \<and> asMasterData v = Some target \<and> md_id target \<noteq> sd_parent sub \<and> md_type target = sd_type sub"
  by (auto simp: classifyDrop_def split: if_splits option.splits)

lemma drag_end_inv: "cat_inv p \<Longrightarrow> cat_inv (handleDragEnd a v p)"
proof -
  assume i: "cat_inv p"
  have p1: "cat_inv (p\<lparr>cp_activeDragSub := None\<rparr>)" using i by (auto simp: cat_inv_def)
  show ?thesis
  proof (cases "classifyDrop a v")
    case (DropValid sub target)
    then show ?thesis
      using p1 i classifyDrop_valid [OF DropValid] by (auto simp: handleDragEnd_def Let_def cat_inv_def)
  qed (use p1 in \<open>simp_all add: handleDragEnd_def Let_def\<close>)
qed

lemma end_with_reload_inv:
  assumes "cat_inv p" and "\<And>q. cat_inv q \<Longrightarrow> cat_inv (upd q)"
  shows "cat_inv (end_with_reload ans rl upd fb p)"
proof (cases ans)
  case (Inl err)
  then show ?thesis using cat_inv_frame [OF assms(1)] by (simp add: end_with_reload_def)
next
  case (Inr a)
  show ?thesis
  proof (cases rl)
    case (Inl err)
    then show ?thesis using Inr cat_inv_frame [OF assms(2) [OF assms(1)]] by (simp add: end_with_reload_def)
  next
    case (Inr d)
    then show ?thesis using \<open>ans = Inr a\<close> assms by (simp add: end_with_reload_def)
  qed
qed

lemma cat_step_inv: "cat_inv p \<Longrightarrow> cat_inv (cat_step p e)"
proof (induction p e rule: cat_step.induct)
  case (1 p)
  then show ?case using exitEditMode_inv by (simp add: toggleEdit_def) (auto simp: cat_inv_def)
next
  case (2 p)
  then show ?case using exitEditMode_inv by (simp add: esc_key_def)
next
  case (9 p rl)
  then show ?case using exitEditMode_inv by (simp add: move_onSuccess_def split: sum.splits)
next
  case (10 p fs rl)
  then show ?case
    using exitEditMode_inv
    by (cases rl) (auto simp: delete_onSuccess_def Let_def cat_inv_def reload_end_def)
next
  case (13 p a v)
  then show ?case by (simp add: drag_end_inv)
next
  case (16 p d ans rl)
  then show ?case
    using clearPendingDrag_inv
    by (auto simp: handleConfirmDragMove_end_def Let_def split: sum.splits intro: cat_inv_frame)
next
  case (17 p)
  then show ?case using clearPendingDrag_inv [of p] by (auto simp: handleCancelDragMove_def intro: cat_inv_frame)
next
  case (23 p ans rl)
  then show ?case by (auto simp: handleAddSub_end_def intro!: end_with_reload_inv intro: cat_inv_frame)
next
  case (27 p ans rl)
  then show ?case by (auto simp: handleEditCat_end_def intro!: end_with_reload_inv intro: cat_inv_frame)
next
  case (31 p ans rl)
  then show ?case by (auto simp: handleDelete_end_def intro!: end_with_reload_inv)
next
  case (33 p ans rl)
  have "cat_inv (end_with_reload ans rl upd fb p)" if "\<And>q. cat_inv q \<Longrightarrow> cat_inv (upd q)" for upd fb
    using end_with_reload_inv [OF 33 that] .
  then show ?case unfolding cat_step.simps handleRestoreRecommended_end_def
    by (rule cat_inv_frame) (auto intro: cat_inv_frame)
qed (auto simp: cat_inv_def toggleSelected_def handleDragStart_def handleDragCancel_def drag_preview_end_def
      handleConfirmDragMove_begin_def initial_load_def refresh_begin_def refresh_end_def reload_end_def
      handleAddSub_begin_def handleEditCat_begin_def handleDelete_begin_def handleRestoreRecommended_begin_def
      split: option.splits sum.splits)

interpretation categories_page: step_machine cat_step cat_inv
  by unfold_locales (rule cat_step_inv)


lemma cat_init_inv: "cat_inv cat_init"
  by (simp add: cat_inv_def cat_init_def)

lemma childrenMap_spec:
  "childrenMap cs i = (let l = filter (\<lambda>c. ca_parent_id c = Some i) cs in if l = [] then None else Some l)"
proof -
  have "foldl (\<lambda>m c. case ca_parent_id c of None \<Rightarrow> m
         | Some q \<Rightarrow> m(q \<mapsto> (case m q of Some l \<Rightarrow> l | None \<Rightarrow> []) @ [c])) Map.empty cs i
      = (let l = filter (\<lambda>c. ca_parent_id c = Some i) cs in if l = [] then None else Some l)"
    by (induction cs rule: rev_induct) (auto simp: Let_def split: option.splits if_splits)
  then show ?thesis by (simp add: childrenMap_def)
qed

lemma childrenOf_spec: "childrenOf cs i = filter (\<lambda>c. ca_parent_id c = Some i) cs"
  by (simp add: childrenOf_def childrenMap_spec Let_def)

text \<open>Whatever the user does on the categories page, and in whatever order answers arrive:
  outside edit mode nothing is selected, no batch dialog is open, nothing is dragged and no
  move is pending; no category is selected twice; and a move that waits for confirmation
  never targets the subcategory's current parent.\<close>

theorem categories_page_edit_mode:
  fixes es :: "cat_event list"
  defines "p \<equiv> run cat_step cat_init es"
  shows "(cp_editMode p \<or> cp_selectedIds p = [] \<and> \<not> cp_batchMoveOpen p \<and> \<not> cp_batchDeleteOpen p \<and>
        cp_activeDragSub p = None \<and> cp_pendingDrag p = None) \<and>
     distinct (cp_selectedIds p) \<and>
     (case cp_pendingDrag p of None \<Rightarrow> True | Some d \<Rightarrow> pd_targetMasterId d \<noteq> pd_sourceParentId d)"
proof -
  have "cat_inv p" unfolding p_def by (rule categories_page.run_inv [OF cat_init_inv])
  then show ?thesis by (auto simp: cat_inv_def)
qed

text \<open>A drop asks for confirmation exactly when the page is in edit mode and a
  subcategory was dropped on another master of its own type; the confirmation then sends
  one \<^verbatim>\<open>PATCH\<close> that moves that subcategory to that master.\<close>

theorem drop_asks_for_valid_moves_only:
  assumes "cp_pendingDrag p = None"
  shows "(cp_pendingDrag (handleDragEnd a v p) \<noteq> None) =
       (cp_editMode p \<and> (\<exists>sub target. asSubcategoryData a = Some sub \<and> asMasterData v = Some target \<and>
          md_id target \<noteq> sd_parent sub \<and> md_type target = sd_type sub)) \<and>
     (case cp_pendingDrag (handleDragEnd a v p) of None \<Rightarrow> True | Some d \<Rightarrow>
       snd (handleConfirmDragMove_begin (handleDragEnd a v p)) =
         Some (mk_req PATCH (''/api/v1/categories/'' @ js_String (js_get a ''subcategoryId'') @ ''/move'')
            (JObj [(''target_parent_id'', js_get v ''masterId'')])))"
proof (cases "cp_editMode p")
  case False
  then show ?thesis using assms by (simp add: handleDragEnd_def Let_def)
next
  case True
  show ?thesis
  proof (cases "classifyDrop a v")
    case (DropValid sub target)
    note v = classifyDrop_valid [OF DropValid]
    have ids: "js_get a ''subcategoryId'' = JNum (sd_id sub)" "js_get v ''masterId'' = JNum (md_id target)"
      using v by (auto simp: asSubcategoryData_def asMasterData_def split: if_splits jsval.splits option.splits)
    show ?thesis
      using True DropValid v ids by (simp add: handleDragEnd_def Let_def handleConfirmDragMove_begin_def)
  qed (use assms True in \<open>auto simp: handleDragEnd_def Let_def classifyDrop_def js_is_nullish_def asMasterData_def
         js_truthy_def split: if_splits option.splits\<close>)
qed

theorem drop_asks_for_valid_moves_only_witness:
  "cp_pendingDrag (handleDragEnd JUndef JNull cat_init) = None"
proof -
  have "asMasterData JNull = None" by (simp add: asMasterData_def js_truthy_def)
  then show ?thesis
    using drop_asks_for_valid_moves_only [of cat_init JUndef JNull] by (simp add: cat_init_def)
qed

text \<open>After a batch delete that deleted some rows and failed on others, and a successful
  reload, the page keeps exactly the failed rows selected, as intended; but the dialog's
  reset effect, which runs when the reload replaces the category list, empties the list of
  failures, the chosen migration targets and the record of the last failures while the
  dialog stays open: no per-row reason of a failure is left for the user to see.\<close>

theorem partial_delete_loses_reasons:
  assumes "handleConfirm_delete be (selectedSubs (cp_selectedIds p) (cp_categories p)) b reqs = (b1, Some fs, reqs1)"
    and "fs \<noteq> []" and "cp_batchDeleteOpen p"
    and "page_delete_confirm be (Inr (Some cats)) p b reqs = (p2, b2, reqs2)"
  shows "bx_failures b1 = fs \<and> cp_batchDeleteOpen p2 \<and>
     cp_selectedIds p2 = filter (\<lambda>i. i \<in> fr_category_id ` set fs) (cp_selectedIds p) \<and>
     bx_failures b2 = [] \<and> bx_lastFailures b2 = None \<and> bx_migrationTargets b2 = Map.empty \<and>
     bx_pendingIds b2 = map ca_id (selectedSubs (cp_selectedIds p2) cats)"
proof -
  have "bx_failures b1 = fs"
    using assms(1,2) by (auto simp: handleConfirm_delete_def Let_def split: prod.splits if_splits)
  moreover have "p2 = (reload_end (Some cats) p)\<lparr>cp_selectedIds := filter (\<lambda>i. i \<in> fr_category_id ` set fs) (cp_selectedIds p)\<rparr>"
      "b2 = batch_delete_reset (selectedSubs (cp_selectedIds p2) (cp_categories p2)) b1"
    using assms by (auto simp: page_delete_confirm_def delete_onSuccess_def Let_def reload_end_def)
  ultimately show ?thesis using assms(3) by (simp add: reload_end_def batch_delete_reset_def)
qed

definition demo_page :: cat_page where
  "demo_page = cat_init\<lparr>cp_categories := demo_cats, cp_editMode := True, cp_selectedIds := [11, 12], cp_batchDeleteOpen := True\<rparr>"

theorem partial_delete_loses_reasons_witness:
  "\<exists>b1 fs p2 b2. fs \<noteq> [] \<and> bx_failures b1 = fs \<and> bx_failures b2 = [] \<and>
     fst (handleConfirm_delete (\<lambda>_ _. Inr JUndef) (selectedSubs (cp_selectedIds demo_page) (cp_categories demo_page)) demo_delete []) = b1 \<and>
     fst (snd (page_delete_confirm (\<lambda>_ _. Inr JUndef) (Inr (Some demo_cats)) demo_page demo_delete [])) = b2 \<and>
     fst (page_delete_confirm (\<lambda>_ _. Inr JUndef) (Inr (Some demo_cats)) demo_page demo_delete []) = p2"
proof -
  let ?be = "\<lambda>_ _. Inr JUndef :: js_error + jsval"
  obtain b1 told reqs1 where h: "handleConfirm_delete ?be (selectedSubs (cp_selectedIds demo_page) (cp_categories demo_page)) demo_delete []
      = (b1, told, reqs1)" by (metis prod_cases3)
  have "selectedSubs (cp_selectedIds demo_page) (cp_categories demo_page) = demo_subs"
    by (simp add: demo_page_def selectedSubs_def demo_cats_def demo_subs_def demo_cat_def)
  then have "told = Some [\<lparr>fr_category_id = 12, fr_category_name = ''c'',
      fr_reason = ''Pick a migration target for this subcategory.'', fr_reason_code = Some ''migration_target_required''\<rparr>]"
    using h by (simp add: handleConfirm_delete_def demo_delete_def demo_subs_def demo_cat_def rowsToShow_def
      batch_delete_reset_def target_picked_def Let_def)
  then obtain fs where fs: "told = Some fs" "fs \<noteq> []" by simp
  obtain p2 b2 reqs2 where pg: "page_delete_confirm ?be (Inr (Some demo_cats)) demo_page demo_delete [] = (p2, b2, reqs2)"
    by (metis prod_cases3)
  have op: "cp_batchDeleteOpen demo_page" by (simp add: demo_page_def)
  have "bx_failures b1 = fs \<and> bx_failures b2 = []"
    using partial_delete_loses_reasons [OF h [unfolded fs(1)] fs(2) op pg] by blast
  then show ?thesis using fs h pg by (intro exI [of _ b1] exI [of _ fs] exI [of _ p2] exI [of _ b2]) simp
qed

end
