(* ===== verification/Reconcile.thy ===== *)
theory Reconcile
  imports Api_Types Api_Fetch Schema_Fields
begin

section \<open>The reconciliation inbox (app/import/[import_id]/reconcile/ReconcileClient.tsx)\<close>

text \<open>
  The inbox's tables and handlers, and the checks that the backend makes of a transition
  (the schema of the request in \<^verbatim>\<open>schemas/import_reconciliation.py\<close>, and
  \<^verbatim>\<open>reconciliation_service.py\<close>: the transition table, the shape of the payload, the guards of
  the edit and of the match, the lookup of the match target), so that what the inbox sends can be
  compared with what the backend takes. A handler with an \<^verbatim>\<open>await\<close> is its part before the request and its
  part after the answer. The batch that SWR holds is the backend's and not changed here.
\<close>

subsection \<open>Tables\<close>

fun ALLOWED_NEXT :: "reconciliation_state \<Rightarrow> reconciliation_state list" where
  "ALLOWED_NEXT RPendingReview = [RAccepted, REdited, RMatched, RSkipped, RRejected]"
| "ALLOWED_NEXT RUnmatched = [RAccepted, REdited, RMatched, RSkipped, RRejected]"
| "ALLOWED_NEXT RMatched = [RAccepted]"
| "ALLOWED_NEXT REdited = [RAccepted]"
| "ALLOWED_NEXT RAccepted = [RPendingReview]"
| "ALLOWED_NEXT RRejected = []"
| "ALLOWED_NEXT RSkipped = []"

fun STATE_LABEL :: "reconciliation_state \<Rightarrow> string" where
  "STATE_LABEL RPendingReview = ''Pending review''"
| "STATE_LABEL RUnmatched = ''Unmatched''"
| "STATE_LABEL RMatched = ''Matched''"
| "STATE_LABEL REdited = ''Edited''"
| "STATE_LABEL RAccepted = ''Accepted''"
| "STATE_LABEL RRejected = ''Rejected''"
| "STATE_LABEL RSkipped = ''Skipped''"

fun ACTION_LABEL :: "reconciliation_state \<Rightarrow> string" where
  "ACTION_LABEL RPendingReview = ''Reopen''"
| "ACTION_LABEL RUnmatched = ''Mark unmatched''"
| "ACTION_LABEL RMatched = ''Match''"
| "ACTION_LABEL REdited = ''Edit''"
| "ACTION_LABEL RAccepted = ''Accept''"
| "ACTION_LABEL RRejected = ''Reject''"
| "ACTION_LABEL RSkipped = ''Skip''"

definition formatAmount :: "string \<Rightarrow> tx_type \<Rightarrow> string" where
  "formatAmount amount t = (if t = Income then ''+'' else ''-'') @ amount"

subsection \<open>State and transitions\<close>

record row_action =
  ra_busy :: bool
  ra_error :: "string option"

record inbox =
  rx_rowState :: "int \<rightharpoonup> row_action"
  rx_globalError :: "string option"
  rx_editModalRow :: "reconciliation_row option"
  rx_matchModalRow :: "reconciliation_row option"

definition inbox_init :: inbox where
  "inbox_init = \<lparr>rx_rowState = Map.empty, rx_globalError = None, rx_editModalRow = None, rx_matchModalRow = None\<rparr>"

definition row_busy :: "inbox \<Rightarrow> int \<Rightarrow> bool" where
  "row_busy b i = (case rx_rowState b i of Some r \<Rightarrow> ra_busy r | None \<Rightarrow> False)"

definition plain_transition :: "int \<Rightarrow> reconciliation_state \<Rightarrow> reconciliation_transition" where
  "plain_transition i to = \<lparr>rt_transaction_id = i, rt_to_state = to, rt_edits = None, rt_match_with_transaction_id = None\<rparr>"

definition applyTransition_begin :: "reconciliation_transition \<Rightarrow> inbox \<Rightarrow> inbox" where
  "applyTransition_begin t b =
     b\<lparr>rx_globalError := None,
       rx_rowState := (rx_rowState b)(rt_transaction_id t \<mapsto> \<lparr>ra_busy = True, ra_error = None\<rparr>)\<rparr>"

text \<open>The answer of the request followed by the revalidation: an error of either.\<close>

definition applyTransition_end :: "int \<Rightarrow> js_error option \<Rightarrow> inbox \<Rightarrow> inbox" where
  "applyTransition_end i failed b = (case failed of
      None \<Rightarrow> b\<lparr>rx_rowState := (rx_rowState b)(i \<mapsto> \<lparr>ra_busy = False, ra_error = None\<rparr>)\<rparr>
    | Some err \<Rightarrow>
        (let msg = extractErrorMessage err ''Action failed'' in
         b\<lparr>rx_rowState := (rx_rowState b)(i \<mapsto> \<lparr>ra_busy = False, ra_error = Some msg\<rparr>), rx_globalError := Some msg\<rparr>))"

definition batch_progress :: "import_batch_header option \<Rightarrow> int \<times> int" where
  "batch_progress batch = (case batch of
      None \<Rightarrow> (0, 0)
    | Some h \<Rightarrow> if ib_total_rows h = 0 then (0, 0) else (ib_total_rows h - ib_pending_count h, ib_total_rows h))"

text \<open>\<^verbatim>\<open>Math.round((done / total) * 100)\<close>\<close>

definition progress_width :: "int \<times> int \<Rightarrow> int" where
  "progress_width p = (if snd p = 0 then 0 else \<lfloor>(of_int (fst p) / of_int (snd p)) * 100 + (1 / 2 :: rat)\<rfloor>)"

definition onAction :: "reconciliation_row \<Rightarrow> reconciliation_state \<Rightarrow> inbox \<Rightarrow> inbox \<times> reconciliation_transition option" where
  "onAction row target b =
     (if target = REdited then (b\<lparr>rx_editModalRow := Some row\<rparr>, None)
      else if target = RMatched then (b\<lparr>rx_matchModalRow := Some row\<rparr>, None)
      else (let t = plain_transition (rr_transaction_id row) target in (applyTransition_begin t b, Some t)))"

subsection \<open>The two dialogs\<close>

definition edits_of :: "reconciliation_row \<Rightarrow> string \<Rightarrow> string \<Rightarrow> string \<Rightarrow> reconciliation_edits" where
  "edits_of row description amount date =
     \<lparr>re_description = (if description \<noteq> rr_description row then Some description else None),
      re_amount = (if amount \<noteq> rr_amount row then Some amount else None),
      re_date = (if date \<noteq> rr_date row then Some date else None),
      re_category_id = None\<rparr>"

definition no_edits :: reconciliation_edits where
  "no_edits = \<lparr>re_description = None, re_amount = None, re_date = None, re_category_id = None\<rparr>"

definition edit_submit :: "reconciliation_row \<Rightarrow> string \<Rightarrow> string \<Rightarrow> string \<Rightarrow> string + reconciliation_edits" where
  "edit_submit row description amount date =
     (let edits = edits_of row description amount date in
      if edits = no_edits then Inl ''Make a change before saving, or close this dialog.'' else Inr edits)"

definition match_submit :: "reconciliation_row \<Rightarrow> string \<Rightarrow> string + int" where
  "match_submit row matchId =
     (case js_Number matchId of
        None \<Rightarrow> Inl ''Enter a valid transaction ID to match against.''
      | Some q \<Rightarrow>
          if \<not> is_integer q \<or> q \<le> 0 then Inl ''Enter a valid transaction ID to match against.''
          else if q = of_int (rr_transaction_id row) then Inl ''Match target must differ from this transaction.''
          else Inr \<lfloor>q\<rfloor>)"

definition edit_onSave :: "reconciliation_edits \<Rightarrow> inbox \<Rightarrow> inbox \<times> reconciliation_transition option" where
  "edit_onSave edits b = (case rx_editModalRow b of
      None \<Rightarrow> (b, None)
    | Some row \<Rightarrow>
        (let t = (plain_transition (rr_transaction_id row) REdited)\<lparr>rt_edits := Some edits\<rparr>
         in (applyTransition_begin t (b\<lparr>rx_editModalRow := None\<rparr>), Some t)))"

definition match_onSave :: "int \<Rightarrow> inbox \<Rightarrow> inbox \<times> reconciliation_transition option" where
  "match_onSave matchId b = (case rx_matchModalRow b of
      None \<Rightarrow> (b, None)
    | Some row \<Rightarrow>
        (let t = (plain_transition (rr_transaction_id row) RMatched)\<lparr>rt_match_with_transaction_id := Some matchId\<rparr>
         in (applyTransition_begin t (b\<lparr>rx_matchModalRow := None\<rparr>), Some t)))"

subsection \<open>What the backend checks (backend/app/services/reconciliation_service.py)\<close>

text \<open>The errors of the service, and the answer 422 that a body gets which its schema refuses.\<close>

datatype domain_error = ValidationError string | ConflictError string | NotFoundError string | SchemaError

definition edits_schema :: "reconciliation_edits \<Rightarrow> bool" where
  "edits_schema e \<longleftrightarrow>
     (case re_description e of Some d \<Rightarrow> length d \<le> 255 | None \<Rightarrow> True)
   \<and> (case re_amount e of Some a \<Rightarrow> money_field a \<noteq> None | None \<Rightarrow> True)
   \<and> (case re_date e of Some d \<Rightarrow> date_field d \<noteq> None | None \<Rightarrow> True)
   \<and> (case re_category_id e of Some c \<Rightarrow> 0 < c | None \<Rightarrow> True)"

definition transition_schema :: "reconciliation_transition \<Rightarrow> bool" where
  "transition_schema t \<longleftrightarrow> 0 < rt_transaction_id t
   \<and> (case rt_edits t of Some e \<Rightarrow> edits_schema e | None \<Rightarrow> True)
   \<and> (case rt_match_with_transaction_id t of Some m \<Rightarrow> 0 < m | None \<Rightarrow> True)"

fun ALLOWED_TRANSITIONS :: "reconciliation_state \<Rightarrow> reconciliation_state set" where
  "ALLOWED_TRANSITIONS RPendingReview = {RMatched, REdited, RSkipped, RAccepted, RRejected}"
| "ALLOWED_TRANSITIONS RUnmatched = {RMatched, REdited, RSkipped, RAccepted, RRejected}"
| "ALLOWED_TRANSITIONS RMatched = {RAccepted}"
| "ALLOWED_TRANSITIONS REdited = {RAccepted}"
| "ALLOWED_TRANSITIONS RAccepted = {RPendingReview}"
| "ALLOWED_TRANSITIONS RSkipped = {}"
| "ALLOWED_TRANSITIONS RRejected = {}"

definition single_quoted :: "string \<Rightarrow> string" where "single_quoted s = [CHR 0x27] @ s @ [CHR 0x27]"

fun state_upper :: "reconciliation_state \<Rightarrow> string" where
  "state_upper RPendingReview = ''PENDING_REVIEW''"
| "state_upper RUnmatched = ''UNMATCHED''"
| "state_upper RMatched = ''MATCHED''"
| "state_upper REdited = ''EDITED''"
| "state_upper RAccepted = ''ACCEPTED''"
| "state_upper RRejected = ''REJECTED''"
| "state_upper RSkipped = ''SKIPPED''"

definition validate_payload_shape :: "reconciliation_transition \<Rightarrow> domain_error + unit" where
  "validate_payload_shape t =
     (let accepts_no = (\<lambda>what. Inl (ValidationError (state_upper (rt_to_state t) @ '' transition does not accept '' @ single_quoted what)));
          requires = (\<lambda>what. Inl (ValidationError (state_upper (rt_to_state t) @ '' transition requires '' @ single_quoted what)))
      in if rt_to_state t = REdited then
           (if rt_edits t = None then requires ''edits''
            else if rt_match_with_transaction_id t \<noteq> None then accepts_no ''match_with_transaction_id''
            else Inr ())
         else if rt_to_state t = RMatched then
           (if rt_match_with_transaction_id t = None then requires ''match_with_transaction_id''
            else if rt_edits t \<noteq> None then accepts_no ''edits''
            else Inr ())
         else
           (if rt_edits t \<noteq> None then accepts_no ''edits''
            else if rt_match_with_transaction_id t \<noteq> None then accepts_no ''match_with_transaction_id''
            else Inr ()))"

definition validate_transition :: "reconciliation_state \<Rightarrow> reconciliation_state \<Rightarrow> domain_error + unit" where
  "validate_transition src target =
     (if target \<notin> ALLOWED_TRANSITIONS src then Inl (ConflictError (''reconciliation transition not allowed: '' @ js_to_lower (state_upper src) @ '' -> '' @ js_to_lower (state_upper target))) else Inr ())"

text \<open>The guard that \<^verbatim>\<open>_apply_edits\<close> makes before it writes anything.\<close>

definition edit_guard :: "int option \<Rightarrow> reconciliation_transition \<Rightarrow> domain_error + unit" where
  "edit_guard linked t = (case rt_edits t of
      None \<Rightarrow> Inr ()
    | Some _ \<Rightarrow>
        if linked \<noteq> None then Inl (ValidationError
          ''Cannot edit a transfer leg from the reconciliation inbox; edit via the transactions page.'')
        else Inr ())"

text \<open>
  The guards of \<^verbatim>\<open>_apply_match\<close>, and the link it writes; \<open>exists\<close> says which transactions the
  organisation has.
\<close>

definition match_guard :: "(int \<Rightarrow> bool) \<Rightarrow> int \<Rightarrow> reconciliation_transition \<Rightarrow> domain_error + int" where
  "match_guard exists tx t = (case rt_match_with_transaction_id t of
      None \<Rightarrow> Inl (ValidationError (''MATCHED transition requires '' @ single_quoted ''match_with_transaction_id''))
    | Some m \<Rightarrow> if m = tx then Inl (ValidationError ''MATCHED target must differ from the transaction itself'')
        else if \<not> exists m then Inl (NotFoundError ''Match target transaction'') else Inr m)"

text \<open>
  \<^verbatim>\<open>_reconcile_one\<close> on the row it loads (found, and of the batch in the path, as every row of the
  inbox is). The balance and the counters are the ledger's and not fields of the row, and neither
  is the category, which the inbox never edits; an edited amount is kept as its text.
\<close>

definition reconcile_one :: "(int \<Rightarrow> bool) \<Rightarrow> reconciliation_row \<Rightarrow> reconciliation_transition \<Rightarrow> domain_error + reconciliation_row" where
  "reconcile_one exists row t =
     (case validate_payload_shape t of
        Inl e \<Rightarrow> Inl e
      | Inr _ \<Rightarrow>
          if rr_state row = rt_to_state t then Inr row
          else (case validate_transition (rr_state row) (rt_to_state t) of
                  Inl e \<Rightarrow> Inl e
                | Inr _ \<Rightarrow>
                    if rt_to_state t = REdited then
                      (case edit_guard (rr_linked_transaction_id row) t of
                         Inl e \<Rightarrow> Inl e
                       | Inr _ \<Rightarrow>
                           (case rt_edits t of
                              None \<Rightarrow> Inr (row\<lparr>rr_state := REdited\<rparr>)
                            | Some e \<Rightarrow> Inr (row\<lparr>
                                rr_description := (case re_description e of Some d \<Rightarrow> d | None \<Rightarrow> rr_description row),
                                rr_amount := (case re_amount e of Some a \<Rightarrow> a | None \<Rightarrow> rr_amount row),
                                rr_date := (case re_date e of Some d \<Rightarrow> d | None \<Rightarrow> rr_date row),
                                rr_state := REdited\<rparr>)))
                    else if rt_to_state t = RMatched then
                      (case match_guard exists (rr_transaction_id row) t of
                         Inl e \<Rightarrow> Inl e
                       | Inr m \<Rightarrow> Inr (row\<lparr>rr_linked_transaction_id := Some m, rr_state := RMatched\<rparr>))
                    else Inr (row\<lparr>rr_state := rt_to_state t\<rparr>)))"

text \<open>The endpoint, for one transition: the schema before the service.\<close>

definition reconcile_call :: "(int \<Rightarrow> bool) \<Rightarrow> reconciliation_row \<Rightarrow> reconciliation_transition \<Rightarrow> domain_error + reconciliation_row" where
  "reconcile_call exists row t = (if transition_schema t then reconcile_one exists row t else Inl SchemaError)"

subsection \<open>The inbox against the backend\<close>

text \<open>The transitions that the buttons and the dialogs of a row can send.\<close>

inductive inbox_sends :: "reconciliation_row \<Rightarrow> reconciliation_transition \<Rightarrow> bool" for row where
  plain: "target \<in> set (ALLOWED_NEXT (rr_state row)) \<Longrightarrow> onAction row target b = (b', Some t) \<Longrightarrow> inbox_sends row t"
| edit: "REdited \<in> set (ALLOWED_NEXT (rr_state row)) \<Longrightarrow> rx_editModalRow b = Some row \<Longrightarrow>
     edit_submit row description amount date = Inr edits \<Longrightarrow> edit_onSave edits b = (b', Some t) \<Longrightarrow> inbox_sends row t"
| match: "RMatched \<in> set (ALLOWED_NEXT (rr_state row)) \<Longrightarrow> rx_matchModalRow b = Some row \<Longrightarrow>
     match_submit row matchId = Inr m \<Longrightarrow> match_onSave m b = (b', Some t) \<Longrightarrow> inbox_sends row t"

lemma allowed_tables_agree: "set (ALLOWED_NEXT s) = ALLOWED_TRANSITIONS s"
  by (cases s) auto

lemma allowed_irrefl: "s \<notin> ALLOWED_TRANSITIONS s"
  by (cases s) auto

lemma match_submit_differs: "match_submit row matchId = Inr m \<Longrightarrow> m \<noteq> rr_transaction_id row \<and> 0 < m"
  by (auto simp: match_submit_def is_integer_def split: option.splits if_splits)

lemma plain_transition_simps [simp]:
  "rt_transaction_id (plain_transition i to) = i" "rt_to_state (plain_transition i to) = to"
  "rt_edits (plain_transition i to) = None" "rt_match_with_transaction_id (plain_transition i to) = None"
  by (simp_all add: plain_transition_def)

lemma validate_allowed: "to \<in> ALLOWED_TRANSITIONS s \<Longrightarrow> validate_transition s to = Inr ()"
  by (simp add: validate_transition_def)

text \<open>What the endpoint answers to a transition that the inbox sends for a row without a link.\<close>

definition recon_outcome :: "(int \<Rightarrow> bool) \<Rightarrow> reconciliation_row \<Rightarrow> reconciliation_transition \<Rightarrow> bool" where
  "recon_outcome exists row t = (case reconcile_call exists row t of
      Inr row' \<Rightarrow> rr_state row' = rt_to_state t \<and> rr_linked_transaction_id row' = rt_match_with_transaction_id t
        \<and> rr_transaction_id row' = rr_transaction_id row
        \<and> rr_description row' = (case Option.bind (rt_edits t) re_description of Some d \<Rightarrow> d | None \<Rightarrow> rr_description row)
        \<and> rr_amount row' = (case Option.bind (rt_edits t) re_amount of Some a \<Rightarrow> a | None \<Rightarrow> rr_amount row)
        \<and> rr_date row' = (case Option.bind (rt_edits t) re_date of Some d \<Rightarrow> d | None \<Rightarrow> rr_date row)
    | Inl SchemaError \<Rightarrow> (\<exists>e. rt_edits t = Some e \<and> \<not> edits_schema e)
    | Inl (NotFoundError w) \<Rightarrow> (\<exists>m. rt_match_with_transaction_id t = Some m \<and> \<not> exists m)
    | Inl _ \<Rightarrow> False)"

lemmas recon_defs = reconcile_call_def transition_schema_def reconcile_one_def validate_payload_shape_def
  validate_allowed edit_guard_def match_guard_def recon_outcome_def Let_def

lemma sent_outcome:
  assumes "inbox_sends row t" and "rr_linked_transaction_id row = None" and "0 < rr_transaction_id row"
  shows "rt_transaction_id t = rr_transaction_id row \<and> recon_outcome exists row t"
  using assms(1)
proof cases
  case (plain target b b')
  then have t: "t = plain_transition (rr_transaction_id row) target" "target \<noteq> REdited" "target \<noteq> RMatched"
    by (auto simp: onAction_def Let_def split: if_splits)
  moreover have "target \<in> ALLOWED_TRANSITIONS (rr_state row)" using plain(1) by (simp add: allowed_tables_agree)
  ultimately show ?thesis
    using allowed_irrefl [of "rr_state row"] assms(2,3) by (auto simp: recon_defs)
next
  case (edit b description amount date edits b')
  then have t: "t = (plain_transition (rr_transaction_id row) REdited)\<lparr>rt_edits := Some edits\<rparr>"
    by (simp add: edit_onSave_def Let_def)
  moreover have "REdited \<in> ALLOWED_TRANSITIONS (rr_state row)" using edit(1) by (simp add: allowed_tables_agree)
  ultimately show ?thesis
    using allowed_irrefl [of "rr_state row"] assms(2,3) by (auto simp: recon_defs)
next
  case (match b matchId m b')
  then have t: "t = (plain_transition (rr_transaction_id row) RMatched)\<lparr>rt_match_with_transaction_id := Some m\<rparr>"
    by (simp add: match_onSave_def Let_def)
  moreover have "RMatched \<in> ALLOWED_TRANSITIONS (rr_state row)" using match(1) by (simp add: allowed_tables_agree)
  ultimately show ?thesis
    using allowed_irrefl [of "rr_state row"] match_submit_differs [OF match(3)] assms(2,3) by (auto simp: recon_defs)
qed

definition demo_recon_row :: "reconciliation_state \<Rightarrow> int option \<Rightarrow> reconciliation_row" where
  "demo_recon_row s l = \<lparr>rr_transaction_id = 7, rr_date = ''2026-05-01'', rr_description = ''shop'', rr_amount = ''10.00'',
     rr_type = Expense, rr_state = s, rr_fitid = None, rr_linked_transaction_id = l,
     rr_duplicate_warning = False, rr_duplicate_warning_target = None\<rparr>"


definition demo_recon_edit :: "string \<Rightarrow> reconciliation_transition" where
  "demo_recon_edit a = (plain_transition 7 REdited)\<lparr>rt_edits := Some (no_edits\<lparr>re_amount := Some a\<rparr>)\<rparr>"

lemma demo_recon_edit_sent:
  assumes "a \<noteq> ''10.00''"
  shows "inbox_sends (demo_recon_row RPendingReview None) (demo_recon_edit a)"
proof (rule inbox_sends.edit)
  let ?row = "demo_recon_row RPendingReview None" let ?b = "inbox_init\<lparr>rx_editModalRow := Some ?row\<rparr>"
  show "edit_submit ?row ''shop'' a ''2026-05-01'' = Inr (no_edits\<lparr>re_amount := Some a\<rparr>)"
    using assms by (simp add: edit_submit_def edits_of_def no_edits_def demo_recon_row_def)
  show "edit_onSave (no_edits\<lparr>re_amount := Some a\<rparr>) ?b
    = (applyTransition_begin (demo_recon_edit a) (?b\<lparr>rx_editModalRow := None\<rparr>), Some (demo_recon_edit a))"
    by (simp add: edit_onSave_def demo_recon_edit_def demo_recon_row_def Let_def)
qed (simp_all add: demo_recon_row_def)


text \<open>A row that was matched, accepted and reopened from the inbox keeps its link, and the
  inbox still offers "Edit" for it; every edit is then refused by the backend with a
  validation error. The inbox does offer an action that the backend never accepts: it
  looks at the row's state only, not at its link.\<close>

theorem reopened_match_cannot_be_edited:
  assumes "rr_state row = RPendingReview" and "exists m" and "m \<noteq> rr_transaction_id row"
    and "t1 = (plain_transition (rr_transaction_id row) RMatched)\<lparr>rt_match_with_transaction_id := Some m\<rparr>"
  shows "\<exists>r1 r2 r3. reconcile_one exists row t1 = Inr r1 \<and>
     reconcile_one exists r1 (plain_transition (rr_transaction_id row) RAccepted) = Inr r2 \<and>
     reconcile_one exists r2 (plain_transition (rr_transaction_id row) RPendingReview) = Inr r3 \<and>
     REdited \<in> set (ALLOWED_NEXT (rr_state r3)) \<and>
     (\<forall>edits b. rx_editModalRow b = Some r3 \<longrightarrow>
        (\<exists>b' t. edit_onSave edits b = (b', Some t) \<and> (\<exists>msg. reconcile_one exists r3 t = Inl (ValidationError msg))))"
proof -
  let ?r1 = "row\<lparr>rr_linked_transaction_id := Some m, rr_state := RMatched\<rparr>"
  let ?r2 = "row\<lparr>rr_linked_transaction_id := Some m, rr_state := RAccepted\<rparr>"
  let ?r3 = "row\<lparr>rr_linked_transaction_id := Some m, rr_state := RPendingReview\<rparr>"
  have 1: "reconcile_one exists row t1 = Inr ?r1"
    using assms by (simp add: reconcile_one_def validate_payload_shape_def Let_def validate_transition_def match_guard_def)
  have 2: "reconcile_one exists ?r1 (plain_transition (rr_transaction_id row) RAccepted) = Inr ?r2"
    by (simp add: reconcile_one_def validate_payload_shape_def Let_def validate_transition_def)
  have 3: "reconcile_one exists ?r2 (plain_transition (rr_transaction_id row) RPendingReview) = Inr ?r3"
    by (simp add: reconcile_one_def validate_payload_shape_def Let_def validate_transition_def)
  have 4: "\<exists>b' t. edit_onSave edits b = (b', Some t) \<and> (\<exists>msg. reconcile_one exists ?r3 t = Inl (ValidationError msg))"
    if "rx_editModalRow b = Some ?r3" for edits b
    using that by (simp add: edit_onSave_def Let_def reconcile_one_def validate_payload_shape_def Let_def
      validate_transition_def edit_guard_def)
  show ?thesis by (intro exI conjI) (rule 1, rule 2, rule 3, simp, use 4 in blast)
qed

theorem reopened_match_cannot_be_edited_witness:
  "\<exists>r1. reconcile_one (\<lambda>_. True) (demo_recon_row RPendingReview None)
      ((plain_transition 7 RMatched)\<lparr>rt_match_with_transaction_id := Some 9\<rparr>) = Inr r1"
proof -
  have "rr_transaction_id (demo_recon_row RPendingReview None) = 7" "rr_state (demo_recon_row RPendingReview None) = RPendingReview"
    by (simp_all add: demo_recon_row_def)
  then show ?thesis
    using reopened_match_cannot_be_edited [of "demo_recon_row RPendingReview None" "\<lambda>_. True" 9, OF _ _ _ refl] by force
qed

end
