(* ===== verification/Batch_Entry.thy ===== *)
theory Batch_Entry
  imports Api_Types Api_Fetch Js_Number
begin

section \<open>Manual batch entry (app/transactions/batch/page.tsx)\<close>

text \<open>
  The grid of draft rows, its validation, the request and the outcome splatted back on the
  rows. Row keys are UUIDs: the platform draws them and they are parameters. \<^verbatim>\<open>handleSubmit\<close>
  is two steps, so edits may come while the request is under way; the rows it reads at the
  start stay captured (\<open>bg_inflight\<close>), as the closure captures them. \<^verbatim>\<open>""\<close> in a select is
  \<open>None\<close>.
\<close>

subsection \<open>Rows\<close>

definition MAX_ROWS :: nat where "MAX_ROWS = 500"
definition DEFAULT_ROW_COUNT :: nat where "DEFAULT_ROW_COUNT = 5"

datatype draft_status = DraftIdle | DraftOk | DraftError

record draft_row =
  dr_key :: string
  dr_date :: string
  dr_description :: string
  dr_amount :: string
  dr_type :: tx_type
  dr_account_id :: "int option"
  dr_category_id :: "int option"
  dr_tx_status :: tx_status
  dr_status :: draft_status
  dr_errorMessage :: "string option"

definition blankRow :: "string \<Rightarrow> string \<Rightarrow> draft_row" where
  "blankRow today key = \<lparr>dr_key = key, dr_date = today, dr_description = [], dr_amount = [], dr_type = Expense,
     dr_account_id = None, dr_category_id = None, dr_tx_status = TxSettled, dr_status = DraftIdle,
     dr_errorMessage = None\<rparr>"

definition rowIsBlank :: "draft_row \<Rightarrow> bool" where
  "rowIsBlank row \<longleftrightarrow> js_trim (dr_description row) = [] \<and> js_trim (dr_amount row) = []
     \<and> dr_account_id row = None \<and> dr_category_id row = None"

definition rowIsValid :: "draft_row \<Rightarrow> bool" where
  "rowIsValid row =
     (if dr_date row = [] then False
      else if js_trim (dr_description row) = [] then False
      else if js_trim (dr_amount row) = [] then False
      else (case js_Number (dr_amount row) of
              None \<Rightarrow> False
            | Some amt \<Rightarrow> if amt \<le> 0 then False
                else if dr_account_id row = None then False
                else if dr_category_id row = None then False
                else True))"

subsection \<open>State\<close>

record batch_page =
  bg_rows :: "draft_row list"
  bg_submitting :: bool
  bg_topError :: string
  bg_summary :: "(int \<times> int) option"
  bg_inflight :: "string list option"

definition batch_page_init :: "string \<Rightarrow> string list \<Rightarrow> batch_page" where
  "batch_page_init today keys = \<lparr>bg_rows = map (blankRow today) keys, bg_submitting = False, bg_topError = [],
     bg_summary = None, bg_inflight = None\<rparr>"

definition populatedRows :: "batch_page \<Rightarrow> draft_row list" where
  "populatedRows p = filter (\<lambda>r. \<not> rowIsBlank r) (bg_rows p)"

definition submitEnabled :: "batch_page \<Rightarrow> bool" where
  "submitEnabled p =
     (if bg_submitting p then False
      else if populatedRows p = [] then False
      else list_all rowIsValid (populatedRows p))"

subsection \<open>Edits\<close>

datatype row_patch =
    PDate string | PDescription string | PAmount string | PType tx_type | PAccount "int option"
  | PCategory "int option" | PTxStatus tx_status | PSuggestion string int

fun apply_patch :: "row_patch \<Rightarrow> draft_row \<Rightarrow> draft_row" where
  "apply_patch (PDate d) r = r\<lparr>dr_date := d\<rparr>"
| "apply_patch (PDescription d) r = r\<lparr>dr_description := d\<rparr>"
| "apply_patch (PAmount a) r = r\<lparr>dr_amount := a\<rparr>"
| "apply_patch (PType t) r = r\<lparr>dr_type := t, dr_category_id := None\<rparr>"
| "apply_patch (PAccount a) r = r\<lparr>dr_account_id := a\<rparr>"
| "apply_patch (PCategory c) r = r\<lparr>dr_category_id := c\<rparr>"
| "apply_patch (PTxStatus s) r = r\<lparr>dr_tx_status := s\<rparr>"
| "apply_patch (PSuggestion d c) r =
     (if dr_category_id r = None then r\<lparr>dr_description := d, dr_category_id := Some c\<rparr> else r)"

text \<open>Only a patch that \<^verbatim>\<open>updateRow\<close> is called with resets the status of the row.\<close>

definition patch_applies :: "row_patch \<Rightarrow> draft_row \<Rightarrow> bool" where
  "patch_applies pt r = (case pt of PSuggestion _ _ \<Rightarrow> dr_category_id r = None | _ \<Rightarrow> True)"

definition updateDraft :: "nat \<Rightarrow> row_patch \<Rightarrow> batch_page \<Rightarrow> batch_page" where
  "updateDraft idx pt p =
     (if idx < length (bg_rows p) \<and> patch_applies pt (bg_rows p ! idx) then
        p\<lparr>bg_rows := (bg_rows p)[idx := (apply_patch pt (bg_rows p ! idx))
            \<lparr>dr_status := DraftIdle, dr_errorMessage := None\<rparr>]\<rparr>
      else p)"

definition addRow :: "string \<Rightarrow> string \<Rightarrow> batch_page \<Rightarrow> batch_page" where
  "addRow today key p =
     (if length (bg_rows p) \<ge> MAX_ROWS then p else p\<lparr>bg_rows := bg_rows p @ [blankRow today key]\<rparr>)"

definition removeRow :: "nat \<Rightarrow> batch_page \<Rightarrow> batch_page" where
  "removeRow idx p =
     (if length (bg_rows p) \<le> 1 then p
      else p\<lparr>bg_rows := take idx (bg_rows p) @ drop (Suc idx) (bg_rows p)\<rparr>)"

definition handleRowKeyDown :: "string \<Rightarrow> string \<Rightarrow> string \<Rightarrow> nat \<Rightarrow> bool \<Rightarrow> batch_page \<Rightarrow> batch_page" where
  "handleRowKeyDown today key pressed idx isLastCell p =
     (if pressed = ''Enter'' \<and> isLastCell \<and> idx + 1 = length (bg_rows p) then addRow today key p else p)"

subsection \<open>Submit\<close>

definition batch_input :: "nat \<Rightarrow> draft_row \<Rightarrow> batch_row_input" where
  "batch_input n row = \<lparr>bi_row_number = int n, bi_transaction =
     \<lparr>bt_account_id = (case dr_account_id row of Some a \<Rightarrow> a | None \<Rightarrow> 0),
      bt_category_id = (case dr_category_id row of Some c \<Rightarrow> c | None \<Rightarrow> 0),
      bt_description = js_trim (dr_description row), bt_amount = dr_amount row, bt_type = dr_type row,
      bt_date = dr_date row, bt_status = Some (dr_tx_status row), bt_settled_date = None\<rparr>\<rparr>"

definition batch_payload :: "batch_page \<Rightarrow> batch_row_input list" where
  "batch_payload p = map2 batch_input [1..<Suc (length (populatedRows p))] (populatedRows p)"

definition batch_submit :: "batch_page \<Rightarrow> batch_page \<times> batch_row_input list option" where
  "batch_submit p =
     (let p1 = p\<lparr>bg_topError := [], bg_summary := None\<rparr> in
      if populatedRows p = [] then (p1, None)
      else (p1\<lparr>bg_submitting := True, bg_inflight := Some (map dr_key (populatedRows p))\<rparr>, Some (batch_payload p)))"

text \<open>\<^verbatim>\<open>findIndex\<close> by key, then the update of that row.\<close>

fun on_row :: "string \<Rightarrow> (draft_row \<Rightarrow> draft_row) \<Rightarrow> draft_row list \<Rightarrow> draft_row list" where
  "on_row key f [] = []"
| "on_row key f (r # rs) = (if dr_key r = key then f r # rs else r # on_row key f rs)"

definition errMap :: "batch_row_error list \<Rightarrow> int \<rightharpoonup> string" where
  "errMap errs = foldl (\<lambda>m e. m(be_row_number e \<mapsto> be_error e)) Map.empty errs"

definition splat_row :: "batch_response \<Rightarrow> int \<Rightarrow> draft_row \<Rightarrow> draft_row" where
  "splat_row resp n r =
     (if n \<in> br_row_number ` set (bp_results resp) then r\<lparr>dr_status := DraftOk, dr_errorMessage := None\<rparr>
      else (case errMap (bp_errors resp) n of
              Some e \<Rightarrow> r\<lparr>dr_status := DraftError, dr_errorMessage := Some e\<rparr>
            | None \<Rightarrow> r))"

fun splat :: "batch_response \<Rightarrow> nat \<Rightarrow> string list \<Rightarrow> draft_row list \<Rightarrow> draft_row list" where
  "splat resp n [] rows = rows"
| "splat resp n (key # keys) rows = splat resp (Suc n) keys (on_row key (splat_row resp (int n)) rows)"

definition batch_answer :: "js_error + batch_response \<Rightarrow> batch_page \<Rightarrow> batch_page" where
  "batch_answer ans p = (case bg_inflight p of
      None \<Rightarrow> p
    | Some keys \<Rightarrow>
        (case ans of
           Inr resp \<Rightarrow> p\<lparr>bg_rows := splat resp 1 keys (bg_rows p),
             bg_summary := Some (bp_imported_count resp, bp_error_count resp), bg_submitting := False, bg_inflight := None\<rparr>
         | Inl err \<Rightarrow> p\<lparr>bg_topError := extractErrorMessage err ''Batch submit failed'', bg_submitting := False, bg_inflight := None\<rparr>))"

definition resetForm :: "string \<Rightarrow> string list \<Rightarrow> batch_page \<Rightarrow> batch_page" where
  "resetForm today keys p = p\<lparr>bg_rows := map (blankRow today) keys, bg_summary := None, bg_topError := []\<rparr>"

subsection \<open>The page as a state machine\<close>

text \<open>
  Fresh keys are fresh (they are UUIDs): an event that would repeat a key does not occur.
  The button is clickable while \<open>submitEnabled\<close>.
\<close>

datatype batch_event =
    BgUpdate nat row_patch | BgAdd string string | BgRemove nat | BgKey string string string nat bool
  | BgSubmit | BgAnswer "js_error + batch_response" | BgReset string "string list"

definition fresh_key :: "string \<Rightarrow> batch_page \<Rightarrow> bool" where
  "fresh_key key p \<longleftrightarrow> key \<notin> dr_key ` set (bg_rows p)"

fun batch_step :: "batch_page \<Rightarrow> batch_event \<Rightarrow> batch_page" where
  "batch_step p (BgUpdate idx pt) = updateDraft idx pt p"
| "batch_step p (BgAdd today key) = (if fresh_key key p then addRow today key p else p)"
| "batch_step p (BgRemove idx) = removeRow idx p"
| "batch_step p (BgKey today key pressed idx isLast) =
     (if fresh_key key p then handleRowKeyDown today key pressed idx isLast p else p)"
| "batch_step p BgSubmit = (if submitEnabled p then fst (batch_submit p) else p)"
| "batch_step p (BgAnswer ans) = batch_answer ans p"
| "batch_step p (BgReset today keys) =
     (if distinct keys \<and> length keys = DEFAULT_ROW_COUNT then resetForm today keys p else p)"

definition batch_inv :: "batch_page \<Rightarrow> bool" where
  "batch_inv p \<longleftrightarrow> 1 \<le> length (bg_rows p) \<and> length (bg_rows p) \<le> MAX_ROWS \<and> distinct (map dr_key (bg_rows p))
     \<and> (bg_submitting p \<longleftrightarrow> bg_inflight p \<noteq> None)"

lemma apply_patch_key [simp]: "dr_key (apply_patch pt r) = dr_key r"
  by (cases pt) auto

lemma on_row_keys: "(\<And>r. dr_key (f r) = dr_key r) \<Longrightarrow> map dr_key (on_row key f rows) = map dr_key rows"
  by (induction rows) auto

lemma splat_row_key [simp]: "dr_key (splat_row resp n r) = dr_key r"
  by (simp add: splat_row_def split: option.splits)

lemma splat_keys: "map dr_key (splat resp n keys rows) = map dr_key rows"
  by (induction resp n keys rows rule: splat.induct) (simp_all add: on_row_keys)

lemma addRow_inv: "batch_inv p \<Longrightarrow> fresh_key key p \<Longrightarrow> batch_inv (addRow today key p)"
  by (auto simp: batch_inv_def addRow_def fresh_key_def blankRow_def)

lemma removeRow_inv:
  assumes "batch_inv p"
  shows "batch_inv (removeRow idx p)"
proof (cases "length (bg_rows p) \<le> 1 \<or> idx \<ge> length (bg_rows p)")
  case True
  then show ?thesis using assms by (auto simp: removeRow_def)
next
  case False
  let ?ks = "map dr_key (bg_rows p)"
  have "set (take idx ?ks) \<inter> set (drop (Suc idx) ?ks) = {}"
    using assms by (intro set_take_disj_set_drop_if_distinct) (auto simp: batch_inv_def)
  moreover have "distinct (take idx ?ks)" "distinct (drop (Suc idx) ?ks)"
    using assms by (simp_all add: batch_inv_def)
  ultimately show ?thesis
    using assms False by (auto simp: batch_inv_def removeRow_def take_map drop_map simp del: distinct_map)
qed

lemma updateDraft_inv: "batch_inv p \<Longrightarrow> batch_inv (updateDraft idx pt p)"
proof -
  assume i: "batch_inv p"
  have "map dr_key ((bg_rows p)[idx := (apply_patch pt (bg_rows p ! idx))\<lparr>dr_status := DraftIdle, dr_errorMessage := None\<rparr>])
      = map dr_key (bg_rows p)" if "idx < length (bg_rows p)"
    using that by (simp add: map_update list_update_same_conv)
  then show ?thesis using i by (auto simp: batch_inv_def updateDraft_def simp del: distinct_map)
qed

lemma batch_answer_inv: "batch_inv p \<Longrightarrow> batch_inv (batch_answer ans p)"
proof -
  assume i: "batch_inv p"
  have "length (splat resp n keys rows) = length rows" for resp n keys rows
    using splat_keys [of resp n keys rows] by (metis length_map)
  then show ?thesis
    using i by (auto simp: batch_inv_def batch_answer_def splat_keys simp del: distinct_map split: option.splits sum.splits)
qed

lemma resetForm_inv:
  "batch_inv p \<Longrightarrow> distinct keys \<Longrightarrow> length keys = DEFAULT_ROW_COUNT \<Longrightarrow> batch_inv (resetForm today keys p)"
  by (simp add: batch_inv_def resetForm_def blankRow_def comp_def DEFAULT_ROW_COUNT_def MAX_ROWS_def)

lemma batch_submit_inv: "batch_inv p \<Longrightarrow> batch_inv (fst (batch_submit p))"
  by (auto simp: batch_inv_def batch_submit_def Let_def)

lemma batch_step_inv: "batch_inv p \<Longrightarrow> batch_inv (batch_step p e)"
  by (cases e) (simp_all add: updateDraft_inv batch_answer_inv resetForm_inv batch_submit_inv addRow_inv removeRow_inv
      handleRowKeyDown_def)

interpretation batch_entry: step_machine batch_step batch_inv
  by unfold_locales (rule batch_step_inv)

subsection \<open>What is sent, and where the outcome lands\<close>

lemma on_row_distinct:
  "distinct (map dr_key rows) \<Longrightarrow> on_row key f rows = map (\<lambda>r. if dr_key r = key then f r else r) rows"
proof (induction rows)
  case (Cons r rows)
  have "map (\<lambda>r. if dr_key r = key then f r else r) rows = rows" if "dr_key r = key"
  proof (rule map_idI)
    fix x assume "x \<in> set rows"
    then have "dr_key x \<noteq> key" using Cons.prems that by (auto simp: image_iff)
    then show "(if dr_key x = key then f x else x) = x" by simp
  qed
  then show ?case using Cons by auto
qed simp

fun sent_number :: "nat \<Rightarrow> string list \<Rightarrow> string \<Rightarrow> nat option" where
  "sent_number n [] key = None"
| "sent_number n (k # keys) key = (if key = k then Some n else sent_number (Suc n) keys key)"

lemma sent_number_None: "sent_number n keys key = None \<longleftrightarrow> key \<notin> set keys"
  by (induction keys arbitrary: n) auto

lemma sent_number_nth:
  "distinct keys \<Longrightarrow> i < length keys \<Longrightarrow> sent_number n keys (keys ! i) = Some (n + i)"
  by (induction keys arbitrary: n i) (auto simp: nth_Cons split: nat.splits)

lemma splat_map:
  "distinct (map dr_key rows) \<Longrightarrow> distinct keys \<Longrightarrow>
     splat resp n keys rows = map (\<lambda>r. case sent_number n keys (dr_key r) of
         Some m \<Rightarrow> splat_row resp (int m) r | None \<Rightarrow> r) rows"
proof (induction keys arbitrary: n rows)
  case Nil
  then show ?case by simp
next
  case (Cons k keys)
  let ?rows = "map (\<lambda>r. if dr_key r = k then splat_row resp (int n) r else r) rows"
  have ks: "map dr_key ?rows = map dr_key rows" by simp
  have "splat resp n (k # keys) rows = splat resp (Suc n) keys ?rows"
    using Cons.prems(1) by (simp add: on_row_distinct)
  also have "\<dots> = map (\<lambda>r. case sent_number (Suc n) keys (dr_key r) of
         Some m \<Rightarrow> splat_row resp (int m) r | None \<Rightarrow> r) ?rows"
    using Cons.prems ks by (intro Cons.IH) (simp_all del: map_map)
  also have "\<dots> = map (\<lambda>r. case sent_number n (k # keys) (dr_key r) of
         Some m \<Rightarrow> splat_row resp (int m) r | None \<Rightarrow> r) rows"
    using Cons.prems(2) sent_number_None [of "Suc n" keys k] by auto
  finally show ?case .
qed

lemma splat_row_fields:
  "dr_date (splat_row resp n r) = dr_date r" "dr_description (splat_row resp n r) = dr_description r"
  "dr_amount (splat_row resp n r) = dr_amount r" "dr_type (splat_row resp n r) = dr_type r"
  "dr_account_id (splat_row resp n r) = dr_account_id r" "dr_category_id (splat_row resp n r) = dr_category_id r"
  "dr_tx_status (splat_row resp n r) = dr_tx_status r"
  by (simp_all add: splat_row_def split: option.splits)

lemma splat_row_same:
  "rowIsBlank (splat_row resp n r) = rowIsBlank r" "rowIsValid (splat_row resp n r) = rowIsValid r"
  "batch_input m (splat_row resp n r) = batch_input m r"
  by (simp_all only: rowIsBlank_def rowIsValid_def batch_input_def splat_row_fields)

lemma populated_keys:
  assumes "batch_inv p" and "r \<in> set (bg_rows p)"
  shows "dr_key r \<in> set (map dr_key (populatedRows p)) \<longleftrightarrow> \<not> rowIsBlank r"
proof -
  have "distinct (map dr_key (bg_rows p))" using assms(1) by (simp only: batch_inv_def)
  then have inj: "inj_on dr_key (set (bg_rows p))" by (simp only: distinct_map)
  have "set (populatedRows p) \<subseteq> set (bg_rows p)" by (auto simp: populatedRows_def)
  then have "dr_key r \<in> dr_key ` set (populatedRows p) \<longleftrightarrow> r \<in> set (populatedRows p)"
    by (rule inj_on_image_mem_iff [OF inj assms(2)])
  moreover have "r \<in> set (populatedRows p) \<longleftrightarrow> \<not> rowIsBlank r"
    using assms(2) by (simp add: populatedRows_def)
  ultimately show ?thesis by (simp only: set_map)
qed

lemma answered_rows:
  assumes "batch_inv p" and "batch_submit p = (p1, Some req)"
  shows "bg_rows (batch_answer (Inr resp) p1) =
     map (\<lambda>r. if rowIsBlank r then r
          else splat_row resp (int (the (sent_number 1 (map dr_key (populatedRows p)) (dr_key r)))) r) (bg_rows p)"
proof -
  let ?keys = "map dr_key (populatedRows p)"
  have p1: "bg_rows p1 = bg_rows p" "bg_inflight p1 = Some ?keys"
    using assms(2) by (auto simp: batch_submit_def Let_def split: if_splits)
  have d: "distinct (map dr_key (bg_rows p))" "distinct ?keys"
    using assms(1) by (auto simp: batch_inv_def populatedRows_def distinct_map_filter)
  have "bg_rows (batch_answer (Inr resp) p1) = splat resp 1 ?keys (bg_rows p)"
    using p1 by (simp add: batch_answer_def)
  also have "\<dots> = map (\<lambda>r. case sent_number 1 ?keys (dr_key r) of Some m \<Rightarrow> splat_row resp (int m) r | None \<Rightarrow> r) (bg_rows p)"
    by (rule splat_map [OF d])
  also have "\<dots> = map (\<lambda>r. if rowIsBlank r then r
          else splat_row resp (int (the (sent_number 1 ?keys (dr_key r)))) r) (bg_rows p)"
  proof (rule map_cong [OF refl])
    fix r assume "r \<in> set (bg_rows p)"
    then show "(case sent_number 1 ?keys (dr_key r) of Some m \<Rightarrow> splat_row resp (int m) r | None \<Rightarrow> r)
      = (if rowIsBlank r then r else splat_row resp (int (the (sent_number 1 ?keys (dr_key r)))) r)"
      using populated_keys [OF assms(1)] sent_number_None [of 1 ?keys "dr_key r"]
      by (cases "sent_number 1 ?keys (dr_key r)") auto
  qed
  finally show ?thesis .
qed

text \<open>C21: The submit button sends exactly the filled rows of the grid, in order and numbered
  from 1 (so no number is repeated), between one and 500 of them, each complete: a date, a
  trimmed description, a positive amount, an account and a category; rows the user left
  blank are not sent.\<close>

theorem batch_request_faithful:
  assumes "batch_inv p" and "submitEnabled p"
  shows "\<exists>p1. batch_submit p = (p1, Some (batch_payload p)) \<and> bg_submitting p1 \<and>
     map bi_row_number (batch_payload p) = map int [1..<Suc (length (filter (\<lambda>r. \<not> rowIsBlank r) (bg_rows p)))] \<and>
     1 \<le> length (batch_payload p) \<and> length (batch_payload p) \<le> 500 \<and>
     list_all2 (\<lambda>r b. bt_date b = dr_date r \<and> bt_date b \<noteq> [] \<and> bt_description b = js_trim (dr_description r) \<and>
         bt_description b \<noteq> [] \<and> bt_amount b = dr_amount r \<and> (\<exists>q. js_Number (bt_amount b) = Some q \<and> 0 < q) \<and>
         bt_type b = dr_type r \<and> dr_account_id r = Some (bt_account_id b) \<and> dr_category_id r = Some (bt_category_id b))
       (filter (\<lambda>r. \<not> rowIsBlank r) (bg_rows p)) (map bi_transaction (batch_payload p))"
proof -
  let ?pop = "populatedRows p"
  have pop: "filter (\<lambda>r. \<not> rowIsBlank r) (bg_rows p) = ?pop" by (simp add: populatedRows_def)
  have ne: "?pop \<noteq> []" and val: "\<And>r. r \<in> set ?pop \<Longrightarrow> rowIsValid r"
    using assms(2) by (auto simp: submitEnabled_def list_all_iff split: if_splits)
  have len: "length (batch_payload p) = length ?pop" by (simp add: batch_payload_def del: upt_Suc)
  have "length ?pop \<le> length (bg_rows p)" by (simp add: populatedRows_def)
  then have l500: "length ?pop \<le> 500" using assms(1) by (simp add: batch_inv_def MAX_ROWS_def)
  have nth: "bi_row_number (batch_payload p ! i) = int (Suc i) \<and> bi_transaction (batch_payload p ! i) = bi_transaction (batch_input (Suc i) (?pop ! i))"
    if "i < length ?pop" for i
    using that by (simp add: batch_payload_def batch_input_def del: upt_Suc)
  have nums: "map bi_row_number (batch_payload p) = map int [1..<Suc (length ?pop)]"
    by (rule nth_equalityI) (simp_all add: len nth del: upt_Suc)
  have rows: "list_all2 (\<lambda>r b. bt_date b = dr_date r \<and> bt_date b \<noteq> [] \<and> bt_description b = js_trim (dr_description r) \<and>
         bt_description b \<noteq> [] \<and> bt_amount b = dr_amount r \<and> (\<exists>q. js_Number (bt_amount b) = Some q \<and> 0 < q) \<and>
         bt_type b = dr_type r \<and> dr_account_id r = Some (bt_account_id b) \<and> dr_category_id r = Some (bt_category_id b))
       ?pop (map bi_transaction (batch_payload p))"
  proof (rule list_all2_all_nthI)
    fix i assume i: "i < length ?pop"
    then have "rowIsValid (?pop ! i)" using val by simp
    then show "bt_date (map bi_transaction (batch_payload p) ! i) = dr_date (?pop ! i) \<and>
        bt_date (map bi_transaction (batch_payload p) ! i) \<noteq> [] \<and>
        bt_description (map bi_transaction (batch_payload p) ! i) = js_trim (dr_description (?pop ! i)) \<and>
        bt_description (map bi_transaction (batch_payload p) ! i) \<noteq> [] \<and>
        bt_amount (map bi_transaction (batch_payload p) ! i) = dr_amount (?pop ! i) \<and>
        (\<exists>q. js_Number (bt_amount (map bi_transaction (batch_payload p) ! i)) = Some q \<and> 0 < q) \<and>
        bt_type (map bi_transaction (batch_payload p) ! i) = dr_type (?pop ! i) \<and>
        dr_account_id (?pop ! i) = Some (bt_account_id (map bi_transaction (batch_payload p) ! i)) \<and>
        dr_category_id (?pop ! i) = Some (bt_category_id (map bi_transaction (batch_payload p) ! i))"
      using nth [OF i] i len by (auto simp: batch_input_def rowIsValid_def split: if_splits option.splits)
  qed (simp add: len)
  have "1 \<le> length ?pop" using ne by (cases ?pop) auto
  then show ?thesis
    unfolding pop using ne nums rows l500 len by (auto simp: batch_submit_def Let_def simp del: upt_Suc)
qed

text \<open>The outcome of a submit lands on the rows it belongs to: a filled row is marked
  imported or failed according to the number it was sent under, a row the answer does not
  mention and a row that was not sent stay as they are, and no row is moved.\<close>

theorem batch_outcomes_on_their_rows:
  assumes "batch_inv p" and "batch_submit p = (p1, Some req)"
  shows "\<exists>number. (\<forall>i < length req. number (populatedRows p ! i) = bi_row_number (req ! i)) \<and>
     bg_rows (batch_answer (Inr resp) p1) =
       map (\<lambda>r. if rowIsBlank r then r else splat_row resp (number r) r) (bg_rows p)"
proof -
  let ?keys = "map dr_key (populatedRows p)"
  let ?num = "\<lambda>r. int (the (sent_number 1 ?keys (dr_key r)))"
  have req: "req = batch_payload p" using assms(2) by (auto simp: batch_submit_def Let_def split: if_splits)
  have d: "distinct ?keys" using assms(1) by (simp add: batch_inv_def populatedRows_def distinct_map_filter)
  have "?num (populatedRows p ! i) = bi_row_number (req ! i)" if "i < length req" for i
  proof -
    have i: "i < length (populatedRows p)" using that req by (simp add: batch_payload_def)
    then have "sent_number 1 ?keys (?keys ! i) = Some (1 + i)" using sent_number_nth [OF d] by simp
    moreover have "bi_row_number (req ! i) = int (Suc i)"
      using i by (simp add: req batch_payload_def batch_input_def del: upt_Suc)
    ultimately show ?thesis using i by simp
  qed
  then show ?thesis using answered_rows [OF assms] by (intro exI [of _ ?num] conjI allI impI)
qed

text \<open>A submit that was answered can be repeated: whatever the backend said of the rows, the
  button is enabled again at once and, if nothing is edited, sends exactly the same
  request, the rows already imported included. The page's description of the contract says
  that the button stays disabled after a submit until the form is reset.\<close>

theorem resubmit_repeats_imported_rows:
  assumes "batch_inv p" and "submitEnabled p" and "batch_submit p = (p1, Some req)"
  shows "submitEnabled (batch_answer (Inr resp) p1) \<and>
     snd (batch_submit (batch_answer (Inr resp) p1)) = Some req"
proof -
  let ?p2 = "batch_answer (Inr resp) p1"
  define g where "g r = int (the (sent_number 1 (map dr_key (populatedRows p)) (dr_key r)))" for r :: draft_row
  have rows: "bg_rows ?p2 = map (\<lambda>r. if rowIsBlank r then r else splat_row resp (g r) r) (bg_rows p)"
    unfolding g_def by (rule answered_rows [OF assms(1,3)])
  have pop: "populatedRows ?p2 = map (\<lambda>r. splat_row resp (g r) r) (populatedRows p)"
    unfolding populatedRows_def rows filter_map by (auto simp: splat_row_same intro!: map_cong filter_cong)
  have sub: "\<not> bg_submitting ?p2"
    using assms(3) by (auto simp: batch_submit_def batch_answer_def Let_def split: if_splits)
  have req: "req = batch_payload p" and ne: "populatedRows p \<noteq> []"
    using assms(3) by (auto simp: batch_submit_def Let_def split: if_splits)
  have "batch_payload ?p2 = batch_payload p"
    unfolding batch_payload_def pop by (simp add: map2_map_map zip_map2 splat_row_same split_def comp_def del: upt_Suc)
  moreover have "list_all rowIsValid (populatedRows ?p2)"
    using assms(2) unfolding pop by (auto simp: submitEnabled_def list_all_iff splat_row_same split: if_splits)
  ultimately show ?thesis
    using sub pop ne req by (auto simp: submitEnabled_def batch_submit_def Let_def)
qed

definition demo_draft :: draft_row where
  "demo_draft = (blankRow ''2026-05-01'' ''k'')\<lparr>dr_description := ''tea'', dr_amount := ''3'',
     dr_account_id := Some 1, dr_category_id := Some 2\<rparr>"

definition demo_batch :: batch_page where
  "demo_batch = (batch_page_init ''2026-05-01'' [])\<lparr>bg_rows := [demo_draft]\<rparr>"

lemma demo_batch_ok: "batch_inv demo_batch" "submitEnabled demo_batch"
  by (simp add: batch_inv_def demo_batch_def batch_page_init_def MAX_ROWS_def) (code_simp)

lemma demo_batch_sent: "\<exists>p1 req. batch_submit demo_batch = (p1, Some req)"
  using demo_batch_ok(2) by (auto simp: batch_submit_def submitEnabled_def Let_def split: if_splits)

theorem batch_request_faithful_witness:
  "\<exists>p1. batch_submit demo_batch = (p1, Some (batch_payload demo_batch)) \<and> length (batch_payload demo_batch) \<le> 500"
  using batch_request_faithful [OF demo_batch_ok] by blast

theorem batch_outcomes_on_their_rows_witness:
  "\<exists>p1 number. bg_rows (batch_answer (Inr \<lparr>bp_imported_count = 0, bp_error_count = 0, bp_results = [], bp_errors = []\<rparr>) p1) =
     map (\<lambda>r. if rowIsBlank r then r else splat_row \<lparr>bp_imported_count = 0, bp_error_count = 0, bp_results = [], bp_errors = []\<rparr> (number r) r)
       (bg_rows demo_batch)"
  using demo_batch_sent batch_outcomes_on_their_rows [OF demo_batch_ok(1)] by blast

theorem resubmit_repeats_imported_rows_witness:
  "\<exists>p1 req. batch_submit demo_batch = (p1, Some req) \<and>
     submitEnabled (batch_answer (Inr \<lparr>bp_imported_count = 1, bp_error_count = 0,
        bp_results = [\<lparr>br_row_number = 1, br_transaction_id = 7\<rparr>], bp_errors = []\<rparr>) p1)"
  using demo_batch_sent resubmit_repeats_imported_rows [OF demo_batch_ok] by blast

end
