(* ===== verification/Tx_List.thy ===== *)
theory Tx_List
  imports Persisted Js_Number Amounts Api_Types Api_Fetch Proxy "HOL-Library.Multiset"
begin

section \<open>The list of the transactions page (app/transactions/page.tsx)\<close>

text \<open>
  The part of the page that decides which rows are asked for and which are shown: the
  persisted filters and the URL they make, paging, deep links, sorting, the hidden half of
  a transfer, the selection and the advisory check of "Link as transfer". A filter is the
  JavaScript value that the storage may hold; an id filter that is not an integer does not
  occur. \<^verbatim>\<open>localeCompare\<close> depends on the locale and is a parameter. An amount is the exact
  rational; its text is the backend's decimal with two places, as the comment in
  lib/format.ts says of the run-time shape.
\<close>

subsection \<open>Filters and the request\<close>

definition PAGE_SIZE :: nat where "PAGE_SIZE = 20"

definition SORT_DEFAULTS :: "(string \<times> sort_dir) list" where
  "SORT_DEFAULTS = [(''date'', Desc), (''amount'', Desc), (''description'', Asc), (''account_name'', Asc),
     (''category_name'', Asc), (''status'', Asc)]"

definition SORT_FIELDS :: "string list" where
  "SORT_FIELDS = [''date'', ''description'', ''account_name'', ''category_name'', ''status'', ''amount'']"

definition FILTERS_KEY_TRANSACTIONS :: string where "FILTERS_KEY_TRANSACTIONS = ''pfv:filters:transactions''"
definition SORT_KEY_TRANSACTIONS :: string where "SORT_KEY_TRANSACTIONS = ''pfv:sort:transactions''"

definition TX_FILTER_DEFAULTS :: filters where
  "TX_FILTER_DEFAULTS = map (\<lambda>k. (k, JStr [])) [''filterAccount'', ''filterCategory'', ''filterType'', ''filterStatus'',
     ''filterDateFrom'', ''filterDateTo'', ''filterSearch'', ''filterPeriod'']"

record billing_period =
  bp_id :: int
  bp_start_date :: string
  bp_end_date :: "string option"

definition flt :: "filters \<Rightarrow> string \<Rightarrow> jsval" where
  "flt fs k = js_get (JObj fs) k"

text \<open>\<^verbatim>\<open>encodeURIComponent\<close>: the UTF-8 bytes outside the unreserved set as percent escapes.\<close>

definition utf8 :: "char \<Rightarrow> char list" where
  "utf8 c = (let n = of_char c :: nat in if n < 128 then [c] else [char_of (192 + n div 64), char_of (128 + n mod 64)])"

definition uri_safe :: "char \<Rightarrow> bool" where
  "uri_safe c = (let n = of_char c :: nat in
     (48 \<le> n \<and> n \<le> 57) \<or> (65 \<le> n \<and> n \<le> 90) \<or> (97 \<le> n \<and> n \<le> 122) \<or> n \<in> {33, 39, 40, 41, 42, 45, 46, 95, 126})"

definition escape_byte :: "char \<Rightarrow> string" where
  "escape_byte c = (if uri_safe c then [c] else [CHR ''%'', upper_hex (of_char c div 16), upper_hex (of_char c mod 16)])"

definition encodeURIComponent :: "string \<Rightarrow> string" where
  "encodeURIComponent s = concat (map escape_byte (concat (map utf8 s)))"

definition url_part :: "string \<Rightarrow> jsval \<Rightarrow> string" where
  "url_part k v = (if js_truthy v then ''&'' @ k @ ''='' @ js_String v else [])"

definition range_part :: "billing_period list \<Rightarrow> filters \<Rightarrow> string" where
  "range_part periods fs =
     (if js_truthy (flt fs ''filterPeriod'') then
        (case js_find (\<lambda>p. JStr (show_int (bp_id p)) = flt fs ''filterPeriod'') periods of
           Some per \<Rightarrow> (case bp_end_date per of
               Some e \<Rightarrow> ''&date_from='' @ bp_start_date per @ ''&date_to='' @ e
             | None \<Rightarrow> [])
         | None \<Rightarrow> [])
      else url_part ''date_from'' (flt fs ''filterDateFrom'') @ url_part ''date_to'' (flt fs ''filterDateTo''))"

definition transactions_query :: "billing_period list \<Rightarrow> filters \<Rightarrow> nat \<Rightarrow> string" where
  "transactions_query periods fs p =
     ''?limit='' @ show_nat (PAGE_SIZE + 1) @ ''&offset='' @ show_nat (p * PAGE_SIZE)
     @ url_part ''account_id'' (flt fs ''filterAccount'') @ url_part ''category_id'' (flt fs ''filterCategory'')
     @ url_part ''type'' (flt fs ''filterType'') @ url_part ''status'' (flt fs ''filterStatus'')
     @ range_part periods fs
     @ (if js_truthy (flt fs ''filterSearch'')
        then ''&search='' @ encodeURIComponent (js_String (flt fs ''filterSearch'')) else [])"

definition transactions_url :: "billing_period list \<Rightarrow> filters \<Rightarrow> nat \<Rightarrow> string" where
  "transactions_url periods fs p = ''/api/v1/transactions'' @ transactions_query periods fs p"

subsection \<open>State and loading\<close>

record tx_listing =
  tl_transactions :: "transaction list"
  tl_accounts :: "account list"
  tl_categories :: "category list"
  tl_periods :: "billing_period list"
  tl_periodsLoaded :: bool
  tl_fetching :: bool
  tl_page :: nat
  tl_hasMore :: bool
  tl_selectedIds :: "int list"
  tl_confirmBulkDelete :: bool
  tl_bulkDeleting :: bool
  tl_filters :: filters
  tl_sort :: sort_state
  tl_storage :: storage
  tl_categorySynced :: bool
  tl_loads :: "string list"

definition list_init :: "storage \<Rightarrow> tx_listing" where
  "list_init st = \<lparr>tl_transactions = [], tl_accounts = [], tl_categories = [], tl_periods = [], tl_periodsLoaded = False,
     tl_fetching = True, tl_page = 0, tl_hasMore = False, tl_selectedIds = [], tl_confirmBulkDelete = False,
     tl_bulkDeleting = False, tl_filters = usePersistedFilters st FILTERS_KEY_TRANSACTIONS TX_FILTER_DEFAULTS,
     tl_sort = usePersistedSort st SORT_KEY_TRANSACTIONS ''date'' Desc (Some SORT_FIELDS), tl_storage = st,
     tl_categorySynced = False, tl_loads = []\<rparr>"

text \<open>The two halves of \<^verbatim>\<open>loadTransactions\<close>; the loads under way are listed by URL.\<close>

definition load_begin :: "tx_listing \<Rightarrow> tx_listing" where
  "load_begin l = l\<lparr>tl_loads := tl_loads l @ [transactions_url (tl_periods l) (tl_filters l) (tl_page l)]\<rparr>"

definition loaded :: "transaction list option \<Rightarrow> tx_listing \<Rightarrow> tx_listing" where
  "loaded ans l = (let data = (case ans of Some ts \<Rightarrow> ts | None \<Rightarrow> []) in
     l\<lparr>tl_hasMore := length data > PAGE_SIZE, tl_transactions := take PAGE_SIZE data, tl_fetching := False\<rparr>)"

definition load_effect :: "tx_listing \<Rightarrow> tx_listing" where
  "load_effect l = load_begin (l\<lparr>tl_fetching := True\<rparr>)"

definition load_settles :: "nat \<Rightarrow> js_error + transaction list option \<Rightarrow> tx_listing \<Rightarrow> tx_listing" where
  "load_settles i ans l =
     (if i < length (tl_loads l) then
        (let l1 = l\<lparr>tl_loads := take i (tl_loads l) @ drop (Suc i) (tl_loads l)\<rparr> in
         case ans of Inr ts \<Rightarrow> loaded ts l1 | Inl _ \<Rightarrow> l1\<lparr>tl_fetching := False\<rparr>)
      else l)"

definition clearSelection :: "tx_listing \<Rightarrow> tx_listing" where
  "clearSelection l = l\<lparr>tl_selectedIds := []\<rparr>"

text \<open>
  The effects of a change of a filter: the load, with the page still the old one; back to
  the first page; no selection; and, if that changed the page, the load once more.
\<close>

definition filters_effects :: "tx_listing \<Rightarrow> tx_listing" where
  "filters_effects l = (let l1 = clearSelection ((load_effect l)\<lparr>tl_page := 0\<rparr>) in
     if tl_page l \<noteq> 0 then load_effect l1 else l1)"

definition apply_filters :: "filters \<Rightarrow> tx_listing \<Rightarrow> tx_listing" where
  "apply_filters patch l = (let (fs, st) = set_filters FILTERS_KEY_TRANSACTIONS patch (tl_filters l, tl_storage l) in
     if fs = tl_filters l then l\<lparr>tl_storage := st\<rparr>
     else filters_effects (l\<lparr>tl_filters := fs, tl_storage := st\<rparr>))"

definition closedPeriods :: "billing_period list \<Rightarrow> billing_period list" where
  "closedPeriods ps = filter (\<lambda>p. bp_end_date p \<noteq> None) ps"

definition period_effect :: "tx_listing \<Rightarrow> tx_listing" where
  "period_effect l =
     (if \<not> tl_periodsLoaded l \<or> \<not> js_truthy (flt (tl_filters l) ''filterPeriod'') then l
      else if list_ex (\<lambda>p. JStr (show_int (bp_id p)) = flt (tl_filters l) ''filterPeriod'') (closedPeriods (tl_periods l)) then l
      else apply_filters [(''filterPeriod'', JStr [])] l)"

definition setFilters :: "filters \<Rightarrow> tx_listing \<Rightarrow> tx_listing" where
  "setFilters patch l = period_effect (apply_filters patch l)"

subsection \<open>Deep links\<close>

text \<open>\<^verbatim>\<open>DATE_PARAM_RE.test\<close>.\<close>

definition date_param :: "string \<Rightarrow> bool" where
  "date_param s \<longleftrightarrow> length s = 10 \<and> s ! 4 = CHR ''-'' \<and> s ! 7 = CHR ''-''
     \<and> list_all is_digit (take 4 s @ take 2 (drop 5 s) @ drop 8 s)"

type_synonym search_params = "string \<Rightarrow> string option"

definition positive_id :: "string option \<Rightarrow> rat option" where
  "positive_id s = (case (case s of None \<Rightarrow> Some 0 | Some t \<Rightarrow> js_Number t) of
      Some q \<Rightarrow> if is_integer q \<and> q > 0 then Some q else None
    | None \<Rightarrow> None)"

definition date_patch :: "search_params \<Rightarrow> string \<Rightarrow> string \<Rightarrow> filters" where
  "date_patch get name field = (case get name of
      Some d \<Rightarrow> if d \<noteq> [] \<and> date_param d then [(field, JStr d), (''filterPeriod'', JStr [])] else []
    | None \<Rightarrow> [])"

definition url_patch :: "search_params \<Rightarrow> filters" where
  "url_patch get =
     obj_spread (obj_spread
       (case positive_id (get ''account_id'') of Some q \<Rightarrow> [(''filterAccount'', JNum q)] | None \<Rightarrow> [])
       (date_patch get ''date_from'' ''filterDateFrom''))
       (date_patch get ''date_to'' ''filterDateTo'')"

definition url_filters_effect :: "search_params \<Rightarrow> tx_listing \<Rightarrow> tx_listing" where
  "url_filters_effect get l = (if length (url_patch get) > 0 then setFilters (url_patch get) l else l)"

definition category_effect :: "search_params \<Rightarrow> tx_listing \<Rightarrow> tx_listing" where
  "category_effect get l =
     (if tl_categorySynced l then l
      else (case get ''category'' of
          None \<Rightarrow> l
        | Some name \<Rightarrow>
            if name \<noteq> [] \<and> length (tl_categories l) > 0 then
              (case js_find (\<lambda>c. js_to_lower (ca_name c) = js_to_lower name) (tl_categories l) of
                 Some c \<Rightarrow> setFilters [(''filterCategory'', JInt (ca_id c))] (l\<lparr>tl_categorySynced := True\<rparr>)
               | None \<Rightarrow> l)
            else l))"

definition targetTransactionId :: "search_params \<Rightarrow> rat option" where
  "targetTransactionId get = (case get ''transaction_id'' of
      None \<Rightarrow> None
    | Some raw \<Rightarrow> if raw = [] then None else positive_id (Some raw))"

definition list_mount :: "storage \<Rightarrow> search_params \<Rightarrow> tx_listing" where
  "list_mount st get = url_filters_effect get (load_effect (list_init st))"

text \<open>\<^verbatim>\<open>loadRefs\<close>: what it sets, and the effects that depend on it.\<close>

definition refs_loaded ::
    "search_params \<Rightarrow> account list option \<Rightarrow> category list option \<Rightarrow> billing_period list option \<Rightarrow> tx_listing \<Rightarrow> tx_listing" where
  "refs_loaded get accts cats pers l =
     (let
          l1 = l\<lparr>tl_accounts := (case accts of Some a \<Rightarrow> a | None \<Rightarrow> []), tl_categories := (case cats of Some c \<Rightarrow> c | None \<Rightarrow> []),
                tl_periods := (case pers of Some p \<Rightarrow> p | None \<Rightarrow> []), tl_periodsLoaded := True\<rparr>
      in period_effect (category_effect get (load_effect l1)))"

subsection \<open>The controls\<close>

text \<open>\<^verbatim>\<open>Date.getDay\<close> on the calendar of Format: 0 is Sunday.\<close>

definition days_before_year :: "int \<Rightarrow> int" where
  "days_before_year y = 365 * (y - 1) + (y - 1) div 4 - (y - 1) div 100 + (y - 1) div 400"

fun day_number :: "ymd \<Rightarrow> int" where
  "day_number (y, m, d) = days_before_year y + (\<Sum>k \<leftarrow> [1..m - 1]. days_in_month y k) + d"

definition getDay :: "ymd \<Rightarrow> nat" where
  "getDay d = nat (day_number d mod 7)"

datatype preset = Today | ThisWeek | ThisMonth | AllDates

definition preset_range :: "ymd \<Rightarrow> preset \<Rightarrow> string \<times> string" where
  "preset_range now q = (case q of
      Today \<Rightarrow> (todayISO now, todayISO now)
    | ThisWeek \<Rightarrow>
        (let day = getDay now; diff = (if day = 0 then 6 else day - 1)
         in (formatLocalDate ((prev_day ^^ diff) now), todayISO now))
    | ThisMonth \<Rightarrow>
        (case now of (y, m, _) \<Rightarrow> (formatLocalDate (y, m, 1), formatLocalDate (y, m, days_in_month y m)))
    | AllDates \<Rightarrow> ([], []))"

datatype filter_control =
    FAccount "int option" | FCategory "int option" | FType string | FStatus string | FFrom string | FTo string
  | FPeriod string | FSearch string | FPreset preset

definition id_value :: "int option \<Rightarrow> jsval" where
  "id_value v = (case v of Some i \<Rightarrow> JInt i | None \<Rightarrow> JStr [])"

definition setRange :: "string \<Rightarrow> string \<Rightarrow> filters" where
  "setRange from to = [(''filterPeriod'', JStr []), (''filterDateFrom'', JStr from), (''filterDateTo'', JStr to)]"

definition control_patch :: "ymd \<Rightarrow> filter_control \<Rightarrow> filters" where
  "control_patch now c = (case c of
      FAccount v \<Rightarrow> [(''filterAccount'', id_value v)]
    | FCategory v \<Rightarrow> [(''filterCategory'', id_value v)]
    | FType t \<Rightarrow> [(''filterType'', JStr t)]
    | FStatus t \<Rightarrow> [(''filterStatus'', JStr t)]
    | FFrom d \<Rightarrow> [(''filterPeriod'', JStr []), (''filterDateFrom'', JStr d)]
    | FTo d \<Rightarrow> [(''filterPeriod'', JStr []), (''filterDateTo'', JStr d)]
    | FPeriod v \<Rightarrow> (''filterPeriod'', JStr v) #
        (if v \<noteq> [] then [(''filterDateFrom'', JStr []), (''filterDateTo'', JStr [])] else [])
    | FSearch s \<Rightarrow> [(''filterSearch'', JStr s)]
    | FPreset q \<Rightarrow> (case preset_range now q of (from, to) \<Rightarrow> setRange from to))"

definition set_sort :: "string \<Rightarrow> sort_dir \<Rightarrow> tx_listing \<Rightarrow> tx_listing" where
  "set_sort f d l = (let (so, st) = setSort SORT_KEY_TRANSACTIONS f d (tl_sort l, tl_storage l) in
     (if so = tl_sort l then l\<lparr>tl_storage := st\<rparr> else clearSelection (l\<lparr>tl_sort := so, tl_storage := st\<rparr>)))"

definition toggleSort :: "string \<Rightarrow> tx_listing \<Rightarrow> tx_listing" where
  "toggleSort field l =
     (if so_field (tl_sort l) = field then set_sort field (if so_dir (tl_sort l) = Asc then Desc else Asc) l
      else (case map_of SORT_DEFAULTS field of Some d \<Rightarrow> set_sort field d l | None \<Rightarrow> l))"

definition reset_visible :: "tx_listing \<Rightarrow> bool" where
  "reset_visible l \<longleftrightarrow> \<not> filters_isDefault TX_FILTER_DEFAULTS (tl_filters l) \<or> \<not> sort_isDefault ''date'' Desc (tl_sort l)"

definition reset_all :: "tx_listing \<Rightarrow> tx_listing" where
  "reset_all l =
     (let (fs, st1) = reset_filters FILTERS_KEY_TRANSACTIONS TX_FILTER_DEFAULTS (tl_filters l, tl_storage l);
          (so, st2) = reset_sort SORT_KEY_TRANSACTIONS ''date'' Desc (tl_sort l, st1);
          l1 = l\<lparr>tl_sort := so, tl_storage := st2\<rparr>;
          l2 = (if so = tl_sort l then l1 else clearSelection l1)
      in if fs = tl_filters l then l2 else filters_effects (l2\<lparr>tl_filters := fs\<rparr>))"

definition goto_page :: "nat \<Rightarrow> tx_listing \<Rightarrow> tx_listing" where
  "goto_page p l = (if p = tl_page l then l else clearSelection (load_effect (l\<lparr>tl_page := p\<rparr>)))"

definition click_previous :: "tx_listing \<Rightarrow> tx_listing" where
  "click_previous l = (if tl_page l = 0 \<or> tl_bulkDeleting l then l else goto_page (tl_page l - 1) l)"

definition click_next :: "tx_listing \<Rightarrow> tx_listing" where
  "click_next l = (if \<not> tl_hasMore l \<or> tl_bulkDeleting l then l else goto_page (tl_page l + 1) l)"

subsection \<open>Rows and selection\<close>

definition selectionHiddenIds :: "transaction list \<Rightarrow> int list" where
  "selectionHiddenIds ts = map tx_id (filter (\<lambda>t. case tx_linked_transaction_id t of
      Some k \<Rightarrow> k \<noteq> 0 \<and> tx_id t > k
    | None \<Rightarrow> False) ts)"

definition selectableTxs :: "transaction list \<Rightarrow> transaction list" where
  "selectableTxs ts = filter (\<lambda>t. tx_id t \<notin> set (selectionHiddenIds ts)) ts"

definition allPageSelected :: "tx_listing \<Rightarrow> bool" where
  "allPageSelected l \<longleftrightarrow> length (selectableTxs (tl_transactions l)) > 0
     \<and> list_all (\<lambda>t. tx_id t \<in> set (tl_selectedIds l)) (selectableTxs (tl_transactions l))"

definition somePageSelected :: "tx_listing \<Rightarrow> bool" where
  "somePageSelected l \<longleftrightarrow> list_ex (\<lambda>t. tx_id t \<in> set (tl_selectedIds l)) (selectableTxs (tl_transactions l))
     \<and> \<not> allPageSelected l"

text \<open>A \<^verbatim>\<open>Set\<close> in insertion order: \<^verbatim>\<open>add\<close> of a member changes nothing.\<close>

definition set_add :: "int list \<Rightarrow> int \<Rightarrow> int list" where
  "set_add xs i = (if i \<in> set xs then xs else xs @ [i])"

definition set_delete :: "int list \<Rightarrow> int \<Rightarrow> int list" where
  "set_delete xs i = filter (\<lambda>j. j \<noteq> i) xs"

definition toggleOne :: "int \<Rightarrow> tx_listing \<Rightarrow> tx_listing" where
  "toggleOne i l = l\<lparr>tl_selectedIds := (if i \<in> set (tl_selectedIds l) then set_delete (tl_selectedIds l) i
     else set_add (tl_selectedIds l) i)\<rparr>"

definition togglePage :: "tx_listing \<Rightarrow> tx_listing" where
  "togglePage l = l\<lparr>tl_selectedIds := foldl (if allPageSelected l then set_delete else set_add)
     (tl_selectedIds l) (map tx_id (selectableTxs (tl_transactions l)))\<rparr>"

definition list_esc :: "tx_listing \<Rightarrow> tx_listing" where
  "list_esc l = (if length (tl_selectedIds l) > 0 \<and> \<not> tl_confirmBulkDelete l \<and> \<not> tl_bulkDeleting l
     then clearSelection l else l)"

subsection \<open>Sorting\<close>

text \<open>
  \<^verbatim>\<open>Array.prototype.sort\<close> with a comparator: a stable sort. The locale has the laws a
  comparator must satisfy for the result to be sorted.
\<close>

fun insert_by :: "('a \<Rightarrow> 'a \<Rightarrow> rat) \<Rightarrow> 'a \<Rightarrow> 'a list \<Rightarrow> 'a list" where
  "insert_by cmp x [] = [x]"
| "insert_by cmp x (y # ys) = (if cmp x y \<le> 0 then x # y # ys else y # insert_by cmp x ys)"

definition js_sort :: "('a \<Rightarrow> 'a \<Rightarrow> rat) \<Rightarrow> 'a list \<Rightarrow> 'a list" where
  "js_sort cmp xs = foldr (insert_by cmp) xs []"

definition status_str :: "tx_status \<Rightarrow> string" where
  "status_str s = (case s of TxSettled \<Rightarrow> ''settled'' | TxPending \<Rightarrow> ''pending'')"

definition tx_compare :: "(string \<Rightarrow> string \<Rightarrow> int) \<Rightarrow> string \<Rightarrow> transaction \<Rightarrow> transaction \<Rightarrow> rat" where
  "tx_compare localeCompare sortField a b =
     (if sortField = ''date'' then of_int (localeCompare (tx_date a) (tx_date b))
      else if sortField = ''description'' then of_int (localeCompare (tx_description a) (tx_description b))
      else if sortField = ''account_name'' then of_int (localeCompare (tx_account_name a) (tx_account_name b))
      else if sortField = ''category_name'' then of_int (localeCompare (tx_category_name a) (tx_category_name b))
      else if sortField = ''status'' then of_int (localeCompare (status_str (tx_status a)) (status_str (tx_status b)))
      else if sortField = ''amount'' then tx_amount a - tx_amount b
      else 0)"

definition directed :: "sort_dir \<Rightarrow> ('a \<Rightarrow> 'a \<Rightarrow> rat) \<Rightarrow> 'a \<Rightarrow> 'a \<Rightarrow> rat" where
  "directed d cmp a b = (if d = Asc then cmp a b else - cmp a b)"

definition sortedTransactions :: "(string \<Rightarrow> string \<Rightarrow> int) \<Rightarrow> sort_state \<Rightarrow> transaction list \<Rightarrow> transaction list" where
  "sortedTransactions localeCompare so ts = js_sort (directed (so_dir so) (tx_compare localeCompare (so_field so))) ts"

definition visibleTxs :: "(string \<Rightarrow> string \<Rightarrow> int) \<Rightarrow> sort_state \<Rightarrow> transaction list \<Rightarrow> transaction list" where
  "visibleTxs localeCompare so ts =
     filter (\<lambda>t. tx_id t \<notin> set (selectionHiddenIds ts)) (sortedTransactions localeCompare so ts)"

locale js_comparator =
  fixes cmp :: "'a \<Rightarrow> 'a \<Rightarrow> rat"
  assumes cmp_sym: "0 \<le> cmp y x \<longleftrightarrow> cmp x y \<le> 0"
    and cmp_trans: "cmp x y \<le> 0 \<Longrightarrow> cmp y z \<le> 0 \<Longrightarrow> cmp x z \<le> 0"
begin

lemma cmp_total: "\<not> cmp x y \<le> 0 \<Longrightarrow> cmp y x \<le> 0"
  using cmp_sym [of x y] by linarith

lemma set_insert_by: "set (insert_by cmp x ys) = insert x (set ys)"
  by (induction ys) auto

lemma insert_by_sorted:
  "sorted_wrt (\<lambda>a b. cmp a b \<le> 0) ys \<Longrightarrow> sorted_wrt (\<lambda>a b. cmp a b \<le> 0) (insert_by cmp x ys)"
  by (induction ys) (auto simp: set_insert_by intro: cmp_trans cmp_total)

lemma js_sort_sorted: "sorted_wrt (\<lambda>a b. cmp a b \<le> 0) (js_sort cmp xs)"
  by (induction xs) (simp_all add: js_sort_def insert_by_sorted)

lemma insert_by_ties:
  "filter (\<lambda>y. cmp z y = 0) (insert_by cmp x ys)
     = (if cmp z x = 0 then x # filter (\<lambda>y. cmp z y = 0) ys else filter (\<lambda>y. cmp z y = 0) ys)"
proof (induction ys)
  case (Cons y ys)
  have "cmp x y \<le> 0" if "cmp z x = 0" "cmp z y = 0"
    using cmp_sym [of z x] that cmp_trans [of x z y] by simp
  then show ?case using Cons by auto
qed simp

lemma js_sort_stable: "filter (\<lambda>y. cmp z y = 0) (js_sort cmp xs) = filter (\<lambda>y. cmp z y = 0) xs"
  by (induction xs) (simp_all add: js_sort_def insert_by_ties)

end

lemma js_sort_mset [simp]: "mset (js_sort cmp xs) = mset xs"
proof -
  have "mset (insert_by cmp x ys) = add_mset x (mset ys)" for x ys by (induction ys) auto
  then show ?thesis by (induction xs) (simp_all add: js_sort_def)
qed

lemma js_sort_set [simp]: "set (js_sort cmp xs) = set xs"
  using js_sort_mset [of cmp xs] by (rule mset_eq_setD)

text \<open>Every column compares lawfully when the locale's collation does; amounts do anyway.\<close>

lemma comparator_on: "js_comparator c \<Longrightarrow> js_comparator (\<lambda>a b. c (f a) (f b))"
  by (simp add: js_comparator_def)

interpretation by_amount: js_comparator "\<lambda>a b :: transaction. tx_amount a - tx_amount b"
  by unfold_locales auto

lemma comparator_directed:
  assumes "js_comparator c"
  shows "js_comparator (directed d c)"
proof (cases d)
  case Asc
  then have "directed d c = c" by (simp add: directed_def fun_eq_iff)
  with assms show ?thesis by simp
next
  case Desc
  then have d: "directed d c = (\<lambda>a b. - c a b)" by (simp add: directed_def fun_eq_iff)
  note flip = js_comparator.cmp_sym [OF assms]
  show ?thesis
    unfolding d
  proof
    fix x y z
    show "0 \<le> - c y x \<longleftrightarrow> - c x y \<le> 0" using flip [of x y] by simp
    assume "- c x y \<le> 0" "- c y z \<le> 0"
    then have "c z y \<le> 0" "c y x \<le> 0" using flip [of x y] flip [of y z] by simp_all
    then have "c z x \<le> 0" by (rule js_comparator.cmp_trans [OF assms])
    then show "- c x z \<le> 0" using flip [of x z] by simp
  qed
qed

lemma comparator_columns:
  assumes "js_comparator (\<lambda>a b. of_int (localeCompare a b))" and "field \<in> set SORT_FIELDS"
  shows "js_comparator (tx_compare localeCompare field)"
proof -
  note col = comparator_on [OF assms(1)]
  have "tx_compare localeCompare ''date'' = (\<lambda>a b. of_int (localeCompare (tx_date a) (tx_date b)))"
    "tx_compare localeCompare ''description'' = (\<lambda>a b. of_int (localeCompare (tx_description a) (tx_description b)))"
    "tx_compare localeCompare ''account_name'' = (\<lambda>a b. of_int (localeCompare (tx_account_name a) (tx_account_name b)))"
    "tx_compare localeCompare ''category_name'' = (\<lambda>a b. of_int (localeCompare (tx_category_name a) (tx_category_name b)))"
    "tx_compare localeCompare ''status'' = (\<lambda>a b. of_int (localeCompare (status_str (tx_status a)) (status_str (tx_status b))))"
    "tx_compare localeCompare ''amount'' = (\<lambda>a b. tx_amount a - tx_amount b)"
    by (simp_all add: tx_compare_def fun_eq_iff)
  then show ?thesis
    using assms(2) col [of tx_date] col [of tx_description] col [of tx_account_name] col [of tx_category_name]
      col [of "\<lambda>t. status_str (tx_status t)"] by_amount.js_comparator_axioms
    by (auto simp: SORT_FIELDS_def)
qed

text \<open>Whatever the column and the direction, the rows shown are the selectable rows, each as
  often as it was loaded, in the order of the column, and rows that are equal in that
  column keep the order in which the backend sent them.\<close>

theorem visible_rows_sorted:
  assumes "js_comparator (\<lambda>a b. of_int (localeCompare a b))" and "so_field so \<in> set SORT_FIELDS"
  defines "cmp \<equiv> directed (so_dir so) (tx_compare localeCompare (so_field so))"
  shows "mset (visibleTxs localeCompare so ts) = mset (selectableTxs ts)
    \<and> sorted_wrt (\<lambda>a b. cmp a b \<le> 0) (visibleTxs localeCompare so ts)
    \<and> filter (\<lambda>t. cmp u t = 0) (visibleTxs localeCompare so ts) = filter (\<lambda>t. cmp u t = 0) (selectableTxs ts)"
proof (intro conjI)
  have lawful: "js_comparator cmp"
    unfolding cmp_def by (rule comparator_directed [OF comparator_columns [OF assms(1,2)]])
  have v: "visibleTxs localeCompare so ts = filter (\<lambda>t. tx_id t \<notin> set (selectionHiddenIds ts)) (js_sort cmp ts)"
    by (simp add: visibleTxs_def sortedTransactions_def cmp_def)
  show "mset (visibleTxs localeCompare so ts) = mset (selectableTxs ts)"
    by (simp add: v selectableTxs_def mset_filter)
  show "sorted_wrt (\<lambda>a b. cmp a b \<le> 0) (visibleTxs localeCompare so ts)"
    unfolding v by (rule sorted_wrt_filter [OF js_comparator.js_sort_sorted [OF lawful]])
  have "filter (\<lambda>t. cmp u t = 0) (visibleTxs localeCompare so ts)
      = filter (\<lambda>t. tx_id t \<notin> set (selectionHiddenIds ts)) (filter (\<lambda>t. cmp u t = 0) (js_sort cmp ts))"
    by (simp add: v conj_commute)
  then show "filter (\<lambda>t. cmp u t = 0) (visibleTxs localeCompare so ts) = filter (\<lambda>t. cmp u t = 0) (selectableTxs ts)"
    by (simp add: js_comparator.js_sort_stable [OF lawful] selectableTxs_def conj_commute)
qed

subsection \<open>Link as transfer\<close>

text \<open>\<^verbatim>\<open>String(t.amount)\<close> of the backend's decimal with two places.\<close>

definition amount_text :: "rat \<Rightarrow> string" where
  "amount_text q = decimal (q < 0) (show_nat (nat \<lfloor>\<bar>q\<bar>\<rfloor>)) (Some (pad2 (\<lfloor>\<bar>q\<bar> * 100\<rfloor> mod 100)))"

record link_selection =
  ls_visible :: bool
  ls_enabled :: bool
  ls_reason :: "string option"
  ls_expense :: "transaction option"
  ls_income :: "transaction option"

definition link_hidden :: link_selection where
  "link_hidden = \<lparr>ls_visible = False, ls_enabled = False, ls_reason = None, ls_expense = None, ls_income = None\<rparr>"

definition link_refused :: "string \<Rightarrow> link_selection" where
  "link_refused reason = \<lparr>ls_visible = True, ls_enabled = False, ls_reason = Some reason, ls_expense = None, ls_income = None\<rparr>"

definition account_of :: "account list \<Rightarrow> int \<Rightarrow> account option" where
  "account_of accts i = js_find (\<lambda>x. ac_id x = i) accts"

definition evaluate_pair :: "account list \<Rightarrow> transaction \<Rightarrow> transaction \<Rightarrow> link_selection" where
  "evaluate_pair accts a b =
     (if tx_linked_transaction_id a \<noteq> None \<or> tx_linked_transaction_id b \<noteq> None then link_hidden
      else if tx_type a = tx_type b then
        link_refused (if tx_type a = Expense then ''Both selected rows are expenses'' else ''Both selected rows are incomes'')
      else if \<not> equalsAmount (amount_text (tx_amount a)) (amount_text (tx_amount b)) then link_refused ''Amounts differ''
      else if tx_account_id a = tx_account_id b then link_refused ''Same account''
      else (case (account_of accts (tx_account_id a), account_of accts (tx_account_id b)) of
          (Some ca, Some cb) \<Rightarrow>
            if ac_currency ca \<noteq> ac_currency cb then link_refused ''Different currencies''
            else \<lparr>ls_visible = True, ls_enabled = True, ls_reason = None,
                   ls_expense = Some (if tx_type a = Expense then a else b),
                   ls_income = Some (if tx_type a = Income then a else b)\<rparr>
        | _ \<Rightarrow> link_refused ''Account not found''))"

definition evaluateLinkSelection :: "tx_listing \<Rightarrow> link_selection" where
  "evaluateLinkSelection l =
     (let ids = tl_selectedIds l in
      if length ids \<noteq> 2 then link_hidden
      else (case List.map_filter (\<lambda>i. js_find (\<lambda>t. tx_id t = i) (tl_transactions l)) ids of
          [a, b] \<Rightarrow> evaluate_pair (tl_accounts l) a b
        | _ \<Rightarrow> link_hidden))"

text \<open>
  The checks of the backend's \<^verbatim>\<open>_link_pair\<close>, for rows of one organisation. Amounts
  are positive in the backend, so its \<^verbatim>\<open>abs\<close> is kept as it stands.
\<close>

definition link_pair_ok :: "account list \<Rightarrow> transaction \<Rightarrow> transaction \<Rightarrow> bool" where
  "link_pair_ok accts e i \<longleftrightarrow> \<not> tx_is_manual_adjustment e \<and> \<not> tx_is_manual_adjustment i \<and> tx_type e = Expense \<and> tx_type i = Income \<and> tx_account_id e \<noteq> tx_account_id i
     \<and> \<bar>tx_amount e\<bar> = \<bar>tx_amount i\<bar> \<and> tx_linked_transaction_id e = None \<and> tx_linked_transaction_id i = None
     \<and> map_option ac_currency (account_of accts (tx_account_id e)) = map_option ac_currency (account_of accts (tx_account_id i))"

subsection \<open>The list as a state machine\<close>

text \<open>
  \<open>get\<close> are the search parameters of the URL, \<open>now\<close> is the calendar day. The rows and their
  controls are rendered while nothing is being fetched.
\<close>

datatype list_event =
    LControl filter_control | LSort string | LReset | LPrevious | LNext | LToggle int | LTogglePage | LClear | LEsc
  | LSettles nat "js_error + transaction list option"
  | LRefs "account list option" "category list option" "billing_period list option"

fun list_step :: "search_params \<Rightarrow> ymd \<Rightarrow> tx_listing \<Rightarrow> list_event \<Rightarrow> tx_listing" where
  "list_step get now l (LControl c) = setFilters (control_patch now c) l"
| "list_step get now l (LSort f) = (if tl_fetching l then l else toggleSort f l)"
| "list_step get now l LReset = (if reset_visible l then reset_all l else l)"
| "list_step get now l LPrevious = (if tl_fetching l then l else click_previous l)"
| "list_step get now l LNext = (if tl_fetching l then l else click_next l)"
| "list_step get now l (LToggle i) =
     (if \<not> tl_fetching l \<and> i \<in> tx_id ` set (selectableTxs (tl_transactions l)) then toggleOne i l else l)"
| "list_step get now l LTogglePage = (if tl_fetching l then l else togglePage l)"
| "list_step get now l LClear = (if tl_bulkDeleting l then l else clearSelection l)"
| "list_step get now l LEsc = list_esc l"
| "list_step get now l (LSettles i ans) = load_settles i ans l"
| "list_step get now l (LRefs accts cats pers) = refs_loaded get accts cats pers l"

end
