(* ===== verification/Tx_List_Props.thy ===== *)
theory Tx_List_Props
  imports Tx_List
begin

section \<open>What the list of transactions guarantees\<close>

text \<open>
  Properties of Tx_List: the request and the filters, paging, the hidden half of a
  transfer, the selection, the advisory link check against the backend's rules, and the
  list as a step machine.
\<close>

subsection \<open>The URL says what the filters say\<close>

lemma js_split_none: "sep \<notin> set w \<Longrightarrow> js_split sep w = [w]"
  by (induction w) auto

lemma js_split_sep: "sep \<notin> set w \<Longrightarrow> js_split sep (w @ sep # s) = w # js_split sep s"
  by (induction w) (auto split: list.splits)

definition amp :: "string \<times> string \<Rightarrow> string" where
  "amp kv = ''&'' @ fst kv @ ''='' @ snd kv"

definition url_plain :: "string \<Rightarrow> bool" where
  "url_plain s \<longleftrightarrow> list_all (\<lambda>c. c \<notin> {CHR ''&'', CHR ''%'', CHR ''+'', CHR ''#''}) s"

lemma url_plain_append [simp]: "url_plain (s @ t) \<longleftrightarrow> url_plain s \<and> url_plain t"
  by (simp add: url_plain_def)

lemma split_params:
  assumes "CHR ''&'' \<notin> set w" and "\<forall>kv \<in> set ps. CHR ''&'' \<notin> set (fst kv) \<and> CHR ''&'' \<notin> set (snd kv)"
  shows "js_split CHR ''&'' (w @ concat (map amp ps)) = w # map (\<lambda>kv. fst kv @ ''='' @ snd kv) ps"
  using assms
proof (induction ps arbitrary: w)
  case Nil
  then show ?case by (simp add: js_split_none)
next
  case (Cons kv ps)
  have "js_split CHR ''&'' ((fst kv @ ''='' @ snd kv) @ concat (map amp ps))
      = (fst kv @ ''='' @ snd kv) # map (\<lambda>kv. fst kv @ ''='' @ snd kv) ps"
    by (rule Cons.IH) (use Cons.prems in auto)
  then show ?case using Cons.prems(1) js_split_sep [of "CHR ''&''" w]
    by (simp add: amp_def [abs_def])
qed

lemma percent_decode_plain: "CHR ''%'' \<notin> set s \<Longrightarrow> percent_decode s = s"
  by (induction s rule: percent_decode.induct) (auto split: option.splits)

lemma form_decode_plain: "url_plain s \<Longrightarrow> form_decode s = s"
proof -
  assume s: "url_plain s"
  then have "map (\<lambda>c. if c = CHR ''+'' then CHR '' '' else c) s = s"
    by (intro map_idI) (auto simp: url_plain_def list_all_iff)
  then show ?thesis using s percent_decode_plain [of s] by (auto simp: form_decode_def url_plain_def list_all_iff)
qed

lemma hex_nibble_upper: "n < 16 \<Longrightarrow> hex_nibble (upper_hex n) = Some n"
  by (auto simp: hex_nibble_def upper_hex_def Let_def)

lemma percent_decode_safe: "c \<noteq> CHR ''%'' \<Longrightarrow> percent_decode (c # s) = c # percent_decode s"
  by (cases s; cases "tl s") (auto split: option.splits)

lemma byte_halves: "(of_char c :: nat) div 16 < 16" "(of_char c :: nat) mod 16 < 16"
  using nat_of_char_less_256 [of c] by (simp_all add: less_mult_imp_div_less del: nat_of_char_less_256)

lemma percent_decode_escape:
  "percent_decode (CHR ''%'' # upper_hex (of_char c div 16) # upper_hex (of_char c mod 16) # s) = c # percent_decode s"
proof -
  have "hex_nibble (upper_hex (of_char c div 16)) = Some (of_char c div 16)"
    "hex_nibble (upper_hex (of_char c mod 16)) = Some (of_char c mod 16)"
    using byte_halves [of c] by (simp_all add: hex_nibble_upper)
  moreover have "char_of (16 * (of_char c div 16) + of_char c mod 16 :: nat) = c" by simp
  ultimately show ?thesis by simp
qed

lemma uri_safe_chars: "uri_safe c \<Longrightarrow> c \<noteq> CHR ''%'' \<and> c \<noteq> CHR ''+'' \<and> c \<noteq> CHR ''&''"
  by (auto simp: uri_safe_def)

lemma upper_hex_plain: "n < 16 \<Longrightarrow> upper_hex n \<noteq> CHR ''+'' \<and> upper_hex n \<noteq> CHR ''&''"
proof -
  assume "n < 16"
  then have "n \<in> set [0..<16]" by simp
  moreover have "\<forall>n \<in> set [0..<16]. upper_hex n \<noteq> CHR ''+'' \<and> upper_hex n \<noteq> CHR ''&''" by code_simp
  ultimately show ?thesis by blast
qed

lemma escape_byte_chars: "x \<in> set (escape_byte c) \<Longrightarrow> x \<noteq> CHR ''+'' \<and> x \<noteq> CHR ''&''"
proof -
  show "x \<in> set (escape_byte c) \<Longrightarrow> x \<noteq> CHR ''+'' \<and> x \<noteq> CHR ''&''"
    using uri_safe_chars [of c] upper_hex_plain byte_halves [of c] by (auto simp: escape_byte_def split: if_splits)
qed

lemma decode_escaped: "form_decode (concat (map escape_byte bs)) = bs"
proof -
  have "map (\<lambda>c. if c = CHR ''+'' then CHR '' '' else c) (concat (map escape_byte bs)) = concat (map escape_byte bs)"
    by (rule map_idI) (use escape_byte_chars in auto)
  moreover have "percent_decode (concat (map escape_byte bs)) = bs"
  proof (induction bs)
    case (Cons c bs)
    then show ?case
      using percent_decode_escape [of c] percent_decode_safe [of c] uri_safe_chars [of c] by (simp add: escape_byte_def)
  qed simp
  ultimately show ?thesis by (simp add: form_decode_def)
qed

text \<open>The parameters that the filters stand for.\<close>

definition param :: "string \<Rightarrow> jsval \<Rightarrow> (string \<times> string) list" where
  "param k v = (if js_truthy v then [(k, js_String v)] else [])"

definition range_params :: "billing_period list \<Rightarrow> filters \<Rightarrow> (string \<times> string) list" where
  "range_params periods fs =
     (if js_truthy (flt fs ''filterPeriod'') then
        (case js_find (\<lambda>p. JStr (show_int (bp_id p)) = flt fs ''filterPeriod'' \<and> bp_end_date p \<noteq> None) periods of
           Some per \<Rightarrow> [(''date_from'', bp_start_date per), (''date_to'', the (bp_end_date per))]
         | None \<Rightarrow> [])
      else param ''date_from'' (flt fs ''filterDateFrom'') @ param ''date_to'' (flt fs ''filterDateTo''))"

definition filter_params :: "billing_period list \<Rightarrow> filters \<Rightarrow> nat \<Rightarrow> (string \<times> string) list" where
  "filter_params periods fs p =
     [(''limit'', show_nat (PAGE_SIZE + 1)), (''offset'', show_nat (p * PAGE_SIZE))]
     @ param ''account_id'' (flt fs ''filterAccount'') @ param ''category_id'' (flt fs ''filterCategory'')
     @ param ''type'' (flt fs ''filterType'') @ param ''status'' (flt fs ''filterStatus'')
     @ range_params periods fs"

definition select_filters :: "string list" where
  "select_filters = [''filterAccount'', ''filterCategory'', ''filterType'', ''filterStatus'', ''filterDateFrom'', ''filterDateTo'']"

definition plain_filters :: "billing_period list \<Rightarrow> filters \<Rightarrow> bool" where
  "plain_filters periods fs \<longleftrightarrow>
     list_all (\<lambda>k. url_plain (js_String (flt fs k))) select_filters
     \<and> list_all (\<lambda>p. url_plain (bp_start_date p) \<and> (case bp_end_date p of Some e \<Rightarrow> url_plain e | None \<Rightarrow> True)) periods
     \<and> distinct (map bp_id periods)"

lemma plain_numerals: "list_all is_digit s \<Longrightarrow> url_plain s"
proof -
  have "\<not> is_digit CHR ''&''" "\<not> is_digit CHR ''%''" "\<not> is_digit CHR ''+''" "\<not> is_digit CHR ''#''" by (simp_all add: is_digit_def)
  then show "list_all is_digit s \<Longrightarrow> url_plain s" by (auto simp: url_plain_def list_all_iff)
qed

lemma plain_show_nat [simp]: "url_plain (show_nat n)"
  using show_nat_digits [of n] by (intro plain_numerals) (simp add: list_all_iff)

lemma amp_param: "concat (map amp (param k v)) = url_part k v"
  by (simp add: param_def url_part_def amp_def)

lemma find_closed:
  assumes "distinct (map bp_id periods)"
  shows "js_find (\<lambda>p. JStr (show_int (bp_id p)) = v \<and> bp_end_date p \<noteq> None) periods
    = (case js_find (\<lambda>p. JStr (show_int (bp_id p)) = v) periods of
        Some per \<Rightarrow> if bp_end_date per = None then None else Some per
      | None \<Rightarrow> None)"
  using assms
proof (induction periods)
  case (Cons q periods)
  have "js_find (\<lambda>p. JStr (show_int (bp_id p)) = v \<and> bp_end_date p \<noteq> None) periods = None" if "JStr (show_int (bp_id q)) = v"
    unfolding js_find_None
  proof (intro ballI notI)
    fix r assume "r \<in> set periods" "JStr (show_int (bp_id r)) = v \<and> bp_end_date r \<noteq> None"
    moreover from this that have "show_int (bp_id r) = show_int (bp_id q)" by auto
    then have "bp_id r = bp_id q" by (rule show_int_inj)
    ultimately show False using Cons.prems by (auto simp: image_iff)
  qed
  with Cons show ?case by auto
qed simp

lemma amp_range:
  "distinct (map bp_id periods) \<Longrightarrow> concat (map amp (range_params periods fs)) = range_part periods fs"
  unfolding range_params_def range_part_def
  by (subst find_closed) (simp_all add: amp_param amp_def split: option.split)

lemma query_params:
  assumes "distinct (map bp_id periods)"
  shows "transactions_query periods fs p = CHR ''?'' # tl (concat (map amp (filter_params periods fs p
     @ (if js_truthy (flt fs ''filterSearch'') then [(''search'', encodeURIComponent (js_String (flt fs ''filterSearch'')))] else []))))"
  by (simp add: transactions_query_def filter_params_def amp_param amp_range [OF assms] amp_def)

lemma parse_params:
  assumes "\<forall>kv \<in> set ps. url_plain (fst kv) \<and> CHR ''='' \<notin> set (fst kv) \<and> CHR ''&'' \<notin> set (snd kv)" and "ps \<noteq> []"
  shows "parse_query (CHR ''?'' # tl (concat (map amp ps))) = map (\<lambda>kv. (fst kv, form_decode (snd kv))) ps"
proof -
  obtain kv qs where ps: "ps = kv # qs" using assms(2) by (cases ps) auto
  have free: "\<forall>kv \<in> set ps. CHR ''&'' \<notin> set (fst kv) \<and> CHR ''&'' \<notin> set (snd kv)"
    using assms(1) by (auto simp: url_plain_def list_all_iff)
  have "tl (concat (map amp ps)) = (fst kv @ ''='' @ snd kv) @ concat (map amp qs)" by (simp add: ps amp_def)
  moreover have "js_split CHR ''&'' \<dots> = (fst kv @ ''='' @ snd kv) # map (\<lambda>kv. fst kv @ ''='' @ snd kv) qs"
    by (rule split_params) (use free ps in auto)
  ultimately have sp: "js_split CHR ''&'' (tl (concat (map amp ps))) = map (\<lambda>kv. fst kv @ ''='' @ snd kv) ps"
    using ps by simp
  have pair: "parse_pair (fst kv @ ''='' @ snd kv) = (fst kv, form_decode (snd kv))" if "kv \<in> set ps" for kv
    using assms(1) that by (auto simp: parse_pair_def takeWhile_append dropWhile_append form_decode_plain)
  have "filter (\<lambda>p. p \<noteq> []) (map (\<lambda>kv. fst kv @ ''='' @ snd kv) ps) = map (\<lambda>kv. fst kv @ ''='' @ snd kv) ps"
    by (simp add: filter_id_conv)
  then show ?thesis using pair by (simp add: parse_query_def sp)
qed

lemma param_plain:
  "kv \<in> set (param k v) \<Longrightarrow> url_plain (js_String v) \<Longrightarrow> fst kv = k \<and> url_plain (snd kv)"
  by (auto simp: param_def split: if_splits)

lemma filter_params_plain:
  assumes "plain_filters periods fs" and "kv \<in> set (filter_params periods fs p)"
  shows "url_plain (fst kv) \<and> CHR ''='' \<notin> set (fst kv) \<and> url_plain (snd kv)"
proof -
  have names: "url_plain k \<and> CHR ''='' \<notin> set k"
    if "k \<in> {''limit'', ''offset'', ''account_id'', ''category_id'', ''type'', ''status'', ''date_from'', ''date_to''}" for k
    using that by (auto simp: url_plain_def)
  have per: "url_plain (bp_start_date q) \<and> url_plain (the (bp_end_date q))"
    if "js_find (\<lambda>p. P p \<and> bp_end_date p \<noteq> None) periods = Some q" for P q
  proof -
    have "q \<in> set periods" "\<exists>e. bp_end_date q = Some e" using js_find_Some [OF that] by simp_all
    then show ?thesis using assms(1) by (auto simp: plain_filters_def list_all_iff)
  qed
  have dates: "url_plain (js_String (flt fs ''filterDateFrom''))" "url_plain (js_String (flt fs ''filterDateTo''))"
    using assms(1) by (simp_all add: plain_filters_def select_filters_def)
  have range: "fst kv \<in> {''date_from'', ''date_to''} \<and> url_plain (snd kv)" if r: "kv \<in> set (range_params periods fs)"
  proof (cases "js_truthy (flt fs ''filterPeriod'')")
    case True
    let ?P = "\<lambda>p. JStr (show_int (bp_id p)) = flt fs ''filterPeriod''"
    show ?thesis
    proof (cases "js_find (\<lambda>p. ?P p \<and> bp_end_date p \<noteq> None) periods")
      case (Some q)
      then show ?thesis using True r per [OF Some] by (auto simp: range_params_def simp del: not_None_eq)
    qed (use True r in \<open>simp add: range_params_def del: not_None_eq\<close>)
  next
    case False
    with r have "kv \<in> set (param ''date_from'' (flt fs ''filterDateFrom'')) \<or> kv \<in> set (param ''date_to'' (flt fs ''filterDateTo''))"
      by (simp add: range_params_def)
    then show ?thesis using dates param_plain by blast
  qed
  have sel: "url_plain (js_String (flt fs k))" if "k \<in> set select_filters" for k
    using assms(1) that by (simp add: plain_filters_def list_all_iff)
  have single: "fst kv = k \<and> url_plain (snd kv)" if "kv \<in> set (param k (flt fs f))" "f \<in> set select_filters" for k f
    using param_plain [OF that(1) sel [OF that(2)]] .
  have fs: "''filterAccount'' \<in> set select_filters" "''filterCategory'' \<in> set select_filters"
    "''filterType'' \<in> set select_filters" "''filterStatus'' \<in> set select_filters"
    by (simp_all add: select_filters_def)
  have "fst kv \<in> {''limit'', ''offset'', ''account_id'', ''category_id'', ''type'', ''status'', ''date_from'', ''date_to''}
      \<and> url_plain (snd kv)"
    using assms(2) range single [OF _ fs(1)] single [OF _ fs(2)] single [OF _ fs(3)] single [OF _ fs(4)]
    unfolding filter_params_def set_append Un_iff list.set insert_iff empty_iff
    by (elim disjE) (fastforce simp: fst_conv)+
  then show ?thesis using names by blast
qed

lemma request_params:
  assumes "plain_filters periods fs"
  shows "parse_query (transactions_query periods fs p) = filter_params periods fs p @
     (if js_truthy (flt fs ''filterSearch'') then [(''search'', concat (map utf8 (js_String (flt fs ''filterSearch''))))] else [])"
proof -
  let ?s = "js_String (flt fs ''filterSearch'')"
  let ?ps = "filter_params periods fs p @ (if js_truthy (flt fs ''filterSearch'') then [(''search'', encodeURIComponent ?s)] else [])"
  have d: "distinct (map bp_id periods)" using assms by (simp add: plain_filters_def)
  have amps: "CHR ''&'' \<notin> set (encodeURIComponent ?s)" using escape_byte_chars by (auto simp: encodeURIComponent_def)
  have plain: "url_plain (snd kv) \<Longrightarrow> CHR ''&'' \<notin> set (snd kv)" for kv :: "string \<times> string"
    by (auto simp: url_plain_def list_all_iff)
  have "url_plain ''search''" by (simp add: url_plain_def)
  then have "\<forall>kv \<in> set ?ps. url_plain (fst kv) \<and> CHR ''='' \<notin> set (fst kv) \<and> CHR ''&'' \<notin> set (snd kv)"
    using filter_params_plain [OF assms] plain amps by auto
  moreover have "?ps \<noteq> []" by (simp add: filter_params_def)
  ultimately have "parse_query (transactions_query periods fs p) = map (\<lambda>kv. (fst kv, form_decode (snd kv))) ?ps"
    unfolding query_params [OF d] by (rule parse_params)
  moreover have "map (\<lambda>kv. (fst kv, form_decode (snd kv))) (filter_params periods fs p) = filter_params periods fs p"
    by (rule map_idI) (use filter_params_plain [OF assms] form_decode_plain in auto)
  ultimately show ?thesis by (simp add: encodeURIComponent_def decode_escaped)
qed

text \<open>C39: The request says what the filters say. Take filters whose selects and dates hold texts without
  \<open>&\<close>, \<open>%\<close>, \<open>+\<close> and \<open>#\<close>, as the controls of the page put them there (ids, states and dates), and billing
  periods with distinct ids and such dates. Then what a query parser reads from the URL is the limit
  of one row more than a page, the offset of the page, one parameter for each filter that is
  set, the two dates of a closed billing period (or else the custom dates), and the UTF-8 bytes of
  the search text exactly as it was typed, \<open>&\<close>, \<open>=\<close>, \<open>%\<close>, blanks and accents included. The
  characters of the model are those up to U+00FF; lone surrogates, on which
  \<^verbatim>\<open>encodeURIComponent\<close> throws, are not among them.\<close>

theorem request_says_filters:
  assumes "plain_filters periods fs"
  shows "parse_query (transactions_query periods fs p) = filter_params periods fs p @
     (if js_truthy (flt fs ''filterSearch'') then [(''search'', concat (map utf8 (js_String (flt fs ''filterSearch''))))] else [])"
  by (rule request_params [OF assms])

definition demo_filters :: filters where
  "demo_filters = obj_spread TX_FILTER_DEFAULTS [(''filterAccount'', JInt 3), (''filterSearch'', JStr ''a&type=income'')]"

theorem request_says_filters_witness:
  "parse_query (transactions_query [] demo_filters 1)
     = [(''limit'', ''21''), (''offset'', ''20''), (''account_id'', ''3''), (''search'', ''a&type=income'')]"
proof -
  have "plain_filters [] demo_filters" by code_simp
  moreover have "filter_params [] demo_filters 1 = [(''limit'', ''21''), (''offset'', ''20''), (''account_id'', ''3'')]"
    by code_simp
  moreover have "js_truthy (flt demo_filters ''filterSearch'')"
    "concat (map utf8 (js_String (flt demo_filters ''filterSearch''))) = ''a&type=income''" by code_simp+
  ultimately show ?thesis using request_says_filters [of "[]" demo_filters 1] by simp
qed

subsection \<open>Paging\<close>

text \<open>A backend that serves a list by limit and offset, read from the query.\<close>

definition serve :: "'a list \<Rightarrow> string \<Rightarrow> 'a list" where
  "serve xs query = (let ps = parse_query query in
     take (digits_val (the (map_of ps ''limit''))) (drop (digits_val (the (map_of ps ''offset''))) xs))"

lemma serve_page:
  assumes "plain_filters periods fs"
  shows "serve xs (transactions_query periods fs p) = take (PAGE_SIZE + 1) (drop (p * PAGE_SIZE) xs)"
  unfolding serve_def request_params [OF assms] by (simp add: filter_params_def)

lemma take_pages: "concat (map (\<lambda>p. take k (drop (p * k) xs)) [0..<n]) = take (n * k) xs"
proof (induction n)
  case (Suc n)
  then show ?case by (simp add: take_add add.commute [of k])
qed simp

text \<open>Walking through the pages shows the backend's list: whatever filters are set, the rows of the
  pages before the n-th, one after the other, are the first n times twenty rows of the
  backend's answer, none twice and none left out, and Next is offered exactly while rows
  are left.\<close>

theorem pages_cover_list:
  assumes "plain_filters periods fs"
  shows "concat (map (\<lambda>p. tl_transactions (loaded (Some (serve xs (transactions_query periods fs p))) l)) [0..<n])
      = take (n * 20) xs
    \<and> (tl_hasMore (loaded (Some (serve xs (transactions_query periods fs p))) l) \<longleftrightarrow> (p + 1) * 20 < length xs)"
proof
  show "concat (map (\<lambda>p. tl_transactions (loaded (Some (serve xs (transactions_query periods fs p))) l)) [0..<n]) = take (n * 20) xs"
    using take_pages [of 20 xs n] by (simp add: serve_page [OF assms] loaded_def PAGE_SIZE_def)
  show "tl_hasMore (loaded (Some (serve xs (transactions_query periods fs p))) l) \<longleftrightarrow> (p + 1) * 20 < length xs"
    by (auto simp: serve_page [OF assms] loaded_def PAGE_SIZE_def)
qed

definition demo_tx :: transaction where
  "demo_tx = \<lparr>tx_id = 1, tx_account_id = 1, tx_account_name = ''Checking'', tx_category_id = 5, tx_category_name = ''Food'',
     tx_description = ''Lunch'', tx_amount = 25/2, tx_type = Expense, tx_status = TxSettled, tx_linked_transaction_id = None,
     tx_recurring_id = None, tx_date = ''2026-05-01'', tx_settled_date = None, tx_is_imported = False,
     tx_is_manual_adjustment = False, tx_tags = []\<rparr>"

definition demo_lc :: "string \<Rightarrow> string \<Rightarrow> int" where
  "demo_lc a b = int (length a) - int (length b)"

definition demo_so :: sort_state where
  "demo_so = \<lparr>so_field = ''amount'', so_dir = Desc\<rparr>"

theorem pages_cover_list_witness:
  "tl_hasMore (loaded (Some (serve (replicate 45 demo_tx) (transactions_query [] TX_FILTER_DEFAULTS 1))) (list_init empty_storage))"
proof -
  have "plain_filters [] TX_FILTER_DEFAULTS" by code_simp
  then show ?thesis
    using pages_cover_list [of "[]" TX_FILTER_DEFAULTS "replicate 45 demo_tx" "list_init empty_storage" 0 1] by simp
qed

subsection \<open>The hidden half of a transfer\<close>

definition hidden_half :: "transaction \<Rightarrow> bool" where
  "hidden_half t = (case tx_linked_transaction_id t of Some k \<Rightarrow> k \<noteq> 0 \<and> tx_id t > k | None \<Rightarrow> False)"

lemma hidden_ids: "selectionHiddenIds ts = map tx_id (filter hidden_half ts)"
  by (simp add: selectionHiddenIds_def hidden_half_def [abs_def])

lemma hidden_iff:
  assumes "distinct (map tx_id ts)" and "t \<in> set ts"
  shows "tx_id t \<in> set (selectionHiddenIds ts) \<longleftrightarrow> hidden_half t"
  using assms inj_onD [of tx_id "set ts" t] unfolding hidden_ids distinct_map by auto

lemma visible_iff:
  assumes "distinct (map tx_id ts)"
  shows "t \<in> set (visibleTxs lc so ts) \<longleftrightarrow> t \<in> set ts \<and> \<not> hidden_half t"
  using hidden_iff [OF assms] by (auto simp: visibleTxs_def sortedTransactions_def)

text \<open>A row that is not linked is always shown; and when both legs of a transfer are on the page
  exactly one of them is shown, the one with the smaller id.\<close>

theorem pair_shown_once:
  assumes "distinct (map tx_id ts)" and "t \<in> set ts" and "u \<in> set ts"
    and "tx_linked_transaction_id t = Some (tx_id u)" and "tx_linked_transaction_id u = Some (tx_id t)"
    and "0 < tx_id t" and "tx_id t < tx_id u" and "r \<in> set ts" and "tx_linked_transaction_id r = None"
  shows "r \<in> set (visibleTxs lc so ts) \<and> t \<in> set (visibleTxs lc so ts) \<and> u \<notin> set (visibleTxs lc so ts)"
  using assms by (simp add: visible_iff hidden_half_def)

definition demo_out :: transaction where
  "demo_out = demo_tx\<lparr>tx_id := 2, tx_linked_transaction_id := Some 3\<rparr>"

definition demo_in :: transaction where
  "demo_in = demo_tx\<lparr>tx_id := 3, tx_account_id := 2, tx_type := Income, tx_linked_transaction_id := Some 2\<rparr>"

theorem pair_shown_once_witness:
  "demo_out \<in> set (visibleTxs demo_lc demo_so [demo_tx, demo_in, demo_out]) \<and> demo_in \<notin> set (visibleTxs demo_lc demo_so [demo_tx, demo_in, demo_out])"
  using pair_shown_once [of "[demo_tx, demo_in, demo_out]" demo_out demo_in demo_tx demo_lc demo_so]
  by (simp add: demo_tx_def demo_out_def demo_in_def)

theorem visible_rows_sorted_witness:
  "mset (visibleTxs demo_lc demo_so [demo_tx, demo_tx\<lparr>tx_id := 4, tx_amount := 30\<rparr>]) = mset [demo_tx, demo_tx\<lparr>tx_id := 4, tx_amount := 30\<rparr>]"
proof -
  have lawful: "js_comparator (\<lambda>a b. rat_of_int (demo_lc a b))" by unfold_locales (auto simp: demo_lc_def)
  have all: "selectableTxs [demo_tx, demo_tx\<lparr>tx_id := 4, tx_amount := 30\<rparr>] = [demo_tx, demo_tx\<lparr>tx_id := 4, tx_amount := 30\<rparr>]"
    by (simp add: selectableTxs_def selectionHiddenIds_def demo_tx_def)
  have "so_field demo_so \<in> set SORT_FIELDS" by (simp add: SORT_FIELDS_def demo_so_def)
  from trans [OF conjunct1 [OF visible_rows_sorted [OF lawful this]] arg_cong [where f = mset, OF all]] show ?thesis .
qed

text \<open>C24: The hidden half is hidden whether or not its partner is on the page. Take the rows of one account,
  with distinct ids, as the backend sends them under an account filter, and a leg of a transfer
  among them whose partner is of another account and has the smaller id: the transfer is not
  shown at all, in any order (ids are positive, as the database gives them). No row of the table is that leg or its partner,
  and the leg cannot be selected.\<close>

theorem transfer_missing_under_account_filter:
  assumes "distinct (map tx_id ts)" and "\<forall>r \<in> set ts. tx_account_id r = account"
    and "t \<in> set ts" and "tx_linked_transaction_id t = Some (tx_id u)" and "0 < tx_id u" and "tx_id u < tx_id t"
    and "tx_account_id u \<noteq> account"
  shows "\<not> list_ex (\<lambda>r. r = t \<or> r = u) (visibleTxs lc so ts) \<and> t \<notin> set (selectableTxs ts)"
  using assms hidden_iff [OF assms(1,3)]
  by (auto simp: list_ex_iff visible_iff hidden_half_def selectableTxs_def)

theorem transfer_missing_under_account_filter_witness:
  "visibleTxs demo_lc demo_so [demo_in] = []"
proof -
  have "\<not> list_ex (\<lambda>r. r = demo_in \<or> r = demo_out) (visibleTxs demo_lc demo_so [demo_in])"
    using transfer_missing_under_account_filter [of "[demo_in]" 2 demo_in demo_out demo_lc demo_so]
    by (simp add: demo_tx_def demo_out_def demo_in_def)
  moreover have "set (visibleTxs demo_lc demo_so [demo_in]) \<subseteq> {demo_in}" by (auto simp: visibleTxs_def sortedTransactions_def)
  ultimately show ?thesis by (cases "visibleTxs demo_lc demo_so [demo_in]") (auto simp: list_ex_iff)
qed

subsection \<open>Selection\<close>

lemma fold_set_delete: "foldl set_delete xs ys = filter (\<lambda>i. i \<notin> set ys) xs"
  by (induction ys arbitrary: xs) (auto simp: set_delete_def intro: filter_cong)

lemma fold_set_add: "distinct xs \<Longrightarrow> distinct (foldl set_add xs ys) \<and> set (foldl set_add xs ys) = set xs \<union> set ys"
  by (induction ys arbitrary: xs) (auto simp: set_add_def)

text \<open>The header's checkbox: if every row shown is selected it deselects exactly those rows,
  otherwise it adds the missing ones; the selection never holds a row twice, rows of
  elsewhere keep their state, and a second click after a completing one leaves no row of
  the page selected.\<close>

theorem toggle_page_selects_all:
  assumes "distinct (tl_selectedIds l)"
  defines "rows \<equiv> tx_id ` set (selectableTxs (tl_transactions l))"
  shows "set (tl_selectedIds (togglePage l))
       = (if allPageSelected l then set (tl_selectedIds l) - rows else set (tl_selectedIds l) \<union> rows)
    \<and> distinct (tl_selectedIds (togglePage l))
    \<and> (if allPageSelected l then True else set (tl_selectedIds (togglePage (togglePage l))) = set (tl_selectedIds l) - rows \<or> rows = {})"
proof -
  have one: "set (tl_selectedIds (togglePage k))
       = (if allPageSelected k then set (tl_selectedIds k) - rows else set (tl_selectedIds k) \<union> rows)
     \<and> distinct (tl_selectedIds (togglePage k))"
    if "distinct (tl_selectedIds k)" "tl_transactions k = tl_transactions l" for k
    using that fold_set_add [OF that(1), of "map tx_id (selectableTxs (tl_transactions l))"]
    by (auto simp: togglePage_def fold_set_delete rows_def)
  have "allPageSelected (togglePage l)" if "\<not> allPageSelected l" "rows \<noteq> {}"
    using one [OF assms(1)] that by (auto simp: allPageSelected_def list_all_iff rows_def togglePage_def)
  then show ?thesis
    using one [OF assms(1)] one [of "togglePage l"] by (auto simp: togglePage_def)
qed

theorem toggle_page_selects_all_witness:
  "set (tl_selectedIds (togglePage ((list_init empty_storage)\<lparr>tl_transactions := [demo_tx]\<rparr>))) = {1}"
  using toggle_page_selects_all [of "(list_init empty_storage)\<lparr>tl_transactions := [demo_tx]\<rparr>"]
  by (simp add: list_init_def allPageSelected_def selectableTxs_def selectionHiddenIds_def demo_tx_def)

subsection \<open>The link check agrees with the backend\<close>

definition cents :: "rat \<Rightarrow> bool" where
  "cents q \<longleftrightarrow> 0 \<le> q \<and> is_integer (q * 100)"

lemma hundredths: "0 \<le> k \<Longrightarrow> of_nat (nat (k div 100)) + of_nat (nat (k mod 100)) / 100 = (of_int k / 100 :: rat)"
proof -
  assume "0 \<le> k"
  then have "(of_nat (nat (k div 100)) :: rat) = of_int (k div 100)" "(of_nat (nat (k mod 100)) :: rat) = of_int (k mod 100)"
    by (simp_all add: pos_imp_zdiv_nonneg_iff)
  moreover have "(of_int k :: rat) = of_int (100 * (k div 100) + k mod 100)" by (simp only: mult_div_mod_eq)
  then have "(of_int k :: rat) = 100 * of_int (k div 100) + of_int (k mod 100)" by (simp only: of_int_add of_int_mult of_int_numeral)
  ultimately show ?thesis by simp
qed

lemma amount_text_val:
  assumes "cents q"
  shows "\<exists>w f. amount_text q = decimal False w f \<and> decimal_ok w f \<and> decimal_val False w f = q"
proof -
  obtain k where k: "q * 100 = of_int k" using assms by (metis cents_def is_integer_def)
  have q0: "0 \<le> q" using assms by (simp add: cents_def)
  then have k0: "0 \<le> k" using k by (metis of_int_0_le_iff mult_nonneg_nonneg zero_le_numeral)
  have q: "q = of_int k / 100" using k by simp
  have fl: "\<lfloor>q\<rfloor> = k div 100" unfolding q using floor_divide_of_int_eq [of k 100, where 'a = rat] by simp
  have "0 \<le> k mod 100" "k mod 100 \<le> 99" by simp_all
  from pad2_digits [OF this] obtain a b where
    p: "pad2 (k mod 100) = [a, b]" "is_digit a" "is_digit b" "digits_val [a, b] = nat (k mod 100)" by blast
  have ab: "\<bar>q\<bar> = q" "\<not> q < 0" using q0 by simp_all
  have shown: "amount_text q = decimal False (show_nat (nat (k div 100))) (Some [a, b])"
    unfolding amount_text_def ab fl k floor_of_int p(1) using ab(2) by simp
  have "decimal_val False (show_nat (nat (k div 100))) (Some [a, b])
      = of_nat (nat (k div 100)) + of_nat (nat (k mod 100)) / 100"
    by (simp add: decimal_val_def frac_part_def frac_val_def p(4))
  then have "decimal_val False (show_nat (nat (k div 100))) (Some [a, b]) = q"
    unfolding hundredths [OF k0] q .
  moreover have "decimal_ok (show_nat (nat (k div 100))) (Some [a, b])"
    using p(2,3) show_nat_digits by (simp add: decimal_ok_def list_all_iff)
  ultimately show ?thesis using shown by blast
qed
lemma amounts_equal: "cents q \<Longrightarrow> cents r \<Longrightarrow> equalsAmount (amount_text q) (amount_text r) \<longleftrightarrow> q = r"
  using amount_text_val [of q] amount_text_val [of r] equalsAmount_iff by fastforce

lemma selected_pair:
  assumes "distinct (map tx_id (tl_transactions l))" and "a \<in> set (tl_transactions l)" and "b \<in> set (tl_transactions l)"
    and "tl_selectedIds l = [tx_id a, tx_id b]"
  shows "evaluateLinkSelection l = evaluate_pair (tl_accounts l) a b"
  using assms js_find_distinct [OF assms(1,2)] js_find_distinct [OF assms(1,3)]
  by (simp add: evaluateLinkSelection_def List.map_filter_def)

lemma opposite_type: "tx_type a \<noteq> tx_type b \<Longrightarrow> tx_type a = Income \<longleftrightarrow> tx_type b = Expense"
  by (cases "tx_type a"; cases "tx_type b") auto


definition demo_account :: account where
  "demo_account = \<lparr>ac_id = 1, ac_name = ''Checking'', ac_account_type_id = 1, ac_account_type_name = ''Checking'',
     ac_account_type_slug = Some ''checking'', ac_balance = 0, ac_currency = ''EUR'', ac_is_active = True, ac_close_day = None,
     ac_is_default = True, ac_opening_balance = None, ac_opening_balance_date = None\<rparr>"

definition demo_list :: "storage \<Rightarrow> tx_listing" where
  "demo_list st = (list_init st)\<lparr>tl_transactions := [demo_tx, demo_in\<lparr>tx_linked_transaction_id := None\<rparr>],
     tl_accounts := [demo_account, demo_account\<lparr>ac_id := 2\<rparr>], tl_selectedIds := [1, 3]\<rparr>"


subsection \<open>Invariant of the list\<close>

lemma flt_put [simp]: "flt (obj_put fs (k, v)) j = (if j = k then v else flt fs j)"
proof (cases "k \<in> fst ` set fs")
  case True
  let ?m = "\<lambda>xs. map (\<lambda>p. if fst p = k then (k, v) else p) xs"
  have "k \<in> fst ` set xs \<Longrightarrow> map_of (?m xs) k = Some v" for xs :: filters
    by (induction xs) auto
  moreover have "j \<noteq> k \<Longrightarrow> map_of (?m xs) j = map_of xs j" for xs :: filters
    by (induction xs) auto
  ultimately show ?thesis using True by (cases "j = k") (simp_all add: flt_def js_get_def obj_put_def)
next
  case False
  then have "map_of fs k = None" by (simp add: map_of_eq_None_iff)
  with False show ?thesis by (auto simp: flt_def js_get_def obj_put_def map_add_def split: option.split)
qed

lemma spread_simps [simp]:
  "obj_spread fs [] = fs"
  "obj_spread fs (kv # kvs) = obj_spread (obj_put fs kv) kvs"
  by (simp_all add: obj_spread_def)

lemma put_keys: "k \<in> fst ` set fs \<Longrightarrow> map fst (obj_put fs (k, v)) = map fst fs"
proof -
  have "map fst (map (\<lambda>p. if fst p = k then (k, v) else p) fs) = map fst fs" by (induction fs) auto
  then show "k \<in> fst ` set fs \<Longrightarrow> map fst (obj_put fs (k, v)) = map fst fs" by (simp add: obj_put_def)
qed

lemma spread_keys: "fst ` set patch \<subseteq> fst ` set fs \<Longrightarrow> map fst (obj_spread fs patch) = map fst fs"
proof (induction patch arbitrary: fs)
  case (Cons kv patch)
  obtain k v where kv: "kv = (k, v)" by (cases kv)
  have same: "map fst (obj_put fs kv) = map fst fs" using Cons.prems kv by (simp add: put_keys)
  then have "fst ` set (obj_put fs kv) = fst ` set fs" by (metis set_map)
  then show ?case using Cons.IH [of "obj_put fs kv"] Cons.prems same by simp
qed simp

text \<open>A billing period and custom dates exclude one another.\<close>

definition one_range :: "filters \<Rightarrow> bool" where
  "one_range fs \<longleftrightarrow> \<not> js_truthy (flt fs ''filterPeriod'')
     \<or> \<not> js_truthy (flt fs ''filterDateFrom'') \<and> \<not> js_truthy (flt fs ''filterDateTo'')"

definition patch_ok :: "filters \<Rightarrow> bool" where
  "patch_ok patch \<longleftrightarrow> fst ` set patch \<subseteq> fst ` set TX_FILTER_DEFAULTS \<and> (\<forall>fs. one_range fs \<longrightarrow> one_range (obj_spread fs patch))"

lemma falsy_empty [simp]: "\<not> js_truthy (JStr [])"
  by (simp add: js_truthy_def)

lemma filter_names: "fst ` set TX_FILTER_DEFAULTS = {''filterAccount'', ''filterCategory'', ''filterType'', ''filterStatus'',
     ''filterDateFrom'', ''filterDateTo'', ''filterSearch'', ''filterPeriod''}"
  by (simp add: TX_FILTER_DEFAULTS_def)

lemma control_patch_ok: "patch_ok (control_patch now c)"
proof (cases c)
  case (FPeriod v)
  then show ?thesis by (cases v) (auto simp: patch_ok_def control_patch_def one_range_def filter_names)
qed (auto simp: patch_ok_def control_patch_def one_range_def filter_names setRange_def split: prod.split)

lemma period_patch_ok: "patch_ok [(''filterPeriod'', JStr [])]"
  by (simp add: patch_ok_def one_range_def filter_names)

lemma category_patch_ok: "patch_ok [(''filterCategory'', v)]"
  by (auto simp: patch_ok_def one_range_def filter_names)

lemma url_patch_ok: "patch_ok (url_patch get)"
proof -
  define a where "a = (case positive_id (get ''account_id'') of Some q \<Rightarrow> [(''filterAccount'', JNum q)] | None \<Rightarrow> [])"
  have a: "a = [] \<or> (\<exists>q. a = [(''filterAccount'', JNum q)])"
    by (simp add: a_def split: option.split)
  have d: "date_patch get n f = [] \<or> (\<exists>d. date_patch get n f = [(f, JStr d), (''filterPeriod'', JStr [])])" for n f
    by (auto simp: date_patch_def split: option.split)
  let ?F = "\<lambda>d. (''filterDateFrom'', JStr d)" and ?T = "\<lambda>d. (''filterDateTo'', JStr d)" and ?P = "(''filterPeriod'', JStr [])"
  have "\<exists>d e. url_patch get \<in> {a, a @ [?F d, ?P], a @ [?T e, ?P], a @ [?F d, ?P, ?T e]}"
    using a d [of "''date_from''" "''filterDateFrom''"] d [of "''date_to''" "''filterDateTo''"]
    unfolding url_patch_def a_def [symmetric] by (elim disjE exE) (simp_all add: obj_put_def)
  moreover have "patch_ok a" "patch_ok (a @ [?F d, ?P])" "patch_ok (a @ [?T e, ?P])" "patch_ok (a @ [?F d, ?P, ?T e])" for d e
    using a by (auto simp: patch_ok_def one_range_def filter_names)
  ultimately show ?thesis by (elim exE) (simp only: insert_iff empty_iff, elim disjE, simp_all)
qed

definition filters_inv :: "bool \<Rightarrow> tx_listing \<Rightarrow> bool" where
  "filters_inv b l \<longleftrightarrow> map fst (tl_filters l) = map fst TX_FILTER_DEFAULTS \<and> (b \<longrightarrow> one_range (tl_filters l))"

definition rows_inv :: "tx_listing \<Rightarrow> bool" where
  "rows_inv l \<longleftrightarrow> distinct (tl_selectedIds l) \<and> length (tl_transactions l) \<le> PAGE_SIZE
     \<and> (tl_hasMore l \<longrightarrow> length (tl_transactions l) = PAGE_SIZE) \<and> so_field (tl_sort l) \<in> set SORT_FIELDS
     \<and> (tl_fetching l \<longrightarrow> tl_loads l \<noteq> [])"

definition list_inv :: "bool \<Rightarrow> tx_listing \<Rightarrow> bool" where
  "list_inv b l \<longleftrightarrow> filters_inv b l \<and> rows_inv l"

lemma load_effect_inv: "filters_inv b l \<Longrightarrow> rows_inv (l\<lparr>tl_fetching := False\<rparr>) \<Longrightarrow> list_inv b (load_effect l)"
  by (simp add: list_inv_def filters_inv_def rows_inv_def load_effect_def load_begin_def)

lemma rows_not_fetching: "rows_inv l \<Longrightarrow> rows_inv (l\<lparr>tl_fetching := False\<rparr>)"
  by (simp add: rows_inv_def)

lemma clearSelection_inv: "list_inv b l \<Longrightarrow> list_inv b (clearSelection l)"
  by (simp add: list_inv_def filters_inv_def rows_inv_def clearSelection_def)

lemma filters_effects_inv:
  assumes "filters_inv b l" and "rows_inv (l\<lparr>tl_fetching := False\<rparr>)"
  shows "list_inv b (filters_effects l)"
proof -
  have "list_inv b ((load_effect l)\<lparr>tl_page := 0\<rparr>)"
    using load_effect_inv [OF assms] by (simp add: list_inv_def filters_inv_def rows_inv_def)
  then have c: "list_inv b (clearSelection ((load_effect l)\<lparr>tl_page := 0\<rparr>))" by (rule clearSelection_inv)
  then have "list_inv b (load_effect (clearSelection ((load_effect l)\<lparr>tl_page := 0\<rparr>)))"
    by (intro load_effect_inv rows_not_fetching) (simp_all add: list_inv_def)
  with c show ?thesis by (simp add: filters_effects_def Let_def)
qed

lemma apply_filters_inv:
  assumes "list_inv b l" and "patch_ok patch"
  shows "list_inv b (apply_filters patch l)"
proof -
  let ?fs = "obj_spread (tl_filters l) patch"
  have keys: "map fst (tl_filters l) = map fst TX_FILTER_DEFAULTS" using assms(1) by (simp add: list_inv_def filters_inv_def)
  then have "fst ` set (tl_filters l) = fst ` set TX_FILTER_DEFAULTS" by (metis set_map)
  then have "map fst ?fs = map fst TX_FILTER_DEFAULTS" using assms(2) keys spread_keys by (simp add: patch_ok_def)
  moreover have "b \<longrightarrow> one_range ?fs" using assms by (simp add: patch_ok_def list_inv_def filters_inv_def)
  ultimately have "list_inv b (filters_effects (l\<lparr>tl_filters := ?fs, tl_storage := st\<rparr>))" for st
    using assms(1) by (intro filters_effects_inv) (simp_all add: list_inv_def filters_inv_def rows_inv_def)
  moreover have "list_inv b (l\<lparr>tl_storage := st\<rparr>)" for st
    using assms(1) by (simp add: list_inv_def filters_inv_def rows_inv_def)
  ultimately show ?thesis by (simp add: apply_filters_def set_filters_def Let_def)
qed

lemma setFilters_inv: "list_inv b l \<Longrightarrow> patch_ok patch \<Longrightarrow> list_inv b (setFilters patch l)"
  by (simp add: setFilters_def period_effect_def apply_filters_inv period_patch_ok)

lemma set_sort_inv: "list_inv b l \<Longrightarrow> f \<in> set SORT_FIELDS \<Longrightarrow> list_inv b (set_sort f d l)"
  by (auto simp: set_sort_def setSort_def list_inv_def filters_inv_def rows_inv_def clearSelection_def)

lemma toggleSort_inv:
  assumes "list_inv b l"
  shows "list_inv b (toggleSort f l)"
proof -
  have "map_of SORT_DEFAULTS f = Some d \<Longrightarrow> f \<in> set SORT_FIELDS" for d
    by (auto simp: SORT_DEFAULTS_def SORT_FIELDS_def split: if_splits)
  moreover have "so_field (tl_sort l) \<in> set SORT_FIELDS" using assms by (simp add: list_inv_def rows_inv_def)
  ultimately show ?thesis using assms by (auto simp: toggleSort_def set_sort_inv split: option.split)
qed

lemma reset_all_inv:
  assumes "list_inv b l"
  shows "list_inv b (reset_all l)"
proof -
  have d: "''date'' \<in> set SORT_FIELDS" "one_range TX_FILTER_DEFAULTS" by code_simp+
  let ?l1 = "\<lambda>st. l\<lparr>tl_sort := \<lparr>so_field = ''date'', so_dir = Desc\<rparr>, tl_storage := st\<rparr>"
  have one: "list_inv b (?l1 st)" for st
    using assms d by (simp add: list_inv_def filters_inv_def rows_inv_def)
  then have two: "list_inv b (clearSelection (?l1 st))" for st by (rule clearSelection_inv)
  have three: "list_inv b (l\<lparr>tl_storage := st\<rparr>)" for st
    using assms by (simp add: list_inv_def filters_inv_def rows_inv_def)
  have "list_inv b (filters_effects (k\<lparr>tl_filters := TX_FILTER_DEFAULTS\<rparr>))" if "list_inv b k" for k
    using that d by (intro filters_effects_inv) (simp_all add: list_inv_def filters_inv_def rows_inv_def)
  then show ?thesis using one two three by (simp add: reset_all_def reset_filters_def reset_sort_def Let_def)
qed

lemma goto_page_inv: "list_inv b l \<Longrightarrow> list_inv b (goto_page p l)"
proof -
  assume "list_inv b l"
  then have "list_inv b (load_effect (l\<lparr>tl_page := p\<rparr>))"
    by (intro load_effect_inv) (simp_all add: list_inv_def filters_inv_def rows_inv_def)
  then show ?thesis using \<open>list_inv b l\<close> by (simp add: goto_page_def clearSelection_inv)
qed

lemma toggle_inv: "list_inv b l \<Longrightarrow> list_inv b (toggleOne i l)" "list_inv b l \<Longrightarrow> list_inv b (togglePage l)"
proof -
  have sel: "list_inv b l \<Longrightarrow> distinct xs \<Longrightarrow> list_inv b (l\<lparr>tl_selectedIds := xs\<rparr>)" for xs
    by (simp add: list_inv_def filters_inv_def rows_inv_def)
  have d: "list_inv b l \<Longrightarrow> distinct (tl_selectedIds l)" by (simp add: list_inv_def rows_inv_def)
  show "list_inv b l \<Longrightarrow> list_inv b (toggleOne i l)" unfolding toggleOne_def
    by (rule sel) (use d in \<open>auto simp: set_delete_def set_add_def\<close>)
  show "list_inv b l \<Longrightarrow> list_inv b (togglePage l)" unfolding togglePage_def
    by (rule sel) (use d fold_set_add in \<open>auto simp: fold_set_delete\<close>)
qed

lemma load_settles_inv:
  assumes "list_inv b l"
  shows "list_inv b (load_settles i ans l)"
proof -
  have "list_inv b (loaded ts (l\<lparr>tl_loads := us\<rparr>))" for ts us
    using assms by (auto simp: loaded_def Let_def list_inv_def filters_inv_def rows_inv_def)
  moreover have "list_inv b (l\<lparr>tl_loads := us, tl_fetching := False\<rparr>)" for us
    using assms by (simp add: list_inv_def filters_inv_def rows_inv_def)
  ultimately show ?thesis using assms by (simp add: load_settles_def Let_def split: sum.split)
qed

lemma category_effect_inv: "list_inv b l \<Longrightarrow> list_inv b (category_effect get l)"
proof -
  assume l: "list_inv b l"
  then have "list_inv b (l\<lparr>tl_categorySynced := True\<rparr>)" by (simp add: list_inv_def filters_inv_def rows_inv_def)
  then have "list_inv b (setFilters [(''filterCategory'', v)] (l\<lparr>tl_categorySynced := True\<rparr>))" for v
    using category_patch_ok by (rule setFilters_inv)
  with l show ?thesis by (simp add: category_effect_def split: option.split)
qed

lemma refs_loaded_inv: "list_inv b l \<Longrightarrow> list_inv b (refs_loaded get accts cats pers l)"
proof -
  assume "list_inv b l"
  then have "list_inv b (load_effect (l\<lparr>tl_accounts := a, tl_categories := c, tl_periods := p, tl_periodsLoaded := True\<rparr>))" for a c p
    by (intro load_effect_inv) (simp_all add: list_inv_def filters_inv_def rows_inv_def)
  then have "list_inv b (category_effect get (load_effect (l\<lparr>tl_accounts := a, tl_categories := c, tl_periods := p, tl_periodsLoaded := True\<rparr>)))" for a c p
    by (rule category_effect_inv)
  then show ?thesis
    by (simp add: refs_loaded_def Let_def period_effect_def apply_filters_inv period_patch_ok)
qed

lemma list_step_inv: "list_inv b l \<Longrightarrow> list_inv b (list_step get now l e)"
proof (cases e)
  case LEsc
  then show "list_inv b l \<Longrightarrow> ?thesis" by (simp add: list_esc_def clearSelection_inv)
qed (simp_all add: setFilters_inv control_patch_ok toggleSort_inv reset_all_inv click_previous_def click_next_def
    goto_page_inv toggle_inv clearSelection_inv load_settles_inv refs_loaded_inv)

interpretation tx_rows: step_machine "list_step get now" "list_inv b" for get now b
  by unfold_locales (rule list_step_inv)

text \<open>C25: Whatever the storage held, whatever the URL says and whatever the user does, in whatever order
  the answers come: the page's filters have exactly their eight fields, the column is one of the
  six, the selection has no duplicates, at most twenty rows are kept (exactly twenty while Next is
  offered), and the spinner is shown only while a load is under way. And if the stored filters did
  not have both a billing period and custom dates, the page never has both in force.\<close>

theorem transactions_list_invariant:
  fixes st :: storage
  defines "stored \<equiv> usePersistedFilters st FILTERS_KEY_TRANSACTIONS TX_FILTER_DEFAULTS"
  assumes "l = run (list_step get now) (list_mount st get) es"
  shows "map fst (tl_filters l) = map fst TX_FILTER_DEFAULTS
    \<and> so_field (tl_sort l) \<in> set SORT_FIELDS \<and> distinct (tl_selectedIds l) \<and> length (tl_transactions l) \<le> 20
    \<and> (tl_hasMore l \<longrightarrow> length (tl_transactions l) = 20) \<and> (tl_fetching l \<longrightarrow> tl_loads l \<noteq> [])
    \<and> (one_range stored \<longrightarrow> one_range (tl_filters l))"
proof -
  have keys: "map fst stored = map fst TX_FILTER_DEFAULTS"
    by (simp add: stored_def usePersistedFilters_def Let_def merge_keys)
  have "so_field (usePersistedSort st SORT_KEY_TRANSACTIONS ''date'' Desc (Some SORT_FIELDS)) \<in> set SORT_FIELDS"
    by (simp add: usePersistedSort_def Let_def SORT_FIELDS_def)
  then have "list_inv (one_range stored) (load_effect (list_init st))"
    using keys by (intro load_effect_inv) (simp_all add: list_init_def filters_inv_def rows_inv_def stored_def)
  then have "list_inv (one_range stored) (list_mount st get)"
    by (simp add: list_mount_def url_filters_effect_def setFilters_inv url_patch_ok)
  then have "list_inv (one_range stored) l" unfolding assms(2) by (rule tx_rows.run_inv)
  then show ?thesis by (simp add: list_inv_def filters_inv_def rows_inv_def PAGE_SIZE_def)
qed

theorem transactions_list_invariant_witness:
  "one_range (tl_filters (run (list_step (\<lambda>_. None) (2026, 5, 4)) (list_mount (empty_storage\<lparr>st_readable := False\<rparr>) (\<lambda>_. None))
     [LControl (FFrom ''2026-01-01''), LControl (FPeriod ''7'')]))"
proof -
  have "one_range (usePersistedFilters (empty_storage\<lparr>st_readable := False\<rparr>) FILTERS_KEY_TRANSACTIONS TX_FILTER_DEFAULTS)"
    by (simp add: usePersistedFilters_def readPersisted_def empty_storage_def isPlainObject_def one_range_def flt_def
        js_get_def merge_stored_def TX_FILTER_DEFAULTS_def is_primitive_def js_truthy_def)
  then show ?thesis using transactions_list_invariant [OF refl] by blast
qed

text \<open>Loads are neither cancelled nor numbered: when the answer to an older request comes after the
  answer to the newer one, the page shows the rows of the older filters under the newer
  filters, with no load under way that would correct it.\<close>

theorem late_answer_overwrites:
  assumes "tl_loads l = []" and "tl_page l = 0"
    and "l1 = run (list_step get now) l [LControl (FSearch s), LControl (FSearch u)]"
    and "tl_loads l1 = [url_s, url_u]"
  shows "tl_transactions (run (list_step get now) l1 [LSettles 1 (Inr (Some new)), LSettles 0 (Inr (Some old))]) = take 20 old
    \<and> tl_filters (run (list_step get now) l1 [LSettles 1 (Inr (Some new)), LSettles 0 (Inr (Some old))]) = tl_filters l1
    \<and> \<not> tl_fetching (run (list_step get now) l1 [LSettles 1 (Inr (Some new)), LSettles 0 (Inr (Some old))])
    \<and> tl_loads (run (list_step get now) l1 [LSettles 1 (Inr (Some new)), LSettles 0 (Inr (Some old))]) = []"
  using assms(4) by (simp add: load_settles_def loaded_def Let_def PAGE_SIZE_def)

definition idle_list :: tx_listing where
  "idle_list = (list_init (empty_storage\<lparr>st_writable := False\<rparr>))\<lparr>tl_fetching := False, tl_filters := TX_FILTER_DEFAULTS\<rparr>"

theorem late_answer_overwrites_witness:
  "tl_transactions (run (list_step (\<lambda>_. None) (2026, 5, 4))
      (run (list_step (\<lambda>_. None) (2026, 5, 4)) idle_list [LControl (FSearch ''a''), LControl (FSearch ''ab'')])
      [LSettles 1 (Inr (Some [])), LSettles 0 (Inr (Some [demo_tx]))]) = [demo_tx]"
proof -
  have l1: "tl_loads (run (list_step (\<lambda>_. None) (2026, 5, 4)) idle_list [LControl (FSearch ''a''), LControl (FSearch ''ab'')])
      = [transactions_url [] (obj_put TX_FILTER_DEFAULTS (''filterSearch'', JStr ''a'')) 0,
         transactions_url [] (obj_put TX_FILTER_DEFAULTS (''filterSearch'', JStr ''ab'')) 0]"
    by (simp add: idle_list_def list_init_def setFilters_def control_patch_def apply_filters_def set_filters_def
        filters_effects_def load_effect_def load_begin_def clearSelection_def period_effect_def Let_def TX_FILTER_DEFAULTS_def obj_put_def)
  have "tl_loads idle_list = []" "tl_page idle_list = 0" by (simp_all add: idle_list_def list_init_def)
  from late_answer_overwrites [OF this refl l1] show ?thesis by simp
qed

subsection \<open>Quick ranges\<close>

lemma div_step:
  assumes "(0 :: int) < k"
  shows "n div k = (n - 1) div k + (if n mod k = 0 then 1 else 0)"
proof -
  let ?q = "(n - 1) div k" and ?r = "(n - 1) mod k"
  have n: "n = k * ?q + (?r + 1)" by (simp add: algebra_simps)
  have r: "0 \<le> ?r" "?r < k" using assms by simp_all
  show ?thesis
  proof (cases "?r + 1 = k")
    case True
    then have "n = k * (?q + 1)" using n by (simp add: algebra_simps)
    then have "n div k = ?q + 1" "n mod k = 0" using assms by (metis nonzero_mult_div_cancel_left less_irrefl, metis mod_mult_self1_is_0)
    then show ?thesis by simp
  next
    case False
    then have "n div k = ?q" "n mod k = ?r + 1"
      using n r int_div_pos_eq [of n k ?q "?r + 1"] int_mod_pos_eq [of n k ?q "?r + 1"] by simp_all
    then show ?thesis using r by simp
  qed
qed

lemma year_arith:
  fixes l :: int
  assumes "a = p + i" and "b = q + j" and "c = r + k" and "l = i - j + k"
  shows "365 * y + a - b + c = (365 * (y - 1) + p - q + r) + 365 + l"
  unfolding assms by (simp add: right_diff_distrib)

lemma leap_split:
  "(D \<Longrightarrow> C) \<Longrightarrow> (C \<Longrightarrow> A) \<Longrightarrow> (if A \<and> (\<not> C \<or> D) then 1 else 0)
     = (if A then 1 else 0) - (if C then 1 else 0) + (if D then 1 else (0 :: int))"
  by (cases A; cases C; cases D; simp)

lemma mod_zero_factor: "(a :: int) mod (b * c) = 0 \<Longrightarrow> a mod b = 0"
  by (metis dvd_eq_mod_eq_0 dvd_mult_left)

lemma leap_parts: "(if leap_year y then 1 else 0) = (if y mod 4 = 0 then 1 else 0) - (if y mod 100 = 0 then 1 else 0)
      + (if y mod 400 = 0 then 1 else (0 :: int))"
proof -
  have "y mod 400 = 0 \<Longrightarrow> y mod 100 = 0" using mod_zero_factor [of y 100 4] by simp
  moreover have "y mod 100 = 0 \<Longrightarrow> y mod 4 = 0" using mod_zero_factor [of y 4 25] by simp
  ultimately show ?thesis unfolding leap_year_def by (rule leap_split)
qed

lemma year_step: "days_before_year (y + 1) = days_before_year y + 365 + (if leap_year y then 1 else 0)"
proof -
  have "y div 4 = (y - 1) div 4 + (if y mod 4 = 0 then 1 else 0)" by (rule div_step) simp
  moreover have "y div 100 = (y - 1) div 100 + (if y mod 100 = 0 then 1 else 0)" by (rule div_step) simp
  moreover have "y div 400 = (y - 1) div 400 + (if y mod 400 = 0 then 1 else 0)" by (rule div_step) simp
  ultimately show ?thesis
    unfolding days_before_year_def add_diff_cancel_right' by (rule year_arith) (rule leap_parts)
qed

lemma months_of_year: "(\<Sum>k \<leftarrow> [1..11]. days_in_month y k) = 334 + (if leap_year y then 1 else 0)"
  by (simp add: upto.simps days_in_month_def)

lemma prev_day_number: "valid_date d \<Longrightarrow> day_number (prev_day d) = day_number d - 1"
proof (cases d)
  case (fields y m k)
  assume v: "valid_date d"
  consider "k > 1" | "k = 1" "m > 1" | "k = 1" "m = 1" using v fields by auto linarith
  then show ?thesis
  proof cases
    case 2
    have "[1..m - 1] = [1..m - 1 - 1] @ [m - 1]" using 2 by (intro upto_rec2) simp
    with 2 fields show ?thesis by simp
  next
    case 3
    then show ?thesis using fields year_step [of "y - 1"] months_of_year [of "y - 1"] by simp
  qed (simp add: fields)
qed

lemma prev_day_valid: "valid_date d \<Longrightarrow> valid_date (prev_day d)"
proof (cases d)
  case (fields y m k)
  then show "valid_date d \<Longrightarrow> valid_date (prev_day d)"
    using days_in_month_range [of y m] days_in_month_range [of y "m - 1"] by (auto simp: days_in_month_def)
qed

lemma prev_day_le: "valid_date d \<Longrightarrow> date_le (prev_day d) d"
  by (cases d) auto

lemma date_le_trans: "date_le a b \<Longrightarrow> date_le b c \<Longrightarrow> date_le a c"
  by (cases a; cases b; cases c) auto

lemma days_back:
  "valid_date d \<Longrightarrow> day_number ((prev_day ^^ n) d) = day_number d - int n \<and> valid_date ((prev_day ^^ n) d) \<and> date_le ((prev_day ^^ n) d) d"
proof (induction n)
  case 0
  then show ?case by (cases d) simp
next
  case (Suc n)
  let ?e = "(prev_day ^^ n) d"
  have e: "day_number ?e = day_number d - int n" "valid_date ?e" "date_le ?e d" using Suc by simp_all
  have "date_le (prev_day ?e) d" by (rule date_le_trans [OF prev_day_le [OF e(2)] e(3)])
  then show ?case using prev_day_number [OF e(2)] prev_day_valid [OF e(2)] e(1) by simp
qed

lemma monday_offset:
  "let diff = (if nat ((N :: int) mod 7) = 0 then 6 else nat (N mod 7) - 1) in diff \<le> 6 \<and> (N - int diff) mod 7 = 1"
proof -
  have "0 \<le> N mod 7" "N mod 7 < 7" by simp_all
  then have b: "N mod 7 \<in> {0, 1, 2, 3, 4, 5, 6}" by auto
  have "(N - k) mod 7 = (N mod 7 - k) mod 7" for k by (simp only: mod_diff_left_eq)
  then show ?thesis using b unfolding insert_iff empty_iff by (elim disjE) (simp_all add: Let_def)
qed
text \<open>This Week starts on the Monday of the current week: the day it starts on is a Monday, not
  after today and at most six days before it. This Month spans the month that today is in.\<close>

theorem quick_ranges_correct:
  assumes "valid_date now"
  shows "(\<exists>mon. preset_range now ThisWeek = (formatLocalDate mon, todayISO now) \<and> valid_date mon \<and> getDay mon = 1
      \<and> date_le mon now \<and> 0 \<le> day_number now - day_number mon \<and> day_number now - day_number mon \<le> 6)
    \<and> (\<exists>a b. preset_range now ThisMonth = (formatLocalDate a, formatLocalDate b) \<and> date_le a now \<and> date_le now b
      \<and> valid_date a \<and> valid_date b \<and> snd (snd a) = 1 \<and> snd (snd (next_day b)) = 1)"
proof
  let ?diff = "if getDay now = 0 then 6 else getDay now - 1"
  have monday: "valid_date ((prev_day ^^ ?diff) now)" "date_le ((prev_day ^^ ?diff) now) now"
    "day_number ((prev_day ^^ ?diff) now) = day_number now - int ?diff"
    using days_back [OF assms, of ?diff] by simp_all
  have "?diff \<le> 6 \<and> (day_number now - int ?diff) mod 7 = 1"
    using monday_offset [of "day_number now"] unfolding getDay_def Let_def .
  then show "\<exists>mon. preset_range now ThisWeek = (formatLocalDate mon, todayISO now) \<and> valid_date mon \<and> getDay mon = 1
      \<and> date_le mon now \<and> 0 \<le> day_number now - day_number mon \<and> day_number now - day_number mon \<le> 6"
    using monday by (intro exI [of _ "(prev_day ^^ ?diff) now"]) (simp add: preset_range_def Let_def getDay_def)
  show "\<exists>a b. preset_range now ThisMonth = (formatLocalDate a, formatLocalDate b) \<and> date_le a now \<and> date_le now b
      \<and> valid_date a \<and> valid_date b \<and> snd (snd a) = 1 \<and> snd (snd (next_day b)) = 1"
  proof (cases now)
    case (fields y m d)
    then show ?thesis using assms days_in_month_range [of y m]
      by (intro exI [of _ "(y, m, 1)"] exI [of _ "(y, m, days_in_month y m)"]) (auto simp: preset_range_def)
  qed
qed

theorem quick_ranges_correct_witness:
  "\<exists>mon. preset_range (2026, 5, 3) ThisWeek = (formatLocalDate mon, ''2026-05-03'') \<and> getDay mon = 1"
proof -
  have "valid_date (2026, 5, 3)" "todayISO (2026, 5, 3) = ''2026-05-03''" by code_simp+
  then show ?thesis using quick_ranges_correct [of "(2026, 5, 3)"] by auto
qed

end
