(* ===== verification/Tx_Page.thy ===== *)
theory Tx_Page
  imports Tx_List
begin

section \<open>The transactions page (app/transactions/page.tsx)\<close>

text \<open>
  The create form, the inline edit, deletion, the transfer dialogs' openings and the
  refresh, on top of the list of Tx_List. A handler runs to its end on the values of the
  render in which it was called: it takes the page and the request log and returns both;
  the answer to a request depends on the log up to and including it. The start of an edit
  is split at its \<^verbatim>\<open>await\<close>, because the user can start another edit meanwhile. Today and
  the default due date (thirty days ahead, in UTC) are parameters.
\<close>

subsection \<open>State\<close>

datatype form_mode = FmTransaction | FmTransfer

record tx_form =
  tf_mode :: form_mode
  tf_accountId :: "int option"
  tf_toAccountId :: "int option"
  tf_transferCatId :: "int option"
  tf_categoryId :: "int option"
  tf_description :: string
  tf_amount :: string
  tf_type :: tx_type
  tf_status :: tx_status
  tf_date :: string
  tf_settledDate :: string
  tf_tags :: "string list"
  tf_recurring :: bool
  tf_frequency :: string
  tf_autoSettle :: bool

record tx_edit =
  te_id :: "int option"
  te_desc :: string
  te_amount :: string
  te_type :: tx_type
  te_status :: tx_status
  te_date :: string
  te_settledDate :: string
  te_accountId :: "int option"
  te_categoryId :: "int option"
  te_tags :: "string list"
  te_promote :: bool
  te_recFrequency :: string
  te_recNextDue :: string
  te_partner :: "transaction option"

record tx_page =
  pg_list :: tx_listing
  pg_showForm :: bool
  pg_error :: string
  pg_refreshError :: bool
  pg_refreshing :: bool
  pg_form :: tx_form
  pg_edit :: tx_edit
  pg_confirmDeleteId :: "int option"
  pg_linkModalLegs :: "(transaction \<times> transaction) option"
  pg_markModalSource :: "transaction option"
  pg_unpairModalLegs :: "(transaction \<times> transaction) option"

definition form_init :: "string \<Rightarrow> tx_form" where
  "form_init today = \<lparr>tf_mode = FmTransaction, tf_accountId = None, tf_toAccountId = None, tf_transferCatId = None,
     tf_categoryId = None, tf_description = [], tf_amount = [], tf_type = Expense, tf_status = TxSettled,
     tf_date = today, tf_settledDate = [], tf_tags = [], tf_recurring = False, tf_frequency = ''monthly'',
     tf_autoSettle = False\<rparr>"

definition edit_init :: tx_edit where
  "edit_init = \<lparr>te_id = None, te_desc = [], te_amount = [], te_type = Expense, te_status = TxSettled, te_date = [],
     te_settledDate = [], te_accountId = None, te_categoryId = None, te_tags = [], te_promote = False,
     te_recFrequency = ''monthly'', te_recNextDue = [], te_partner = None\<rparr>"

definition page_init :: "string \<Rightarrow> tx_listing \<Rightarrow> tx_page" where
  "page_init today l = \<lparr>pg_list = l, pg_showForm = False, pg_error = [], pg_refreshError = False, pg_refreshing = False,
     pg_form = form_init today, pg_edit = edit_init, pg_confirmDeleteId = None, pg_linkModalLegs = None,
     pg_markModalSource = None, pg_unpairModalLegs = None\<rparr>"

text \<open>The backend, by the type of the answers the page reads.\<close>

record tx_api =
  api_json :: "request list \<Rightarrow> js_error + jsval"
  api_tx :: "request list \<Rightarrow> js_error + transaction option"
  api_txs :: "request list \<Rightarrow> js_error + transaction list option"

type_synonym page_log = "tx_page \<times> request list"

subsection \<open>Helpers\<close>

text \<open>\<^verbatim>\<open>a < b\<close> on strings: by code units.\<close>

fun js_less :: "string \<Rightarrow> string \<Rightarrow> bool" where
  "js_less s [] = False"
| "js_less [] (d # t) = True"
| "js_less (c # s) (d # t) = ((of_char c :: nat) < of_char d \<or> c = d \<and> js_less s t)"

definition type_str :: "tx_type \<Rightarrow> string" where
  "type_str t = (case t of Income \<Rightarrow> ''income'' | Expense \<Rightarrow> ''expense'')"

definition show_err :: "js_error \<Rightarrow> tx_page \<Rightarrow> tx_page" where
  "show_err err p = p\<lparr>pg_error := extractErrorMessage err ''Failed''\<rparr>"

definition strings :: "string list \<Rightarrow> jsval" where
  "strings ns = JArr (map JStr ns)"

definition tx_path :: "int \<Rightarrow> string" where
  "tx_path i = ''/api/v1/transactions/'' @ show_int i"

definition list_request :: "tx_page \<Rightarrow> request" where
  "list_request p = mk_req GET (transactions_url (tl_periods (pg_list p)) (tl_filters (pg_list p)) (tl_page (pg_list p))) JUndef"

text \<open>\<^verbatim>\<open>await loadTransactions(page)\<close> as the last statement of a handler's \<^verbatim>\<open>try\<close>.\<close>

definition reload :: "tx_api \<Rightarrow> page_log \<Rightarrow> page_log" where
  "reload api s = (case s of (p, reqs) \<Rightarrow>
     (let reqs1 = reqs @ [list_request p] in
      case api_txs api reqs1 of
        Inr d \<Rightarrow> (p\<lparr>pg_list := loaded d (pg_list p)\<rparr>, reqs1)
      | Inl err \<Rightarrow> (show_err err p, reqs1)))"

subsection \<open>Create\<close>

definition settled_before :: "tx_status \<Rightarrow> string \<Rightarrow> string \<Rightarrow> bool" where
  "settled_before status settled date \<longleftrightarrow> status = TxPending \<and> settled \<noteq> [] \<and> js_less settled date"

definition settled_message :: string where
  "settled_message = ''Expected settlement date must be on or after the transaction date''"

definition transfer_request :: "tx_form \<Rightarrow> request" where
  "transfer_request f = mk_req POST ''/api/v1/transactions/transfer'' (JObj
     ([(''from_account_id'', id_value (tf_accountId f)), (''to_account_id'', id_value (tf_toAccountId f)),
       (''description'', JStr (tf_description f)), (''amount'', JStr (tf_amount f)),
       (''status'', JStr (status_str (tf_status f))), (''date'', JStr (tf_date f))]
      @ (if tf_transferCatId f \<noteq> None then [(''category_id'', id_value (tf_transferCatId f))] else [])))"

definition create_request :: "tx_form \<Rightarrow> request" where
  "create_request f = mk_req POST ''/api/v1/transactions'' (JObj
     ([(''account_id'', id_value (tf_accountId f)), (''category_id'', id_value (tf_categoryId f)),
       (''description'', JStr (tf_description f)), (''amount'', JStr (tf_amount f)), (''type'', JStr (type_str (tf_type f))),
       (''status'', JStr (status_str (tf_status f))), (''date'', JStr (tf_date f))]
      @ (if tf_status f = TxPending \<and> tf_settledDate f \<noteq> [] then [(''settled_date'', JStr (tf_settledDate f))] else [])))"

definition tags_request :: "int \<Rightarrow> string list \<Rightarrow> request" where
  "tags_request i ns = mk_req PUT (tx_path i @ ''/tags'') (JObj [(''tag_names'', strings ns)])"

definition promote_request :: "string \<Rightarrow> tx_form \<Rightarrow> int \<Rightarrow> request" where
  "promote_request today f i = mk_req POST (tx_path i @ ''/promote-to-recurring'') (JObj
     [(''frequency'', JStr (tf_frequency f)),
      (''next_due_date'', JStr (if js_less (tf_date f) today then today else tf_date f)),
      (''auto_settle'', JBool (tf_autoSettle f))])"

definition reset_form :: "string \<Rightarrow> tx_form \<Rightarrow> tx_form" where
  "reset_form today f = f\<lparr>tf_description := [], tf_amount := [], tf_type := Expense, tf_status := TxSettled,
     tf_toAccountId := None, tf_transferCatId := None, tf_recurring := False, tf_autoSettle := False, tf_date := today,
     tf_settledDate := [], tf_tags := []\<rparr>"

definition add_done :: "tx_api \<Rightarrow> string \<Rightarrow> page_log \<Rightarrow> page_log" where
  "add_done api today s = (case s of (p, reqs) \<Rightarrow>
     reload api (p\<lparr>pg_form := reset_form today (pg_form p), pg_showForm := False\<rparr>, reqs))"

text \<open>\<^verbatim>\<open>created?.id\<close> is a number other than 0.\<close>

definition created_id :: "transaction option \<Rightarrow> int option" where
  "created_id c = (case c of Some t \<Rightarrow> if tx_id t = 0 then None else Some (tx_id t) | None \<Rightarrow> None)"

definition attach_tags :: "tx_api \<Rightarrow> tx_form \<Rightarrow> transaction option \<Rightarrow> request list \<Rightarrow> string option \<times> request list" where
  "attach_tags api f created reqs = (case created_id created of
      Some i \<Rightarrow>
        if length (tf_tags f) > 0 then
          (let reqs1 = reqs @ [tags_request i (tf_tags f)] in
           case api_json api reqs1 of
             Inr _ \<Rightarrow> (None, reqs1)
           | Inl err \<Rightarrow> (Some (''Transaction saved. Tags couldn'' @ [CHR 0x27] @ ''t be applied: ''
               @ extractErrorMessage err ''Failed'' @ ''. Edit the transaction to add them.''), reqs1))
        else (None, reqs)
    | None \<Rightarrow> (None, reqs))"

definition promote_created :: "tx_api \<Rightarrow> string \<Rightarrow> tx_form \<Rightarrow> transaction option \<Rightarrow> request list \<Rightarrow> js_error option \<times> request list" where
  "promote_created api today f created reqs = (case created_id created of
      Some i \<Rightarrow>
        if tf_recurring f then
          (let reqs1 = reqs @ [promote_request today f i] in
           case api_tx api reqs1 of Inr _ \<Rightarrow> (None, reqs1) | Inl err \<Rightarrow> (Some err, reqs1))
        else (None, reqs)
    | None \<Rightarrow> (None, reqs))"

definition handleAdd :: "tx_api \<Rightarrow> string \<Rightarrow> page_log \<Rightarrow> page_log" where
  "handleAdd api today s = (case s of (p0, reqs) \<Rightarrow>
     (let p = p0\<lparr>pg_error := []\<rparr>; f = pg_form p in
      if tf_mode f = FmTransaction \<and> settled_before (tf_status f) (tf_settledDate f) (tf_date f)
      then (p\<lparr>pg_error := settled_message\<rparr>, reqs)
      else if tf_mode f = FmTransfer then
        (let reqs1 = reqs @ [transfer_request f] in
         case api_json api reqs1 of
           Inl err \<Rightarrow> (show_err err p, reqs1)
         | Inr _ \<Rightarrow> add_done api today (p, reqs1))
      else
        (let reqs1 = reqs @ [create_request f] in
         case api_tx api reqs1 of
           Inl err \<Rightarrow> (show_err err p, reqs1)
         | Inr created \<Rightarrow>
             (case attach_tags api f created reqs1 of (tagWarning, reqs2) \<Rightarrow>
              (case promote_created api today f created reqs2 of
                 (Some err, reqs3) \<Rightarrow> (show_err err p, reqs3)
               | (None, reqs3) \<Rightarrow>
                   add_done api today (case tagWarning of Some w \<Rightarrow> p\<lparr>pg_error := w\<rparr> | None \<Rightarrow> p, reqs3))))))"

subsection \<open>Delete\<close>

definition handleDelete :: "tx_api \<Rightarrow> int \<Rightarrow> page_log \<Rightarrow> page_log" where
  "handleDelete api i s = (case s of (p0, reqs) \<Rightarrow>
     (let p = p0\<lparr>pg_confirmDeleteId := None, pg_error := []\<rparr>; reqs1 = reqs @ [mk_req DELETE (tx_path i) JUndef] in
      case api_json api reqs1 of
        Inl err \<Rightarrow> (show_err err p, reqs1)
      | Inr _ \<Rightarrow> reload api (p, reqs1)))"

definition bulk_request :: "int list \<Rightarrow> request" where
  "bulk_request ids = mk_req POST ''/api/v1/transactions/bulk-delete'' (JObj [(''ids'', JArr (map JInt ids))])"

definition skipped_message :: "jsval \<Rightarrow> nat \<Rightarrow> string" where
  "skipped_message res n = ''Deleted '' @ js_String (js_get res ''deleted_count'') @ '' of ''
     @ js_String (js_get res ''requested_count'') @ '' transactions. '' @ show_nat n
     @ (if n = 1 then '' was'' else '' were'') @ '' already gone.''"

definition set_list :: "(tx_listing \<Rightarrow> tx_listing) \<Rightarrow> tx_page \<Rightarrow> tx_page" where
  "set_list upd p = p\<lparr>pg_list := upd (pg_list p)\<rparr>"

text \<open>Reading a property of something that is neither an array nor an object.\<close>

definition property_error :: "jsval \<Rightarrow> string \<Rightarrow> js_error" where
  "property_error v k = PlainError ''TypeError'' (''Cannot read properties of '' @ (if v = JNull then ''null'' else ''undefined'')
     @ '' (reading '' @ [CHR 0x27] @ k @ [CHR 0x27] @ '')'')"

definition bulk_answered :: "tx_api \<Rightarrow> jsval \<Rightarrow> page_log \<Rightarrow> page_log" where
  "bulk_answered api res s = (case s of (p0, reqs) \<Rightarrow>
     (let p = set_list clearSelection p0; reqs1 = reqs @ [list_request p] in
      case api_txs api reqs1 of
        Inl err \<Rightarrow> (show_err err p, reqs1)
      | Inr d \<Rightarrow> (let p1 = set_list (loaded d) p; skipped = js_get res ''skipped_ids'' in
          (if js_is_nullish res then show_err (property_error res ''skipped_ids'') p1
           else if js_is_nullish skipped then show_err (property_error skipped ''length'') p1
           else (case skipped of
               JArr ids \<Rightarrow> if length ids > 0 then p1\<lparr>pg_error := skipped_message res (length ids)\<rparr> else p1
             | _ \<Rightarrow> p1), reqs1))))"

definition handleBulkDelete :: "tx_api \<Rightarrow> page_log \<Rightarrow> page_log" where
  "handleBulkDelete api s = (case s of (p0, reqs) \<Rightarrow>
     (let p = (set_list (\<lambda>l. l\<lparr>tl_confirmBulkDelete := False, tl_bulkDeleting := True\<rparr>) p0)\<lparr>pg_error := []\<rparr>;
          reqs1 = reqs @ [bulk_request (tl_selectedIds (pg_list p))];
          (p2, reqs2) = (case api_json api reqs1 of
             Inl err \<Rightarrow> (show_err err p, reqs1)
           | Inr res \<Rightarrow> bulk_answered api res (p, reqs1))
      in (set_list (\<lambda>l. l\<lparr>tl_bulkDeleting := False\<rparr>) p2, reqs2)))"

subsection \<open>Transfer dialogs\<close>

definition partner_visible :: "tx_page \<Rightarrow> transaction \<Rightarrow> transaction option" where
  "partner_visible p tx = (case tx_linked_transaction_id tx of
      Some k \<Rightarrow> js_find (\<lambda>t. tx_id t = k) (tl_transactions (pg_list p))
    | None \<Rightarrow> None)"

definition legs :: "transaction \<Rightarrow> transaction \<Rightarrow> transaction \<times> transaction" where
  "legs tx partner = (if tx_type tx = Expense then tx else partner, if tx_type tx = Income then tx else partner)"

definition openUnpairModal :: "tx_api \<Rightarrow> transaction \<Rightarrow> page_log \<Rightarrow> page_log" where
  "openUnpairModal api tx s = (case s of (p, reqs) \<Rightarrow>
     (case tx_linked_transaction_id tx of
        None \<Rightarrow> (p, reqs)
      | Some k \<Rightarrow>
          if k = 0 then (p, reqs)
          else (case partner_visible p tx of
              Some u \<Rightarrow> (p\<lparr>pg_unpairModalLegs := Some (legs tx u)\<rparr>, reqs)
            | None \<Rightarrow>
                (let reqs1 = reqs @ [mk_req GET (tx_path k) JUndef] in
                 case api_tx api reqs1 of
                   Inl err \<Rightarrow> (show_err err p, reqs1)
                 | Inr None \<Rightarrow> (p, reqs1)
                 | Inr (Some u) \<Rightarrow> (p\<lparr>pg_unpairModalLegs := Some (legs tx u)\<rparr>, reqs1)))))"

definition open_link :: "tx_page \<Rightarrow> tx_page" where
  "open_link p = (let ls = evaluateLinkSelection (pg_list p) in
     (case (ls_expense ls, ls_income ls) of
        (Some e, Some i) \<Rightarrow> if ls_enabled ls then p\<lparr>pg_linkModalLegs := Some (e, i)\<rparr> else p
      | _ \<Rightarrow> p))"

text \<open>What the dialogs call when they succeeded; a reload that fails is ignored.\<close>

definition quiet_reload :: "js_error + transaction list option \<Rightarrow> tx_page \<Rightarrow> tx_page" where
  "quiet_reload ans p = (case ans of Inr d \<Rightarrow> set_list (loaded d) p | Inl _ \<Rightarrow> p)"

definition onLinked :: "js_error + transaction list option \<Rightarrow> tx_page \<Rightarrow> tx_page" where
  "onLinked ans p = quiet_reload ans (set_list clearSelection (p\<lparr>pg_linkModalLegs := None\<rparr>))"

definition onConverted :: "js_error + transaction list option \<Rightarrow> tx_page \<Rightarrow> tx_page" where
  "onConverted ans p = quiet_reload ans (p\<lparr>pg_markModalSource := None\<rparr>)"

definition onUnpaired :: "js_error + transaction list option \<Rightarrow> tx_page \<Rightarrow> tx_page" where
  "onUnpaired ans p = quiet_reload ans (p\<lparr>pg_unpairModalLegs := None\<rparr>)"

subsection \<open>Inline edit\<close>

text \<open>The part of \<^verbatim>\<open>startEdit\<close> before its \<^verbatim>\<open>await\<close>, with the id it then asks for.\<close>

definition fill_edit :: "string \<Rightarrow> transaction \<Rightarrow> transaction option \<Rightarrow> tx_edit" where
  "fill_edit due tx partner = \<lparr>te_id = Some (tx_id tx), te_desc = tx_description tx, te_amount = amount_text (tx_amount tx),
     te_type = tx_type tx, te_status = tx_status tx, te_date = tx_date tx,
     te_settledDate = (case tx_settled_date tx of Some d \<Rightarrow> if tx_status tx = TxPending then d else [] | None \<Rightarrow> []),
     te_accountId = Some (tx_account_id tx), te_categoryId = Some (tx_category_id tx), te_tags = map tg_name (tx_tags tx),
     te_promote = False, te_recFrequency = ''monthly'', te_recNextDue = due, te_partner = partner\<rparr>"

definition startEdit_begin :: "string \<Rightarrow> transaction \<Rightarrow> tx_page \<Rightarrow> tx_page \<times> int option" where
  "startEdit_begin due tx p = (case tx_linked_transaction_id tx of
      None \<Rightarrow> (p\<lparr>pg_edit := fill_edit due tx None\<rparr>, None)
    | Some k \<Rightarrow>
        if k = 0 then (p\<lparr>pg_edit := fill_edit due tx None\<rparr>, None)
        else (case partner_visible p tx of
            Some u \<Rightarrow> (p\<lparr>pg_edit := fill_edit due tx (Some u)\<rparr>, None)
          | None \<Rightarrow> (p\<lparr>pg_edit := fill_edit due tx (te_partner (pg_edit p))\<rparr>, Some k)))"

definition startEdit_end :: "js_error + transaction option \<Rightarrow> tx_page \<Rightarrow> tx_page" where
  "startEdit_end ans p = p\<lparr>pg_edit := (pg_edit p)\<lparr>te_partner := (case ans of Inr u \<Rightarrow> u | Inl _ \<Rightarrow> None)\<rparr>\<rparr>"

definition closeEdit :: "tx_page \<Rightarrow> tx_page" where
  "closeEdit p = p\<lparr>pg_edit := (pg_edit p)\<lparr>te_id := None, te_partner := None, te_promote := False, te_tags := []\<rparr>\<rparr>"

definition save_request :: "int \<Rightarrow> tx_edit \<Rightarrow> request" where
  "save_request i e = mk_req PUT (tx_path i) (JObj
     ([(''description'', JStr (te_desc e)), (''amount'', JStr (te_amount e)), (''status'', JStr (status_str (te_status e))),
       (''date'', JStr (te_date e)), (''account_id'', id_value (te_accountId e)), (''category_id'', id_value (te_categoryId e))]
      @ (if te_partner e = None then [(''type'', JStr (type_str (te_type e)))] else [])
      @ (if te_status e = TxPending
         then [(''settled_date'', if te_settledDate e = [] then JNull else JStr (te_settledDate e))] else [])))"

definition edit_promote_request :: "int \<Rightarrow> tx_edit \<Rightarrow> request" where
  "edit_promote_request i e = mk_req POST (tx_path i @ ''/promote-to-recurring'') (JObj
     [(''frequency'', JStr (te_recFrequency e)), (''next_due_date'', JStr (te_recNextDue e))])"

definition wantsPromote :: "tx_page \<Rightarrow> int \<Rightarrow> bool" where
  "wantsPromote p i = (te_promote (pg_edit p) \<and>
     (case js_find (\<lambda>t. tx_id t = i) (tl_transactions (pg_list p)) of
        Some r \<Rightarrow> tx_linked_transaction_id r = None \<and> tx_recurring_id r = None
      | None \<Rightarrow> False))"

definition edit_problem :: "string \<Rightarrow> tx_page \<Rightarrow> int \<Rightarrow> string option" where
  "edit_problem today p i = (let e = pg_edit p in
     if js_trim (te_desc e) = [] then Some ''Description is required''
     else if settled_before (te_status e) (te_settledDate e) (te_date e) then Some settled_message
     else if wantsPromote p i \<and> te_recNextDue e = [] then Some ''Pick a next due date''
     else if wantsPromote p i \<and> js_less (te_recNextDue e) today then Some ''Date must be today or later''
     else None)"

definition mark_promoted :: "int \<Rightarrow> transaction option \<Rightarrow> tx_page \<Rightarrow> tx_page" where
  "mark_promoted i promoted p = (case promoted of
      Some u \<Rightarrow> if tx_recurring_id u \<noteq> None
        then set_list (\<lambda>l. l\<lparr>tl_transactions := map (\<lambda>t. if tx_id t = i then t\<lparr>tx_recurring_id := tx_recurring_id u\<rparr> else t)
            (tl_transactions l)\<rparr>) p
        else p
    | None \<Rightarrow> p)"

definition promote_message :: "js_error \<Rightarrow> string" where
  "promote_message err = ''Transaction updated, but promote-to-recurring failed: '' @ extractErrorMessage err ''Failed''
     @ ''. The transaction still reflects your edits.''"

definition handleSaveEdit :: "tx_api \<Rightarrow> string \<Rightarrow> page_log \<Rightarrow> page_log" where
  "handleSaveEdit api today s = (case s of (p0, reqs) \<Rightarrow>
     (case te_id (pg_edit p0) of
        None \<Rightarrow> (p0, reqs)
      | Some i \<Rightarrow>
          (case edit_problem today p0 i of
             Some m \<Rightarrow> (p0\<lparr>pg_error := m\<rparr>, reqs)
           | None \<Rightarrow>
               (let p = p0\<lparr>pg_error := []\<rparr>; e = pg_edit p; reqs1 = reqs @ [save_request i e] in
                case api_json api reqs1 of
                  Inl err \<Rightarrow> (show_err err p, reqs1)
                | Inr _ \<Rightarrow>
                    (let reqs2 = reqs1 @ [tags_request i (te_tags e)] in
                     case api_json api reqs2 of
                       Inl err \<Rightarrow> (show_err err p, reqs2)
                     | Inr _ \<Rightarrow>
                         if wantsPromote p i then
                           (let reqs3 = reqs2 @ [edit_promote_request i e] in
                            case api_tx api reqs3 of
                              Inr u \<Rightarrow> reload api (closeEdit (mark_promoted i u p), reqs3)
                            | Inl err \<Rightarrow> reload api (closeEdit (p\<lparr>pg_error := promote_message err\<rparr>), reqs3))
                         else reload api (closeEdit p, reqs2))))))"

definition handleToggleStatus :: "tx_api \<Rightarrow> transaction \<Rightarrow> page_log \<Rightarrow> page_log" where
  "handleToggleStatus api tx s = (case s of (p0, reqs) \<Rightarrow>
     (let p = p0\<lparr>pg_error := []\<rparr>;
          reqs1 = reqs @ [mk_req PUT (tx_path (tx_id tx))
            (JObj [(''status'', JStr (if tx_status tx = TxSettled then ''pending'' else ''settled''))])] in
      case api_json api reqs1 of
        Inl err \<Rightarrow> (show_err err p, reqs1)
      | Inr _ \<Rightarrow> reload api (p, reqs1)))"

text \<open>The accounts that the edited row's select offers.\<close>

definition edit_accounts :: "tx_page \<Rightarrow> account list" where
  "edit_accounts p = filter (\<lambda>a. case te_partner (pg_edit p) of
      None \<Rightarrow> True
    | Some u \<Rightarrow> ac_id a \<noteq> tx_account_id u
        \<and> (case account_of (tl_accounts (pg_list p)) (tx_account_id u) of
             Some pa \<Rightarrow> ac_currency a = ac_currency pa
           | None \<Rightarrow> True)) (tl_accounts (pg_list p))"

subsection \<open>The create form\<close>

definition pageActiveAccounts :: "account list \<Rightarrow> account list" where
  "pageActiveAccounts accts = filter ac_is_active accts"

definition pageDefaultAccount :: "account list \<Rightarrow> account option" where
  "pageDefaultAccount accts = js_find ac_is_default (pageActiveAccounts accts)"

definition default_account_effect :: "account list \<Rightarrow> bool \<Rightarrow> tx_form \<Rightarrow> tx_form" where
  "default_account_effect accts showForm f = (case pageDefaultAccount accts of
      Some a \<Rightarrow> if showForm \<and> tf_accountId f = None then
          f\<lparr>tf_accountId := Some (ac_id a),
            tf_status := (if ac_account_type_slug a = Some ''credit_card'' then TxPending else tf_status f)\<rparr>
        else f
    | None \<Rightarrow> f)"

definition handleAccountChange :: "account list \<Rightarrow> int option \<Rightarrow> tx_form \<Rightarrow> tx_form" where
  "handleAccountChange accts i f =
     f\<lparr>tf_accountId := i, tf_toAccountId := (if tf_toAccountId f = i then None else tf_toAccountId f),
       tf_status := (case (case i of Some k \<Rightarrow> account_of accts k | None \<Rightarrow> None) of
          Some a \<Rightarrow> if ac_account_type_slug a = Some ''credit_card'' then TxPending else TxSettled
        | None \<Rightarrow> TxSettled)\<rparr>"

definition handleTypeChange :: "tx_type \<Rightarrow> tx_form \<Rightarrow> tx_form" where
  "handleTypeChange t f = f\<lparr>tf_type := t, tf_categoryId := None\<rparr>"

definition pick_description :: "int \<Rightarrow> tx_form \<Rightarrow> tx_form" where
  "pick_description cat f = (if tf_categoryId f = None then f\<lparr>tf_categoryId := Some cat\<rparr> else f)"

definition to_accounts :: "account list \<Rightarrow> tx_form \<Rightarrow> account list" where
  "to_accounts accts f = filter (\<lambda>a. Some (ac_id a) \<noteq> tf_accountId f) (pageActiveAccounts accts)"

datatype form_event =
    FeMode form_mode | FeAccount "int option" | FeTo "int option" | FeType tx_type | FeCategory "int option"
  | FeTransferCat "int option" | FeDescription string | FePick string int | FeTags "string list" | FeAmount string
  | FeStatus tx_status | FeDate string | FeSettled string | FeRecurring bool | FeFrequency string | FeAutoSettle bool

fun form_change :: "account list \<Rightarrow> tx_form \<Rightarrow> form_event \<Rightarrow> tx_form" where
  "form_change accts f (FeMode m) = f\<lparr>tf_mode := m\<rparr>"
| "form_change accts f (FeAccount i) = handleAccountChange accts i f"
| "form_change accts f (FeTo i) =
     (if i = None \<or> i \<in> (\<lambda>a. Some (ac_id a)) ` set (to_accounts accts f) then f\<lparr>tf_toAccountId := i\<rparr> else f)"
| "form_change accts f (FeType t) = handleTypeChange t f"
| "form_change accts f (FeCategory c) = f\<lparr>tf_categoryId := c\<rparr>"
| "form_change accts f (FeTransferCat c) = f\<lparr>tf_transferCatId := c\<rparr>"
| "form_change accts f (FeDescription d) = f\<lparr>tf_description := d\<rparr>"
| "form_change accts f (FePick d cat) = pick_description cat (f\<lparr>tf_description := d\<rparr>)"
| "form_change accts f (FeTags ns) = f\<lparr>tf_tags := ns\<rparr>"
| "form_change accts f (FeAmount a) = f\<lparr>tf_amount := a\<rparr>"
| "form_change accts f (FeStatus st) = f\<lparr>tf_status := st\<rparr>"
| "form_change accts f (FeDate d) = f\<lparr>tf_date := d\<rparr>"
| "form_change accts f (FeSettled d) = f\<lparr>tf_settledDate := d\<rparr>"
| "form_change accts f (FeRecurring b) = f\<lparr>tf_recurring := b\<rparr>"
| "form_change accts f (FeFrequency q) = f\<lparr>tf_frequency := q\<rparr>"
| "form_change accts f (FeAutoSettle b) = f\<lparr>tf_autoSettle := b\<rparr>"

text \<open>An event of the open form, and the effect that runs after it.\<close>

definition form_step :: "account list \<Rightarrow> tx_form \<Rightarrow> form_event \<Rightarrow> tx_form" where
  "form_step accts f e = default_account_effect accts True (form_change accts f e)"

definition toggle_form :: "tx_page \<Rightarrow> tx_page" where
  "toggle_form p = (let p1 = p\<lparr>pg_showForm := \<not> pg_showForm p\<rparr> in
     p1\<lparr>pg_form := default_account_effect (tl_accounts (pg_list p1)) (pg_showForm p1) (pg_form p1)\<rparr>)"

subsection \<open>Refresh after a write elsewhere\<close>

definition refresh_begin_tx :: "bool \<Rightarrow> bool \<Rightarrow> tx_page \<Rightarrow> tx_page" where
  "refresh_begin_tx authLoading hasUser p = (if authLoading \<or> \<not> hasUser then p else p\<lparr>pg_refreshing := True\<rparr>)"

type_synonym refs = "account list option \<times> category list option \<times> billing_period list option"

text \<open>\<^verbatim>\<open>Promise.allSettled\<close> of the two loads; the references' effects are those of \<open>refs_loaded\<close>.\<close>

definition refresh_settled ::
    "search_params \<Rightarrow> js_error + refs \<Rightarrow> js_error + transaction list option \<Rightarrow> tx_page \<Rightarrow> tx_page" where
  "refresh_settled get refs txs p =
     (let p1 = (case refs of Inr (a, c, b) \<Rightarrow> set_list (refs_loaded get a c b) p | Inl _ \<Rightarrow> p);
          p2 = (case txs of Inr d \<Rightarrow> set_list (loaded d) p1 | Inl _ \<Rightarrow> p1)
      in p2\<lparr>pg_refreshing := False,
            pg_refreshError := ((case refs of Inl _ \<Rightarrow> True | Inr _ \<Rightarrow> False) \<or> (case txs of Inl _ \<Rightarrow> True | Inr _ \<Rightarrow> False))\<rparr>)"

definition retry_refresh :: "bool \<Rightarrow> bool \<Rightarrow> tx_page \<Rightarrow> tx_page" where
  "retry_refresh authLoading hasUser p = refresh_begin_tx authLoading hasUser (p\<lparr>pg_refreshError := False\<rparr>)"

end
