(* ===== verification/Tx_Page_Props.thy ===== *)
theory Tx_Page_Props
  imports Tx_Page Tx_List_Props
begin

section \<open>What the transactions page guarantees\<close>

text \<open>
  How often a create is committed, what an edit sends and when it closes, the partner that
  an edit believes in, the two accounts of a transfer, and bulk deletion.
\<close>

subsection \<open>Creating\<close>

definition is_create :: "request \<Rightarrow> bool" where
  "is_create r \<longleftrightarrow> rq_method r = POST \<and> rq_path r = ''/api/v1/transactions''"

definition is_Inr :: "'a + 'b \<Rightarrow> bool" where
  "is_Inr x = (case x of Inr _ \<Rightarrow> True | Inl _ \<Rightarrow> False)"

text \<open>The creates among the requests \<open>rs\<close>, sent after \<open>pre\<close>, that the backend has accepted.\<close>

fun accepted :: "tx_api \<Rightarrow> request list \<Rightarrow> request list \<Rightarrow> nat" where
  "accepted api pre [] = 0"
| "accepted api pre (r # rs) = (if is_create r \<and> is_Inr (api_tx api (pre @ [r])) then 1 else 0) + accepted api (pre @ [r]) rs"

lemma not_create [simp]:
  "\<not> is_create (transfer_request f)" "\<not> is_create (tags_request i ns)" "\<not> is_create (promote_request today f i)"
  "\<not> is_create (list_request p)" "is_create (create_request f)"
  by (simp_all add: is_create_def transfer_request_def tags_request_def promote_request_def list_request_def
      create_request_def mk_req_def)

lemma reload_parts:
  assumes "reload api (p, reqs) = (p1, reqs1)"
  shows "reqs1 = reqs @ [list_request p]" "pg_form p1 = pg_form p" "pg_showForm p1 = pg_showForm p" "pg_edit p1 = pg_edit p"
  using assms by (auto simp: reload_def Let_def show_err_def split: sum.splits)

lemma attach_tags_sends:
  "\<exists>rs. snd (attach_tags api f c reqs) = reqs @ rs \<and> (\<forall>r \<in> set rs. \<not> is_create r)"
  by (simp add: attach_tags_def Let_def split: option.split sum.split)

lemma promote_created_sends:
  "\<exists>rs. snd (promote_created api today f c reqs) = reqs @ rs \<and> (\<forall>r \<in> set rs. \<not> is_create r)"
  by (simp add: promote_created_def Let_def split: option.split sum.split)

lemma accepted_none: "\<forall>r \<in> set rs. \<not> is_create r \<Longrightarrow> accepted api pre rs = 0"
  by (induction rs arbitrary: pre) simp_all

lemma accepted_append: "accepted api pre (rs @ qs) = accepted api pre rs + accepted api (pre @ rs) qs"
  by (induction rs arbitrary: pre) simp_all

definition sent_by :: "request list \<Rightarrow> request list \<Rightarrow> request list" where
  "sent_by reqs all = drop (length reqs) all"

lemma sent_by_append [simp]: "sent_by reqs (reqs @ rs) = rs"
  by (simp add: sent_by_def)

text \<open>The course of a create: nothing sent; refused; promotion refused; done.\<close>

lemma handleAdd_create:
  assumes "tf_mode (pg_form p) = FmTransaction"
    and "\<not> settled_before (tf_status (pg_form p)) (tf_settledDate (pg_form p)) (tf_date (pg_form p))"
  shows "(case api_tx api (reqs @ [create_request (pg_form p)]) of
      Inl err \<Rightarrow> handleAdd api today (p, reqs) = (show_err err (p\<lparr>pg_error := []\<rparr>), reqs @ [create_request (pg_form p)])
    | Inr c \<Rightarrow> \<exists>rs. (\<forall>r \<in> set rs. \<not> is_create r) \<and>
        (\<exists>q. pg_form q = pg_form p \<and>
          handleAdd api today (p, reqs) = (case fst (promote_created api today (pg_form p) c
              (snd (attach_tags api (pg_form p) c (reqs @ [create_request (pg_form p)])))) of
             Some err \<Rightarrow> (show_err err (p\<lparr>pg_error := []\<rparr>), reqs @ create_request (pg_form p) # rs)
           | None \<Rightarrow> add_done api today (q, reqs @ create_request (pg_form p) # rs))))"
proof (cases "api_tx api (reqs @ [create_request (pg_form p)])")
  case (Inl err)
  then show ?thesis using assms by (simp add: handleAdd_def Let_def)
next
  case (Inr c)
  let ?f = "pg_form p" and ?reqs1 = "reqs @ [create_request (pg_form p)]"
  obtain w reqs2 where t: "attach_tags api ?f c ?reqs1 = (w, reqs2)" by fastforce
  obtain o3 reqs3 where m: "promote_created api today ?f c reqs2 = (o3, reqs3)" by fastforce
  obtain rs1 where r1: "reqs2 = ?reqs1 @ rs1" "\<forall>r \<in> set rs1. \<not> is_create r"
    using attach_tags_sends [of api ?f c ?reqs1] t by auto
  obtain rs2 where r2: "reqs3 = reqs2 @ rs2" "\<forall>r \<in> set rs2. \<not> is_create r"
    using promote_created_sends [of api today ?f c reqs2] m by auto
  let ?q = "case w of Some x \<Rightarrow> p\<lparr>pg_error := x\<rparr> | None \<Rightarrow> p\<lparr>pg_error := []\<rparr>"
  have "handleAdd api today (p, reqs) = (case o3 of
      Some err \<Rightarrow> (show_err err (p\<lparr>pg_error := []\<rparr>), reqs @ create_request ?f # rs1 @ rs2)
    | None \<Rightarrow> add_done api today (?q, reqs @ create_request ?f # rs1 @ rs2))"
    using assms Inr t m r1(1) r2(1) by (simp add: handleAdd_def Let_def split: option.split)
  moreover have "pg_form ?q = ?f" by (simp split: option.split)
  ultimately show ?thesis using Inr r1(2) r2(2) t m
    by (simp, intro exI [of _ "rs1 @ rs2"] conjI exI [of _ ?q]) auto
qed

text \<open>Without a repetition a submit of the create form either is not committed and leaves the form
  open with all its input, or it is committed exactly once and the form is closed and
  emptied, so that the next submit cannot send the same transaction again; that the tags or
  the reload failed makes no difference.\<close>

theorem create_commits_once:
  assumes "tf_mode (pg_form p) = FmTransaction" and "\<not> tf_recurring (pg_form p)"
    and "handleAdd api today (p, reqs) = (p1, reqs1)"
  shows "accepted api reqs (sent_by reqs reqs1) = 0 \<and> pg_form p1 = pg_form p \<and> pg_showForm p1 = pg_showForm p
    \<or> accepted api reqs (sent_by reqs reqs1) = 1 \<and> pg_form p1 = reset_form today (pg_form p) \<and> \<not> pg_showForm p1"
proof (cases "settled_before (tf_status (pg_form p)) (tf_settledDate (pg_form p)) (tf_date (pg_form p))")
  case True
  then show ?thesis using assms by (auto simp: handleAdd_def Let_def sent_by_def)
next
  case False
  note course = handleAdd_create [where p = p and api = api and reqs = reqs and today = today, OF assms(1) False]
  show ?thesis
  proof (cases "api_tx api (reqs @ [create_request (pg_form p)])")
    case (Inl err)
    then show ?thesis using course assms(3) by (auto simp: show_err_def is_Inr_def)
  next
    case (Inr c)
    have no: "fst (promote_created api today (pg_form p) c s) = None" for s
      using assms(2) by (simp add: promote_created_def split: option.split)
    then obtain rs q where rs: "\<forall>r \<in> set rs. \<not> is_create r" and q: "pg_form q = pg_form p"
      "add_done api today (q, reqs @ create_request (pg_form p) # rs) = (p1, reqs1)"
      using course Inr assms(3) by auto
    let ?r = "list_request (q\<lparr>pg_form := reset_form today (pg_form q), pg_showForm := False\<rparr>)"
    have "reqs1 = (reqs @ create_request (pg_form p) # rs) @ [?r]" and
      "pg_form p1 = reset_form today (pg_form p)" "\<not> pg_showForm p1"
      using reload_parts [OF q(2) [unfolded add_done_def prod.case]] q(1) by simp_all
    moreover have "accepted api reqs (create_request (pg_form p) # rs @ [?r]) = 1"
      using Inr rs by (simp add: is_Inr_def accepted_append accepted_none)
    ultimately show ?thesis by simp
  qed
qed

definition demo_tx_api :: "(js_error + transaction option) \<Rightarrow> tx_api" where
  "demo_tx_api promoted = \<lparr>api_json = (\<lambda>_. Inr JUndef),
     api_tx = (\<lambda>reqs. if is_create (last reqs) then Inr (Some demo_tx) else promoted),
     api_txs = (\<lambda>_. Inr (Some [demo_tx]))\<rparr>"

definition demo_tx_page :: "bool \<Rightarrow> tx_page" where
  "demo_tx_page recurring = (page_init ''2026-05-01'' idle_list)\<lparr>pg_showForm := True,
     pg_form := (form_init ''2026-05-01'')\<lparr>tf_accountId := Some 1, tf_categoryId := Some 5, tf_description := ''Lunch'',
       tf_amount := ''12.50'', tf_recurring := recurring\<rparr>\<rparr>"

lemma demo_tx_form:
  "tf_mode (pg_form (demo_tx_page b)) = FmTransaction" "tf_recurring (pg_form (demo_tx_page b)) = b"
  "tf_status (pg_form (demo_tx_page b)) = TxSettled" "tf_tags (pg_form (demo_tx_page b)) = []"
  by (simp_all add: demo_tx_page_def form_init_def)

theorem create_commits_once_witness:
  "accepted (demo_tx_api (Inr None)) [] (sent_by [] (snd (handleAdd (demo_tx_api (Inr None)) ''2026-05-01'' (demo_tx_page False, [])))) \<le> 1"
proof -
  obtain p1 reqs1 where h: "handleAdd (demo_tx_api (Inr None)) ''2026-05-01'' (demo_tx_page False, []) = (p1, reqs1)" by fastforce
  from create_commits_once [OF demo_tx_form(1) _ h] show ?thesis by (auto simp: demo_tx_form h)
qed

text \<open>With a repetition the same does not hold. When the promotion to a recurring template fails the
  error leaves the form open with its input although the transaction is committed: each
  further submit commits it once more. The code's own comment says that a form must not be
  left in a state that posts the transaction again.\<close>

theorem failed_promotion_repeats_create:
  assumes "tf_mode (pg_form p) = FmTransaction" and "tf_recurring (pg_form p)" and "tf_tags (pg_form p) = []"
    and "tf_status (pg_form p) = TxSettled"
    and "\<forall>reqs r. is_create r \<longrightarrow> (\<exists>t. api_tx api (reqs @ [r]) = Inr (Some t) \<and> tx_id t \<noteq> 0)"
    and "\<forall>reqs r. \<not> is_create r \<longrightarrow> (\<exists>err. api_tx api (reqs @ [r]) = Inl err)"
  shows "accepted api [] (snd ((handleAdd api today ^^ n) (p, []))) = n
    \<and> pg_form (fst ((handleAdd api today ^^ n) (p, []))) = pg_form p
    \<and> pg_showForm (fst ((handleAdd api today ^^ n) (p, []))) = pg_showForm p"
proof (induction n)
  case (Suc n)
  obtain q reqs where q: "(handleAdd api today ^^ n) (p, []) = (q, reqs)" by fastforce
  have f: "pg_form q = pg_form p" "pg_showForm q = pg_showForm p" "accepted api [] reqs = n" using Suc q by simp_all
  let ?c = "create_request (pg_form p)"
  have "is_create ?c" by simp
  then obtain t where t: "api_tx api (reqs @ [?c]) = Inr (Some t)" "tx_id t \<noteq> 0" using assms(5) by blast
  let ?m = "promote_request today (pg_form p) (tx_id t)"
  have "\<not> is_create ?m" by simp
  then obtain err where e: "api_tx api ((reqs @ [?c]) @ [?m]) = Inl err" using assms(6) by blast
  have "handleAdd api today (q, reqs) = (show_err err (q\<lparr>pg_error := []\<rparr>), reqs @ [?c, ?m])"
    using t e assms(1-4)
    by (simp add: handleAdd_def settled_before_def f(1) attach_tags_def promote_created_def created_id_def Let_def)
  moreover have "accepted api [] (reqs @ [?c, ?m]) = Suc n"
    using t by (simp add: accepted_append f(3) is_Inr_def)
  ultimately show ?case using q f by (simp add: show_err_def)
qed simp

theorem failed_promotion_repeats_create_witness:
  "accepted (demo_tx_api (Inl ApiTimeoutError)) [] (snd ((handleAdd (demo_tx_api (Inl ApiTimeoutError)) ''2026-05-01'' ^^ 2) (demo_tx_page True, []))) = 2"
proof -
  have "\<forall>reqs r. is_create r \<longrightarrow> (\<exists>t. api_tx (demo_tx_api (Inl ApiTimeoutError)) (reqs @ [r]) = Inr (Some t) \<and> tx_id t \<noteq> 0)"
    "\<forall>reqs r. \<not> is_create r \<longrightarrow> (\<exists>err. api_tx (demo_tx_api (Inl ApiTimeoutError)) (reqs @ [r]) = Inl err)"
    by (simp_all add: demo_tx_api_def demo_tx_def)
  with demo_tx_form [of True] show ?thesis
    using failed_promotion_repeats_create [of "demo_tx_page True" "demo_tx_api (Inl ApiTimeoutError)" 2 "''2026-05-01''"] by blast
qed

subsection \<open>Editing\<close>

text \<open>C23: Saving an edit sends first the transaction and then its whole tag set, and nothing after a
  refused request; the row leaves edit mode exactly when both were accepted, and otherwise
  the edit stays as it was with the message of the refusal. A leg whose partner is known is
  sent without a type, which the backend would refuse, and every other row with one.\<close>

theorem save_edit_outcome:
  assumes "te_id (pg_edit p) = Some i" and "edit_problem today p i = None"
    and "handleSaveEdit api today (p, reqs) = (p1, reqs1)"
  defines "put \<equiv> save_request i (pg_edit p)" and "tags \<equiv> tags_request i (te_tags (pg_edit p))"
  shows "(case api_json api (reqs @ [put]) of
      Inl err \<Rightarrow> reqs1 = reqs @ [put] \<and> pg_edit p1 = pg_edit p \<and> pg_error p1 = extractErrorMessage err ''Failed''
    | Inr _ \<Rightarrow> (case api_json api (reqs @ [put, tags]) of
        Inl err \<Rightarrow> reqs1 = reqs @ [put, tags] \<and> pg_edit p1 = pg_edit p \<and> pg_error p1 = extractErrorMessage err ''Failed''
      | Inr _ \<Rightarrow> te_id (pg_edit p1) = None \<and> te_partner (pg_edit p1) = None \<and> last reqs1 = list_request p
          \<and> sent_by (reqs @ [put, tags]) (butlast reqs1) = (if wantsPromote p i then [edit_promote_request i (pg_edit p)] else [])))
    \<and> (js_get (rq_body put) ''type'' = JUndef \<longleftrightarrow> te_partner (pg_edit p) \<noteq> None)"
proof
  have w: "wantsPromote (p\<lparr>pg_error := m\<rparr>) i = wantsPromote p i" for m by (simp add: wantsPromote_def)
  have same: "list_request (closeEdit (p\<lparr>pg_error := m\<rparr>)) = list_request p"
    "list_request (closeEdit (mark_promoted i u (p\<lparr>pg_error := m\<rparr>))) = list_request p" for m u
    by (simp_all add: closeEdit_def list_request_def mark_promoted_def set_list_def split: option.split)
  have closed: "te_id (pg_edit (closeEdit q)) = None" "te_partner (pg_edit (closeEdit q)) = None" for q
    by (simp_all add: closeEdit_def)
  have finished: "te_id (pg_edit p1) = None \<and> te_partner (pg_edit p1) = None \<and> last reqs1 = list_request p \<and> butlast reqs1 = reqs'"
    if "reload api (closeEdit q, reqs') = (p1, reqs1)" "list_request (closeEdit q) = list_request p" for q reqs'
    using reload_parts [OF that(1)] that(2) closed by simp
  show "(case api_json api (reqs @ [put]) of
      Inl err \<Rightarrow> reqs1 = reqs @ [put] \<and> pg_edit p1 = pg_edit p \<and> pg_error p1 = extractErrorMessage err ''Failed''
    | Inr _ \<Rightarrow> (case api_json api (reqs @ [put, tags]) of
        Inl err \<Rightarrow> reqs1 = reqs @ [put, tags] \<and> pg_edit p1 = pg_edit p \<and> pg_error p1 = extractErrorMessage err ''Failed''
      | Inr _ \<Rightarrow> te_id (pg_edit p1) = None \<and> te_partner (pg_edit p1) = None \<and> last reqs1 = list_request p
          \<and> sent_by (reqs @ [put, tags]) (butlast reqs1) = (if wantsPromote p i then [edit_promote_request i (pg_edit p)] else [])))"
  proof (cases "api_json api (reqs @ [put])")
    case (Inl err)
    then show ?thesis using assms(1-3) by (auto simp: put_def handleSaveEdit_def Let_def show_err_def)
  next
    case (Inr v)
    note one = Inr
    show ?thesis
    proof (cases "api_json api (reqs @ [put, tags])")
      case (Inl err)
      then show ?thesis using assms(1-3) one by (auto simp: put_def tags_def handleSaveEdit_def Let_def show_err_def)
    next
      case (Inr v')
      have step: "handleSaveEdit api today (p, reqs) =
         (if wantsPromote p i then
            (case api_tx api (reqs @ [put, tags, edit_promote_request i (pg_edit p)]) of
               Inr u \<Rightarrow> reload api (closeEdit (mark_promoted i u (p\<lparr>pg_error := []\<rparr>)), reqs @ [put, tags, edit_promote_request i (pg_edit p)])
             | Inl err \<Rightarrow> reload api (closeEdit (p\<lparr>pg_error := promote_message err\<rparr>), reqs @ [put, tags, edit_promote_request i (pg_edit p)]))
          else reload api (closeEdit (p\<lparr>pg_error := []\<rparr>), reqs @ [put, tags]))"
        using assms(1,2) one Inr by (simp add: handleSaveEdit_def Let_def put_def tags_def w split: sum.split)
      have cut: "sent_by (reqs @ [put, tags]) (reqs @ [put, tags, r]) = [r]" for r
        using sent_by_append [of "reqs @ [put, tags]" "[r]"] by simp
      have none: "sent_by (reqs @ [put, tags]) (reqs @ [put, tags]) = []"
        using sent_by_append [of "reqs @ [put, tags]" "[]"] by simp
      show ?thesis
      proof (cases "wantsPromote p i")
        case True
        then show ?thesis using step assms(3) one Inr finished same cut by (auto split: sum.splits)
      next
        case False
        then show ?thesis using step assms(3) one Inr finished same none by auto
      qed
    qed
  qed
  show "js_get (rq_body put) ''type'' = JUndef \<longleftrightarrow> te_partner (pg_edit p) \<noteq> None"
    by (simp add: put_def save_request_def mk_req_def js_get_def)
qed

definition demo_editing :: tx_page where
  "demo_editing = fst (startEdit_begin ''2026-06-01'' demo_tx (page_init ''2026-05-01'' (idle_list\<lparr>tl_transactions := [demo_tx]\<rparr>)))"

lemma demo_editing_facts: "te_id (pg_edit demo_editing) = Some 1" "edit_problem ''2026-05-01'' demo_editing 1 = None"
  "te_partner (pg_edit demo_editing) = None"
  by (simp_all add: demo_editing_def startEdit_begin_def demo_tx_def fill_edit_def edit_problem_def wantsPromote_def
      settled_before_def js_trim_def is_ws_def)

theorem save_edit_outcome_witness:
  "te_id (pg_edit (fst (handleSaveEdit (demo_tx_api (Inr None)) ''2026-05-01'' (demo_editing, [])))) = None"
proof -
  obtain p1 reqs1 where h: "handleSaveEdit (demo_tx_api (Inr None)) ''2026-05-01'' (demo_editing, []) = (p1, reqs1)" by fastforce
  have "api_json (demo_tx_api (Inr None)) reqs = Inr JUndef" for reqs by (simp add: demo_tx_api_def)
  with save_edit_outcome [OF demo_editing_facts(1,2) h] show ?thesis by (simp add: h)
qed

text \<open>An answer to the start of one edit is taken for whichever edit is open when it comes. A row
  that is no transfer, opened while the partner of another row's leg was being fetched,
  then counts as a transfer leg: its type is no longer sent when it is saved, and the
  account of the other row's partner is not offered.\<close>

theorem late_partner_marks_other_row:
  assumes "startEdit_begin due leg p = (p1, Some k)" and "startEdit_begin due' row p1 = (p2, None)"
    and "tx_linked_transaction_id row = None"
  shows "te_id (pg_edit (startEdit_end (Inr (Some u)) p2)) = Some (tx_id row)
    \<and> js_get (rq_body (save_request (tx_id row) (pg_edit p2))) ''type'' = JStr (type_str (tx_type row))
    \<and> js_get (rq_body (save_request (tx_id row) (pg_edit (startEdit_end (Inr (Some u)) p2)))) ''type'' = JUndef
    \<and> tx_account_id u \<notin> ac_id ` set (edit_accounts (startEdit_end (Inr (Some u)) p2))"
proof -
  have "p2 = p1\<lparr>pg_edit := fill_edit due' row None\<rparr>" using assms(2,3) by (simp add: startEdit_begin_def)
  then show ?thesis
    by (auto simp: startEdit_end_def fill_edit_def save_request_def mk_req_def js_get_def edit_accounts_def)
qed

theorem late_partner_marks_other_row_witness:
  "te_id (pg_edit (startEdit_end (Inr (Some demo_out)) (fst (startEdit_begin ''d'' demo_tx
      (fst (startEdit_begin ''d'' demo_in (page_init ''2026-05-01'' idle_list))))))) = Some 1"
proof -
  let ?p = "page_init ''2026-05-01'' idle_list"
  have "startEdit_begin ''d'' demo_in ?p = (fst (startEdit_begin ''d'' demo_in ?p), Some 2)"
    by (simp add: startEdit_begin_def demo_in_def demo_tx_def partner_visible_def page_init_def idle_list_def list_init_def)
  moreover have l: "tx_linked_transaction_id demo_tx = None" "tx_id demo_tx = 1" by (simp_all add: demo_tx_def)
  moreover have "startEdit_begin ''d'' demo_tx q = (fst (startEdit_begin ''d'' demo_tx q), None)" for q
    using l by (simp add: startEdit_begin_def)
  ultimately show ?thesis using late_partner_marks_other_row [of "''d''" demo_in ?p _ 2 "''d''" demo_tx _ demo_out] by metis
qed

subsection \<open>The two accounts of a transfer\<close>

definition form_inv :: "account list \<Rightarrow> tx_form \<Rightarrow> bool" where
  "form_inv accts f \<longleftrightarrow> tf_toAccountId f = None \<or> tf_toAccountId f \<noteq> tf_accountId f
     \<or> tf_accountId f = map_option ac_id (pageDefaultAccount accts)"

lemma default_effect_inv: "form_inv accts f \<Longrightarrow> form_inv accts (default_account_effect accts True f)"
  by (auto simp: form_inv_def default_account_effect_def split: option.split)

lemma form_step_inv: "form_inv accts f \<Longrightarrow> form_inv accts (form_step accts f e)"
proof -
  assume f: "form_inv accts f"
  have "form_inv accts (form_change accts f e)"
    using f by (cases e) (auto simp: form_inv_def handleAccountChange_def handleTypeChange_def pick_description_def to_accounts_def)
  then show ?thesis unfolding form_step_def by (rule default_effect_inv)
qed

interpretation create_form: step_machine "form_step accts" "form_inv accts" for accts
  by unfold_locales (rule form_step_inv)

lemma form_step_picked:
  "form_step accts f (FeAccount (Some k)) = handleAccountChange accts (Some k) f"
proof -
  have "tf_accountId (handleAccountChange accts (Some k) f) = Some k" by (simp add: handleAccountChange_def)
  then show ?thesis by (simp add: form_step_def default_account_effect_def split: option.split)
qed

lemma clearing_source_restores_default:
  fixes f :: tx_form
  assumes d: "pageDefaultAccount accts = Some d" and mem: "d \<in> set (pageActiveAccounts accts)" and ne: "k \<noteq> ac_id d"
  defines "h \<equiv> run (form_step accts) f [FeAccount (Some k), FeTo (Some (ac_id d)), FeAccount None]"
  shows "tf_accountId h = Some (ac_id d) \<and> tf_toAccountId h = Some (ac_id d)"
proof -
  define f1 where "f1 = handleAccountChange accts (Some k) f"
  have acc: "tf_accountId f1 = Some k" by (simp add: f1_def handleAccountChange_def)
  have "d \<in> set (to_accounts accts f1)" using mem ne acc by (simp add: to_accounts_def)
  then have "form_change accts f1 (FeTo (Some (ac_id d))) = f1\<lparr>tf_toAccountId := Some (ac_id d)\<rparr>" by auto
  then have f2: "form_step accts f1 (FeTo (Some (ac_id d))) = f1\<lparr>tf_toAccountId := Some (ac_id d)\<rparr>"
    using acc by (simp add: form_step_def default_account_effect_def d)
  have "h = form_step accts (f1\<lparr>tf_toAccountId := Some (ac_id d)\<rparr>) (FeAccount None)"
    by (simp add: h_def form_step_picked f1_def [symmetric] f2)
  then show ?thesis by (simp add: form_step_def handleAccountChange_def default_account_effect_def d)
qed

text \<open>Whatever is chosen in the open form, its state holds two different accounts of a transfer, with one
  exception: the default account. And the exception is real: choosing the default account as
  the target and then clearing the source puts the default account in as the source too. (The
  target's list no longer has it then, so the select is empty, and required.)\<close>

theorem transfer_accounts_differ:
  assumes "tf_toAccountId f = None" and "run (form_step accts) f es = g"
    and "tf_accountId g = Some i" and "tf_toAccountId g = Some i"
  shows "\<exists>d. pageDefaultAccount accts = Some d \<and> ac_id d = i
    \<and> (\<forall>src. ac_id src \<noteq> i \<and> src \<in> set (pageActiveAccounts accts) \<longrightarrow>
         tf_accountId (run (form_step accts) f [FeAccount (Some (ac_id src)), FeTo (Some i), FeAccount None]) = Some i
         \<and> tf_toAccountId (run (form_step accts) f [FeAccount (Some (ac_id src)), FeTo (Some i), FeAccount None]) = Some i)"
proof -
  have "form_inv accts f" using assms(1) by (simp add: form_inv_def)
  then have "form_inv accts g" unfolding assms(2) [symmetric] by (rule create_form.run_inv)
  then obtain d where d: "pageDefaultAccount accts = Some d" "ac_id d = i"
    using assms(3,4) by (cases "pageDefaultAccount accts") (auto simp: form_inv_def)
  have "d \<in> set (pageActiveAccounts accts)" using js_find_Some [OF d(1) [unfolded pageDefaultAccount_def]] by simp
  then show ?thesis
    using d clearing_source_restores_default [OF d(1)] by (intro exI [of _ d]) auto
qed

theorem transfer_accounts_differ_witness:
  "\<exists>d. pageDefaultAccount [demo_account] = Some d \<and> ac_id d = 1"
proof -
  let ?f = "(form_init ''2026-05-01'')\<lparr>tf_mode := FmTransfer\<rparr>"
  let ?accts = "[demo_account, demo_account\<lparr>ac_id := 2, ac_is_default := False\<rparr>]"
  let ?g = "run (form_step ?accts) ?f [FeAccount (Some 2), FeTo (Some 1), FeAccount None]"
  have "tf_accountId ?g = Some 1" "tf_toAccountId ?g = Some 1" "tf_toAccountId ?f = None"
    by (simp_all add: form_step_def form_init_def handleAccountChange_def default_account_effect_def pageDefaultAccount_def
        pageActiveAccounts_def to_accounts_def demo_account_def)
  from transfer_accounts_differ [OF this(3) refl this(1,2)] show ?thesis
    by (auto simp: pageDefaultAccount_def pageActiveAccounts_def demo_account_def)
qed

subsection \<open>Bulk deletion\<close>

text \<open>A bulk delete asks for exactly the selected rows, in the order in which they were selected;
  whatever fails, the page leaves its deleting state; a refused request keeps selection and
  rows as they were, and an accepted one clears the selection even when the reload fails.\<close>

theorem bulk_delete_releases:
  assumes "handleBulkDelete api (p, reqs) = (p1, reqs1)"
  defines "req \<equiv> bulk_request (tl_selectedIds (pg_list p))"
  shows "\<not> tl_bulkDeleting (pg_list p1) \<and> \<not> tl_confirmBulkDelete (pg_list p1) \<and> take (length reqs + 1) reqs1 = reqs @ [req]
    \<and> (case api_json api (reqs @ [req]) of
        Inl err \<Rightarrow> tl_selectedIds (pg_list p1) = tl_selectedIds (pg_list p)
          \<and> tl_transactions (pg_list p1) = tl_transactions (pg_list p) \<and> pg_error p1 = extractErrorMessage err ''Failed''
      | Inr _ \<Rightarrow> tl_selectedIds (pg_list p1) = [] \<and> length reqs1 = length reqs + 2)"
proof -
  have answered: "tl_selectedIds (pg_list q1) = [] \<and> \<not> tl_confirmBulkDelete (pg_list q1) \<and> length rs1 = Suc (length rs) \<and> take (length rs) rs1 = rs"
    if "bulk_answered api res (q, rs) = (q1, rs1)" "\<not> tl_confirmBulkDelete (pg_list q)" for res q rs q1 rs1
    using that by (auto simp: bulk_answered_def Let_def show_err_def set_list_def loaded_def clearSelection_def
        split: sum.splits jsval.splits if_splits)
  let ?q = "(set_list (\<lambda>l. l\<lparr>tl_confirmBulkDelete := False, tl_bulkDeleting := True\<rparr>) p)\<lparr>pg_error := []\<rparr>"
  show ?thesis
  proof (cases "api_json api (reqs @ [req])")
    case (Inl err)
    then show ?thesis using assms(1) by (auto simp: handleBulkDelete_def Let_def req_def set_list_def show_err_def)
  next
    case (Inr res)
    obtain q1 rs1 where b: "bulk_answered api res (?q, reqs @ [req]) = (q1, rs1)" by fastforce
    have "p1 = set_list (\<lambda>l. l\<lparr>tl_bulkDeleting := False\<rparr>) q1" "reqs1 = rs1"
      using assms(1) Inr b by (auto simp: handleBulkDelete_def Let_def req_def set_list_def)
    then show ?thesis using answered [OF b] Inr by (simp add: set_list_def)
  qed
qed

theorem bulk_delete_releases_witness:
  "\<not> tl_bulkDeleting (pg_list (fst (handleBulkDelete (demo_tx_api (Inr None)) (page_init [] (demo_list empty_storage), []))))"
proof -
  obtain p1 reqs1 where h: "handleBulkDelete (demo_tx_api (Inr None)) (page_init [] (demo_list empty_storage), []) = (p1, reqs1)"
    by fastforce
  from bulk_delete_releases [OF h] show ?thesis by (simp add: h)
qed

text \<open>Deleting a single row does not deselect it: the bar then counts a row that is gone.\<close>

theorem deleted_row_stays_selected:
  "tl_selectedIds (pg_list (fst (handleDelete api i (p, reqs)))) = tl_selectedIds (pg_list p)"
  by (simp add: handleDelete_def reload_def Let_def show_err_def loaded_def split: sum.split)

end
