(* ===== verification/Quick_Forms.thy ===== *)
theory Quick_Forms
  imports Tx_Page
begin

section \<open>Quick add: the split button and its two forms\<close>

text \<open>
  components/AppShellAddTransactionCta.tsx with components/floating/TransactionForm.tsx and
  TransferForm.tsx. A form is mounted while its panel is open and the accounts have been
  loaded; each mount has a number of its own, because a submit that is under way when the
  panel closes goes on and meets whatever is open when its answer arrives. The browser's
  own validation of the fields (required, min, step, and a select whose value is not among
  its options) is \<open>qt_valid\<close> and \<open>qx_valid\<close>; a save button and the Enter key submit only a
  form that passes it. Todays date is part of the state, since the forms read it when they
  mount and when they are cleared.
\<close>

subsection \<open>The transaction form\<close>

datatype submit_intent = IntentSave | IntentAddAnother

record quick_tx =
  qt_accountId :: "int option"
  qt_categoryId :: "int option"
  qt_description :: string
  qt_amount :: string
  qt_type :: tx_type
  qt_status :: tx_status
  qt_date :: string
  qt_settledDate :: string
  qt_tags :: "string list"
  qt_submitting :: bool
  qt_errMsg :: string
  qt_intent :: submit_intent

definition initialAccountId :: "account list \<Rightarrow> int option \<Rightarrow> int option" where
  "initialAccountId accts defaultAccountId =
     (let active = filter ac_is_active accts;
          fallback = (case js_find ac_is_default active of Some a \<Rightarrow> Some a
            | None \<Rightarrow> (case active of a # _ \<Rightarrow> Some a | [] \<Rightarrow> None))
      in case defaultAccountId of Some i \<Rightarrow> Some i | None \<Rightarrow> map_option ac_id fallback)"

definition account_status :: "account list \<Rightarrow> int option \<Rightarrow> tx_status" where
  "account_status accts i =
     (case (case i of Some k \<Rightarrow> js_find (\<lambda>a. ac_id a = k) (filter ac_is_active accts) | None \<Rightarrow> None) of
        Some a \<Rightarrow> if ac_account_type_slug a = Some ''credit_card'' then TxPending else TxSettled
      | None \<Rightarrow> TxSettled)"

definition qt_init :: "string \<Rightarrow> account list \<Rightarrow> quick_tx" where
  "qt_init today accts = \<lparr>qt_accountId = initialAccountId accts None, qt_categoryId = None, qt_description = [],
     qt_amount = [], qt_type = Expense, qt_status = account_status accts (initialAccountId accts None),
     qt_date = today, qt_settledDate = [], qt_tags = [], qt_submitting = False, qt_errMsg = [], qt_intent = IntentSave\<rparr>"

text \<open>The effect on \<^verbatim>\<open>initialAccountId\<close>.\<close>

definition qt_default_effect :: "int option \<Rightarrow> quick_tx \<Rightarrow> quick_tx" where
  "qt_default_effect i f =
     (if qt_accountId f = None \<and> i \<noteq> None \<and> i \<noteq> Some 0 then f\<lparr>qt_accountId := i\<rparr> else f)"

definition qt_handleAccountChange :: "account list \<Rightarrow> int option \<Rightarrow> quick_tx \<Rightarrow> quick_tx" where
  "qt_handleAccountChange accts i f = f\<lparr>qt_accountId := i, qt_status := account_status accts i\<rparr>"

definition qt_handleTypeChange :: "tx_type \<Rightarrow> quick_tx \<Rightarrow> quick_tx" where
  "qt_handleTypeChange t f = f\<lparr>qt_type := t, qt_categoryId := None\<rparr>"

definition qt_clearForm :: "string \<Rightarrow> quick_tx \<Rightarrow> quick_tx" where
  "qt_clearForm today f = f\<lparr>qt_description := [], qt_amount := [], qt_categoryId := None, qt_type := Expense,
     qt_date := today, qt_settledDate := [], qt_tags := [], qt_errMsg := []\<rparr>"

definition qt_request :: "quick_tx \<Rightarrow> request" where
  "qt_request f = mk_req POST ''/api/v1/transactions'' (JObj
     ([(''account_id'', id_value (qt_accountId f)), (''category_id'', id_value (qt_categoryId f)),
       (''description'', JStr (qt_description f)), (''amount'', JStr (qt_amount f)), (''type'', JStr (type_str (qt_type f))),
       (''status'', JStr (status_str (qt_status f))), (''date'', JStr (qt_date f))]
      @ (if qt_status f = TxPending \<and> qt_settledDate f \<noteq> [] then [(''settled_date'', JStr (qt_settledDate f))] else [])))"

text \<open>
  The browser's validation. A number field takes an amount from 0.01 in steps of 0.01; a
  required select takes one of its options; the expected settlement date, shown for a
  pending row, has the transaction date as its minimum.
\<close>

definition amount_valid :: "string \<Rightarrow> bool" where
  "amount_valid s = (s \<noteq> [] \<and> (case js_Number s of Some q \<Rightarrow> q \<ge> 1 / 100 \<and> is_integer (q * 100) | None \<Rightarrow> False))"

definition select_valid :: "account list \<Rightarrow> int option \<Rightarrow> bool" where
  "select_valid options v = (case v of Some i \<Rightarrow> list_ex (\<lambda>a. ac_id a = i) options | None \<Rightarrow> False)"

definition qt_valid :: "account list \<Rightarrow> quick_tx \<Rightarrow> bool" where
  "qt_valid accts f \<longleftrightarrow> select_valid (filter ac_is_active accts) (qt_accountId f) \<and> qt_description f \<noteq> []
     \<and> amount_valid (qt_amount f) \<and> qt_date f \<noteq> []
     \<and> \<not> settled_before (qt_status f) (qt_settledDate f) (qt_date f)"

datatype quick_tx_field =
    QfAccount "int option" | QfType tx_type | QfCategory "int option" | QfDescription string | QfPick string int
  | QfTags "string list" | QfAmount string | QfStatus tx_status | QfDate string | QfSettled string

text \<open>The tag input is disabled during a submit, the settlement date is there for a pending row.\<close>

fun qt_field :: "account list \<Rightarrow> quick_tx \<Rightarrow> quick_tx_field \<Rightarrow> quick_tx" where
  "qt_field accts f (QfAccount i) =
     (if i = None \<or> select_valid (filter ac_is_active accts) i then qt_handleAccountChange accts i f else f)"
| "qt_field accts f (QfType t) = qt_handleTypeChange t f"
| "qt_field accts f (QfCategory c) = f\<lparr>qt_categoryId := c\<rparr>"
| "qt_field accts f (QfDescription d) = f\<lparr>qt_description := d\<rparr>"
| "qt_field accts f (QfPick d c) =
     f\<lparr>qt_description := d, qt_categoryId := (if qt_categoryId f = None then Some c else qt_categoryId f)\<rparr>"
| "qt_field accts f (QfTags ns) = (if qt_submitting f then f else f\<lparr>qt_tags := ns\<rparr>)"
| "qt_field accts f (QfAmount a) = f\<lparr>qt_amount := a\<rparr>"
| "qt_field accts f (QfStatus st) = f\<lparr>qt_status := st\<rparr>"
| "qt_field accts f (QfDate d) = f\<lparr>qt_date := d\<rparr>"
| "qt_field accts f (QfSettled d) = (if qt_status f = TxPending then f\<lparr>qt_settledDate := d\<rparr> else f)"

subsection \<open>The transfer form\<close>

record quick_transfer =
  qx_fromAccountId :: "int option"
  qx_toAccountId :: "int option"
  qx_categoryId :: "int option"
  qx_description :: string
  qx_amount :: string
  qx_status :: tx_status
  qx_date :: string
  qx_submitting :: bool
  qx_errMsg :: string
  qx_intent :: submit_intent

definition qx_init :: "string \<Rightarrow> account list \<Rightarrow> quick_transfer" where
  "qx_init today accts = \<lparr>qx_fromAccountId = initialAccountId accts None, qx_toAccountId = None, qx_categoryId = None,
     qx_description = [], qx_amount = [], qx_status = TxSettled, qx_date = today, qx_submitting = False,
     qx_errMsg = [], qx_intent = IntentSave\<rparr>"

definition qx_default_effect :: "int option \<Rightarrow> quick_transfer \<Rightarrow> quick_transfer" where
  "qx_default_effect i f =
     (if qx_fromAccountId f = None \<and> i \<noteq> None \<and> i \<noteq> Some 0 then f\<lparr>qx_fromAccountId := i\<rparr> else f)"

definition handleFromAccountChange :: "int option \<Rightarrow> quick_transfer \<Rightarrow> quick_transfer" where
  "handleFromAccountChange i f = f\<lparr>qx_fromAccountId := i,
     qx_toAccountId := (if qx_toAccountId f \<noteq> None \<and> i \<noteq> None \<and> qx_toAccountId f = i then None else qx_toAccountId f)\<rparr>"

definition qx_clearForm :: "string \<Rightarrow> quick_transfer \<Rightarrow> quick_transfer" where
  "qx_clearForm today f = f\<lparr>qx_toAccountId := None, qx_amount := [], qx_description := [], qx_categoryId := None,
     qx_date := today, qx_errMsg := []\<rparr>"

definition qx_request :: "quick_transfer \<Rightarrow> request" where
  "qx_request f = mk_req POST ''/api/v1/transactions/transfer'' (JObj
     ([(''from_account_id'', id_value (qx_fromAccountId f)), (''to_account_id'', id_value (qx_toAccountId f)),
       (''description'', JStr (qx_description f)), (''amount'', JStr (qx_amount f)),
       (''status'', JStr (status_str (qx_status f))), (''date'', JStr (qx_date f))]
      @ (if qx_categoryId f \<noteq> None then [(''category_id'', id_value (qx_categoryId f))] else [])))"

definition qx_to_options :: "account list \<Rightarrow> quick_transfer \<Rightarrow> account list" where
  "qx_to_options accts f = filter (\<lambda>a. Some (ac_id a) \<noteq> qx_fromAccountId f) (filter ac_is_active accts)"

definition qx_valid :: "account list \<Rightarrow> quick_transfer \<Rightarrow> bool" where
  "qx_valid accts f \<longleftrightarrow> select_valid (filter ac_is_active accts) (qx_fromAccountId f)
     \<and> select_valid (qx_to_options accts f) (qx_toAccountId f) \<and> amount_valid (qx_amount f) \<and> qx_date f \<noteq> []"

datatype quick_transfer_field =
    XfFrom "int option" | XfTo "int option" | XfCategory "int option" | XfDescription string | XfAmount string
  | XfStatus tx_status | XfDate string

fun qx_field :: "account list \<Rightarrow> quick_transfer \<Rightarrow> quick_transfer_field \<Rightarrow> quick_transfer" where
  "qx_field accts f (XfFrom i) =
     (if i = None \<or> select_valid (filter ac_is_active accts) i then handleFromAccountChange i f else f)"
| "qx_field accts f (XfTo i) =
     (if i = None \<or> select_valid (qx_to_options accts f) i then f\<lparr>qx_toAccountId := i\<rparr> else f)"
| "qx_field accts f (XfCategory c) = f\<lparr>qx_categoryId := c\<rparr>"
| "qx_field accts f (XfDescription d) = f\<lparr>qx_description := d\<rparr>"
| "qx_field accts f (XfAmount a) = f\<lparr>qx_amount := a\<rparr>"
| "qx_field accts f (XfStatus st) = f\<lparr>qx_status := st\<rparr>"
| "qx_field accts f (XfDate d) = f\<lparr>qx_date := d\<rparr>"

subsection \<open>The button, its menu and the panels\<close>

datatype panel_kind = PkTransaction | PkTransfer

datatype mounted = MTx quick_tx | MXfer quick_transfer

text \<open>
  A submit under way: the mount it came from, the kind of its form, what the user asked for,
  the tags of the render that started it, and the created transaction once its tags are being
  written.
\<close>

record quick_run =
  ru_mount :: nat
  ru_kind :: panel_kind
  ru_addAnother :: bool
  ru_tags :: "string list"
  ru_created :: "int option"

record cta =
  ct_today :: string
  ct_openPanel :: "panel_kind option"
  ct_menuOpen :: bool
  ct_accounts :: "account list"
  ct_categories :: "category list"
  ct_loaded :: bool
  ct_warning :: string
  ct_form :: "(nat \<times> mounted) option"
  ct_mounts :: nat
  ct_runs :: "quick_run list"
  ct_loads :: nat
  ct_added :: nat
  ct_log :: "request list"

definition loadRefs :: "cta \<Rightarrow> cta" where
  "loadRefs c = c\<lparr>ct_loads := ct_loads c + 1,
     ct_log := ct_log c @ [mk_req GET ''/api/v1/accounts'' JUndef, mk_req GET ''/api/v1/categories'' JUndef]\<rparr>"

definition cta_mount :: "string \<Rightarrow> cta" where
  "cta_mount today = loadRefs \<lparr>ct_today = today, ct_openPanel = None, ct_menuOpen = False, ct_accounts = [], ct_categories = [],
     ct_loaded = False, ct_warning = [], ct_form = None, ct_mounts = 0, ct_runs = [], ct_loads = 0, ct_added = 0, ct_log = []\<rparr>"

definition kind_of :: "mounted \<Rightarrow> panel_kind" where
  "kind_of m = (case m of MTx _ \<Rightarrow> PkTransaction | MXfer _ \<Rightarrow> PkTransfer)"

definition mount_form :: "panel_kind \<Rightarrow> cta \<Rightarrow> cta" where
  "mount_form k c = c\<lparr>ct_form := Some (ct_mounts c, case k of
       PkTransaction \<Rightarrow> MTx (qt_init (ct_today c) (ct_accounts c)) | PkTransfer \<Rightarrow> MXfer (qx_init (ct_today c) (ct_accounts c))),
     ct_mounts := Suc (ct_mounts c)\<rparr>"

text \<open>What is rendered: the form of the open panel, once the accounts are loaded.\<close>

definition render_panels :: "cta \<Rightarrow> cta" where
  "render_panels c = (case ct_openPanel c of
      None \<Rightarrow> c\<lparr>ct_form := None\<rparr>
    | Some k \<Rightarrow>
        if \<not> ct_loaded c then c\<lparr>ct_form := None\<rparr>
        else if map_option (kind_of \<circ> snd) (ct_form c) = Some k then c
        else mount_form k c)"

definition on_mount :: "nat \<Rightarrow> (mounted \<Rightarrow> mounted) \<Rightarrow> cta \<Rightarrow> cta" where
  "on_mount n g c = (case ct_form c of
      Some (m, f) \<Rightarrow> if m = n then c\<lparr>ct_form := Some (m, g f)\<rparr> else c
    | None \<Rightarrow> c)"

definition open_panel :: "panel_kind \<Rightarrow> cta \<Rightarrow> cta" where
  "open_panel k c = render_panels ((loadRefs c)\<lparr>ct_menuOpen := False, ct_warning := [], ct_openPanel := Some k\<rparr>)"

definition close_panel :: "cta \<Rightarrow> cta" where
  "close_panel c = render_panels (c\<lparr>ct_openPanel := None\<rparr>)"

definition default_effect :: "account list \<Rightarrow> account list \<Rightarrow> mounted \<Rightarrow> mounted" where
  "default_effect old new m =
     (if initialAccountId new None = initialAccountId old None then m
      else (case m of MTx f \<Rightarrow> MTx (qt_default_effect (initialAccountId new None) f)
          | MXfer f \<Rightarrow> MXfer (qx_default_effect (initialAccountId new None) f)))"

text \<open>The answer of a load: a rejection only ends the loading state.\<close>

definition refs_answered :: "js_error + account list option \<times> category list option \<Rightarrow> cta \<Rightarrow> cta" where
  "refs_answered ans c =
     (if ct_loads c = 0 then c
      else (let c1 = c\<lparr>ct_loads := ct_loads c - 1, ct_loaded := True\<rparr> in
        case ans of
          Inl _ \<Rightarrow> render_panels c1
        | Inr (accts, cats) \<Rightarrow>
            (let accts' = (case accts of Some as \<Rightarrow> as | None \<Rightarrow> []);
                 cats' = (case cats of Some cs \<Rightarrow> cs | None \<Rightarrow> []);
                 c2 = c1\<lparr>ct_accounts := accts', ct_categories := cats',
                         ct_form := map_option (map_prod id (default_effect (ct_accounts c) accts')) (ct_form c)\<rparr>
             in render_panels c2)))"

definition tx_rendered :: "cta \<Rightarrow> bool" where
  "tx_rendered c \<longleftrightarrow> filter ac_is_active (ct_accounts c) \<noteq> [] \<and> ct_categories c \<noteq> []"

definition xfer_rendered :: "cta \<Rightarrow> bool" where
  "xfer_rendered c \<longleftrightarrow> length (filter ac_is_active (ct_accounts c)) \<ge> 2"

text \<open>
  \<^verbatim>\<open>onSubmit\<close> and \<^verbatim>\<open>submit\<close> up to the request, on a form that the browser accepts. The intent is
  read and put back before the check of the settlement date.
\<close>

definition qt_onSubmit :: "nat \<Rightarrow> quick_tx \<Rightarrow> cta \<Rightarrow> cta" where
  "qt_onSubmit n f0 c =
     (let addAnother = (qt_intent f0 = IntentAddAnother); f = f0\<lparr>qt_intent := IntentSave\<rparr> in
      if settled_before (qt_status f) (qt_settledDate f) (qt_date f)
      then c\<lparr>ct_form := Some (n, MTx (f\<lparr>qt_errMsg := settled_message\<rparr>))\<rparr>
      else c\<lparr>ct_form := Some (n, MTx (f\<lparr>qt_submitting := True, qt_errMsg := []\<rparr>)),
             ct_runs := ct_runs c @ [\<lparr>ru_mount = n, ru_kind = PkTransaction, ru_addAnother = addAnother, ru_tags = qt_tags f,
                                      ru_created = None\<rparr>],
             ct_log := ct_log c @ [qt_request f]\<rparr>)"

definition qx_onSubmit :: "nat \<Rightarrow> quick_transfer \<Rightarrow> cta \<Rightarrow> cta" where
  "qx_onSubmit n f0 c =
     (let addAnother = (qx_intent f0 = IntentAddAnother); f = f0\<lparr>qx_intent := IntentSave\<rparr> in
      c\<lparr>ct_form := Some (n, MXfer (f\<lparr>qx_submitting := True, qx_errMsg := []\<rparr>)),
        ct_runs := ct_runs c @ [\<lparr>ru_mount = n, ru_kind = PkTransfer, ru_addAnother = addAnother, ru_tags = [],
                                 ru_created = None\<rparr>],
        ct_log := ct_log c @ [qx_request f]\<rparr>)"

text \<open>
  The two buttons, both disabled during a submit. What the browser rejects reaches no
  \<^verbatim>\<open>onSubmit\<close>; the transfer form listens to \<^verbatim>\<open>invalid\<close>, the transaction form does not.
\<close>

definition qt_click :: "submit_intent \<Rightarrow> nat \<Rightarrow> quick_tx \<Rightarrow> cta \<Rightarrow> cta" where
  "qt_click i n f0 c =
     (if qt_submitting f0 then c
      else (let f = (if i = IntentAddAnother then f0\<lparr>qt_intent := IntentAddAnother\<rparr> else f0) in
        if qt_valid (ct_accounts c) f then qt_onSubmit n f c
        else c\<lparr>ct_form := Some (n, MTx f)\<rparr>))"

definition qx_click :: "submit_intent \<Rightarrow> nat \<Rightarrow> quick_transfer \<Rightarrow> cta \<Rightarrow> cta" where
  "qx_click i n f0 c =
     (if qx_submitting f0 then c
      else (let f = (if i = IntentAddAnother then f0\<lparr>qx_intent := IntentAddAnother\<rparr> else f0) in
        if qx_valid (ct_accounts c) f then qx_onSubmit n f c
        else c\<lparr>ct_form := Some (n, MXfer (f\<lparr>qx_intent := IntentSave\<rparr>))\<rparr>))"

text \<open>
  The answers. State setters of an unmounted form do nothing; the callbacks of the button's
  component, which stays mounted, still work.
\<close>

definition fail_form :: "string \<Rightarrow> mounted \<Rightarrow> mounted" where
  "fail_form msg m = (case m of
      MTx f \<Rightarrow> MTx (f\<lparr>qt_errMsg := msg, qt_submitting := False\<rparr>)
    | MXfer f \<Rightarrow> MXfer (f\<lparr>qx_errMsg := msg, qx_submitting := False\<rparr>))"

definition clear_mounted :: "string \<Rightarrow> mounted \<Rightarrow> mounted" where
  "clear_mounted today m = (case m of
      MTx f \<Rightarrow> MTx ((qt_clearForm today f)\<lparr>qt_submitting := False\<rparr>)
    | MXfer f \<Rightarrow> MXfer ((qx_clearForm today f)\<lparr>qx_submitting := False\<rparr>))"

definition finish_run :: "quick_run \<Rightarrow> string option \<Rightarrow> cta \<Rightarrow> cta" where
  "finish_run r warning c =
     (let c1 = c\<lparr>ct_added := ct_added c + 1,
                 ct_warning := (case warning of Some w \<Rightarrow> w | None \<Rightarrow> ct_warning c)\<rparr> in
      if ru_addAnother r then on_mount (ru_mount r) (clear_mounted (ct_today c)) c1
      else close_panel c1)"

definition quick_tag_warning :: "js_error \<Rightarrow> string" where
  "quick_tag_warning err = ''Transaction saved. Tags couldn'' @ [CHR 0x27] @ ''t be applied: ''
     @ extractErrorMessage err ''Failed'' @ ''. Edit the transaction to add them.''"

definition run_answered :: "nat \<Rightarrow> js_error + transaction option \<Rightarrow> cta \<Rightarrow> cta" where
  "run_answered i ans c =
     (if i < length (ct_runs c) then
        (let r = ct_runs c ! i;
             c1 = c\<lparr>ct_runs := take i (ct_runs c) @ drop (Suc i) (ct_runs c)\<rparr>
         in case (ru_created r, ans) of
              (Some _, Inl err) \<Rightarrow> finish_run r (Some (quick_tag_warning err)) c1
            | (Some _, Inr _) \<Rightarrow> finish_run r None c1
            | (None, Inl err) \<Rightarrow> on_mount (ru_mount r) (fail_form (extractErrorMessage err ''Failed'')) c1
            | (None, Inr created) \<Rightarrow>
                (case (ru_tags r, created_id created) of
                   (tag # tags, Some k) \<Rightarrow>
                     c1\<lparr>ct_runs := ct_runs c1 @ [r\<lparr>ru_created := Some k\<rparr>],
                        ct_log := ct_log c1 @ [tags_request k (tag # tags)]\<rparr>
                 | _ \<Rightarrow> finish_run r None c1))
      else c)"

datatype cta_event =
    CtOpen panel_kind | CtClose | CtMenu bool | CtDismissWarning | CtToday string
  | CtRefs "js_error + account list option \<times> category list option" | CtCategoryCreated category
  | CtTxField quick_tx_field | CtXferField quick_transfer_field | CtClick submit_intent
  | CtAnswer nat "js_error + transaction option"

fun cta_step :: "cta \<Rightarrow> cta_event \<Rightarrow> cta" where
  "cta_step c (CtOpen k) = open_panel k c"
| "cta_step c CtClose = close_panel c"
| "cta_step c (CtMenu b) = c\<lparr>ct_menuOpen := b\<rparr>"
| "cta_step c CtDismissWarning = c\<lparr>ct_warning := []\<rparr>"
| "cta_step c (CtToday d) = c\<lparr>ct_today := d\<rparr>"
| "cta_step c (CtRefs ans) = refs_answered ans c"
| "cta_step c (CtCategoryCreated cat) = c\<lparr>ct_categories := ct_categories c @ [cat]\<rparr>"
| "cta_step c (CtTxField q) = (case ct_form c of
      Some (n, MTx f) \<Rightarrow> if tx_rendered c then c\<lparr>ct_form := Some (n, MTx (qt_field (ct_accounts c) f q))\<rparr> else c
    | _ \<Rightarrow> c)"
| "cta_step c (CtXferField q) = (case ct_form c of
      Some (n, MXfer f) \<Rightarrow> if xfer_rendered c then c\<lparr>ct_form := Some (n, MXfer (qx_field (ct_accounts c) f q))\<rparr> else c
    | _ \<Rightarrow> c)"
| "cta_step c (CtClick i) = (case ct_form c of
      Some (n, MTx f) \<Rightarrow> if tx_rendered c then qt_click i n f c else c
    | Some (n, MXfer f) \<Rightarrow> if xfer_rendered c then qx_click i n f c else c
    | None \<Rightarrow> c)"
| "cta_step c (CtAnswer i ans) = run_answered i ans c"

text \<open>The arrow keys in the menu: from item \<open>current\<close>, if one has the focus.\<close>

definition onMenuKeyDown :: "nat \<Rightarrow> int \<Rightarrow> nat option \<Rightarrow> nat option" where
  "onMenuKeyDown items delta current =
     (if items = 0 then current
      else (case current of None \<Rightarrow> Some 0 | Some i \<Rightarrow> Some (nat ((int i + delta + int items) mod int items))))"

text \<open>The routes that show the button.\<close>

definition SHOW_ON :: "string list" where
  "SHOW_ON = [''/dashboard'', ''/transactions'', ''/accounts'', ''/categories'', ''/forecast-plans'', ''/budgets'', ''/recurring'']"

definition HIDE_PREFIXES :: "string list" where
  "HIDE_PREFIXES = [''/settings/'', ''/admin/'', ''/system/'']"

definition shouldShowAddTransactionCta :: "string option \<Rightarrow> bool" where
  "shouldShowAddTransactionCta pathname = (case pathname of
      None \<Rightarrow> False
    | Some p \<Rightarrow> p \<noteq> [] \<and> \<not> list_ex (\<lambda>h. js_starts_with p h) HIDE_PREFIXES
        \<and> p \<notin> {''/settings'', ''/admin'', ''/system''}
        \<and> list_ex (\<lambda>r. p = r \<or> js_starts_with p (r @ ''/'')) SHOW_ON)"

subsection \<open>Invariant\<close>

definition form_submitting :: "mounted \<Rightarrow> bool" where
  "form_submitting m = (case m of MTx f \<Rightarrow> qt_submitting f | MXfer f \<Rightarrow> qx_submitting f)"

definition intent_clear :: "mounted \<Rightarrow> bool" where
  "intent_clear m = (case m of MTx _ \<Rightarrow> True | MXfer f \<Rightarrow> qx_intent f = IntentSave)"

text \<open>The requests that save a row.\<close>

definition is_base :: "request \<Rightarrow> bool" where
  "is_base r \<longleftrightarrow> rq_method r = POST"

definition transfer_post_ok :: "request \<Rightarrow> bool" where
  "transfer_post_ok r \<longleftrightarrow> (rq_method r = POST \<and> rq_path r = ''/api/v1/transactions/transfer'' \<longrightarrow>
     js_get (rq_body r) ''from_account_id'' \<noteq> js_get (rq_body r) ''to_account_id''
     \<and> js_get (rq_body r) ''from_account_id'' \<noteq> JStr [] \<and> js_get (rq_body r) ''to_account_id'' \<noteq> JStr [])"

fun form_fits :: "nat \<Rightarrow> quick_run list \<Rightarrow> (nat \<times> mounted) option \<Rightarrow> bool" where
  "form_fits mounts rs None = True"
| "form_fits mounts rs (Some (n, m)) =
     (n < mounts \<and> form_submitting m = (n \<in> ru_mount ` set rs) \<and> intent_clear m)"

definition form_ok :: "cta \<Rightarrow> bool" where
  "form_ok c \<longleftrightarrow> form_fits (ct_mounts c) (ct_runs c) (ct_form c)"

definition runs_ok :: "cta \<Rightarrow> bool" where
  "runs_ok c \<longleftrightarrow> distinct (map ru_mount (ct_runs c)) \<and> (\<forall>r \<in> set (ct_runs c). ru_mount r < ct_mounts c)"

definition log_ok :: "cta \<Rightarrow> bool" where
  "log_ok c \<longleftrightarrow> list_all transfer_post_ok (ct_log c)
     \<and> ct_added c + length (ct_runs c) \<le> length (filter is_base (ct_log c))"

definition cta_ok :: "cta \<Rightarrow> bool" where
  "cta_ok c \<longleftrightarrow> form_ok c \<and> runs_ok c \<and> log_ok c"

lemmas cta_oks = cta_ok_def form_ok_def runs_ok_def log_ok_def

lemma render_panels_fields [simp]:
  "ct_runs (render_panels c) = ct_runs c" "ct_log (render_panels c) = ct_log c" "ct_added (render_panels c) = ct_added c"
  "ct_openPanel (render_panels c) = ct_openPanel c" "ct_warning (render_panels c) = ct_warning c"
  "ct_accounts (render_panels c) = ct_accounts c" "ct_today (render_panels c) = ct_today c"
  by (auto simp: render_panels_def mount_form_def split: option.split)

lemma render_panels_ok: "cta_ok c \<Longrightarrow> cta_ok (render_panels c)"
proof -
  assume c: "cta_ok c"
  have m: "cta_ok (mount_form k c)" for k
  proof -
    have fresh: "ct_mounts c \<notin> ru_mount ` set (ct_runs c)" using c by (auto simp: cta_oks)
    show ?thesis
      using c fresh by (cases k) (auto simp: cta_oks mount_form_def form_submitting_def intent_clear_def qt_init_def qx_init_def)
  qed
  show ?thesis
  proof (cases "ct_openPanel c")
    case None
    then show ?thesis using c by (simp add: render_panels_def cta_oks)
  next
    case (Some k)
    then show ?thesis using c m [of k] by (simp add: render_panels_def) (simp add: cta_oks)
  qed
qed

lemma on_mount_ok:
  assumes "runs_ok c" "log_ok c" and "\<And>m. intent_clear m \<Longrightarrow> intent_clear (g m)"
    and "\<And>m. form_submitting (g m) = (n \<in> ru_mount ` set (ct_runs c))"
    and "case ct_form c of None \<Rightarrow> True | Some (k, m) \<Rightarrow> k < ct_mounts c \<and> intent_clear m
           \<and> (k \<noteq> n \<longrightarrow> form_submitting m = (k \<in> ru_mount ` set (ct_runs c)))"
  shows "cta_ok (on_mount n g c)"
proof (cases "ct_form c")
  case None
  then show ?thesis using assms(1,2) by (simp add: on_mount_def cta_ok_def form_ok_def)
next
  case (Some km)
  obtain k m where km: "km = (k, m)" by fastforce
  show ?thesis
  proof (cases "k = n")
    case True
    then show ?thesis using Some km assms by (simp add: on_mount_def cta_oks)
  next
    case False
    then show ?thesis using Some km assms(1,2,5) by (simp add: on_mount_def cta_ok_def form_ok_def)
  qed
qed

lemma removed_run:
  assumes "distinct (map g xs)" and "i < length xs"
  defines "ys \<equiv> take i xs @ drop (Suc i) xs"
  shows "g (xs ! i) \<notin> g ` set ys" "\<And>k. k \<noteq> g (xs ! i) \<Longrightarrow> k \<in> g ` set ys \<longleftrightarrow> k \<in> g ` set xs" "distinct (map g ys)"
    "set ys \<subseteq> set xs" "length xs = Suc (length ys)"
proof -
  have xs: "xs = take i xs @ xs ! i # drop (Suc i) xs" using assms(2) by (rule id_take_nth_drop)
  have d: "distinct (map g (take i xs @ xs ! i # drop (Suc i) xs))" using assms(1) xs by simp
  then show "g (xs ! i) \<notin> g ` set ys" "distinct (map g ys)" by (auto simp: ys_def)
  show "k \<in> g ` set ys \<longleftrightarrow> k \<in> g ` set xs" if "k \<noteq> g (xs ! i)" for k
    using that arg_cong [OF xs, of set] by (auto simp: ys_def)
  show "set ys \<subseteq> set xs" using set_take_subset [of i xs] set_drop_subset [of "Suc i" xs] by (auto simp: ys_def)
  show "length xs = Suc (length ys)" using assms(2) by (simp add: ys_def)
qed

lemma fail_form_facts: "form_submitting (fail_form e m) = False" "intent_clear (fail_form e m) = intent_clear m"
  by (cases m; simp add: fail_form_def form_submitting_def intent_clear_def)+

lemma clear_mounted_facts: "form_submitting (clear_mounted d m) = False" "intent_clear (clear_mounted d m) = intent_clear m"
  by (cases m; simp add: clear_mounted_def form_submitting_def intent_clear_def qt_clearForm_def qx_clearForm_def)+

text \<open>A state in which the run of one mount has just been taken out.\<close>

definition run_out :: "nat \<Rightarrow> cta \<Rightarrow> bool" where
  "run_out n c \<longleftrightarrow> runs_ok c \<and> n < ct_mounts c \<and> n \<notin> ru_mount ` set (ct_runs c) \<and> list_all transfer_post_ok (ct_log c)
     \<and> ct_added c + Suc (length (ct_runs c)) \<le> length (filter is_base (ct_log c))
     \<and> (case ct_form c of None \<Rightarrow> True | Some (k, m) \<Rightarrow> k < ct_mounts c \<and> intent_clear m
           \<and> (k \<noteq> n \<longrightarrow> form_submitting m = (k \<in> ru_mount ` set (ct_runs c)))
           \<and> (k = n \<longrightarrow> form_submitting m))"

lemma run_out_taken:
  assumes "cta_ok c" and "i < length (ct_runs c)"
  shows "run_out (ru_mount (ct_runs c ! i)) (c\<lparr>ct_runs := take i (ct_runs c) @ drop (Suc i) (ct_runs c)\<rparr>)"
proof -
  have d: "distinct (map ru_mount (ct_runs c))" using assms(1) by (simp add: cta_oks)
  define n where "n = ru_mount (ct_runs c ! i)"
  define rs where "rs = take i (ct_runs c) @ drop (Suc i) (ct_runs c)"
  have rem: "n \<notin> ru_mount ` set rs" "\<And>k. k \<noteq> n \<Longrightarrow> k \<in> ru_mount ` set rs \<longleftrightarrow> k \<in> ru_mount ` set (ct_runs c)"
      "distinct (map ru_mount rs)" "set rs \<subseteq> set (ct_runs c)" "length (ct_runs c) = Suc (length rs)"
    using removed_run [OF d assms(2)] unfolding n_def rs_def by blast+
  have n: "n \<in> ru_mount ` set (ct_runs c)" "n < ct_mounts c" using assms by (auto simp: n_def cta_oks)
  have runs: "runs_ok (c\<lparr>ct_runs := rs\<rparr>)" using assms(1) rem(3,4) by (auto simp: cta_ok_def runs_ok_def)
  let ?c = "c\<lparr>ct_runs := rs\<rparr>"
  have form: "case ct_form ?c of None \<Rightarrow> True | Some (k, m) \<Rightarrow> k < ct_mounts ?c \<and> intent_clear m
           \<and> (k \<noteq> n \<longrightarrow> form_submitting m = (k \<in> ru_mount ` set (ct_runs ?c))) \<and> (k = n \<longrightarrow> form_submitting m)"
  proof (cases "ct_form c")
    case (Some km)
    then show ?thesis using assms(1) rem(2) n(1) by (cases km) (simp add: cta_ok_def form_ok_def)
  qed simp
  have log: "ct_added ?c + Suc (length (ct_runs ?c)) \<le> length (filter is_base (ct_log ?c))"
      "list_all transfer_post_ok (ct_log ?c)"
    using assms(1) rem(5) by (simp_all add: cta_ok_def log_ok_def)
  have mine: "n < ct_mounts ?c" "n \<notin> ru_mount ` set (ct_runs ?c)" using n rem(1) by simp_all
  show ?thesis
    unfolding run_out_def n_def [symmetric] rs_def [symmetric] by (intro conjI runs mine log form)
qed

lemma finish_run_ok: "run_out (ru_mount r) c \<Longrightarrow> cta_ok (finish_run r w c)"
proof -
  assume o: "run_out (ru_mount r) c"
  let ?c1 = "c\<lparr>ct_added := ct_added c + 1, ct_warning := (case w of Some w \<Rightarrow> w | None \<Rightarrow> ct_warning c)\<rparr>"
  have "cta_ok (on_mount (ru_mount r) (clear_mounted (ct_today c)) ?c1)"
    using o by (intro on_mount_ok) (auto simp: run_out_def runs_ok_def log_ok_def clear_mounted_facts split: option.splits)
  moreover have "cta_ok (close_panel ?c1)"
  proof -
    have "close_panel ?c1 = ?c1\<lparr>ct_openPanel := None, ct_form := None\<rparr>" by (simp add: close_panel_def render_panels_def)
    then show ?thesis using o by (simp add: run_out_def cta_oks)
  qed
  ultimately show ?thesis by (simp add: finish_run_def Let_def)
qed

lemma tags_request_ok: "transfer_post_ok (tags_request k ns)" "\<not> is_base (tags_request k ns)"
  by (simp_all add: tags_request_def transfer_post_ok_def is_base_def mk_req_def)

lemma run_answered_ok:
  assumes "cta_ok c"
  shows "cta_ok (run_answered i ans c)"
proof (cases "i < length (ct_runs c)")
  case False
  then show ?thesis using assms by (simp add: run_answered_def)
next
  case True
  define r where "r = ct_runs c ! i"
  define c1 where "c1 = c\<lparr>ct_runs := take i (ct_runs c) @ drop (Suc i) (ct_runs c)\<rparr>"
  have o: "run_out (ru_mount r) c1" unfolding r_def c1_def by (rule run_out_taken [OF assms True])
  have fin: "cta_ok (finish_run r w c1)" for w by (rule finish_run_ok [OF o])
  have fail: "cta_ok (on_mount (ru_mount r) (fail_form e) c1)" for e
    using o by (intro on_mount_ok) (auto simp: run_out_def runs_ok_def log_ok_def fail_form_facts split: option.splits)
  have tag: "cta_ok (c1\<lparr>ct_runs := ct_runs c1 @ [r\<lparr>ru_created := Some k\<rparr>], ct_log := ct_log c1 @ [tags_request k ns]\<rparr>)" for k ns
    using o tags_request_ok [of k ns] by (cases "ct_form c1") (auto simp: run_out_def cta_oks)
  have eq: "run_answered i ans c = (case (ru_created r, ans) of
              (Some _, Inl err) \<Rightarrow> finish_run r (Some (quick_tag_warning err)) c1
            | (Some _, Inr _) \<Rightarrow> finish_run r None c1
            | (None, Inl err) \<Rightarrow> on_mount (ru_mount r) (fail_form (extractErrorMessage err ''Failed'')) c1
            | (None, Inr created) \<Rightarrow>
                (case (ru_tags r, created_id created) of
                   (tag # tags, Some k) \<Rightarrow>
                     c1\<lparr>ct_runs := ct_runs c1 @ [r\<lparr>ru_created := Some k\<rparr>],
                        ct_log := ct_log c1 @ [tags_request k (tag # tags)]\<rparr>
                 | _ \<Rightarrow> finish_run r None c1))"
    unfolding run_answered_def r_def c1_def Let_def using True by (simp only: if_True)
  show ?thesis
    unfolding eq by (cases "ru_created r"; cases ans; cases "ru_tags r"; cases "created_id (projr ans)") (simp_all add: fin fail tag)
qed

text \<open>A handler that replaces the mounted form, its submission state unchanged.\<close>

lemma cta_ok_form:
  assumes "cta_ok c" and "ct_form c = Some (n, m)" and "form_submitting m' = form_submitting m" and "intent_clear m'"
  shows "cta_ok (c\<lparr>ct_form := Some (n, m')\<rparr>)"
  using assms by (simp add: cta_oks)

lemma qt_field_submitting: "qt_submitting (qt_field accts f q) = qt_submitting f"
  by (cases q) (simp_all add: qt_handleAccountChange_def qt_handleTypeChange_def)

lemma qx_field_facts: "qx_submitting (qx_field accts f q) = qx_submitting f" "qx_intent (qx_field accts f q) = qx_intent f"
  by (cases q; simp add: handleFromAccountChange_def)+

lemma default_effect_facts:
  "form_submitting (default_effect old new m) = form_submitting m" "intent_clear (default_effect old new m) = intent_clear m"
  by (cases m; simp add: default_effect_def form_submitting_def intent_clear_def qt_default_effect_def qx_default_effect_def)+

text \<open>What a valid submit adds: the form is submitting, its run starts, the log grows by one.\<close>

lemma cta_ok_submit:
  assumes "cta_ok c" and "ct_form c = Some (n, m)" and "\<not> form_submitting m" and "form_submitting m'" and "intent_clear m'"
    and "ru_mount r = n" and "transfer_post_ok q" and "is_base q"
  shows "cta_ok (c\<lparr>ct_form := Some (n, m'), ct_runs := ct_runs c @ [r], ct_log := ct_log c @ [q]\<rparr>)"
  using assms by (simp add: cta_oks)

lemma qt_request_ok: "transfer_post_ok (qt_request f)" "is_base (qt_request f)"
  by (simp_all add: qt_request_def transfer_post_ok_def is_base_def mk_req_def)

lemma select_valid_Some: "select_valid accts v \<Longrightarrow> \<exists>i a. v = Some i \<and> a \<in> set accts \<and> ac_id a = i"
  by (cases v) (auto simp: select_valid_def list_ex_iff)

lemma qx_request_ok:
  assumes "qx_valid accts f"
  shows "transfer_post_ok (qx_request f)" "is_base (qx_request f)"
proof -
  obtain i where i: "qx_fromAccountId f = Some i" using assms select_valid_Some by (auto simp: qx_valid_def)
  have "select_valid (qx_to_options accts f) (qx_toAccountId f)" using assms by (simp add: qx_valid_def)
  then obtain j a where j: "qx_toAccountId f = Some j" "a \<in> set (qx_to_options accts f)" "ac_id a = j"
    by (blast dest: select_valid_Some)
  have "i \<noteq> j" using j i by (auto simp: qx_to_options_def)
  then show "transfer_post_ok (qx_request f)" using i j
    by (simp add: qx_request_def transfer_post_ok_def mk_req_def js_get_def id_value_def)
  show "is_base (qx_request f)" by (simp add: qx_request_def is_base_def mk_req_def)
qed

lemma qx_valid_intent: "qx_valid accts (f\<lparr>qx_intent := x\<rparr>) = qx_valid accts f"
  by (simp add: qx_valid_def qx_to_options_def)

lemma qt_click_ok:
  assumes c: "cta_ok c" and f: "ct_form c = Some (n, MTx f)"
  shows "cta_ok (qt_click i n f c)"
proof (cases "qt_submitting f")
  case True
  then show ?thesis using c by (simp add: qt_click_def)
next
  case False
  define f1 where "f1 = (if i = IntentAddAnother then f\<lparr>qt_intent := IntentAddAnother\<rparr> else f)"
  have idle: "\<not> qt_submitting f1" using False by (simp add: f1_def)
  have keep: "cta_ok (c\<lparr>ct_form := Some (n, MTx g)\<rparr>)" if "\<not> qt_submitting g" for g
    by (rule cta_ok_form [OF c f]) (use False that in \<open>simp_all add: form_submitting_def intent_clear_def\<close>)
  have "cta_ok (qt_onSubmit n f1 c)"
    unfolding qt_onSubmit_def Let_def
    by (auto intro!: keep cta_ok_submit [OF c f] simp: idle form_submitting_def intent_clear_def qt_request_ok False)
  then show ?thesis using False keep [OF idle] by (simp add: qt_click_def f1_def Let_def)
qed

lemma qx_click_ok:
  assumes c: "cta_ok c" and f: "ct_form c = Some (n, MXfer f)"
  shows "cta_ok (qx_click i n f c)"
proof (cases "qx_submitting f")
  case True
  then show ?thesis using c by (simp add: qx_click_def)
next
  case False
  define f1 where "f1 = (if i = IntentAddAnother then f\<lparr>qx_intent := IntentAddAnother\<rparr> else f)"
  have same: "\<not> qx_submitting f1" "qx_valid accts f1 = qx_valid accts f" for accts
    using False by (simp_all add: f1_def qx_valid_intent)
  have "cta_ok (c\<lparr>ct_form := Some (n, MXfer (f1\<lparr>qx_intent := IntentSave\<rparr>))\<rparr>)"
    by (rule cta_ok_form [OF c f]) (use False same in \<open>simp_all add: form_submitting_def intent_clear_def\<close>)
  moreover have "cta_ok (qx_onSubmit n f1 c)" if "qx_valid (ct_accounts c) f1"
    unfolding qx_onSubmit_def Let_def
    by (rule cta_ok_submit [OF c f])
      (use False same that in \<open>simp_all add: form_submitting_def intent_clear_def qx_request_ok [of "ct_accounts c"] qx_valid_intent\<close>)
  ultimately show ?thesis using False by (simp add: qx_click_def f1_def Let_def)
qed

lemma loadRefs_ok: "cta_ok c \<Longrightarrow> cta_ok (loadRefs c)"
  by (simp add: cta_oks loadRefs_def transfer_post_ok_def mk_req_def is_base_def)

lemma open_panel_ok: "cta_ok c \<Longrightarrow> cta_ok (open_panel k c)"
  unfolding open_panel_def by (intro render_panels_ok) (use loadRefs_ok [of c] in \<open>simp add: cta_oks\<close>)

lemma close_panel_ok: "cta_ok c \<Longrightarrow> cta_ok (close_panel c)"
  unfolding close_panel_def by (intro render_panels_ok) (simp add: cta_oks)

lemma refs_answered_ok: "cta_ok c \<Longrightarrow> cta_ok (refs_answered ans c)"
proof -
  assume c: "cta_ok c"
  have idle: "cta_ok (c\<lparr>ct_loads := n, ct_loaded := True\<rparr>)" for n using c by (simp add: cta_oks)
  have got: "cta_ok (c\<lparr>ct_loads := n, ct_loaded := True, ct_accounts := as, ct_categories := cs,
                 ct_form := map_option (map_prod id (default_effect (ct_accounts c) as)) (ct_form c)\<rparr>)" for n as cs
    using c by (cases "ct_form c") (auto simp: cta_oks default_effect_facts)
  show ?thesis
    using c render_panels_ok [OF idle] render_panels_ok [OF got]
    by (cases ans) (simp_all add: refs_answered_def Let_def split: prod.split)
qed

lemma cta_step_ok: "cta_ok c \<Longrightarrow> cta_ok (cta_step c e)"
proof (cases e)
  case (CtTxField q)
  then show "cta_ok c \<Longrightarrow> ?thesis"
    by (cases "ct_form c") (auto split: mounted.split intro!: cta_ok_form simp: form_submitting_def intent_clear_def qt_field_submitting)
next
  case (CtXferField q)
  assume c: "cta_ok c"
  show ?thesis
  proof (cases "ct_form c")
    case (Some km)
    obtain n m where km: "km = (n, m)" by fastforce
    show ?thesis
    proof (cases m)
      case (MXfer f)
      have "intent_clear (MXfer f)" using c Some km MXfer by (simp add: cta_ok_def form_ok_def)
      then have "cta_ok (c\<lparr>ct_form := Some (n, MXfer (qx_field (ct_accounts c) f q))\<rparr>)"
        using Some km MXfer by (intro cta_ok_form [OF c]) (auto simp: form_submitting_def intent_clear_def qx_field_facts)
      then show ?thesis using CtXferField Some km MXfer c by simp
    qed (use CtXferField Some km c in simp)
  qed (use CtXferField c in simp)
next
  case (CtClick i)
  assume c: "cta_ok c"
  show ?thesis
  proof (cases "ct_form c")
    case (Some km)
    obtain n m where km: "km = (n, m)" by fastforce
    show ?thesis
      using CtClick Some km c qt_click_ok [OF c, of n] qx_click_ok [OF c, of n] by (cases m) simp_all
  qed (use CtClick c in simp)
qed (simp_all add: open_panel_ok close_panel_ok refs_answered_ok run_answered_ok, simp_all add: cta_oks)

interpretation quick_add: step_machine cta_step cta_ok
  by unfold_locales (rule cta_step_ok)

lemma cta_mount_ok: "cta_ok (cta_mount today)"
  unfolding cta_mount_def by (rule loadRefs_ok) (simp add: cta_oks)

subsection \<open>What the quick add does\<close>

definition is_click :: "cta_event \<Rightarrow> bool" where
  "is_click e = (case e of CtClick _ \<Rightarrow> True | _ \<Rightarrow> False)"

definition base_posts :: "cta \<Rightarrow> nat" where
  "base_posts c = length (filter is_base (ct_log c))"

lemma ct_log_on_mount [simp]: "ct_log (on_mount n g c) = ct_log c"
  by (simp add: on_mount_def split: option.split prod.split)

lemma ct_log_finish [simp]: "ct_log (finish_run r w c) = ct_log c"
  by (simp add: finish_run_def Let_def close_panel_def)

lemma base_posts_answer: "base_posts (run_answered i ans c) = base_posts c"
  unfolding run_answered_def Let_def base_posts_def
  by (simp add: tags_request_ok split: option.split sum.split list.split)

lemma base_posts_refs: "base_posts (refs_answered ans c) = base_posts c"
  unfolding refs_answered_def Let_def base_posts_def by (auto split: sum.split prod.split)

lemma base_posts_step: "base_posts (cta_step c e) \<le> base_posts c + (if is_click e then 1 else 0)"
proof (cases e)
  case (CtClick i)
  have "base_posts (qt_click i n f c) \<le> base_posts c + 1" for n f
    by (simp add: qt_click_def qt_onSubmit_def Let_def base_posts_def)
  moreover have "base_posts (qx_click i n f c) \<le> base_posts c + 1" for n f
    by (simp add: qx_click_def qx_onSubmit_def Let_def base_posts_def)
  ultimately show ?thesis using CtClick by (auto simp: is_click_def split: option.split mounted.split)
qed (auto simp: is_click_def base_posts_answer base_posts_refs split: option.split mounted.split,
     auto simp: base_posts_def open_panel_def close_panel_def loadRefs_def is_base_def mk_req_def)

lemma base_posts_run: "base_posts (run cta_step c es) \<le> base_posts c + length (filter is_click es)"
proof (induction es arbitrary: c)
  case (Cons e es)
  show ?case using Cons.IH [of "cta_step c e"] base_posts_step [of c e] by (simp split: if_splits)
qed simp

text \<open>
  The category is not among what the browser checks: the picker's hidden input is marked
  required, which has no effect on a hidden input, so the form is posted without a category.
\<close>

lemma missing_category_is_posted:
  assumes "qt_valid accts f"
  shows "qt_valid accts (f\<lparr>qt_categoryId := None\<rparr>)
    \<and> js_get (rq_body (qt_request (f\<lparr>qt_categoryId := None\<rparr>))) ''category_id'' = JStr []"
  using assms by (simp add: qt_valid_def qt_request_def mk_req_def js_get_def id_value_def)

text \<open>C26: Whatever the user does and whatever is answered when, no transfer is posted between one and the
  same account or without one of them, every row that a save is reported for was posted by a
  request of its own, each such request by a click of its own (so the tags that fail never
  post the row again), and no form has two saves under way.\<close>

theorem quick_add_posts_once:
  fixes es today
  defines "c \<equiv> run cta_step (cta_mount today) es"
  shows "list_all transfer_post_ok (ct_log c)
    \<and> ct_added c + length (ct_runs c) \<le> length (filter is_base (ct_log c))
    \<and> length (filter is_base (ct_log c)) \<le> length (filter is_click es)
    \<and> distinct (map ru_mount (ct_runs c))"
proof -
  have "cta_ok c" unfolding c_def by (rule quick_add.run_inv [OF cta_mount_ok])
  moreover have "base_posts c \<le> length (filter is_click es)"
    using base_posts_run [of "cta_mount today" es]
    by (simp add: c_def base_posts_def cta_mount_def loadRefs_def is_base_def mk_req_def)
  ultimately show ?thesis by (simp add: cta_ok_def log_ok_def runs_ok_def base_posts_def)
qed

lemma answer_last_run:
  assumes "ct_runs c = rs @ [r]"
  shows "run_answered (length rs) ans c = (let c1 = c\<lparr>ct_runs := rs\<rparr> in
     case (ru_created r, ans) of
              (Some _, Inl err) \<Rightarrow> finish_run r (Some (quick_tag_warning err)) c1
            | (Some _, Inr _) \<Rightarrow> finish_run r None c1
            | (None, Inl err) \<Rightarrow> on_mount (ru_mount r) (fail_form (extractErrorMessage err ''Failed'')) c1
            | (None, Inr created) \<Rightarrow>
                (case (ru_tags r, created_id created) of
                   (tag # tags, Some k) \<Rightarrow>
                     c1\<lparr>ct_runs := ct_runs c1 @ [r\<lparr>ru_created := Some k\<rparr>],
                        ct_log := ct_log c1 @ [tags_request k (tag # tags)]\<rparr>
                 | _ \<Rightarrow> finish_run r None c1))"
  using assms by (simp add: run_answered_def Let_def)

text \<open>Save closes the panel. The transfer form's Save, in every state that can be reached and whatever was
  rejected before, posts the form and closes the panel once it is answered.\<close>

theorem transfer_save_closes_panel:
  assumes "run cta_step (cta_mount today) es = c" and "ct_form c = Some (n, MXfer f)" and "xfer_rendered c"
    and "\<not> qx_submitting f" and "qx_valid (ct_accounts c) f"
  shows "ct_log (cta_step c (CtClick IntentSave)) = ct_log c @ [qx_request f]
    \<and> ct_openPanel (run cta_step c [CtClick IntentSave, CtAnswer (length (ct_runs c)) (Inr t)]) = None
    \<and> ct_added (run cta_step c [CtClick IntentSave, CtAnswer (length (ct_runs c)) (Inr t)]) = ct_added c + 1"
proof -
  have "cta_ok c" unfolding assms(1) [symmetric] by (rule quick_add.run_inv [OF cta_mount_ok])
  then have i: "qx_intent f = IntentSave" using assms(2) by (simp add: cta_ok_def form_ok_def intent_clear_def)
  have req: "qx_request (f\<lparr>qx_intent := IntentSave\<rparr>) = qx_request f" by (simp add: qx_request_def)
  define c1 where "c1 = cta_step c (CtClick IntentSave)"
  have c1: "c1 = qx_onSubmit n f c" using assms(2-5) by (simp add: c1_def qx_click_def)
  have runs: "ct_runs c1 = ct_runs c @ [\<lparr>ru_mount = n, ru_kind = PkTransfer, ru_addAnother = False, ru_tags = [], ru_created = None\<rparr>]"
    using i by (simp add: c1 qx_onSubmit_def Let_def)
  have "cta_step c1 (CtAnswer (length (ct_runs c)) (Inr t)) = close_panel (c1\<lparr>ct_runs := ct_runs c, ct_added := ct_added c1 + 1\<rparr>)"
    by (simp add: answer_last_run [OF runs] finish_run_def Let_def)
  moreover have "ct_log c1 = ct_log c @ [qx_request f]" "ct_added c1 = ct_added c"
    by (simp_all add: c1 qx_onSubmit_def Let_def req)
  ultimately show ?thesis unfolding run_simps c1_def [symmetric] by (simp add: close_panel_def)
qed

lemma qt_fields_run:
  assumes "ct_form c = Some (n, MTx f)" and "tx_rendered c"
  shows "run cta_step c (map CtTxField qs) = c\<lparr>ct_form := Some (n, MTx (foldl (qt_field (ct_accounts c)) f qs))\<rparr>"
  using assms
proof (induction qs arbitrary: c f)
  case (Cons q qs)
  let ?c = "c\<lparr>ct_form := Some (n, MTx (qt_field (ct_accounts c) f q))\<rparr>"
  have "tx_rendered ?c" using Cons.prems(2) by (simp add: tx_rendered_def)
  from Cons.IH [OF _ this] show ?case using Cons.prems by simp
qed simp

lemma qt_field_intent: "qt_intent (qt_field accts f q) = qt_intent f"
  by (cases q) (simp_all add: qt_handleAccountChange_def qt_handleTypeChange_def)

lemma qt_fields_facts:
  "qt_intent (foldl (qt_field accts) f qs) = qt_intent f \<and> qt_submitting (foldl (qt_field accts) f qs) = qt_submitting f"
  by (induction qs arbitrary: f) (simp_all add: qt_field_intent qt_field_submitting)

text \<open>The transaction form has no listener for what the browser rejects: once a Save and add new was
  rejected, the next plain Save of the corrected form keeps the panel open and clears the form
  as if another row had been asked for.\<close>

theorem rejected_add_another_sticks:
  assumes f: "ct_form c = Some (n, MTx f)" and r: "tx_rendered c" and idle: "\<not> qt_submitting f"
    and bad: "\<not> qt_valid (ct_accounts c) f"
    and g: "foldl (qt_field (ct_accounts c)) (f\<lparr>qt_intent := IntentAddAnother\<rparr>) qs = g"
    and ok: "qt_valid (ct_accounts c) g" "qt_tags g = []"
  defines "c1 \<equiv> run cta_step c (CtClick IntentAddAnother # map CtTxField qs @ [CtClick IntentSave])"
  shows "ct_log c1 = ct_log c @ [qt_request g]
    \<and> ct_openPanel (cta_step c1 (CtAnswer (length (ct_runs c)) (Inr t))) = ct_openPanel c
    \<and> map_option snd (ct_form (cta_step c1 (CtAnswer (length (ct_runs c)) (Inr t))))
        = Some (clear_mounted (ct_today c) (MTx (g\<lparr>qt_intent := IntentSave\<rparr>)))"
proof -
  define h where "h = f\<lparr>qt_intent := IntentAddAnother\<rparr>"
  have "qt_valid (ct_accounts c) h = qt_valid (ct_accounts c) f" by (simp add: h_def qt_valid_def)
  then have click: "cta_step c (CtClick IntentAddAnother) = c\<lparr>ct_form := Some (n, MTx h)\<rparr>"
    using f r idle bad by (simp add: qt_click_def h_def)
  let ?c = "c\<lparr>ct_form := Some (n, MTx h)\<rparr>"
  have "run cta_step ?c (map CtTxField qs) = c\<lparr>ct_form := Some (n, MTx g)\<rparr>"
    using qt_fields_run [of ?c n h qs] r g by (simp add: tx_rendered_def h_def)
  then have c1: "c1 = cta_step (c\<lparr>ct_form := Some (n, MTx g)\<rparr>) (CtClick IntentSave)"
    by (simp only: c1_def run_simps append_Cons run_append click)
  have gi: "qt_intent g = IntentAddAnother" "\<not> qt_submitting g"
    using qt_fields_facts [of "ct_accounts c" h qs] g idle by (simp_all add: h_def)
  have ns: "\<not> settled_before (qt_status g) (qt_settledDate g) (qt_date g)" using ok(1) by (simp add: qt_valid_def)
  let ?r = "\<lparr>ru_mount = n, ru_kind = PkTransaction, ru_addAnother = True, ru_tags = [], ru_created = None\<rparr>"
  have req: "qt_request (g\<lparr>qt_intent := IntentSave\<rparr>) = qt_request g" by (simp add: qt_request_def)
  have c1': "c1 = c\<lparr>ct_form := Some (n, MTx (g\<lparr>qt_intent := IntentSave, qt_submitting := True, qt_errMsg := []\<rparr>)),
      ct_runs := ct_runs c @ [?r], ct_log := ct_log c @ [qt_request g]\<rparr>"
    using r ok gi ns by (simp add: c1 tx_rendered_def qt_click_def qt_onSubmit_def Let_def req)
  have "cta_step c1 (CtAnswer (length (ct_runs c)) (Inr t))
      = on_mount n (clear_mounted (ct_today c)) (c1\<lparr>ct_runs := ct_runs c, ct_added := ct_added c + 1\<rparr>)"
    using answer_last_run [of c1 "ct_runs c" ?r "Inr t"] by (simp add: c1' finish_run_def Let_def)
  moreover have "clear_mounted d (MTx (g\<lparr>qt_intent := IntentSave, qt_submitting := True, qt_errMsg := []\<rparr>))
      = clear_mounted d (MTx (g\<lparr>qt_intent := IntentSave\<rparr>))" for d
    by (simp add: clear_mounted_def qt_clearForm_def)
  ultimately show ?thesis by (simp add: c1' on_mount_def)
qed

definition demo_quick_account :: account where
  "demo_quick_account = \<lparr>ac_id = 1, ac_name = ''Card'', ac_account_type_id = 1, ac_account_type_name = ''Credit card'',
     ac_account_type_slug = Some ''credit_card'', ac_balance = 0, ac_currency = ''EUR'', ac_is_active = True, ac_close_day = None,
     ac_is_default = True, ac_opening_balance = None, ac_opening_balance_date = None\<rparr>"

definition demo_quick_category :: category where
  "demo_quick_category = \<lparr>ca_id = 3, ca_name = ''Food'', ca_type = CatExpense, ca_parent_id = None, ca_parent_name = None,
     ca_description = None, ca_slug = None, ca_is_system = False, ca_transaction_count = 0\<rparr>"

text \<open>The button's component after the accounts have been loaded.\<close>

definition demo_cta :: cta where
  "demo_cta = cta_step (cta_mount ''2026-05-04'')
     (CtRefs (Inr (Some [demo_quick_account, demo_quick_account\<lparr>ac_id := 2, ac_is_default := False\<rparr>], Some [demo_quick_category])))"

theorem transfer_save_closes_panel_witness:
  "ct_openPanel (run cta_step demo_cta [CtOpen PkTransfer, CtXferField (XfTo (Some 2)), CtXferField (XfAmount ''12.50''),
     CtClick IntentSave, CtAnswer 0 (Inr None)]) = None"
proof -
  let ?es = "[CtRefs (Inr (Some [demo_quick_account, demo_quick_account\<lparr>ac_id := 2, ac_is_default := False\<rparr>], Some [demo_quick_category])),
    CtOpen PkTransfer, CtXferField (XfTo (Some 2)), CtXferField (XfAmount ''12.50'')]"
  define c where "c = run cta_step (cta_mount ''2026-05-04'') ?es"
  have "ct_form c = Some (0, MXfer ((qx_init ''2026-05-04'' [demo_quick_account])\<lparr>qx_toAccountId := Some 2, qx_amount := ''12.50''\<rparr>))"
    "xfer_rendered c" "ct_runs c = []" "qx_valid (ct_accounts c) ((qx_init ''2026-05-04'' [demo_quick_account])\<lparr>qx_toAccountId := Some 2, qx_amount := ''12.50''\<rparr>)"
    unfolding c_def by code_simp+
  then show ?thesis
    using transfer_save_closes_panel [OF c_def [symmetric], of 0 _ None] by (simp add: c_def demo_cta_def qx_init_def)
qed

theorem rejected_add_another_sticks_witness:
  "ct_openPanel (run cta_step demo_cta [CtOpen PkTransaction, CtClick IntentAddAnother,
     CtTxField (QfDescription ''Lunch''), CtTxField (QfAmount ''9''), CtClick IntentSave, CtAnswer 0 (Inr None)]) = Some PkTransaction"
proof -
  define c where "c = cta_step demo_cta (CtOpen PkTransaction)"
  define f where "f = qt_init ''2026-05-04'' [demo_quick_account]"
  have "ct_form c = Some (0, MTx f)" "tx_rendered c" "\<not> qt_submitting f" "\<not> qt_valid (ct_accounts c) f"
    "qt_valid (ct_accounts c) (foldl (qt_field (ct_accounts c)) (f\<lparr>qt_intent := IntentAddAnother\<rparr>) [QfDescription ''Lunch'', QfAmount ''9''])"
    "qt_tags (foldl (qt_field (ct_accounts c)) (f\<lparr>qt_intent := IntentAddAnother\<rparr>) [QfDescription ''Lunch'', QfAmount ''9'']) = []"
    "ct_runs c = []" "ct_openPanel c = Some PkTransaction"
    unfolding c_def f_def by code_simp+
  then show ?thesis
    using rejected_add_another_sticks [of c 0 f "[QfDescription ''Lunch'', QfAmount ''9'']" _ None] by (simp add: c_def)
qed

text \<open>The answer to a Save closes the panel that is open when it arrives, whichever it is: a form that
  the user has opened meanwhile disappears with what was typed into it. And if the save failed
  after its own panel was closed, nothing tells so.\<close>

theorem late_answer_closes_other_panel:
  assumes "i < length (ct_runs c)" and "ct_runs c ! i = r" and "ct_form c = Some (n, m)" and "n \<noteq> ru_mount r"
  shows "(\<not> ru_addAnother r \<and> ru_tags r = [] \<longrightarrow>
       ct_openPanel (run_answered i (Inr t) c) = None \<and> ct_form (run_answered i (Inr t) c) = None)
    \<and> (ru_created r = None \<longrightarrow>
       run_answered i (Inl err) c = c\<lparr>ct_runs := take i (ct_runs c) @ drop (Suc i) (ct_runs c)\<rparr>)"
proof -
  have "finish_run r None d = close_panel (d\<lparr>ct_added := ct_added d + 1\<rparr>)" if "\<not> ru_addAnother r" for d
    using that by (simp add: finish_run_def Let_def)
  then show ?thesis
    using assms by (cases "ru_created r")
      (auto simp: run_answered_def Let_def close_panel_def render_panels_def on_mount_def)
qed

theorem late_answer_closes_other_panel_witness:
  "ct_form (run cta_step demo_cta [CtOpen PkTransaction, CtTxField (QfDescription ''Lunch''), CtTxField (QfAmount ''9''),
     CtClick IntentSave, CtClose, CtOpen PkTransfer, CtXferField (XfAmount ''50''), CtAnswer 0 (Inr None)]) = None"
proof -
  define c where "c = run cta_step demo_cta [CtOpen PkTransaction, CtTxField (QfDescription ''Lunch''), CtTxField (QfAmount ''9''),
     CtClick IntentSave, CtClose, CtOpen PkTransfer, CtXferField (XfAmount ''50'')]"
  let ?r = "\<lparr>ru_mount = 0, ru_kind = PkTransaction, ru_addAnother = False, ru_tags = [], ru_created = None\<rparr>"
  have "ct_runs c = [?r]"
    "ct_form c = Some (1, MXfer ((qx_init ''2026-05-04'' [demo_quick_account])\<lparr>qx_amount := ''50''\<rparr>))"
    unfolding c_def by code_simp+
  then show ?thesis
    using late_answer_closes_other_panel [of 0 c ?r 1 _ None] by (simp add: c_def)
qed

end
