(* ===== verification/Category_Select.thy ===== *)
theory Category_Select
  imports Persisted Quick_Forms
begin

section \<open>The category picker and its modal\<close>

text \<open>
  components/ui/CategorySelect.tsx and components/ui/AddCategoryModal.tsx. The recently used
  ids are read from the browser's storage without a check of what is there: the state holds
  the parsed JSON value, and a rendering in which it is no array throws, which replaces the
  page by the error boundary. A handler that throws stops where it is. Next to the client
  stand the two functions of the backend that decide what becomes of a picked and of a
  created category.
\<close>

definition RECENT_KEY :: string where "RECENT_KEY = ''pfv2-recent-categories''"
definition MAX_RECENT :: nat where "MAX_RECENT = 5"

text \<open>\<^verbatim>\<open>getItem(KEY) || "[]"\<close>, parsed, or an empty list when any of it throws.\<close>

definition getRecent :: "storage \<Rightarrow> jsval" where
  "getRecent st =
     (if \<not> st_window st \<or> \<not> st_readable st then JArr []
      else (case st_items st RECENT_KEY of
              None \<Rightarrow> JArr []
            | Some raw \<Rightarrow> if raw = [] then JArr [] else (case json_parse raw of Some v \<Rightarrow> v | None \<Rightarrow> JArr [])))"

definition not_iterable :: "jsval \<Rightarrow> js_error" where
  "not_iterable v = (if js_is_nullish v then null_property_error ''map'' else PlainError ''TypeError'' ''map is not a function'')"

definition js_array :: "jsval \<Rightarrow> js_error + jsval list" where
  "js_array v = (case v of JArr xs \<Rightarrow> Inr xs | _ \<Rightarrow> Inl (not_iterable v))"

definition saveRecent :: "int \<Rightarrow> storage \<Rightarrow> js_error + storage" where
  "saveRecent i st = (case js_array (getRecent st) of
      Inl e \<Rightarrow> Inl e
    | Inr xs \<Rightarrow>
        if \<not> st_writable st then Inl (PlainError ''QuotaExceededError'' ''setItem failed'')
        else Inr (st\<lparr>st_items := (st_items st)(RECENT_KEY \<mapsto>
               json_stringify (JArr (take MAX_RECENT (JInt i # filter (\<lambda>r. r \<noteq> JInt i) xs))))\<rparr>))"

subsection \<open>What is offered\<close>

datatype type_filter = TfIncome | TfExpense | TfBoth

record picker_props =
  pp_categories :: "category list"
  pp_filterType :: "tx_type option"
  pp_typeFilter :: "type_filter option"
  pp_disabled :: "int list"

definition cat_type_of :: "tx_type \<Rightarrow> category_type" where
  "cat_type_of t = (case t of Income \<Rightarrow> CatIncome | Expense \<Rightarrow> CatExpense)"

definition effectiveFilterType :: "picker_props \<Rightarrow> tx_type option" where
  "effectiveFilterType p = (case pp_filterType p of
      Some t \<Rightarrow> Some t
    | None \<Rightarrow> (case pp_typeFilter p of Some TfIncome \<Rightarrow> Some Income | Some TfExpense \<Rightarrow> Some Expense | _ \<Rightarrow> None))"

definition bothOnly :: "picker_props \<Rightarrow> bool" where
  "bothOnly p \<longleftrightarrow> pp_typeFilter p = Some TfBoth"

definition pickable_type :: "picker_props \<Rightarrow> category \<Rightarrow> bool" where
  "pickable_type p c \<longleftrightarrow> \<not> (bothOnly p \<and> ca_type c \<noteq> CatBoth)
     \<and> (case effectiveFilterType p of None \<Rightarrow> True | Some t \<Rightarrow> ca_type c = cat_type_of t \<or> ca_type c = CatBoth)"

definition selected :: "picker_props \<Rightarrow> int option \<Rightarrow> category option" where
  "selected p v = (case js_find (\<lambda>c. Some (ca_id c) = v) (pp_categories p) of
      Some c \<Rightarrow> if pickable_type p c then Some c else None
    | None \<Rightarrow> None)"

definition parentIds :: "picker_props \<Rightarrow> int list" where
  "parentIds p = List.map_filter ca_parent_id (pp_categories p)"

definition selectable :: "picker_props \<Rightarrow> category list" where
  "selectable p = filter (\<lambda>c. pickable_type p c \<and> (ca_parent_id c \<noteq> None \<or> ca_id c \<notin> set (parentIds p))) (pp_categories p)"

definition filtered :: "picker_props \<Rightarrow> string \<Rightarrow> category list" where
  "filtered p query = (let q = js_to_lower query in
     if q \<noteq> [] then filter (\<lambda>c. js_includes (js_to_lower (ca_name c)) q
         \<or> (case ca_parent_name c of Some n \<Rightarrow> js_includes (js_to_lower n) q | None \<Rightarrow> False)) (selectable p)
     else selectable p)"

definition recentItems :: "picker_props \<Rightarrow> string \<Rightarrow> jsval list \<Rightarrow> category list" where
  "recentItems p query rs = List.map_filter (\<lambda>r. js_find (\<lambda>c. JInt (ca_id c) = r) (filtered p query)) rs"

definition nonRecent :: "picker_props \<Rightarrow> string \<Rightarrow> jsval list \<Rightarrow> category list" where
  "nonRecent p query rs = filter (\<lambda>c. JInt (ca_id c) \<notin> set rs) (filtered p query)"

definition flatList :: "picker_props \<Rightarrow> string \<Rightarrow> jsval list \<Rightarrow> category list" where
  "flatList p query rs = filter (\<lambda>c. ca_id c \<notin> set (pp_disabled p)) (recentItems p query rs @ nonRecent p query rs)"

definition masters :: "picker_props \<Rightarrow> category list" where
  "masters p = filter (\<lambda>c. ca_parent_id c = None) (pp_categories p)"

definition grouped :: "picker_props \<Rightarrow> string \<Rightarrow> jsval list \<Rightarrow> (string \<times> category list) list" where
  "grouped p query rs =
     (let non = nonRecent p query rs;
          of_masters = filter (\<lambda>g. snd g \<noteq> [])
            (map (\<lambda>m. (ca_name m, filter (\<lambda>c. ca_parent_id c = Some (ca_id m)) non)) (masters p));
          masterless = filter (\<lambda>c. ca_parent_id c = None) non
      in of_masters @ (if masterless \<noteq> [] then [(''Other'', masterless)] else []))"

text \<open>The options in the order in which they are on the screen.\<close>

definition displayed :: "picker_props \<Rightarrow> string \<Rightarrow> jsval list \<Rightarrow> category list" where
  "displayed p query rs = recentItems p query rs @ concat (map snd (grouped p query rs))"

subsection \<open>The modal that creates a category\<close>

record add_category =
  am_name :: string
  am_type :: category_type
  am_isSub :: bool
  am_parentId :: "int option"
  am_description :: string
  am_submitting :: bool
  am_errorText :: "string option"

definition lockedType :: "picker_props \<Rightarrow> category_type option" where
  "lockedType p = (if bothOnly p then None else map_option cat_type_of (effectiveFilterType p))"

definition initialType :: "picker_props \<Rightarrow> category_type" where
  "initialType p = (if bothOnly p then CatBoth
     else (case effectiveFilterType p of Some t \<Rightarrow> cat_type_of t | None \<Rightarrow> CatBoth))"

definition add_category_init :: "picker_props \<Rightarrow> string \<Rightarrow> add_category" where
  "add_category_init p query = \<lparr>am_name = query,
     am_type = (case lockedType p of Some t \<Rightarrow> t | None \<Rightarrow> initialType p),
     am_isSub = False, am_parentId = None, am_description = [], am_submitting = False, am_errorText = None\<rparr>"

definition parent_options :: "picker_props \<Rightarrow> category list" where
  "parent_options p = filter (\<lambda>c. case lockedType p of None \<Rightarrow> True | Some t \<Rightarrow> ca_type c = t) (masters p)"

definition needsParent :: "add_category \<Rightarrow> bool" where
  "needsParent m \<longleftrightarrow> am_isSub m \<and> am_parentId m = None"

definition am_canSubmit :: "add_category \<Rightarrow> bool" where
  "am_canSubmit m \<longleftrightarrow> length (js_trim (am_name m)) > 0 \<and> length (js_trim (am_name m)) \<le> 100
     \<and> \<not> am_submitting m \<and> \<not> needsParent m"

definition type_name :: "category_type \<Rightarrow> string" where
  "type_name t = (case t of CatIncome \<Rightarrow> ''income'' | CatExpense \<Rightarrow> ''expense'' | CatBoth \<Rightarrow> ''both'')"

definition body_parent :: "add_category \<Rightarrow> int option" where
  "body_parent m = (if am_isSub m then am_parentId m else None)"

definition add_category_request :: "add_category \<Rightarrow> request" where
  "add_category_request m = mk_req POST ''/api/v1/categories'' (JObj
     ([(''name'', JStr (js_trim (am_name m))), (''type'', JStr (type_name (am_type m)))]
      @ (if body_parent m \<noteq> None then [(''parent_id'', id_value (body_parent m))] else [])
      @ (if js_trim (am_description m) \<noteq> [] then [(''description'', JStr (js_trim (am_description m)))] else [])))"

datatype add_category_field =
    AmName string | AmType category_type | AmIsSub bool | AmParent "int option" | AmDescription string

fun am_field :: "picker_props \<Rightarrow> add_category \<Rightarrow> add_category_field \<Rightarrow> add_category" where
  "am_field p m (AmName s) = m\<lparr>am_name := s\<rparr>"
| "am_field p m (AmType t) = (if lockedType p = None then m\<lparr>am_type := t\<rparr> else m)"
| "am_field p m (AmIsSub b) = (let m1 = m\<lparr>am_isSub := b\<rparr> in if b then m1 else m1\<lparr>am_parentId := None\<rparr>)"
| "am_field p m (AmParent i) =
     (if am_isSub m \<and> (i = None \<or> i \<in> (\<lambda>c. Some (ca_id c)) ` set (parent_options p)) then m\<lparr>am_parentId := i\<rparr> else m)"
| "am_field p m (AmDescription s) = m\<lparr>am_description := s\<rparr>"

subsection \<open>The backend on categories\<close>

text \<open>\<^verbatim>\<open>create_category\<close>: a child takes the type of its parent, whatever the request says.\<close>

definition new_category :: "add_category \<Rightarrow> int \<Rightarrow> category" where
  "new_category m i = \<lparr>ca_id = i, ca_name = js_trim (am_name m), ca_type = am_type m, ca_parent_id = None, ca_parent_name = None,
     ca_description = (if js_trim (am_description m) \<noteq> [] then Some (js_trim (am_description m)) else None),
     ca_slug = None, ca_is_system = False, ca_transaction_count = 0\<rparr>"

definition create_category :: "category list \<Rightarrow> add_category \<Rightarrow> int \<Rightarrow> category option" where
  "create_category cats m i = (case body_parent m of
      None \<Rightarrow> Some (new_category m i)
    | Some k \<Rightarrow> (case js_find (\<lambda>c. ca_id c = k) cats of
        None \<Rightarrow> None
      | Some par \<Rightarrow> if ca_parent_id par \<noteq> None then None
          else Some ((new_category m i)\<lparr>ca_type := ca_type par, ca_parent_id := Some k, ca_parent_name := Some (ca_name par)\<rparr>)))"

definition category_type_matches :: "category_type \<Rightarrow> tx_type \<Rightarrow> bool" where
  "category_type_matches c t \<longleftrightarrow> c = CatBoth \<or> c = cat_type_of t"

text \<open>\<^verbatim>\<open>validate_category_for_type\<close>: the category and, for a subcategory, its master.\<close>

definition validate_category_for_type :: "category list \<Rightarrow> int option \<Rightarrow> tx_type \<Rightarrow> bool" where
  "validate_category_for_type cats v t = (case js_find (\<lambda>c. Some (ca_id c) = v) cats of
      None \<Rightarrow> False
    | Some c \<Rightarrow> category_type_matches (ca_type c) t \<and>
        (case ca_parent_id c of None \<Rightarrow> True
         | Some k \<Rightarrow> (case js_find (\<lambda>m. ca_id m = k) cats of
             None \<Rightarrow> True | Some m \<Rightarrow> category_type_matches (ca_type m) t)))"

subsection \<open>The picker as a state machine\<close>

record picker =
  pk_props :: picker_props
  pk_value :: "int option"
  pk_open :: bool
  pk_query :: string
  pk_highlight :: int
  pk_modal :: "add_category option"
  pk_recent :: jsval
  pk_storage :: storage
  pk_crashed :: bool
  pk_log :: "request list"

text \<open>The effects on \<^verbatim>\<open>open\<close> and on \<^verbatim>\<open>[query, open]\<close>, and the rendering after them.\<close>

definition picker_render :: "picker \<Rightarrow> picker" where
  "picker_render s = (case js_array (pk_recent s) of Inl _ \<Rightarrow> s\<lparr>pk_crashed := True\<rparr> | Inr _ \<Rightarrow> s)"

definition picker_effects :: "picker \<Rightarrow> picker \<Rightarrow> picker" where
  "picker_effects old s =
     (let s1 = (if pk_open s \<noteq> pk_open old then s\<lparr>pk_recent := getRecent (pk_storage s)\<rparr> else s);
          s2 = (if pk_open s \<noteq> pk_open old \<or> pk_query s \<noteq> pk_query old then s1\<lparr>pk_highlight := -1\<rparr> else s1)
      in picker_render s2)"

definition picker_mount :: "picker_props \<Rightarrow> int option \<Rightarrow> storage \<Rightarrow> picker" where
  "picker_mount p v st = picker_render \<lparr>pk_props = p, pk_value = v, pk_open = False, pk_query = [], pk_highlight = -1,
     pk_modal = None, pk_recent = getRecent st, pk_storage = st, pk_crashed = False, pk_log = []\<rparr>"

definition recent_ids :: "picker \<Rightarrow> jsval list" where
  "recent_ids s = (case js_array (pk_recent s) of Inr xs \<Rightarrow> xs | Inl _ \<Rightarrow> [])"

definition pk_flat :: "picker \<Rightarrow> category list" where
  "pk_flat s = flatList (pk_props s) (pk_query s) (recent_ids s)"

text \<open>\<^verbatim>\<open>onChange\<close> has been called before \<^verbatim>\<open>saveRecent\<close> may throw.\<close>

definition handleSelect :: "category \<Rightarrow> picker \<Rightarrow> picker" where
  "handleSelect c s =
     (if ca_id c \<in> set (pp_disabled (pk_props s)) then s
      else (let s1 = s\<lparr>pk_value := Some (ca_id c)\<rparr> in
        case saveRecent (ca_id c) (pk_storage s) of
          Inl _ \<Rightarrow> s1
        | Inr st \<Rightarrow> s1\<lparr>pk_storage := st, pk_query := [], pk_open := False\<rparr>))"

definition picker_key :: "string \<Rightarrow> picker \<Rightarrow> picker" where
  "picker_key key s =
     (let n = int (length (pk_flat s)) in
      if \<not> pk_open s then (if key = ''ArrowDown'' \<or> key = ''Enter'' then s\<lparr>pk_open := True\<rparr> else s)
      else if key = ''ArrowDown'' then s\<lparr>pk_highlight := min (pk_highlight s + 1) (n - 1)\<rparr>
      else if key = ''ArrowUp'' then s\<lparr>pk_highlight := max (pk_highlight s - 1) 0\<rparr>
      else if key = ''Enter'' \<and> pk_highlight s \<ge> 0 \<and> pk_highlight s < n then handleSelect (pk_flat s ! nat (pk_highlight s)) s
      else if key = ''Escape'' then s\<lparr>pk_open := False\<rparr>
      else s)"

text \<open>
  \<^verbatim>\<open>onCreated\<close>: the parent adds the category to the list. In the mode for transfers a
  category of another type is not selected.
\<close>

definition onCreated :: "category \<Rightarrow> picker \<Rightarrow> picker" where
  "onCreated c s =
     (let p = pk_props s; s1 = s\<lparr>pk_modal := None, pk_props := p\<lparr>pp_categories := pp_categories p @ [c]\<rparr>\<rparr> in
      if bothOnly p \<and> ca_type c \<noteq> CatBoth then s1 else handleSelect c s1)"

definition modal_submit :: "picker \<Rightarrow> picker" where
  "modal_submit s = (case pk_modal s of
      Some m \<Rightarrow> if am_canSubmit m then
          s\<lparr>pk_modal := Some (m\<lparr>am_submitting := True, am_errorText := None\<rparr>), pk_log := pk_log s @ [add_category_request m]\<rparr>
        else s
    | None \<Rightarrow> s)"

text \<open>
  The answer: the id of the new row, or an error; the backend refuses an unknown parent. The
  database gives a new id, so an answer with an id in use does not occur.
\<close>

definition modal_answer :: "js_error + int \<Rightarrow> picker \<Rightarrow> picker" where
  "modal_answer ans s = (case pk_modal s of
      Some m \<Rightarrow>
        if \<not> am_submitting m \<or> (\<exists>i \<in> ca_id ` set (pp_categories (pk_props s)). ans = Inr i) then s
        else (let failed = (\<lambda>err. s\<lparr>pk_modal := Some (m\<lparr>am_submitting := False,
                              am_errorText := Some (extractErrorMessage err ''Failed to create category'')\<rparr>)\<rparr>) in
          case ans of
            Inl err \<Rightarrow> failed err
          | Inr i \<Rightarrow> (case create_category (pp_categories (pk_props s)) m i of
              Some c \<Rightarrow> onCreated c s
            | None \<Rightarrow> failed (ApiResponseError 400 ''Invalid parent category'' None (JStr ''Invalid parent category''))))
    | None \<Rightarrow> s)"

datatype picker_event =
    PkFocus | PkInput string | PkKey string | PkClick nat | PkOutside | PkAdd | PkModal add_category_field
  | PkSubmit | PkAnswer "js_error + int" | PkCancel

text \<open>
  While the modal is open it has the focus, so the input behind takes no key, and the
  listener for clicks outside is not installed. Cancel is disabled during a submit.
\<close>

fun picker_react :: "picker \<Rightarrow> picker_event \<Rightarrow> picker" where
  "picker_react s PkFocus = s\<lparr>pk_open := True, pk_query := []\<rparr>"
| "picker_react s (PkInput q) = (if pk_modal s = None then s\<lparr>pk_query := q, pk_open := True\<rparr> else s)"
| "picker_react s (PkKey key) = (if pk_modal s = None then picker_key key s else s)"
| "picker_react s (PkClick i) =
     (let ds = displayed (pk_props s) (pk_query s) (recent_ids s) in
      if pk_open s \<and> pk_modal s = None \<and> i < length ds then handleSelect (ds ! i) s else s)"
| "picker_react s PkOutside = (if pk_open s \<and> pk_modal s = None then s\<lparr>pk_open := False\<rparr> else s)"
| "picker_react s PkAdd = (if pk_open s \<and> pk_modal s = None then s\<lparr>pk_modal := Some (add_category_init (pk_props s) (pk_query s))\<rparr> else s)"
| "picker_react s (PkModal q) = (case pk_modal s of Some m \<Rightarrow> s\<lparr>pk_modal := Some (am_field (pk_props s) m q)\<rparr> | None \<Rightarrow> s)"
| "picker_react s PkSubmit = modal_submit s"
| "picker_react s (PkAnswer ans) = modal_answer ans s"
| "picker_react s PkCancel = (case pk_modal s of
      Some m \<Rightarrow> if am_submitting m then s else s\<lparr>pk_modal := None\<rparr>
    | None \<Rightarrow> s)"

definition picker_step :: "picker \<Rightarrow> picker_event \<Rightarrow> picker" where
  "picker_step s e = (if pk_crashed s then s else picker_effects s (picker_react s e))"

subsection \<open>Every option is shown once\<close>

lemma distinct_map_filter:
  "distinct rs \<Longrightarrow> (\<And>r r' c. f r = Some c \<Longrightarrow> f r' = Some c \<Longrightarrow> r = r') \<Longrightarrow> distinct (List.map_filter f rs)"
proof (induction rs)
  case (Cons r rs)
  have d: "distinct (List.map_filter f rs)" using Cons by simp
  show ?case
  proof (cases "f r")
    case None
    then show ?thesis using d by (simp add: List.map_filter_simps)
  next
    case (Some c)
    have "c \<notin> set (List.map_filter f rs)"
    proof
      assume "c \<in> set (List.map_filter f rs)"
      then obtain r' where "r' \<in> set rs" "f r' = Some c" by (auto simp: List.map_filter_def)
      then show False using Cons.prems(1) Cons.prems(2) [OF Some] by auto
    qed
    then show ?thesis using d Some by (simp add: List.map_filter_simps)
  qed
qed (simp add: List.map_filter_simps)

lemma set_map_filter: "set (List.map_filter f rs) = {c. \<exists>r \<in> set rs. f r = Some c}"
  by (induction rs) (auto simp: List.map_filter_simps split: option.split)

lemma find_by_id:
  assumes "distinct (map ca_id cs)" and "c \<in> set cs"
  shows "js_find (\<lambda>x. JInt (ca_id x) = JInt (ca_id c)) cs = Some c"
proof (cases "js_find (\<lambda>x. JInt (ca_id x) = JInt (ca_id c)) cs")
  case None
  then show ?thesis using assms(2) unfolding js_find_None by blast
next
  case (Some d)
  then have "d \<in> set cs" "ca_id d = ca_id c" using js_find_Some [OF Some] by simp_all
  then have "d = c" using assms by (metis distinct_map inj_onD)
  then show ?thesis using Some by simp
qed

lemma recentItems_facts:
  assumes "distinct (map ca_id (filtered p q))" and "distinct rs"
  shows "distinct (recentItems p q rs)" "set (recentItems p q rs) = {c \<in> set (filtered p q). JInt (ca_id c) \<in> set rs}"
proof -
  let ?f = "\<lambda>r. js_find (\<lambda>c. JInt (ca_id c) = r) (filtered p q)"
  have f: "?f r = Some c \<Longrightarrow> c \<in> set (filtered p q) \<and> JInt (ca_id c) = r" for r c by (rule js_find_Some)
  show "distinct (recentItems p q rs)"
    unfolding recentItems_def
  proof (rule distinct_map_filter [OF assms(2)])
    fix r r' c
    assume "?f r = Some c" "?f r' = Some c"
    then show "r = r'" using f [of r c] f [of r' c] by (simp del: of_int_eq_iff)
  qed
  show "set (recentItems p q rs) = {c \<in> set (filtered p q). JInt (ca_id c) \<in> set rs}"
    unfolding recentItems_def set_map_filter
  proof (intro Collect_cong iffI)
    fix c
    assume "\<exists>r \<in> set rs. ?f r = Some c"
    then obtain r where "r \<in> set rs" "?f r = Some c" by blast
    then show "c \<in> set (filtered p q) \<and> JInt (ca_id c) \<in> set rs" using f [of r c] by simp
  next
    fix c
    assume "c \<in> set (filtered p q) \<and> JInt (ca_id c) \<in> set rs"
    then show "\<exists>r \<in> set rs. ?f r = Some c" using find_by_id [OF assms(1)] by blast
  qed
qed

lemma concat_nonempty: "concat (map snd (filter (\<lambda>g. snd g \<noteq> []) gs)) = concat (map snd gs)"
  by (induction gs) auto

lemma concat_by_key:
  assumes "distinct ks" and "distinct xs"
  shows "distinct (concat (map (\<lambda>k. filter (\<lambda>x. g x = Some k) xs) ks))"
  using assms by (induction ks) auto

definition masters_known :: "category list \<Rightarrow> bool" where
  "masters_known cats \<longleftrightarrow> (\<forall>c \<in> set cats. \<forall>k. ca_parent_id c = Some k \<longrightarrow> (\<exists>m \<in> set cats. ca_id m = k \<and> ca_parent_id m = None))"

lemma grouped_facts:
  assumes "distinct (map ca_id (pp_categories p))" and "masters_known (pp_categories p)"
  shows "distinct (concat (map snd (grouped p q rs)))" "set (concat (map snd (grouped p q rs))) = set (nonRecent p q rs)"
proof -
  let ?non = "nonRecent p q rs"
  have sub: "set ?non \<subseteq> set (pp_categories p)" by (auto simp: nonRecent_def filtered_def selectable_def Let_def)
  have dn: "distinct ?non"
    using assms(1) by (simp add: nonRecent_def filtered_def selectable_def Let_def distinct_map)
  have dm: "distinct (map ca_id (masters p))"
    using assms(1) by (simp add: masters_def distinct_map inj_on_def)
  have eq: "concat (map snd (grouped p q rs))
      = concat (map (\<lambda>k. filter (\<lambda>c. ca_parent_id c = Some k) ?non) (map ca_id (masters p))) @ filter (\<lambda>c. ca_parent_id c = None) ?non"
    by (simp add: grouped_def Let_def concat_nonempty o_def)
  have "set (concat (map (\<lambda>k. filter (\<lambda>c. ca_parent_id c = Some k) ?non) (map ca_id (masters p)))) \<inter> set (filter (\<lambda>c. ca_parent_id c = None) ?non) = {}"
    by auto
  then show "distinct (concat (map snd (grouped p q rs)))"
    unfolding eq using concat_by_key [OF dm dn, of ca_parent_id] dn by simp
  show "set (concat (map snd (grouped p q rs))) = set ?non"
  proof (intro equalityI subsetI)
    fix c assume c: "c \<in> set ?non"
    show "c \<in> set (concat (map snd (grouped p q rs)))"
    proof (cases "ca_parent_id c")
      case (Some k)
      then obtain m where "m \<in> set (pp_categories p)" "ca_id m = k" "ca_parent_id m = None"
        using assms(2) sub c by (fastforce simp: masters_known_def)
      then have "m \<in> set (masters p)" "ca_id m = k" by (simp_all add: masters_def)
      then show ?thesis using c Some by (auto simp: eq)
    qed (use c in \<open>simp add: eq\<close>)
  qed (auto simp: eq)
qed

text \<open>When the list holds the master of every subcategory, the open picker shows every category that is
  to be offered exactly once, recent ones first, and the arrow keys walk through exactly those
  that are not disabled.\<close>

theorem picker_shows_each_option_once:
  assumes "distinct (map ca_id (pp_categories p))" and "masters_known (pp_categories p)" and "distinct rs"
  shows "mset (displayed p q rs) = mset (filtered p q)
    \<and> mset (flatList p q rs) = mset (filter (\<lambda>c. ca_id c \<notin> set (pp_disabled p)) (filtered p q))"
proof -
  have df: "distinct (map ca_id (filtered p q))"
    using assms(1) by (simp add: filtered_def selectable_def Let_def distinct_map inj_on_def)
  have dx: "distinct (filtered p q)" using df by (simp add: distinct_map)
  note r = recentItems_facts [OF df assms(3)] and g = grouped_facts [OF assms(1,2), of q rs]
  have n: "set (nonRecent p q rs) = {c \<in> set (filtered p q). JInt (ca_id c) \<notin> set rs}" "distinct (nonRecent p q rs)"
    using dx by (auto simp: nonRecent_def)
  have "distinct (displayed p q rs)" "set (displayed p q rs) = set (filtered p q)"
    unfolding displayed_def using r g n by auto
  then have a: "mset (displayed p q rs) = mset (filtered p q)" using dx by (simp add: set_eq_iff_mset_eq_distinct [symmetric])
  have "distinct (recentItems p q rs @ nonRecent p q rs)" "set (recentItems p q rs @ nonRecent p q rs) = set (filtered p q)"
    using r n by auto
  then have b: "mset (recentItems p q rs @ nonRecent p q rs) = mset (filtered p q)"
    using dx by (simp only: set_eq_iff_mset_eq_distinct [symmetric])
  show ?thesis using a b unfolding flatList_def by (simp only: mset_filter)
qed

definition demo_props :: picker_props where
  "demo_props = \<lparr>pp_categories = [demo_quick_category, demo_quick_category\<lparr>ca_id := 4, ca_name := ''Bread'', ca_parent_id := Some 3, ca_parent_name := Some ''Food''\<rparr>,
       demo_quick_category\<lparr>ca_id := 5, ca_name := ''Cafe'', ca_parent_id := Some 3, ca_parent_name := Some ''Food''\<rparr>],
     pp_filterType = Some Expense, pp_typeFilter = None, pp_disabled = []\<rparr>"

theorem picker_shows_each_option_once_witness:
  "mset (displayed demo_props [] [JInt 5]) = mset (filtered demo_props []) \<and> length (filtered demo_props []) = 2"
proof -
  have "distinct (map ca_id (pp_categories demo_props))" "masters_known (pp_categories demo_props)"
    by (simp_all add: demo_props_def masters_known_def demo_quick_category_def)
  moreover have "length (filtered demo_props []) = 2" by code_simp
  ultimately show ?thesis using picker_shows_each_option_once [of demo_props "[JInt 5]" "[]"] by simp
qed

text \<open>The order of the arrow keys is not that of the screen, which groups by master.\<close>

lemma arrow_order_differs:
  "let p = demo_props\<lparr>pp_categories := [demo_quick_category\<lparr>ca_id := 6, ca_parent_id := Some 7\<rparr>, demo_quick_category,
         demo_quick_category\<lparr>ca_id := 4, ca_parent_id := Some 3\<rparr>, demo_quick_category\<lparr>ca_id := 7\<rparr>]\<rparr>
   in map ca_id (flatList p [] []) = [6, 4] \<and> map ca_id (displayed p [] []) = [4, 6]"
  by code_simp

subsection \<open>What is picked the backend accepts\<close>

text \<open>The backend's own invariant: ids are unique, and a subcategory has the type of its master.\<close>

definition categories_ok :: "category list \<Rightarrow> bool" where
  "categories_ok cats \<longleftrightarrow> distinct (map ca_id cats)
     \<and> (\<forall>c \<in> set cats. \<forall>k. ca_parent_id c = Some k \<longrightarrow>
          (\<exists>m \<in> set cats. ca_id m = k \<and> ca_parent_id m = None \<and> ca_type m = ca_type c))"

definition modal_ok :: "picker_props \<Rightarrow> add_category \<Rightarrow> bool" where
  "modal_ok p m \<longleftrightarrow> (case lockedType p of None \<Rightarrow> True
     | Some t \<Rightarrow> am_type m = t \<and> (\<forall>k. am_parentId m = Some k \<longrightarrow> (\<exists>c \<in> set (pp_categories p). ca_id c = k \<and> ca_type c = t)))"

definition value_ok :: "int option \<Rightarrow> picker_props \<Rightarrow> int option \<Rightarrow> bool" where
  "value_ok v0 p v \<longleftrightarrow> v = v0 \<or> (\<exists>c \<in> set (pp_categories p). Some (ca_id c) = v \<and> pickable_type p c)"

fun modal_fits :: "picker_props \<Rightarrow> add_category option \<Rightarrow> bool" where
  "modal_fits p None = True"
| "modal_fits p (Some m) = modal_ok p m"

definition picker_inv :: "int option \<Rightarrow> tx_type option \<Rightarrow> type_filter option \<Rightarrow> picker \<Rightarrow> bool" where
  "picker_inv v0 ft tf s \<longleftrightarrow> categories_ok (pp_categories (pk_props s)) \<and> pp_filterType (pk_props s) = ft \<and> pp_typeFilter (pk_props s) = tf
     \<and> value_ok v0 (pk_props s) (pk_value s)
     \<and> modal_fits (pk_props s) (pk_modal s)"

lemma effectiveFilterType_cong:
  "pp_filterType p = pp_filterType q \<Longrightarrow> pp_typeFilter p = pp_typeFilter q \<Longrightarrow> effectiveFilterType p = effectiveFilterType q"
  by (simp only: effectiveFilterType_def)

lemma modal_init_ok: "modal_ok p (add_category_init p q)"
  by (simp add: modal_ok_def add_category_init_def split: option.split)

lemma modal_field_ok: "modal_ok p m \<Longrightarrow> modal_ok p (am_field p m q)"
  by (cases q) (auto simp: modal_ok_def parent_options_def masters_def Let_def split: option.splits)

lemma handleSelect_fields [simp]:
  "pk_props (handleSelect c s) = pk_props s" "pk_modal (handleSelect c s) = pk_modal s"
  by (simp_all add: handleSelect_def Let_def split: sum.split)

lemma handleSelect_value:
  "pk_value (handleSelect c s) = (if ca_id c \<in> set (pp_disabled (pk_props s)) then pk_value s else Some (ca_id c))"
  by (simp add: handleSelect_def Let_def split: sum.split)

lemma handleSelect_inv:
  assumes "picker_inv v0 ft tf s" and "c \<in> set (pp_categories (pk_props s))" and "pickable_type (pk_props s) c"
  shows "picker_inv v0 ft tf (handleSelect c s)"
  using assms by (auto simp: picker_inv_def handleSelect_value value_ok_def)

lemma offered_pickable:
  assumes "c \<in> set (filtered p q)"
  shows "c \<in> set (pp_categories p)" "pickable_type p c"
  using assms by (auto simp: filtered_def selectable_def Let_def split: if_splits)

lemma recent_offered: "c \<in> set (recentItems p q rs) \<Longrightarrow> c \<in> set (filtered p q)"
proof -
  assume "c \<in> set (recentItems p q rs)"
  then obtain r where "js_find (\<lambda>c. JInt (ca_id c) = r) (filtered p q) = Some c"
    unfolding recentItems_def set_map_filter by blast
  then show ?thesis by (rule js_find_Some [THEN conjunct1])
qed

lemma grouped_offered: "c \<in> set (concat (map snd (grouped p q rs))) \<Longrightarrow> c \<in> set (filtered p q)"
  by (auto simp: grouped_def nonRecent_def Let_def split: if_splits)

lemma displayed_offered: "c \<in> set (displayed p q rs) \<Longrightarrow> c \<in> set (filtered p q)"
  unfolding displayed_def using recent_offered [of c p q rs] grouped_offered [of c p q rs] by auto

lemma flat_offered: "c \<in> set (flatList p q rs) \<Longrightarrow> c \<in> set (filtered p q)"
  unfolding flatList_def using recent_offered [of c p q rs] by (auto simp: nonRecent_def)

lemma created_category:
  assumes "create_category cats m i = Some c"
  shows "ca_id c = i" and "ca_parent_id c = None \<Longrightarrow> ca_type c = am_type m"
    and "ca_parent_id c = Some k \<Longrightarrow> am_parentId m = Some k \<and> (\<exists>par \<in> set cats. ca_id par = k \<and> ca_parent_id par = None \<and> ca_type par = ca_type c)"
proof -
  have "ca_id c = i \<and> (ca_parent_id c = None \<longrightarrow> ca_type c = am_type m) \<and> (\<forall>k. ca_parent_id c = Some k \<longrightarrow>
      am_parentId m = Some k \<and> (\<exists>par \<in> set cats. ca_id par = k \<and> ca_parent_id par = None \<and> ca_type par = ca_type c))"
  proof (cases "body_parent m")
    case None
    then show ?thesis using assms by (auto simp: create_category_def new_category_def)
  next
    case (Some j)
    then have j: "am_parentId m = Some j" by (simp add: body_parent_def split: if_splits)
    show ?thesis
    proof (cases "js_find (\<lambda>c. ca_id c = j) cats")
      case None
      then show ?thesis using assms Some by (simp add: create_category_def)
    next
      case par: (Some par)
      have "par \<in> set cats \<and> ca_id par = j" using js_find_Some [OF par] .
      then show ?thesis using assms j Some par by (cases "ca_parent_id par") (auto simp: create_category_def new_category_def)
    qed
  qed
  then show "ca_id c = i" and "ca_parent_id c = None \<Longrightarrow> ca_type c = am_type m"
    and "ca_parent_id c = Some k \<Longrightarrow> am_parentId m = Some k \<and> (\<exists>par \<in> set cats. ca_id par = k \<and> ca_parent_id par = None \<and> ca_type par = ca_type c)"
    by simp_all
qed

lemma categories_ok_add:
  assumes "categories_ok cats" and "create_category cats m i = Some c" and "i \<notin> ca_id ` set cats"
  shows "categories_ok (cats @ [c])"
proof -
  have old: "\<exists>m \<in> set (cats @ [c]). ca_id m = k \<and> ca_parent_id m = None \<and> ca_type m = ca_type d"
    if "d \<in> set cats" "ca_parent_id d = Some k" for d k
    using assms(1) that unfolding categories_ok_def by fastforce
  have new: "\<exists>m \<in> set (cats @ [c]). ca_id m = k \<and> ca_parent_id m = None \<and> ca_type m = ca_type c"
    if "ca_parent_id c = Some k" for k
    using created_category(3) [OF assms(2) that] by auto
  have "distinct (map ca_id (cats @ [c]))"
    using assms(1,3) created_category(1) [OF assms(2)] by (auto simp: categories_ok_def)
  then show ?thesis using old new unfolding categories_ok_def by auto
qed

lemma created_pickable:
  assumes "categories_ok (pp_categories p)" and "modal_ok p m" and "create_category (pp_categories p) m i = Some c"
    and "\<not> (bothOnly p \<and> ca_type c \<noteq> CatBoth)"
  shows "pickable_type p c"
proof (cases "lockedType p")
  case None
  then have "bothOnly p \<or> effectiveFilterType p = None" by (auto simp: lockedType_def split: if_splits)
  then show ?thesis using assms(4) by (auto simp: pickable_type_def split: option.split)
next
  case (Some t)
  then have l: "am_type m = t" "\<And>k. am_parentId m = Some k \<Longrightarrow> \<exists>d \<in> set (pp_categories p). ca_id d = k \<and> ca_type d = t"
    using assms(2) by (auto simp: modal_ok_def)
  have "ca_type c = t"
  proof (cases "ca_parent_id c")
    case None
    then show ?thesis using created_category(2) [OF assms(3)] l(1) by simp
  next
    case (Some k)
    from created_category(3) [OF assms(3) Some] obtain par where par: "am_parentId m = Some k" "par \<in> set (pp_categories p)" "ca_id par = k" "ca_type par = ca_type c"
      by blast
    from l(2) [OF par(1)] obtain d where "d \<in> set (pp_categories p)" "ca_id d = k" "ca_type d = t" by blast
    moreover then have "d = par" using assms(1) par(2,3) unfolding categories_ok_def by (metis distinct_map inj_onD)
    ultimately show ?thesis using par(4) by simp
  qed
  moreover have "\<exists>u. effectiveFilterType p = Some u \<and> t = cat_type_of u" using Some by (auto simp: lockedType_def split: if_splits)
  ultimately show ?thesis using assms(4) by (auto simp: pickable_type_def)
qed

lemma picker_effects_fields:
  "pk_props (picker_effects o' s) = pk_props s" "pk_modal (picker_effects o' s) = pk_modal s" "pk_value (picker_effects o' s) = pk_value s"
  by (simp_all add: picker_effects_def picker_render_def Let_def split: sum.split)

lemma picker_key_inv: "picker_inv v0 ft tf s \<Longrightarrow> picker_inv v0 ft tf (picker_key key s)"
proof -
  assume s: "picker_inv v0 ft tf s"
  have "picker_inv v0 ft tf (handleSelect (pk_flat s ! nat (pk_highlight s)) s)"
    if "pk_highlight s \<ge> 0" "pk_highlight s < int (length (pk_flat s))"
  proof (rule handleSelect_inv [OF s])
    have "pk_flat s ! nat (pk_highlight s) \<in> set (pk_flat s)" using that by (intro nth_mem) linarith
    then have "pk_flat s ! nat (pk_highlight s) \<in> set (filtered (pk_props s) (pk_query s))" unfolding pk_flat_def by (rule flat_offered)
    then show "pk_flat s ! nat (pk_highlight s) \<in> set (pp_categories (pk_props s))"
      "pickable_type (pk_props s) (pk_flat s ! nat (pk_highlight s))" by (rule offered_pickable)+
  qed
  then show ?thesis using s by (auto simp: picker_key_def Let_def picker_inv_def)
qed

lemma created_inv:
  assumes s: "picker_inv v0 ft tf s" and m: "pk_modal s = Some m" and i: "i \<notin> ca_id ` set (pp_categories (pk_props s))"
    and c: "create_category (pp_categories (pk_props s)) m i = Some c"
  shows "picker_inv v0 ft tf (onCreated c s)"
proof -
  let ?p = "pk_props s"
  let ?s = "s\<lparr>pk_modal := None, pk_props := ?p\<lparr>pp_categories := pp_categories ?p @ [c]\<rparr>\<rparr>"
  have cats: "categories_ok (pp_categories ?p)" "modal_ok ?p m" using s m by (simp_all add: picker_inv_def)
  have same: "pickable_type (?p\<lparr>pp_categories := xs\<rparr>) = pickable_type ?p" for xs
    using effectiveFilterType_cong [of "?p\<lparr>pp_categories := xs\<rparr>" ?p] by (simp add: fun_eq_iff pickable_type_def bothOnly_def)
  have inv: "picker_inv v0 ft tf ?s"
    using s categories_ok_add [OF cats(1) c i] by (auto simp: picker_inv_def value_ok_def same)
  show ?thesis
  proof (cases "bothOnly ?p \<and> ca_type c \<noteq> CatBoth")
    case True
    then show ?thesis using inv by (simp add: onCreated_def Let_def)
  next
    case False
    have "picker_inv v0 ft tf (handleSelect c ?s)"
      by (rule handleSelect_inv [OF inv]) (use created_pickable [OF cats c False] in \<open>simp_all add: same\<close>)
    then show ?thesis unfolding onCreated_def Let_def using False by (simp only: if_False)
  qed
qed

lemma modal_answer_inv: "picker_inv v0 ft tf s \<Longrightarrow> picker_inv v0 ft tf (modal_answer ans s)"
proof (cases "pk_modal s")
  case (Some m)
  assume s: "picker_inv v0 ft tf s"
  have fail: "picker_inv v0 ft tf (s\<lparr>pk_modal := Some (m\<lparr>am_submitting := False, am_errorText := t\<rparr>)\<rparr>)" for t
    using s Some by (auto simp: picker_inv_def modal_ok_def split: option.split)
  show ?thesis
  proof (cases "\<not> am_submitting m \<or> (\<exists>i \<in> ca_id ` set (pp_categories (pk_props s)). ans = Inr i)")
    case True
    then show ?thesis using s Some unfolding modal_answer_def by (simp only: option.case if_True)
  next
    case False
    show ?thesis
    proof (cases ans)
      case (Inl err)
      then show ?thesis using False Some fail by (simp add: modal_answer_def)
    next
      case (Inr i)
      have "i \<notin> ca_id ` set (pp_categories (pk_props s))" using False Inr by auto
      then show ?thesis
        using False Some Inr fail created_inv [OF s Some, of i] by (cases "create_category (pp_categories (pk_props s)) m i") (auto simp: modal_answer_def Let_def)
    qed
  qed
qed (simp add: modal_answer_def)

lemma picker_react_inv: "picker_inv v0 ft tf s \<Longrightarrow> picker_inv v0 ft tf (picker_react s e)"
proof (cases e)
  case (PkClick i)
  assume s: "picker_inv v0 ft tf s"
  define ds where "ds = displayed (pk_props s) (pk_query s) (recent_ids s)"
  have "picker_inv v0 ft tf (handleSelect (ds ! i) s)" if "i < length ds"
  proof -
    have "ds ! i \<in> set (filtered (pk_props s) (pk_query s))"
      by (rule displayed_offered [of _ _ _ "recent_ids s"]) (use that in \<open>simp add: ds_def [symmetric]\<close>)
    then show ?thesis by (intro handleSelect_inv [OF s] offered_pickable)
  qed
  then show ?thesis using PkClick s by (simp add: ds_def [symmetric])
next
  case PkAdd
  assume "picker_inv v0 ft tf s"
  then show ?thesis using PkAdd modal_init_ok by (simp add: picker_inv_def)
next
  case (PkModal q)
  assume "picker_inv v0 ft tf s"
  then show ?thesis using PkModal modal_field_ok by (cases "pk_modal s") (simp_all add: picker_inv_def)
next
  case PkSubmit
  assume "picker_inv v0 ft tf s"
  then show ?thesis using PkSubmit
    by (cases "pk_modal s") (auto simp: picker_inv_def modal_submit_def modal_ok_def split: option.splits)
next
  case PkCancel
  assume "picker_inv v0 ft tf s"
  then show ?thesis using PkCancel by (cases "pk_modal s") (simp_all add: picker_inv_def)
qed (auto simp: picker_key_inv modal_answer_inv, auto simp: picker_inv_def)

lemma picker_step_inv: "picker_inv v0 ft tf s \<Longrightarrow> picker_inv v0 ft tf (picker_step s e)"
  using picker_react_inv [of v0 ft tf s e] by (simp add: picker_step_def picker_inv_def picker_effects_fields)

interpretation category_picker: step_machine picker_step "picker_inv v0 ft tf" for v0 ft tf
  by unfold_locales (rule picker_step_inv)

lemma pickable_validated:
  assumes "categories_ok cats" and "c \<in> set cats" and "ca_type c = cat_type_of t \<or> ca_type c = CatBoth"
  shows "validate_category_for_type cats (Some (ca_id c)) t"
proof -
  have same: "x = y" if "x \<in> set cats" "y \<in> set cats" "ca_id x = ca_id y" for x y
    using assms(1) that unfolding categories_ok_def by (metis distinct_map inj_onD)
  have find: "js_find (\<lambda>x. ca_id x = ca_id y) cats = Some y" if "y \<in> set cats" for y
    using find_by_id [OF _ that] assms(1) by (simp add: categories_ok_def)
  have ok: "category_type_matches (ca_type c) t" using assms(3) by (auto simp: category_type_matches_def)
  show ?thesis
  proof (cases "ca_parent_id c")
    case None
    then show ?thesis using ok find [OF assms(2)] by (simp add: validate_category_for_type_def)
  next
    case (Some k)
    then obtain m where "m \<in> set cats" "ca_id m = k" "ca_type m = ca_type c"
      using assms(1,2) unfolding categories_ok_def by blast
    then show ?thesis using Some ok find [OF assms(2)] find [of m] by (auto simp: validate_category_for_type_def)
  qed
qed

lemma picker_accepts:
  assumes "categories_ok (pp_categories p)" and "effectiveFilterType p = Some t"
  shows "pk_value (run picker_step (picker_mount p v0 st) es) = v0
    \<or> validate_category_for_type (pp_categories (pk_props (run picker_step (picker_mount p v0 st) es)))
         (pk_value (run picker_step (picker_mount p v0 st) es)) t"
proof -
  define s where "s = run picker_step (picker_mount p v0 st) es"
  have "picker_inv v0 (pp_filterType p) (pp_typeFilter p) (picker_mount p v0 st)"
    using assms(1) by (simp add: picker_inv_def picker_mount_def picker_render_def value_ok_def split: sum.split)
  then have inv: "picker_inv v0 (pp_filterType p) (pp_typeFilter p) s" unfolding s_def by (rule category_picker.run_inv)
  then have "effectiveFilterType (pk_props s) = Some t"
    using assms(2) effectiveFilterType_cong [of "pk_props s" p] by (simp add: picker_inv_def)
  then have eff: "effectiveFilterType (pk_props s) = Some t" .
  have cats: "categories_ok (pp_categories (pk_props s))" using inv by (simp add: picker_inv_def)
  have "value_ok v0 (pk_props s) (pk_value s)" using inv by (simp add: picker_inv_def)
  then have "pk_value s = v0 \<or> validate_category_for_type (pp_categories (pk_props s)) (pk_value s) t"
    unfolding value_ok_def
  proof (elim disjE bexE conjE)
    fix c
    assume c: "c \<in> set (pp_categories (pk_props s))" "Some (ca_id c) = pk_value s" "pickable_type (pk_props s) c"
    then have "ca_type c = cat_type_of t \<or> ca_type c = CatBoth" using eff by (simp add: pickable_type_def)
    from pickable_validated [OF cats c(1) this] show ?thesis unfolding c(2) by (rule disjI2)
  qed simp
  then show ?thesis by (simp add: s_def)
qed

text \<open>C27: Whatever is typed, clicked, picked by key or created in the modal: when the picker is set to a
  transaction type, the id that the form then holds is the one it started with or one that
  the backend's check of category and type accepts, given the backend's own rule that a
  subcategory has the type of its master.\<close>

theorem picked_category_accepted:
  assumes "categories_ok (pp_categories p)" and "effectiveFilterType p = Some t"
  shows "pk_value (run picker_step (picker_mount p v0 st) es) = v0
    \<or> validate_category_for_type (pp_categories (pk_props (run picker_step (picker_mount p v0 st) es)))
         (pk_value (run picker_step (picker_mount p v0 st) es)) t"
  by (rule picker_accepts [OF assms])

theorem picked_category_accepted_witness:
  "pk_value (run picker_step (picker_mount demo_props None empty_storage) [PkFocus, PkInput ''caf'', PkKey ''ArrowDown'', PkKey ''Enter'']) = Some 5
   \<and> validate_category_for_type (pp_categories (pk_props (run picker_step (picker_mount demo_props None empty_storage)
        [PkFocus, PkInput ''caf'', PkKey ''ArrowDown'', PkKey ''Enter'']))) (Some 5) Expense"
proof -
  have "categories_ok (pp_categories demo_props)" "effectiveFilterType demo_props = Some Expense"
    by (simp_all add: demo_props_def categories_ok_def demo_quick_category_def effectiveFilterType_def)
  moreover have "pk_value (run picker_step (picker_mount demo_props None empty_storage) [PkFocus, PkInput ''caf'', PkKey ''ArrowDown'', PkKey ''Enter'']) = Some 5"
    by code_simp
  ultimately show ?thesis
    using picked_category_accepted [of demo_props Expense None empty_storage "[PkFocus, PkInput ''caf'', PkKey ''ArrowDown'', PkKey ''Enter'']"] by simp
qed

subsection \<open>The recently used\<close>

lemma saveRecent_getRecent:
  assumes "getRecent st = JArr (map JInt is)" and "saveRecent i st = Inr st'"
  shows "st' = st\<lparr>st_items := (st_items st)(RECENT_KEY \<mapsto> json_stringify (JArr (map JInt (take 5 (i # filter (\<lambda>k. k \<noteq> i) is)))))\<rparr>"
proof -
  have "filter (\<lambda>r. r \<noteq> JInt i) (map JInt is) = map JInt (filter (\<lambda>k. k \<noteq> i) is)" by (induction "is") auto
  then have "take MAX_RECENT (JInt i # filter (\<lambda>r. r \<noteq> JInt i) (map JInt is)) = map JInt (take 5 (i # filter (\<lambda>k. k \<noteq> i) is))"
    by (simp add: MAX_RECENT_def take_map take_Cons')
  then show ?thesis using assms by (simp add: saveRecent_def js_array_def split: if_splits)
qed

text \<open>A picked category is the first of the recent ones the next time the storage is read, each
  category once, at most five of them.\<close>

theorem recent_roundtrip:
  assumes "storage_ok st" and "getRecent st = JArr (map JInt is)" and "distinct is" and "length is \<le> 5"
    and "saveRecent i st = Inr st'"
  shows "\<exists>js. getRecent st' = JArr (map JInt js) \<and> hd js = i \<and> distinct js \<and> length js \<le> 5
    \<and> set js \<subseteq> insert i (set is) \<and> (length is < 5 \<longrightarrow> set js = insert i (set is))"
proof -
  let ?js = "take 5 (i # filter (\<lambda>k. k \<noteq> i) is)"
  have s: "st' = st\<lparr>st_items := (st_items st)(RECENT_KEY \<mapsto> json_stringify (JArr (map JInt ?js)))\<rparr>"
    by (rule saveRecent_getRecent [OF assms(2,5)])
  have "json_ok (JArr (map JInt ?js))" by (simp add: list_all_iff)
  then have "json_parse (json_stringify (JArr (map JInt ?js))) = Some (JArr (map JInt ?js))" by (rule json_roundtrip)
  moreover have "json_stringify (JArr (map JInt ?js)) \<noteq> []" by simp
  ultimately have "getRecent st' = JArr (map JInt ?js)"
    using assms(1) by (simp only: s getRecent_def storage_ok_def) simp
  moreover have "distinct ?js" by (rule distinct_take) (use assms(3) in simp)
  moreover have "set ?js \<subseteq> insert i (set is)" using set_take_subset [of 5 "i # filter (\<lambda>k. k \<noteq> i) is"] by auto
  moreover have "length is < 5 \<Longrightarrow> ?js = i # filter (\<lambda>k. k \<noteq> i) is" using length_filter_le [of "\<lambda>k. k \<noteq> i" "is"] by (intro take_all) (simp add: le_diff_conv less_Suc_eq_le [symmetric] del: length_filter_le)
  ultimately show ?thesis by (intro exI [of _ ?js]) auto
qed

theorem recent_roundtrip_witness:
  "\<exists>js. getRecent (empty_storage\<lparr>st_items := [RECENT_KEY \<mapsto> json_stringify (JArr [JInt 7])]\<rparr>) = JArr (map JInt js) \<and> hd js = 7"
proof -
  have "saveRecent 7 empty_storage = Inr (empty_storage\<lparr>st_items := [RECENT_KEY \<mapsto> json_stringify (JArr [JInt 7])]\<rparr>)"
    "getRecent empty_storage = JArr (map JInt [])" "storage_ok empty_storage"
    by (simp_all add: saveRecent_def getRecent_def js_array_def empty_storage_def MAX_RECENT_def storage_ok_def)
  then show ?thesis using recent_roundtrip [of empty_storage "[]" 7] by auto
qed

text \<open>What is stored under the key is not checked: an id list that was replaced by any other JSON value
  takes the page down when a picker is mounted.\<close>

theorem damaged_recents_crash:
  assumes "st_window st" and "st_readable st" and "st_items st RECENT_KEY = Some raw" and "raw \<noteq> []"
    and "json_parse raw = Some v" and "\<forall>xs. v \<noteq> JArr xs"
  shows "pk_crashed (run picker_step (picker_mount p v0 st) es)"
proof -
  have "js_array (getRecent st) = Inl (not_iterable v)"
    using assms by (cases v) (simp_all add: getRecent_def js_array_def)
  then have "pk_crashed (picker_mount p v0 st)" by (simp add: picker_mount_def picker_render_def)
  then show ?thesis by (induction es arbitrary: p rule: rev_induct) (simp_all add: run_append picker_step_def)
qed

theorem damaged_recents_crash_witness:
  "pk_crashed (run picker_step (picker_mount demo_props None (empty_storage\<lparr>st_items := [RECENT_KEY \<mapsto> ''null'']\<rparr>)) [PkFocus])"
proof -
  have "json_parse ''null'' = Some JNull" by code_simp
  then show ?thesis
    by (intro damaged_recents_crash [of _ "''null''" JNull]) (simp_all add: empty_storage_def)
qed

end
