(* ===== verification/Description_Autocomplete.thy ===== *)
theory Description_Autocomplete
  imports Proxy Tags Tx_Page
begin

section \<open>Description autocomplete\<close>

text \<open>
  components/transactions/DescriptionAutocomplete.tsx. The value belongs to the parent; a
  change of it re-runs the effect, which aborts the timer or the fetch before it and sets a
  new timer. As in Tags the state of the effect is \<open>suggest\<close>: a fetch that was aborted is
  gone, because its completion changes nothing.
\<close>

record desc_suggestion =
  ds_description :: string
  ds_category_id :: int
  ds_category_name :: string
  ds_use_count :: int
  ds_last_used :: string

record desc_input =
  di_value :: string
  di_type :: string
  di_disabled :: bool
  di_suggestions :: "desc_suggestion list"
  di_open :: bool
  di_highlight :: int
  di_loading :: bool
  di_announce :: string
  di_suggest :: suggest
  di_log :: "request list"

definition MIN_QUERY_LENGTH :: nat where "MIN_QUERY_LENGTH = 2"
definition DEFAULT_MAX_ITEMS :: nat where "DEFAULT_MAX_ITEMS = 8"

definition descriptions_query :: "string \<Rightarrow> string \<Rightarrow> string" where
  "descriptions_query type q = serialize_query [(''type'', type), (''q'', q), (''limit'', ''25'')]"

definition descriptions_request :: "string \<Rightarrow> string \<Rightarrow> request" where
  "descriptions_request type q =
     mk_req GET (''/api/v1/transactions/suggestions/descriptions?'' @ descriptions_query type q) JUndef"

text \<open>\<^verbatim>\<open>data.suggestions ?? []\<close> of an answer that may have no body or no list.\<close>

definition defaultFetcher :: "js_error + desc_suggestion list option option \<Rightarrow> js_error + desc_suggestion list" where
  "defaultFetcher ans = (case ans of
      Inl e \<Rightarrow> Inl e
    | Inr None \<Rightarrow> Inl (null_property_error ''suggestions'')
    | Inr (Some None) \<Rightarrow> Inr []
    | Inr (Some (Some ss)) \<Rightarrow> Inr ss)"

definition too_short :: "string \<Rightarrow> bool" where
  "too_short s \<longleftrightarrow> s = [] \<or> length (js_trim s) < MIN_QUERY_LENGTH"

text \<open>The cleanup of the effect before, and the effect.\<close>

definition desc_effect :: "desc_input \<Rightarrow> desc_input" where
  "desc_effect d0 =
     (let d = d0\<lparr>di_suggest := NoSuggest\<rparr> in
      if di_disabled d then d
      else if too_short (di_value d) then d\<lparr>di_suggestions := [], di_highlight := -1\<rparr>
      else d\<lparr>di_suggest := Debounce (js_trim (di_value d))\<rparr>)"

definition desc_timer :: "desc_input \<Rightarrow> desc_input" where
  "desc_timer d = (case di_suggest d of
      Debounce q \<Rightarrow> d\<lparr>di_suggest := Fetching q, di_loading := True, di_log := di_log d @ [descriptions_request (di_type d) q]\<rparr>
    | _ \<Rightarrow> d)"

definition desc_announce :: "nat \<Rightarrow> string" where
  "desc_announce n = (if n = 0 then ''No suggestions''
     else show_nat n @ '' '' @ (if n = 1 then ''suggestion'' else ''suggestions'') @ '' available'')"

definition desc_isAbortError :: "js_error \<Rightarrow> bool" where
  "desc_isAbortError e = (case e of NonError v \<Rightarrow> js_is_object v \<and> js_get v ''name'' = JStr ''AbortError''
    | _ \<Rightarrow> error_name e = ''AbortError'')"

definition desc_fetched :: "nat \<Rightarrow> js_error + desc_suggestion list option option \<Rightarrow> desc_input \<Rightarrow> desc_input" where
  "desc_fetched maxItems ans d = (case di_suggest d of
      Fetching _ \<Rightarrow>
        (let d1 = d\<lparr>di_loading := False, di_suggest := NoSuggest\<rparr> in
         case defaultFetcher ans of
           Inr ss \<Rightarrow> d1\<lparr>di_suggestions := take maxItems ss, di_highlight := (if ss \<noteq> [] then 0 else -1), di_open := True,
                        di_announce := desc_announce (length ss)\<rparr>
         | Inl err \<Rightarrow> if desc_isAbortError err then d1 else d1\<lparr>di_suggestions := [], di_highlight := -1\<rparr>)
    | _ \<Rightarrow> d)"

text \<open>\<^verbatim>\<open>onChange\<close>, followed by the effect if the value is another one.\<close>

definition set_value :: "string \<Rightarrow> desc_input \<Rightarrow> desc_input" where
  "set_value v d = (if v = di_value d then d else desc_effect (d\<lparr>di_value := v\<rparr>))"

definition commitPick :: "desc_suggestion \<Rightarrow> desc_input \<Rightarrow> desc_input" where
  "commitPick s d = set_value (ds_description s) (d\<lparr>di_open := False, di_suggestions := [], di_highlight := -1\<rparr>)"

definition desc_handleKeyDown :: "string \<Rightarrow> desc_input \<Rightarrow> desc_input" where
  "desc_handleKeyDown key d =
     (let n = int (length (di_suggestions d)) in
      if \<not> di_open d \<or> n = 0 then
        (if key = ''ArrowDown'' \<and> n > 0 then d\<lparr>di_open := True, di_highlight := 0\<rparr> else d)
      else if key = ''ArrowDown'' then d\<lparr>di_highlight := (di_highlight d + 1) mod n\<rparr>
      else if key = ''ArrowUp'' then d\<lparr>di_highlight := (if di_highlight d \<le> 0 then n - 1 else di_highlight d - 1)\<rparr>
      else if key = ''Enter'' then
        (if di_highlight d \<ge> 0 \<and> di_highlight d < n then commitPick (di_suggestions d ! nat (di_highlight d)) d else d)
      else if key = ''Escape'' then d\<lparr>di_open := False, di_highlight := -1\<rparr>
      else if key = ''Tab'' then d\<lparr>di_open := False\<rparr>
      else d)"

definition desc_handleInput :: "string \<Rightarrow> desc_input \<Rightarrow> desc_input" where
  "desc_handleInput v d =
     set_value v (if length (js_trim v) < MIN_QUERY_LENGTH then d\<lparr>di_open := False\<rparr> else d)"

definition desc_handleFocus :: "desc_input \<Rightarrow> desc_input" where
  "desc_handleFocus d = (if di_suggestions d \<noteq> [] then d\<lparr>di_open := True\<rparr> else d)"

definition desc_init :: "string \<Rightarrow> string \<Rightarrow> desc_input" where
  "desc_init type value = desc_effect \<lparr>di_value = value, di_type = type, di_disabled = False, di_suggestions = [], di_open = False,
     di_highlight = -1, di_loading = False, di_announce = [], di_suggest = NoSuggest, di_log = []\<rparr>"

text \<open>
  The parent can also change the value (a form that is cleared), the type and whether the
  input is disabled. A disabled input takes no text, key or focus; the list stays clickable.
\<close>

datatype desc_event =
    DiInput string | DiKey string | DiFocus | DiOutside | DiPick nat | DiHover nat | DiTimer
  | DiFetched "js_error + desc_suggestion list option option" | DiParent string string bool

fun desc_step :: "nat \<Rightarrow> desc_input \<Rightarrow> desc_event \<Rightarrow> desc_input" where
  "desc_step maxItems d (DiInput v) = (if di_disabled d then d else desc_handleInput v d)"
| "desc_step maxItems d (DiKey key) = (if di_disabled d then d else desc_handleKeyDown key d)"
| "desc_step maxItems d DiFocus = (if di_disabled d then d else desc_handleFocus d)"
| "desc_step maxItems d DiOutside = d\<lparr>di_open := False\<rparr>"
| "desc_step maxItems d (DiPick i) =
     (if di_open d \<and> i < length (di_suggestions d) then commitPick (di_suggestions d ! i) d else d)"
| "desc_step maxItems d (DiHover i) =
     (if di_open d \<and> i < length (di_suggestions d) then d\<lparr>di_highlight := int i\<rparr> else d)"
| "desc_step maxItems d DiTimer = desc_timer d"
| "desc_step maxItems d (DiFetched ans) = desc_fetched maxItems ans d"
| "desc_step maxItems d (DiParent v ty dis) =
     (if v = di_value d \<and> ty = di_type d \<and> dis = di_disabled d then d
      else desc_effect (d\<lparr>di_value := v, di_type := ty, di_disabled := dis\<rparr>))"

subsection \<open>Invariant\<close>

definition desc_inv :: "nat \<Rightarrow> desc_input \<Rightarrow> bool" where
  "desc_inv maxItems d \<longleftrightarrow>
     (di_suggestions d = [] \<longrightarrow> di_highlight d = -1)
     \<and> -1 \<le> di_highlight d \<and> (di_suggestions d \<noteq> [] \<longrightarrow> di_highlight d < int (length (di_suggestions d)))
     \<and> length (di_suggestions d) \<le> maxItems
     \<and> (case di_suggest d of NoSuggest \<Rightarrow> True
        | Debounce q \<Rightarrow> \<not> di_disabled d \<and> \<not> too_short (di_value d) \<and> q = js_trim (di_value d)
        | Fetching q \<Rightarrow> \<not> di_disabled d \<and> \<not> too_short (di_value d) \<and> q = js_trim (di_value d)
            \<and> di_log d \<noteq> [] \<and> last (di_log d) = descriptions_request (di_type d) q)"

lemma desc_effect_inv:
  assumes "desc_inv m d"
  shows "desc_inv m (desc_effect (d\<lparr>di_value := v, di_type := ty, di_disabled := dis\<rparr>))"
  using assms unfolding desc_effect_def Let_def desc_inv_def by simp

lemma set_value_inv: "desc_inv m d \<Longrightarrow> desc_inv m (set_value v d)"
  using desc_effect_inv [where m = m and d = d and v = v and ty = "di_type d" and dis = "di_disabled d"] by (simp add: set_value_def)

lemma desc_inv_cleared: "desc_inv m d \<Longrightarrow> desc_inv m (d\<lparr>di_open := b, di_suggestions := [], di_highlight := -1\<rparr>)"
  unfolding desc_inv_def by (cases "di_suggest d") simp_all

lemma desc_inv_open: "desc_inv m d \<Longrightarrow> desc_inv m (d\<lparr>di_open := b\<rparr>)"
  unfolding desc_inv_def by (cases "di_suggest d") simp_all

lemma desc_inv_highlight:
  assumes "desc_inv m d" "-1 \<le> h" "h < int (length (di_suggestions d))" "di_suggestions d \<noteq> []"
  shows "desc_inv m (d\<lparr>di_open := b, di_highlight := h\<rparr>)" "desc_inv m (d\<lparr>di_highlight := h\<rparr>)"
  using assms unfolding desc_inv_def by (cases "di_suggest d"; simp)+

lemma commitPick_inv: "desc_inv m d \<Longrightarrow> desc_inv m (commitPick s d)"
  unfolding commitPick_def by (intro set_value_inv desc_inv_cleared)

lemma desc_key_inv: "desc_inv m d \<Longrightarrow> desc_inv m (desc_handleKeyDown key d)"
proof -
  assume d: "desc_inv m d"
  let ?n = "int (length (di_suggestions d))"
  have low: "-1 \<le> di_highlight d" "di_suggestions d \<noteq> [] \<Longrightarrow> di_highlight d < ?n" using d by (simp_all add: desc_inv_def)
  have esc: "desc_inv m (d\<lparr>di_open := False, di_highlight := -1\<rparr>)"
    using d unfolding desc_inv_def by (cases "di_suggest d") simp_all
  show ?thesis
  proof (cases "di_suggestions d = []")
    case True
    then show ?thesis using d by (simp add: desc_handleKeyDown_def)
  next
    case False
    then have n: "0 < ?n" by simp
    have "-1 \<le> (di_highlight d + 1) mod ?n" "(di_highlight d + 1) mod ?n < ?n"
      using pos_mod_sign [OF n, of "di_highlight d + 1"] pos_mod_bound [OF n, of "di_highlight d + 1"] by linarith+
    then have down: "desc_inv m (d\<lparr>di_highlight := (di_highlight d + 1) mod ?n\<rparr>)"
      by (rule desc_inv_highlight(2) [OF d _ _ False])
    have up: "desc_inv m (d\<lparr>di_highlight := ?n - 1\<rparr>)" "0 < di_highlight d \<Longrightarrow> desc_inv m (d\<lparr>di_highlight := di_highlight d - 1\<rparr>)"
      by (rule desc_inv_highlight(2) [OF d _ _ False]; use n low(2) [OF False] in linarith)+
    have first: "desc_inv m (d\<lparr>di_open := True, di_highlight := 0\<rparr>)"
      by (rule desc_inv_highlight(1) [OF d _ _ False]) (use n in linarith)+
    show ?thesis
      using d False down up first esc commitPick_inv [OF d] desc_inv_open [OF d] by (auto simp: desc_handleKeyDown_def Let_def)
  qed
qed

lemma desc_fetched_inv: "0 < m \<Longrightarrow> desc_inv m d \<Longrightarrow> desc_inv m (desc_fetched m ans d)"
  by (cases "di_suggest d"; cases "defaultFetcher ans") (auto simp: desc_fetched_def Let_def desc_inv_def)

lemma desc_timer_inv: "desc_inv m d \<Longrightarrow> desc_inv m (desc_timer d)"
  by (cases "di_suggest d") (simp_all add: desc_timer_def desc_inv_def)

lemma desc_step_inv: "0 < m \<Longrightarrow> desc_inv m d \<Longrightarrow> desc_inv m (desc_step m d e)"
  by (cases e) (auto intro: desc_key_inv set_value_inv desc_inv_open desc_inv_highlight commitPick_inv desc_fetched_inv
      desc_timer_inv desc_effect_inv simp: desc_handleInput_def desc_handleFocus_def)

locale item_cap =
  fixes maxItems :: nat
  assumes cap: "0 < maxItems"

sublocale item_cap \<subseteq> desc_machine: step_machine "desc_step maxItems" "desc_inv maxItems"
  by unfold_locales (rule desc_step_inv [OF cap])

interpretation default_items: item_cap DEFAULT_MAX_ITEMS
  by unfold_locales (simp add: DEFAULT_MAX_ITEMS_def)

lemma desc_init_inv: "desc_inv m (desc_init ty v)"
  by (simp add: desc_init_def desc_effect_def desc_inv_def Let_def)

text \<open>C28: Whatever happens, in any order: the highlighted option is one of those shown, of which there
  are at most eight, and an answer is taken only for the text and the type that the field has
  at that moment, which is what the last request asked for, with at least two characters.\<close>

theorem suggestions_are_for_the_field:
  fixes es ty v
  defines "d \<equiv> run (desc_step DEFAULT_MAX_ITEMS) (desc_init ty v) es"
  shows "length (di_suggestions d) \<le> 8
    \<and> (di_highlight d = -1 \<or> 0 \<le> di_highlight d \<and> di_highlight d < int (length (di_suggestions d)))
    \<and> (desc_fetched DEFAULT_MAX_ITEMS ans d = d
       \<or> last (di_log d) = descriptions_request (di_type d) (js_trim (di_value d)) \<and> 2 \<le> length (js_trim (di_value d)))"
proof -
  have i: "desc_inv DEFAULT_MAX_ITEMS d" unfolding d_def by (rule default_items.desc_machine.run_inv [OF desc_init_inv])
  have "desc_fetched DEFAULT_MAX_ITEMS ans d = d
       \<or> last (di_log d) = descriptions_request (di_type d) (js_trim (di_value d)) \<and> 2 \<le> length (js_trim (di_value d))"
    using i by (cases "di_suggest d") (auto simp: desc_fetched_def desc_inv_def too_short_def MIN_QUERY_LENGTH_def)
  then show ?thesis using i by (auto simp: desc_inv_def DEFAULT_MAX_ITEMS_def)
qed

text \<open>A pick closes the list, and the list comes back: the picked text is a new value, so the effect
  fetches for it, and its answer opens the list over the text just chosen.\<close>

theorem picked_list_reopens:
  assumes "di_open d" and "i < length (di_suggestions d)" and "\<not> di_disabled d"
    and "ds_description (di_suggestions d ! i) = t" and "t \<noteq> di_value d" and "\<not> too_short t" and "ss \<noteq> []"
  shows "di_open (run (desc_step m) d [DiPick i]) = False
    \<and> di_open (run (desc_step m) d [DiPick i, DiTimer, DiFetched (Inr (Some (Some ss)))])
    \<and> di_suggestions (run (desc_step m) d [DiPick i, DiTimer, DiFetched (Inr (Some (Some ss)))]) = take m ss
    \<and> di_highlight (run (desc_step m) d [DiPick i, DiTimer, DiFetched (Inr (Some (Some ss)))]) = 0"
  using assms by (simp add: commitPick_def set_value_def desc_effect_def desc_timer_def desc_fetched_def defaultFetcher_def Let_def)

definition demo_suggestion :: desc_suggestion where
  "demo_suggestion = \<lparr>ds_description = ''Coffee'', ds_category_id = 3, ds_category_name = ''Food'', ds_use_count = 4, ds_last_used = ''2026-05-01''\<rparr>"

theorem picked_list_reopens_witness:
  "di_open (run (desc_step 8) (desc_init ''expense'' []) [DiInput ''cof'', DiTimer, DiFetched (Inr (Some (Some [demo_suggestion]))),
     DiPick 0, DiTimer, DiFetched (Inr (Some (Some [demo_suggestion])))])"
proof -
  define d where "d = run (desc_step 8) (desc_init ''expense'' []) [DiInput ''cof'', DiTimer, DiFetched (Inr (Some (Some [demo_suggestion])))]"
  have "di_open d" "0 < length (di_suggestions d)" "\<not> di_disabled d" "ds_description (di_suggestions d ! 0) = ''Coffee''"
    "''Coffee'' \<noteq> di_value d" "\<not> too_short ''Coffee''"
    unfolding d_def by code_simp+
  then show ?thesis using picked_list_reopens [of d 0 "''Coffee''" "[demo_suggestion]" 8] by (simp add: d_def)
qed

text \<open>A fetch that is cut off because the text became too short leaves the field announcing that it is
  loading, until another fetch ends.\<close>

lemma short_text_leaves_loading:
  assumes "di_suggest d = Fetching q" and "di_loading d" and "\<not> di_disabled d" and "too_short v" and "v \<noteq> di_value d"
  shows "di_loading (run (desc_step m) d [DiInput v, DiFetched ans]) \<and> di_suggest (run (desc_step m) d [DiInput v, DiFetched ans]) = NoSuggest"
  using assms by (simp add: desc_handleInput_def set_value_def desc_effect_def desc_fetched_def Let_def)

text \<open>While the next fetch is awaited the suggestions of the older text stay, and Enter takes the
  highlighted one in place of what has been typed since.\<close>

lemma enter_takes_older_suggestion:
  assumes "di_open d" and "di_suggestions d = s # ss" and "di_highlight d = 0" and "\<not> di_disabled d"
    and "\<not> too_short v" and "v \<noteq> di_value d" and "v \<noteq> ds_description s"
  shows "di_value (run (desc_step m) d [DiInput v, DiKey ''Enter'']) = ds_description s"
  using assms
  by (simp add: desc_handleInput_def set_value_def desc_effect_def too_short_def desc_handleKeyDown_def commitPick_def Let_def)

text \<open>The count that is announced is that of the answer, of which at most \<open>maxItems\<close> are shown.\<close>

lemma announced_count:
  assumes "di_suggest d = Fetching q"
  shows "di_announce (desc_fetched m (Inr (Some (Some ss))) d) = desc_announce (length ss)
    \<and> length (di_suggestions (desc_fetched m (Inr (Some (Some ss))) d)) = min (length ss) m"
  using assms by (simp add: desc_fetched_def defaultFetcher_def Let_def min.commute)

end
