(* ===== verification/Transfer_Dialogs.thy ===== *)
theory Transfer_Dialogs
  imports Category_Select
begin

section \<open>The transfer dialogs\<close>

text \<open>
  components/transactions/LinkAsTransferModal.tsx, UnpairTransferModal.tsx,
  MarkAsTransferModal.tsx and ImportMarkAsTransferModal.tsx. The first three post a request
  and close when it succeeds; what they share is the locale \<open>submit_dialog\<close>, which each of them
  interprets. The fetch of candidates that MarkAsTransferModal starts for a destination is
  cancelled by the next choice: only the last one can still answer.
\<close>

subsection \<open>A dialog that posts\<close>

datatype 's dialog = Open 's | Closed

datatype 'e dialog_event = DgClick | DgAnswer "js_error + jsval" | DgCancel | DgEdit 'e

definition dialog_failure :: "'e dialog_event \<Rightarrow> bool" where
  "dialog_failure e = (case e of DgAnswer (Inl _) \<Rightarrow> True | _ \<Rightarrow> False)"

text \<open>The submit button is disabled unless \<open>can\<close>; Cancel and Escape do nothing during a submit.\<close>

fun dialog_step ::
    "('s \<Rightarrow> bool) \<Rightarrow> ('s \<Rightarrow> bool) \<Rightarrow> ('s \<Rightarrow> 's) \<Rightarrow> (js_error \<Rightarrow> 's \<Rightarrow> 's) \<Rightarrow> ('s \<Rightarrow> request) \<Rightarrow> ('e \<Rightarrow> 's \<Rightarrow> 's)
      \<Rightarrow> 's dialog \<times> request list \<Rightarrow> 'e dialog_event \<Rightarrow> 's dialog \<times> request list" where
  "dialog_step can busy start fail req edit (Closed, reqs) e = (Closed, reqs)"
| "dialog_step can busy start fail req edit (Open s, reqs) DgClick =
     (if can s then (Open (start s), reqs @ [req s]) else (Open s, reqs))"
| "dialog_step can busy start fail req edit (Open s, reqs) (DgAnswer ans) =
     (if \<not> busy s then (Open s, reqs)
      else (case ans of Inl err \<Rightarrow> (Open (fail err s), reqs) | Inr _ \<Rightarrow> (Closed, reqs)))"
| "dialog_step can busy start fail req edit (Open s, reqs) DgCancel = (if busy s then Open s else Closed, reqs)"
| "dialog_step can busy start fail req edit (Open s, reqs) (DgEdit q) = (Open (edit q s), reqs)"

locale submit_dialog =
  fixes can :: "'s \<Rightarrow> bool" and busy :: "'s \<Rightarrow> bool" and start :: "'s \<Rightarrow> 's" and fail :: "js_error \<Rightarrow> 's \<Rightarrow> 's"
    and req :: "'s \<Rightarrow> request" and edit :: "'e \<Rightarrow> 's \<Rightarrow> 's"
  assumes busy_cannot: "busy s \<Longrightarrow> \<not> can s"
    and start_busy: "can s \<Longrightarrow> busy (start s)"
    and fail_idle: "\<not> busy (fail err s)"
    and edit_busy: "busy (edit q s) = busy s"
begin

abbreviation dstep where "dstep \<equiv> dialog_step can busy start fail req edit"

text \<open>The requests posted, less those that failed: one if a submit is under way, none before.\<close>

definition settled_posts :: "'s dialog \<Rightarrow> nat" where
  "settled_posts d = (case d of Open s \<Rightarrow> if busy s then 1 else 0 | Closed \<Rightarrow> 1)"

lemma posts_bound:
  "length (snd (run dstep (d, reqs) es)) + settled_posts d \<le> length reqs + 1 + length (filter dialog_failure es)"
proof (induction es arbitrary: d reqs)
  case Nil
  show ?case by (simp add: settled_posts_def split: dialog.split)
next
  case (Cons e es)
  obtain d1 reqs1 where st: "dstep (d, reqs) e = (d1, reqs1)" by fastforce
  have "length reqs1 + settled_posts d \<le> length reqs + settled_posts d1 + (if dialog_failure e then 1 else 0)"
    using st by (cases d; cases e) (auto simp: settled_posts_def dialog_failure_def busy_cannot start_busy fail_idle edit_busy
        split: sum.splits if_splits)
  then show ?case using Cons.IH [of d1 reqs1] st by (simp split: if_splits)
qed

lemma posts_once:
  assumes "\<not> busy s"
  shows "length (snd (run dstep (Open s, []) es)) \<le> 1 + length (filter dialog_failure es)"
  using posts_bound [of "Open s" "[]" es] by simp

end

subsection \<open>Link\<close>

record link_dialog =
  lk_expense :: int
  lk_income :: int
  lk_recategorize :: bool
  lk_submitting :: bool
  lk_errorMsg :: "string option"

definition link_open :: "transaction \<Rightarrow> transaction \<Rightarrow> link_dialog" where
  "link_open e i = \<lparr>lk_expense = tx_id e, lk_income = tx_id i, lk_recategorize = True, lk_submitting = False, lk_errorMsg = None\<rparr>"

definition link_can :: "link_dialog \<Rightarrow> bool" where
  "link_can d \<longleftrightarrow> \<not> lk_submitting d"

definition link_start :: "link_dialog \<Rightarrow> link_dialog" where
  "link_start d = d\<lparr>lk_submitting := True, lk_errorMsg := None\<rparr>"

definition link_fail :: "js_error \<Rightarrow> link_dialog \<Rightarrow> link_dialog" where
  "link_fail err d = d\<lparr>lk_submitting := False, lk_errorMsg := Some (extractErrorMessage err ''Failed to link transfer'')\<rparr>"

definition link_request :: "link_dialog \<Rightarrow> request" where
  "link_request d = mk_req POST ''/api/v1/transactions/pair'' (JObj
     [(''expense_id'', JInt (lk_expense d)), (''income_id'', JInt (lk_income d)), (''recategorize'', JBool (lk_recategorize d))])"

definition link_edit :: "bool \<Rightarrow> link_dialog \<Rightarrow> link_dialog" where
  "link_edit b d = d\<lparr>lk_recategorize := b\<rparr>"

interpretation linking: submit_dialog link_can lk_submitting link_start link_fail link_request link_edit
  by unfold_locales (simp_all add: link_can_def link_start_def link_fail_def link_edit_def)

subsection \<open>Unlink\<close>

record unpair_dialog =
  up_expense :: int
  up_expenseCategoryId :: "int option"
  up_incomeCategoryId :: "int option"
  up_submitting :: bool
  up_errorText :: "string option"

definition unpair_open :: "transaction \<Rightarrow> unpair_dialog" where
  "unpair_open e = \<lparr>up_expense = tx_id e, up_expenseCategoryId = None, up_incomeCategoryId = None, up_submitting = False, up_errorText = None\<rparr>"

definition unpair_can :: "unpair_dialog \<Rightarrow> bool" where
  "unpair_can d \<longleftrightarrow> up_expenseCategoryId d \<noteq> None \<and> up_incomeCategoryId d \<noteq> None \<and> \<not> up_submitting d"

definition unpair_start :: "unpair_dialog \<Rightarrow> unpair_dialog" where
  "unpair_start d = d\<lparr>up_submitting := True, up_errorText := None\<rparr>"

definition unpair_fail :: "js_error \<Rightarrow> unpair_dialog \<Rightarrow> unpair_dialog" where
  "unpair_fail err d = d\<lparr>up_submitting := False, up_errorText := Some (extractErrorMessage err ''Failed to unlink transfer'')\<rparr>"

definition unpair_request :: "unpair_dialog \<Rightarrow> request" where
  "unpair_request d = mk_req POST (tx_path (up_expense d) @ ''/unpair'') (JObj
     [(''expense_fallback_category_id'', id_value (up_expenseCategoryId d)),
      (''income_fallback_category_id'', id_value (up_incomeCategoryId d))])"

datatype unpair_field = UpExpense "int option" | UpIncome "int option"

definition unpair_edit :: "unpair_field \<Rightarrow> unpair_dialog \<Rightarrow> unpair_dialog" where
  "unpair_edit q d = (case q of UpExpense c \<Rightarrow> d\<lparr>up_expenseCategoryId := c\<rparr> | UpIncome c \<Rightarrow> d\<lparr>up_incomeCategoryId := c\<rparr>)"

interpretation unpairing: submit_dialog unpair_can up_submitting unpair_start unpair_fail unpair_request unpair_edit
  by unfold_locales (simp_all add: unpair_can_def unpair_start_def unpair_fail_def unpair_edit_def split: unpair_field.split)

subsection \<open>Mark as transfer\<close>

record mark_dialog =
  mk_source :: transaction
  mk_accounts :: "account list"
  mk_destAcctId :: "int option"
  mk_candidates :: "transfer_candidate list"
  mk_candidatesLoading :: bool
  mk_candidatesLoaded :: bool
  mk_selectedCandidateId :: "int option"
  mk_createInstead :: bool
  mk_recategorize :: bool
  mk_submitting :: bool
  mk_errorText :: "string option"
  mk_fetches :: "request list"

definition mark_open :: "account list \<Rightarrow> transaction \<Rightarrow> mark_dialog" where
  "mark_open accts t = \<lparr>mk_source = t, mk_accounts = accts, mk_destAcctId = None, mk_candidates = [], mk_candidatesLoading = False,
     mk_candidatesLoaded = False, mk_selectedCandidateId = None, mk_createInstead = False, mk_recategorize = True,
     mk_submitting = False, mk_errorText = None, mk_fetches = []\<rparr>"

definition sourceCurrency :: "mark_dialog \<Rightarrow> string" where
  "sourceCurrency d = (case account_of (mk_accounts d) (tx_account_id (mk_source d)) of Some a \<Rightarrow> ac_currency a | None \<Rightarrow> ''EUR'')"

definition eligibleAccounts :: "mark_dialog \<Rightarrow> account list" where
  "eligibleAccounts d = filter (\<lambda>a. ac_id a \<noteq> tx_account_id (mk_source d) \<and> ac_currency a = sourceCurrency d) (mk_accounts d)"

text \<open>
  The effect on the destination: what it resets, and the fetch. Clearing the destination
  while a fetch is under way leaves \<^verbatim>\<open>candidatesLoading\<close> as it is.
\<close>

definition mark_dest :: "int option \<Rightarrow> mark_dialog \<Rightarrow> mark_dialog" where
  "mark_dest v d =
     (if v = mk_destAcctId d then d
      else case v of
        None \<Rightarrow> d\<lparr>mk_destAcctId := None, mk_candidates := [], mk_selectedCandidateId := None, mk_createInstead := False,
                 mk_candidatesLoaded := False\<rparr>
      | Some i \<Rightarrow> d\<lparr>mk_destAcctId := Some i, mk_candidatesLoading := True, mk_candidatesLoaded := False,
                   mk_selectedCandidateId := None, mk_createInstead := False, mk_errorText := None,
                   mk_fetches := mk_fetches d @ [mk_req GET (tx_path (tx_id (mk_source d))
                     @ ''/transfer-candidates?destination_account_id='' @ show_int i) JUndef]\<rparr>)"

definition mark_fetched :: "js_error + transfer_candidate list \<Rightarrow> mark_dialog \<Rightarrow> mark_dialog" where
  "mark_fetched ans d =
     (if mk_destAcctId d = None \<or> \<not> mk_candidatesLoading d then d
      else (let d1 = d\<lparr>mk_candidatesLoading := False\<rparr> in
        case ans of
          Inl err \<Rightarrow> d1\<lparr>mk_errorText := Some (extractErrorMessage err ''Failed to fetch candidates'')\<rparr>
        | Inr cs \<Rightarrow> d1\<lparr>mk_candidates := cs, mk_candidatesLoaded := True,
             mk_selectedCandidateId := (case cs of
                 [c] \<Rightarrow> if tc_confidence c = SameDay then Some (tc_id c) else mk_selectedCandidateId d
               | _ \<Rightarrow> mk_selectedCandidateId d)\<rparr>))"

definition hasZeroCandidates :: "mark_dialog \<Rightarrow> bool" where
  "hasZeroCandidates d \<longleftrightarrow> mk_destAcctId d \<noteq> None \<and> \<not> mk_candidatesLoading d \<and> mk_candidatesLoaded d \<and> mk_candidates d = []"

definition canPair :: "mark_dialog \<Rightarrow> bool" where
  "canPair d \<longleftrightarrow> \<not> mk_createInstead d \<and> mk_selectedCandidateId d \<noteq> None"

definition canCreate :: "mark_dialog \<Rightarrow> bool" where
  "canCreate d \<longleftrightarrow> mk_createInstead d \<or> hasZeroCandidates d"

definition mark_can :: "mark_dialog \<Rightarrow> bool" where
  "mark_can d \<longleftrightarrow> (canPair d \<or> canCreate d) \<and> \<not> mk_submitting d \<and> mk_destAcctId d \<noteq> None"

definition primaryLabel :: "mark_dialog \<Rightarrow> string" where
  "primaryLabel d = (if canPair d then ''Pair as transfer'' else ''Create partner leg'')"

definition mark_start :: "mark_dialog \<Rightarrow> mark_dialog" where
  "mark_start d = d\<lparr>mk_submitting := True, mk_errorText := None\<rparr>"

definition mark_fail :: "js_error \<Rightarrow> mark_dialog \<Rightarrow> mark_dialog" where
  "mark_fail err d = d\<lparr>mk_submitting := False, mk_errorText := Some (extractErrorMessage err ''Failed to convert to transfer'')\<rparr>"

definition mark_request :: "mark_dialog \<Rightarrow> request" where
  "mark_request d = mk_req POST (tx_path (tx_id (mk_source d)) @ ''/convert-to-transfer'') (JObj
     ([(''destination_account_id'', id_value (mk_destAcctId d)), (''recategorize'', JBool (mk_recategorize d))]
      @ (if canPair d then [(''pair_with_transaction_id'', id_value (mk_selectedCandidateId d))] else [])))"

datatype mark_field =
    MkDest "int option" | MkFetched "js_error + transfer_candidate list" | MkPick nat | MkCreateInstead | MkRecategorize bool

text \<open>The candidates, and below them the button to create a leg, are shown whenever there are any.\<close>

fun mark_edit :: "mark_field \<Rightarrow> mark_dialog \<Rightarrow> mark_dialog" where
  "mark_edit (MkDest v) d = (if v = None \<or> v \<in> (\<lambda>a. Some (ac_id a)) ` set (eligibleAccounts d) then mark_dest v d else d)"
| "mark_edit (MkFetched ans) d = mark_fetched ans d"
| "mark_edit (MkPick i) d =
     (if i < length (mk_candidates d) then d\<lparr>mk_selectedCandidateId := Some (tc_id (mk_candidates d ! i)), mk_createInstead := False\<rparr> else d)"
| "mark_edit MkCreateInstead d =
     (if mk_candidates d \<noteq> [] then d\<lparr>mk_createInstead := True, mk_selectedCandidateId := None\<rparr> else d)"
| "mark_edit (MkRecategorize b) d = d\<lparr>mk_recategorize := b\<rparr>"

lemma mark_edit_busy: "mk_submitting (mark_edit q d) = mk_submitting d"
  by (cases q) (auto simp: mark_dest_def mark_fetched_def Let_def split: option.split sum.split)

interpretation marking: submit_dialog mark_can mk_submitting mark_start mark_fail mark_request mark_edit
  by unfold_locales (simp_all add: mark_can_def mark_start_def mark_fail_def mark_edit_busy)

abbreviation "link_step \<equiv> dialog_step link_can lk_submitting link_start link_fail link_request link_edit"
abbreviation "unpair_step \<equiv> dialog_step unpair_can up_submitting unpair_start unpair_fail unpair_request unpair_edit"
abbreviation "mark_step \<equiv> dialog_step mark_can mk_submitting mark_start mark_fail mark_request mark_edit"

text \<open>The account check of the backend's \<^verbatim>\<open>convert_to_transfer\<close> on a request that names a partner.\<close>

definition partner_account_ok :: "(int \<Rightarrow> int option) \<Rightarrow> request \<Rightarrow> bool" where
  "partner_account_ok account_of_tx r = (case js_get (rq_body r) ''pair_with_transaction_id'' of
      JNum k \<Rightarrow> (case account_of_tx \<lfloor>k\<rfloor> of Some a \<Rightarrow> js_get (rq_body r) ''destination_account_id'' = JInt a | None \<Rightarrow> False)
    | _ \<Rightarrow> True)"

subsection \<open>Mark as transfer, on the import preview\<close>

record import_mark =
  im_destAccountId :: "int option"
  im_errorMsg :: "string option"

definition import_mark_open :: "int option \<Rightarrow> import_mark" where
  "import_mark_open initial = \<lparr>im_destAccountId = initial, im_errorMsg = None\<rparr>"

definition import_eligible :: "int \<Rightarrow> string \<Rightarrow> account list \<Rightarrow> account list" where
  "import_eligible importAccountId currency accts =
     filter (\<lambda>a. ac_id a \<noteq> importAccountId \<and> ac_currency a = currency \<and> ac_is_active a) accts"

definition directionPreview :: "int \<Rightarrow> string \<Rightarrow> string \<Rightarrow> account list \<Rightarrow> tx_type \<Rightarrow> import_mark \<Rightarrow> (string \<times> string) option" where
  "directionPreview importAccountId importAccountName currency accts rowType d =
     (case im_destAccountId d of
        None \<Rightarrow> None
      | Some i \<Rightarrow> (case js_find (\<lambda>a. ac_id a = i) (import_eligible importAccountId currency accts) of
          None \<Rightarrow> None
        | Some a \<Rightarrow> Some (if rowType = Expense then (importAccountName, ac_name a) else (ac_name a, importAccountName))))"

text \<open>\<^verbatim>\<open>handleSubmit\<close>: what \<^verbatim>\<open>onConfirm\<close> is called with, if it is called.\<close>

definition import_mark_submit :: "import_mark \<Rightarrow> import_mark + int" where
  "import_mark_submit d = (case im_destAccountId d of
      None \<Rightarrow> Inl (d\<lparr>im_errorMsg := Some ''Pick an account.''\<rparr>)
    | Some i \<Rightarrow> Inr i)"

definition import_mark_enabled :: "import_mark \<Rightarrow> bool" where
  "import_mark_enabled d \<longleftrightarrow> im_destAccountId d \<noteq> None"

subsection \<open>Properties\<close>

text \<open>C29: Each of the three dialogs posts again only after a failure: whatever is clicked, typed and answered,
  there is at most one request more than there are failed answers.\<close>

theorem transfer_dialogs_post_once:
  "length (snd (run link_step (Open (link_open e i), []) es1)) \<le> 1 + length (filter dialog_failure es1)
   \<and> length (snd (run unpair_step (Open (unpair_open e), []) es2)) \<le> 1 + length (filter dialog_failure es2)
   \<and> length (snd (run mark_step (Open (mark_open accts e), []) es3)) \<le> 1 + length (filter dialog_failure es3)"
  using linking.posts_once [of "link_open e i" es1] unpairing.posts_once [of "unpair_open e" es2]
    marking.posts_once [of "mark_open accts e" es3]
  by (simp add: link_open_def unpair_open_def mark_open_def)

definition unpair_props :: "category list \<Rightarrow> type_filter \<Rightarrow> picker_props" where
  "unpair_props cats f = \<lparr>pp_categories = cats, pp_filterType = None, pp_typeFilter = Some f, pp_disabled = []\<rparr>"

text \<open>Unlinking can be submitted once both pickers have been used, and what it posts are two categories
  that the backend accepts for the two legs.\<close>

theorem unpair_categories_accepted:
  fixes es1 es2 st t cats
  defines "pe \<equiv> run picker_step (picker_mount (unpair_props cats TfExpense) None st) es1"
    and "pin \<equiv> run picker_step (picker_mount (unpair_props cats TfIncome) None st) es2"
  defines "d \<equiv> unpair_edit (UpIncome (pk_value pin)) (unpair_edit (UpExpense (pk_value pe)) (unpair_open t))"
  assumes "categories_ok cats" and "unpair_can d"
  shows "js_get (rq_body (unpair_request d)) ''expense_fallback_category_id'' = id_value (pk_value pe)
    \<and> js_get (rq_body (unpair_request d)) ''income_fallback_category_id'' = id_value (pk_value pin)
    \<and> validate_category_for_type (pp_categories (pk_props pe)) (pk_value pe) Expense
    \<and> validate_category_for_type (pp_categories (pk_props pin)) (pk_value pin) Income"
proof -
  have d: "up_expenseCategoryId d = pk_value pe" "up_incomeCategoryId d = pk_value pin"
    by (simp_all add: d_def unpair_edit_def)
  have p: "categories_ok (pp_categories (unpair_props cats f))"
    "effectiveFilterType (unpair_props cats TfExpense) = Some Expense" "effectiveFilterType (unpair_props cats TfIncome) = Some Income" for f
    using assms(4) by (simp_all add: unpair_props_def effectiveFilterType_def)
  have "pk_value pe \<noteq> None" "pk_value pin \<noteq> None" using assms(5) d by (simp_all add: unpair_can_def)
  then have "validate_category_for_type (pp_categories (pk_props pe)) (pk_value pe) Expense
      \<and> validate_category_for_type (pp_categories (pk_props pin)) (pk_value pin) Income"
    using picker_accepts [OF p(1,2), of None st es1, folded pe_def] picker_accepts [OF p(1,3), of None st es2, folded pin_def]
    by argo
  then show ?thesis using d by (simp add: unpair_request_def mk_req_def js_get_def)
qed

definition demo_unpair_cats :: "category list" where
  "demo_unpair_cats = [demo_quick_category, demo_quick_category\<lparr>ca_id := 9, ca_name := ''Salary'', ca_type := CatIncome\<rparr>]"

definition demo_leg :: transaction where
  "demo_leg = \<lparr>tx_id = 1, tx_account_id = 1, tx_account_name = ''Card'', tx_category_id = 3, tx_category_name = ''Food'',
     tx_description = ''Move'', tx_amount = 5, tx_type = Expense, tx_status = TxSettled, tx_linked_transaction_id = None,
     tx_recurring_id = None, tx_date = ''2026-05-01'', tx_settled_date = None, tx_is_imported = False,
     tx_is_manual_adjustment = False, tx_tags = []\<rparr>"

theorem unpair_categories_accepted_witness:
  "validate_category_for_type (pp_categories (pk_props (run picker_step (picker_mount (unpair_props demo_unpair_cats TfExpense) None empty_storage)
      [PkFocus, PkClick 0]))) (Some 3) Expense"
proof -
  have "categories_ok demo_unpair_cats" by (simp add: demo_unpair_cats_def categories_ok_def demo_quick_category_def)
  moreover have v: "pk_value (run picker_step (picker_mount (unpair_props demo_unpair_cats TfExpense) None empty_storage) [PkFocus, PkClick 0]) = Some 3"
    "pk_value (run picker_step (picker_mount (unpair_props demo_unpair_cats TfIncome) None empty_storage) [PkFocus, PkClick 0]) = Some 9"
    by code_simp+
  moreover have "unpair_can (unpair_edit (UpIncome (Some 9)) (unpair_edit (UpExpense (Some 3)) (unpair_open demo_leg)))"
    by (simp add: unpair_can_def unpair_edit_def unpair_open_def)
  ultimately show ?thesis
    using unpair_categories_accepted [of demo_unpair_cats empty_storage "[PkFocus, PkClick 0]" "[PkFocus, PkClick 0]" demo_leg] by simp
qed

text \<open>
  The partner that is posted: with one destination it is always a row of that account,
  because the candidates are the backend's for it.
\<close>

definition mark_inv :: "(int \<Rightarrow> int option) \<Rightarrow> int \<Rightarrow> mark_dialog dialog \<times> request list \<Rightarrow> bool" where
  "mark_inv acct A s \<longleftrightarrow> list_all (partner_account_ok acct) (snd s)
     \<and> (case fst s of Closed \<Rightarrow> True | Open d \<Rightarrow>
          mk_destAcctId d \<in> {None, Some A} \<and> (\<forall>c \<in> set (mk_candidates d). acct (tc_id c) = Some A)
          \<and> (\<forall>k. mk_selectedCandidateId d = Some k \<longrightarrow> acct k = Some A))"

definition mark_allowed :: "(int \<Rightarrow> int option) \<Rightarrow> int \<Rightarrow> mark_field dialog_event \<Rightarrow> bool" where
  "mark_allowed acct A e \<longleftrightarrow> (case e of
      DgEdit (MkDest v) \<Rightarrow> v \<in> {None, Some A}
    | DgEdit (MkFetched (Inr cs)) \<Rightarrow> list_all (\<lambda>c. acct (tc_id c) = Some A) cs
    | _ \<Rightarrow> True)"

lemma mark_request_ok:
  assumes "mk_destAcctId d = Some A" and "\<forall>k. mk_selectedCandidateId d = Some k \<longrightarrow> acct k = Some A"
  shows "partner_account_ok acct (mark_request d)"
  using assms by (cases "mk_selectedCandidateId d") (auto simp: partner_account_ok_def mark_request_def mk_req_def js_get_def id_value_def canPair_def)

lemma mark_dest_inv:
  assumes "mark_inv acct A (Open d, reqs)" and "v \<in> {None, Some A}"
  shows "mark_inv acct A (Open (mark_dest v d), reqs)"
  using assms by (auto simp: mark_inv_def mark_dest_def)

lemma mark_fetched_inv:
  assumes "mark_inv acct A (Open d, reqs)" and "\<And>cs. ans = Inr cs \<Longrightarrow> list_all (\<lambda>c. acct (tc_id c) = Some A) cs"
  shows "mark_inv acct A (Open (mark_fetched ans d), reqs)"
proof (cases ans)
  case (Inl err)
  then show ?thesis using assms(1) by (simp add: mark_inv_def mark_fetched_def Let_def)
next
  case (Inr cs)
  then have cs: "list_all (\<lambda>c. acct (tc_id c) = Some A) cs" using assms(2) by simp
  then show ?thesis using assms(1) Inr
    by (cases cs rule: list.exhaust [case_product list.exhaust [where y = "tl cs"]])
      (auto simp: mark_inv_def mark_fetched_def Let_def list_all_iff split: list.splits)
qed

lemma mark_step_inv:
  assumes "mark_inv acct A (dg, reqs)" and "mark_allowed acct A e"
  shows "mark_inv acct A (mark_step (dg, reqs) e)"
proof (cases dg)
  case (Open d)
  show ?thesis
  proof (cases e)
    case DgClick
    have "partner_account_ok acct (mark_request d)" if "mark_can d"
      using assms(1) that Open by (intro mark_request_ok [where A = A]) (auto simp: mark_inv_def mark_can_def)
    then show ?thesis using assms(1) Open DgClick by (simp add: mark_inv_def mark_start_def)
  next
    case (DgAnswer ans)
    then show ?thesis using assms(1) Open by (cases ans) (simp_all add: mark_inv_def mark_fail_def)
  next
    case DgCancel
    then show ?thesis using assms(1) Open by (simp add: mark_inv_def)
  next
    case (DgEdit q)
    have "mark_inv acct A (Open (mark_edit q d), reqs)"
    proof (cases q)
      case (MkDest v)
      then show ?thesis using assms Open DgEdit mark_dest_inv [of acct A d reqs v] by (auto simp: mark_allowed_def)
    next
      case (MkFetched ans)
      then have "\<And>cs. ans = Inr cs \<Longrightarrow> list_all (\<lambda>c. acct (tc_id c) = Some A) cs" using assms(2) DgEdit by (simp add: mark_allowed_def)
      then show ?thesis using assms(1) Open MkFetched mark_fetched_inv [of acct A d reqs ans] by simp
    qed (use assms(1) Open in \<open>auto simp: mark_inv_def\<close>)
    then show ?thesis using Open DgEdit by simp
  qed
qed (use assms(1) in simp)

text \<open>As long as one destination is chosen, every request that names a partner names a row of the
  destination account, whatever else happens.\<close>

theorem mark_pairs_in_destination:
  assumes "list_all (mark_allowed acct A) es"
  shows "list_all (partner_account_ok acct) (snd (run mark_step (Open (mark_open accts t), []) es))"
proof -
  have "mark_inv acct A s \<Longrightarrow> list_all (mark_allowed acct A) es' \<Longrightarrow> mark_inv acct A (run mark_step s es')" for s es'
  proof (induction es' arbitrary: s)
    case (Cons e es')
    then have "mark_inv acct A (mark_step s e)" using mark_step_inv [of acct A "fst s" "snd s" e] by simp
    then show ?case using Cons by simp
  qed simp
  from this [of "(Open (mark_open accts t), [])" es] show ?thesis
    using assms by (simp add: mark_inv_def mark_open_def)
qed

definition demo_candidate :: transfer_candidate where
  "demo_candidate = \<lparr>tc_id = 77, tc_date = ''2026-05-01'', tc_description = ''Move'', tc_amount = 5, tc_account_id = 2,
     tc_account_name = ''Savings'', tc_date_diff_days = 0, tc_confidence = SameDay\<rparr>"

definition demo_mark_accounts :: "account list" where
  "demo_mark_accounts = [demo_quick_account, demo_quick_account\<lparr>ac_id := 2\<rparr>, demo_quick_account\<lparr>ac_id := 3\<rparr>]"

theorem mark_pairs_in_destination_witness:
  "snd (run mark_step (Open (mark_open demo_mark_accounts demo_leg), [])
      [DgEdit (MkDest (Some 2)), DgEdit (MkFetched (Inr [demo_candidate])), DgClick]) \<noteq> []
   \<and> list_all (partner_account_ok [77 \<mapsto> 2]) (snd (run mark_step (Open (mark_open demo_mark_accounts demo_leg), [])
      [DgEdit (MkDest (Some 2)), DgEdit (MkFetched (Inr [demo_candidate])), DgClick]))"
proof
  show "snd (run mark_step (Open (mark_open demo_mark_accounts demo_leg), [])
      [DgEdit (MkDest (Some 2)), DgEdit (MkFetched (Inr [demo_candidate])), DgClick]) \<noteq> []" by code_simp
  have "list_all (mark_allowed [77 \<mapsto> 2] 2) [DgEdit (MkDest (Some 2)), DgEdit (MkFetched (Inr [demo_candidate])), DgClick]"
    by (simp add: mark_allowed_def demo_candidate_def)
  then show "list_all (partner_account_ok [77 \<mapsto> 2]) (snd (run mark_step (Open (mark_open demo_mark_accounts demo_leg), [])
      [DgEdit (MkDest (Some 2)), DgEdit (MkFetched (Inr [demo_candidate])), DgClick]))"
    by (rule mark_pairs_in_destination)
qed

text \<open>With a second destination it is not so: the candidates of the first stay on the screen while the
  second is fetched and if that fetch fails, one of them can be chosen, the choice outlives the
  arrival of the new candidates, and it is posted as the partner in the new destination, which
  the backend refuses.\<close>

theorem stale_candidate_posted:
  assumes "mk_destAcctId d = Some A" and "B \<noteq> A" and "Some B \<in> (\<lambda>a. Some (ac_id a)) ` set (eligibleAccounts d)"
    and "i < length (mk_candidates d)" and "acct (tc_id (mk_candidates d ! i)) = Some A" and "\<not> mk_submitting d"
    and "length cs \<noteq> 1"
  shows "\<exists>r. snd (run mark_step (Open d, []) [DgEdit (MkDest (Some B)), DgEdit (MkPick i), DgEdit (MkFetched (Inr cs)), DgClick]) = [r]
    \<and> \<not> partner_account_ok acct r"
proof -
  let ?k = "tc_id (mk_candidates d ! i)"
  define d1 where "d1 = mark_edit (MkPick i) (mark_edit (MkDest (Some B)) d)"
  have d1: "mk_destAcctId d1 = Some B" "mk_candidatesLoading d1" "mk_selectedCandidateId d1 = Some ?k" "\<not> mk_createInstead d1" "\<not> mk_submitting d1"
    using assms by (simp_all add: d1_def mark_dest_def)
  define d2 where "d2 = mark_fetched (Inr cs) d1"
  have d2: "mk_destAcctId d2 = Some B" "mk_selectedCandidateId d2 = Some ?k" "\<not> mk_createInstead d2" "\<not> mk_submitting d2"
    using d1 assms(7) by (auto simp: d2_def mark_fetched_def Let_def split: list.split)
  have "canPair d2" "mark_can d2" using d2 by (simp_all add: canPair_def mark_can_def)
  moreover have "run mark_step (Open d, []) [DgEdit (MkDest (Some B)), DgEdit (MkPick i), DgEdit (MkFetched (Inr cs)), DgClick]
      = mark_step (Open d2, []) DgClick"
    by (simp only: run_simps dialog_step.simps d1_def d2_def mark_edit.simps(2))
  ultimately show ?thesis
    using d2 assms(2,5) by (auto simp: mark_request_def mk_req_def partner_account_ok_def js_get_def id_value_def)
qed

theorem stale_candidate_posted_witness:
  "\<exists>r. snd (run mark_step (Open (mark_open demo_mark_accounts demo_leg), [])
     [DgEdit (MkDest (Some 2)), DgEdit (MkFetched (Inr [demo_candidate])), DgEdit (MkDest (Some 3)), DgEdit (MkPick 0),
      DgEdit (MkFetched (Inr [])), DgClick]) = [r] \<and> \<not> partner_account_ok [77 \<mapsto> 2] r"
proof -
  define d where "d = mark_edit (MkFetched (Inr [demo_candidate])) (mark_edit (MkDest (Some 2)) (mark_open demo_mark_accounts demo_leg))"
  have "mk_destAcctId d = Some 2" "Some 3 \<in> (\<lambda>a. Some (ac_id a)) ` set (eligibleAccounts d)" "0 < length (mk_candidates d)"
    "[77 \<mapsto> 2] (tc_id (mk_candidates d ! 0)) = Some (2 :: int)" "\<not> mk_submitting d"
    unfolding d_def by code_simp+
  then show ?thesis
    using stale_candidate_posted [of d 2 3 0 "[77 \<mapsto> 2]" "[]"] by (simp add: d_def del: mark_edit.simps)
qed

text \<open>On the import preview the confirm button looks at the id only: an account that was chosen earlier and
  is no longer eligible (closed since, say) shows as no choice and is confirmed all the same.\<close>

lemma ineligible_destination_confirmed:
  assumes "i \<notin> ac_id ` set (import_eligible importAccountId currency accts)"
  shows "directionPreview importAccountId importAccountName currency accts rowType (import_mark_open (Some i)) = None
    \<and> import_mark_enabled (import_mark_open (Some i)) \<and> import_mark_submit (import_mark_open (Some i)) = Inr i"
proof -
  have "js_find (\<lambda>a. ac_id a = i) (import_eligible importAccountId currency accts) = None"
    using assms unfolding js_find_None by blast
  then show ?thesis by (simp add: directionPreview_def import_mark_open_def import_mark_enabled_def import_mark_submit_def)
qed

end
