(* ===== verification/Focus_Trap.thy ===== *)
theory Focus_Trap
  imports Prelude
begin

section \<open>Focus traps of the dialogs\<close>

text \<open>
  Every dialog listens to Tab and moves the focus itself at the ends of its controls; elsewhere
  the browser moves it. There are four versions of the listener: lib/hooks/use-focus-trap.ts,
  components/ui/AddCategoryModal.tsx (and AddMasterWithSubsModal.tsx),
  components/floating/SlideInPanel.tsx, and the one copied through
  components/ui/ConfirmModal.tsx and the transfer dialogs of components/transactions. A dialog
  is the list of the elements that the selector finds, in document order; \<open>None\<close> is a focus
  outside the dialog.
\<close>

record control =
  co_id :: nat
  co_disabled :: bool
  co_visible :: bool

subsection \<open>The browser\<close>

text \<open>Tab goes to the next enabled and visible control, or out of the dialog after the last.\<close>

definition can_focus :: "control \<Rightarrow> bool" where
  "can_focus e \<longleftrightarrow> \<not> co_disabled e \<and> co_visible e"

definition tabbable :: "control list \<Rightarrow> control list" where
  "tabbable els = filter can_focus els"

definition browser_tab :: "control list \<Rightarrow> bool \<Rightarrow> nat option \<Rightarrow> nat option" where
  "browser_tab els shift active = (case active of
      None \<Rightarrow> None
    | Some a \<Rightarrow>
        (let xs = (if shift then rev els else els) in
         case tabbable (drop 1 (dropWhile (\<lambda>e. co_id e \<noteq> a) xs)) of e # _ \<Rightarrow> Some (co_id e) | [] \<Rightarrow> None))"

text \<open>\<^verbatim>\<open>el.focus()\<close> does nothing on an element that cannot have the focus.\<close>

definition focus_on :: "control \<Rightarrow> nat option \<Rightarrow> nat option" where
  "focus_on e active = (if can_focus e then Some (co_id e) else active)"

subsection \<open>The four listeners\<close>

definition cycle :: "control list \<Rightarrow> control list \<Rightarrow> bool \<Rightarrow> nat option \<Rightarrow> nat option" where
  "cycle cands els shift active =
     (if cands = [] then browser_tab els shift active
      else if shift \<and> active = Some (co_id (hd cands)) then focus_on (last cands) active
      else if \<not> shift \<and> active = Some (co_id (last cands)) then focus_on (hd cands) active
      else browser_tab els shift active)"

definition confirm_trap :: "control list \<Rightarrow> bool \<Rightarrow> nat option \<Rightarrow> nat option" where
  "confirm_trap els = cycle els els"

definition modal_trap :: "control list \<Rightarrow> bool \<Rightarrow> nat option \<Rightarrow> nat option" where
  "modal_trap els = cycle (filter (\<lambda>e. \<not> co_disabled e \<and> co_visible e) els) els"

definition panel_trap :: "control list \<Rightarrow> bool \<Rightarrow> nat option \<Rightarrow> nat option" where
  "panel_trap els = cycle (filter (\<lambda>e. \<not> co_disabled e) els) els"

definition useFocusTrap :: "control list \<Rightarrow> bool \<Rightarrow> nat option \<Rightarrow> nat option" where
  "useFocusTrap els shift active =
     (let all = filter (\<lambda>e. \<not> co_disabled e \<and> co_visible e) els in
      if all = [] then active
      else if shift then (if active = Some (co_id (hd all)) \<or> active = None then focus_on (last all) active else browser_tab els shift active)
      else (if active = Some (co_id (last all)) \<or> active = None then focus_on (hd all) active else browser_tab els shift active))"

subsection \<open>What a dialog relies on\<close>

text \<open>
  A trap keeps the focus in the dialog: from a control that can have it, Tab and Shift+Tab
  go to such a control. \<open>suits\<close> is what the trap asks of the dialog's controls.
\<close>

locale focus_trap =
  fixes trap :: "control list \<Rightarrow> bool \<Rightarrow> nat option \<Rightarrow> nat option"
    and suits :: "control list \<Rightarrow> bool"
  assumes keeps: "suits els \<Longrightarrow> a \<in> co_id ` set (tabbable els) \<Longrightarrow> trap els shift (Some a) \<in> Some ` co_id ` set (tabbable els)"
begin

lemma stays: "suits els \<Longrightarrow> a \<in> co_id ` set (tabbable els) \<Longrightarrow> run (\<lambda>act shift. trap els shift act) (Some a) keys \<in> Some ` co_id ` set (tabbable els)"
proof (induction keys arbitrary: a)
  case (Cons k keys)
  then obtain b where "trap els k (Some a) = Some b" "b \<in> co_id ` set (tabbable els)" using keeps [of els a k] by auto
  then show ?case using Cons.IH [of b] Cons.prems(1) by simp
qed simp

end

subsection \<open>The browser inside the dialog\<close>

lemma tabbable_append [simp]: "tabbable (xs @ ys) = tabbable xs @ tabbable ys"
  by (simp add: tabbable_def)

lemma tabbable_rev [simp]: "tabbable (rev xs) = rev (tabbable xs)"
  by (simp add: tabbable_def rev_filter)

lemma dropWhile_at:
  assumes "distinct (map co_id (ys @ e # zs))"
  shows "dropWhile (\<lambda>x. co_id x \<noteq> co_id e) (ys @ e # zs) = e # zs"
proof -
  have "co_id e \<notin> co_id ` set ys" using assms by simp
  then have "\<forall>x \<in> set ys. co_id x \<noteq> co_id e" by (metis imageI)
  then have "dropWhile (\<lambda>x. co_id x \<noteq> co_id e) (ys @ e # zs) = dropWhile (\<lambda>x. co_id x \<noteq> co_id e) (e # zs)"
    by (induction ys) auto
  then show ?thesis by simp
qed

lemma forward_stays:
  assumes "distinct (map co_id els)" and "a \<in> co_id ` set (tabbable els)" and "a \<noteq> co_id (last (tabbable els))"
  shows "\<exists>e \<in> set (tabbable els). (case tabbable (drop 1 (dropWhile (\<lambda>x. co_id x \<noteq> a) els)) of e # _ \<Rightarrow> Some (co_id e) | [] \<Rightarrow> None) = Some (co_id e)"
proof -
  obtain e where e: "e \<in> set els" "can_focus e" "co_id e = a" using assms(2) by (auto simp: tabbable_def)
  then obtain ys zs where els: "els = ys @ e # zs" by (meson split_list)
  have d: "dropWhile (\<lambda>x. co_id x \<noteq> a) els = e # zs"
    using dropWhile_at [of ys e zs] assms(1) e(3) els by simp
  have "tabbable zs \<noteq> []"
  proof
    assume "tabbable zs = []"
    then have "last (tabbable els) = e" using e(2) by (simp add: els tabbable_def)
    then show False using assms(3) e(3) by simp
  qed
  then obtain x xs where x: "tabbable zs = x # xs" by (cases "tabbable zs") auto
  then have "x \<in> set (tabbable zs)" by simp
  then have "x \<in> set (tabbable els)" by (auto simp: els tabbable_def)
  then show ?thesis using d x by auto
qed

lemma browser_stays:
  assumes "distinct (map co_id els)" and "a \<in> co_id ` set (tabbable els)"
    and "a \<noteq> co_id (if shift then hd (tabbable els) else last (tabbable els))"
  shows "browser_tab els shift (Some a) \<in> Some ` co_id ` set (tabbable els)"
proof (cases shift)
  case False
  then show ?thesis using forward_stays [OF assms(1,2)] assms(3) by (auto simp: browser_tab_def)
next
  case True
  have ne: "tabbable els \<noteq> []" using assms(2) by auto
  then have "last (tabbable (rev els)) = hd (tabbable els)" by (simp add: last_rev)
  moreover have "distinct (map co_id (rev els))" using assms(1) by (simp add: rev_map [symmetric])
  ultimately show ?thesis
    using forward_stays [of "rev els" a] assms(2,3) True by (auto simp: browser_tab_def)
qed

lemma cycle_keeps:
  assumes "distinct (map co_id els)" and "a \<in> co_id ` set (tabbable els)"
    and "cands \<noteq> []" and "hd cands = hd (tabbable els)" and "last cands = last (tabbable els)"
  shows "cycle cands els shift (Some a) \<in> Some ` co_id ` set (tabbable els)"
proof -
  have ne: "tabbable els \<noteq> []" using assms(2) by auto
  have "hd cands \<in> set (tabbable els)" "last cands \<in> set (tabbable els)" using ne assms(4,5) by simp_all
  moreover then have "can_focus (hd cands)" "can_focus (last cands)" by (simp_all add: tabbable_def)
  ultimately show ?thesis
    using browser_stays [OF assms(1,2), of shift] assms(3-5) by (auto simp: cycle_def focus_on_def)
qed

interpretation modal: focus_trap modal_trap "\<lambda>els. distinct (map co_id els)"
proof
  fix els a shift
  assume "distinct (map co_id els)" "a \<in> co_id ` set (tabbable els)"
  moreover have "filter (\<lambda>e. \<not> co_disabled e \<and> co_visible e) els = tabbable els"
    by (simp add: tabbable_def can_focus_def [abs_def])
  ultimately show "modal_trap els shift (Some a) \<in> Some ` co_id ` set (tabbable els)"
    unfolding modal_trap_def by (intro cycle_keeps) auto
qed

interpretation panel: focus_trap panel_trap "\<lambda>els. distinct (map co_id els) \<and> list_all co_visible els"
proof
  fix els a shift
  assume "distinct (map co_id els) \<and> list_all co_visible els" "a \<in> co_id ` set (tabbable els)"
  moreover then have "filter (\<lambda>e. \<not> co_disabled e) els = tabbable els"
    unfolding tabbable_def by (intro filter_cong) (auto simp: can_focus_def list_all_iff)
  ultimately show "panel_trap els shift (Some a) \<in> Some ` co_id ` set (tabbable els)"
    unfolding panel_trap_def by (intro cycle_keeps) auto
qed

text \<open>The copied listener takes the ends of the list as they are, so these must be able to have the focus.\<close>

interpretation confirm: focus_trap confirm_trap
  "\<lambda>els. distinct (map co_id els) \<and> els \<noteq> [] \<and> can_focus (hd els) \<and> can_focus (last els)"
proof
  fix els a shift
  assume e: "distinct (map co_id els) \<and> els \<noteq> [] \<and> can_focus (hd els) \<and> can_focus (last els)"
    and a: "a \<in> co_id ` set (tabbable els)"
  have "hd els = hd (tabbable els)" using e by (cases els) (simp_all add: tabbable_def)
  moreover have "last els = last (tabbable els)"
    using e by (cases els rule: rev_cases) (simp_all add: tabbable_def)
  ultimately show "confirm_trap els shift (Some a) \<in> Some ` co_id ` set (tabbable els)"
    unfolding confirm_trap_def using e a by (intro cycle_keeps) auto
qed

interpretation hook: focus_trap useFocusTrap "\<lambda>els. distinct (map co_id els)"
proof
  fix els a shift
  assume e: "distinct (map co_id els)" and a: "a \<in> co_id ` set (tabbable els)"
  have all: "filter (\<lambda>e. \<not> co_disabled e \<and> co_visible e) els = tabbable els"
    by (simp add: tabbable_def can_focus_def [abs_def])
  have ne: "tabbable els \<noteq> []" using a by auto
  have "useFocusTrap els shift (Some a) = cycle (tabbable els) els shift (Some a)"
    using ne by (auto simp: useFocusTrap_def all cycle_def Let_def)
  then show "useFocusTrap els shift (Some a) \<in> Some ` co_id ` set (tabbable els)"
    using cycle_keeps [OF e a ne] by simp
qed

text \<open>C34: However often Tab and Shift+Tab are pressed, the focus stays on an enabled and visible control of the
  dialog: with the shared hook and with the category modal whatever the state of the controls,
  in the panel while none is hidden, and with the listener of the other dialogs while the
  first and the last control can have the focus.\<close>

theorem tab_stays_in_dialog:
  assumes "distinct (map co_id els)" and "a \<in> co_id ` set (tabbable els)"
  shows "run (\<lambda>act shift. useFocusTrap els shift act) (Some a) keys \<in> Some ` co_id ` set (tabbable els)
    \<and> run (\<lambda>act shift. modal_trap els shift act) (Some a) keys \<in> Some ` co_id ` set (tabbable els)
    \<and> (list_all co_visible els \<longrightarrow> run (\<lambda>act shift. panel_trap els shift act) (Some a) keys \<in> Some ` co_id ` set (tabbable els))
    \<and> (can_focus (hd els) \<and> can_focus (last els) \<longrightarrow>
         run (\<lambda>act shift. confirm_trap els shift act) (Some a) keys \<in> Some ` co_id ` set (tabbable els))"
proof -
  have "els \<noteq> []" using assms(2) by (auto simp: tabbable_def)
  then show ?thesis
    using hook.stays [OF assms] modal.stays [OF assms] panel.stays [of els a keys] confirm.stays [of els a keys] assms by blast
qed

theorem tab_stays_in_dialog_witness:
  "run (\<lambda>act shift. useFocusTrap [\<lparr>co_id = 1, co_disabled = False, co_visible = True\<rparr>, \<lparr>co_id = 2, co_disabled = True, co_visible = True\<rparr>] shift act)
     (Some 1) [False, True] = Some 1"
proof -
  let ?els = "[\<lparr>co_id = 1, co_disabled = False, co_visible = True\<rparr>, \<lparr>co_id = 2, co_disabled = True, co_visible = True\<rparr>] :: control list"
  have "distinct (map co_id ?els)" "1 \<in> co_id ` set (tabbable ?els)" "co_id ` set (tabbable ?els) = {1}"
    by (simp_all add: tabbable_def can_focus_def)
  then show ?thesis using tab_stays_in_dialog [of ?els 1 "[False, True]"] by auto
qed

text \<open>And only then: the transfer dialogs end with a submit button that is disabled until there is
  something to submit, and during every submit. While it is, Tab on the control before it leaves
  the dialog, though it is modal.\<close>

theorem disabled_submit_lets_focus_out:
  assumes "distinct (map co_id (els @ [cancel, submit]))" and "can_focus cancel" and "co_disabled submit"
  shows "confirm_trap (els @ [cancel, submit]) False (Some (co_id cancel)) = None
    \<and> useFocusTrap (els @ [cancel, submit]) False (Some (co_id cancel)) = Some (co_id (hd (tabbable (els @ [cancel, submit]))))"
proof -
  have d: "dropWhile (\<lambda>x. co_id x \<noteq> co_id cancel) (els @ cancel # [submit]) = cancel # [submit]"
    by (rule dropWhile_at) (use assms(1) in simp)
  have "co_id submit \<noteq> co_id cancel" using assms(1) by auto
  moreover have t: "tabbable [submit] = []" using assms(3) by (simp add: tabbable_def can_focus_def)
  ultimately have a: "confirm_trap (els @ [cancel, submit]) False (Some (co_id cancel)) = None"
    using d by (simp add: confirm_trap_def cycle_def browser_tab_def)
  have all: "filter (\<lambda>e. \<not> co_disabled e \<and> co_visible e) xs = tabbable xs" for xs
    by (simp add: tabbable_def can_focus_def [abs_def])
  have l: "tabbable (els @ [cancel, submit]) = tabbable els @ [cancel]"
    using assms(2,3) by (simp add: tabbable_def can_focus_def)
  have "can_focus (hd (tabbable els @ [cancel]))" using assms(2) by (cases "tabbable els") (auto simp: tabbable_def dest: filter_eq_ConsD)
  then show ?thesis using a by (simp add: useFocusTrap_def Let_def all l focus_on_def del: tabbable_append)
qed

theorem disabled_submit_lets_focus_out_witness:
  "confirm_trap [\<lparr>co_id = 1, co_disabled = False, co_visible = True\<rparr>, \<lparr>co_id = 2, co_disabled = True, co_visible = True\<rparr>] False (Some 1) = None"
  using disabled_submit_lets_focus_out [of "[]" "\<lparr>co_id = 1, co_disabled = False, co_visible = True\<rparr>" "\<lparr>co_id = 2, co_disabled = True, co_visible = True\<rparr>"]
  by (simp add: can_focus_def)

end
