(* ===== verification/Dashboard_Figures.thy ===== *)
theory Dashboard_Figures
  imports Doubles Tx_Page
begin

section \<open>The figures of the dashboard\<close>

text \<open>
  What app/dashboard/page.tsx and its tiles compute from the answers of the backend: the
  verdict of components/dashboard/OnTrackTile.tsx, the month-end card, the pending amounts
  per account, spending by category, the rows of the charts (lib/chart-shapes.tsx), the
  order of accounts and rows, and the deep link of a row. Amounts are exact rationals;
  \<^verbatim>\<open>NaN\<close> is \<open>None\<close>. \<^verbatim>\<open>localeCompare\<close> is a parameter.
\<close>

subsection \<open>Budgets and plans (lib/types.ts)\<close>

record budget_entry =
  bu_id :: int
  bu_category_id :: int
  bu_category_name :: string
  bu_amount :: rat
  bu_spent :: rat
  bu_remaining :: rat
  bu_percent_used :: rat
  bu_period_start :: string
  bu_period_end :: string

datatype plan_source = SrcManual | SrcRecurring | SrcHistory
datatype plan_status = PlanDraft | PlanActive

record plan_item =
  fi_id :: int
  fi_plan_id :: int
  fi_category_id :: int
  fi_category_name :: string
  fi_parent_id :: "int option"
  fi_type :: tx_type
  fi_planned_amount :: rat
  fi_source :: plan_source
  fi_actual_amount :: rat
  fi_variance :: rat

record forecast_plan =
  fp_id :: int
  fp_billing_period_id :: int
  fp_period_start :: string
  fp_period_end :: "string option"
  fp_status :: plan_status
  fp_total_planned_income :: rat
  fp_total_planned_expense :: rat
  fp_total_actual_income :: rat
  fp_total_actual_expense :: rat
  fp_items :: "plan_item list"

text \<open>The fields of the projection that a tile reads, still as text.\<close>

record projection =
  pj_executed_expense :: string
  pj_forecast_expense :: string

subsection \<open>The open period\<close>

text \<open>\<^verbatim>\<open>findIndex\<close>, and the period that has no end yet: the current one.\<close>

definition index_of :: "('a \<Rightarrow> bool) \<Rightarrow> 'a list \<Rightarrow> nat option" where
  "index_of p xs = (let k = length (takeWhile (\<lambda>x. \<not> p x) xs) in if k < length xs then Some k else None)"

definition is_open :: "billing_period \<Rightarrow> bool" where
  "is_open p \<longleftrightarrow> bp_end_date p = None"

lemma index_of_Some: "index_of p xs = Some i \<Longrightarrow> i < length xs \<and> p (xs ! i)"
  unfolding index_of_def Let_def using nth_length_takeWhile [of "\<lambda>x. \<not> p x" xs] by (auto split: if_splits)

lemma index_of_Cons: "index_of p (x # xs) = (if p x then Some 0 else map_option Suc (index_of p xs))"
  by (simp add: index_of_def Let_def)

lemma index_of_Nil: "index_of p [] = None"
  by (simp add: index_of_def)

lemma index_of_find: "js_find p xs = map_option (nth xs) (index_of p xs)"
  by (induction xs) (simp_all add: index_of_Nil index_of_Cons option.map_comp o_def)

lemma index_of_None: "index_of p xs = None \<longleftrightarrow> (\<forall>x \<in> set xs. \<not> p x)"
  using index_of_find [of p xs] js_find_None [of p xs] by simp

subsection \<open>The On Track tile\<close>

datatype verdict = OnTrack | Watch | OverBudget

definition ON_TRACK_MAX :: rat where "ON_TRACK_MAX = 95 / 100"
definition WATCH_MAX :: rat where "WATCH_MAX = 105 / 100"

text \<open>No comparison holds of \<^verbatim>\<open>NaN\<close>.\<close>

definition computeVerdict :: "rat option \<Rightarrow> verdict" where
  "computeVerdict pct = (case pct of
      Some q \<Rightarrow> if q \<le> ON_TRACK_MAX then OnTrack else if q \<le> WATCH_MAX then Watch else OverBudget
    | None \<Rightarrow> OverBudget)"

datatype tile_view =
    TilePastNoPlan
  | TileFuture "rat option"
  | TileNoPlan
  | TileFailed rat bool
  | TileLoading rat
  | TilePast verdict rat "rat option"
  | TileCurrent verdict rat "rat option" "rat option"

definition spent_share :: "string \<Rightarrow> rat \<Rightarrow> rat option" where
  "spent_share executed planned = map_option (\<lambda>e. e / planned) (js_Number executed)"

definition onTrackTile ::
    "forecast_plan option \<Rightarrow> projection option \<Rightarrow> bool \<Rightarrow> bool \<Rightarrow> bool \<Rightarrow> bool \<Rightarrow> tile_view" where
  "onTrackTile plan proj failed loading isPast isFuture =
     (let planned = (case plan of Some p \<Rightarrow> fp_total_planned_expense p | None \<Rightarrow> 0);
          hasPlan = (plan \<noteq> None \<and> planned > 0) in
      if isPast \<and> \<not> hasPlan then TilePastNoPlan
      else if isFuture then TileFuture (if hasPlan then Some planned else None)
      else if \<not> hasPlan then TileNoPlan
      else if failed then TileFailed planned (\<not> loading)
      else (case proj of
          None \<Rightarrow> TileLoading planned
        | Some pj \<Rightarrow>
            (let v = computeVerdict (spent_share (pj_executed_expense pj) planned) in
             if isPast then TilePast v planned (js_Number (pj_executed_expense pj))
             else TileCurrent v planned (js_Number (pj_executed_expense pj)) (js_Number (pj_forecast_expense pj)))))"

lemma verdict_over: "planned > 0 \<Longrightarrow> js_Number ex = Some e \<Longrightarrow>
    computeVerdict (spent_share ex planned) = OverBudget \<longleftrightarrow> 100 * e > 105 * planned"
  by (simp add: computeVerdict_def spent_share_def ON_TRACK_MAX_def WATCH_MAX_def field_simps)

lemma verdict_on_track: "planned > 0 \<Longrightarrow> js_Number ex = Some e \<Longrightarrow>
    computeVerdict (spent_share ex planned) = OnTrack \<longleftrightarrow> 100 * e \<le> 95 * planned"
  by (simp add: computeVerdict_def spent_share_def ON_TRACK_MAX_def WATCH_MAX_def field_simps)

subsection \<open>The month-end card and the account tiles\<close>

record month_end_row =
  me_account_id :: int
  me_account_name :: string
  me_currency :: string
  me_is_default :: bool
  me_account_type_slug :: "string option"
  me_balance :: string
  me_pending_delta :: string
  me_expected :: string

record month_end_total =
  mt_currency :: string
  mt_balance :: string
  mt_pending_delta :: string
  mt_expected :: string

record month_end_forecast =
  mf_period_start :: string
  mf_period_end :: string
  mf_totals :: "month_end_total list"
  mf_accounts :: "month_end_row list"

datatype card_view = CardNothing | CardOtherPeriod | CardError | CardLoading | CardRows "month_end_total list" "month_end_row list"

definition monthEndCard :: "month_end_forecast option \<Rightarrow> bool \<Rightarrow> bool \<Rightarrow> bool \<Rightarrow> card_view" where
  "monthEndCard fc isCurrentPeriod hasAnyAccounts hasError =
     (if \<not> hasAnyAccounts then CardNothing
      else if \<not> isCurrentPeriod then CardOtherPeriod
      else if hasError then CardError
      else (case fc of None \<Rightarrow> CardLoading | Some f \<Rightarrow> CardRows (mf_totals f) (mf_accounts f)))"

text \<open>The sign and the magnitude of the pending line; \<^verbatim>\<open>NaN\<close> is not 0 and not positive.\<close>

definition pending_line :: "month_end_row \<Rightarrow> (string \<times> rat option) option" where
  "pending_line r = (case js_Number (me_pending_delta r) of
      Some q \<Rightarrow> if q \<noteq> 0 then Some (if q > 0 then ''+'' else ''-'', Some \<bar>q\<bar>) else None
    | None \<Rightarrow> Some (''-'', None))"

text \<open>
  \<^verbatim>\<open>pendingByAccount\<close>, the same reduction on the dashboard and on the accounts page: an
  object from account ids to signed sums.
\<close>

definition signed_amount :: "transaction \<Rightarrow> rat" where
  "signed_amount t = tx_amount t * (if tx_type t = Income then 1 else - 1)"

definition pendingByAccount :: "transaction list \<Rightarrow> int \<rightharpoonup> rat" where
  "pendingByAccount ts = foldl (\<lambda>acc t. acc(tx_account_id t \<mapsto>
     (case acc (tx_account_id t) of Some q \<Rightarrow> q | None \<Rightarrow> 0) + signed_amount t)) Map.empty ts"

definition tile_pending :: "transaction list \<Rightarrow> account \<Rightarrow> rat option" where
  "tile_pending ts a = (let p = (case pendingByAccount ts (ac_id a) of Some q \<Rightarrow> q | None \<Rightarrow> 0) in
     if p \<noteq> 0 then Some \<bar>p\<bar> else None)"

lemma pendingByAccount_sum:
  "(case pendingByAccount ts k of Some q \<Rightarrow> q | None \<Rightarrow> 0) = sum_list (map signed_amount (filter (\<lambda>t. tx_account_id t = k) ts))"
proof -
  let ?f = "\<lambda>acc t. acc(tx_account_id t \<mapsto> (case acc (tx_account_id t) of Some q \<Rightarrow> q | None \<Rightarrow> 0) + signed_amount t)"
  have "(case foldl ?f m ts k of Some q \<Rightarrow> q | None \<Rightarrow> 0)
      = (case m k of Some q \<Rightarrow> q | None \<Rightarrow> 0) + sum_list (map signed_amount (filter (\<lambda>t. tx_account_id t = k) ts))"
    for m :: "int \<rightharpoonup> rat"
    by (induction ts arbitrary: m) (auto split: option.splits)
  then show ?thesis by (simp add: pendingByAccount_def)
qed

text \<open>The default account first, the others by name.\<close>

definition ordered_accounts :: "(string \<Rightarrow> string \<Rightarrow> int) \<Rightarrow> account list \<Rightarrow> account list" where
  "ordered_accounts localeCompare accts =
     (let active = filter ac_is_active accts;
          others = js_sort (\<lambda>a b. of_int (localeCompare (ac_name a) (ac_name b))) (filter (\<lambda>a. \<not> ac_is_default a) active)
      in case js_find ac_is_default active of Some d \<Rightarrow> d # others | None \<Rightarrow> others)"

subsection \<open>Spending by category\<close>

text \<open>
  The reduction uses a plain object as a table. A name that the object inherits is found
  there although nothing was stored: the sum is then a text (\<open>None\<close>), and storing a text
  under \<^verbatim>\<open>__proto__\<close> does nothing. The sums are those of binary64. \<^verbatim>\<open>Object.entries\<close> lists the names that are array
  indices first, in their order, then the others as they were stored.
\<close>

type_synonym tally = "(string \<times> rat option) list"

definition inherited_names :: "string list" where
  "inherited_names = [''constructor'', ''toString'', ''valueOf'', ''toLocaleString'', ''hasOwnProperty'',
     ''isPrototypeOf'', ''propertyIsEnumerable'', ''__proto__'', ''__defineGetter__'', ''__defineSetter__'',
     ''__lookupGetter__'', ''__lookupSetter__'']"

fun tally_put :: "string \<Rightarrow> rat option \<Rightarrow> tally \<Rightarrow> tally" where
  "tally_put k v [] = [(k, v)]"
| "tally_put k v ((k', v') # t) = (if k = k' then (k', v) # t else (k', v') # tally_put k v t)"

definition tally_add :: "string \<Rightarrow> rat \<Rightarrow> tally \<Rightarrow> tally" where
  "tally_add k q t =
     (case map_of t k of
        Some v \<Rightarrow> tally_put k (map_option (\<lambda>x. double_add x (double_of q)) v) t
      | None \<Rightarrow> if k = ''__proto__'' then t
                else tally_put k (if k \<in> set inherited_names then None else Some (double_add 0 (double_of q))) t)"

definition array_index :: "string \<Rightarrow> bool" where
  "array_index s \<longleftrightarrow> s \<noteq> [] \<and> list_all is_digit s \<and> (s = ''0'' \<or> hd s \<noteq> CHR ''0'') \<and> digits_val s < 2 ^ 32 - 1"

definition tally_entries :: "tally \<Rightarrow> tally" where
  "tally_entries t = sort_key (\<lambda>e. digits_val (fst e)) (filter (\<lambda>e. array_index (fst e)) t)
     @ filter (\<lambda>e. \<not> array_index (fst e)) t"

definition is_spending :: "transaction \<Rightarrow> bool" where
  "is_spending t \<longleftrightarrow> tx_type t = Expense \<and> tx_status t = TxSettled \<and> tx_linked_transaction_id t = None"

definition spendingByCategory :: "transaction list \<Rightarrow> tally" where
  "spendingByCategory ts = foldl (\<lambda>acc t. tally_add (tx_category_name t) (tx_amount t) acc) [] (filter is_spending ts)"

text \<open>The comparator; a difference that is \<^verbatim>\<open>NaN\<close> counts as 0.\<close>

definition value_desc :: "string \<times> rat option \<Rightarrow> string \<times> rat option \<Rightarrow> rat" where
  "value_desc a b = (case (snd a, snd b) of (Some p, Some q) \<Rightarrow> q - p | _ \<Rightarrow> 0)"

definition donutDataRaw :: "transaction list \<Rightarrow> tally" where
  "donutDataRaw ts = js_sort value_desc (tally_entries (spendingByCategory ts))"

text \<open>Adding a text makes the total a text.\<close>

definition totalSpend :: "tally \<Rightarrow> rat option" where
  "totalSpend d = foldl (\<lambda>s e. case (s, snd e) of (Some x, Some y) \<Rightarrow> Some (double_add x y) | _ \<Rightarrow> None) (Some 0) d"

record spending_row =
  sr_name :: string
  sr_value :: "rat option"
  sr_pct :: "rat option"
  sr_origIdx :: nat

definition spending_pct :: "rat option \<Rightarrow> rat option \<Rightarrow> rat option" where
  "spending_pct tot v = (case tot of
      Some t \<Rightarrow> if t > 0 then map_option (\<lambda>x. double_of (double_of (x / t) * 100)) v else Some 0
    | None \<Rightarrow> Some 0)"

definition opt_diff :: "rat option \<Rightarrow> rat option \<Rightarrow> rat" where
  "opt_diff a b = (case (a, b) of (Some x, Some y) \<Rightarrow> x - y | _ \<Rightarrow> 0)"

definition spending_compare :: "(string \<Rightarrow> string \<Rightarrow> int) \<Rightarrow> string \<Rightarrow> spending_row \<Rightarrow> spending_row \<Rightarrow> rat" where
  "spending_compare localeCompare field a b =
     (if field = ''name'' then of_int (localeCompare (sr_name a) (sr_name b))
      else if field = ''percent'' then opt_diff (sr_pct a) (sr_pct b)
      else opt_diff (sr_value a) (sr_value b))"

definition spending_rows :: "tally \<Rightarrow> spending_row list" where
  "spending_rows d = map (\<lambda>(i, n, v). \<lparr>sr_name = n, sr_value = v, sr_pct = spending_pct (totalSpend d) v, sr_origIdx = i\<rparr>)
     (zip [0..<length d] d)"

definition sortedSpending :: "(string \<Rightarrow> string \<Rightarrow> int) \<Rightarrow> sort_state \<Rightarrow> tally \<Rightarrow> spending_row list" where
  "sortedSpending localeCompare so d = js_sort (directed (so_dir so) (spending_compare localeCompare (so_field so))) (spending_rows d)"

definition legend_rows :: "spending_row list \<Rightarrow> spending_row list" where
  "legend_rows rs = take 10 rs"

subsection \<open>Sorting of the dashboard's tables\<close>

definition SORT_KEY_DASHBOARD_TRANSACTIONS :: string where
  "SORT_KEY_DASHBOARD_TRANSACTIONS = ''pfv:sort:dashboard-transactions''"
definition SORT_KEY_DASHBOARD_SPENDING :: string where
  "SORT_KEY_DASHBOARD_SPENDING = ''pfv:sort:dashboard-spending''"

definition flip_dir :: "sort_dir \<Rightarrow> sort_dir" where
  "flip_dir d = (if d = Asc then Desc else Asc)"

definition toggleDashSort :: "string \<Rightarrow> sort_state \<times> storage \<Rightarrow> sort_state \<times> storage" where
  "toggleDashSort field s =
     (if so_field (fst s) = field then setSort SORT_KEY_DASHBOARD_TRANSACTIONS field (flip_dir (so_dir (fst s))) s
      else setSort SORT_KEY_DASHBOARD_TRANSACTIONS field (if field = ''date'' then Desc else Asc) s)"

definition toggleSpendingSort :: "string \<Rightarrow> sort_state \<times> storage \<Rightarrow> sort_state \<times> storage" where
  "toggleSpendingSort field s =
     (if so_field (fst s) = field then setSort SORT_KEY_DASHBOARD_SPENDING field (flip_dir (so_dir (fst s))) s
      else setSort SORT_KEY_DASHBOARD_SPENDING field (if field = ''name'' then Asc else Desc) s)"

definition dash_hiddenIds :: "transaction list \<Rightarrow> int set" where
  "dash_hiddenIds ts = set (map tx_id (filter (\<lambda>t. case tx_linked_transaction_id t of
     Some k \<Rightarrow> k \<noteq> 0 \<and> tx_id t > k | None \<Rightarrow> False) ts))"

definition dash_compare :: "(string \<Rightarrow> string \<Rightarrow> int) \<Rightarrow> string \<Rightarrow> transaction \<Rightarrow> transaction \<Rightarrow> rat" where
  "dash_compare localeCompare field a b =
     (if field = ''date'' then of_int (localeCompare (tx_date a) (tx_date b))
      else if field = ''description'' then of_int (localeCompare (tx_description a) (tx_description b))
      else if field = ''status'' then of_int (localeCompare (status_str (tx_status a)) (status_str (tx_status b)))
      else if field = ''amount'' then tx_amount a - tx_amount b
      else 0)"

definition sortedVisibleTxs ::
    "(string \<Rightarrow> string \<Rightarrow> int) \<Rightarrow> sort_state \<Rightarrow> string option \<Rightarrow> transaction list \<Rightarrow> transaction list" where
  "sortedVisibleTxs localeCompare so chartFilter ts =
     js_sort (directed (so_dir so) (dash_compare localeCompare (so_field so)))
       (filter (\<lambda>t. case chartFilter of Some n \<Rightarrow> n = [] \<or> tx_category_name t = n | None \<Rightarrow> True)
         (filter (\<lambda>t. tx_id t \<notin> dash_hiddenIds ts) ts))"

subsection \<open>Charts\<close>

record budget_bar =
  bb_name :: string
  bb_spent :: rat
  bb_remaining :: rat
  bb_over :: rat

text \<open>The dashboard's bars have no \<^verbatim>\<open>over\<close> part; the budgets page adds it.\<close>

definition budget_bar_of :: "bool \<Rightarrow> budget_entry \<Rightarrow> budget_bar" where
  "budget_bar_of withOver b = \<lparr>bb_name = bu_category_name b, bb_spent = bu_spent b,
     bb_remaining = max (bu_amount b - bu_spent b) 0, bb_over = (if withOver then max (bu_spent b - bu_amount b) 0 else 0)\<rparr>"

definition dashBudgets :: "budget_entry list \<Rightarrow> budget_entry list" where
  "dashBudgets bs = take 6 bs"

definition dash_budgetChartData :: "budget_entry list \<Rightarrow> budget_bar list" where
  "dash_budgetChartData bs = map (budget_bar_of False) (dashBudgets bs)"

text \<open>The stacked length of a row, in the unit of the axis.\<close>

definition bar_length :: "budget_bar \<Rightarrow> rat" where
  "bar_length r = bb_spent r + bb_remaining r + bb_over r"

text \<open>\<^verbatim>\<open>budgetSpentBarRadii\<close>: the left and the right corner radius.\<close>

definition budgetSpentBarRadii :: "budget_bar option \<Rightarrow> rat \<Rightarrow> rat \<Rightarrow> rat \<times> rat" where
  "budgetSpentBarRadii payload width height =
     (let remaining = (case payload of Some p \<Rightarrow> bb_remaining p | None \<Rightarrow> 0);
          over = (case payload of Some p \<Rightarrow> bb_over p | None \<Rightarrow> 0);
          r = min 4 (min (height / 2) (width / 2))
      in (r, if remaining \<le> 0 \<and> over \<le> 0 then r else 0))"

datatype bar_fill = FillOver | FillWatch | FillSpent

definition budget_fill :: "budget_entry \<Rightarrow> bar_fill" where
  "budget_fill b = (if bu_percent_used b > 100 then FillOver else if bu_percent_used b > 80 then FillWatch else FillSpent)"

definition forecastExpenseItems :: "forecast_plan option \<Rightarrow> plan_item list" where
  "forecastExpenseItems fc = (case fc of Some f \<Rightarrow> filter (\<lambda>i. fi_type i = Expense) (fp_items f) | None \<Rightarrow> [])"

record plan_bar =
  pb_categoryId :: int
  pb_name :: string
  pb_planned :: rat
  pb_actual :: rat

definition short_name :: "string \<Rightarrow> string" where
  "short_name n = (if length n > 12 then take 12 n @ ''...'' else n)"

definition forecastChartRows :: "forecast_plan option \<Rightarrow> plan_bar list" where
  "forecastChartRows fc = map (\<lambda>i. \<lparr>pb_categoryId = fi_category_id i, pb_name = short_name (fi_category_name i),
     pb_planned = fi_planned_amount i, pb_actual = fi_actual_amount i\<rparr>) (take 8 (forecastExpenseItems fc))"

definition bar_over_plan :: "plan_bar \<Rightarrow> bool" where
  "bar_over_plan d \<longleftrightarrow> pb_actual d > pb_planned d"

text \<open>
  The dashboard's bar ends at what was spent or at the budget; on the budgets page the
  overspent part is drawn after the whole of what was spent.
\<close>

lemma dash_bar_length: "bar_length (budget_bar_of False b) = max (bu_spent b) (bu_amount b)"
  by (simp add: bar_length_def budget_bar_of_def)

lemma overspent_bar_too_long:
  "bu_spent b > bu_amount b \<Longrightarrow> bar_length (budget_bar_of True b) = 2 * bu_spent b - bu_amount b"
  by (simp add: bar_length_def budget_bar_of_def)

subsection \<open>The deep link of a row\<close>

definition effectiveDate :: "transaction \<Rightarrow> string" where
  "effectiveDate t = (case tx_settled_date t of Some d \<Rightarrow> d | None \<Rightarrow> tx_date t)"

definition highlight_params :: "transaction \<Rightarrow> (string \<times> string) list" where
  "highlight_params t = [(''account_id'', show_int (tx_account_id t)), (''transaction_id'', show_int (tx_id t)),
     (''date_from'', effectiveDate t), (''date_to'', effectiveDate t)]"

definition transactionHighlightHref :: "transaction \<Rightarrow> string" where
  "transactionHighlightHref t = ''/transactions?'' @ serialize_query (highlight_params t)"

end
