(* ===== verification/Dashboard.thy ===== *)
theory Dashboard
  imports Dashboard_Figures Pagination
begin

section \<open>The dashboard page (app/dashboard/page.tsx)\<close>

text \<open>
  The page as a step machine. The requests under way are listed; each answer may come at
  any time. What a handler or an effect captured when it started (the selected period and
  the range of dates it makes) travels with its request as a \<open>period_view\<close>. After each
  step the effects run whose dependencies changed. The machine starts when the session is
  restored. A promise continues before React renders what was set on the way, so the rest
  of a handler runs before the effects. The ids of the three guarded loads are kept as in
  the code; the loads of transactions and of the reference data have none.
\<close>

subsection \<open>State\<close>

record period_view =
  pv_start :: "string option"
  pv_from :: string
  pv_to :: string
  pv_current :: bool

record dash_refs =
  dr_accounts :: "account list option"
  dr_categories :: "category list option"
  dr_budgets :: "budget_entry list option"
  dr_period :: "billing_period option"
  dr_periods :: "billing_period list option"
  dr_cycle :: "rat option"

record dash_tx =
  dt_page :: "transaction list option"
  dt_all :: "transaction list option"
  dt_budgets :: "budget_entry list option"
  dt_forecast :: "forecast_plan option"

text \<open>What waits for a load: an effect, a refresh (by its number), or the handler of the status pill.\<close>

datatype after_refs = RefsEffect | RefsOfRefresh nat | RefsOfToggle period_view
datatype after_tx = TxEffect | TxOfRefresh nat | TxOfToggle period_view

datatype dash_task =
    TkRefs after_refs
  | TkTx after_tx nat period_view
  | TkPending nat "nat option"
  | TkProj nat string "nat option"
  | TkAcct nat string "nat option"
  | TkPut nat period_view

record dashboard =
  da_today :: ymd
  da_accounts :: "account list"
  da_categories :: "category list"
  da_transactions :: "transaction list"
  da_allTransactions :: "transaction list"
  da_budgets :: "budget_entry list"
  da_period :: "billing_period option"
  da_periods :: "billing_period list"
  da_cycleDay :: rat
  da_periodIdx :: nat
  da_forecast :: "forecast_plan option"
  da_pending :: "transaction list"
  da_pendingReq :: nat
  da_projection :: "(string \<times> projection) option"
  da_projectionFailed :: bool
  da_projectionLoading :: bool
  da_projReq :: nat
  da_acct :: "(string \<times> month_end_forecast) option"
  da_acctError :: bool
  da_acctReq :: nat
  da_fetching :: bool
  da_page :: nat
  da_hasMore :: bool
  da_error :: string
  da_refreshError :: bool
  da_refreshing :: bool
  da_chartFilter :: "string option"
  da_tasks :: "dash_task list"
  da_batches :: "(nat \<times> nat \<times> bool) list"
  da_nextBatch :: nat
  da_log :: "request list"

text \<open>
  A projection and a month-end forecast are kept with the period they were asked for; the
  page itself keeps the answer only.
\<close>

subsection \<open>The selected period\<close>

definition da_selected :: "dashboard \<Rightarrow> billing_period option" where
  "da_selected s = (if da_periods s \<noteq> []
     then (if da_periodIdx s < length (da_periods s) then Some (da_periods s ! da_periodIdx s) else None)
     else da_period s)"

definition realPeriodStart :: "dashboard \<Rightarrow> string option" where
  "realPeriodStart s = map_option bp_start_date (da_selected s)"

definition isCurrentSelected :: "dashboard \<Rightarrow> bool" where
  "isCurrentSelected s = (case da_selected s of Some p \<Rightarrow> is_open p | None \<Rightarrow> False)"

definition isPastSelected :: "dashboard \<Rightarrow> bool" where
  "isPastSelected s = (case da_selected s of
      Some p \<Rightarrow> (case bp_end_date p of Some e \<Rightarrow> e \<noteq> [] \<and> js_less e (todayISO (da_today s)) | None \<Rightarrow> False)
    | None \<Rightarrow> False)"

definition isFutureSelected :: "dashboard \<Rightarrow> bool" where
  "isFutureSelected s = (case da_selected s of Some p \<Rightarrow> js_less (todayISO (da_today s)) (bp_start_date p) | None \<Rightarrow> False)"

fun first_of_month :: "ymd \<Rightarrow> ymd" where
  "first_of_month (y, m, d) = (y, m, 1)"

definition monthFrom :: "dashboard \<Rightarrow> string" where
  "monthFrom s = (case realPeriodStart s of Some d \<Rightarrow> d | None \<Rightarrow> formatLocalDate (first_of_month (da_today s)))"

definition monthTo :: "dashboard \<Rightarrow> string" where
  "monthTo s = (case (case da_selected s of Some p \<Rightarrow> bp_end_date p | None \<Rightarrow> None) of
      Some e \<Rightarrow> e
    | None \<Rightarrow> if monthFrom s = [] then []
              else (case projectedPeriodEnd (monthFrom s) (Some (da_cycleDay s)) of Some d \<Rightarrow> d | None \<Rightarrow> []))"

definition dash_view :: "dashboard \<Rightarrow> period_view" where
  "dash_view s = \<lparr>pv_start = realPeriodStart s, pv_from = monthFrom s, pv_to = monthTo s, pv_current = isCurrentSelected s\<rparr>"

text \<open>\<^verbatim>\<open>realPeriodStart\<close> as a condition: there is a period and its start is not empty.\<close>

definition real_start :: "period_view \<Rightarrow> bool" where
  "real_start v \<longleftrightarrow> pv_start v \<noteq> None \<and> pv_start v \<noteq> Some []"

subsection \<open>The requests\<close>

definition DASH_PAGE_SIZE :: nat where "DASH_PAGE_SIZE = 10"

definition get_req :: "string \<Rightarrow> request" where
  "get_req p = mk_req GET p JUndef"

definition scoped_url :: "string \<Rightarrow> period_view \<Rightarrow> string" where
  "scoped_url base v = (case pv_start v of
      Some d \<Rightarrow> if d \<noteq> [] then base @ ''?period_start='' @ d else base
    | None \<Rightarrow> base)"

definition date_filter :: "period_view \<Rightarrow> string" where
  "date_filter v = ''date_from='' @ pv_from v @ (if pv_to v \<noteq> [] then ''&date_to='' @ pv_to v else [])"

definition refs_requests :: "request list" where
  "refs_requests = map get_req [''/api/v1/accounts'', ''/api/v1/categories'', ''/api/v1/budgets'',
     ''/api/v1/settings/billing-period'', ''/api/v1/settings/billing-periods'', ''/api/v1/settings/billing-cycle'']"

definition tx_requests :: "nat \<Rightarrow> period_view \<Rightarrow> request list" where
  "tx_requests p v =
     get_req (''/api/v1/transactions?limit='' @ show_nat (DASH_PAGE_SIZE + 1) @ ''&offset='' @ show_nat (p * DASH_PAGE_SIZE)
       @ ''&'' @ date_filter v)
     # (if p = 0 then map get_req [''/api/v1/transactions?limit=200&'' @ date_filter v, scoped_url ''/api/v1/budgets'' v,
          scoped_url ''/api/v1/forecast-plans/current'' v] else [])"

definition add_task :: "dash_task \<Rightarrow> request list \<Rightarrow> dashboard \<Rightarrow> dashboard" where
  "add_task t rs s = s\<lparr>da_tasks := da_tasks s @ [t], da_log := da_log s @ rs\<rparr>"

subsection \<open>The loads, up to their request\<close>

definition start_refs :: "after_refs \<Rightarrow> dashboard \<Rightarrow> dashboard" where
  "start_refs a s = add_task (TkRefs a) refs_requests s"

definition start_tx :: "after_tx \<Rightarrow> nat \<Rightarrow> period_view \<Rightarrow> dashboard \<Rightarrow> dashboard" where
  "start_tx a p v s = add_task (TkTx a p v) (tx_requests p v) s"

text \<open>The pending rows come through \<^verbatim>\<open>fetchAll\<close>; its first page is logged.\<close>

definition pending_begin :: "nat option \<Rightarrow> dashboard \<Rightarrow> dashboard" where
  "pending_begin b s = add_task (TkPending (Suc (da_pendingReq s)) b)
     [get_req (page_url ''/api/v1/transactions?status=pending'' 200 0)] (s\<lparr>da_pendingReq := Suc (da_pendingReq s)\<rparr>)"

text \<open>A refresh waits for its members; a member that needs no request is settled at once.\<close>

definition settle_batch :: "nat option \<Rightarrow> bool \<Rightarrow> dashboard \<Rightarrow> dashboard" where
  "settle_batch b rejected s = (case b of
      None \<Rightarrow> s
    | Some n \<Rightarrow> (case map_of (da_batches s) n of
          None \<Rightarrow> s
        | Some (left, bad) \<Rightarrow>
            let others = filter (\<lambda>e. fst e \<noteq> n) (da_batches s) in
            if left \<le> 1 then s\<lparr>da_batches := others, da_refreshing := False, da_refreshError := bad \<or> rejected\<rparr>
            else s\<lparr>da_batches := (n, left - 1, bad \<or> rejected) # others\<rparr>))"

definition projection_begin :: "period_view \<Rightarrow> nat option \<Rightarrow> dashboard \<Rightarrow> dashboard" where
  "projection_begin v b s =
     (let s1 = s\<lparr>da_projReq := Suc (da_projReq s), da_projection := None, da_projectionFailed := False\<rparr> in
      if real_start v then
        add_task (TkProj (da_projReq s1) (the (pv_start v)) b) [get_req (scoped_url ''/api/v1/forecast'' v)]
          (s1\<lparr>da_projectionLoading := True\<rparr>)
      else settle_batch b False (s1\<lparr>da_projectionLoading := False\<rparr>))"

definition acct_begin :: "period_view \<Rightarrow> nat option \<Rightarrow> dashboard \<Rightarrow> dashboard" where
  "acct_begin v b s =
     (let s1 = s\<lparr>da_acctReq := Suc (da_acctReq s), da_acctError := False\<rparr> in
      if real_start v \<and> pv_current v then
        add_task (TkAcct (da_acctReq s1) (the (pv_start v)) b) [get_req (scoped_url ''/api/v1/forecast/account-balances'' v)] s1
      else settle_batch b False (s1\<lparr>da_acct := None\<rparr>))"

subsection \<open>Effects\<close>

definition tx_effect :: "dashboard \<Rightarrow> dashboard \<Rightarrow> dashboard" where
  "tx_effect old s = (let v = dash_view s; w = dash_view old in
     if real_start v \<and> (pv_start v \<noteq> pv_start w \<or> pv_from v \<noteq> pv_from w \<or> pv_to v \<noteq> pv_to w \<or> da_page s \<noteq> da_page old)
     then start_tx TxEffect (da_page s) v (s\<lparr>da_fetching := True\<rparr>) else s)"

definition projection_effect :: "dashboard \<Rightarrow> dashboard \<Rightarrow> dashboard" where
  "projection_effect old s = (let v = dash_view s in
     if real_start v \<and> pv_start v \<noteq> pv_start (dash_view old) then projection_begin v None s else s)"

definition acct_effect :: "dashboard \<Rightarrow> dashboard \<Rightarrow> dashboard" where
  "acct_effect old s = (let v = dash_view s; w = dash_view old in
     if pv_start v \<noteq> pv_start w \<or> pv_current v \<noteq> pv_current w then acct_begin v None s else s)"

definition dash_effects :: "dashboard \<Rightarrow> dashboard \<Rightarrow> dashboard" where
  "dash_effects old s = acct_effect old (projection_effect old (tx_effect old s))"

text \<open>The effects of the first render with a user, and of a new user object later.\<close>

definition user_effects :: "dashboard \<Rightarrow> dashboard" where
  "user_effects s = (let v = dash_view s;
       s1 = pending_begin None (start_refs RefsEffect s);
       s2 = (if real_start v then start_tx TxEffect (da_page s1) v (s1\<lparr>da_fetching := True\<rparr>) else s1);
       s3 = (if real_start v then projection_begin v None s2 else s2)
     in acct_begin v None s3)"

definition dash_mount :: "ymd \<Rightarrow> rat option \<Rightarrow> dashboard" where
  "dash_mount today cycle = user_effects \<lparr>da_today = today, da_accounts = [], da_categories = [], da_transactions = [],
     da_allTransactions = [], da_budgets = [], da_period = None, da_periods = [],
     da_cycleDay = (case cycle of Some q \<Rightarrow> q | None \<Rightarrow> 1), da_periodIdx = 0, da_forecast = None, da_pending = [],
     da_pendingReq = 0, da_projection = None, da_projectionFailed = False, da_projectionLoading = False, da_projReq = 0,
     da_acct = None, da_acctError = False, da_acctReq = 0, da_fetching = True, da_page = 0, da_hasMore = False,
     da_error = [], da_refreshError = False, da_refreshing = False, da_chartFilter = None, da_tasks = [],
     da_batches = [], da_nextBatch = 0, da_log = []\<rparr>"

subsection \<open>The loads, from their answer\<close>

definition set_refs :: "dash_refs \<Rightarrow> dashboard \<Rightarrow> dashboard" where
  "set_refs r s = (let pl = (case dr_periods r of Some l \<Rightarrow> l | None \<Rightarrow> []) in
     s\<lparr>da_accounts := (case dr_accounts r of Some l \<Rightarrow> l | None \<Rightarrow> []),
       da_categories := (case dr_categories r of Some l \<Rightarrow> l | None \<Rightarrow> []),
       da_budgets := (case dr_budgets r of Some l \<Rightarrow> l | None \<Rightarrow> []),
       da_cycleDay := (case dr_cycle r of Some q \<Rightarrow> q | None \<Rightarrow> da_cycleDay s),
       da_period := (case dr_period r of Some p \<Rightarrow> Some p | None \<Rightarrow> da_period s),
       da_periods := pl,
       da_periodIdx := (case index_of is_open pl of Some i \<Rightarrow> i | None \<Rightarrow> da_periodIdx s)\<rparr>)"

definition set_tx :: "nat \<Rightarrow> dash_tx \<Rightarrow> dashboard \<Rightarrow> dashboard" where
  "set_tx p a s = (let rows = (case dt_page a of Some l \<Rightarrow> l | None \<Rightarrow> []) in
     s\<lparr>da_hasMore := length rows > DASH_PAGE_SIZE,
       da_transactions := take DASH_PAGE_SIZE rows,
       da_allTransactions := (if p = 0 then (case dt_all a of Some l \<Rightarrow> l | None \<Rightarrow> da_allTransactions s) else da_allTransactions s),
       da_budgets := (if p = 0 then (case dt_budgets a of Some l \<Rightarrow> l | None \<Rightarrow> da_budgets s) else da_budgets s),
       da_forecast := (if p = 0 then dt_forecast a else da_forecast s),
       da_fetching := False\<rparr>)"

definition pending_settles :: "nat \<Rightarrow> js_error + transaction list \<Rightarrow> dashboard \<Rightarrow> dashboard" where
  "pending_settles i ans s = (case ans of
      Inr rows \<Rightarrow> if da_pendingReq s \<noteq> i then s else s\<lparr>da_pending := rows\<rparr>
    | Inl _ \<Rightarrow> s)"

definition projection_settles :: "nat \<Rightarrow> string \<times> (js_error + projection) \<Rightarrow> dashboard \<Rightarrow> dashboard" where
  "projection_settles i ans s =
     (if da_projReq s \<noteq> i then s
      else (case snd ans of
          Inr pj \<Rightarrow> s\<lparr>da_projection := Some (fst ans, pj), da_projectionFailed := False, da_projectionLoading := False\<rparr>
        | Inl _ \<Rightarrow> s\<lparr>da_projection := None, da_projectionFailed := True, da_projectionLoading := False\<rparr>))"

definition acct_settles :: "nat \<Rightarrow> string \<times> (js_error + month_end_forecast) \<Rightarrow> dashboard \<Rightarrow> dashboard" where
  "acct_settles i ans s =
     (if da_acctReq s \<noteq> i then s
      else (case snd ans of
          Inr mf \<Rightarrow> s\<lparr>da_acct := Some (fst ans, mf), da_acctError := False\<rparr>
        | Inl _ \<Rightarrow> s\<lparr>da_acct := None, da_acctError := True\<rparr>))"

subsection \<open>What follows a load\<close>

text \<open>The handler of the status pill: the write, the rows, the reference data, then three loads that nobody waits for.\<close>

definition toggle_failed :: "js_error \<Rightarrow> dashboard \<Rightarrow> dashboard" where
  "toggle_failed e s = s\<lparr>da_error := extractErrorMessage e ''Failed''\<rparr>"

definition toggle_rest :: "period_view \<Rightarrow> dashboard \<Rightarrow> dashboard" where
  "toggle_rest v s = pending_begin None (acct_begin v None (projection_begin v None s))"

definition dash_refs_answered :: "after_refs \<Rightarrow> js_error + dash_refs \<Rightarrow> dashboard \<Rightarrow> dashboard" where
  "dash_refs_answered a ans s = (case ans of
      Inr r \<Rightarrow> (let s1 = set_refs r s in case a of
          RefsEffect \<Rightarrow> s1
        | RefsOfRefresh b \<Rightarrow> settle_batch (Some b) False s1
        | RefsOfToggle v \<Rightarrow> toggle_rest v s1)
    | Inl e \<Rightarrow> (case a of
          RefsEffect \<Rightarrow> s\<lparr>da_error := extractErrorMessage e ''Failed to load dashboard data''\<rparr>
        | RefsOfRefresh b \<Rightarrow> settle_batch (Some b) True s
        | RefsOfToggle _ \<Rightarrow> toggle_failed e s))"

definition tx_answered :: "after_tx \<Rightarrow> nat \<Rightarrow> js_error + dash_tx \<Rightarrow> dashboard \<Rightarrow> dashboard" where
  "tx_answered a p ans s = (case ans of
      Inr r \<Rightarrow> (let s1 = set_tx p r s in case a of
          TxEffect \<Rightarrow> s1
        | TxOfRefresh b \<Rightarrow> settle_batch (Some b) False s1
        | TxOfToggle v \<Rightarrow> start_refs (RefsOfToggle v) s1)
    | Inl e \<Rightarrow> (case a of
          TxEffect \<Rightarrow> s\<lparr>da_error := extractErrorMessage e ''Failed to load transactions'', da_fetching := False\<rparr>
        | TxOfRefresh b \<Rightarrow> settle_batch (Some b) True s
        | TxOfToggle _ \<Rightarrow> toggle_failed e s))"

datatype dash_answer =
    AnRefs "js_error + dash_refs"
  | AnTx "js_error + dash_tx"
  | AnPending "js_error + transaction list"
  | AnProj "js_error + projection"
  | AnAcct "js_error + month_end_forecast"
  | AnPut "js_error + unit"

text \<open>An answer of another kind than the request is no event of that request.\<close>

fun task_answered :: "dash_task \<Rightarrow> dash_answer \<Rightarrow> dashboard \<Rightarrow> dashboard" where
  "task_answered (TkRefs a) (AnRefs ans) s = dash_refs_answered a ans s"
| "task_answered (TkTx a p v) (AnTx ans) s = tx_answered a p ans s"
| "task_answered (TkPending i b) (AnPending ans) s = settle_batch b False (pending_settles i ans s)"
| "task_answered (TkProj i d b) (AnProj ans) s = settle_batch b False (projection_settles i (d, ans) s)"
| "task_answered (TkAcct i d b) (AnAcct ans) s = settle_batch b False (acct_settles i (d, ans) s)"
| "task_answered (TkPut p v) (AnPut ans) s = (case ans of
      Inr _ \<Rightarrow> start_tx (TxOfToggle v) p v s
    | Inl e \<Rightarrow> toggle_failed e s)"
| "task_answered _ _ s = s"

fun answers :: "dash_task \<Rightarrow> dash_answer \<Rightarrow> bool" where
  "answers (TkRefs _) (AnRefs _) = True"
| "answers (TkTx _ _ _) (AnTx _) = True"
| "answers (TkPending _ _) (AnPending _) = True"
| "answers (TkProj _ _ _) (AnProj _) = True"
| "answers (TkAcct _ _ _) (AnAcct _) = True"
| "answers (TkPut _ _) (AnPut _) = True"
| "answers _ _ = False"

definition drop_nth :: "nat \<Rightarrow> 'a list \<Rightarrow> 'a list" where
  "drop_nth i xs = take i xs @ drop (Suc i) xs"

definition answer_task :: "nat \<Rightarrow> dash_answer \<Rightarrow> dashboard \<Rightarrow> dashboard" where
  "answer_task i ans s =
     (if i < length (da_tasks s) \<and> answers (da_tasks s ! i) ans
      then task_answered (da_tasks s ! i) ans (s\<lparr>da_tasks := drop_nth i (da_tasks s)\<rparr>)
      else s)"

subsection \<open>Handlers\<close>

definition refreshAllPostWrite :: "dashboard \<Rightarrow> dashboard" where
  "refreshAllPostWrite s = (let b = da_nextBatch s; v = dash_view s;
       s1 = s\<lparr>da_refreshing := True, da_nextBatch := Suc b, da_batches := (b, 5, False) # da_batches s\<rparr>
     in acct_begin v (Some b) (pending_begin (Some b) (projection_begin v (Some b)
          (start_tx (TxOfRefresh b) 0 v (start_refs (RefsOfRefresh b) s1)))))"

definition select_period :: "nat \<Rightarrow> dashboard \<Rightarrow> dashboard" where
  "select_period i s = s\<lparr>da_periodIdx := i, da_chartFilter := None\<rparr>"

definition older_period :: "dashboard \<Rightarrow> dashboard" where
  "older_period s = (if da_periodIdx s + 1 \<ge> length (da_periods s) then s
     else select_period (min (da_periodIdx s + 1) (length (da_periods s) - 1)) s)"

definition newer_period :: "dashboard \<Rightarrow> dashboard" where
  "newer_period s = (if da_periodIdx s = 0 then s else select_period (da_periodIdx s - 1) s)"

definition current_period :: "dashboard \<Rightarrow> dashboard" where
  "current_period s = (if isCurrentSelected s then s else case index_of is_open (da_periods s) of Some i \<Rightarrow> select_period i s | None \<Rightarrow> s)"

text \<open>The pager is shown without a chart filter, when there is another page.\<close>

definition dash_pager :: "dashboard \<Rightarrow> bool" where
  "dash_pager s \<longleftrightarrow> (da_chartFilter s = None \<or> da_chartFilter s = Some []) \<and> (da_page s > 0 \<or> da_hasMore s)"

definition dash_previous :: "dashboard \<Rightarrow> dashboard" where
  "dash_previous s = (if dash_pager s \<and> da_page s \<noteq> 0 then s\<lparr>da_page := da_page s - 1\<rparr> else s)"

definition dash_next :: "dashboard \<Rightarrow> dashboard" where
  "dash_next s = (if dash_pager s \<and> da_hasMore s then s\<lparr>da_page := da_page s + 1\<rparr> else s)"

definition toggle_filter :: "string \<Rightarrow> dashboard \<Rightarrow> dashboard" where
  "toggle_filter n s = s\<lparr>da_chartFilter := (if da_chartFilter s = Some n then None else Some n)\<rparr>"

definition txSource :: "dashboard \<Rightarrow> transaction list" where
  "txSource s = (case da_chartFilter s of Some n \<Rightarrow> if n \<noteq> [] then da_allTransactions s else da_transactions s
     | None \<Rightarrow> da_transactions s)"

definition shown_rows :: "dashboard \<Rightarrow> transaction list" where
  "shown_rows s = filter (\<lambda>t. case da_chartFilter s of Some n \<Rightarrow> n = [] \<or> tx_category_name t = n | None \<Rightarrow> True)
     (filter (\<lambda>t. tx_id t \<notin> dash_hiddenIds (txSource s)) (txSource s))"

text \<open>The status pill of a row that is shown and is no transfer.\<close>

definition toggle_status :: "int \<Rightarrow> dashboard \<Rightarrow> dashboard" where
  "toggle_status i s = (case js_find (\<lambda>t. tx_id t = i) (shown_rows s) of
      Some t \<Rightarrow> if tx_linked_transaction_id t \<noteq> None then s
        else add_task (TkPut (da_page s) (dash_view s))
          [mk_req PUT (''/api/v1/transactions/'' @ show_int i)
             (JObj [(''status'', JStr (if tx_status t = TxSettled then ''pending'' else ''settled''))])] s
    | None \<Rightarrow> s)"

definition dash_tile :: "dashboard \<Rightarrow> tile_view" where
  "dash_tile s = onTrackTile (da_forecast s) (map_option snd (da_projection s)) (da_projectionFailed s) (da_projectionLoading s)
     (isPastSelected s) (isFutureSelected s)"

fun retry_shown :: "tile_view \<Rightarrow> bool" where
  "retry_shown (TileFailed _ enabled) = enabled"
| "retry_shown _ = False"

definition dash_card :: "dashboard \<Rightarrow> card_view" where
  "dash_card s = monthEndCard (map_option snd (da_acct s)) (isCurrentSelected s)
     (filter ac_is_active (da_accounts s) \<noteq> []) (da_acctError s)"

datatype dash_event =
    DaUser | DaOlder | DaNewer | DaToday | DaPrevious | DaNext | DaFilter string | DaClearFilter
  | DaToggle int | DaAdded | DaRetryRefresh | DaRetryProjection | DaAnswer nat dash_answer

text \<open>Everything below the banners is replaced by a spinner while the page is fetching.\<close>

fun dash_react :: "dashboard \<Rightarrow> dash_event \<Rightarrow> dashboard" where
  "dash_react s DaUser = user_effects s"
| "dash_react s DaOlder = (if da_fetching s then s else older_period s)"
| "dash_react s DaNewer = (if da_fetching s then s else newer_period s)"
| "dash_react s DaToday = (if da_fetching s then s else current_period s)"
| "dash_react s DaPrevious = (if da_fetching s then s else dash_previous s)"
| "dash_react s DaNext = (if da_fetching s then s else dash_next s)"
| "dash_react s (DaFilter n) = (if da_fetching s then s else toggle_filter n s)"
| "dash_react s DaClearFilter = (if da_fetching s then s else s\<lparr>da_chartFilter := None\<rparr>)"
| "dash_react s (DaToggle i) = (if da_fetching s then s else toggle_status i s)"
| "dash_react s DaAdded = refreshAllPostWrite s"
| "dash_react s DaRetryRefresh =
     (if da_refreshError s \<and> \<not> da_refreshing s then refreshAllPostWrite (s\<lparr>da_refreshError := False\<rparr>) else s)"
| "dash_react s DaRetryProjection =
     (if \<not> da_fetching s \<and> retry_shown (dash_tile s) then projection_begin (dash_view s) None s else s)"
| "dash_react s (DaAnswer i ans) = answer_task i ans s"

definition dash_step :: "dashboard \<Rightarrow> dash_event \<Rightarrow> dashboard" where
  "dash_step s e = dash_effects s (dash_react s e)"

end
