(* ===== verification/Dashboard_Props.thy ===== *)
theory Dashboard_Props
  imports Dashboard Tx_List_Props
begin

section \<open>The dashboard: properties\<close>

text \<open>
  Numbered requests as a contract, interpreted on the three guarded loads of the page; the
  projection shown is the one of the selected period; the accounting of a refresh; where
  the page goes after a reload; the deep link; the spending figures.
\<close>

subsection \<open>Numbered requests\<close>

text \<open>
  A load keeps the number of its last request and takes only the answer that has this
  number. Whatever the order in which the answers come, the last request decides.
\<close>

locale numbered_requests =
  fixes counter :: "'s \<Rightarrow> nat" and outcome :: "'s \<Rightarrow> 'v"
    and settle :: "nat \<Rightarrow> 'a \<Rightarrow> 's \<Rightarrow> 's" and commit :: "'a \<Rightarrow> 'v \<Rightarrow> 'v"
  assumes settle_counter: "counter (settle i a s) = counter s"
    and settle_stale: "i \<noteq> counter s \<Longrightarrow> outcome (settle i a s) = outcome s"
    and settle_latest: "outcome (settle (counter s) a s) = commit a (outcome s)"
begin

definition settle_all :: "(nat \<times> 'a) list \<Rightarrow> 's \<Rightarrow> 's" where
  "settle_all as s = foldl (\<lambda>t (i, a). settle i a t) s as"

lemma settle_all_counter: "counter (settle_all as s) = counter s"
  unfolding settle_all_def by (induction as arbitrary: s) (auto simp: settle_counter)

lemma stale_answers: "counter s \<notin> fst ` set as \<Longrightarrow> outcome (settle_all as s) = outcome s"
proof (induction as arbitrary: s)
  case (Cons x as)
  obtain i a where x: "x = (i, a)" by (cases x)
  have "outcome (settle_all as (settle i a s)) = outcome (settle i a s)"
    using Cons.prems by (intro Cons.IH) (simp add: x settle_counter)
  then show ?case using Cons.prems settle_stale [of i s a] by (simp add: settle_all_def x)
qed (simp add: settle_all_def)

lemma last_request_decides:
  assumes "distinct (map fst as)" and "(counter s, a) \<in> set as"
  shows "outcome (settle_all as s) = commit a (outcome s)"
  using assms
proof (induction as arbitrary: s)
  case (Cons x as)
  obtain i b where x: "x = (i, b)" by (cases x)
  have all: "settle_all (x # as) s = settle_all as (settle i b s)" by (simp add: settle_all_def x)
  show ?case
  proof (cases "i = counter s")
    case True
    then have "b = a" using Cons.prems by (auto simp: x image_iff)
    moreover have "outcome (settle_all as (settle i b s)) = outcome (settle i b s)"
      using Cons.prems True by (intro stale_answers) (simp add: x settle_counter)
    ultimately show ?thesis using True all settle_latest by simp
  next
    case False
    then have "outcome (settle_all as (settle i b s)) = commit a (outcome (settle i b s))"
      using Cons.prems by (intro Cons.IH) (auto simp: x settle_counter)
    then show ?thesis using False all settle_stale by simp
  qed
qed simp

end

definition projection_outcome :: "dashboard \<Rightarrow> (string \<times> projection) option \<times> bool" where
  "projection_outcome s = (da_projection s, da_projectionFailed s)"

definition acct_outcome :: "dashboard \<Rightarrow> (string \<times> month_end_forecast) option \<times> bool" where
  "acct_outcome s = (da_acct s, da_acctError s)"

definition take_or_fail :: "string \<times> (js_error + 'b) \<Rightarrow> (string \<times> 'b) option \<times> bool \<Rightarrow> (string \<times> 'b) option \<times> bool" where
  "take_or_fail ans old = (case snd ans of Inr v \<Rightarrow> (Some (fst ans, v), False) | Inl _ \<Rightarrow> (None, True))"

interpretation projection_load: numbered_requests da_projReq projection_outcome projection_settles take_or_fail
  by unfold_locales (auto simp: projection_settles_def projection_outcome_def take_or_fail_def split: sum.split)

interpretation acct_load: numbered_requests da_acctReq acct_outcome acct_settles take_or_fail
  by unfold_locales (auto simp: acct_settles_def acct_outcome_def take_or_fail_def split: sum.split)

interpretation pending_load: numbered_requests da_pendingReq da_pending pending_settles
    "\<lambda>ans old. case ans of Inr rows \<Rightarrow> rows | Inl _ \<Rightarrow> old"
  by unfold_locales (auto simp: pending_settles_def split: sum.split)

text \<open>The pending amounts come from the last request made for them: if every pending request under
  way is answered, in whatever order, the rows shown are those of the answer to the last
  one (and the rows before, if that one failed).\<close>

theorem last_pending_request_decides:
  assumes "distinct (map fst as)" and "(da_pendingReq s, ans) \<in> set as"
  shows "da_pending (foldl (\<lambda>t (i, a). pending_settles i a t) s as)
    = (case ans of Inr rows \<Rightarrow> rows | Inl _ \<Rightarrow> da_pending s)"
  using pending_load.last_request_decides [OF assms] by (simp add: pending_load.settle_all_def)

subsection \<open>The projection is the one of the selected period\<close>

definition proj_tasks :: "dash_task list \<Rightarrow> (nat \<times> string) list" where
  "proj_tasks ts = List.map_filter (\<lambda>t. case t of TkProj i d b \<Rightarrow> Some (i, d) | _ \<Rightarrow> None) ts"

lemma proj_tasks_simps [simp]:
  "proj_tasks [] = []"
  "proj_tasks (ts @ us) = proj_tasks ts @ proj_tasks us"
  "proj_tasks (TkProj i d b # ts) = (i, d) # proj_tasks ts"
  "proj_tasks (TkRefs a # ts) = proj_tasks ts"
  "proj_tasks (TkTx c p v # ts) = proj_tasks ts"
  "proj_tasks (TkPending i b # ts) = proj_tasks ts"
  "proj_tasks (TkAcct i d b # ts) = proj_tasks ts"
  "proj_tasks (TkPut p v # ts) = proj_tasks ts"
  by (simp_all add: proj_tasks_def List.map_filter_def)

lemma proj_tasks_drop: "set (proj_tasks (drop_nth i ts)) \<subseteq> set (proj_tasks ts)"
proof -
  have "set (drop_nth i ts) \<subseteq> set ts" by (auto simp: drop_nth_def dest: in_set_takeD in_set_dropD)
  then show ?thesis by (auto simp: proj_tasks_def List.map_filter_def)
qed

text \<open>What the claim depends on: the counter, the requests under way, what is shown.\<close>

definition proj_obs :: "dashboard \<Rightarrow> nat \<times> (nat \<times> string) set \<times> string option" where
  "proj_obs s = (da_projReq s, set (proj_tasks (da_tasks s)), map_option fst (da_projection s))"

fun numbered :: "nat \<times> (nat \<times> string) set \<times> string option \<Rightarrow> bool" where
  "numbered (r, ts, shown) \<longleftrightarrow> (\<forall>x \<in> ts. fst x \<le> r)"

fun all_for :: "nat \<times> (nat \<times> string) set \<times> string option \<Rightarrow> string option \<Rightarrow> bool" where
  "all_for (r, ts, shown) st \<longleftrightarrow> (\<forall>x \<in> ts. fst x = r \<longrightarrow> st = Some (snd x)) \<and> (\<forall>d. shown = Some d \<longrightarrow> st = Some d)"

definition period_inputs :: "dashboard \<Rightarrow> billing_period list \<times> nat \<times> billing_period option" where
  "period_inputs s = (da_periods s, da_periodIdx s, da_period s)"

lemma period_inputs_start: "period_inputs s = period_inputs t \<Longrightarrow> realPeriodStart s = realPeriodStart t"
  by (simp add: period_inputs_def realPeriodStart_def da_selected_def)

lemma settle_batch_obs [simp]:
  "da_tasks (settle_batch b r s) = da_tasks s" "proj_obs (settle_batch b r s) = proj_obs s"
  "period_inputs (settle_batch b r s) = period_inputs s"
  by (auto simp: settle_batch_def proj_obs_def period_inputs_def Let_def split: option.split)

lemma other_obs [simp]:
  "proj_obs (start_refs a s) = proj_obs s" "period_inputs (start_refs a s) = period_inputs s"
  "proj_obs (start_tx c p v s) = proj_obs s" "period_inputs (start_tx c p v s) = period_inputs s"
  "proj_obs (pending_begin b s) = proj_obs s" "period_inputs (pending_begin b s) = period_inputs s"
  by (simp_all add: proj_obs_def period_inputs_def start_refs_def start_tx_def pending_begin_def add_task_def)

lemma acct_begin_obs [simp]:
  "proj_obs (acct_begin v b s) = proj_obs s" "period_inputs (acct_begin v b s) = period_inputs s"
  by (simp_all add: acct_begin_def add_task_def Let_def proj_obs_def [of "_\<lparr>da_acct := _\<rparr>"]
      period_inputs_def [of "_\<lparr>da_acct := _\<rparr>"]) (simp_all add: proj_obs_def period_inputs_def)

lemma projection_begin_inputs [simp]: "period_inputs (projection_begin v b s) = period_inputs s"
  by (simp add: projection_begin_def add_task_def Let_def) (simp add: period_inputs_def)

lemma projection_begin_obs:
  "proj_obs (projection_begin v b s) = (Suc (da_projReq s),
     (if real_start v then insert (Suc (da_projReq s), the (pv_start v)) else id) (set (proj_tasks (da_tasks s))), None)"
proof (cases "real_start v")
  case False
  then show ?thesis by (simp add: projection_begin_def Let_def) (simp add: proj_obs_def)
qed (simp add: projection_begin_def add_task_def Let_def proj_obs_def)

lemma projection_begin_numbered: "numbered (proj_obs s) \<Longrightarrow> numbered (proj_obs (projection_begin v b s))"
  unfolding projection_begin_obs by (auto simp: proj_obs_def intro: le_SucI)

lemma projection_begin_for:
  assumes "numbered (proj_obs s)" and "real_start v \<longrightarrow> st = pv_start v"
  shows "all_for (proj_obs (projection_begin v b s)) st"
proof -
  have "i \<noteq> Suc (da_projReq s)" if "(i, e) \<in> set (proj_tasks (da_tasks s))" for i e
    using assms(1) that by (fastforce simp: proj_obs_def)
  moreover have "st = Some (the (pv_start v))" if "real_start v"
    using assms(2) that by (auto simp: real_start_def)
  ultimately show ?thesis by (auto simp: projection_begin_obs)
qed

lemma projection_settles_obs [simp]: "period_inputs (projection_settles i a s) = period_inputs s"
  "proj_obs (pending_settles i p s) = proj_obs s" "period_inputs (pending_settles i p s) = period_inputs s"
  "proj_obs (acct_settles i c s) = proj_obs s" "period_inputs (acct_settles i c s) = period_inputs s"
  by (auto simp: projection_settles_def pending_settles_def acct_settles_def proj_obs_def period_inputs_def split: sum.split)

lemma projection_settles_for:
  assumes "numbered (proj_obs s)" and "all_for (proj_obs s) st" and "i = da_projReq s \<longrightarrow> st = Some d"
  shows "numbered (proj_obs (projection_settles i (d, a) s))" "all_for (proj_obs (projection_settles i (d, a) s)) st"
  using assms by (auto simp: projection_settles_def proj_obs_def split: sum.split)

subsubsection \<open>Steps\<close>

text \<open>The handler of the status pill keeps the period it captured; the claim is about runs without it.\<close>

fun of_toggle :: "dash_task \<Rightarrow> bool" where
  "of_toggle (TkRefs (RefsOfToggle _)) = True"
| "of_toggle (TkTx (TxOfToggle _) _ _) = True"
| "of_toggle (TkPut _ _) = True"
| "of_toggle _ = False"

fun is_toggle :: "dash_event \<Rightarrow> bool" where
  "is_toggle (DaToggle _) = True" | "is_toggle _ = False"

definition no_toggles :: "dashboard \<Rightarrow> bool" where
  "no_toggles s \<longleftrightarrow> (\<forall>t \<in> set (da_tasks s). \<not> of_toggle t)"

definition proj_inv :: "dashboard \<Rightarrow> bool" where
  "proj_inv s \<longleftrightarrow> no_toggles s \<and> numbered (proj_obs s)
     \<and> (real_start (dash_view s) \<longrightarrow> all_for (proj_obs s) (realPeriodStart s))"

text \<open>Half a step: the period may have changed, the effects have not run.\<close>

definition proj_half :: "string option \<Rightarrow> dashboard \<Rightarrow> bool" where
  "proj_half st s \<longleftrightarrow> no_toggles s \<and> numbered (proj_obs s)
     \<and> (real_start (dash_view s) \<longrightarrow> realPeriodStart s = st \<longrightarrow> all_for (proj_obs s) st)"

lemma real_start_view: "real_start (dash_view s) \<longleftrightarrow> realPeriodStart s \<noteq> None \<and> realPeriodStart s \<noteq> Some []"
  by (simp add: real_start_def dash_view_def)

lemma proj_half_cong:
  "proj_half st s \<Longrightarrow> proj_obs t = proj_obs s \<Longrightarrow> period_inputs t = period_inputs s \<Longrightarrow> no_toggles t \<Longrightarrow> proj_half st t"
  using period_inputs_start [of t s] by (auto simp: proj_half_def real_start_view)

lemma no_toggles_ops [simp]:
  "no_toggles (start_refs RefsEffect s) = no_toggles s" "no_toggles (start_refs (RefsOfRefresh n) s) = no_toggles s"
  "no_toggles (start_tx TxEffect p v s) = no_toggles s" "no_toggles (start_tx (TxOfRefresh n) p v s) = no_toggles s"
  "no_toggles (pending_begin b s) = no_toggles s" "no_toggles (settle_batch b r s) = no_toggles s"
  "no_toggles (pending_settles i rows s) = no_toggles s" "no_toggles (projection_settles i q s) = no_toggles s"
  "no_toggles (acct_settles i c s) = no_toggles s"
  by (auto simp: no_toggles_def start_refs_def start_tx_def pending_begin_def add_task_def pending_settles_def
      projection_settles_def acct_settles_def split: sum.split)

lemma no_toggles_begin [simp]:
  "no_toggles (acct_begin v b s) = no_toggles s" "no_toggles (projection_begin v b s) = no_toggles s"
  by (auto simp: acct_begin_def projection_begin_def add_task_def Let_def no_toggles_def)

lemma effects_establish:
  assumes "proj_half (realPeriodStart old) s"
  shows "proj_inv (dash_effects old s)"
proof -
  let ?s1 = "tx_effect old s"
  let ?s2 = "projection_effect old ?s1"
  have fetch: "proj_obs (t\<lparr>da_fetching := b\<rparr>) = proj_obs t" "period_inputs (t\<lparr>da_fetching := b\<rparr>) = period_inputs t"
    "no_toggles (t\<lparr>da_fetching := b\<rparr>) = no_toggles t" for t b
    by (simp_all add: proj_obs_def period_inputs_def no_toggles_def)
  have s1: "proj_obs ?s1 = proj_obs s" "period_inputs ?s1 = period_inputs s" "no_toggles ?s1"
    using assms by (simp_all add: tx_effect_def Let_def fetch proj_half_def)
  then have h: "proj_half (realPeriodStart old) ?s1" by (rule proj_half_cong [OF assms])
  have s2: "proj_inv ?s2"
  proof (cases "real_start (dash_view ?s1) \<and> pv_start (dash_view ?s1) \<noteq> pv_start (dash_view old)")
    case True
    then have e: "?s2 = projection_begin (dash_view ?s1) None ?s1" by (simp add: projection_effect_def Let_def)
    have n: "numbered (proj_obs ?s1)" using h by (simp add: proj_half_def)
    have "realPeriodStart ?s2 = realPeriodStart ?s1" unfolding e by (rule period_inputs_start) simp
    then show ?thesis
      unfolding proj_inv_def using s1(3) projection_begin_numbered [OF n] projection_begin_for [OF n, of "dash_view ?s1" "realPeriodStart ?s1"]
      by (simp add: e dash_view_def)
  next
    case False
    then have "?s2 = ?s1" by (auto simp: projection_effect_def Let_def)
    with False h show ?thesis by (auto simp: proj_inv_def proj_half_def dash_view_def)
  qed
  have "proj_obs (acct_effect old ?s2) = proj_obs ?s2 \<and> period_inputs (acct_effect old ?s2) = period_inputs ?s2
      \<and> no_toggles (acct_effect old ?s2) = no_toggles ?s2"
    by (simp add: acct_effect_def Let_def)
  then show ?thesis
    using s2 period_inputs_start [of "acct_effect old ?s2" ?s2] by (simp add: dash_effects_def proj_inv_def real_start_view)
qed

lemma inv_half: "proj_inv s \<Longrightarrow> proj_half (realPeriodStart s) s"
  by (auto simp: proj_inv_def proj_half_def)

lemma half_projection_begin:
  assumes "proj_half st s" and "real_start v \<longrightarrow> realPeriodStart s = pv_start v"
  shows "proj_half st (projection_begin v b s)"
proof -
  have n: "numbered (proj_obs s)" using assms(1) by (simp add: proj_half_def)
  have "realPeriodStart (projection_begin v b s) = realPeriodStart s" by (rule period_inputs_start) simp
  then show ?thesis
    unfolding proj_half_def
    using assms projection_begin_numbered [OF n] projection_begin_for [OF n, of v st] by (auto simp: proj_half_def)
qed

lemma half_moved:
  "proj_inv s \<Longrightarrow> proj_obs t = proj_obs s \<Longrightarrow> no_toggles t \<Longrightarrow> proj_half (realPeriodStart s) t"
  by (auto simp: proj_inv_def proj_half_def real_start_view)

lemma half_same:
  "proj_half st s \<Longrightarrow> proj_obs t = proj_obs s \<Longrightarrow> period_inputs t = period_inputs s \<Longrightarrow> no_toggles t = no_toggles s \<Longrightarrow> proj_half st t"
  by (rule proj_half_cong) (simp_all add: proj_half_def)

lemma half_chain:
  "proj_half st s \<Longrightarrow> proj_half st (start_refs RefsEffect s)"
  "proj_half st s \<Longrightarrow> proj_half st (start_refs (RefsOfRefresh n) s)"
  "proj_half st s \<Longrightarrow> proj_half st (start_tx TxEffect p v s)"
  "proj_half st s \<Longrightarrow> proj_half st (start_tx (TxOfRefresh n) p v s)"
  "proj_half st s \<Longrightarrow> proj_half st (pending_begin b s)"
  "proj_half st s \<Longrightarrow> proj_half st (acct_begin v b s)"
  "proj_half st s \<Longrightarrow> proj_half st (settle_batch b r s)"
  by (erule half_same; simp)+

lemma realPeriodStart_ops [simp]:
  "realPeriodStart (start_refs a s) = realPeriodStart s" "realPeriodStart (start_tx c p v s) = realPeriodStart s"
  "realPeriodStart (pending_begin b s) = realPeriodStart s" "realPeriodStart (acct_begin v b s) = realPeriodStart s"
  "realPeriodStart (projection_begin v b s) = realPeriodStart s" "realPeriodStart (settle_batch b r s) = realPeriodStart s"
  by (rule period_inputs_start; simp)+

lemma simple_updates [simp]:
  "proj_obs (s\<lparr>da_fetching := x\<rparr>) = proj_obs s" "no_toggles (s\<lparr>da_fetching := x\<rparr>) = no_toggles s"
  "realPeriodStart (s\<lparr>da_fetching := x\<rparr>) = realPeriodStart s"
  "proj_obs (s\<lparr>da_error := e\<rparr>) = proj_obs s" "no_toggles (s\<lparr>da_error := e\<rparr>) = no_toggles s"
  "proj_obs (s\<lparr>da_chartFilter := f\<rparr>) = proj_obs s" "no_toggles (s\<lparr>da_chartFilter := f\<rparr>) = no_toggles s"
  "proj_obs (s\<lparr>da_refreshError := x\<rparr>) = proj_obs s" "no_toggles (s\<lparr>da_refreshError := x\<rparr>) = no_toggles s"
  "realPeriodStart (s\<lparr>da_refreshError := x\<rparr>) = realPeriodStart s"
  "proj_obs (s\<lparr>da_page := k\<rparr>) = proj_obs s" "no_toggles (s\<lparr>da_page := k\<rparr>) = no_toggles s"
  "proj_obs (s\<lparr>da_periodIdx := k\<rparr>) = proj_obs s" "no_toggles (s\<lparr>da_periodIdx := k\<rparr>) = no_toggles s"
  "proj_obs (set_refs r s) = proj_obs s" "no_toggles (set_refs r s) = no_toggles s"
  "proj_obs (set_tx p a s) = proj_obs s" "no_toggles (set_tx p a s) = no_toggles s"
  by (simp_all add: proj_obs_def no_toggles_def realPeriodStart_def da_selected_def set_refs_def set_tx_def Let_def)

lemma pv_start_view [simp]: "pv_start (dash_view s) = realPeriodStart s"
  by (simp add: dash_view_def)

lemma half_user_effects:
  assumes "proj_inv s"
  shows "proj_half (realPeriodStart s) (user_effects s)"
proof -
  let ?v = "dash_view s" and ?st = "realPeriodStart s"
  let ?s1 = "pending_begin None (start_refs RefsEffect s)"
  let ?s2 = "if real_start ?v then start_tx TxEffect (da_page ?s1) ?v (?s1\<lparr>da_fetching := True\<rparr>) else ?s1"
  have "proj_half ?st ?s1" using inv_half [OF assms] by (intro half_chain)
  then have "proj_half ?st (?s1\<lparr>da_fetching := True\<rparr>)" by (rule half_same) (simp_all add: period_inputs_def)
  then have s2: "proj_half ?st ?s2" using \<open>proj_half ?st ?s1\<close> by (simp add: half_chain)
  then have s3: "proj_half ?st (projection_begin ?v None ?s2)" by (rule half_projection_begin) simp
  have "user_effects s = acct_begin ?v None (if real_start ?v then projection_begin ?v None ?s2 else ?s2)"
    by (simp only: user_effects_def Let_def)
  then show ?thesis using half_chain(6) [OF s2] half_chain(6) [OF s3] by (simp only: split: if_split) simp
qed

lemma half_refresh:
  assumes "proj_inv s"
  shows "proj_half (realPeriodStart s) (refreshAllPostWrite s)"
proof -
  let ?s1 = "s\<lparr>da_refreshing := True, da_nextBatch := Suc (da_nextBatch s), da_batches := (da_nextBatch s, 5, False) # da_batches s\<rparr>"
  have i1: "period_inputs ?s1 = period_inputs s" by (simp add: period_inputs_def)
  have "proj_obs ?s1 = proj_obs s" "no_toggles ?s1 = no_toggles s" by (simp_all add: proj_obs_def no_toggles_def)
  with i1 have "proj_half (realPeriodStart s) ?s1" by (metis half_same [OF inv_half [OF assms]])
  then have "proj_half (realPeriodStart s) (projection_begin (dash_view s) (Some (da_nextBatch s))
      (start_tx (TxOfRefresh (da_nextBatch s)) 0 (dash_view s) (start_refs (RefsOfRefresh (da_nextBatch s)) ?s1)))"
    using period_inputs_start [OF i1] by (intro half_projection_begin half_chain) simp_all
  then show ?thesis unfolding refreshAllPostWrite_def Let_def by (intro half_chain)
qed

lemma dropped_tasks: "t \<in> set (drop_nth i ts) \<Longrightarrow> t \<in> set ts"
  by (auto simp: drop_nth_def dest: in_set_takeD in_set_dropD)

lemma dropped_obs: "proj_obs (s\<lparr>da_tasks := drop_nth i (da_tasks s)\<rparr>)
    = (da_projReq s, set (proj_tasks (drop_nth i (da_tasks s))), map_option fst (da_projection s))"
  by (simp add: proj_obs_def)

lemma dropped_start [simp]: "realPeriodStart (s\<lparr>da_tasks := ts\<rparr>) = realPeriodStart s"
  by (rule period_inputs_start) (simp add: period_inputs_def)

lemma obs_mono:
  assumes "T \<subseteq> U"
  shows "(\<forall>x \<in> U. fst x \<le> (r::nat)) \<Longrightarrow> \<forall>x \<in> T. fst x \<le> r"
    and "(\<forall>x \<in> U. fst x = r \<longrightarrow> st = Some (snd x)) \<Longrightarrow> \<forall>x \<in> T. fst x = r \<longrightarrow> st = Some (snd x)"
  using assms by blast+

lemma inv_drop:
  assumes "proj_inv s"
  shows "proj_inv (s\<lparr>da_tasks := drop_nth i (da_tasks s)\<rparr>)"
proof -
  let ?t = "s\<lparr>da_tasks := drop_nth i (da_tasks s)\<rparr>"
  note sub = proj_tasks_drop [of i "da_tasks s"]
  have obs: "proj_obs s = (da_projReq s, set (proj_tasks (da_tasks s)), map_option fst (da_projection s))"
    by (simp add: proj_obs_def)
  have "no_toggles ?t" using assms dropped_tasks [of _ i "da_tasks s"] by (auto simp: proj_inv_def no_toggles_def)
  moreover have "numbered (proj_obs ?t)"
    unfolding dropped_obs numbered.simps
    by (rule obs_mono(1) [OF sub]) (use assms in \<open>simp add: proj_inv_def obs\<close>)
  moreover have "all_for (proj_obs ?t) (realPeriodStart s)" if "all_for (proj_obs s) (realPeriodStart s)"
    unfolding dropped_obs all_for.simps
  proof (rule conjI)
    show "\<forall>x \<in> set (proj_tasks (drop_nth i (da_tasks s))). fst x = da_projReq s \<longrightarrow> realPeriodStart s = Some (snd x)"
      by (rule obs_mono(2) [OF sub]) (use that in \<open>simp add: obs\<close>)
  qed (use that in \<open>simp add: obs\<close>)
  ultimately show ?thesis using assms by (simp add: proj_inv_def real_start_view)
qed

lemma task_for: "proj_inv s \<Longrightarrow> TkProj i d b \<in> set (da_tasks s) \<Longrightarrow> i = da_projReq s
    \<Longrightarrow> real_start (dash_view s) \<Longrightarrow> realPeriodStart s = Some d"
proof -
  assume inv: "proj_inv s" and t: "TkProj i d b \<in> set (da_tasks s)" "i = da_projReq s" and r: "real_start (dash_view s)"
  have "(i, d) \<in> set (proj_tasks (da_tasks s))"
    using t(1) by (force simp: proj_tasks_def List.map_filter_def image_iff)
  with inv r t(2) show ?thesis by (force simp: proj_inv_def proj_obs_def)
qed

lemma half_settled:
  assumes inv: "proj_inv s" and t: "TkProj i d b \<in> set ts" and ts: "da_tasks s = ts"
  shows "proj_half (realPeriodStart s) (projection_settles i (d, a) (s\<lparr>da_tasks := drop_nth k ts\<rparr>))"
proof -
  let ?t = "s\<lparr>da_tasks := drop_nth k ts\<rparr>"
  have it: "proj_inv ?t" using inv_drop [OF inv] ts by simp
  have p: "realPeriodStart (projection_settles i (d, a) ?t) = realPeriodStart s"
    using period_inputs_start [of "projection_settles i (d, a) ?t" ?t] by simp
  have n: "numbered (proj_obs ?t)" using it by (simp add: proj_inv_def)
  have q: "i = da_projReq ?t \<longrightarrow> realPeriodStart s = Some d" if "real_start (dash_view s)"
    using task_for [OF inv, of i d b] t ts that by auto
  have o: "all_for (proj_obs ?t) (realPeriodStart s)" if "real_start (dash_view s)"
    using it that by (simp add: proj_inv_def real_start_view)
  have "numbered (proj_obs (projection_settles i (d, a) ?t))"
    using n by (auto simp: projection_settles_def proj_obs_def split: sum.split)
  moreover have "no_toggles (projection_settles i (d, a) ?t)" using it by (simp add: proj_inv_def)
  ultimately show ?thesis
    using projection_settles_for(2) [OF n o q] by (auto simp: proj_half_def real_start_view p)
qed

lemma half_refs_answered:
  assumes "proj_inv s" and "\<not> of_toggle (TkRefs a)"
  shows "proj_half (realPeriodStart s) (dash_refs_answered a ans s)"
proof -
  have nt: "no_toggles s" using assms(1) by (simp add: proj_inv_def)
  have set: "proj_half (realPeriodStart s) (set_refs r s)" for r
    by (rule half_moved [OF assms(1)]) (simp_all add: nt)
  have err: "proj_half (realPeriodStart s) (s\<lparr>da_error := e\<rparr>)" for e
    by (rule half_moved [OF assms(1)]) (simp_all add: nt)
  show ?thesis
    using assms(2) half_chain(7) [OF set] half_chain(7) [OF inv_half [OF assms(1)]] set err
    by (cases a; cases ans) (simp_all add: dash_refs_answered_def Let_def)
qed

lemma half_tx_answered:
  assumes "proj_inv s" and "\<not> of_toggle (TkTx a p v)"
  shows "proj_half (realPeriodStart s) (tx_answered a p ans s)"
proof -
  have nt: "no_toggles s" using assms(1) by (simp add: proj_inv_def)
  have set: "proj_half (realPeriodStart s) (set_tx p r s)" for r
    by (rule half_moved [OF assms(1)]) (simp_all add: nt)
  have err: "proj_half (realPeriodStart s) (s\<lparr>da_error := e, da_fetching := f\<rparr>)" for e f
    by (rule half_moved [OF assms(1)]) (simp_all add: proj_obs_def no_toggles_def nt [unfolded no_toggles_def])
  show ?thesis
    using assms(2) half_chain(7) [OF set] half_chain(7) [OF inv_half [OF assms(1)]] set err
    by (cases a; cases ans) (simp_all add: tx_answered_def Let_def)
qed

lemma half_answer:
  assumes inv: "proj_inv s" and i: "i < length (da_tasks s)"
  shows "proj_half (realPeriodStart s) (task_answered (da_tasks s ! i) ans (s\<lparr>da_tasks := drop_nth i (da_tasks s)\<rparr>))"
proof -
  let ?t = "s\<lparr>da_tasks := drop_nth i (da_tasks s)\<rparr>"
  have it: "proj_inv ?t" by (rule inv_drop [OF inv])
  have nt: "\<not> of_toggle (da_tasks s ! i)" using inv i by (simp add: proj_inv_def no_toggles_def)
  have h: "proj_half (realPeriodStart s) ?t" using inv_half [OF it] by simp
  have mem: "da_tasks s ! i \<in> set (da_tasks s)" using i by simp
  consider (refs) a r where "da_tasks s ! i = TkRefs a" "ans = AnRefs r"
    | (tx) a p v r where "da_tasks s ! i = TkTx a p v" "ans = AnTx r"
    | (pending) k b r where "da_tasks s ! i = TkPending k b" "ans = AnPending r"
    | (proj) k d b r where "da_tasks s ! i = TkProj k d b" "ans = AnProj r"
    | (acct) k d b r where "da_tasks s ! i = TkAcct k d b" "ans = AnAcct r"
    | (other) "task_answered (da_tasks s ! i) ans ?t = ?t"
    using nt by (cases "da_tasks s ! i"; cases ans) auto
  then show ?thesis
  proof cases
    case refs
    then show ?thesis using half_refs_answered [OF it, of a r] nt by simp
  next
    case tx
    then show ?thesis using half_tx_answered [OF it, of a p v r] nt by simp
  next
    case pending
    have "proj_half (realPeriodStart s) (pending_settles k r ?t)" by (rule half_same [OF h]) simp_all
    then show ?thesis using pending half_chain(7) by simp
  next
    case proj
    then show ?thesis using half_settled [OF inv, of k d b "da_tasks s" r i] mem half_chain(7) by simp
  next
    case acct
    have "proj_half (realPeriodStart s) (acct_settles k (d, r) ?t)" by (rule half_same [OF h]) simp_all
    then show ?thesis using acct half_chain(7) by simp
  next
    case other
    with h show ?thesis by simp
  qed
qed

lemma half_react:
  assumes inv: "proj_inv s" and nt: "\<not> is_toggle e"
  shows "proj_half (realPeriodStart s) (dash_react s e)"
proof -
  note h = inv_half [OF inv]
  have n: "no_toggles s" using inv by (simp add: proj_inv_def)
  have select: "proj_half (realPeriodStart s) (select_period k s)" for k
    by (rule half_moved [OF inv]) (simp_all add: select_period_def proj_obs_def no_toggles_def n [unfolded no_toggles_def])
  have "proj_half (realPeriodStart s) (s\<lparr>da_page := k\<rparr>)" for k by (rule half_moved [OF inv]) (simp_all add: n)
  moreover have "proj_half (realPeriodStart s) (s\<lparr>da_chartFilter := f\<rparr>)" for f by (rule half_moved [OF inv]) (simp_all add: n)
  moreover have "proj_inv (s\<lparr>da_refreshError := False\<rparr>)" "realPeriodStart (s\<lparr>da_refreshError := False\<rparr>) = realPeriodStart s"
    using inv by (simp_all add: proj_inv_def real_start_view)
  then have "proj_half (realPeriodStart s) (refreshAllPostWrite (s\<lparr>da_refreshError := False\<rparr>))"
    by (metis half_refresh)
  moreover have "proj_half (realPeriodStart s) (projection_begin (dash_view s) None s)"
    by (rule half_projection_begin [OF h]) simp
  ultimately show ?thesis
    using h nt select half_user_effects [OF inv] half_refresh [OF inv] half_answer [OF inv]
    by (cases e) (simp_all add: older_period_def newer_period_def current_period_def dash_previous_def dash_next_def
        toggle_filter_def answer_task_def split: option.split)
qed

definition quiet_step :: "dashboard \<Rightarrow> dash_event \<Rightarrow> dashboard" where
  "quiet_step s e = (if is_toggle e then s else dash_step s e)"

interpretation dash_quiet: step_machine quiet_step proj_inv
  by unfold_locales (simp add: quiet_step_def dash_step_def effects_establish half_react)

lemma quiet_run: "list_all (\<lambda>e. \<not> is_toggle e) es \<Longrightarrow> run dash_step s es = run quiet_step s es"
  by (induction es arbitrary: s) (simp_all add: quiet_step_def)

lemma mount_inv: "proj_inv (dash_mount today cycle)"
proof -
  define s where "s = \<lparr>da_today = today, da_accounts = [], da_categories = [], da_transactions = [],
     da_allTransactions = [], da_budgets = [], da_period = None, da_periods = [],
     da_cycleDay = (case cycle of Some q \<Rightarrow> q | None \<Rightarrow> 1), da_periodIdx = 0, da_forecast = None, da_pending = [],
     da_pendingReq = 0, da_projection = None, da_projectionFailed = False, da_projectionLoading = False, da_projReq = 0,
     da_acct = None, da_acctError = False, da_acctReq = 0, da_fetching = True, da_page = 0, da_hasMore = False,
     da_error = [], da_refreshError = False, da_refreshing = False, da_chartFilter = None, da_tasks = [],
     da_batches = [], da_nextBatch = 0, da_log = []\<rparr>"
  have "proj_inv s" by (simp add: s_def proj_inv_def no_toggles_def proj_obs_def)
  then have "proj_half (realPeriodStart s) (user_effects s)" by (rule half_user_effects)
  moreover have "realPeriodStart (user_effects s) = realPeriodStart s" by (simp add: user_effects_def Let_def)
  moreover have "dash_mount today cycle = user_effects s" by (simp add: dash_mount_def s_def)
  ultimately show ?thesis by (simp add: proj_half_def proj_inv_def)
qed

text \<open>C4: The tile never shows the projection of another billing period: in every run from the mount in
  which no status pill is pressed, whatever the order of the answers, of navigation and of
  refreshes, a projection that is shown was asked for the period that is selected.\<close>

theorem projection_matches_period:
  assumes "list_all (\<lambda>e. \<not> is_toggle e) es"
    and "da_projection (run dash_step (dash_mount today cycle) es) = Some (d, pj)"
    and "realPeriodStart (run dash_step (dash_mount today cycle) es) = Some st" and "st \<noteq> []"
  shows "d = st"
proof -
  have "proj_inv (run dash_step (dash_mount today cycle) es)"
    unfolding quiet_run [OF assms(1)] by (rule dash_quiet.run_inv [OF mount_inv])
  then show ?thesis using assms(2-4) by (simp add: proj_inv_def real_start_view proj_obs_def)
qed

lemma tx_effect_obs [simp]:
  "period_inputs (tx_effect old s) = period_inputs s" "proj_obs (tx_effect old s) = proj_obs s"
  "da_projection (tx_effect old s) = da_projection s"
  by (simp_all add: tx_effect_def Let_def start_tx_def add_task_def period_inputs_def proj_obs_def)

lemma acct_begin_projection [simp]: "da_projection (acct_begin v b s) = da_projection s"
  by (simp add: acct_begin_def add_task_def Let_def settle_batch_def split: option.split)

lemma acct_effect_obs [simp]:
  "period_inputs (acct_effect old s) = period_inputs s" "proj_obs (acct_effect old s) = proj_obs s"
  "da_projection (acct_effect old s) = da_projection s"
  by (simp_all add: acct_effect_def Let_def)

lemma effects_inputs [simp]: "period_inputs (dash_effects old s) = period_inputs s"
  by (simp add: dash_effects_def projection_effect_def Let_def)

lemma effects_start [simp]: "realPeriodStart (dash_effects old s) = realPeriodStart s"
  by (rule period_inputs_start) simp

lemma effects_same_period:
  "realPeriodStart s = realPeriodStart old \<Longrightarrow> da_projection (dash_effects old s) = da_projection s"
  using period_inputs_start [of "tx_effect old s" s] by (simp add: dash_effects_def projection_effect_def Let_def)

definition demo_period :: "int \<Rightarrow> string \<Rightarrow> string option \<Rightarrow> billing_period" where
  "demo_period i st e = \<lparr>bp_id = i, bp_start_date = st, bp_end_date = e\<rparr>"

definition demo_periods :: "billing_period list" where
  "demo_periods = [demo_period 2 ''2026-05-01'' None, demo_period 1 ''2026-04-01'' (Some ''2026-04-30'')]"

definition demo_refs :: dash_refs where
  "demo_refs = \<lparr>dr_accounts = None, dr_categories = None, dr_budgets = None, dr_period = None,
     dr_periods = Some demo_periods, dr_cycle = Some 1\<rparr>"

definition demo_projection :: "string \<Rightarrow> projection" where
  "demo_projection e = \<lparr>pj_executed_expense = e, pj_forecast_expense = ''0''\<rparr>"

lemmas dash_defs = dash_step_def dash_effects_def tx_effect_def projection_effect_def acct_effect_def
  projection_begin_def acct_begin_def pending_begin_def start_tx_def start_refs_def add_task_def
  answer_task_def dash_refs_answered_def tx_answered_def set_refs_def set_tx_def drop_nth_def Let_def
  projection_settles_def settle_batch_def
lemmas view_defs = dash_view_def realPeriodStart_def isCurrentSelected_def da_selected_def real_start_def is_open_def index_of_def

text \<open>The page at its mount, with its reference data, and with the first projection.\<close>

definition demo_mounted :: dashboard where "demo_mounted = dash_mount (2026, 5, 14) None"
definition demo_loaded :: dashboard where "demo_loaded = dash_step demo_mounted (DaAnswer 0 (AnRefs (Inr demo_refs)))"
definition demo_projected :: dashboard where
  "demo_projected = dash_step demo_loaded (DaAnswer 2 (AnProj (Inr (demo_projection ''1''))))"

lemma demo_mounted_facts:
  "da_tasks demo_mounted = [TkRefs RefsEffect, TkPending 1 None]" "da_periods demo_mounted = []" "da_period demo_mounted = None"
  "da_projReq demo_mounted = 0" "da_page demo_mounted = 0" "da_periodIdx demo_mounted = 0" "da_acctReq demo_mounted = 1"
  by (simp_all add: demo_mounted_def dash_mount_def user_effects_def view_defs dash_defs)

lemma demo_loaded_facts:
  "\<exists>v. da_tasks demo_loaded = [TkPending 1 None, TkTx TxEffect 0 v, TkProj 1 ''2026-05-01'' None, TkAcct 2 ''2026-05-01'' None]"
  "da_periods demo_loaded = demo_periods" "da_projReq demo_loaded = 1" "da_page demo_loaded = 0" "da_periodIdx demo_loaded = 0"
  by (simp_all add: demo_loaded_def dash_defs view_defs demo_mounted_facts demo_refs_def demo_periods_def demo_period_def)

lemma demo_projected_facts:
  "da_projection demo_projected = Some (''2026-05-01'', demo_projection ''1'')" "realPeriodStart demo_projected = Some ''2026-05-01''"
proof -
  obtain v where v: "da_tasks demo_loaded = [TkPending 1 None, TkTx TxEffect 0 v, TkProj 1 ''2026-05-01'' None, TkAcct 2 ''2026-05-01'' None]"
    using demo_loaded_facts(1) by blast
  define t where "t = answer_task 2 (AnProj (Inr (demo_projection ''1''))) demo_loaded"
  have t: "da_projection t = Some (''2026-05-01'', demo_projection ''1'')" "period_inputs t = period_inputs demo_loaded"
    by (simp_all add: t_def answer_task_def v projection_settles_def demo_loaded_facts(3) settle_batch_def period_inputs_def)
  have st: "realPeriodStart t = realPeriodStart demo_loaded" by (rule period_inputs_start [OF t(2)])
  have l: "realPeriodStart demo_loaded = Some ''2026-05-01''"
    by (simp add: realPeriodStart_def da_selected_def demo_loaded_facts demo_periods_def demo_period_def)
  have p: "demo_projected = dash_effects demo_loaded t" by (simp add: demo_projected_def dash_step_def t_def)
  show "da_projection demo_projected = Some (''2026-05-01'', demo_projection ''1'')"
    using effects_same_period [OF st] t(1) by (simp add: p)
  show "realPeriodStart demo_projected = Some ''2026-05-01''" using st l by (simp add: p)
qed

theorem projection_matches_period_witness:
  "fst (the (da_projection demo_projected)) = the (realPeriodStart demo_projected)"
proof (rule projection_matches_period [of "[DaAnswer 0 (AnRefs (Inr demo_refs)), DaAnswer 2 (AnProj (Inr (demo_projection ''1'')))]"])
  have r: "run dash_step (dash_mount (2026, 5, 14) None) [DaAnswer 0 (AnRefs (Inr demo_refs)), DaAnswer 2 (AnProj (Inr (demo_projection ''1'')))]
      = demo_projected"
    by (simp add: demo_projected_def demo_loaded_def demo_mounted_def)
  show "da_projection (run dash_step (dash_mount (2026, 5, 14) None) [DaAnswer 0 (AnRefs (Inr demo_refs)), DaAnswer 2 (AnProj (Inr (demo_projection ''1'')))])
      = Some (fst (the (da_projection demo_projected)), snd (the (da_projection demo_projected)))"
    unfolding r by (simp add: demo_projected_facts)
  show "realPeriodStart (run dash_step (dash_mount (2026, 5, 14) None) [DaAnswer 0 (AnRefs (Inr demo_refs)), DaAnswer 2 (AnProj (Inr (demo_projection ''1'')))])
      = Some (the (realPeriodStart demo_projected))"
    unfolding r by (simp add: demo_projected_facts)
qed (simp_all add: demo_projected_facts)

end
