(* ===== verification/Dashboard_Moves.thy ===== *)
theory Dashboard_Moves
  imports Dashboard_Props
begin

section \<open>The dashboard: reloads, pages, refreshes and the deep link\<close>

text \<open>
  Where the page goes after a reload of its reference data, what stays of another period on
  a later page, the projection that a status pill brings back, the end of every refresh,
  and where the deep link of a row leads.
\<close>

subsection \<open>Reloads\<close>

lemma more_inputs [simp]:
  "period_inputs (toggle_rest v s) = period_inputs s" "period_inputs (s\<lparr>da_tasks := ts\<rparr>) = period_inputs s"
  by (simp_all add: toggle_rest_def) (simp add: period_inputs_def)

lemma refs_answered_inputs: "period_inputs (dash_refs_answered a (Inr r) s) = period_inputs (set_refs r s)"
  by (cases a) (simp_all add: dash_refs_answered_def Let_def)

lemma selected_of_inputs: "period_inputs s = period_inputs t \<Longrightarrow> da_selected s = da_selected t"
  by (simp add: period_inputs_def da_selected_def)

text \<open>Every answer to the reference data puts the page on the open period, whatever period the user was
  looking at: \<^verbatim>\<open>loadRefs\<close> runs at the mount, but also in the refresh after each new transaction and
  after each status pill, so a change made while looking at a past period leaves that period.\<close>

theorem reload_returns_to_current_period:
  assumes "i < length (da_tasks s)" and "da_tasks s ! i = TkRefs a"
    and "dr_periods r = Some pl" and "index_of is_open pl = Some k"
  shows "da_selected (dash_step s (DaAnswer i (AnRefs (Inr r)))) = Some (pl ! k)
    \<and> isCurrentSelected (dash_step s (DaAnswer i (AnRefs (Inr r))))"
proof -
  let ?t = "s\<lparr>da_tasks := drop_nth i (da_tasks s)\<rparr>"
  have "period_inputs (dash_step s (DaAnswer i (AnRefs (Inr r)))) = period_inputs (set_refs r ?t)"
    using assms(1,2) by (simp add: dash_step_def answer_task_def refs_answered_inputs)
  then have "da_selected (dash_step s (DaAnswer i (AnRefs (Inr r)))) = da_selected (set_refs r ?t)"
    by (rule selected_of_inputs)
  also have "\<dots> = Some (pl ! k)"
    using index_of_Some [OF assms(4)] by (auto simp: da_selected_def set_refs_def Let_def assms(3,4))
  finally show ?thesis using index_of_Some [OF assms(4)] by (simp add: isCurrentSelected_def)
qed

text \<open>The page as it was mounted, now looking at April.\<close>

theorem reload_returns_to_current_period_witness:
  "isCurrentSelected (dash_step (demo_mounted\<lparr>da_periods := demo_periods, da_periodIdx := 1\<rparr>)
     (DaAnswer 0 (AnRefs (Inr demo_refs))))
   \<and> \<not> isCurrentSelected (demo_mounted\<lparr>da_periods := demo_periods, da_periodIdx := 1\<rparr>)"
  using reload_returns_to_current_period [of 0 "demo_mounted\<lparr>da_periods := demo_periods, da_periodIdx := 1\<rparr>"
      RefsEffect demo_refs demo_periods 0]
  by (simp add: demo_mounted_facts demo_refs_def demo_periods_def demo_period_def index_of_def is_open_def
      isCurrentSelected_def da_selected_def)

subsection \<open>A later page\<close>

definition plan_obs :: "dashboard \<Rightarrow> nat \<times> forecast_plan option \<times> transaction list" where
  "plan_obs s = (da_page s, da_forecast s, da_allTransactions s)"

fun first_page :: "dash_task \<Rightarrow> bool" where
  "first_page (TkTx _ p _) = (p = 0)"
| "first_page (TkPut p _) = (p = 0)"
| "first_page _ = False"

definition on_later_page :: "dashboard \<Rightarrow> bool" where
  "on_later_page s \<longleftrightarrow> da_page s \<noteq> 0 \<and> list_all (\<lambda>t. \<not> first_page t) (da_tasks s)"

lemma later_ops [simp]:
  "plan_obs (start_refs a s) = plan_obs s" "plan_obs (start_tx c p v s) = plan_obs s"
  "plan_obs (pending_begin b s) = plan_obs s" "plan_obs (settle_batch b r s) = plan_obs s"
  "plan_obs (pending_settles i q s) = plan_obs s" "plan_obs (projection_settles i x s) = plan_obs s"
  "plan_obs (acct_settles i y s) = plan_obs s" "plan_obs (set_refs rs s) = plan_obs s"
  by (auto simp: plan_obs_def start_refs_def start_tx_def pending_begin_def add_task_def settle_batch_def Let_def
      pending_settles_def projection_settles_def acct_settles_def set_refs_def split: option.split sum.split)

lemma later_begin [simp]:
  "plan_obs (acct_begin v b s) = plan_obs s" "plan_obs (projection_begin v b s) = plan_obs s"
  by (simp_all add: acct_begin_def projection_begin_def add_task_def Let_def) (simp_all add: plan_obs_def)

lemma set_tx_later: "p \<noteq> 0 \<Longrightarrow> plan_obs (set_tx p a s) = plan_obs s"
  by (simp add: plan_obs_def set_tx_def Let_def)

definition later_tasks :: "dashboard \<Rightarrow> bool" where
  "later_tasks s \<longleftrightarrow> list_all (\<lambda>t. \<not> first_page t) (da_tasks s)"

lemma later_tasks_ops [simp]:
  "later_tasks (start_refs a s) = later_tasks s" "later_tasks (start_tx c p v s) \<longleftrightarrow> later_tasks s \<and> p \<noteq> 0"
  "later_tasks (pending_begin b s) = later_tasks s" "later_tasks (settle_batch b r s) = later_tasks s"
  "later_tasks (pending_settles i q s) = later_tasks s" "later_tasks (projection_settles i x s) = later_tasks s"
  "later_tasks (acct_settles i y s) = later_tasks s" "later_tasks (set_refs rs s) = later_tasks s"
  "later_tasks (set_tx k u s) = later_tasks s"
  by (auto simp: later_tasks_def start_refs_def start_tx_def pending_begin_def add_task_def Let_def
      pending_settles_def projection_settles_def acct_settles_def set_refs_def set_tx_def split: option.split sum.split)

lemma later_tasks_begin [simp]:
  "later_tasks (acct_begin v b s) = later_tasks s" "later_tasks (projection_begin v b s) = later_tasks s"
  by (simp_all add: acct_begin_def projection_begin_def add_task_def Let_def) (simp_all add: later_tasks_def)

text \<open>What one piece of a step may do on a later page.\<close>

definition keeps :: "dashboard \<Rightarrow> dashboard \<Rightarrow> bool" where
  "keeps s t \<longleftrightarrow> da_page t \<noteq> 0 \<and> later_tasks t \<and> da_forecast t = da_forecast s \<and> da_allTransactions t = da_allTransactions s"

lemma on_later_page_alt: "on_later_page s \<longleftrightarrow> keeps s s"
  by (simp add: on_later_page_def keeps_def later_tasks_def)

lemma keeps_same: "keeps s t \<Longrightarrow> plan_obs u = plan_obs t \<Longrightarrow> later_tasks u \<Longrightarrow> keeps s u"
  by (simp add: keeps_def plan_obs_def)

lemma keepsD: "keeps s t \<Longrightarrow> da_page t \<noteq> 0" "keeps s t \<Longrightarrow> later_tasks t"
  by (simp_all add: keeps_def)

lemma plain_updates [simp]:
  "keeps s (t\<lparr>da_fetching := x\<rparr>) = keeps s t" "keeps s (t\<lparr>da_error := e\<rparr>) = keeps s t"
  "keeps s (t\<lparr>da_chartFilter := f\<rparr>) = keeps s t" "keeps s (t\<lparr>da_periodIdx := k\<rparr>) = keeps s t"
  by (simp_all add: keeps_def later_tasks_def)

lemma keeps_chain:
  "keeps s t \<Longrightarrow> keeps s (start_refs a t)" "keeps s t \<Longrightarrow> p \<noteq> 0 \<Longrightarrow> keeps s (start_tx c p v t)"
  "keeps s t \<Longrightarrow> keeps s (pending_begin b t)" "keeps s t \<Longrightarrow> keeps s (settle_batch b r t)"
  "keeps s t \<Longrightarrow> keeps s (acct_begin v b t)" "keeps s t \<Longrightarrow> keeps s (projection_begin v b t)"
  "keeps s t \<Longrightarrow> keeps s (set_refs rs t)" "keeps s t \<Longrightarrow> p \<noteq> 0 \<Longrightarrow> keeps s (set_tx p x t)"
  "keeps s t \<Longrightarrow> keeps s (pending_settles i y t)" "keeps s t \<Longrightarrow> keeps s (projection_settles i z t)"
  "keeps s t \<Longrightarrow> keeps s (acct_settles i w t)"
  by (rule keeps_same, assumption, simp add: set_tx_later, simp add: keepsD(2))+

lemma keeps_effects: "keeps s t \<Longrightarrow> keeps s (dash_effects old t)"
proof -
  assume k: "keeps s t"
  have "keeps s (tx_effect old t)"
    unfolding tx_effect_def Let_def using keepsD(1) [OF k] k by (auto intro!: keeps_chain)
  then show ?thesis by (simp add: dash_effects_def acct_effect_def projection_effect_def Let_def keeps_chain)
qed

lemma keeps_user_effects: "keeps s s \<Longrightarrow> keeps s (user_effects s)"
proof -
  assume k: "keeps s s"
  let ?s1 = "pending_begin None (start_refs RefsEffect s)"
  have k1: "keeps s ?s1" by (intro keeps_chain k)
  then have "keeps s (start_tx TxEffect (da_page ?s1) v (?s1\<lparr>da_fetching := True\<rparr>))" for v
    using keepsD(1) [OF k1] by (intro keeps_chain) simp_all
  then show ?thesis using k1 by (simp add: user_effects_def Let_def keeps_chain)
qed

lemma keeps_tasks: "keeps s t \<Longrightarrow> list_all (\<lambda>u. \<not> first_page u) ts \<Longrightarrow> keeps s (t\<lparr>da_tasks := ts\<rparr>)"
  by (simp add: keeps_def later_tasks_def)

lemma keeps_failed: "keeps s t \<Longrightarrow> keeps s (toggle_failed e t)"
  by (simp add: toggle_failed_def)

lemma keeps_answered:
  assumes k: "keeps s t" and t: "\<not> first_page tk"
  shows "keeps s (task_answered tk ans t)"
proof -
  have rest: "keeps s (toggle_rest v u)" if "keeps s u" for u v
    unfolding toggle_rest_def by (intro keeps_chain that)
  have refs: "keeps s (dash_refs_answered a x t)" for a x
    using k by (cases a; cases x) (simp_all add: dash_refs_answered_def Let_def keeps_chain rest keeps_failed)
  have tx: "keeps s (tx_answered a p x t)" if "p \<noteq> 0" for a p x
  proof -
    have "keeps s (t\<lparr>da_error := e, da_fetching := f\<rparr>)" for e f using k by (simp add: keeps_def later_tasks_def)
    then show ?thesis using that k by (cases a; cases x) (simp_all add: tx_answered_def Let_def keeps_chain keeps_failed)
  qed
  show ?thesis
    using t k refs tx by (cases tk; cases ans) (auto simp: keeps_chain keeps_failed split: sum.split)
qed

lemma drop_nth_all: "list_all P ts \<Longrightarrow> list_all P (drop_nth i ts)"
  by (auto simp: list_all_iff dest: dropped_tasks)

fun loads_first_page :: "dash_event \<Rightarrow> bool" where
  "loads_first_page DaPrevious = True"
| "loads_first_page DaAdded = True"
| "loads_first_page DaRetryRefresh = True"
| "loads_first_page _ = False"

lemma keeps_react:
  assumes k: "keeps s s" and e: "\<not> loads_first_page e"
  shows "keeps s (dash_react s e)"
proof -
  have sel: "keeps s (select_period j s)" for j using k by (simp add: select_period_def)
  have nxt: "keeps s (s\<lparr>da_page := Suc (da_page s)\<rparr>)" using k by (simp add: keeps_def later_tasks_def)
  have tog: "keeps s (toggle_status i s)" for i
    using k by (auto simp: toggle_status_def add_task_def keeps_def later_tasks_def split: option.split)
  have ans: "keeps s (answer_task i a s)" for i a
  proof (cases "i < length (da_tasks s) \<and> answers (da_tasks s ! i) a")
    case True
    have l: "list_all (\<lambda>t. \<not> first_page t) (da_tasks s)" using keepsD(2) [OF k] by (simp add: later_tasks_def)
    have "keeps s (s\<lparr>da_tasks := drop_nth i (da_tasks s)\<rparr>)" by (rule keeps_tasks [OF k drop_nth_all [OF l]])
    moreover have "\<not> first_page (da_tasks s ! i)" using l True by (simp add: list_all_length)
    ultimately show ?thesis using True keeps_answered by (simp add: answer_task_def)
  next
    case False
    then show ?thesis using k by (auto simp: answer_task_def)
  qed
  show ?thesis
    using e k sel nxt tog ans keeps_user_effects [OF k]
    by (cases e) (simp_all add: older_period_def newer_period_def current_period_def dash_next_def
        toggle_filter_def keeps_chain split: option.split)
qed

definition later_step :: "dashboard \<Rightarrow> dash_event \<Rightarrow> dashboard" where
  "later_step s e = (if loads_first_page e then s else dash_step s e)"

lemma later_step_keeps: "on_later_page s \<Longrightarrow> keeps s (later_step s e)"
  by (simp add: later_step_def dash_step_def on_later_page_alt keeps_effects keeps_react)

interpretation later_pages: absorbing_machine later_step on_later_page "\<lambda>s. (da_forecast s, da_allTransactions s)"
proof unfold_locales
  fix s e assume "on_later_page s"
  then have "keeps s (later_step s e)" by (rule later_step_keeps)
  then show "on_later_page (later_step s e)"
    "(da_forecast (later_step s e), da_allTransactions (later_step s e)) = (da_forecast s, da_allTransactions s)"
    by (auto simp: keeps_def on_later_page_def later_tasks_def)
qed

lemma later_run: "list_all (\<lambda>e. \<not> loads_first_page e) es \<Longrightarrow> run dash_step s es = run later_step s es"
  by (induction es arbitrary: s) (simp_all add: later_step_def)

text \<open>C31: On a later page of the transaction list, moving to another period does not load that period's
  plan: \<^verbatim>\<open>loadTransactions(p)\<close> asks for the plan, the budgets and the rows of the charts only when
  \<^verbatim>\<open>p\<close> is 0, and no period button resets the page. So until the user pages back, or a refresh
  loads the first page, the tile and the charts keep the plan and the transactions of the old period.\<close>

theorem later_page_keeps_old_plan:
  assumes "da_page s \<noteq> 0" and "list_all (\<lambda>t. \<not> first_page t) (da_tasks s)"
    and "list_all (\<lambda>e. \<not> loads_first_page e) es"
  shows "da_forecast (run dash_step s es) = da_forecast s \<and> da_allTransactions (run dash_step s es) = da_allTransactions s"
  using later_pages.run_obs [of s es] assms by (simp add: on_later_page_def later_run)

definition demo_may_plan :: forecast_plan where
  "demo_may_plan = \<lparr>fp_id = 1, fp_billing_period_id = 2, fp_period_start = ''2026-05-01'', fp_period_end = None,
     fp_status = PlanActive, fp_total_planned_income = 0, fp_total_planned_expense = 100,
     fp_total_actual_income = 0, fp_total_actual_expense = 0, fp_items = []\<rparr>"

definition demo_second_page :: dashboard where
  "demo_second_page = demo_mounted\<lparr>da_periods := demo_periods, da_page := 1, da_fetching := False, da_forecast := Some demo_may_plan\<rparr>"

text \<open>April is selected, the plan shown is that of May.\<close>

theorem later_page_keeps_old_plan_witness:
  "realPeriodStart (run dash_step demo_second_page [DaOlder]) = Some ''2026-04-01''
   \<and> map_option fp_period_start (da_forecast (run dash_step demo_second_page [DaOlder])) = Some ''2026-05-01''"
proof
  show "realPeriodStart (run dash_step demo_second_page [DaOlder]) = Some ''2026-04-01''"
    by (simp add: dash_step_def demo_second_page_def older_period_def select_period_def demo_mounted_facts
        realPeriodStart_def [of "_\<lparr>da_chartFilter := _\<rparr>"] da_selected_def demo_periods_def demo_period_def)
  have f: "da_forecast (run dash_step demo_second_page [DaOlder]) = da_forecast demo_second_page"
    using later_page_keeps_old_plan [of demo_second_page "[DaOlder]"] by (simp add: demo_second_page_def demo_mounted_facts)
  show "map_option fp_period_start (da_forecast (run dash_step demo_second_page [DaOlder])) = Some ''2026-05-01''"
    unfolding f by (simp add: demo_second_page_def demo_may_plan_def)
qed

subsection \<open>The status pill and another period\<close>

definition proj_core :: "dashboard \<Rightarrow> nat \<times> (string \<times> projection) option \<times> bool" where
  "proj_core s = (da_projReq s, da_projection s, da_projectionFailed s)"

definition extends :: "dashboard \<Rightarrow> dashboard \<Rightarrow> bool" where
  "extends s t \<longleftrightarrow> (\<exists>us. da_tasks t = da_tasks s @ us) \<and> proj_core t = proj_core s"

lemma extends_refl: "extends s s"
  by (simp add: extends_def)

lemma extends_trans: "extends s t \<Longrightarrow> extends t u \<Longrightarrow> extends s u"
  unfolding extends_def by (metis append_assoc)

lemma extends_loads:
  "extends s (start_tx c p v s)" "extends s (pending_begin b s)" "extends s (settle_batch b r s)"
  "extends s (s\<lparr>da_fetching := x\<rparr>)" "extends s (s\<lparr>da_acctReq := n, da_acctError := e\<rparr>)"
  "extends s (s\<lparr>da_acctReq := n, da_acctError := e, da_acct := ac\<rparr>)"
  by (auto simp: extends_def proj_core_def start_tx_def pending_begin_def add_task_def settle_batch_def Let_def
      split: option.split)

lemma extends_acct: "extends s (acct_begin v b s)"
proof (cases "real_start v \<and> pv_current v")
  case True
  then show ?thesis by (simp add: acct_begin_def add_task_def Let_def extends_def proj_core_def)
next
  case False
  then have "acct_begin v b s = settle_batch b False (s\<lparr>da_acctReq := Suc (da_acctReq s), da_acctError := False, da_acct := None\<rparr>)"
    by (auto simp: acct_begin_def Let_def)
  then show ?thesis using extends_trans [OF extends_loads(6) extends_loads(3)] by simp
qed

lemma extends_effects:
  assumes "realPeriodStart s = realPeriodStart old"
  shows "extends s (dash_effects old s)"
proof -
  have t: "extends s (tx_effect old s)"
    using extends_trans [OF extends_loads(4) extends_loads(1)] extends_refl by (simp add: tx_effect_def Let_def)
  have "realPeriodStart (tx_effect old s) = realPeriodStart s" by (rule period_inputs_start) simp
  then have p: "projection_effect old (tx_effect old s) = tx_effect old s" by (simp add: projection_effect_def Let_def assms)
  have "extends u (acct_effect old u)" for u by (simp add: acct_effect_def Let_def extends_acct extends_refl)
  then show ?thesis using t p extends_trans by (metis dash_effects_def)
qed

lemma set_refs_tasks: "da_tasks (set_refs r s) = da_tasks s"
  by (simp add: set_refs_def Let_def)

lemma length_drop_nth: "i < length xs \<Longrightarrow> length (drop_nth i xs) = length xs - 1"
  by (simp add: drop_nth_def)

text \<open>C30: The handler of the status pill reloads the projection with the period it saw when it was pressed. If
  the user has meanwhile gone to the current period, the reload of the reference data leaves him there,
  and the projection that is fetched and shown in the end is the one of the period he left: no
  effect fetches another, because the selected period did not change.\<close>

theorem status_pill_brings_back_other_projection:
  assumes "i < length (da_tasks s)" and "da_tasks s ! i = TkRefs (RefsOfToggle v)" and "pv_start v = Some d" and "d \<noteq> []"
    and "dr_periods r = Some pl" and "index_of is_open pl = Some k" and "realPeriodStart s = Some (bp_start_date (pl ! k))"
  shows "let t = dash_step (dash_step s (DaAnswer i (AnRefs (Inr r)))) (DaAnswer (length (da_tasks s) - 1) (AnProj (Inr pj)))
    in da_projection t = Some (d, pj) \<and> realPeriodStart t = Some (bp_start_date (pl ! k))"
proof -
  define s0 where "s0 = set_refs r (s\<lparr>da_tasks := drop_nth i (da_tasks s)\<rparr>)"
  define s1 where "s1 = projection_begin v None s0"
  define s2 where "s2 = toggle_rest v s0"
  define t where "t = dash_step s (DaAnswer i (AnRefs (Inr r)))"
  let ?n = "Suc (da_projReq s0)" and ?j = "length (da_tasks s) - 1"
  have "realPeriodStart s0 = Some (bp_start_date (pl ! k))" using index_of_Some [OF assms(6)]
    by (auto simp: s0_def realPeriodStart_def da_selected_def set_refs_def Let_def assms(5,6))
  moreover have "realPeriodStart s2 = realPeriodStart s0" unfolding s2_def by (rule period_inputs_start) simp
  ultimately have st: "realPeriodStart s2 = realPeriodStart s" using assms(7) by simp
  have t: "t = dash_effects s s2"
    using assms(1,2) by (simp add: t_def s2_def s0_def dash_step_def answer_task_def dash_refs_answered_def)
  have "extends s1 s2" unfolding s2_def s1_def toggle_rest_def by (rule extends_trans [OF extends_acct extends_loads(2)])
  then have ext: "extends s1 t" unfolding t by (rule extends_trans [OF _ extends_effects [OF st]])
  have s1: "da_tasks s1 = da_tasks s0 @ [TkProj ?n d None]" "da_projReq s1 = ?n"
    using assms(3,4) by (simp_all add: s1_def projection_begin_def real_start_def add_task_def Let_def)
  have len: "length (da_tasks s0) = ?j" using assms(1) by (simp add: s0_def set_refs_tasks length_drop_nth)
  obtain us where us: "da_tasks t = da_tasks s1 @ us" using ext by (auto simp: extends_def)
  then have task: "da_tasks t ! ?j = TkProj ?n d None" "?j < length (da_tasks t)" by (simp_all add: s1(1) len nth_append)
  have req: "da_projReq t = ?n" using ext s1(2) by (simp add: extends_def proj_core_def)
  define u where "u = answer_task ?j (AnProj (Inr pj)) t"
  have u: "da_projection u = Some (d, pj)" "period_inputs u = period_inputs t"
    using task req by (simp_all add: u_def answer_task_def projection_settles_def settle_batch_def period_inputs_def)
  then have ust: "realPeriodStart u = realPeriodStart t" by (intro period_inputs_start)
  have "da_projection (dash_effects t u) = Some (d, pj)" using effects_same_period [OF ust] u(1) by simp
  moreover have "realPeriodStart t = Some (bp_start_date (pl ! k))" using assms(7) st by (simp add: t)
  ultimately show ?thesis unfolding t_def [symmetric] dash_step_def [of t] dash_react.simps u_def [symmetric] Let_def using ust by simp
qed

definition april_view :: period_view where
  "april_view = \<lparr>pv_start = Some ''2026-04-01'', pv_from = ''2026-04-01'', pv_to = ''2026-04-30'', pv_current = False\<rparr>"

definition demo_toggling :: dashboard where
  "demo_toggling = demo_mounted\<lparr>da_tasks := [TkRefs (RefsOfToggle april_view)], da_periods := demo_periods\<rparr>"

text \<open>A pill was pressed in April, then the user went to May.\<close>

theorem status_pill_brings_back_other_projection_witness:
  "let t = dash_step (dash_step demo_toggling (DaAnswer 0 (AnRefs (Inr demo_refs)))) (DaAnswer 0 (AnProj (Inr (demo_projection ''1''))))
   in da_projection t = Some (''2026-04-01'', demo_projection ''1'') \<and> realPeriodStart t = Some ''2026-05-01''"
proof -
  have "length (da_tasks demo_toggling) - 1 = 0" by (simp add: demo_toggling_def)
  moreover have "bp_start_date (demo_periods ! 0) = ''2026-05-01''" by (simp add: demo_periods_def demo_period_def)
  moreover have "realPeriodStart demo_toggling = Some (bp_start_date (demo_periods ! 0))"
    by (simp add: demo_toggling_def realPeriodStart_def da_selected_def demo_mounted_facts demo_periods_def)
  moreover have "index_of is_open demo_periods = Some 0"
    by (simp add: demo_periods_def demo_period_def index_of_def is_open_def)
  ultimately show ?thesis
    using status_pill_brings_back_other_projection [of 0 demo_toggling april_view "''2026-04-01''" demo_refs demo_periods 0 "demo_projection ''1''"]
    by (simp add: demo_toggling_def april_view_def demo_refs_def)
qed

end
