(* ===== verification/Dashboard_Refresh.thy ===== *)
theory Dashboard_Refresh
  imports Dashboard_Moves
begin

section \<open>The dashboard: every refresh ends\<close>

text \<open>
  A refresh waits for five loads (\<^verbatim>\<open>Promise.allSettled\<close>); some end at once, the others
  when their request is answered. The books balance: for each refresh under way, the
  members it still waits for are exactly its requests under way. So the retry button
  cannot stay disabled.
\<close>

fun task_batch :: "dash_task \<Rightarrow> nat option" where
  "task_batch (TkRefs (RefsOfRefresh n)) = Some n"
| "task_batch (TkTx (TxOfRefresh n) _ _) = Some n"
| "task_batch (TkPending _ b) = b"
| "task_batch (TkProj _ _ b) = b"
| "task_batch (TkAcct _ _ b) = b"
| "task_batch _ = None"

definition batch_count :: "nat \<Rightarrow> dash_task list \<Rightarrow> nat" where
  "batch_count n ts = length (filter (\<lambda>t. task_batch t = Some n) ts)"

lemma batch_count_append [simp]: "batch_count n (ts @ us) = batch_count n ts + batch_count n us"
  by (simp add: batch_count_def)

lemma batch_count_Cons [simp]: "batch_count n (t # us) = (if task_batch t = Some n then 1 else 0) + batch_count n us"
  by (simp add: batch_count_def)

lemma batch_count_Nil [simp]: "batch_count n [] = 0"
  by (simp add: batch_count_def)

lemma batch_count_drop:
  "i < length ts \<Longrightarrow> batch_count n ts = batch_count n (drop_nth i ts) + (if task_batch (ts ! i) = Some n then 1 else 0)"
proof -
  assume "i < length ts"
  then have "batch_count n ts = batch_count n (take i ts @ ts ! i # drop (Suc i) ts)" by (simp only: id_take_nth_drop [symmetric])
  then show ?thesis by (simp add: drop_nth_def)
qed

text \<open>
  \<open>e n\<close> is the number of members of refresh \<open>n\<close> that are neither under way nor settled:
  0 between two steps.
\<close>

definition members :: "(nat \<times> nat \<times> bool) list \<Rightarrow> nat \<Rightarrow> nat" where
  "members bs n = (case map_of bs n of Some e \<Rightarrow> fst e | None \<Rightarrow> 0)"

definition books_of :: "(nat \<Rightarrow> nat) \<Rightarrow> dash_task list \<Rightarrow> (nat \<times> nat \<times> bool) list \<Rightarrow> nat \<Rightarrow> bool \<Rightarrow> bool" where
  "books_of e ts bs nx rf \<longleftrightarrow> (\<forall>n. members bs n = batch_count n ts + e n)
     \<and> (\<forall>x \<in> set bs. 0 < fst (snd x) \<and> fst x < nx) \<and> (rf \<longrightarrow> bs \<noteq> [])"

definition books :: "(nat \<Rightarrow> nat) \<Rightarrow> dashboard \<Rightarrow> bool" where
  "books e s = books_of e (da_tasks s) (da_batches s) (da_nextBatch s) (da_refreshing s)"

definition less_one :: "nat option \<Rightarrow> (nat \<Rightarrow> nat) \<Rightarrow> nat \<Rightarrow> nat" where
  "less_one b e = (case b of None \<Rightarrow> e | Some n \<Rightarrow> e(n := e n - 1))"

definition more_one :: "nat option \<Rightarrow> (nat \<Rightarrow> nat) \<Rightarrow> nat \<Rightarrow> nat" where
  "more_one b e = (case b of None \<Rightarrow> e | Some n \<Rightarrow> e(n := e n + 1))"

definition owed :: "nat option \<Rightarrow> (nat \<Rightarrow> nat) \<Rightarrow> bool" where
  "owed b e \<longleftrightarrow> (case b of None \<Rightarrow> True | Some n \<Rightarrow> 0 < e n)"

lemma one_simps [simp]: "less_one None e = e" "more_one None e = e" "owed None e"
  "owed b (more_one b e)" "less_one b (more_one b e) = e"
  by (auto simp: less_one_def more_one_def owed_def split: option.split)

lemma books_task: "books_of e ts bs nx rf \<Longrightarrow> owed (task_batch t) e \<Longrightarrow> books_of (less_one (task_batch t) e) (ts @ [t]) bs nx rf"
  unfolding books_of_def by (cases "task_batch t") (auto simp: less_one_def owed_def)

lemma books_dropped:
  assumes "books_of e ts bs nx rf" and "i < length ts"
  shows "books_of (more_one (task_batch (ts ! i)) e) (drop_nth i ts) bs nx rf"
proof -
  have "batch_count n (drop_nth i ts) + more_one (task_batch (ts ! i)) e n = batch_count n ts + e n" for n
    using batch_count_drop [OF assms(2), of n] by (auto simp: more_one_def split: option.split)
  then show ?thesis using assms(1) by (simp add: books_of_def)
qed

lemma members_removed: "members (filter (\<lambda>e. fst e \<noteq> n) bs) k = (if k = n then 0 else members bs k)"
proof -
  have "map_of (filter (\<lambda>e. fst e \<noteq> n) bs) k = (if k = n then None else map_of bs k)" by (induction bs) auto
  then show ?thesis by (simp add: members_def)
qed

lemma members_Cons: "members ((n, left, bad) # bs) k = (if k = n then left else members bs k)"
  by (simp add: members_def)

lemma books_settled:
  assumes "books_of e ts bs nx rf" and "map_of bs n = Some (left, bad)" and "0 < e n"
  shows "left \<le> 1 \<Longrightarrow> books_of (e(n := e n - 1)) ts (filter (\<lambda>x. fst x \<noteq> n) bs) nx False"
    and "\<not> left \<le> 1 \<Longrightarrow> books_of (e(n := e n - 1)) ts ((n, left - 1, bad') # filter (\<lambda>x. fst x \<noteq> n) bs) nx rf"
proof -
  have l: "left = batch_count n ts + e n" using assms(1,2) unfolding books_of_def members_def by (metis fst_conv option.simps(5))
  have nx: "n < nx" using assms(1) map_of_SomeD [OF assms(2)] by (auto simp: books_of_def)
  show "books_of (e(n := e n - 1)) ts (filter (\<lambda>x. fst x \<noteq> n) bs) nx False" if "left \<le> 1"
    using assms(1,3) l that by (auto simp: books_of_def members_removed)
  show "books_of (e(n := e n - 1)) ts ((n, left - 1, bad') # filter (\<lambda>x. fst x \<noteq> n) bs) nx rf" if "\<not> left \<le> 1"
    using assms(1,3) l that nx by (auto simp: books_of_def members_removed members_Cons)
qed

lemma books_entry: "books_of e ts bs nx rf \<Longrightarrow> 0 < e n \<Longrightarrow> \<exists>left bad. map_of bs n = Some (left, bad)"
  unfolding books_of_def members_def by (metis add_is_0 not_gr_zero option.exhaust option.simps(4) surj_pair)

lemma books_settle: "books e s \<Longrightarrow> owed b e \<Longrightarrow> books (less_one b e) (settle_batch b r s)"
proof (cases b)
  case (Some n)
  assume b: "books e s" "owed b e"
  then have e: "0 < e n" by (simp add: Some owed_def)
  then obtain left bad where m: "map_of (da_batches s) n = Some (left, bad)"
    using books_entry [OF b(1) [unfolded books_def]] by blast
  note st = books_settled [OF b(1) [unfolded books_def] m e]
  show ?thesis
    using st(1) st(2) [of "bad \<or> r"] by (auto simp: settle_batch_def Some m Let_def books_def less_one_def)
qed (simp add: settle_batch_def)

lemma books_add: "books e s \<Longrightarrow> owed (task_batch t) e \<Longrightarrow> books (less_one (task_batch t) e) (add_task t rs s)"
  unfolding books_def add_task_def by (simp add: books_task)

lemma books_start_refs: "books e s \<Longrightarrow> owed (task_batch (TkRefs a)) e \<Longrightarrow> books (less_one (task_batch (TkRefs a)) e) (start_refs a s)"
  unfolding start_refs_def by (rule books_add)

lemma books_start_tx:
  "books e s \<Longrightarrow> owed (task_batch (TkTx a p v)) e \<Longrightarrow> books (less_one (task_batch (TkTx a p v)) e) (start_tx a p v s)"
  unfolding start_tx_def by (rule books_add)

lemma books_same: "books e s \<Longrightarrow> da_tasks t = da_tasks s \<Longrightarrow> da_batches t = da_batches s \<Longrightarrow> da_nextBatch t = da_nextBatch s
    \<Longrightarrow> da_refreshing t = da_refreshing s \<Longrightarrow> books e t"
  by (simp add: books_def)

lemma books_pending: "books e s \<Longrightarrow> owed b e \<Longrightarrow> books (less_one b e) (pending_begin b s)"
  using books_add [of e "s\<lparr>da_pendingReq := Suc (da_pendingReq s)\<rparr>" "TkPending (Suc (da_pendingReq s)) b"]
  by (simp add: pending_begin_def books_def)

lemma books_projection: "books e s \<Longrightarrow> owed b e \<Longrightarrow> books (less_one b e) (projection_begin v b s)"
proof (cases "real_start v")
  case True
  assume b: "books e s" "owed b e"
  let ?s1 = "s\<lparr>da_projReq := Suc (da_projReq s), da_projection := None, da_projectionFailed := False, da_projectionLoading := True\<rparr>"
  have "books e ?s1" by (rule books_same [OF b(1)]) simp_all
  then show ?thesis using True b(2) books_add [of e ?s1 "TkProj (Suc (da_projReq s)) (the (pv_start v)) b"]
    by (simp add: projection_begin_def Let_def)
next
  case False
  assume b: "books e s" "owed b e"
  let ?s1 = "s\<lparr>da_projReq := Suc (da_projReq s), da_projection := None, da_projectionFailed := False, da_projectionLoading := False\<rparr>"
  have "books e ?s1" by (rule books_same [OF b(1)]) simp_all
  then show ?thesis using False b(2) books_settle [of e ?s1 b False] by (simp add: projection_begin_def Let_def)
qed

lemma books_acct: "books e s \<Longrightarrow> owed b e \<Longrightarrow> books (less_one b e) (acct_begin v b s)"
proof (cases "real_start v \<and> pv_current v")
  case True
  assume b: "books e s" "owed b e"
  let ?s1 = "s\<lparr>da_acctReq := Suc (da_acctReq s), da_acctError := False\<rparr>"
  have "books e ?s1" by (rule books_same [OF b(1)]) simp_all
  then show ?thesis using True b(2) books_add [of e ?s1 "TkAcct (Suc (da_acctReq s)) (the (pv_start v)) b"]
    by (simp add: acct_begin_def Let_def)
next
  case False
  assume b: "books e s" "owed b e"
  let ?s1 = "s\<lparr>da_acctReq := Suc (da_acctReq s), da_acctError := False, da_acct := None\<rparr>"
  have "books e ?s1" by (rule books_same [OF b(1)]) simp_all
  then show ?thesis using False b(2) books_settle [of e ?s1 b False] by (simp only: acct_begin_def Let_def) simp
qed

lemma books_updates [simp]:
  "books e (s\<lparr>da_fetching := x\<rparr>) = books e s" "books e (s\<lparr>da_error := y\<rparr>) = books e s"
  "books e (s\<lparr>da_chartFilter := f\<rparr>) = books e s" "books e (s\<lparr>da_periodIdx := k\<rparr>) = books e s"
  "books e (s\<lparr>da_page := k\<rparr>) = books e s" "books e (s\<lparr>da_refreshError := r\<rparr>) = books e s"
  by (simp_all add: books_def)

lemma books_sets:
  "books e (set_refs rs s) = books e s" "books e (set_tx p x s) = books e s" "books e (pending_settles i q s) = books e s"
  "books e (projection_settles i y s) = books e s" "books e (acct_settles i z s) = books e s"
  by (auto simp: books_def set_refs_def set_tx_def Let_def pending_settles_def projection_settles_def acct_settles_def split: sum.split)

lemma books_toggle: "books e s \<Longrightarrow> books e (toggle_rest v s)" "books e s \<Longrightarrow> books e (toggle_failed x s)"
  using books_pending [of e _ None] books_acct [of e _ None] books_projection [of e _ None]
  by (simp_all add: toggle_rest_def toggle_failed_def)

subsection \<open>Steps\<close>

lemma books_effects: "books e s \<Longrightarrow> books e (dash_effects old s)"
proof -
  assume b: "books e s"
  have tx: "books e (tx_effect old s)"
    using b books_start_tx [of e "s\<lparr>da_fetching := True\<rparr>" TxEffect] by (simp add: tx_effect_def Let_def)
  then have "books e (projection_effect old (tx_effect old s))"
    using books_projection [of e _ None] by (simp add: projection_effect_def Let_def)
  then show ?thesis using books_acct [of e _ None] by (simp add: dash_effects_def acct_effect_def Let_def)
qed

lemma books_user: "books e s \<Longrightarrow> books e (user_effects s)"
proof -
  assume b: "books e s"
  let ?s1 = "pending_begin None (start_refs RefsEffect s)"
  have s1: "books e ?s1" using books_pending [of e _ None] books_start_refs [OF b, of RefsEffect] by simp
  then have "books e (start_tx TxEffect p v (?s1\<lparr>da_fetching := True\<rparr>))" for p v
    using books_start_tx [of e "?s1\<lparr>da_fetching := True\<rparr>" TxEffect p v] by simp
  then show ?thesis
    using s1 books_acct [of e _ None] books_projection [of e _ None] by (simp add: user_effects_def Let_def)
qed

abbreviation none_owed :: "nat \<Rightarrow> nat" where
  "none_owed \<equiv> \<lambda>_. 0"

lemma books_new_refresh:
  assumes "books none_owed s"
  shows "books (none_owed(da_nextBatch s := 5))
    (s\<lparr>da_refreshing := True, da_nextBatch := Suc (da_nextBatch s), da_batches := (da_nextBatch s, 5, False) # da_batches s\<rparr>)"
proof -
  let ?b = "da_nextBatch s"
  have m: "\<And>n. members (da_batches s) n = batch_count n (da_tasks s)" "\<And>x. x \<in> set (da_batches s) \<Longrightarrow> 0 < fst (snd x) \<and> fst x < ?b"
    using assms by (auto simp: books_def books_of_def)
  have "map_of (da_batches s) ?b = None" using m(2) by (fastforce simp: map_of_eq_None_iff)
  then have "batch_count ?b (da_tasks s) = 0" using m(1) [of ?b] by (simp add: members_def)
  then show ?thesis using m by (auto simp: books_def books_of_def members_Cons intro: less_SucI)
qed

lemma books_refresh: "books none_owed s \<Longrightarrow> books none_owed (refreshAllPostWrite s)"
proof -
  assume b: "books none_owed s"
  let ?n = "da_nextBatch s" and ?v = "dash_view s"
  let ?e = "\<lambda>k. none_owed(?n := k)"
  define s1 where "s1 = s\<lparr>da_refreshing := True, da_nextBatch := Suc ?n, da_batches := (?n, 5, False) # da_batches s\<rparr>"
  have less: "less_one (Some ?n) (?e k) = ?e (k - 1)" for k by (auto simp: less_one_def)
  have ow: "0 < k \<Longrightarrow> owed (Some ?n) (?e k)" for k by (simp add: owed_def)
  have 1: "books (?e 5) s1" unfolding s1_def by (rule books_new_refresh [OF b])
  have 2: "books (?e 4) (start_refs (RefsOfRefresh ?n) s1)" using books_start_refs [OF 1, of "RefsOfRefresh ?n"] less [of 5] ow [of 5] by simp
  have 3: "books (?e 3) (start_tx (TxOfRefresh ?n) 0 ?v (start_refs (RefsOfRefresh ?n) s1))" (is "books _ ?s3")
    using books_start_tx [OF 2, of "TxOfRefresh ?n" 0 ?v] less [of 4] ow [of 4] by simp
  have 4: "books (?e 2) (projection_begin ?v (Some ?n) ?s3)" (is "books _ ?s4") using books_projection [OF 3 ow, of ?v] less [of 3] by simp
  have 5: "books (?e 1) (pending_begin (Some ?n) ?s4)" (is "books _ ?s5") using books_pending [OF 4 ow] less [of 2] by simp
  have 6: "books (?e 0) (acct_begin ?v (Some ?n) ?s5)" using books_acct [OF 5 ow, of ?v] less [of 1] by simp
  have "?e 0 = none_owed" by auto
  then show ?thesis using 6 by (simp add: refreshAllPostWrite_def Let_def s1_def)
qed

lemma books_answered:
  assumes b: "books e s" and a: "answers t ans" and e: "e = more_one (task_batch t) none_owed"
  shows "books none_owed (task_answered t ans s)"
proof -
  have settle: "books none_owed (settle_batch b r u)" if "task_batch t = b" "books e u" for b r u
    using books_settle [OF that(2), of b r] that(1) e by simp
  have plain: "books none_owed u" if "task_batch t = None" "books e u" for u using that e by simp
  show ?thesis
  proof (cases t)
    case (TkRefs c)
    then obtain x where "ans = AnRefs x" using a by (cases ans) auto
    then show ?thesis using TkRefs settle plain b books_toggle
      by (cases c; cases x) (simp_all add: dash_refs_answered_def Let_def books_sets)
  next
    case (TkTx c p v)
    have f: "books e (u\<lparr>da_error := y, da_fetching := z\<rparr>) = books e u" for u y z by (simp add: books_def)
    from TkTx obtain x where "ans = AnTx x" using a by (cases ans) auto
    then show ?thesis using TkTx settle plain b books_toggle f books_start_refs [of none_owed _ "RefsOfToggle _"]
      by (cases c; cases x) (simp_all add: tx_answered_def Let_def books_sets)
  next
    case (TkPending i c)
    then obtain x where "ans = AnPending x" using a by (cases ans) auto
    then show ?thesis using TkPending settle b by (simp add: books_sets)
  next
    case (TkProj i d c)
    then obtain x where "ans = AnProj x" using a by (cases ans) auto
    then show ?thesis using TkProj settle b by (simp add: books_sets)
  next
    case (TkAcct i d c)
    then obtain x where "ans = AnAcct x" using a by (cases ans) auto
    then show ?thesis using TkAcct settle b by (simp add: books_sets)
  next
    case (TkPut p v)
    then obtain x where "ans = AnPut x" using a by (cases ans) auto
    then show ?thesis using TkPut plain b books_toggle books_start_tx [of none_owed s "TxOfToggle v" p v]
      by (cases x) simp_all
  qed
qed

lemma books_react: "books none_owed s \<Longrightarrow> books none_owed (dash_react s ev)"
proof -
  assume b: "books none_owed s"
  have ans: "books none_owed (answer_task i x s)" for i x
  proof (cases "i < length (da_tasks s) \<and> answers (da_tasks s ! i) x")
    case True
    have "books (more_one (task_batch (da_tasks s ! i)) none_owed) (s\<lparr>da_tasks := drop_nth i (da_tasks s)\<rparr>)"
      using books_dropped [of none_owed "da_tasks s" _ _ _ i] b True by (simp add: books_def)
    then show ?thesis using True books_answered by (simp add: answer_task_def)
  next
    case False
    then show ?thesis using b by (auto simp: answer_task_def)
  qed
  have tog: "books none_owed (toggle_status i s)" for i
    using b books_add [OF b, of "TkPut _ _"] by (simp add: toggle_status_def split: option.split)
  have "books none_owed (projection_begin (dash_view s) None s)" using books_projection [OF b, of None] by simp
  then show ?thesis
    using b ans tog books_user [OF b] books_refresh [OF b] books_refresh [of "s\<lparr>da_refreshError := False\<rparr>"]
    by (cases ev) (simp_all add: older_period_def newer_period_def current_period_def dash_next_def dash_previous_def
        select_period_def toggle_filter_def split: option.split)
qed

interpretation balanced: step_machine dash_step "books none_owed"
  by unfold_locales (simp add: dash_step_def books_effects books_react)

lemma mount_books: "books none_owed (dash_mount today cycle)"
  unfolding dash_mount_def by (rule books_user) (simp add: books_def books_of_def members_def)

text \<open>C5: A refresh never waits for ever: in every run from the mount, while the banner says that the page is
  refreshing (and the retry button is disabled), a request that this refresh or another is waiting
  for is still under way; members that need no request (no selected period, a period that is not
  the current one) do not hold it up.\<close>

theorem refresh_waits_for_a_request:
  assumes "da_refreshing (run dash_step (dash_mount today cycle) es)"
  shows "list_ex (\<lambda>t. task_batch t \<noteq> None) (da_tasks (run dash_step (dash_mount today cycle) es))"
proof -
  let ?s = "run dash_step (dash_mount today cycle) es"
  have b: "books none_owed ?s" by (rule balanced.run_inv [OF mount_books])
  with assms obtain n left bad where "(n, left, bad) \<in> set (da_batches ?s)"
    by (metis books_def books_of_def list.set_intros(1) neq_Nil_conv surj_pair)
  then obtain x where m: "map_of (da_batches ?s) n = Some x" by (metis weak_map_of_SomeI)
  then have "(n, x) \<in> set (da_batches ?s)" by (rule map_of_SomeD)
  then have "0 < fst x" "members (da_batches ?s) n = batch_count n (da_tasks ?s)"
    using b by (fastforce simp: books_def books_of_def)+
  then have "0 < batch_count n (da_tasks ?s)" using m by (simp add: members_def)
  then show ?thesis unfolding batch_count_def by (auto simp: list_ex_iff filter_empty_conv)
qed

lemma refreshing_effects: "da_refreshing (dash_effects old s) = da_refreshing s"
proof -
  have tx: "da_refreshing (tx_effect old u) = da_refreshing u" for u
    by (simp add: tx_effect_def Let_def start_tx_def add_task_def)
  have pr: "da_refreshing (projection_begin v None u) = da_refreshing u" for v u
    by (simp add: projection_begin_def add_task_def Let_def settle_batch_def)
  have ac: "da_refreshing (acct_begin v None u) = da_refreshing u" for v u
    by (simp add: acct_begin_def add_task_def Let_def settle_batch_def)
  show ?thesis by (simp add: dash_effects_def acct_effect_def projection_effect_def Let_def tx pr ac)
qed

lemma demo_refreshing: "da_refreshing (refreshAllPostWrite demo_mounted)"
proof -
  have v: "\<not> real_start (dash_view demo_mounted)" by (simp add: real_start_def realPeriodStart_def da_selected_def demo_mounted_facts)
  have b: "da_batches demo_mounted = []" "da_nextBatch demo_mounted = 0"
    by (simp_all add: demo_mounted_def dash_mount_def user_effects_def view_defs dash_defs)
  show ?thesis
    by (simp add: refreshAllPostWrite_def Let_def start_refs_def start_tx_def add_task_def projection_begin_def v
        pending_begin_def acct_begin_def settle_batch_def b)
qed

theorem refresh_waits_for_a_request_witness:
  "list_ex (\<lambda>t. task_batch t \<noteq> None) (da_tasks (run dash_step (dash_mount (2026, 5, 14) None) [DaAdded]))"
proof (rule refresh_waits_for_a_request)
  show "da_refreshing (run dash_step (dash_mount (2026, 5, 14) None) [DaAdded])"
    using demo_refreshing by (simp add: demo_mounted_def dash_step_def refreshing_effects)
qed

end
