(* ===== verification/Dashboard_Link.thy ===== *)
theory Dashboard_Link
  imports Dashboard_Refresh
begin

section \<open>The dashboard: deep links\<close>

text \<open>
  The link of a row, read back by the transactions page (Tx_List).
\<close>

text \<open>\<^verbatim>\<open>useSearchParams().get\<close> on a query.\<close>

definition params_get :: "string \<Rightarrow> search_params" where
  "params_get query k = map_of (parse_query query) k"

lemma form_encode_id: "list_all form_safe s \<Longrightarrow> form_encode s = s"
  by (induction s) (simp_all add: form_encode_def form_encode_char_def)

lemma join_amp: "kvs \<noteq> [] \<Longrightarrow> js_join ''&'' (map (\<lambda>kv. fst kv @ ''='' @ snd kv) kvs) = tl (concat (map amp kvs))"
proof (induction kvs rule: list_nonempty_induct)
  case (cons x xs)
  then obtain y ys where xs: "xs = y # ys" by (cases xs) auto
  then have "\<exists>r. concat (map amp xs) = CHR ''&'' # r" by (simp add: amp_def)
  then have ih: "concat (map amp xs) = ''&'' @ js_join ''&'' (map (\<lambda>kv. fst kv @ ''='' @ snd kv) xs)"
    using cons.IH by auto
  have "js_join ''&'' (map (\<lambda>kv. fst kv @ ''='' @ snd kv) (x # xs))
      = (fst x @ ''='' @ snd x) @ ''&'' @ js_join ''&'' (map (\<lambda>kv. fst kv @ ''='' @ snd kv) xs)"
    by (simp add: xs)
  then show ?case by (simp add: ih amp_def [of x])
qed (simp add: amp_def)

lemma serialize_safe:
  assumes "list_all (\<lambda>kv. list_all form_safe (fst kv) \<and> list_all form_safe (snd kv)) kvs" and "kvs \<noteq> []"
  shows "parse_query (''?'' @ serialize_query kvs) = kvs"
proof -
  have safe: "form_safe c \<Longrightarrow> c \<notin> {CHR ''&'', CHR ''%'', CHR ''+'', CHR ''='', CHR ''#''}" for c
    by (auto simp: form_safe_def)
  have plain: "list_all form_safe s \<Longrightarrow> url_plain s \<and> CHR ''='' \<notin> set s \<and> CHR ''&'' \<notin> set s" for s
    using safe by (auto simp: url_plain_def list_all_iff)
  have "serialize_query kvs = js_join ''&'' (map (\<lambda>kv. fst kv @ ''='' @ snd kv) kvs)"
    unfolding serialize_query_def using assms(1)
    by (intro arg_cong [where f = "js_join _"] map_cong refl) (auto simp: list_all_iff [of _ kvs] form_encode_id)
  also have "\<dots> = tl (concat (map amp kvs))" by (rule join_amp [OF assms(2)])
  finally have "parse_query (''?'' @ serialize_query kvs) = map (\<lambda>kv. (fst kv, form_decode (snd kv))) kvs"
    using parse_params [of kvs] assms plain by (auto simp: list_all_iff [of _ kvs])
  also have "\<dots> = kvs" using assms(1) plain by (intro map_idI) (auto simp: list_all_iff [of _ kvs] form_decode_plain)
  finally show ?thesis .
qed

lemma safe_numeral: "0 < i \<Longrightarrow> list_all form_safe (show_int i)"
proof -
  have "is_digit c \<Longrightarrow> form_safe c" for c by (simp add: is_digit_def form_safe_def Let_def)
  then show "0 < i \<Longrightarrow> ?thesis" using show_nat_digits [of "nat i"] by (auto simp: show_int_def list_all_iff)
qed

lemma safe_date: "date_param d \<Longrightarrow> list_all form_safe d"
proof -
  assume d: "date_param d"
  have dig: "is_digit c \<Longrightarrow> form_safe c" for c by (simp add: is_digit_def form_safe_def Let_def)
  have "length d = 10" using d by (simp add: date_param_def)
  then obtain a b c e f g h i j k where "d = [a, b, c, e, f, g, h, i, j, k]"
    by (auto simp: length_Suc_conv numeral_eq_Suc)
  then show ?thesis using d dig by (simp add: date_param_def) (simp add: form_safe_def)
qed

lemma safe_id: "0 < i \<Longrightarrow> show_int i \<noteq> []"
  using js_Number_show_nat [of "nat i"] by (auto simp: show_int_def js_Number_def Let_def js_trim_def)

lemma positive_numeral: "0 < i \<Longrightarrow> positive_id (Some (show_int i)) = Some (of_int i)"
  by (simp add: positive_id_def show_int_def js_Number_show_nat)

text \<open>C8: The link of a dashboard row leads to the row: read back by the transactions page, its query names the
  row as the one to highlight, and makes the filters of the row's account and of the single day
  under which the backend files it (\<^verbatim>\<open>COALESCE(settled_date, date)\<close>), with the period filter off.\<close>

theorem highlight_link_lands_on_row:
  assumes "0 < tx_id t" and "0 < tx_account_id t" and "date_param (effectiveDate t)"
  shows "let get = params_get (drop (length ''/transactions'') (transactionHighlightHref t)) in
    targetTransactionId get = Some (of_int (tx_id t))
    \<and> url_patch get = [(''filterAccount'', JInt (tx_account_id t)), (''filterDateFrom'', JStr (effectiveDate t)),
        (''filterPeriod'', JStr []), (''filterDateTo'', JStr (effectiveDate t))]"
proof -
  have safe: "list_all (\<lambda>kv. list_all form_safe (fst kv) \<and> list_all form_safe (snd kv)) (highlight_params t)"
    using safe_numeral [OF assms(1)] safe_numeral [OF assms(2)] safe_date [OF assms(3)]
    by (simp add: highlight_params_def) (simp add: form_safe_def)
  have "drop (length ''/transactions'') (transactionHighlightHref t) = ''?'' @ serialize_query (highlight_params t)"
    by (simp add: transactionHighlightHref_def)
  then have get: "params_get (drop (length ''/transactions'') (transactionHighlightHref t)) = map_of (highlight_params t)"
    using serialize_safe [OF safe] by (simp add: params_get_def highlight_params_def fun_eq_iff)
  have "show_int (tx_id t) \<noteq> []" using safe_id [OF assms(1)] by auto
  moreover have "effectiveDate t \<noteq> []" using assms(3) by (auto simp: date_param_def)
  ultimately show ?thesis
    unfolding get Let_def using positive_numeral assms
    by (simp add: targetTransactionId_def url_patch_def date_patch_def highlight_params_def obj_spread_def obj_put_def)
qed

theorem highlight_link_lands_on_row_witness:
  "targetTransactionId (params_get (drop (length ''/transactions'') (transactionHighlightHref demo_tx))) = Some (of_int (tx_id demo_tx))"
  using highlight_link_lands_on_row [of demo_tx] by (simp add: Let_def demo_tx_def effectiveDate_def date_param_def is_digit_def)

end
