(* ===== verification/Dashboard_Spending.thy ===== *)
theory Dashboard_Spending
  imports Dashboard_Figures Tx_List_Props
begin

section \<open>The spending card: properties\<close>

text \<open>
  The figures of the card, which the page adds up in binary64, against the exact sums; and
  what a category does to them whose name every JavaScript object has.
\<close>

subsection \<open>The table\<close>

definition plain_names :: "transaction list \<Rightarrow> bool" where
  "plain_names ts \<longleftrightarrow> list_all (\<lambda>t. tx_category_name t \<notin> set inherited_names) ts"

definition tally_rows :: "transaction list \<Rightarrow> tally \<Rightarrow> tally" where
  "tally_rows ts t = foldl (\<lambda>acc t. tally_add (tx_category_name t) (tx_amount t) acc) t ts"

text \<open>The amounts of a category, in the order of the rows.\<close>

definition amounts_of :: "string \<Rightarrow> transaction list \<Rightarrow> rat list" where
  "amounts_of n ts = map tx_amount (filter (\<lambda>r. tx_category_name r = n) ts)"

lemma tally_put_map: "map_of (tally_put k v t) = (map_of t)(k \<mapsto> v)"
  by (induction k v t rule: tally_put.induct) (auto simp: fun_eq_iff)

lemma tally_put_keys: "distinct (map fst t) \<Longrightarrow>
    distinct (map fst (tally_put k v t)) \<and> fst ` set (tally_put k v t) = insert k (fst ` set t)"
  by (induction k v t rule: tally_put.induct) auto

text \<open>One row, whose name is not one that every object has.\<close>

lemma tally_add_map: "k \<notin> set inherited_names \<Longrightarrow> map_of (tally_add k q t) = (map_of t)(k \<mapsto>
    (case map_of t k of Some v \<Rightarrow> map_option (\<lambda>x. double_add x (double_of q)) v | None \<Rightarrow> Some (double_add 0 (double_of q))))"
  by (auto simp: tally_add_def tally_put_map inherited_names_def split: option.split)

lemma tally_add_keys: "k \<notin> set inherited_names \<Longrightarrow> distinct (map fst t) \<Longrightarrow>
    distinct (map fst (tally_add k q t)) \<and> fst ` set (tally_add k q t) = insert k (fst ` set t)"
  using tally_put_keys [of t k] by (auto simp: tally_add_def inherited_names_def split: option.split)

lemma tally_rows_Cons: "tally_rows (r # ts) t = tally_rows ts (tally_add (tx_category_name r) (tx_amount r) t)"
  by (simp add: tally_rows_def)

lemma plain_names_Cons [simp]: "plain_names (r # ts) \<longleftrightarrow> tx_category_name r \<notin> set inherited_names \<and> plain_names ts"
  by (simp add: plain_names_def)

lemma tally_rows_keys: "plain_names ts \<Longrightarrow> distinct (map fst t) \<Longrightarrow>
    distinct (map fst (tally_rows ts t)) \<and> fst ` set (tally_rows ts t) = tx_category_name ` set ts \<union> fst ` set t"
proof (induction ts arbitrary: t)
  case (Cons r ts)
  then show ?case using tally_add_keys [of "tx_category_name r" t "tx_amount r"] by (auto simp: tally_rows_Cons)
qed (simp add: tally_rows_def)

text \<open>The entry of a category is the fold of the page's addition over its amounts.\<close>

definition page_sum :: "rat \<Rightarrow> rat list \<Rightarrow> rat" where
  "page_sum x qs = foldl (\<lambda>s q. double_add s (double_of q)) x qs"

lemma tally_rows_get:
  assumes "plain_names ts" and "\<forall>v. map_of t n = Some v \<longrightarrow> v \<noteq> None"
  shows "map_of (tally_rows ts t) n = (if amounts_of n ts = [] then map_of t n
    else Some (Some (page_sum (case map_of t n of Some (Some x) \<Rightarrow> x | _ \<Rightarrow> 0) (amounts_of n ts))))"
  using assms
proof (induction ts arbitrary: t)
  case (Cons r ts)
  let ?t = "tally_add (tx_category_name r) (tx_amount r) t"
  have t: "map_of ?t = (map_of t)(tx_category_name r \<mapsto> (case map_of t (tx_category_name r) of
      Some v \<Rightarrow> map_option (\<lambda>x. double_add x (double_of (tx_amount r))) v | None \<Rightarrow> Some (double_add 0 (double_of (tx_amount r)))))"
    using Cons.prems by (simp add: tally_add_map)
  have "\<forall>v. map_of ?t n = Some v \<longrightarrow> v \<noteq> None" using Cons.prems by (auto simp: t split: option.split)
  then have ih: "map_of (tally_rows (r # ts) t) n = (if amounts_of n ts = [] then map_of ?t n
      else Some (Some (page_sum (case map_of ?t n of Some (Some x) \<Rightarrow> x | _ \<Rightarrow> 0) (amounts_of n ts))))"
    using Cons.IH [of ?t] Cons.prems by (simp add: tally_rows_Cons)
  show ?case
  proof (cases "tx_category_name r = n")
    case True
    have "\<exists>x. map_of t n = Some (Some x)" if "map_of t n \<noteq> None" using Cons.prems(2) that by auto
    then show ?thesis unfolding ih using True
      by (cases "map_of t n") (auto simp: t amounts_of_def page_sum_def)
  qed (unfold ih, simp add: t amounts_of_def)
qed (simp add: tally_rows_def amounts_of_def)

lemma entries_mset: "mset (tally_entries t) = mset t"
  by (simp add: tally_entries_def)

lemma donut_mset: "mset (donutDataRaw ts) = mset (spendingByCategory ts)"
  by (simp add: donutDataRaw_def entries_mset)

lemma spending_rows_of: "spendingByCategory ts = tally_rows (filter is_spending ts) []"
  by (simp add: spendingByCategory_def tally_rows_def)

lemma donut_keys:
  assumes "plain_names (filter is_spending ts)"
  shows "distinct (map fst (donutDataRaw ts)) \<and> fst ` set (donutDataRaw ts) = tx_category_name ` set (filter is_spending ts)"
proof -
  have "mset (map fst (donutDataRaw ts)) = mset (map fst (spendingByCategory ts))" using donut_mset by (simp add: mset_map)
  then have "distinct (map fst (donutDataRaw ts)) = distinct (map fst (spendingByCategory ts))" by (rule mset_eq_imp_distinct_iff)
  moreover have "set (donutDataRaw ts) = set (spendingByCategory ts)" using donut_mset by (rule mset_eq_setD)
  ultimately show ?thesis
    using tally_rows_keys [OF assms, of "[]"] by (simp add: spending_rows_of)
qed

lemma donut_value:
  assumes "plain_names (filter is_spending ts)" and "(n, v) \<in> set (donutDataRaw ts)"
  shows "v = Some (page_sum 0 (amounts_of n (filter is_spending ts)))"
proof -
  have "(n, v) \<in> set (spendingByCategory ts)" using assms(2) mset_eq_setD [OF donut_mset [of ts]] by simp
  moreover have "distinct (map fst (spendingByCategory ts))"
    using tally_rows_keys [OF assms(1), of "[]"] by (simp add: spending_rows_of)
  ultimately have "map_of (tally_rows (filter is_spending ts) []) n = Some v" by (simp add: spending_rows_of)
  then show ?thesis using tally_rows_get [OF assms(1), of "[]" n] by (auto split: if_splits)
qed

subsection \<open>The error\<close>

lemma near_values: "list_all money qs \<Longrightarrow> list_all2 (near 1) qs (map double_of qs)"
  by (induction qs) (auto simp: list_all2_Cons1 dest!: near_round [OF near_self, simplified])

lemma near_page_sum:
  assumes "list_all money qs" and "length qs < 2 ^ 52"
  shows "near (Suc (length qs)) (sum_list qs) (page_sum 0 qs)"
proof -
  have "page_sum 0 qs = foldl double_add 0 (map double_of qs)" by (simp add: page_sum_def foldl_map)
  then show ?thesis using near_fold [OF near_values [OF assms(1)] assms(1) near_zero] assms by (simp add: money_def)
qed

lemma sum_by_name:
  assumes "finite A" and "tx_category_name ` set ts \<subseteq> A"
  shows "(\<Sum>n\<in>A. sum_list (amounts_of n ts)) = sum_list (map tx_amount ts)"
  using assms(2)
proof (induction ts)
  case (Cons r ts)
  have "(\<Sum>n\<in>A. sum_list (amounts_of n (r # ts))) = (\<Sum>n\<in>A. (if n = tx_category_name r then tx_amount r else 0) + sum_list (amounts_of n ts))"
    by (intro sum.cong) (auto simp: amounts_of_def)
  also have "\<dots> = tx_amount r + (\<Sum>n\<in>A. sum_list (amounts_of n ts))"
    using Cons.prems assms(1) by (simp add: sum.distrib)
  finally show ?case using Cons by simp
qed (simp add: amounts_of_def)

lemma totalSpend_values: "list_all (\<lambda>e. snd e \<noteq> None) d \<Longrightarrow> totalSpend d = Some (foldl double_add 0 (map (\<lambda>e. the (snd e)) d))"
proof -
  have "list_all (\<lambda>e. snd e \<noteq> None) d \<Longrightarrow> foldl (\<lambda>s e. case (s, snd e) of (Some x, Some y) \<Rightarrow> Some (double_add x y) | _ \<Rightarrow> None) (Some a) d
      = Some (foldl double_add a (map (\<lambda>e. the (snd e)) d))" for a
    by (induction d arbitrary: a) auto
  then show "list_all (\<lambda>e. snd e \<noteq> None) d \<Longrightarrow> ?thesis" by (simp add: totalSpend_def)
qed

lemma amounts_of_bounds:
  assumes "list_all money (map tx_amount ts)"
  shows "list_all money (amounts_of n ts)" "length (amounts_of n ts) \<le> length ts"
    "sum_list (amounts_of n ts) \<le> sum_list (map tx_amount ts)" "0 \<le> sum_list (amounts_of n ts)"
proof -
  show m: "list_all money (amounts_of n ts)" using assms by (auto simp: amounts_of_def list_all_iff)
  show "length (amounts_of n ts) \<le> length ts" by (simp add: amounts_of_def)
  show "sum_list (amounts_of n ts) \<le> sum_list (map tx_amount ts)"
    using assms by (induction ts) (auto simp: amounts_of_def intro: add_mono add_increasing money_nonneg)
  show "0 \<le> sum_list (amounts_of n ts)" using m by (intro money_nonneg money_sum)
qed

lemma near_total:
  assumes "plain_names (filter is_spending ts)" and "list_all money (map tx_amount (filter is_spending ts))"
    and "length (filter is_spending ts) \<le> 10000"
  shows "\<exists>x. totalSpend (donutDataRaw ts) = Some x \<and> near 20001 (sum_list (map tx_amount (filter is_spending ts))) x"
proof -
  define rows where "rows = filter is_spending ts"
  define d where "d = donutDataRaw ts"
  define f where "f = (\<lambda>e :: string \<times> rat option. sum_list (amounts_of (fst e) rows))"
  have m: "list_all money (map tx_amount rows)" and few: "length rows \<le> 10000" using assms by (simp_all add: rows_def)
  note b = amounts_of_bounds [OF m]
  have keys: "distinct (map fst d)" "fst ` set d = tx_category_name ` set rows"
    using donut_keys [OF assms(1)] by (simp_all add: d_def rows_def)
  have val: "snd e = Some (page_sum 0 (amounts_of (fst e) rows))" if "e \<in> set d" for e
    using donut_value [OF assms(1), of "fst e" "snd e"] that by (simp add: d_def rows_def)
  have "near 10001 (f e) (the (snd e))" if "e \<in> set d" for e
  proof -
    have "length (amounts_of (fst e) rows) \<le> 10000" using b(2) few by (rule order.trans)
    then show ?thesis
      using near_mono [OF near_page_sum [OF b(1)], of "fst e" 10001] b(4) val [OF that] by (simp add: f_def)
  qed
  then have "list_all2 (near 10001) (map f d) (map (\<lambda>e. the (snd e)) d)"
    by (simp add: list_all2_conv_all_nth)
  moreover have "list_all money (map f d)" using money_sum [OF b(1)] by (simp add: f_def list_all_iff)
  moreover have len: "length d \<le> 10000"
  proof -
    have "length d = card (fst ` set d)" using distinct_card [OF keys(1)] by simp
    also have "\<dots> \<le> length rows" unfolding keys(2) using card_image_le [of "set rows"] card_length [of rows] by (metis List.finite_set order.trans)
    finally show ?thesis using few by simp
  qed
  ultimately have "near (10001 + length d) (0 + sum_list (map f d)) (foldl double_add 0 (map (\<lambda>e. the (snd e)) d))"
    using near_fold [of 10001 "map f d" "map (\<lambda>e. the (snd e)) d" 0 0] near_zero by (simp add: money_def)
  moreover have "sum_list (map f d) = sum_list (map tx_amount rows)"
  proof -
    have "sum_list (map f d) = (\<Sum>n\<in>fst ` set d. sum_list (amounts_of n rows))"
      using sum_list_distinct_conv_sum_set [OF keys(1), of "\<lambda>n. sum_list (amounts_of n rows)"] by (simp add: f_def comp_def)
    also have "\<dots> = sum_list (map tx_amount rows)" by (rule sum_by_name) (simp_all add: keys(2))
    finally show ?thesis .
  qed
  ultimately have "near 20001 (sum_list (map tx_amount rows)) (foldl double_add 0 (map (\<lambda>e. the (snd e)) d))"
    using near_mono [of "10001 + length d" _ _ 20001] len money_nonneg [OF money_sum [OF m]] by simp
  moreover have "list_all (\<lambda>e. snd e \<noteq> None) d" using val by (simp add: list_all_iff)
  ultimately show ?thesis using totalSpend_values unfolding d_def rows_def by blast
qed

text \<open>C9: The figures of the spending card are right to the cent, although the page adds them up in
  binary64: for at most 10000 settled expenses that are no transfers, each zero or at least a
  cent, together at most a thousand million, and in categories without a name that every
  JavaScript object has (\<^verbatim>\<open>constructor\<close>, say), the figure of each row is less than half a cent away
  from the exact sum over its category, there is one row for each category, and the total is
  less than half a cent away from the exact sum over all of them.\<close>

theorem spending_figures_to_the_cent:
  assumes "plain_names (filter is_spending ts)" and "list_all money (map tx_amount (filter is_spending ts))"
    and "length (filter is_spending ts) \<le> 10000" and "sum_list (map tx_amount (filter is_spending ts)) \<le> 10 ^ 9"
  shows "list_all (\<lambda>(n, v). \<exists>x. v = Some x \<and> \<bar>x - sum_list (amounts_of n (filter is_spending ts))\<bar> < 1 / 200) (donutDataRaw ts)
    \<and> distinct (map fst (donutDataRaw ts)) \<and> fst ` set (donutDataRaw ts) = tx_category_name ` set (filter is_spending ts)
    \<and> (\<exists>x. totalSpend (donutDataRaw ts) = Some x \<and> \<bar>x - sum_list (map tx_amount (filter is_spending ts))\<bar> < 1 / 200)"
proof (intro conjI)
  note m = assms(2)
  note b = amounts_of_bounds [OF m]
  show "list_all (\<lambda>(n, v). \<exists>x. v = Some x \<and> \<bar>x - sum_list (amounts_of n (filter is_spending ts))\<bar> < 1 / 200) (donutDataRaw ts)"
  proof -
    have "\<bar>page_sum 0 (amounts_of n (filter is_spending ts)) - sum_list (amounts_of n (filter is_spending ts))\<bar> < 1 / 200" for n
      using near_cent [OF near_page_sum [OF b(1)] _ b(4)] b(2,3) [of n] assms(3,4) by fastforce
    then show ?thesis using donut_value [OF assms(1)] by (fastforce simp: list_all_iff)
  qed
  show "distinct (map fst (donutDataRaw ts))" "fst ` set (donutDataRaw ts) = tx_category_name ` set (filter is_spending ts)"
    using donut_keys [OF assms(1)] by simp_all
  show "\<exists>x. totalSpend (donutDataRaw ts) = Some x \<and> \<bar>x - sum_list (map tx_amount (filter is_spending ts))\<bar> < 1 / 200"
    using near_total near_cent [OF _ _ money_nonneg [OF money_sum [OF assms(2)]] assms(4)] assms(1-3) by blast
qed

theorem spending_figures_to_the_cent_witness:
  "\<exists>x. totalSpend (donutDataRaw [demo_tx, demo_tx\<lparr>tx_id := 2, tx_category_name := ''7'', tx_amount := 1 / 10\<rparr>]) = Some x \<and> \<bar>x - 126 / 10\<bar> < 1 / 200"
  using spending_figures_to_the_cent [of "[demo_tx, demo_tx\<lparr>tx_id := 2, tx_category_name := ''7'', tx_amount := 1 / 10\<rparr>]"]
  by (simp add: plain_names_def is_spending_def demo_tx_def inherited_names_def money_def)

subsection \<open>Names that every object has\<close>

lemma tally_add_other: "k \<noteq> n \<Longrightarrow> map_of (tally_add k q t) n = map_of t n"
  by (auto simp: tally_add_def tally_put_map split: option.split)

lemma tally_add_inherited:
  assumes "k \<in> set inherited_names" and "k \<noteq> ''__proto__''" and "map_of t k = None \<or> map_of t k = Some None"
  shows "map_of (tally_add k q t) k = Some None"
  using assms by (auto simp: tally_add_def tally_put_map)

lemma tally_rows_inherited:
  assumes "k \<in> set inherited_names" and "k \<noteq> ''__proto__''"
  shows "map_of t k = Some None \<or> (map_of t k = None \<and> k \<in> tx_category_name ` set ts) \<Longrightarrow> map_of (tally_rows ts t) k = Some None"
proof (induction ts arbitrary: t)
  case (Cons r ts)
  have "map_of t k = None \<or> map_of t k = Some None" using Cons.prems by auto
  then have "map_of (tally_add (tx_category_name r) (tx_amount r) t) k
      = (if tx_category_name r = k then Some None else map_of t k)"
    using tally_add_inherited [OF assms] tally_add_other by auto
  then have "map_of (tally_rows ts (tally_add (tx_category_name r) (tx_amount r) t)) k = Some None"
    using Cons.prems by (intro Cons.IH) (auto split: if_splits)
  then show ?case by (simp add: tally_rows_Cons)
qed (simp add: tally_rows_def)

lemma totalSpend_text: "(n, None) \<in> set d \<Longrightarrow> totalSpend d = None"
proof -
  let ?f = "\<lambda>s e. case (s, snd e) of (Some x, Some y) \<Rightarrow> Some (double_add x y) | _ \<Rightarrow> None"
  have none: "foldl ?f None d = None" for d :: tally by (induction d) auto
  have "(n, None) \<in> set d \<Longrightarrow> foldl ?f a d = None" for a
    by (induction d arbitrary: a) (auto simp: none [simplified] split: option.split)
  then show "(n, None) \<in> set d \<Longrightarrow> ?thesis" by (simp add: totalSpend_def)
qed

text \<open>One expense in a category called \<^verbatim>\<open>constructor\<close> (or another name that every JavaScript object has)
  spoils the card: the table finds a function under that name, the sum becomes a text, the total is
  no number, and the share of every category shows as 0.\<close>

theorem inherited_category_spoils_shares:
  assumes "t \<in> set ts" and "is_spending t" and "tx_category_name t \<in> set inherited_names" and "tx_category_name t \<noteq> ''__proto__''"
  shows "totalSpend (donutDataRaw ts) = None
    \<and> list_all (\<lambda>r. sr_pct r = Some 0) (spending_rows (donutDataRaw ts))"
proof -
  have "map_of (spendingByCategory ts) (tx_category_name t) = Some None"
    unfolding spending_rows_of by (rule tally_rows_inherited [OF assms(3,4)]) (use assms(1,2) in auto)
  then have "(tx_category_name t, None) \<in> set (donutDataRaw ts)"
    using mset_eq_setD [OF donut_mset] map_of_SomeD by metis
  then have n: "totalSpend (donutDataRaw ts) = None" by (rule totalSpend_text)
  then have "sr_pct r = Some 0" if "r \<in> set (spending_rows (donutDataRaw ts))" for r
    using that by (auto simp: spending_rows_def spending_pct_def)
  with n show ?thesis by (simp add: list_all_iff)
qed

theorem inherited_category_spoils_shares_witness:
  "totalSpend (donutDataRaw [demo_tx, demo_tx\<lparr>tx_id := 2, tx_category_name := ''constructor''\<rparr>]) = None"
  using inherited_category_spoils_shares [of "demo_tx\<lparr>tx_id := 2, tx_category_name := ''constructor''\<rparr>"
      "[demo_tx, demo_tx\<lparr>tx_id := 2, tx_category_name := ''constructor''\<rparr>]"]
  by (simp add: is_spending_def demo_tx_def inherited_names_def)

end
