(* ===== verification/Forecast_Plans.thy ===== *)
theory Forecast_Plans
  imports Category_Select Dashboard_Figures Server_Fetch Schema_Fields
begin

section \<open>Forecast plans (app/forecast-plans)\<close>

text \<open>
  ForecastPlansClient.tsx as a step machine, the choice of the period on the server
  (page.tsx), and the checks that forecast_plan_service.py makes of the page's writes. The
  data hook is a third-party package: what it returns is an event (\<open>FpData\<close>), and what the
  page hands to its \<^verbatim>\<open>mutate\<close> is listed. A handler, a confirmation and a request under way
  keep the plan and the period that their render showed. The category picker appears
  through its contract: the value is an option it offers, or a category made in its modal.
\<close>

subsection \<open>State\<close>

datatype plan_filter = PfAll | PfType tx_type

datatype plan_confirm =
    CfRefresh string
  | CfEditRefresh forecast_plan string
  | CfDelete forecast_plan int
  | CfActivate forecast_plan
  | CfRevert forecast_plan
  | CfDiscard forecast_plan

datatype plan_task =
    FtPopulate string
  | FtRefresh string
  | FtRevertFirst forecast_plan string
  | FtRefreshSecond forecast_plan string
  | FtAdd forecast_plan int tx_type string
  | FtUpdate forecast_plan int string
  | FtDelete forecast_plan int
  | FtActivate forecast_plan
  | FtRevert forecast_plan
  | FtDiscard forecast_plan
  | FtEnsure
  | FtPeriods
  | FtCategories
  | FtReload

record plan_page =
  ff_today :: string
  ff_categories :: "category list"
  ff_periods :: "billing_period list"
  ff_periodIdx :: nat
  ff_error :: string
  ff_refreshError :: bool
  ff_refreshing :: bool
  ff_showForm :: bool
  ff_formCategoryId :: "int option"
  ff_formType :: tx_type
  ff_formAmount :: string
  ff_editingId :: "int option"
  ff_editAmount :: string
  ff_viewFilter :: plan_filter
  ff_confirm :: "plan_confirm option"
  ff_showDetails :: bool
  ff_storage :: storage
  ff_planData :: "forecast_plan option"
  ff_planLoading :: bool
  ff_mutations :: "forecast_plan list"
  ff_tasks :: "plan_task list"
  ff_log :: "request list"

subsection \<open>What a render computes\<close>

definition initialPeriodIdx :: "billing_period list \<Rightarrow> nat" where
  "initialPeriodIdx ps = (case index_of is_open ps of Some i \<Rightarrow> i | None \<Rightarrow> 0)"

definition pl_selected :: "plan_page \<Rightarrow> billing_period option" where
  "pl_selected s = (if ff_periodIdx s < length (ff_periods s) then Some (ff_periods s ! ff_periodIdx s) else None)"

definition pl_periodStart :: "plan_page \<Rightarrow> string" where
  "pl_periodStart s = (case pl_selected s of Some p \<Rightarrow> bp_start_date p | None \<Rightarrow> [])"

text \<open>The plan of another period that the hook still holds is not exposed.\<close>

definition pl_plan :: "plan_page \<Rightarrow> forecast_plan option" where
  "pl_plan s = (case ff_planData s of
      Some p \<Rightarrow> if fp_period_start p = pl_periodStart s then Some p else None
    | None \<Rightarrow> None)"

definition pl_active :: "plan_page \<Rightarrow> bool" where
  "pl_active s \<longleftrightarrow> (case pl_plan s of Some p \<Rightarrow> fp_status p = PlanActive | None \<Rightarrow> False)"

definition pl_draft :: "plan_page \<Rightarrow> bool" where
  "pl_draft s \<longleftrightarrow> (case pl_plan s of Some p \<Rightarrow> fp_status p = PlanDraft | None \<Rightarrow> False)"

definition pl_all_items :: "plan_page \<Rightarrow> plan_item list" where
  "pl_all_items s = (case pl_plan s of Some p \<Rightarrow> fp_items p | None \<Rightarrow> [])"

definition pl_hasItems :: "plan_page \<Rightarrow> bool" where
  "pl_hasItems s \<longleftrightarrow> pl_all_items s \<noteq> []"

definition pl_future :: "plan_page \<Rightarrow> bool" where
  "pl_future s \<longleftrightarrow> (case pl_selected s of Some p \<Rightarrow> js_less (ff_today s) (bp_start_date p) | None \<Rightarrow> False)"

definition pl_current :: "plan_page \<Rightarrow> bool" where
  "pl_current s \<longleftrightarrow> (case pl_selected s of
      Some p \<Rightarrow> \<not> js_less (ff_today s) (bp_start_date p)
        \<and> (case bp_end_date p of None \<Rightarrow> True | Some e \<Rightarrow> e = [] \<or> \<not> js_less e (ff_today s))
    | None \<Rightarrow> False)"

definition pl_past :: "plan_page \<Rightarrow> bool" where
  "pl_past s \<longleftrightarrow> (case pl_selected s of
      Some p \<Rightarrow> (case bp_end_date p of None \<Rightarrow> False | Some e \<Rightarrow> js_less e (ff_today s))
    | None \<Rightarrow> False)"

definition pl_fetching :: "plan_page \<Rightarrow> bool" where
  "pl_fetching s \<longleftrightarrow> ff_planLoading s \<or> (pl_periodStart s \<noteq> [] \<and> pl_plan s = None)"

definition disabledForType :: "plan_page \<Rightarrow> int list" where
  "disabledForType s = (let used = map fi_category_id (filter (\<lambda>i. fi_type i = ff_formType s) (pl_all_items s)) in
     used @ map ca_id (filter (\<lambda>c. case ca_parent_id c of Some k \<Rightarrow> k \<in> set used | None \<Rightarrow> False) (ff_categories s)))"

definition plan_picker :: "plan_page \<Rightarrow> picker_props" where
  "plan_picker s = \<lparr>pp_categories = ff_categories s, pp_filterType = Some (ff_formType s), pp_typeFilter = None,
     pp_disabled = disabledForType s\<rparr>"

definition resolveMasterId :: "category list \<Rightarrow> int option \<Rightarrow> int option" where
  "resolveMasterId cats v = (case v of
      None \<Rightarrow> None
    | Some k \<Rightarrow> (case js_find (\<lambda>c. ca_id c = k) cats of
        None \<Rightarrow> None
      | Some c \<Rightarrow> Some (case ca_parent_id c of Some p \<Rightarrow> p | None \<Rightarrow> ca_id c)))"

definition pl_items :: "plan_page \<Rightarrow> plan_item list" where
  "pl_items s = filter (\<lambda>i. ff_viewFilter s = PfAll \<or> ff_viewFilter s = PfType (fi_type i)) (pl_all_items s)"

definition incomeItems :: "plan_page \<Rightarrow> plan_item list" where
  "incomeItems s = filter (\<lambda>i. fi_type i = Income) (pl_items s)"

definition expenseItems :: "plan_page \<Rightarrow> plan_item list" where
  "expenseItems s = filter (\<lambda>i. fi_type i = Expense) (pl_items s)"

definition plan_chartData :: "plan_page \<Rightarrow> plan_bar list" where
  "plan_chartData s = map (\<lambda>i. \<lparr>pb_categoryId = fi_category_id i, pb_name = fi_category_name i,
     pb_planned = fi_planned_amount i, pb_actual = fi_actual_amount i\<rparr>) (expenseItems s)"

definition plannedNet :: "forecast_plan option \<Rightarrow> rat" where
  "plannedNet p = (case p of Some f \<Rightarrow> fp_total_planned_income f - fp_total_planned_expense f | None \<Rightarrow> 0)"

definition actualNet :: "forecast_plan option \<Rightarrow> rat" where
  "actualNet p = (case p of Some f \<Rightarrow> fp_total_actual_income f - fp_total_actual_expense f | None \<Rightarrow> 0)"

definition item_isOver :: "plan_item \<Rightarrow> bool" where
  "item_isOver i = (if fi_type i = Expense then fi_variance i > 0 else fi_variance i < 0)"

definition SOURCE_LABELS :: "plan_source \<Rightarrow> string" where
  "SOURCE_LABELS x = (case x of SrcManual \<Rightarrow> ''Manual'' | SrcRecurring \<Rightarrow> ''Recurring'' | SrcHistory \<Rightarrow> ''Auto'')"

subsection \<open>Details in local storage\<close>

definition DETAILS_KEY :: string where "DETAILS_KEY = ''forecast-plans:show-details''"

definition details_read :: "storage \<Rightarrow> bool" where
  "details_read st \<longleftrightarrow> st_readable st \<and> st_items st DETAILS_KEY = Some ''true''"

definition details_write :: "bool \<Rightarrow> storage \<Rightarrow> storage" where
  "details_write b st = (if st_writable st
     then st\<lparr>st_items := (st_items st)(DETAILS_KEY \<mapsto> (if b then ''true'' else ''false''))\<rparr> else st)"

subsection \<open>Requests\<close>

definition plans_base :: string where "plans_base = ''/api/v1/forecast-plans''"

definition plan_path :: "forecast_plan \<Rightarrow> string \<Rightarrow> string" where
  "plan_path p rest = plans_base @ ''/'' @ show_int (fp_id p) @ rest"

fun plan_task_request :: "plan_task \<Rightarrow> request option" where
  "plan_task_request (FtPopulate st) = Some (mk_req POST (plans_base @ ''/populate?period_start='' @ st) JUndef)"
| "plan_task_request (FtRefresh st) = Some (mk_req POST (plans_base @ ''/refresh-from-sources?period_start='' @ st) JUndef)"
| "plan_task_request (FtRevertFirst p st) = Some (mk_req POST (plan_path p ''/revert'') JUndef)"
| "plan_task_request (FtRefreshSecond p st) = Some (mk_req POST (plans_base @ ''/refresh-from-sources?period_start='' @ st) JUndef)"
| "plan_task_request (FtAdd p k t a) = Some (mk_req POST (plan_path p ''/items'') (JObj [(''category_id'', JInt k),
     (''type'', JStr (type_str t)), (''planned_amount'', JStr a)]))"
| "plan_task_request (FtUpdate p i a) = Some (mk_req PUT (plan_path p (''/items/'' @ show_int i)) (JObj [(''planned_amount'', JStr a)]))"
| "plan_task_request (FtDelete p i) = Some (mk_req DELETE (plan_path p (''/items/'' @ show_int i)) JUndef)"
| "plan_task_request (FtActivate p) = Some (mk_req POST (plan_path p ''/activate'') JUndef)"
| "plan_task_request (FtRevert p) = Some (mk_req POST (plan_path p ''/revert'') JUndef)"
| "plan_task_request (FtDiscard p) = Some (mk_req POST (plan_path p ''/discard'') JUndef)"
| "plan_task_request FtEnsure = Some (mk_req POST ''/api/v1/settings/billing-periods/ensure-future'' JUndef)"
| "plan_task_request FtPeriods = Some (mk_req GET ''/api/v1/settings/billing-periods'' JUndef)"
| "plan_task_request FtCategories = Some (mk_req GET ''/api/v1/categories'' JUndef)"
| "plan_task_request FtReload = None"

definition start_plan_task :: "plan_task \<Rightarrow> plan_page \<Rightarrow> plan_page" where
  "start_plan_task t s = s\<lparr>ff_tasks := ff_tasks s @ [t],
     ff_log := ff_log s @ (case plan_task_request t of Some r \<Rightarrow> [r] | None \<Rightarrow> [])\<rparr>"

text \<open>A handler clears the error and sends; the reload goes through the data hook.\<close>

definition plan_send :: "plan_task \<Rightarrow> plan_page \<Rightarrow> plan_page" where
  "plan_send t s = start_plan_task t (s\<lparr>ff_error := []\<rparr>)"

definition plan_mount ::
    "string \<Rightarrow> billing_period list \<Rightarrow> category list \<Rightarrow> forecast_plan option \<Rightarrow> storage \<Rightarrow> plan_page" where
  "plan_mount today periods cats plan st =
     (let s = start_plan_task FtEnsure \<lparr>ff_today = today, ff_categories = cats, ff_periods = periods,
         ff_periodIdx = initialPeriodIdx periods, ff_error = [], ff_refreshError = False, ff_refreshing = False,
         ff_showForm = False, ff_formCategoryId = None, ff_formType = Expense, ff_formAmount = [], ff_editingId = None,
         ff_editAmount = [], ff_viewFilter = PfAll, ff_confirm = None, ff_showDetails = details_read st,
         ff_storage = details_write (details_read st) st, ff_planData = plan, ff_planLoading = False,
         ff_mutations = [], ff_tasks = [], ff_log = []\<rparr>
      in if cats = [] then start_plan_task FtCategories s else s)"

subsection \<open>Handlers\<close>

text \<open>A control that is not on the screen does nothing. The header's buttons are shown by the status of the plan.\<close>

definition handlePopulate :: "plan_page \<Rightarrow> plan_page" where
  "handlePopulate s = (if pl_draft s then plan_send (FtPopulate (pl_periodStart s)) s else s)"

definition handleRefreshFromSources :: "plan_page \<Rightarrow> plan_page" where
  "handleRefreshFromSources s = (if pl_draft s \<and> ff_showDetails s \<and> pl_hasItems s
     then s\<lparr>ff_confirm := Some (CfRefresh (pl_periodStart s))\<rparr> else s)"

definition handleEditAndRefresh :: "plan_page \<Rightarrow> plan_page" where
  "handleEditAndRefresh s = (case pl_plan s of
      Some p \<Rightarrow> if pl_active s \<and> ff_showDetails s then s\<lparr>ff_confirm := Some (CfEditRefresh p (pl_periodStart s))\<rparr> else s
    | None \<Rightarrow> s)"

definition handleAddItem :: "plan_page \<Rightarrow> plan_page" where
  "handleAddItem s = (case pl_plan s of
      Some p \<Rightarrow>
        if ff_showForm s \<and> pl_draft s \<and> amount_valid (ff_formAmount s) then
          (case resolveMasterId (ff_categories s) (ff_formCategoryId s) of
             None \<Rightarrow> s\<lparr>ff_error := ''Please pick a category''\<rparr>
           | Some k \<Rightarrow> plan_send (FtAdd p k (ff_formType s) (ff_formAmount s)) s)
        else s
    | None \<Rightarrow> s)"

definition item_shown :: "plan_page \<Rightarrow> int \<Rightarrow> bool" where
  "item_shown s i \<longleftrightarrow> \<not> pl_fetching s \<and> \<not> pl_active s \<and> list_ex (\<lambda>x. fi_id x = i) (pl_items s)"

definition plan_startEdit :: "int \<Rightarrow> plan_page \<Rightarrow> plan_page" where
  "plan_startEdit i s = (if item_shown s i
     then (case js_find (\<lambda>x. fi_id x = i) (pl_items s) of
         Some x \<Rightarrow> s\<lparr>ff_editingId := Some i, ff_editAmount := amount_text (fi_planned_amount x)\<rparr> | None \<Rightarrow> s)
     else s)"

definition handleUpdateItem :: "plan_page \<Rightarrow> plan_page" where
  "handleUpdateItem s = (case (pl_plan s, ff_editingId s) of
      (Some p, Some i) \<Rightarrow> if item_shown s i then plan_send (FtUpdate p i (ff_editAmount s)) s else s
    | _ \<Rightarrow> s)"

definition handleDeleteItem :: "int \<Rightarrow> plan_page \<Rightarrow> plan_page" where
  "handleDeleteItem i s = (case pl_plan s of
      Some p \<Rightarrow> if item_shown s i then s\<lparr>ff_confirm := Some (CfDelete p i)\<rparr> else s
    | None \<Rightarrow> s)"

definition handleActivate :: "plan_page \<Rightarrow> plan_page" where
  "handleActivate s = (case pl_plan s of
      Some p \<Rightarrow> if \<not> pl_fetching s \<and> pl_hasItems s \<and> pl_draft s then s\<lparr>ff_confirm := Some (CfActivate p)\<rparr> else s
    | None \<Rightarrow> s)"

definition handleRevertToDraft :: "plan_page \<Rightarrow> plan_page" where
  "handleRevertToDraft s = (case pl_plan s of
      Some p \<Rightarrow> if pl_active s then s\<lparr>ff_confirm := Some (CfRevert p)\<rparr> else s
    | None \<Rightarrow> s)"

definition plan_handleDiscard :: "plan_page \<Rightarrow> plan_page" where
  "plan_handleDiscard s = (case pl_plan s of
      Some p \<Rightarrow> if pl_draft s \<and> pl_hasItems s then s\<lparr>ff_confirm := Some (CfDiscard p)\<rparr> else s
    | None \<Rightarrow> s)"

fun confirm_task :: "plan_confirm \<Rightarrow> plan_task" where
  "confirm_task (CfRefresh st) = FtRefresh st"
| "confirm_task (CfEditRefresh p st) = FtRevertFirst p st"
| "confirm_task (CfDelete p i) = FtDelete p i"
| "confirm_task (CfActivate p) = FtActivate p"
| "confirm_task (CfRevert p) = FtRevert p"
| "confirm_task (CfDiscard p) = FtDiscard p"

definition plan_onConfirm :: "plan_page \<Rightarrow> plan_page" where
  "plan_onConfirm s = (case ff_confirm s of
      Some c \<Rightarrow> (plan_send (confirm_task c) s)\<lparr>ff_confirm := None\<rparr>
    | None \<Rightarrow> s)"

definition refreshAfterTransactionAdded :: "plan_page \<Rightarrow> plan_page" where
  "refreshAfterTransactionAdded s =
     (if pl_periodStart s = [] then s else start_plan_task FtReload (s\<lparr>ff_refreshing := True\<rparr>))"

subsection \<open>Answers\<close>

datatype plan_answer =
    AnPlan "js_error + forecast_plan"
  | AnDone "js_error + unit"
  | AnPeriodList "js_error + billing_period list option"
  | AnCategoryList "js_error + category list option"

definition give :: "forecast_plan \<Rightarrow> plan_page \<Rightarrow> plan_page" where
  "give p s = s\<lparr>ff_mutations := ff_mutations s @ [p]\<rparr>"

definition contains_today :: "string \<Rightarrow> billing_period \<Rightarrow> bool" where
  "contains_today today p \<longleftrightarrow> \<not> js_less today (bp_start_date p)
     \<and> (case bp_end_date p of None \<Rightarrow> True | Some e \<Rightarrow> \<not> js_less e today)"

text \<open>The new list of periods: the same period by its start, or the one that contains today, or the first.\<close>

definition reselect :: "string \<Rightarrow> string option \<Rightarrow> billing_period list \<Rightarrow> nat" where
  "reselect today start fresh =
     (case (case start of Some d \<Rightarrow> if d = [] then None else index_of (\<lambda>p. bp_start_date p = d) fresh | None \<Rightarrow> None) of
        Some i \<Rightarrow> i
      | None \<Rightarrow> (case index_of (contains_today today) fresh of Some i \<Rightarrow> i | None \<Rightarrow> 0))"

definition periods_refreshed :: "billing_period list option \<Rightarrow> plan_page \<Rightarrow> plan_page" where
  "periods_refreshed ans s = (case ans of
      Some fresh \<Rightarrow> if fresh = [] then s
        else s\<lparr>ff_periods := fresh, ff_periodIdx := reselect (ff_today s) (map_option bp_start_date (pl_selected s)) fresh\<rparr>
    | None \<Rightarrow> s)"

definition plan_failed :: "js_error \<Rightarrow> plan_page \<Rightarrow> plan_page" where
  "plan_failed e s = s\<lparr>ff_error := extractErrorMessage e ''Failed''\<rparr>"

fun plan_done :: "plan_task \<Rightarrow> plan_page \<Rightarrow> plan_page" where
  "plan_done (FtAdd _ _ _ _) s = s\<lparr>ff_formCategoryId := None, ff_formAmount := [], ff_showForm := False\<rparr>"
| "plan_done (FtUpdate _ _ _) s = s\<lparr>ff_editingId := None\<rparr>"
| "plan_done (FtDiscard _) s = s\<lparr>ff_showForm := False\<rparr>"
| "plan_done (FtRevertFirst p st) s = start_plan_task (FtRefreshSecond p st) s"
| "plan_done _ s = s"

fun gets_plan :: "plan_task \<Rightarrow> bool" where
  "gets_plan FtEnsure = False"
| "gets_plan FtPeriods = False"
| "gets_plan FtCategories = False"
| "gets_plan FtReload = False"
| "gets_plan _ = True"

definition plan_task_answered :: "plan_task \<Rightarrow> plan_answer \<Rightarrow> plan_page \<Rightarrow> plan_page option" where
  "plan_task_answered t ans s = (case ans of
      AnPlan r \<Rightarrow> if gets_plan t then
          Some (case r of Inr p \<Rightarrow> plan_done t (give p s) | Inl e \<Rightarrow> plan_failed e s) else None
    | AnDone r \<Rightarrow>
        if t = FtEnsure then Some (case r of Inr _ \<Rightarrow> start_plan_task FtPeriods s | Inl _ \<Rightarrow> s)
        else if t = FtReload then Some (case r of Inr _ \<Rightarrow> s\<lparr>ff_refreshError := False, ff_refreshing := False\<rparr>
           | Inl _ \<Rightarrow> s\<lparr>ff_refreshError := True, ff_refreshing := False\<rparr>)
        else None
    | AnPeriodList r \<Rightarrow> if t = FtPeriods then Some (case r of Inr l \<Rightarrow> periods_refreshed l s | Inl _ \<Rightarrow> s) else None
    | AnCategoryList r \<Rightarrow> if t = FtCategories
        then Some (case r of Inr (Some cs) \<Rightarrow> if cs \<noteq> [] then s\<lparr>ff_categories := cs\<rparr> else s | _ \<Rightarrow> s) else None)"

definition without_task :: "nat \<Rightarrow> plan_page \<Rightarrow> plan_page" where
  "without_task i s = s\<lparr>ff_tasks := take i (ff_tasks s) @ drop (Suc i) (ff_tasks s)\<rparr>"

definition plan_answered :: "nat \<Rightarrow> plan_answer \<Rightarrow> plan_page \<Rightarrow> plan_page" where
  "plan_answered i ans s =
     (if i < length (ff_tasks s) then
        (case plan_task_answered (ff_tasks s ! i) ans (without_task i s) of Some s' \<Rightarrow> s' | None \<Rightarrow> s)
      else s)"

subsection \<open>Events\<close>

datatype plan_event =
    FpData "forecast_plan option" bool
  | FpOlder | FpNewer | FpToday
  | FpDetails | FpPopulate | FpRefreshSources | FpEditRefresh | FpRevert | FpDiscard | FpActivate
  | FpToggleForm | FpType tx_type | FpCategory category | FpCreated add_category int | FpAmount string | FpSubmit
  | FpFilter plan_filter | FpEdit int | FpEditAmount string | FpEditCancel | FpSave | FpDelete int
  | FpConfirm | FpCancel | FpAdded | FpRetry | FpAnswer nat plan_answer

text \<open>A modal that the user filled in: the type is the locked one, a parent is one of the options.\<close>

definition modal_filled :: "picker_props \<Rightarrow> add_category \<Rightarrow> bool" where
  "modal_filled p m \<longleftrightarrow> am_canSubmit m \<and> lockedType p = Some (am_type m)
     \<and> (case am_parentId m of None \<Rightarrow> True | Some k \<Rightarrow> list_ex (\<lambda>c. ca_id c = k) (parent_options p))"

definition category_created :: "add_category \<Rightarrow> int \<Rightarrow> plan_page \<Rightarrow> plan_page" where
  "category_created m i s =
     (if modal_filled (plan_picker s) m \<and> i \<notin> ca_id ` set (ff_categories s) then
        (case create_category (ff_categories s) m i of
           Some c \<Rightarrow> s\<lparr>ff_categories := ff_categories s @ [c],
             ff_formCategoryId := (if i \<in> set (disabledForType s) then ff_formCategoryId s else Some i)\<rparr>
         | None \<Rightarrow> s)
      else s)"

fun plan_react :: "plan_page \<Rightarrow> plan_event \<Rightarrow> plan_page" where
  "plan_react s (FpData d loading) = s\<lparr>ff_planData := d, ff_planLoading := loading\<rparr>"
| "plan_react s FpOlder = (if ff_periodIdx s + 1 \<ge> length (ff_periods s) then s
     else s\<lparr>ff_periodIdx := min (ff_periodIdx s + 1) (length (ff_periods s) - 1)\<rparr>)"
| "plan_react s FpNewer = s\<lparr>ff_periodIdx := ff_periodIdx s - 1\<rparr>"
| "plan_react s FpToday = (if pl_current s then s else (case index_of is_open (ff_periods s) of
     Some i \<Rightarrow> s\<lparr>ff_periodIdx := i\<rparr> | None \<Rightarrow> s))"
| "plan_react s FpDetails = s\<lparr>ff_showDetails := \<not> ff_showDetails s,
     ff_storage := details_write (\<not> ff_showDetails s) (ff_storage s)\<rparr>"
| "plan_react s FpPopulate = handlePopulate s"
| "plan_react s FpRefreshSources = handleRefreshFromSources s"
| "plan_react s FpEditRefresh = handleEditAndRefresh s"
| "plan_react s FpRevert = handleRevertToDraft s"
| "plan_react s FpDiscard = plan_handleDiscard s"
| "plan_react s FpActivate = handleActivate s"
| "plan_react s FpToggleForm = (if pl_draft s then s\<lparr>ff_showForm := \<not> ff_showForm s\<rparr> else s)"
| "plan_react s (FpType t) = s\<lparr>ff_formType := t, ff_formCategoryId := None\<rparr>"
| "plan_react s (FpCategory c) = (if c \<in> set (selectable (plan_picker s)) \<and> ca_id c \<notin> set (disabledForType s)
     then s\<lparr>ff_formCategoryId := Some (ca_id c)\<rparr> else s)"
| "plan_react s (FpCreated m i) = category_created m i s"
| "plan_react s (FpAmount a) = s\<lparr>ff_formAmount := a\<rparr>"
| "plan_react s FpSubmit = handleAddItem s"
| "plan_react s (FpFilter f) = (if pl_hasItems s \<and> \<not> pl_fetching s then s\<lparr>ff_viewFilter := f\<rparr> else s)"
| "plan_react s (FpEdit i) = plan_startEdit i s"
| "plan_react s (FpEditAmount a) = s\<lparr>ff_editAmount := a\<rparr>"
| "plan_react s FpEditCancel = s\<lparr>ff_editingId := None\<rparr>"
| "plan_react s FpSave = handleUpdateItem s"
| "plan_react s (FpDelete i) = handleDeleteItem i s"
| "plan_react s FpConfirm = plan_onConfirm s"
| "plan_react s FpCancel = s\<lparr>ff_confirm := None\<rparr>"
| "plan_react s FpAdded = refreshAfterTransactionAdded s"
| "plan_react s FpRetry = (if ff_refreshError s \<and> \<not> ff_refreshing s
     then refreshAfterTransactionAdded (s\<lparr>ff_refreshError := False\<rparr>) else s)"
| "plan_react s (FpAnswer i ans) = plan_answered i ans s"

text \<open>The effect on \<^verbatim>\<open>periodStart\<close>.\<close>

definition plan_step :: "plan_page \<Rightarrow> plan_event \<Rightarrow> plan_page" where
  "plan_step s e = (let s' = plan_react s e in
     if pl_periodStart s' \<noteq> pl_periodStart s then s'\<lparr>ff_showForm := False, ff_editingId := None\<rparr> else s')"

subsection \<open>The page on the server\<close>

definition pickCurrentPeriod :: "billing_period list \<Rightarrow> billing_period option" where
  "pickCurrentPeriod ps = (if ps = [] then None
     else (case js_find is_open ps of Some p \<Rightarrow> Some p | None \<Rightarrow> Some (hd ps)))"

datatype plan_page_result = PageRedirect string | PageClient "billing_period list" "category list" "forecast_plan option"

text \<open>
  The three reads as values: \<open>None\<close> is a read that was rejected or gave null. The plan is
  asked for by the start of a period.
\<close>

definition ForecastPlansPage ::
    "session_result \<Rightarrow> category list option \<Rightarrow> billing_period list option \<Rightarrow> (string \<Rightarrow> forecast_plan option) \<Rightarrow> plan_page_result" where
  "ForecastPlansPage session cats periods planFor = (case session of
      Unauthenticated_session \<Rightarrow> PageRedirect ''/login''
    | TransientSession _ \<Rightarrow> PageClient [] [] None
    | Authenticated _ _ \<Rightarrow>
        (let ps = (case periods of Some l \<Rightarrow> l | None \<Rightarrow> []) in
         PageClient ps (case cats of Some l \<Rightarrow> l | None \<Rightarrow> [])
           (case pickCurrentPeriod ps of Some p \<Rightarrow> planFor (bp_start_date p) | None \<Rightarrow> None)))"

subsection \<open>The backend on plan items\<close>

definition require_draft :: "forecast_plan \<Rightarrow> bool" where
  "require_draft p \<longleftrightarrow> fp_status p \<noteq> PlanActive"

definition validate_master_category :: "category list \<Rightarrow> int \<Rightarrow> tx_type \<Rightarrow> bool" where
  "validate_master_category cats k t = (case js_find (\<lambda>c. ca_id c = k) cats of
      None \<Rightarrow> False
    | Some c \<Rightarrow> ca_parent_id c = None \<and> category_type_matches (ca_type c) t)"

definition same_item :: "int \<Rightarrow> tx_type \<Rightarrow> plan_item \<Rightarrow> bool" where
  "same_item k t i \<longleftrightarrow> fi_category_id i = k \<and> fi_type i = t"

fun set_first :: "('a \<Rightarrow> bool) \<Rightarrow> ('a \<Rightarrow> 'a) \<Rightarrow> 'a list \<Rightarrow> 'a list" where
  "set_first p f [] = []"
| "set_first p f (x # xs) = (if p x then f x # xs else x # set_first p f xs)"

text \<open>\<^verbatim>\<open>upsert_item\<close> on the items; the new row is given, its id comes from the database.\<close>

definition upsert_item :: "category list \<Rightarrow> forecast_plan \<Rightarrow> int \<Rightarrow> tx_type \<Rightarrow> rat \<Rightarrow> plan_item \<Rightarrow> plan_item list option" where
  "upsert_item cats p k t q fresh =
     (if \<not> require_draft p \<or> \<not> validate_master_category cats k t then None
      else if list_ex (same_item k t) (fp_items p)
        then Some (set_first (same_item k t) (\<lambda>i. i\<lparr>fi_planned_amount := q, fi_source := SrcManual\<rparr>) (fp_items p))
      else Some (fp_items p @ [fresh\<lparr>fi_category_id := k, fi_type := t, fi_planned_amount := q, fi_source := SrcManual\<rparr>]))"

text \<open>\<^verbatim>\<open>update_item\<close> and \<^verbatim>\<open>delete_item\<close> on the items; \<open>None\<close> is a refusal.\<close>

definition update_item :: "forecast_plan \<Rightarrow> int \<Rightarrow> rat \<Rightarrow> plan_item list option" where
  "update_item p i q = (if require_draft p \<and> list_ex (\<lambda>x. fi_id x = i) (fp_items p)
     then Some (set_first (\<lambda>x. fi_id x = i) (\<lambda>x. x\<lparr>fi_planned_amount := q, fi_source := SrcManual\<rparr>) (fp_items p)) else None)"

definition delete_item :: "forecast_plan \<Rightarrow> int \<Rightarrow> plan_item list option" where
  "delete_item p i = (if require_draft p \<and> list_ex (\<lambda>x. fi_id x = i) (fp_items p)
     then Some (filter (\<lambda>x. fi_id x \<noteq> i) (fp_items p)) else None)"

text \<open>The schemas of the two writes, before their service functions.\<close>

definition add_item_route :: "category list \<Rightarrow> forecast_plan \<Rightarrow> int \<Rightarrow> tx_type \<Rightarrow> string \<Rightarrow> plan_item \<Rightarrow> plan_item list option" where
  "add_item_route cats p k t a fresh =
     (case positive_field a of Some q \<Rightarrow> upsert_item cats p k t q fresh | None \<Rightarrow> None)"

definition update_item_route :: "forecast_plan \<Rightarrow> int \<Rightarrow> string \<Rightarrow> plan_item list option" where
  "update_item_route p i a = (case positive_field a of Some q \<Rightarrow> update_item p i q | None \<Rightarrow> None)"

text \<open>The writes on the plan itself.\<close>

definition activate_plan :: "forecast_plan \<Rightarrow> forecast_plan option" where
  "activate_plan p = (if \<not> require_draft p \<or> fp_items p = [] then None else Some (p\<lparr>fp_status := PlanActive\<rparr>))"

definition revert_to_draft :: "forecast_plan \<Rightarrow> forecast_plan option" where
  "revert_to_draft p = (if fp_status p \<noteq> PlanActive then None else Some (p\<lparr>fp_status := PlanDraft\<rparr>))"

definition discard_plan :: "forecast_plan \<Rightarrow> forecast_plan option" where
  "discard_plan p = (if \<not> require_draft p then None else Some (p\<lparr>fp_items := [], fp_status := PlanDraft\<rparr>))"

end
