(* ===== verification/Forecast_Plans_Props.thy ===== *)
theory Forecast_Plans_Props
  imports Forecast_Plans
begin

section \<open>Forecast plans: properties\<close>

text \<open>
  Every write the page sends passes the checks that forecast_plan_service.py makes of it on
  the plan and the categories that the page showed; a refresh of a finalized plan; the
  choice of the period on the server, at the mount and after the list of periods changed;
  and what a plan of another period allows.
\<close>

subsection \<open>What the page may send\<close>

text \<open>The condition under which the backend carries out a write on the plan it was made for.\<close>

fun plan_task_ok :: "category list \<Rightarrow> plan_task \<Rightarrow> bool" where
  "plan_task_ok cats (FtAdd p k t a) \<longleftrightarrow> fp_status p = PlanDraft \<and> validate_master_category cats k t \<and> amount_valid a"
| "plan_task_ok cats (FtUpdate p i a) \<longleftrightarrow> fp_status p = PlanDraft \<and> list_ex (\<lambda>x. fi_id x = i) (fp_items p)"
| "plan_task_ok cats (FtDelete p i) \<longleftrightarrow> fp_status p = PlanDraft \<and> list_ex (\<lambda>x. fi_id x = i) (fp_items p)"
| "plan_task_ok cats (FtActivate p) \<longleftrightarrow> fp_status p = PlanDraft \<and> fp_items p \<noteq> []"
| "plan_task_ok cats (FtDiscard p) \<longleftrightarrow> fp_status p = PlanDraft"
| "plan_task_ok cats (FtRevert p) \<longleftrightarrow> fp_status p = PlanActive"
| "plan_task_ok cats (FtRevertFirst p st) \<longleftrightarrow> fp_status p = PlanActive \<and> fp_period_start p = st"
| "plan_task_ok cats (FtRefreshSecond p st) \<longleftrightarrow> fp_status p = PlanActive \<and> fp_period_start p = st"
| "plan_task_ok cats FtCategories = False"
| "plan_task_ok cats _ = True"

fun picked_fits :: "category list \<Rightarrow> tx_type \<Rightarrow> int option \<Rightarrow> bool" where
  "picked_fits cats t None = True"
| "picked_fits cats t (Some k) \<longleftrightarrow> (\<exists>c \<in> set cats. ca_id c = k \<and> category_type_matches (ca_type c) t)"

fun confirm_fits :: "category list \<Rightarrow> plan_confirm option \<Rightarrow> bool" where
  "confirm_fits cats None = True"
| "confirm_fits cats (Some c) = plan_task_ok cats (confirm_task c)"

definition page_fits :: "category list \<Rightarrow> int option \<Rightarrow> tx_type \<Rightarrow> plan_task list \<Rightarrow> plan_confirm option \<Rightarrow> bool" where
  "page_fits cats v t ts c \<longleftrightarrow> cats \<noteq> [] \<and> categories_ok cats \<and> picked_fits cats t v
     \<and> list_all (plan_task_ok cats) ts \<and> confirm_fits cats c"

definition plan_inv :: "plan_page \<Rightarrow> bool" where
  "plan_inv s \<longleftrightarrow> page_fits (ff_categories s) (ff_formCategoryId s) (ff_formType s) (ff_tasks s) (ff_confirm s)"

lemma resolve_valid:
  assumes ok: "categories_ok cats" and c: "c \<in> set cats" "ca_id c = k" "category_type_matches (ca_type c) t"
  shows "\<exists>m. resolveMasterId cats (Some k) = Some m \<and> validate_master_category cats m t"
proof -
  have d: "distinct (map ca_id cats)" using ok by (simp add: categories_ok_def)
  have found: "js_find (\<lambda>x. ca_id x = ca_id y) cats = Some y" if "y \<in> set cats" for y
    using find_by_id [OF d that] by simp
  show ?thesis
  proof (cases "ca_parent_id c")
    case None
    then show ?thesis using found [OF c(1)] c by (simp add: resolveMasterId_def validate_master_category_def)
  next
    case (Some p)
    then obtain m where m: "m \<in> set cats" "ca_id m = p" "ca_parent_id m = None" "ca_type m = ca_type c"
      using ok c(1) unfolding categories_ok_def by blast
    then show ?thesis using found [OF c(1)] found [OF m(1)] c Some by (simp add: resolveMasterId_def validate_master_category_def)
  qed
qed

lemma js_find_append: "js_find p (xs @ ys) = (case js_find p xs of Some x \<Rightarrow> Some x | None \<Rightarrow> js_find p ys)"
  by (induction xs) (auto split: option.split)

lemma plan_task_ok_append: "plan_task_ok cats t \<Longrightarrow> plan_task_ok (cats @ cs) t"
  by (cases t) (auto simp: validate_master_category_def js_find_append split: option.splits)

lemma start_plan_task_fields [simp]:
  "ff_categories (start_plan_task t s) = ff_categories s" "ff_formCategoryId (start_plan_task t s) = ff_formCategoryId s"
  "ff_formType (start_plan_task t s) = ff_formType s" "ff_confirm (start_plan_task t s) = ff_confirm s"
  "ff_tasks (start_plan_task t s) = ff_tasks s @ [t]"
  by (simp_all add: start_plan_task_def)

lemma inv_start: "plan_inv s \<Longrightarrow> plan_task_ok (ff_categories s) t \<Longrightarrow> plan_inv (start_plan_task t s)"
  by (simp add: plan_inv_def page_fits_def)

lemma inv_send: "plan_inv s \<Longrightarrow> plan_task_ok (ff_categories s) t \<Longrightarrow> plan_inv (plan_send t s)"
  unfolding plan_send_def by (rule inv_start) (simp_all add: plan_inv_def)

lemma inv_confirm: "plan_inv s \<Longrightarrow> plan_task_ok (ff_categories s) (confirm_task c) \<Longrightarrow> plan_inv (s\<lparr>ff_confirm := Some c\<rparr>)"
  by (simp add: plan_inv_def page_fits_def)

lemma plan_shown: "pl_plan s = Some p \<Longrightarrow> fp_period_start p = pl_periodStart s \<and> pl_all_items s = fp_items p
    \<and> (pl_active s \<longleftrightarrow> fp_status p = PlanActive) \<and> (pl_draft s \<longleftrightarrow> fp_status p = PlanDraft)"
  by (auto simp: pl_all_items_def pl_active_def pl_draft_def pl_plan_def split: option.splits if_splits)

lemma item_shown_ok: "pl_plan s = Some p \<Longrightarrow> item_shown s i \<Longrightarrow> fp_status p = PlanDraft \<and> list_ex (\<lambda>x. fi_id x = i) (fp_items p)"
  using plan_shown [of s p] by (cases "fp_status p") (auto simp: item_shown_def pl_items_def list_ex_iff)

lemma add_inv:
  assumes "plan_inv s"
  shows "plan_inv (handleAddItem s)"
proof (cases "pl_plan s")
  case (Some p)
  show ?thesis
  proof (cases "ff_showForm s \<and> pl_draft s \<and> amount_valid (ff_formAmount s)")
    case True
    show ?thesis
    proof (cases "resolveMasterId (ff_categories s) (ff_formCategoryId s)")
      case None
      then show ?thesis using Some True assms by (simp add: handleAddItem_def plan_inv_def)
    next
      case m: (Some m)
      then obtain k where k: "ff_formCategoryId s = Some k" by (cases "ff_formCategoryId s") (auto simp: resolveMasterId_def)
      with assms obtain c where "c \<in> set (ff_categories s)" "ca_id c = k" "category_type_matches (ca_type c) (ff_formType s)"
        by (auto simp: plan_inv_def page_fits_def)
      then have "validate_master_category (ff_categories s) m (ff_formType s)"
        using resolve_valid [of "ff_categories s" c k "ff_formType s"] assms m k by (simp add: plan_inv_def page_fits_def)
      then show ?thesis using Some True m plan_shown [OF Some] inv_send [OF assms] by (simp add: handleAddItem_def)
    qed
  qed (use Some assms in \<open>auto simp: handleAddItem_def\<close>)
qed (use assms in \<open>simp add: handleAddItem_def\<close>)

lemma handlers_inv:
  assumes "plan_inv s"
  shows "plan_inv (handlePopulate s)" "plan_inv (handleRefreshFromSources s)" "plan_inv (handleEditAndRefresh s)"
    "plan_inv (handleUpdateItem s)" "plan_inv (handleDeleteItem i s)" "plan_inv (handleActivate s)"
    "plan_inv (handleRevertToDraft s)" "plan_inv (plan_handleDiscard s)" "plan_inv (plan_onConfirm s)"
    "plan_inv (refreshAfterTransactionAdded s)" "plan_inv (plan_startEdit i s)"
proof -
  note shown = plan_shown [of s] item_shown_ok [of s]
  show "plan_inv (handlePopulate s)" using assms by (simp add: handlePopulate_def inv_send)
  show "plan_inv (handleRefreshFromSources s)" using assms by (simp add: handleRefreshFromSources_def inv_confirm)
  show "plan_inv (handleEditAndRefresh s)" using assms shown
    by (simp add: handleEditAndRefresh_def inv_confirm split: option.split)
  show "plan_inv (handleUpdateItem s)" using assms shown
    by (simp add: handleUpdateItem_def inv_send split: option.split)
  show "plan_inv (handleDeleteItem i s)" using assms shown
    by (simp add: handleDeleteItem_def inv_confirm split: option.split)
  show "plan_inv (handleActivate s)" using assms shown
    by (simp add: handleActivate_def inv_confirm pl_hasItems_def split: option.split)
  show "plan_inv (handleRevertToDraft s)" using assms shown
    by (simp add: handleRevertToDraft_def inv_confirm split: option.split)
  show "plan_inv (plan_handleDiscard s)" using assms shown
    by (simp add: plan_handleDiscard_def inv_confirm split: option.split)
  show "plan_inv (plan_onConfirm s)" using assms
    by (auto simp: plan_onConfirm_def plan_send_def plan_inv_def page_fits_def split: option.split)
  show "plan_inv (refreshAfterTransactionAdded s)" using assms
    by (auto simp: refreshAfterTransactionAdded_def plan_inv_def page_fits_def)
  show "plan_inv (plan_startEdit i s)" using assms
    by (auto simp: plan_startEdit_def plan_inv_def split: option.split)
qed

lemma modal_filled_ok: "modal_filled p m \<Longrightarrow> modal_ok p m"
  by (auto simp: modal_filled_def modal_ok_def parent_options_def masters_def list_ex_iff)

lemma created_plan_inv:
  assumes "plan_inv s"
  shows "plan_inv (category_created m i s)"
proof (cases "modal_filled (plan_picker s) m \<and> i \<notin> ca_id ` set (ff_categories s)")
  case True
  show ?thesis
  proof (cases "create_category (ff_categories s) m i")
    case (Some c)
    have ok: "categories_ok (ff_categories s)" using assms by (simp add: plan_inv_def page_fits_def)
    have "categories_ok (ff_categories s @ [c])" using categories_ok_add [OF ok Some] True by blast
    moreover have "pickable_type (plan_picker s) c"
      using created_pickable [of "plan_picker s" m i c] ok modal_filled_ok [of "plan_picker s" m] True Some by (simp add: plan_picker_def bothOnly_def)
    then have "category_type_matches (ca_type c) (ff_formType s)"
      by (auto simp: pickable_type_def plan_picker_def effectiveFilterType_def category_type_matches_def)
    moreover have "picked_fits (ff_categories s @ [c]) (ff_formType s) (ff_formCategoryId s)"
      using assms by (cases "ff_formCategoryId s") (auto simp: plan_inv_def page_fits_def)
    moreover have "confirm_fits (ff_categories s @ [c]) (ff_confirm s)"
      using assms plan_task_ok_append by (cases "ff_confirm s") (auto simp: plan_inv_def page_fits_def)
    moreover have "list_all (plan_task_ok (ff_categories s @ [c])) (ff_tasks s)"
      using assms plan_task_ok_append by (auto simp: plan_inv_def page_fits_def list_all_iff)
    ultimately show ?thesis
      using True Some created_category(1) [OF Some] by (simp add: category_created_def plan_inv_def page_fits_def)
  qed (use True assms in \<open>simp add: category_created_def\<close>)
qed (use assms in \<open>auto simp: category_created_def\<close>)

lemma inv_updates [simp]:
  "plan_inv (s\<lparr>ff_planData := d, ff_planLoading := l\<rparr>) = plan_inv s" "plan_inv (s\<lparr>ff_periodIdx := n\<rparr>) = plan_inv s"
  "plan_inv (s\<lparr>ff_showDetails := b, ff_storage := st\<rparr>) = plan_inv s" "plan_inv (s\<lparr>ff_showForm := b\<rparr>) = plan_inv s"
  "plan_inv (s\<lparr>ff_formAmount := a\<rparr>) = plan_inv s" "plan_inv (s\<lparr>ff_viewFilter := f\<rparr>) = plan_inv s"
  "plan_inv (s\<lparr>ff_editAmount := a\<rparr>) = plan_inv s" "plan_inv (s\<lparr>ff_editingId := i\<rparr>) = plan_inv s"
  by (simp_all add: plan_inv_def)

lemma inv_form:
  "plan_inv s \<Longrightarrow> plan_inv (s\<lparr>ff_formType := t, ff_formCategoryId := None\<rparr>)"
  "plan_inv s \<Longrightarrow> plan_inv (s\<lparr>ff_confirm := None\<rparr>)"
  "plan_inv s \<Longrightarrow> plan_inv (s\<lparr>ff_formCategoryId := None\<rparr>)"
  by (simp_all add: plan_inv_def page_fits_def)

lemma done_inv: "plan_inv s \<Longrightarrow> plan_task_ok (ff_categories s) t \<Longrightarrow> plan_inv (plan_done t s)"
  by (cases t) (simp_all add: inv_form inv_start)

lemma answer_inv:
  assumes "plan_inv s"
  shows "plan_inv (plan_answered i ans s)"
proof (cases "i < length (ff_tasks s)")
  case True
  let ?t = "ff_tasks s ! i" and ?s = "without_task i s"
  have all: "list_all P (take i ts @ drop (Suc i) ts)" if "list_all P ts" for P :: "plan_task \<Rightarrow> bool" and ts
    using that by (auto simp: list_all_iff dest: in_set_takeD in_set_dropD)
  have s: "plan_inv ?s" and t: "plan_task_ok (ff_categories ?s) ?t"
    using assms True all [of "plan_task_ok (ff_categories s)" "ff_tasks s"]
    by (simp_all add: plan_inv_def page_fits_def without_task_def list_all_length)
  have give: "plan_inv (give p ?s)" "ff_categories (give p ?s) = ff_categories ?s" for p
    using s by (simp_all add: give_def plan_inv_def)
  have fin: "plan_inv (plan_done ?t (give p ?s))" for p
    using done_inv [OF give(1) [of p]] t give(2) [of p] by simp
  have fail: "plan_inv (plan_failed e ?s)" for e using s by (simp add: plan_failed_def plan_inv_def)
  have per: "plan_inv (periods_refreshed l ?s)" for l
    using s by (simp add: periods_refreshed_def plan_inv_def split: option.split)
  have upd: "plan_inv (?s\<lparr>ff_refreshError := b, ff_refreshing := False\<rparr>)" for b using s by (simp add: plan_inv_def)
  have no_cats: "?t \<noteq> FtCategories" using t by auto
  have "plan_inv s'" if a: "plan_task_answered ?t ans ?s = Some s'" for s'
  proof (cases ans)
    case (AnPlan r)
    have "s' = (case r of Inr p \<Rightarrow> plan_done ?t (give p ?s) | Inl e \<Rightarrow> plan_failed e ?s)"
      using a AnPlan by (simp add: plan_task_answered_def split: if_splits)
    then show ?thesis using fin fail by (cases r) simp_all
  next
    case (AnDone r)
    then show ?thesis using a upd s inv_start [OF s, of FtPeriods]
      by (cases r) (auto simp: plan_task_answered_def simp del: start_plan_task_fields split: if_splits)
  next
    case (AnPeriodList r)
    then show ?thesis using a per s by (cases r) (auto simp: plan_task_answered_def split: if_splits)
  next
    case (AnCategoryList r)
    then show ?thesis using a no_cats by (simp add: plan_task_answered_def)
  qed
  then show ?thesis using True assms by (cases "plan_task_answered ?t ans ?s") (simp_all add: plan_answered_def)
qed (use assms in \<open>simp add: plan_answered_def\<close>)

lemma react_inv: "plan_inv s \<Longrightarrow> plan_inv (plan_react s e)"
proof (cases e)
  case (FpCategory c)
  assume "plan_inv s"
  moreover have "category_type_matches (ca_type c) (ff_formType s)" "c \<in> set (ff_categories s)"
    if "c \<in> set (selectable (plan_picker s))"
    using that by (auto simp: selectable_def pickable_type_def plan_picker_def effectiveFilterType_def category_type_matches_def)
  ultimately show ?thesis using FpCategory by (auto simp: plan_inv_def page_fits_def)
next
  case FpRetry
  assume inv: "plan_inv s"
  then have "plan_inv (s\<lparr>ff_refreshError := False\<rparr>)" by (simp add: plan_inv_def)
  then show ?thesis using FpRetry inv handlers_inv(10) by simp
qed (simp_all add: handlers_inv add_inv created_plan_inv answer_inv inv_form split: option.split)

interpretation plan_machine: step_machine plan_step plan_inv
proof
  fix s e
  assume "plan_inv s"
  then have "plan_inv (plan_react s e)" by (rule react_inv)
  then show "plan_inv (plan_step s e)" by (simp add: plan_step_def plan_inv_def Let_def)
qed

lemma plan_mount_inv: "cats \<noteq> [] \<Longrightarrow> categories_ok cats \<Longrightarrow> plan_inv (plan_mount today periods cats plan st)"
  by (simp add: plan_mount_def plan_inv_def page_fits_def Let_def)

lemma writes_accepted:
  "cats \<noteq> [] \<Longrightarrow> categories_ok cats \<Longrightarrow> t \<in> set (ff_tasks (run plan_step (plan_mount today periods cats plan st) es))
    \<Longrightarrow> plan_task_ok (ff_categories (run plan_step (plan_mount today periods cats plan st) es)) t"
  using plan_machine.run_inv [OF plan_mount_inv [of cats today periods plan st], of es]
  by (auto simp: plan_inv_def page_fits_def list_all_iff)

text \<open>C6: Every item that the page adds passes the checks of the backend. Take a page that was opened with
  categories, whose ids are distinct and whose parents are masters of the same type. Whatever was
  clicked, picked, created or answered before, each request to add an item that is under way has
  an amount of a cent at least, which the schema takes as that number, goes to a draft, and is
  made for a master category of the item's type, as the page showed plan and categories:
  \<^verbatim>\<open>upsert_item\<close> does not refuse it, and afterwards the plan has that amount for the category. (The
  width of the column is not part of it.)\<close>

theorem added_items_accepted:
  assumes "cats \<noteq> []" and "categories_ok cats"
    and "FtAdd p k t a \<in> set (ff_tasks (run plan_step (plan_mount today periods cats plan st) es))"
  shows "\<exists>q items. positive_field a = Some q \<and> q \<ge> 1 / 100
    \<and> add_item_route (ff_categories (run plan_step (plan_mount today periods cats plan st) es)) p k t a fresh = Some items
    \<and> (\<exists>i \<in> set items. same_item k t i \<and> fi_planned_amount i = q \<and> fi_source i = SrcManual)"
proof -
  let ?cats = "ff_categories (run plan_step (plan_mount today periods cats plan st) es)"
  have ok: "fp_status p = PlanDraft" "validate_master_category ?cats k t" "amount_valid a"
    using writes_accepted [OF assms(1,2,3)] by simp_all
  then obtain q where q: "js_Number a = Some q" "q \<ge> 1 / 100" by (auto simp: amount_valid_def split: option.splits)
  then have a: "positive_field a = Some q" by (intro positive_number) simp_all
  have first: "\<exists>i \<in> set (set_first (same_item k t) (\<lambda>i. i\<lparr>fi_planned_amount := q, fi_source := SrcManual\<rparr>) xs).
      same_item k t i \<and> fi_planned_amount i = q \<and> fi_source i = SrcManual" if "list_ex (same_item k t) xs" for xs
    using that by (induction xs) (auto simp: same_item_def)
  show ?thesis
    using ok a q(2) first by (cases "list_ex (same_item k t) (fp_items p)")
      (auto simp: add_item_route_def upsert_item_def require_draft_def same_item_def)
qed

text \<open>What the backend makes of the other writes on a plan, as values: refused or not.\<close>

fun plan_write_taken :: "plan_task \<Rightarrow> bool" where
  "plan_write_taken (FtUpdate p i a) = (update_item_route p i a \<noteq> None)"
| "plan_write_taken (FtDelete p i) = (delete_item p i \<noteq> None)"
| "plan_write_taken (FtActivate p) = (activate_plan p \<noteq> None)"
| "plan_write_taken (FtDiscard p) = (discard_plan p \<noteq> None)"
| "plan_write_taken (FtRevert p) = (revert_to_draft p \<noteq> None)"
| "plan_write_taken (FtRevertFirst p st) = (revert_to_draft p \<noteq> None)"
| "plan_write_taken _ = True"

text \<open>C7: The page follows the status of the plan: under the same conditions on the categories, each edit,
  removal, finalization, discard or revert that is under way is one that the backend carries out
  on the plan as the page showed it (edits, removals and discards of drafts, edits and removals
  of items the plan has, finalizations of drafts that are not empty, reverts of finalized
  plans), with one exception: an edit is refused exactly when its amount is not a positive
  number, which the page does not check.\<close>

theorem plan_writes_follow_status:
  assumes "cats \<noteq> []" and "categories_ok cats"
    and "t \<in> set (ff_tasks (run plan_step (plan_mount today periods cats plan st) es))"
  shows "plan_write_taken t \<longleftrightarrow> (case t of FtUpdate p i a \<Rightarrow> positive_field a \<noteq> None | _ \<Rightarrow> True)"
  using writes_accepted [OF assms]
  by (cases t) (auto simp: update_item_route_def update_item_def delete_item_def activate_plan_def discard_plan_def
      revert_to_draft_def require_draft_def split: option.split)

subsection \<open>Edit and refresh\<close>

text \<open>C32: Edit and refresh works on one period: the plan that is reverted first is the finalized plan of
  the period whose sources are read afterwards. If the second request fails, the reverted
  plan stays what the page was last given, and the error is shown.\<close>

theorem failed_refresh_keeps_draft:
  assumes "cats \<noteq> []" and "categories_ok cats"
    and s: "s = run plan_step (plan_mount today periods cats plan st) es"
    and i: "i < length (ff_tasks s)" "ff_tasks s ! i = FtRevertFirst p d"
  shows "fp_period_start p = d \<and> fp_status p = PlanActive
    \<and> (let s1 = plan_step s (FpAnswer i (AnPlan (Inr draft)));
           j = length (ff_tasks s1) - 1;
           s2 = plan_step s1 (FpAnswer j (AnPlan (Inl e))) in
       ff_tasks s1 ! j = FtRefreshSecond p d \<and> last (ff_mutations s2) = draft
       \<and> ff_error s2 = extractErrorMessage e ''Failed'')"
proof -
  have mem: "FtRevertFirst p d \<in> set (ff_tasks s)" using i nth_mem by metis
  have per: "fp_period_start p = d \<and> fp_status p = PlanActive"
    using writes_accepted [OF assms(1,2)] mem s by fastforce
  define s1 where "s1 = start_plan_task (FtRefreshSecond p d) (give draft (without_task i s))"
  have periods: "pl_periodStart s1 = pl_periodStart s"
    by (simp add: s1_def pl_periodStart_def pl_selected_def start_plan_task_def give_def without_task_def)
  have s1: "plan_step s (FpAnswer i (AnPlan (Inr draft))) = s1"
    using i periods by (simp add: plan_step_def plan_answered_def plan_task_answered_def s1_def Let_def)
  define j where "j = length (ff_tasks s1) - 1"
  have tasks: "ff_tasks s1 = ff_tasks (give draft (without_task i s)) @ [FtRefreshSecond p d]" by (simp add: s1_def)
  then have j: "j < length (ff_tasks s1)" "ff_tasks s1 ! j = FtRefreshSecond p d" by (simp_all add: j_def)
  define s2 where "s2 = plan_failed e (without_task j s1)"
  have "pl_periodStart s2 = pl_periodStart s1"
    by (simp add: s2_def pl_periodStart_def pl_selected_def plan_failed_def without_task_def)
  then have s2: "plan_step s1 (FpAnswer j (AnPlan (Inl e))) = s2"
    using j by (simp add: plan_step_def plan_answered_def plan_task_answered_def s2_def Let_def)
  have "last (ff_mutations s2) = draft" "ff_error s2 = extractErrorMessage e ''Failed''"
    by (simp_all add: s2_def s1_def plan_failed_def without_task_def start_plan_task_def give_def)
  then show ?thesis using per j(2) s1 s2 j_def by (simp add: Let_def)
qed

subsection \<open>The selected period\<close>

lemma selected_mount: "pl_selected (plan_mount today periods cats plan st)
    = (if initialPeriodIdx periods < length periods then Some (periods ! initialPeriodIdx periods) else None)"
  by (simp add: plan_mount_def pl_selected_def start_plan_task_def Let_def)

text \<open>The server and the client choose the same period: the plan that the server fetched is the one
  of the period that the client shows first, so the first render has its data.\<close>

theorem server_and_client_pick_same:
  "pl_selected (plan_mount today periods cats plan st) = pickCurrentPeriod periods"
proof (cases "index_of is_open periods")
  case None
  then have "js_find is_open periods = None" by (simp add: index_of_find)
  then show ?thesis using None
    by (simp add: selected_mount initialPeriodIdx_def pickCurrentPeriod_def hd_conv_nth)
next
  case (Some i)
  then have "js_find is_open periods = Some (periods ! i)" "i < length periods"
    using index_of_Some [OF Some] by (simp_all add: index_of_find)
  then show ?thesis using Some
    by (auto simp: selected_mount initialPeriodIdx_def pickCurrentPeriod_def)
qed

text \<open>C33: New stubs do not move the user: after \<^verbatim>\<open>ensure-future\<close> the refreshed list keeps the period that was
  selected, wherever it now stands in the list, as long as the list still has it.\<close>

theorem ensure_future_keeps_period:
  assumes "pl_selected s = Some per" and "bp_start_date per \<noteq> []"
    and "\<exists>p \<in> set fresh. bp_start_date p = bp_start_date per"
  shows "pl_periodStart (periods_refreshed (Some fresh) s) = pl_periodStart s"
proof -
  obtain i where i: "index_of (\<lambda>p. bp_start_date p = bp_start_date per) fresh = Some i"
    using assms(3) index_of_None [of "\<lambda>p. bp_start_date p = bp_start_date per" fresh] by (cases "index_of (\<lambda>p. bp_start_date p = bp_start_date per) fresh") auto
  then have "i < length fresh" "bp_start_date (fresh ! i) = bp_start_date per" using index_of_Some [OF i] by simp_all
  moreover have "reselect (ff_today s) (Some (bp_start_date per)) fresh = i" using i assms(2) by (simp add: reselect_def)
  ultimately show ?thesis
    using assms(1) by (auto simp: periods_refreshed_def pl_periodStart_def pl_selected_def split: if_splits)
qed

subsection \<open>The plan of another period\<close>

fun is_fp_answer :: "plan_event \<Rightarrow> bool" where
  "is_fp_answer (FpAnswer _ _) = True" | "is_fp_answer _ = False"

text \<open>While the data hook still holds the plan of another period, or none, the page is in its loading
  state and no control of it sends anything, except the confirmation of a dialog that was
  opened before.\<close>

theorem other_plan_sends_nothing:
  assumes "pl_plan s = None" and "\<not> is_fp_answer e" and "e \<noteq> FpConfirm"
  shows "ff_log (plan_step s e) = ff_log s"
proof -
  have none: "\<not> pl_active s" "\<not> pl_draft s" using assms(1) by (simp_all add: pl_active_def pl_draft_def)
  have reload: "ff_log (refreshAfterTransactionAdded x) = ff_log x" for x
    by (simp add: refreshAfterTransactionAdded_def start_plan_task_def)
  have "ff_log (plan_react s e) = ff_log s"
    using assms none reload
    by (cases e) (simp_all add: handlePopulate_def handleRefreshFromSources_def handleEditAndRefresh_def handleRevertToDraft_def
        plan_handleDiscard_def handleActivate_def category_created_def handleAddItem_def plan_startEdit_def
        handleUpdateItem_def handleDeleteItem_def split: option.split)
  then show ?thesis by (simp add: plan_step_def Let_def)
qed

subsection \<open>Concrete runs\<close>

definition demo_plan :: forecast_plan where
  "demo_plan = \<lparr>fp_id = 7, fp_billing_period_id = 2, fp_period_start = ''2026-05-01'', fp_period_end = None, fp_status = PlanDraft,
     fp_total_planned_income = 0, fp_total_planned_expense = 100, fp_total_actual_income = 0, fp_total_actual_expense = 0,
     fp_items = [\<lparr>fi_id = 9, fi_plan_id = 7, fi_category_id = 8, fi_category_name = ''Rent'', fi_parent_id = None,
       fi_type = Expense, fi_planned_amount = 100, fi_source = SrcRecurring, fi_actual_amount = 0, fi_variance = -100\<rparr>]\<rparr>"

definition demo_month :: "int \<Rightarrow> string \<Rightarrow> string option \<Rightarrow> billing_period" where
  "demo_month i st e = \<lparr>bp_id = i, bp_start_date = st, bp_end_date = e\<rparr>"

definition demo_plan_page :: "forecast_plan \<Rightarrow> plan_page" where
  "demo_plan_page p = plan_mount ''2026-05-14'' [demo_month 2 ''2026-05-01'' None] [demo_quick_category, demo_quick_category\<lparr>ca_id := 8\<rparr>]
     (Some p) empty_storage"

lemma demo_plan_cats: "[demo_quick_category, demo_quick_category\<lparr>ca_id := 8\<rparr>] \<noteq> []"
  "categories_ok [demo_quick_category, demo_quick_category\<lparr>ca_id := 8\<rparr>]"
  by (simp_all add: categories_ok_def demo_quick_category_def)

definition demo_add :: "plan_event list" where
  "demo_add = [FpToggleForm, FpCategory demo_quick_category, FpAmount ''12.50'', FpSubmit]"

theorem added_items_accepted_witness:
  "\<exists>items. add_item_route [demo_quick_category, demo_quick_category\<lparr>ca_id := 8\<rparr>] demo_plan 3 Expense ''12.50''
       (hd (fp_items demo_plan)) = Some items
     \<and> (\<exists>i \<in> set items. same_item 3 Expense i \<and> fi_source i = SrcManual \<and> fi_planned_amount i \<ge> 1 / 100)"
proof -
  let ?s = "run plan_step (plan_mount ''2026-05-14'' [demo_month 2 ''2026-05-01'' None] [demo_quick_category, demo_quick_category\<lparr>ca_id := 8\<rparr>]
     (Some demo_plan) empty_storage) demo_add"
  have 1: "ff_tasks ?s = [FtEnsure, FtAdd demo_plan 3 Expense ''12.50'']" by code_simp
  have 2: "ff_categories ?s = [demo_quick_category, demo_quick_category\<lparr>ca_id := 8\<rparr>]" by code_simp
  have "FtAdd demo_plan 3 Expense ''12.50'' \<in> set (ff_tasks ?s)" by (simp add: 1)
  from added_items_accepted [OF demo_plan_cats this, of "hd (fp_items demo_plan)"]
  show ?thesis unfolding 2 by blast
qed

definition demo_edit :: "string \<Rightarrow> plan_event list" where
  "demo_edit a = [FpEdit 9, FpEditAmount a, FpSave]"

theorem plan_writes_follow_status_witness:
  "plan_write_taken (FtUpdate demo_plan 9 ''80'') \<and> \<not> plan_write_taken (FtUpdate demo_plan 9 [])"
proof -
  have 1: "FtUpdate demo_plan 9 ''80'' \<in> set (ff_tasks (run plan_step (demo_plan_page demo_plan) (demo_edit ''80'')))" by code_simp
  have 2: "FtUpdate demo_plan 9 [] \<in> set (ff_tasks (run plan_step (demo_plan_page demo_plan) (demo_edit [])))" by code_simp
  have "positive_field ''80'' \<noteq> None" "positive_field [] = None" by code_simp+
  then show ?thesis
    using plan_writes_follow_status [OF demo_plan_cats 1 [unfolded demo_plan_page_def]]
      plan_writes_follow_status [OF demo_plan_cats 2 [unfolded demo_plan_page_def]] by simp
qed

definition demo_plan_editing :: plan_page where
  "demo_plan_editing = run plan_step (demo_plan_page (demo_plan\<lparr>fp_status := PlanActive\<rparr>)) [FpDetails, FpEditRefresh, FpConfirm]"

theorem failed_refresh_keeps_draft_witness:
  "last (ff_mutations (plan_step (plan_step demo_plan_editing (FpAnswer 1 (AnPlan (Inr demo_plan)))) (FpAnswer 1 (AnPlan (Inl ApiTimeoutError)))))
     = demo_plan"
proof -
  let ?p = "demo_plan\<lparr>fp_status := PlanActive\<rparr>"
  have 1: "ff_tasks demo_plan_editing = [FtEnsure, FtRevertFirst ?p ''2026-05-01'']" by code_simp
  have 2: "length (ff_tasks (plan_step demo_plan_editing (FpAnswer 1 (AnPlan (Inr demo_plan))))) - 1 = 1" by code_simp
  have 3: "1 < length (ff_tasks demo_plan_editing)" "ff_tasks demo_plan_editing ! 1 = FtRevertFirst ?p ''2026-05-01''" by (simp_all add: 1)
  show ?thesis
    using failed_refresh_keeps_draft [OF demo_plan_cats demo_plan_editing_def [unfolded demo_plan_page_def] 3, of demo_plan ApiTimeoutError]
    unfolding Let_def 2 by blast
qed

theorem ensure_future_keeps_period_witness:
  "pl_periodStart (periods_refreshed (Some [demo_month 3 ''2026-06-01'' (Some ''2026-06-30''), demo_month 2 ''2026-05-01'' None])
     (demo_plan_page demo_plan)) = ''2026-05-01''"
proof -
  have "pl_selected (demo_plan_page demo_plan) = Some (demo_month 2 ''2026-05-01'' None)" by code_simp
  moreover have "pl_periodStart (demo_plan_page demo_plan) = ''2026-05-01''" by code_simp
  ultimately show ?thesis
    using ensure_future_keeps_period [of "demo_plan_page demo_plan" "demo_month 2 ''2026-05-01'' None"
        "[demo_month 3 ''2026-06-01'' (Some ''2026-06-30''), demo_month 2 ''2026-05-01'' None]"]
    by (simp add: demo_month_def)
qed

theorem other_plan_sends_nothing_witness:
  "ff_log (plan_step (demo_plan_page (demo_plan\<lparr>fp_period_start := ''2026-04-01''\<rparr>)) FpPopulate)
     = ff_log (demo_plan_page (demo_plan\<lparr>fp_period_start := ''2026-04-01''\<rparr>))"
proof (rule other_plan_sends_nothing)
  show "pl_plan (demo_plan_page (demo_plan\<lparr>fp_period_start := ''2026-04-01''\<rparr>)) = None" by code_simp
qed simp_all

text \<open>
  A master that has an item is greyed out with its subcategories, but a subcategory made on
  the spot is selected all the same: adding it replaces the amount of the existing item.
\<close>

definition demo_overwrite :: "plan_event list" where
  "demo_overwrite = [FpToggleForm, FpCreated ((add_category_init (plan_picker (demo_plan_page demo_plan)) ''Garage'')
     \<lparr>am_isSub := True, am_parentId := Some 8\<rparr>) 20, FpAmount ''5'', FpSubmit]"

lemma created_subcategory_overwrites:
  "let s = run plan_step (demo_plan_page demo_plan) demo_overwrite in
     ff_tasks s = [FtEnsure, FtAdd demo_plan 8 Expense ''5'']
     \<and> map_option (map fi_planned_amount) (upsert_item (ff_categories s) demo_plan 8 Expense 5 (hd (fp_items demo_plan))) = Some [5]"
  by code_simp

end
