(* ===== verification/Budgets.thy ===== *)
theory Budgets
  imports Dashboard_Figures Quick_Forms
begin

section \<open>The budgets page (app/budgets/page.tsx)\<close>

text \<open>
  The page as a step machine. A handler and the load that follows it keep the start of the
  period that their render showed. Loads are neither numbered nor cancelled.
\<close>

subsection \<open>State\<close>

datatype after_budgets = BudgetsEffect | BudgetsRefresh | BudgetsHandler

datatype budget_task =
    BtRefs
  | BtLoad after_budgets string
  | BtForecast
  | BtAdd string int string
  | BtUpdate string int string
  | BtDelete string int
  | BtTransfer string int int string

record budget_page =
  bg_today :: string
  bg_budgets :: "budget_entry list"
  bg_categories :: "category list"
  bg_periods :: "billing_period list"
  bg_periodIdx :: nat
  bg_fetching :: bool
  bg_error :: string
  bg_refreshError :: bool
  bg_refreshing :: bool
  bg_showForm :: bool
  bg_formCategoryId :: "int option"
  bg_formAmount :: string
  bg_editingId :: "int option"
  bg_editAmount :: string
  bg_transferringId :: "int option"
  bg_transferCategoryId :: "int option"
  bg_transferAmount :: string
  bg_confirmDeleteId :: "int option"
  bg_tasks :: "budget_task list"
  bg_log :: "request list"

subsection \<open>What a render computes\<close>

definition bg_selected :: "budget_page \<Rightarrow> billing_period option" where
  "bg_selected s = (if bg_periodIdx s < length (bg_periods s) then Some (bg_periods s ! bg_periodIdx s) else None)"

definition bg_periodStart :: "budget_page \<Rightarrow> string" where
  "bg_periodStart s = (case bg_selected s of Some p \<Rightarrow> bp_start_date p | None \<Rightarrow> [])"

definition bg_current :: "budget_page \<Rightarrow> bool" where
  "bg_current s \<longleftrightarrow> (case bg_selected s of Some p \<Rightarrow> is_open p | None \<Rightarrow> False)"

definition masterCategories :: "budget_page \<Rightarrow> category list" where
  "masterCategories s = filter (\<lambda>c. ca_parent_id c = None \<and> ca_type c = CatExpense) (bg_categories s)"

definition availableCategories :: "budget_page \<Rightarrow> category list" where
  "availableCategories s = filter (\<lambda>c. ca_id c \<notin> set (map bu_category_id (bg_budgets s))) (masterCategories s)"

definition transferTargets :: "budget_page \<Rightarrow> budget_entry \<Rightarrow> category list" where
  "transferTargets s b = filter (\<lambda>c. ca_id c \<noteq> bu_category_id b) (masterCategories s)"

definition totalBudget :: "budget_page \<Rightarrow> rat" where
  "totalBudget s = foldl (\<lambda>t b. t + bu_amount b) 0 (bg_budgets s)"

definition totalSpent :: "budget_page \<Rightarrow> rat" where
  "totalSpent s = foldl (\<lambda>t b. t + bu_spent b) 0 (bg_budgets s)"

definition page_budgetChartData :: "budget_page \<Rightarrow> budget_bar list" where
  "page_budgetChartData s = map (budget_bar_of True) (bg_budgets s)"

text \<open>The rows are replaced by a spinner while the page is fetching.\<close>

definition budget_shown :: "budget_page \<Rightarrow> int \<Rightarrow> budget_entry option" where
  "budget_shown s i = (if bg_fetching s then None else js_find (\<lambda>b. bu_id b = i) (bg_budgets s))"

subsection \<open>Requests\<close>

definition budgets_url :: "string \<Rightarrow> string" where
  "budgets_url st = (if st \<noteq> [] then ''/api/v1/budgets?period_start='' @ st else ''/api/v1/budgets'')"

fun budget_requests :: "budget_task \<Rightarrow> request list" where
  "budget_requests BtRefs = [mk_req GET ''/api/v1/categories'' JUndef, mk_req GET ''/api/v1/settings/billing-periods'' JUndef]"
| "budget_requests (BtLoad _ st) = [mk_req GET (budgets_url st) JUndef]"
| "budget_requests BtForecast = [mk_req POST ''/api/v1/budgets/from-forecast'' JUndef]"
| "budget_requests (BtAdd st k a) = [mk_req POST (budgets_url st) (JObj [(''category_id'', JInt k), (''amount'', JStr a)])]"
| "budget_requests (BtUpdate _ i a) = [mk_req PUT (''/api/v1/budgets/'' @ show_int i) (JObj [(''amount'', JStr a)])]"
| "budget_requests (BtDelete _ i) = [mk_req DELETE (''/api/v1/budgets/'' @ show_int i) JUndef]"
| "budget_requests (BtTransfer _ i k a) = [mk_req POST ''/api/v1/budgets/transfer''
     (JObj [(''from_budget_id'', JInt i), (''to_category_id'', JInt k), (''amount'', JStr a)])]"

definition start_budget_task :: "budget_task \<Rightarrow> budget_page \<Rightarrow> budget_page" where
  "start_budget_task t s = s\<lparr>bg_tasks := bg_tasks s @ [t], bg_log := bg_log s @ budget_requests t\<rparr>"

subsection \<open>Effects\<close>

definition load_budgets_effect :: "budget_page \<Rightarrow> budget_page" where
  "load_budgets_effect s = start_budget_task (BtLoad BudgetsEffect (bg_periodStart s)) (s\<lparr>bg_fetching := True\<rparr>)"

definition drop_open_forms :: "budget_page \<Rightarrow> budget_page" where
  "drop_open_forms s = s\<lparr>bg_showForm := False, bg_editingId := None, bg_transferringId := None, bg_confirmDeleteId := None\<rparr>"

definition budget_effects :: "budget_page \<Rightarrow> budget_page \<Rightarrow> budget_page" where
  "budget_effects old s =
     (let s1 = (if bg_periodStart s \<noteq> bg_periodStart old then load_budgets_effect s else s) in
      if bg_current s \<noteq> bg_current old \<and> \<not> bg_current s then drop_open_forms s1 else s1)"

definition budget_user_effects :: "budget_page \<Rightarrow> budget_page" where
  "budget_user_effects s = load_budgets_effect (start_budget_task BtRefs s)"

definition budget_mount :: "string \<Rightarrow> budget_page" where
  "budget_mount today = drop_open_forms (budget_user_effects \<lparr>bg_today = today, bg_budgets = [], bg_categories = [],
     bg_periods = [], bg_periodIdx = 0, bg_fetching = True, bg_error = [], bg_refreshError = False, bg_refreshing = False,
     bg_showForm = False, bg_formCategoryId = None, bg_formAmount = [], bg_editingId = None, bg_editAmount = [],
     bg_transferringId = None, bg_transferCategoryId = None, bg_transferAmount = [], bg_confirmDeleteId = None,
     bg_tasks = [], bg_log = []\<rparr>)"

subsection \<open>Handlers\<close>

definition clear_error :: "budget_page \<Rightarrow> budget_page" where
  "clear_error s = s\<lparr>bg_error := []\<rparr>"

definition handleFromForecast :: "budget_page \<Rightarrow> budget_page" where
  "handleFromForecast s = (if bg_current s then start_budget_task BtForecast (clear_error s) else s)"

text \<open>
  The category of the form is required: a choice that is no longer offered shows as no
  choice and the browser stops the submit.
\<close>

definition budget_handleAdd :: "budget_page \<Rightarrow> budget_page" where
  "budget_handleAdd s = (case bg_formCategoryId s of
      Some k \<Rightarrow> if bg_showForm s \<and> bg_current s \<and> list_ex (\<lambda>c. ca_id c = k) (availableCategories s) \<and> amount_valid (bg_formAmount s)
        then start_budget_task (BtAdd (bg_periodStart s) k (bg_formAmount s)) (clear_error s) else s
    | None \<Rightarrow> s)"

definition budget_handleUpdate :: "budget_page \<Rightarrow> budget_page" where
  "budget_handleUpdate s = (case bg_editingId s of
      Some i \<Rightarrow> if bg_current s \<and> budget_shown s i \<noteq> None
        then start_budget_task (BtUpdate (bg_periodStart s) i (bg_editAmount s)) (clear_error s) else s
    | None \<Rightarrow> s)"

definition budget_handleDelete :: "budget_page \<Rightarrow> budget_page" where
  "budget_handleDelete s = (case bg_confirmDeleteId s of
      Some i \<Rightarrow> if bg_current s then start_budget_task (BtDelete (bg_periodStart s) i) (s\<lparr>bg_confirmDeleteId := None\<rparr>) else s
    | None \<Rightarrow> s)"

text \<open>The transfer row is part of a budget's row that is not being edited.\<close>

definition transfer_open :: "budget_page \<Rightarrow> budget_entry option" where
  "transfer_open s = (case bg_transferringId s of
      Some i \<Rightarrow> if bg_current s \<and> bg_editingId s \<noteq> Some i then budget_shown s i else None
    | None \<Rightarrow> None)"

definition handleTransfer :: "budget_page \<Rightarrow> budget_page" where
  "handleTransfer s = (case (transfer_open s, bg_transferCategoryId s) of
      (Some b, Some k) \<Rightarrow> if bg_transferAmount s \<noteq> []
        then start_budget_task (BtTransfer (bg_periodStart s) (bu_id b) k (bg_transferAmount s)) (clear_error s) else s
    | _ \<Rightarrow> s)"

definition row_actions :: "budget_page \<Rightarrow> int \<Rightarrow> budget_entry option" where
  "row_actions s i = (if bg_current s \<and> bg_editingId s \<noteq> Some i then budget_shown s i else None)"

definition budget_refresh :: "budget_page \<Rightarrow> budget_page" where
  "budget_refresh s = start_budget_task (BtLoad BudgetsRefresh (bg_periodStart s)) (s\<lparr>bg_refreshing := True\<rparr>)"

subsection \<open>Answers\<close>

datatype budget_answer =
    AbRefs "js_error + (category list option \<times> billing_period list option)"
  | AbBudgets "js_error + budget_entry list option"
  | AbDone "js_error + unit"

definition budget_refs_set :: "category list option \<Rightarrow> billing_period list option \<Rightarrow> budget_page \<Rightarrow> budget_page" where
  "budget_refs_set c p s =
     (let pl = filter (\<lambda>bp. \<not> js_less (bg_today s) (bp_start_date bp)) (case p of Some l \<Rightarrow> l | None \<Rightarrow> []) in
      s\<lparr>bg_categories := (case c of Some l \<Rightarrow> l | None \<Rightarrow> []), bg_periods := pl,
        bg_periodIdx := (case index_of is_open pl of Some i \<Rightarrow> i | None \<Rightarrow> bg_periodIdx s)\<rparr>)"

definition budgets_set :: "budget_entry list option \<Rightarrow> budget_page \<Rightarrow> budget_page" where
  "budgets_set b s = s\<lparr>bg_budgets := (case b of Some l \<Rightarrow> l | None \<Rightarrow> []), bg_fetching := False\<rparr>"

definition budget_failed :: "js_error \<Rightarrow> budget_page \<Rightarrow> budget_page" where
  "budget_failed e s = s\<lparr>bg_error := extractErrorMessage e ''Failed''\<rparr>"

fun after_budgets_set :: "after_budgets \<Rightarrow> budget_page \<Rightarrow> budget_page" where
  "after_budgets_set BudgetsRefresh s = s\<lparr>bg_refreshError := False, bg_refreshing := False\<rparr>"
| "after_budgets_set _ s = s"

fun budgets_load_failed :: "after_budgets \<Rightarrow> js_error \<Rightarrow> budget_page \<Rightarrow> budget_page" where
  "budgets_load_failed BudgetsEffect e s = s\<lparr>bg_fetching := False\<rparr>"
| "budgets_load_failed BudgetsRefresh e s = s\<lparr>bg_refreshError := True, bg_refreshing := False\<rparr>"
| "budgets_load_failed BudgetsHandler e s = budget_failed e s"

text \<open>What a write does when it succeeded, before the load that follows it.\<close>

fun budget_written :: "budget_task \<Rightarrow> budget_page \<Rightarrow> budget_page" where
  "budget_written (BtAdd st k a) s = start_budget_task (BtLoad BudgetsHandler st)
     (s\<lparr>bg_formCategoryId := None, bg_formAmount := [], bg_showForm := False\<rparr>)"
| "budget_written (BtUpdate st i a) s = start_budget_task (BtLoad BudgetsHandler st) (s\<lparr>bg_editingId := None\<rparr>)"
| "budget_written (BtDelete st i) s = start_budget_task (BtLoad BudgetsHandler st) s"
| "budget_written (BtTransfer st i k a) s = start_budget_task (BtLoad BudgetsHandler st)
     (s\<lparr>bg_transferringId := None, bg_transferCategoryId := None, bg_transferAmount := []\<rparr>)"
| "budget_written _ s = s"

fun budget_task_answered :: "budget_task \<Rightarrow> budget_answer \<Rightarrow> budget_page \<Rightarrow> budget_page option" where
  "budget_task_answered BtRefs (AbRefs r) s = Some (case r of Inr (c, p) \<Rightarrow> budget_refs_set c p s | Inl _ \<Rightarrow> s)"
| "budget_task_answered (BtLoad a st) (AbBudgets r) s = Some (case r of
     Inr b \<Rightarrow> after_budgets_set a (budgets_set b s) | Inl e \<Rightarrow> budgets_load_failed a e s)"
| "budget_task_answered BtForecast (AbBudgets r) s = Some (case r of
     Inr b \<Rightarrow> s\<lparr>bg_budgets := (case b of Some l \<Rightarrow> l | None \<Rightarrow> [])\<rparr> | Inl e \<Rightarrow> budget_failed e s)"
| "budget_task_answered BtRefs _ s = None"
| "budget_task_answered (BtLoad _ _) _ s = None"
| "budget_task_answered BtForecast _ s = None"
| "budget_task_answered t (AbDone r) s = Some (case r of Inr _ \<Rightarrow> budget_written t s | Inl e \<Rightarrow> budget_failed e s)"
| "budget_task_answered t _ s = None"

definition budget_answered :: "nat \<Rightarrow> budget_answer \<Rightarrow> budget_page \<Rightarrow> budget_page" where
  "budget_answered i ans s =
     (if i < length (bg_tasks s) then
        (case budget_task_answered (bg_tasks s ! i) ans
           (s\<lparr>bg_tasks := take i (bg_tasks s) @ drop (Suc i) (bg_tasks s)\<rparr>) of Some s' \<Rightarrow> s' | None \<Rightarrow> s)
      else s)"

subsection \<open>Events\<close>

datatype budget_event =
    BgUser | BgOlder | BgNewer | BgToday | BgFromForecast | BgToggleForm
  | BgCategory "int option" | BgAmount string | BgSubmit
  | BgEdit int | BgEditAmount string | BgCancelEdit | BgSave
  | BgRemove int | BgConfirm | BgCancel
  | BgTransfer int | BgTarget "int option" | BgTransferAmount string | BgSend | BgCancelTransfer
  | BgAdded | BgRetry | BgAnswer nat budget_answer

fun budget_react :: "budget_page \<Rightarrow> budget_event \<Rightarrow> budget_page" where
  "budget_react s BgUser = budget_user_effects s"
| "budget_react s BgOlder = (if bg_periodIdx s + 1 \<ge> length (bg_periods s) then s
     else s\<lparr>bg_periodIdx := min (bg_periodIdx s + 1) (length (bg_periods s) - 1)\<rparr>)"
| "budget_react s BgNewer = (if bg_periods s = [] then s else s\<lparr>bg_periodIdx := bg_periodIdx s - 1\<rparr>)"
| "budget_react s BgToday = (if bg_current s then s else (case index_of is_open (bg_periods s) of
     Some i \<Rightarrow> s\<lparr>bg_periodIdx := i\<rparr> | None \<Rightarrow> s))"
| "budget_react s BgFromForecast = handleFromForecast s"
| "budget_react s BgToggleForm = (if bg_current s \<and> availableCategories s \<noteq> [] then s\<lparr>bg_showForm := \<not> bg_showForm s\<rparr> else s)"
| "budget_react s (BgCategory k) = (if bg_showForm s \<and> bg_current s
     \<and> (case k of None \<Rightarrow> True | Some i \<Rightarrow> list_ex (\<lambda>c. ca_id c = i) (availableCategories s))
     then s\<lparr>bg_formCategoryId := k\<rparr> else s)"
| "budget_react s (BgAmount a) = (if bg_showForm s \<and> bg_current s then s\<lparr>bg_formAmount := a\<rparr> else s)"
| "budget_react s BgSubmit = budget_handleAdd s"
| "budget_react s (BgEdit i) = (case row_actions s i of
     Some b \<Rightarrow> s\<lparr>bg_editingId := Some i, bg_editAmount := amount_text (bu_amount b)\<rparr> | None \<Rightarrow> s)"
| "budget_react s (BgEditAmount a) = s\<lparr>bg_editAmount := a\<rparr>"
| "budget_react s BgCancelEdit = s\<lparr>bg_editingId := None\<rparr>"
| "budget_react s BgSave = budget_handleUpdate s"
| "budget_react s (BgRemove i) = (if row_actions s i = None then s else s\<lparr>bg_confirmDeleteId := Some i\<rparr>)"
| "budget_react s BgConfirm = budget_handleDelete s"
| "budget_react s BgCancel = s\<lparr>bg_confirmDeleteId := None\<rparr>"
| "budget_react s (BgTransfer i) = (if row_actions s i = None then s
     else s\<lparr>bg_transferringId := (if bg_transferringId s = Some i then None else Some i),
        bg_transferCategoryId := None, bg_transferAmount := []\<rparr>)"
| "budget_react s (BgTarget k) = (case transfer_open s of
     Some b \<Rightarrow> if (case k of None \<Rightarrow> True | Some i \<Rightarrow> list_ex (\<lambda>c. ca_id c = i) (transferTargets s b))
       then s\<lparr>bg_transferCategoryId := k\<rparr> else s
   | None \<Rightarrow> s)"
| "budget_react s (BgTransferAmount a) = (if transfer_open s = None then s else s\<lparr>bg_transferAmount := a\<rparr>)"
| "budget_react s BgSend = handleTransfer s"
| "budget_react s BgCancelTransfer = s\<lparr>bg_transferringId := None\<rparr>"
| "budget_react s BgAdded = budget_refresh s"
| "budget_react s BgRetry = (if bg_refreshError s \<and> \<not> bg_refreshing s then budget_refresh (s\<lparr>bg_refreshError := False\<rparr>) else s)"
| "budget_react s (BgAnswer i ans) = budget_answered i ans s"

definition budget_step :: "budget_page \<Rightarrow> budget_event \<Rightarrow> budget_page" where
  "budget_step s e = budget_effects s (budget_react s e)"

end
