(* ===== verification/Budgets_Props.thy ===== *)
theory Budgets_Props
  imports Budgets
begin

section \<open>The budgets page: properties\<close>

text \<open>
  Writes leave only while the open period is selected, and a closed period has no open
  form; but the rows shown may be those of a closed period.
\<close>

subsection \<open>Writes\<close>

lemma bg_log_simps [simp]:
  "bg_log (start_budget_task t s) = bg_log s @ budget_requests t"
  "bg_log (clear_error s) = bg_log s" "bg_log (drop_open_forms s) = bg_log s"
  "bg_log (budget_refs_set c p s) = bg_log s" "bg_log (budgets_set b s) = bg_log s"
  "bg_log (budget_failed err s) = bg_log s" "bg_log (after_budgets_set a s) = bg_log s"
  by (simp_all add: start_budget_task_def clear_error_def drop_open_forms_def budget_refs_set_def budgets_set_def
      budget_failed_def Let_def) (cases a; simp)

lemma bg_log_failed [simp]: "bg_log (budgets_load_failed a err s) = bg_log s"
  by (cases a) simp_all

text \<open>\<open>t\<close> continues the log of \<open>s\<close>, by reads only unless writes are allowed.\<close>

definition adds :: "bool \<Rightarrow> budget_page \<Rightarrow> budget_page \<Rightarrow> bool" where
  "adds w s t \<longleftrightarrow> (\<exists>new. bg_log t = bg_log s @ new \<and> (w \<or> list_all (\<lambda>r. rq_method r = GET) new))"

lemma adds_same: "bg_log t = bg_log s \<Longrightarrow> adds w s t"
  by (simp add: adds_def)

lemma adds_log: "adds w s t \<Longrightarrow> bg_log u = bg_log t \<Longrightarrow> adds w s u"
  by (simp add: adds_def)

lemma adds_task:
  assumes "adds w s t" and "w \<or> list_all (\<lambda>r. rq_method r = GET) (budget_requests k)"
  shows "adds w s (start_budget_task k t)"
proof -
  obtain new where "bg_log t = bg_log s @ new" "w \<or> list_all (\<lambda>r. rq_method r = GET) new" using assms(1) by (auto simp: adds_def)
  then show ?thesis using assms(2) by (auto simp: adds_def)
qed

lemma method_of_req [simp]: "rq_method (mk_req m u v) = m"
  by (simp add: mk_req_def)

lemma reads [simp]: "list_all (\<lambda>r. rq_method r = GET) (budget_requests (BtLoad a st))"
  "list_all (\<lambda>r. rq_method r = GET) (budget_requests BtRefs)"
  by simp_all

lemma adds_load_effect: "adds w s t \<Longrightarrow> adds w s (load_budgets_effect t)"
  unfolding load_budgets_effect_def by (rule adds_task) (auto intro: adds_log)

lemma adds_user: "adds w s (budget_user_effects s)"
  unfolding budget_user_effects_def by (intro adds_load_effect adds_task adds_same) simp_all

lemma adds_refresh: "adds w s t \<Longrightarrow> adds w s (budget_refresh t)"
  unfolding budget_refresh_def by (rule adds_task) (auto intro: adds_log)

lemma adds_written: "adds w s t \<Longrightarrow> adds w s (budget_written k t)"
  by (cases k) (auto intro!: adds_task intro: adds_log)

lemma adds_answered: "adds w s (budget_answered i ans s)"
proof (cases "i < length (bg_tasks s)")
  case True
  let ?t = "s\<lparr>bg_tasks := take i (bg_tasks s) @ drop (Suc i) (bg_tasks s)\<rparr>"
  have t: "adds w s ?t" by (rule adds_same) simp
  have "adds w s u" if "budget_task_answered (bg_tasks s ! i) ans ?t = Some u" for u
    using that adds_written [OF t] adds_log [OF t]
    by (cases "bg_tasks s ! i"; cases ans) (auto split: sum.splits simp del: budget_written.simps)
  then show ?thesis using True adds_same [of s s] by (auto simp: budget_answered_def split: option.split)
qed (simp add: budget_answered_def adds_same)

lemma adds_handlers:
  "adds (bg_current s) s (handleFromForecast s)" "adds (bg_current s) s (budget_handleAdd s)"
  "adds (bg_current s) s (budget_handleUpdate s)" "adds (bg_current s) s (budget_handleDelete s)"
  "adds (bg_current s) s (handleTransfer s)"
proof -
  have start: "adds True s (start_budget_task k t)" if "bg_log t = bg_log s" for k t
    using that by (intro adds_task adds_same) simp_all
  show "adds (bg_current s) s (handleFromForecast s)" "adds (bg_current s) s (budget_handleAdd s)"
    "adds (bg_current s) s (budget_handleUpdate s)" "adds (bg_current s) s (budget_handleDelete s)"
    using start adds_same [of s s]
    by (auto simp: handleFromForecast_def budget_handleAdd_def budget_handleUpdate_def budget_handleDelete_def split: option.split)
  show "adds (bg_current s) s (handleTransfer s)"
    using start adds_same [of s s]
    by (auto simp: handleTransfer_def transfer_open_def split: option.split)
qed

lemma adds_react: "adds (bg_current s) s (budget_react s e)"
  using adds_handlers adds_user adds_answered adds_refresh [OF adds_same [of "s\<lparr>bg_refreshError := False\<rparr>" s]]
    adds_refresh [OF adds_same [of s s]]
  by (cases e) (auto intro!: adds_same split: option.split)

text \<open>C10: The page writes to the backend only while the open period is selected: whatever the state and the
  event, the requests that a step sends are reads, or the open period was the selected one
  before the step.\<close>

theorem budget_writes_only_in_open_period:
  "\<exists>new. bg_log (budget_step s e) = bg_log s @ new \<and> (bg_current s \<or> list_all (\<lambda>r. rq_method r = GET) new)"
proof -
  have "adds (bg_current s) s (budget_step s e)"
    using adds_react [of s e] adds_load_effect [OF adds_react [of s e]]
    by (auto simp: budget_step_def budget_effects_def Let_def intro: adds_log)
  then show ?thesis by (simp add: adds_def)
qed

subsection \<open>Forms\<close>

definition forms_closed :: "budget_page \<Rightarrow> bool" where
  "forms_closed s \<longleftrightarrow> \<not> bg_showForm s \<and> bg_editingId s = None \<and> bg_transferringId s = None \<and> bg_confirmDeleteId s = None"

lemma forms_closed_ops [simp]:
  "forms_closed (start_budget_task t s) = forms_closed s" "forms_closed (clear_error s) = forms_closed s"
  "forms_closed (budget_refs_set c p s) = forms_closed s" "forms_closed (budgets_set b s) = forms_closed s"
  "forms_closed (budget_failed err s) = forms_closed s" "forms_closed (load_budgets_effect s) = forms_closed s"
  "forms_closed (drop_open_forms s)"
  by (simp_all add: forms_closed_def start_budget_task_def clear_error_def drop_open_forms_def budget_refs_set_def
      budgets_set_def budget_failed_def load_budgets_effect_def Let_def)

lemma forms_closed_updates [simp]:
  "forms_closed (s\<lparr>bg_refreshing := x\<rparr>) = forms_closed s" "forms_closed (s\<lparr>bg_refreshError := y\<rparr>) = forms_closed s"
  "forms_closed (s\<lparr>bg_fetching := f\<rparr>) = forms_closed s" "forms_closed (s\<lparr>bg_periodIdx := i\<rparr>) = forms_closed s"
  "forms_closed (s\<lparr>bg_tasks := ts\<rparr>) = forms_closed s" "forms_closed (s\<lparr>bg_budgets := bs\<rparr>) = forms_closed s"
  "forms_closed (s\<lparr>bg_editAmount := a\<rparr>) = forms_closed s"
  by (simp_all add: forms_closed_def)

lemma forms_closed_closing:
  "forms_closed s \<Longrightarrow> forms_closed (s\<lparr>bg_editingId := None\<rparr>)" "forms_closed s \<Longrightarrow> forms_closed (s\<lparr>bg_confirmDeleteId := None\<rparr>)"
  "forms_closed s \<Longrightarrow> forms_closed (s\<lparr>bg_transferringId := None\<rparr>)"
  "forms_closed s \<Longrightarrow> forms_closed (s\<lparr>bg_transferringId := None, bg_transferCategoryId := k, bg_transferAmount := a\<rparr>)"
  "forms_closed s \<Longrightarrow> forms_closed (s\<lparr>bg_formCategoryId := k, bg_formAmount := a, bg_showForm := False\<rparr>)"
  by (simp_all add: forms_closed_def)

lemma forms_written: "forms_closed s \<Longrightarrow> forms_closed (budget_written t s)"
  by (cases t) (simp_all add: forms_closed_closing)

lemma forms_answered: "forms_closed s \<Longrightarrow> forms_closed (budget_answered i ans s)"
proof -
  assume f: "forms_closed s"
  let ?t = "s\<lparr>bg_tasks := take i (bg_tasks s) @ drop (Suc i) (bg_tasks s)\<rparr>"
  have t: "forms_closed ?t" using f by simp
  have a: "forms_closed (after_budgets_set k u) = forms_closed u" "forms_closed (budgets_load_failed k err u) = forms_closed u" for k err u
    by (cases k; simp)+
  have "forms_closed u" if "budget_task_answered (bg_tasks s ! i) ans ?t = Some u" for u
    using that t forms_written [OF t] a
    by (cases "bg_tasks s ! i"; cases ans) (auto split: sum.splits simp del: budget_written.simps after_budgets_set.simps budgets_load_failed.simps)
  then show ?thesis using f by (auto simp: budget_answered_def split: option.split)
qed

lemma forms_react: "\<not> bg_current s \<Longrightarrow> forms_closed s \<Longrightarrow> forms_closed (budget_react s e)"
  using forms_answered [of s] forms_closed_closing [of s]
  by (cases e) (auto simp: budget_user_effects_def handleFromForecast_def budget_handleAdd_def budget_handleUpdate_def
      budget_handleDelete_def handleTransfer_def transfer_open_def row_actions_def budget_refresh_def split: option.split)

definition budget_inv :: "budget_page \<Rightarrow> bool" where
  "budget_inv s \<longleftrightarrow> bg_current s \<or> forms_closed s"

lemma bg_current_effects: "bg_current (budget_effects old s) = bg_current s"
proof -
  have "bg_current (load_budgets_effect s) = bg_current s"
    by (simp add: load_budgets_effect_def start_budget_task_def bg_current_def bg_selected_def)
  moreover have "bg_current (drop_open_forms u) = bg_current u" for u
    by (simp add: drop_open_forms_def bg_current_def bg_selected_def)
  ultimately show ?thesis by (simp add: budget_effects_def Let_def)
qed

interpretation budgets_machine: step_machine budget_step budget_inv
proof unfold_locales
  fix s e assume i: "budget_inv s"
  have "forms_closed (budget_effects s (budget_react s e))" if "\<not> bg_current (budget_react s e)"
    using that i forms_react [of s e] by (auto simp: budget_effects_def Let_def budget_inv_def)
  then show "budget_inv (budget_step s e)" by (auto simp: budget_inv_def budget_step_def bg_current_effects)
qed

text \<open>C11: A closed period has no open form: in every run from the mount, while the selected period is not
  the open one, the add form, the row being edited, the transfer row and the removal dialog are
  all closed.\<close>

theorem closed_period_has_no_open_form:
  "bg_current (run budget_step (budget_mount today) es) \<or>
   (bg_showForm (run budget_step (budget_mount today) es), bg_editingId (run budget_step (budget_mount today) es),
    bg_transferringId (run budget_step (budget_mount today) es), bg_confirmDeleteId (run budget_step (budget_mount today) es))
   = (False, None, None, None)"
proof -
  have "budget_inv (budget_mount today)" by (simp add: budget_inv_def budget_mount_def)
  then have "budget_inv (run budget_step (budget_mount today) es)" by (rule budgets_machine.run_inv)
  then show ?thesis by (auto simp: budget_inv_def forms_closed_def)
qed

subsection \<open>Rows of a closed period\<close>

text \<open>The rows of a closed period can be edited all the same. If the answer to the load of a closed period
  comes late, after the user went back to the open period, it replaces the rows that are shown; they
  have their edit buttons, since these ask only which period is selected, and saving writes to the
  budget of the closed period.\<close>

theorem late_answer_makes_closed_budget_editable:
  assumes "bg_current s" and "bg_editingId s = None" and "i < length (bg_tasks s)" and "bg_tasks s ! i = BtLoad BudgetsEffect st"
    and "js_find (\<lambda>b. bu_id b = k) bs = Some b" and "bu_period_start b = st" and "st \<noteq> bg_periodStart s"
  shows "let t = run budget_step s [BgAnswer i (AbBudgets (Inr (Some bs))), BgEdit k, BgEditAmount a, BgSave] in
    last (bg_log t) = mk_req PUT (''/api/v1/budgets/'' @ show_int k) (JObj [(''amount'', JStr a)])
    \<and> bu_period_start b \<noteq> bg_periodStart t"
proof -
  define t1 where "t1 = s\<lparr>bg_tasks := take i (bg_tasks s) @ drop (Suc i) (bg_tasks s), bg_budgets := bs, bg_fetching := False\<rparr>"
  define t2 where "t2 = t1\<lparr>bg_editingId := Some k, bg_editAmount := amount_text (bu_amount b)\<rparr>"
  define t3 where "t3 = t2\<lparr>bg_editAmount := a\<rparr>"
  define t4 where "t4 = start_budget_task (BtUpdate (bg_periodStart t3) k a) (clear_error t3)"
  have sel: "bg_selected t1 = bg_selected s" "bg_selected t2 = bg_selected s" "bg_selected t3 = bg_selected s" "bg_selected t4 = bg_selected s"
    by (simp_all add: t1_def t2_def t3_def t4_def bg_selected_def start_budget_task_def clear_error_def)
  have still: "budget_effects u v = v" if "bg_selected u = bg_selected v" for u v
    using that by (simp add: budget_effects_def bg_periodStart_def bg_current_def Let_def)
  have cur: "bg_current t1" "bg_current t3" using assms(1) by (simp_all add: bg_current_def sel)
  have 1: "budget_step s (BgAnswer i (AbBudgets (Inr (Some bs)))) = t1"
    using assms(3,4) still sel by (simp add: budget_step_def budget_answered_def budgets_set_def t1_def)
  have shown: "budget_shown t1 k = Some b" "budget_shown t3 k = Some b"
    using assms(5) by (simp_all add: budget_shown_def t1_def t2_def t3_def)
  have e1: "bg_editingId t1 = None" using assms(2) by (simp add: t1_def)
  have 2: "budget_step t1 (BgEdit k) = t2"
    using cur(1) shown(1) e1 still sel by (simp add: budget_step_def row_actions_def t2_def)
  have 3: "budget_step t2 (BgEditAmount a) = t3" using still sel by (simp add: budget_step_def t3_def)
  have "bg_editingId t3 = Some k" "bg_editAmount t3 = a" by (simp_all add: t3_def t2_def)
  then have 4: "budget_step t3 BgSave = t4"
    using cur(2) shown(2) still sel by (simp add: budget_step_def budget_handleUpdate_def t4_def)
  have "bg_periodStart t4 = bg_periodStart s" by (simp add: bg_periodStart_def sel)
  then show ?thesis using assms(6,7) by (simp add: 1 2 3 4) (simp add: t4_def)
qed

definition april_budget :: budget_entry where
  "april_budget = \<lparr>bu_id = 5, bu_category_id = 1, bu_category_name = ''Food'', bu_amount = 100, bu_spent = 0,
     bu_remaining = 100, bu_percent_used = 0, bu_period_start = ''2026-04-01'', bu_period_end = ''2026-04-30''\<rparr>"

definition two_periods :: "billing_period list" where
  "two_periods = [\<lparr>bp_id = 2, bp_start_date = ''2026-05-01'', bp_end_date = None\<rparr>,
     \<lparr>bp_id = 1, bp_start_date = ''2026-04-01'', bp_end_date = Some ''2026-04-30''\<rparr>]"

text \<open>The page as it is after a visit to April, back in May, with the load of April still under way.\<close>

definition back_in_may :: budget_page where
  "back_in_may = run budget_step (budget_mount ''2026-05-14'') [BgAnswer 0 (AbRefs (Inr (None, Some two_periods))), BgOlder, BgNewer]"

lemma back_in_may_facts: "bg_current back_in_may" "bg_editingId back_in_may = None" "bg_periodStart back_in_may = ''2026-05-01''"
  "bg_tasks back_in_may = [BtLoad BudgetsEffect [], BtLoad BudgetsEffect ''2026-05-01'', BtLoad BudgetsEffect ''2026-04-01'', BtLoad BudgetsEffect ''2026-05-01'']"
  by code_simp+

theorem late_answer_makes_closed_budget_editable_witness:
  "last (bg_log (run budget_step back_in_may [BgAnswer 2 (AbBudgets (Inr (Some [april_budget]))), BgEdit 5, BgEditAmount ''9'', BgSave]))
   = mk_req PUT (''/api/v1/budgets/'' @ show_int 5) (JObj [(''amount'', JStr ''9'')])"
  using late_answer_makes_closed_budget_editable [of back_in_may 2 "''2026-04-01''" 5 "[april_budget]" april_budget "''9''"]
  by (simp add: back_in_may_facts april_budget_def Let_def)

end
