(* ===== verification/Auth_Pages.thy ===== *)
theory Auth_Pages
  imports Auth_Provider Api_Token Dashboard_Figures
begin

section \<open>Sign-in and second factor\<close>

text \<open>
  components/auth/LoginPageBody.tsx and app/mfa-verify/page.tsx as step machines. The outcome
  of \<^verbatim>\<open>login\<close> is that of Auth_Provider; the request of the log is its first one. The session
  storage holds one token, written by the first page and read by the second.
\<close>

subsection \<open>The login page: state\<close>

datatype resend_state = ResendIdle | ResendSending | ResendSent | ResendFailed

text \<open>
  \<^verbatim>\<open>SSO_ERROR_COPY[code]\<close>: the table is an object, so a name that every object has finds a
  function, which React leaves out, and \<^verbatim>\<open>__proto__\<close> an object, which React refuses to
  render.
\<close>

datatype copy_shown = CopyText string | CopyNothing | CopyCrash

definition SSO_ERROR_COPY :: "(string \<times> string) list" where
  "SSO_ERROR_COPY =
     [(''state'', ''Your Google sign-in attempt expired. Try again.''),
      (''token'', ''Google sign-in failed. Try again, or sign in with a password.''),
      (''userinfo'', ''Google sign-in failed. Try again, or sign in with a password.''),
      (''unverified'', ''Your Google account isn't verified. Verify it with Google or sign in with a password.''),
      (''deactivated'', ''This account is deactivated. Contact support if this is unexpected.''),
      (''no_email'', ''Google didn't return an email for this account.''),
      (''cancelled'', ''You cancelled the Google sign-in. Try again whenever you're ready.''),
      (''provider_error'', ''Google returned an error during sign-in. Try again, or sign in with a password.'')]"

definition SSO_ERROR_FALLBACK :: string where
  "SSO_ERROR_FALLBACK = ''Google sign-in didn't complete. Try again.''"

definition sso_copy :: "string \<Rightarrow> copy_shown" where
  "sso_copy code = (case map_of SSO_ERROR_COPY code of
      Some t \<Rightarrow> CopyText t
    | None \<Rightarrow> if code = ''__proto__'' then CopyCrash
        else if code \<in> set inherited_names then CopyNothing
        else CopyText SSO_ERROR_FALLBACK)"

datatype login_task = LtLogin string string | LtResend string | LtGoogle

record login_page =
  lp_loginId :: string
  lp_password :: string
  lp_error :: string
  lp_submitting :: bool
  lp_unverified :: "string option"
  lp_resend :: resend_state
  lp_googleLoading :: bool
  lp_ssoCode :: "string option"
  lp_ssoVisible :: bool
  lp_stored :: "string option"
  lp_routes :: "string list"
  lp_tasks :: "login_task list"
  lp_log :: "request list"

definition truthy_text :: "string option \<Rightarrow> bool" where
  "truthy_text x \<longleftrightarrow> x \<noteq> None \<and> x \<noteq> Some []"

definition login_mount :: "string option \<Rightarrow> string option \<Rightarrow> login_page" where
  "login_mount sso stored = \<lparr>lp_loginId = [], lp_password = [], lp_error = [], lp_submitting = False, lp_unverified = None,
     lp_resend = ResendIdle, lp_googleLoading = False, lp_ssoCode = sso, lp_ssoVisible = truthy_text sso,
     lp_stored = stored, lp_routes = [], lp_tasks = [], lp_log = []\<rparr>"

definition sso_banner :: "login_page \<Rightarrow> copy_shown option" where
  "sso_banner s = (case lp_ssoCode s of
      Some code \<Rightarrow> if lp_ssoVisible s \<and> code \<noteq> [] then Some (sso_copy code) else None
    | None \<Rightarrow> None)"

subsection \<open>The login page: handlers\<close>

fun login_task_request :: "login_task \<Rightarrow> request" where
  "login_task_request (LtLogin l p) = login_request l p"
| "login_task_request (LtResend l) = mk_req POST ''/api/v1/auth/resend-verification-public'' (JObj [(''login'', JStr l)])"
| "login_task_request LtGoogle = mk_req GET ''/api/v1/auth/google'' JUndef"

definition login_start :: "login_task \<Rightarrow> login_page \<Rightarrow> login_page" where
  "login_start t s = s\<lparr>lp_tasks := lp_tasks s @ [t], lp_log := lp_log s @ [login_task_request t]\<rparr>"

definition login_handleSubmit :: "login_page \<Rightarrow> login_page" where
  "login_handleSubmit s = (if lp_submitting s \<or> lp_loginId s = [] \<or> lp_password s = [] then s
     else login_start (LtLogin (lp_loginId s) (lp_password s))
       (s\<lparr>lp_error := [], lp_unverified := None, lp_resend := ResendIdle, lp_submitting := True\<rparr>))"

text \<open>The resend button is part of the error banner.\<close>

definition handleResendVerification :: "login_page \<Rightarrow> login_page" where
  "handleResendVerification s = (case lp_unverified s of
      Some l \<Rightarrow> if l \<noteq> [] \<and> lp_error s \<noteq> [] \<and> lp_resend s \<noteq> ResendSent \<and> lp_resend s \<noteq> ResendSending
        then login_start (LtResend l) (s\<lparr>lp_resend := ResendSending\<rparr>) else s
    | None \<Rightarrow> s)"

definition handleGoogleLogin :: "login_page \<Rightarrow> login_page" where
  "handleGoogleLogin s = (if lp_googleLoading s then s else login_start LtGoogle (s\<lparr>lp_googleLoading := True\<rparr>))"

definition clearSsoErrorFromUrl :: "login_page \<Rightarrow> login_page" where
  "clearSsoErrorFromUrl s = s\<lparr>lp_ssoVisible := False, lp_ssoCode := None\<rparr>"

definition failure_text :: "js_error \<Rightarrow> string \<Rightarrow> string" where
  "failure_text e fallback = (if is_error e then error_message e else fallback)"

definition not_verified :: "js_error \<Rightarrow> bool" where
  "not_verified e \<longleftrightarrow> (case e of ApiResponseError _ _ c _ \<Rightarrow> c = Some ''email_not_verified'' | _ \<Rightarrow> False)"

definition login_settles :: "string \<Rightarrow> login_outcome \<Rightarrow> login_page \<Rightarrow> login_page" where
  "login_settles l out s = (case out of
      LoginDone \<Rightarrow> s\<lparr>lp_routes := lp_routes s @ [''/dashboard''], lp_submitting := False\<rparr>
    | LoginMfa tok \<Rightarrow> s\<lparr>lp_stored := Some (js_String tok), lp_routes := lp_routes s @ [''/mfa-verify''], lp_submitting := False\<rparr>
    | LoginFails e \<Rightarrow> s\<lparr>lp_unverified := (if not_verified e then Some l else lp_unverified s),
        lp_error := failure_text e ''Login failed'', lp_submitting := False\<rparr>)"

definition resend_settles :: "js_error + unit \<Rightarrow> login_page \<Rightarrow> login_page" where
  "resend_settles r s = s\<lparr>lp_resend := (case r of Inr _ \<Rightarrow> ResendSent | Inl _ \<Rightarrow> ResendFailed)\<rparr>"

definition google_settles :: "js_error + string \<Rightarrow> login_page \<Rightarrow> login_page" where
  "google_settles r s = (case r of
      Inr url \<Rightarrow> s\<lparr>lp_routes := lp_routes s @ [url]\<rparr>
    | Inl e \<Rightarrow> s\<lparr>lp_googleLoading := False, lp_error := failure_text e ''Google sign-in is not available''\<rparr>)"

datatype login_answer = AlLogin login_outcome | AlResend "js_error + unit" | AlGoogle "js_error + string"

fun login_task_settles :: "login_task \<Rightarrow> login_answer \<Rightarrow> login_page \<Rightarrow> login_page option" where
  "login_task_settles (LtLogin l p) (AlLogin out) s = Some (login_settles l out s)"
| "login_task_settles (LtResend l) (AlResend r) s = Some (resend_settles r s)"
| "login_task_settles LtGoogle (AlGoogle r) s = Some (google_settles r s)"
| "login_task_settles _ _ s = None"

datatype login_event =
    LoId string | LoPassword string | LoSubmit | LoResend | LoGoogle | LoDismiss | LoRetrySso | LoAnswer nat login_answer

fun login_step :: "login_page \<Rightarrow> login_event \<Rightarrow> login_page" where
  "login_step s (LoId x) = s\<lparr>lp_loginId := x\<rparr>"
| "login_step s (LoPassword x) = s\<lparr>lp_password := x\<rparr>"
| "login_step s LoSubmit = login_handleSubmit s"
| "login_step s LoResend = handleResendVerification s"
| "login_step s LoGoogle = handleGoogleLogin s"
| "login_step s LoDismiss = (if sso_banner s = None then s else clearSsoErrorFromUrl s)"
| "login_step s LoRetrySso = (if sso_banner s = None \<or> lp_googleLoading s then s else handleGoogleLogin (clearSsoErrorFromUrl s))"
| "login_step s (LoAnswer i ans) =
     (if i < length (lp_tasks s) then
        (case login_task_settles (lp_tasks s ! i) ans
           (s\<lparr>lp_tasks := take i (lp_tasks s) @ drop (Suc i) (lp_tasks s)\<rparr>) of Some s' \<Rightarrow> s' | None \<Rightarrow> s)
      else s)"

text \<open>The redirects of a visitor who needs no login page.\<close>

definition login_redirects :: "auth \<Rightarrow> string list" where
  "login_redirects a = (if au_loading a then [] else
     (if au_needs_setup a then [''/setup''] else []) @ (if js_truthy (au_user a) then [''/dashboard''] else []))"

subsection \<open>The second factor: state\<close>

datatype mfa_mode = Totp | Recovery | Email

datatype mfa_task = MtCode mfa_mode string string string | MtSend string

datatype mfa_route = PushRoute string | ReplaceRoute string | LoadPage string

text \<open>\<open>mv_token\<close> is what the last render read; the storage may have changed since.\<close>

record mfa_page =
  mv_stored :: "string option"
  mv_param :: "string option"
  mv_token :: string
  mv_user :: bool
  mv_mode :: mfa_mode
  mv_code :: string
  mv_error :: string
  mv_message :: string
  mv_submitting :: bool
  mv_emailToken :: "string option"
  mv_emailSending :: bool
  mv_access :: "string option"
  mv_routes :: "mfa_route list"
  mv_tasks :: "mfa_task list"
  mv_log :: "request list"

definition mfaToken :: "string option \<Rightarrow> string option \<Rightarrow> string" where
  "mfaToken stored param = (case stored of
      Some t \<Rightarrow> if t \<noteq> [] then t else (case param of Some p \<Rightarrow> p | None \<Rightarrow> [])
    | None \<Rightarrow> (case param of Some p \<Rightarrow> p | None \<Rightarrow> []))"

definition mfa_base :: string where "mfa_base = ''/api/v1/auth/mfa/''"

fun mfa_task_request :: "mfa_task \<Rightarrow> request" where
  "mfa_task_request (MtCode Totp tok et c) = mk_req POST (mfa_base @ ''verify'') (JObj [(''mfa_token'', JStr tok), (''code'', JStr c)])"
| "mfa_task_request (MtCode Recovery tok et c) = mk_req POST (mfa_base @ ''recovery'') (JObj [(''mfa_token'', JStr tok), (''code'', JStr c)])"
| "mfa_task_request (MtCode Email tok et c) = mk_req POST (mfa_base @ ''email-verify'')
     (JObj [(''mfa_token'', JStr tok), (''email_token'', JStr et), (''code'', JStr c)])"
| "mfa_task_request (MtSend tok) = mk_req POST (mfa_base @ ''email-code'') (JObj [(''mfa_token'', JStr tok)])"

definition mfa_start :: "mfa_task \<Rightarrow> mfa_page \<Rightarrow> mfa_page" where
  "mfa_start t s = s\<lparr>mv_tasks := mv_tasks s @ [t], mv_log := mv_log s @ [mfa_task_request t]\<rparr>"

subsection \<open>The second factor: handlers\<close>

definition mode_fallback :: "mfa_mode \<Rightarrow> string" where
  "mode_fallback m = (case m of Totp \<Rightarrow> ''Verification failed'' | Recovery \<Rightarrow> ''Invalid recovery code'' | Email \<Rightarrow> ''Invalid code'')"

definition code_complete :: "mfa_mode \<Rightarrow> string \<Rightarrow> bool" where
  "code_complete m c \<longleftrightarrow> (case m of Recovery \<Rightarrow> js_trim c \<noteq> [] | _ \<Rightarrow> length c = 6)"

text \<open>The three submit handlers differ in their request; the one of the mode \<open>Email\<close> needs its token.\<close>

definition mfa_handleSubmit :: "mfa_page \<Rightarrow> mfa_page" where
  "mfa_handleSubmit s =
     (if mv_submitting s \<or> \<not> code_complete (mv_mode s) (mv_code s) \<or> mv_token s = [] then s
      else if mv_mode s = Email \<and> \<not> truthy_text (mv_emailToken s) then s
      else mfa_start (MtCode (mv_mode s) (mv_token s) (case mv_emailToken s of Some t \<Rightarrow> t | None \<Rightarrow> []) (mv_code s))
        (s\<lparr>mv_error := [], mv_submitting := True\<rparr>))"

definition handleSendEmail :: "mfa_page \<Rightarrow> mfa_page" where
  "handleSendEmail s = (if mv_mode s = Email \<or> mv_emailSending s \<or> mv_token s = [] then s
     else mfa_start (MtSend (mv_token s)) (s\<lparr>mv_emailSending := True, mv_error := [], mv_message := []\<rparr>))"

definition completeLogin :: "string \<Rightarrow> mfa_page \<Rightarrow> mfa_page" where
  "completeLogin tok s = s\<lparr>mv_access := Some tok, mv_stored := None, mv_routes := mv_routes s @ [LoadPage ''/dashboard'']\<rparr>"

definition code_settles :: "mfa_mode \<Rightarrow> js_error + string \<Rightarrow> mfa_page \<Rightarrow> mfa_page" where
  "code_settles m r s = (case r of
      Inr tok \<Rightarrow> (completeLogin tok s)\<lparr>mv_submitting := False\<rparr>
    | Inl e \<Rightarrow> s\<lparr>mv_error := failure_text e (mode_fallback m), mv_submitting := False\<rparr>)"

definition send_settles :: "js_error + string \<Rightarrow> mfa_page \<Rightarrow> mfa_page" where
  "send_settles r s = (case r of
      Inr et \<Rightarrow> s\<lparr>mv_emailToken := Some et, mv_mode := Email, mv_message := ''Code sent to your email'', mv_emailSending := False\<rparr>
    | Inl e \<Rightarrow> s\<lparr>mv_error := failure_text e ''Failed to send code'', mv_emailSending := False\<rparr>)"

datatype mfa_event =
    MvType string | MvUseTotp | MvUseRecovery | MvSend | MvSubmit | MvBack | MvUser | MvAnswer nat "js_error + string"

text \<open>The digits of what was typed; the browser keeps it to six characters.\<close>

definition digits_only :: "string \<Rightarrow> string" where
  "digits_only s = filter is_digit s"

fun mfa_react :: "mfa_page \<Rightarrow> mfa_event \<Rightarrow> mfa_page" where
  "mfa_react s (MvType x) = (if mv_mode s = Recovery then s\<lparr>mv_code := x\<rparr>
     else if length x \<le> 6 then s\<lparr>mv_code := digits_only x\<rparr> else s)"
| "mfa_react s MvUseTotp = s\<lparr>mv_mode := Totp\<rparr>"
| "mfa_react s MvUseRecovery = s\<lparr>mv_mode := Recovery\<rparr>"
| "mfa_react s MvSend = handleSendEmail s"
| "mfa_react s MvSubmit = mfa_handleSubmit s"
| "mfa_react s MvBack = s\<lparr>mv_stored := None, mv_routes := mv_routes s @ [PushRoute ''/login'']\<rparr>"
| "mfa_react s MvUser = s\<lparr>mv_user := True\<rparr>"
| "mfa_react s (MvAnswer i r) =
     (if i < length (mv_tasks s) then
        (let t = s\<lparr>mv_tasks := take i (mv_tasks s) @ drop (Suc i) (mv_tasks s)\<rparr> in
         case mv_tasks s ! i of MtCode m _ _ _ \<Rightarrow> code_settles m r t | MtSend _ \<Rightarrow> send_settles r t)
      else s)"

text \<open>
  The next render reads the token again; the effect on the mode clears the fields, the
  effect on the user and the token leaves the page.
\<close>

definition mode_effect :: "mfa_page \<Rightarrow> mfa_page \<Rightarrow> mfa_page" where
  "mode_effect old s = (if mv_mode s \<noteq> mv_mode old then s\<lparr>mv_code := [], mv_error := [], mv_message := []\<rparr> else s)"

definition leave_effect :: "mfa_page \<Rightarrow> mfa_page" where
  "leave_effect s = (if mv_user s then s\<lparr>mv_routes := mv_routes s @ [ReplaceRoute ''/dashboard'']\<rparr>
     else if mv_token s = [] then s\<lparr>mv_routes := mv_routes s @ [ReplaceRoute ''/login'']\<rparr> else s)"

definition mfa_effects :: "mfa_page \<Rightarrow> mfa_page \<Rightarrow> mfa_page" where
  "mfa_effects old s = (let s1 = s\<lparr>mv_token := mfaToken (mv_stored s) (mv_param s)\<rparr>;
       s2 = (if mv_user s1 \<noteq> mv_user old \<or> mv_token s1 \<noteq> mv_token old then leave_effect s1 else s1)
     in mode_effect old s2)"

text \<open>
  Without a token nothing is shown, so nothing can be pressed. \<^verbatim>\<open>Back to login\<close> sets no
  state, so nothing renders.
\<close>

fun by_user :: "mfa_event \<Rightarrow> bool" where
  "by_user MvUser = False"
| "by_user (MvAnswer _ _) = False"
| "by_user _ = True"

definition mfa_step :: "mfa_page \<Rightarrow> mfa_event \<Rightarrow> mfa_page" where
  "mfa_step s e = (if mv_token s = [] \<and> by_user e then s
     else if e = MvBack then mfa_react s e else mfa_effects s (mfa_react s e))"

definition mfa_mount :: "string option \<Rightarrow> string option \<Rightarrow> mfa_page" where
  "mfa_mount stored param = leave_effect \<lparr>mv_stored = stored, mv_param = param, mv_token = mfaToken stored param, mv_user = False,
     mv_mode = Totp, mv_code = [], mv_error = [], mv_message = [], mv_submitting = False, mv_emailToken = None,
     mv_emailSending = False, mv_access = None, mv_routes = [], mv_tasks = [], mv_log = []\<rparr>"

end
