(* ===== verification/Auth_Pages_Props.thy ===== *)
theory Auth_Pages_Props
  imports Auth_Pages Api_Client
begin

section \<open>Sign-in and second factor: properties\<close>

text \<open>
  The codes that are sent have the format of their mode, and one at a time; the message
  that a code was mailed is cleared before it can be read; which token is sent; what a late
  answer to a resend claims.
\<close>

subsection \<open>Codes\<close>

definition six_digits :: "string \<Rightarrow> bool" where
  "six_digits c \<longleftrightarrow> length c = 6 \<and> list_all is_digit c"

fun code_task_ok :: "mfa_task \<Rightarrow> bool" where
  "code_task_ok (MtCode m _ _ c) = (m = Recovery \<or> six_digits c)"
| "code_task_ok (MtSend _) = True"

definition sent_code :: "request \<Rightarrow> jsval" where
  "sent_code r = (case rq_body r of JObj kvs \<Rightarrow> (case map_of kvs ''code'' of Some v \<Rightarrow> v | None \<Rightarrow> JUndef) | _ \<Rightarrow> JUndef)"

text \<open>The requests with a code of the app or of the mail, and their code.\<close>

definition digit_code_sent :: "request \<Rightarrow> bool" where
  "digit_code_sent r \<longleftrightarrow> (rq_path r \<noteq> mfa_base @ ''verify'' \<and> rq_path r \<noteq> mfa_base @ ''email-verify'')
     \<or> (case sent_code r of JStr c \<Rightarrow> six_digits c | _ \<Rightarrow> False)"

lemma task_request_ok: "code_task_ok t \<Longrightarrow> digit_code_sent (mfa_task_request t)"
  by (cases t rule: mfa_task_request.cases) (simp_all add: digit_code_sent_def sent_code_def mk_req_def mfa_base_def)

definition typed_ok :: "mfa_mode \<Rightarrow> string \<Rightarrow> bool" where
  "typed_ok m c \<longleftrightarrow> m = Recovery \<or> list_all is_digit c"

definition sends :: "mfa_task list \<Rightarrow> nat" where
  "sends ts = length (filter (\<lambda>t. \<exists>tok. t = MtSend tok) ts)"

definition codes :: "mfa_task list \<Rightarrow> nat" where
  "codes ts = length (filter (\<lambda>t. \<nexists>tok. t = MtSend tok) ts)"

lemma count_simps [simp]:
  "sends (ts @ us) = sends ts + sends us" "codes (ts @ us) = codes ts + codes us"
  "sends (MtSend k # ts) = Suc (sends ts)" "codes (MtSend k # ts) = codes ts"
  "sends (MtCode m a b c # ts) = sends ts" "codes (MtCode m a b c # ts) = Suc (codes ts)"
  "sends [] = 0" "codes [] = 0"
  by (simp_all add: sends_def codes_def)

text \<open>The invariant over the fields it reads.\<close>

definition mfa_ok :: "mfa_mode \<Rightarrow> string \<Rightarrow> string \<Rightarrow> bool \<Rightarrow> bool \<Rightarrow> mfa_task list \<Rightarrow> request list \<Rightarrow> bool" where
  "mfa_ok m c msg sub mailing ts lg \<longleftrightarrow> typed_ok m c \<and> msg = [] \<and> codes ts = of_bool sub \<and> sends ts = of_bool mailing
     \<and> (m = Email \<longrightarrow> \<not> mailing) \<and> list_all digit_code_sent lg"

definition mfa_inv :: "mfa_page \<Rightarrow> bool" where
  "mfa_inv s = mfa_ok (mv_mode s) (mv_code s) (mv_message s) (mv_submitting s) (mv_emailSending s) (mv_tasks s) (mv_log s)"

lemma code_complete_digits: "typed_ok m c \<Longrightarrow> code_complete m c \<Longrightarrow> m = Recovery \<or> six_digits c"
  by (cases m) (simp_all add: typed_ok_def code_complete_def six_digits_def)

lemma inv_submit: "mfa_inv s \<Longrightarrow> mfa_inv (mfa_handleSubmit s)"
proof -
  assume i: "mfa_inv s"
  have "digit_code_sent (mfa_task_request (MtCode (mv_mode s) tok et (mv_code s)))" if "code_complete (mv_mode s) (mv_code s)" for tok et
    using code_complete_digits that i by (intro task_request_ok) (simp add: mfa_inv_def mfa_ok_def)
  then show ?thesis
    using i by (auto simp: mfa_handleSubmit_def mfa_start_def mfa_inv_def mfa_ok_def del: mfa_task_request.simps)
qed

lemma inv_mail: "mfa_inv s \<Longrightarrow> mfa_inv (handleSendEmail s)"
  using task_request_ok [of "MtSend (mv_token s)"]
  by (simp add: handleSendEmail_def mfa_start_def mfa_inv_def mfa_ok_def del: mfa_task_request.simps)

lemma digits_only_ok: "typed_ok m (digits_only c)"
  by (simp add: typed_ok_def digits_only_def list_all_iff)

lemma mode_effect_fields [simp]:
  "mv_mode (mode_effect old s) = mv_mode s" "mv_submitting (mode_effect old s) = mv_submitting s"
  "mv_emailSending (mode_effect old s) = mv_emailSending s" "mv_tasks (mode_effect old s) = mv_tasks s"
  "mv_log (mode_effect old s) = mv_log s"
  "mv_code (mode_effect old s) = (if mv_mode s \<noteq> mv_mode old then [] else mv_code s)"
  "mv_message (mode_effect old s) = (if mv_mode s \<noteq> mv_mode old then [] else mv_message s)"
  by (simp_all add: mode_effect_def)

lemma leave_effect_fields [simp]:
  "mv_mode (leave_effect s) = mv_mode s" "mv_submitting (leave_effect s) = mv_submitting s"
  "mv_emailSending (leave_effect s) = mv_emailSending s" "mv_tasks (leave_effect s) = mv_tasks s"
  "mv_log (leave_effect s) = mv_log s" "mv_code (leave_effect s) = mv_code s" "mv_message (leave_effect s) = mv_message s"
  by (simp_all add: leave_effect_def)

lemma effects_inv:
  "mfa_inv (mfa_effects old s) = mfa_ok (mv_mode s) (if mv_mode s \<noteq> mv_mode old then [] else mv_code s)
     (if mv_mode s \<noteq> mv_mode old then [] else mv_message s) (mv_submitting s) (mv_emailSending s) (mv_tasks s) (mv_log s)"
  unfolding mfa_effects_def Let_def mfa_inv_def by (simp split: if_split)

lemma typed_ok_Nil [simp]: "typed_ok m []"
  by (simp add: typed_ok_def)

lemma counts_drop: "i < length ts \<Longrightarrow> codes ts = codes (take i ts @ drop (Suc i) ts) + (case ts ! i of MtSend _ \<Rightarrow> 0 | _ \<Rightarrow> 1)"
  "i < length ts \<Longrightarrow> sends ts = sends (take i ts @ drop (Suc i) ts) + (case ts ! i of MtSend _ \<Rightarrow> 1 | _ \<Rightarrow> 0)"
proof -
  assume i: "i < length ts"
  have "codes ts = codes (take i ts @ ts ! i # drop (Suc i) ts)" "sends ts = sends (take i ts @ ts ! i # drop (Suc i) ts)"
    using i by (simp_all only: id_take_nth_drop [symmetric])
  then show "codes ts = codes (take i ts @ drop (Suc i) ts) + (case ts ! i of MtSend _ \<Rightarrow> 0 | _ \<Rightarrow> 1)"
    "sends ts = sends (take i ts @ drop (Suc i) ts) + (case ts ! i of MtSend _ \<Rightarrow> 1 | _ \<Rightarrow> 0)"
    by (cases "ts ! i"; simp)+
qed

lemma inv_answer:
  assumes i: "mfa_inv s"
  shows "mfa_inv (mfa_effects s (mfa_react s (MvAnswer k r)))"
proof (cases "k < length (mv_tasks s)")
  case True
  note c = counts_drop [OF True]
  show ?thesis
  proof (cases "mv_tasks s ! k")
    case (MtCode m tok et x)
    moreover have "mv_submitting s" using MtCode c i by (cases "mv_submitting s") (simp_all add: mfa_inv_def mfa_ok_def)
    ultimately show ?thesis using True c i unfolding effects_inv
      by (cases r) (simp_all add: code_settles_def completeLogin_def mfa_inv_def mfa_ok_def)
  next
    case (MtSend tok)
    have "mv_emailSending s" using MtSend c i by (cases "mv_emailSending s") (simp_all add: mfa_inv_def mfa_ok_def)
    moreover then have "mv_mode s \<noteq> Email" using i by (auto simp: mfa_inv_def mfa_ok_def)
    ultimately show ?thesis using MtSend True c i unfolding effects_inv
      by (cases r) (simp_all add: send_settles_def mfa_inv_def mfa_ok_def)
  qed
next
  case False
  then show ?thesis using i unfolding effects_inv by (simp add: mfa_inv_def)
qed

lemma mode_of_handlers [simp]: "mv_mode (mfa_handleSubmit s) = mv_mode s" "mv_mode (handleSendEmail s) = mv_mode s"
  by (simp_all add: mfa_handleSubmit_def handleSendEmail_def mfa_start_def)

lemma effects_same_mode: "mfa_inv s' \<Longrightarrow> mv_mode s' = mv_mode s \<Longrightarrow> mfa_inv (mfa_effects s s')"
  unfolding effects_inv by (simp add: mfa_inv_def)

interpretation mfa_machine: step_machine mfa_step mfa_inv
proof unfold_locales
  fix s e assume i: "mfa_inv s"
  have "mfa_inv (mfa_effects s (mfa_react s e))" if "e \<noteq> MvBack"
  proof (cases e)
    case (MvType x)
    have "typed_ok (mv_mode s) x" if "mv_mode s = Recovery" using that by (simp add: typed_ok_def)
    then show ?thesis using i MvType digits_only_ok unfolding effects_inv by (simp add: mfa_inv_def mfa_ok_def)
  next
    case (MvAnswer k r)
    then show ?thesis using inv_answer [OF i] by simp
  next
    case MvSubmit
    then show ?thesis using effects_same_mode [OF inv_submit [OF i]] by simp
  next
    case MvSend
    then show ?thesis using effects_same_mode [OF inv_mail [OF i]] by simp
  qed (unfold effects_inv, use i that in \<open>auto simp: mfa_inv_def mfa_ok_def\<close>)
  moreover have "mfa_inv (mfa_react s MvBack)" using i by (simp add: mfa_inv_def)
  ultimately show "mfa_inv (mfa_step s e)" using i by (simp add: mfa_step_def)
qed

lemma mfa_mount_inv: "mfa_inv (mfa_mount stored param)"
  by (simp add: mfa_mount_def mfa_inv_def mfa_ok_def)

lemma mfa_run_inv: "mfa_inv (run mfa_step (mfa_mount stored param) es)"
  by (rule mfa_machine.run_inv [OF mfa_mount_inv])

text \<open>C12: The page for the second factor sends well-formed codes, one at a time: in every run, each request that
  carries a code of the authenticator app or of the mail carries exactly six digits, whatever was
  typed before in another mode, and a verification is under way exactly while the buttons say so.\<close>

theorem mfa_codes_well_formed:
  "list_all digit_code_sent (mv_log (run mfa_step (mfa_mount stored param) es))
   \<and> codes (mv_tasks (run mfa_step (mfa_mount stored param) es)) = of_bool (mv_submitting (run mfa_step (mfa_mount stored param) es))"
  using mfa_run_inv [of stored param es] by (simp add: mfa_inv_def mfa_ok_def)

text \<open>The page never says that a code was mailed: the answer to the request for a code sets the message
  and the mode together, and the effect on the mode clears all messages, so after every step of every
  run the message is empty, although the code was sent.\<close>

theorem mailed_code_never_announced:
  "mv_message (run mfa_step (mfa_mount stored param) es) = []"
  using mfa_run_inv [of stored param es] by (simp add: mfa_inv_def mfa_ok_def)

subsection \<open>Which token, and where to\<close>

lemma digits_only_id: "list_all is_digit c \<Longrightarrow> digits_only c = c"
  by (simp add: digits_only_def list_all_iff filter_id_conv)

lemma mount_with_token:
  assumes "old \<noteq> []"
  shows "mv_token (mfa_mount (Some old) p) = old" "mv_mode (mfa_mount (Some old) p) = Totp"
    "mv_submitting (mfa_mount (Some old) p) = False" "mv_stored (mfa_mount (Some old) p) = Some old"
  using assms by (simp_all add: mfa_mount_def leave_effect_def mfaToken_def)

lemma effects_fields:
  "mv_log (mfa_effects s t) = mv_log t" "mv_mode (mfa_effects s t) = mv_mode t"
  "mv_submitting (mfa_effects s t) = mv_submitting t"
  "mv_token (mfa_effects s t) = mfaToken (mv_stored t) (mv_param t)"
  by (simp_all add: mfa_effects_def mode_effect_def leave_effect_def Let_def)

lemma effects_code: "mv_mode t = mv_mode s \<Longrightarrow> mv_code (mfa_effects s t) = mv_code t"
  by (simp add: mfa_effects_def mode_effect_def leave_effect_def Let_def)

lemma submitted_log:
  assumes "mv_mode s = Totp" and "mv_token s \<noteq> []" and "\<not> mv_submitting s" and "length (mv_code s) = 6"
  shows "mv_log (mfa_step s MvSubmit) = mv_log s @ [mfa_task_request (MtCode Totp (mv_token s) (case mv_emailToken s of Some t \<Rightarrow> t | None \<Rightarrow> []) (mv_code s))]"
  using assms by (simp add: mfa_step_def effects_fields mfa_handleSubmit_def mfa_start_def code_complete_def)

lemma typed_fields:
  assumes "mv_mode s = Totp" and "mv_token s \<noteq> []" and "length c = 6" and "digits_only c = c"
  shows "mv_code (mfa_step s (MvType c)) = c" "mv_mode (mfa_step s (MvType c)) = Totp"
    "mv_submitting (mfa_step s (MvType c)) = mv_submitting s"
    "mv_token (mfa_step s (MvType c)) = mfaToken (mv_stored s) (mv_param s)"
  using assms by (simp_all add: mfa_step_def effects_fields effects_code)

text \<open>The token of an abandoned password sign-in wins over the one of a Google sign-in: the page prefers the
  session storage to the query, and only \<^verbatim>\<open>Back to login\<close> empties the storage. A visitor who left the
  page with the browser's own button and signed in with Google is verified against the old token,
  perhaps expired, perhaps of another account.\<close>

theorem abandoned_token_shadows_sso:
  assumes "old \<noteq> []" and "six_digits c"
  shows "last (mv_log (run mfa_step (mfa_mount (Some old) (Some new)) [MvType c, MvSubmit]))
    = mk_req POST (mfa_base @ ''verify'') (JObj [(''mfa_token'', JStr old), (''code'', JStr c)])"
proof -
  have "length c = 6" "digits_only c = c" using assms(2) digits_only_id by (simp_all add: six_digits_def)
  note t = typed_fields [OF mount_with_token(2) [OF assms(1)] _ this, of "Some new"]
  then show ?thesis
    using assms(1) \<open>length c = 6\<close> by (simp add: submitted_log mount_with_token mfaToken_def)
qed

theorem abandoned_token_shadows_sso_witness:
  "sent_code (last (mv_log (run mfa_step (mfa_mount (Some ''old'') (Some ''new'')) [MvType ''123456'', MvSubmit]))) = JStr ''123456''"
  using abandoned_token_shadows_sso [of "''old''" "''123456''" "''new''"]
  by (simp add: six_digits_def is_digit_def sent_code_def mk_req_def)

text \<open>A finished sign-in also asks for the login page: \<^verbatim>\<open>completeLogin\<close> removes the token from the storage and
  starts loading the dashboard; the next render finds no token, and the effect asks the router to
  replace the page by the login page, in a race with the page load.\<close>

theorem finished_sign_in_asks_for_login_page:
  assumes "i < length (mv_tasks s)" and "mv_tasks s ! i = MtCode m tok et c" and "mv_token s \<noteq> []" and "mv_param s = None" and "\<not> mv_user s"
  shows "mv_routes (mfa_step s (MvAnswer i (Inr access))) = mv_routes s @ [LoadPage ''/dashboard'', ReplaceRoute ''/login'']"
proof -
  define t where "t = completeLogin access (s\<lparr>mv_tasks := take i (mv_tasks s) @ drop (Suc i) (mv_tasks s)\<rparr>)\<lparr>mv_submitting := False\<rparr>"
  have "mfa_step s (MvAnswer i (Inr access)) = mfa_effects s t"
    using assms(1,2) by (simp add: mfa_step_def code_settles_def t_def)
  moreover have "mfaToken (mv_stored t) (mv_param t) = []" "mv_user t = mv_user s" "mv_mode t = mv_mode s"
    "mv_routes t = mv_routes s @ [LoadPage ''/dashboard'']"
    using assms(4) by (simp_all add: t_def completeLogin_def mfaToken_def)
  ultimately show ?thesis
    using assms(3,5) by (simp add: mfa_effects_def mode_effect_def leave_effect_def Let_def)
qed

theorem finished_sign_in_asks_for_login_page_witness:
  "mv_routes (mfa_step ((mfa_mount (Some ''t'') None)\<lparr>mv_tasks := [MtCode Totp ''t'' [] ''123456'']\<rparr>) (MvAnswer 0 (Inr ''a'')))
   = [LoadPage ''/dashboard'', ReplaceRoute ''/login'']"
  using finished_sign_in_asks_for_login_page [of 0 "(mfa_mount (Some ''t'') None)\<lparr>mv_tasks := [MtCode Totp ''t'' [] ''123456'']\<rparr>" Totp "''t''" "[]" "''123456''" "''a''"]
  by (simp add: mfa_mount_def mfaToken_def leave_effect_def)

text \<open>
  What \<^verbatim>\<open>apiFetch\<close> makes of the 401 that answers a wrong code. The path decides, and so the mode.
\<close>

lemma code_cred_check: "isCredCheck (rq_path (mfa_task_request (MtCode m tok et c))) \<longleftrightarrow> m = Totp"
  by (cases m) (simp_all add: mk_req_def mfa_base_def isCredCheck_def js_starts_with_def)

lemmas wrong_code_eval = respond_def join_refresh_def set_pc_def set_auth_def answer_refresh_def refreshAccessTokenOnce_def
  after_attempt_def backoff_done_def run_task_def run_refresh_def leave_refresh_def join_probe_def run_probe_def probe_finally_def
  is_transient_def REFRESH_TRANSIENT_RETRIES_def Let_def

definition started_refresh :: "nat \<Rightarrow> response \<Rightarrow> client \<Rightarrow> client" where
  "started_refresh i res c = set_pc i (PRefresh (length (cl_procs c)) res)
     (c\<lparr>cl_refresh := Some (length (cl_procs c)), cl_procs := cl_procs c @ [Attempting 1 (cl_now c)], cl_awaiters := cl_awaiters c + 1\<rparr>)"

lemma answered_401:
  assumes "i < length (cl_tasks c)" and "tk_pc (cl_tasks c ! i) = PPrimary" and "rs_status res = 401" and "cl_refresh c = None"
  shows "client_step c (ARespond i (Inr res)) = (if isCredCheck (tk_path (cl_tasks c ! i))
     then set_pc i (PDone (finishResponse res)) c else started_refresh i res c)"
  using assms by (simp add: respond_def join_refresh_def started_refresh_def Let_def)

lemma refresh_ok_retries:
  assumes "i < length (cl_tasks c)" and "classifyRefresh a = Inr (RefreshOk t)"
  shows "cl_tasks (run client_step (started_refresh i res c) [AAnswer (length (cl_procs c)) a, ARun i]) ! i
    = (cl_tasks c ! i)\<lparr>tk_pc := PRetry (cl_now c), tk_auth := Some (''Bearer '' @ t)\<rparr>"
  using assms by (simp add: started_refresh_def wrong_code_eval)

lemma refresh_refused_no_token:
  assumes "i < length (cl_tasks c)" and "classifyRefresh a = Inr (RefreshTerminal st)"
    and "ts_token (cl_ts c) = None" and "cl_me c = None"
  shows "tk_pc (cl_tasks (run client_step (started_refresh i res c)
      [AAnswer (length (cl_procs c)) a, ARun i, AFinally (length (cl_probes c)), ARun i]) ! i) = PDone (finishResponse res)"
  using assms by (simp add: started_refresh_def wrong_code_eval bearer_def)

lemma refresh_unreachable:
  assumes "i < length (cl_tasks c)" and "classifyRefresh a1 = Inr (RefreshTransient e1 st1)"
    and "classifyRefresh a2 = Inr (RefreshTransient e2 st2)" and "classifyRefresh a3 = Inr (RefreshTransient e3 st3)"
  shows "let p = length (cl_procs c) in tk_pc (cl_tasks (run client_step (started_refresh i res c)
      [AAnswer p a1, ABackoff p, AAnswer p a2, ABackoff p, AAnswer p a3, ARun i]) ! i) = PDone (Inl (transientError e3))"
  using assms by (simp add: started_refresh_def wrong_code_eval)

text \<open>C13: What a wrong code leads to when no refresh and no probe is under way and the client has no token,
  as on the sign-in pages. A 401 to a code of the app is the answer to
  the page, with nothing else done. A 401 to a recovery code or a mailed code is taken for an expired
  session, although the comment says that the credential checks skip the refresh: a refresh starts.
  If it succeeds, with the cookie of some session, the same wrong code is sent a second time, under that session's token.
  If it is refused, the page gets its 401 after all. If it fails three
  times on the way, the page never hears that the code was wrong: it shows that the session refresh
  is unavailable.\<close>

theorem wrong_code_may_start_refresh:
  assumes i: "i < length (cl_tasks c)" "tk_pc (cl_tasks c ! i) = PPrimary"
      "tk_path (cl_tasks c ! i) = rq_path (mfa_task_request (MtCode m tok et code))"
    and idle: "cl_refresh c = None" "cl_me c = None" "ts_token (cl_ts c) = None"
    and wrong: "rs_status res = 401"
    and page: "k < length (mv_tasks s)" "mv_tasks s ! k = MtCode m tok et code"
  shows "let p = length (cl_procs c); after = (\<lambda>es. run client_step c (ARespond i (Inr res) # es)) in
    (m = Totp \<longrightarrow> tk_pc (cl_tasks (after []) ! i) = PDone (finishResponse res) \<and> cl_procs (after []) = cl_procs c)
  \<and> (m \<noteq> Totp \<longrightarrow> cl_procs (after []) = cl_procs c @ [Attempting 1 (cl_now c)]
      \<and> (\<forall>a t. classifyRefresh a = Inr (RefreshOk t) \<longrightarrow>
           cl_tasks (after [AAnswer p a, ARun i]) ! i = (cl_tasks c ! i)\<lparr>tk_pc := PRetry (cl_now c), tk_auth := Some (''Bearer '' @ t)\<rparr>)
      \<and> (\<forall>a st. classifyRefresh a = Inr (RefreshTerminal st) \<longrightarrow>
           tk_pc (cl_tasks (after [AAnswer p a, ARun i, AFinally (length (cl_probes c)), ARun i]) ! i) = PDone (finishResponse res))
      \<and> (\<forall>a1 a2 a3 e1 e2 e3 st1 st2 st3. classifyRefresh a1 = Inr (RefreshTransient e1 st1) \<and> classifyRefresh a2 = Inr (RefreshTransient e2 st2)
             \<and> classifyRefresh a3 = Inr (RefreshTransient e3 st3) \<longrightarrow>
           (\<exists>e. tk_pc (cl_tasks (after [AAnswer p a1, ABackoff p, AAnswer p a2, ABackoff p, AAnswer p a3, ARun i]) ! i) = PDone (Inl e)
              \<and> mv_error (mfa_step s (MvAnswer k (Inl e))) = ''Session refresh temporarily unavailable. Please try again.'')))"
proof -
  have first: "client_step c (ARespond i (Inr res)) = (if m = Totp then set_pc i (PDone (finishResponse res)) c else started_refresh i res c)"
    using answered_401 [OF i(1,2) wrong idle(1)] by (simp only: i(3) code_cred_check)
  have procs: "cl_procs (started_refresh i res c) = cl_procs c @ [Attempting 1 (cl_now c)]" by (simp add: started_refresh_def set_pc_def)
  have shown: "mv_error (mfa_step s (MvAnswer k (Inl (transientError e)))) = ''Session refresh temporarily unavailable. Please try again.''" for e
    using page by (simp add: mfa_step_def code_settles_def failure_text_def transientError_def is_error_def error_message_def mfa_effects_def mode_effect_def leave_effect_def Let_def)
  show ?thesis
  proof (cases "m = Totp")
    case True
    then show ?thesis using first i(1) by (simp add: set_pc_def Let_def del: client_step.simps)
  next
    case False
    then have cons: "run client_step c (ARespond i (Inr res) # es) = run client_step (started_refresh i res c) es" for es
      using first by (simp del: client_step.simps)
    note ok = refresh_ok_retries [OF i(1)] and refused = refresh_refused_no_token [OF i(1) _ idle(3,2)]
      and unreachable = refresh_unreachable [OF i(1), unfolded Let_def]
    show ?thesis
      unfolding Let_def cons
      by (intro conjI impI allI; (elim conjE)?; (rule exI, rule conjI [OF unreachable shown])?;
        (assumption | rule ok refused | simp add: False procs))
  qed
qed

definition demo_wrong_code :: response where
  "demo_wrong_code = \<lparr>rs_status = 401, rs_status_text = ''Unauthorized'', rs_json = Inr (JObj [(''detail'', JStr ''Invalid code'')])\<rparr>"

definition demo_code_sent :: client where
  "demo_code_sent = run client_step (client_init True 0) [ASpawn ''/api/v1/auth/mfa/recovery'' None, ARun 0, ARun 0]"

theorem wrong_code_may_start_refresh_witness:
  "cl_procs (client_step demo_code_sent (ARespond 0 (Inr demo_wrong_code))) = [Attempting 1 0]
   \<and> (\<exists>e. mv_error (mfa_step ((mfa_mount (Some ''t'') None)\<lparr>mv_tasks := [MtCode Recovery ''t'' [] ''x'']\<rparr>) (MvAnswer 0 (Inl e)))
      = ''Session refresh temporarily unavailable. Please try again.'')"
proof -
  let ?s = "(mfa_mount (Some ''t'') None)\<lparr>mv_tasks := [MtCode Recovery ''t'' [] ''x'']\<rparr>"
  have c: "0 < length (cl_tasks demo_code_sent)" "tk_pc (cl_tasks demo_code_sent ! 0) = PPrimary"
      "tk_path (cl_tasks demo_code_sent ! 0) = rq_path (mfa_task_request (MtCode Recovery ''t'' [] ''x''))"
      "cl_refresh demo_code_sent = None" "cl_me demo_code_sent = None" "ts_token (cl_ts demo_code_sent) = None"
      "cl_procs demo_code_sent = []" "cl_now demo_code_sent = 0"
    by code_simp+
  have s: "0 < length (mv_tasks ?s)" "mv_tasks ?s ! 0 = MtCode Recovery ''t'' [] ''x''" by simp_all
  have "rs_status demo_wrong_code = 401" by (simp add: demo_wrong_code_def)
  note code = wrong_code_may_start_refresh [OF c(1-6) this s, unfolded Let_def, THEN conjunct2, THEN mp]
  obtain e where "classifyRefresh (Inl ApiTimeoutError) = Inr (RefreshTransient e None)" by (auto simp: classifyRefresh_def)
  then show ?thesis using code c(7,8) by (simp del: client_step.simps) metis
qed

subsection \<open>The login page\<close>

text \<open>A late answer to a resend speaks for the wrong account: a visitor asks for the verification mail of one
  account and, before the answer, signs in as another that is not verified either; the answer turns
  the banner of the second account into \<^verbatim>\<open>Verification email sent\<close>, without the button, although no
  mail was asked for that account.\<close>

theorem late_resend_speaks_for_other_account:
  assumes "lp_tasks s = [LtResend a]" and "\<not> lp_submitting s" and "b \<noteq> []" and "lp_password s \<noteq> []"
  shows "let t = run login_step s [LoId b, LoSubmit, LoAnswer 0 (AlResend (Inr ())),
      LoAnswer 0 (AlLogin (LoginFails (ApiResponseError 403 m (Some ''email_not_verified'') d)))] in
    lp_unverified t = Some b \<and> lp_resend t = ResendSent
    \<and> lp_log t = lp_log s @ [login_request b (lp_password s)]"
  using assms
  by (simp add: Let_def login_handleSubmit_def login_start_def resend_settles_def login_settles_def not_verified_def)

theorem late_resend_speaks_for_other_account_witness:
  "lp_resend (run login_step ((login_mount None None)\<lparr>lp_tasks := [LtResend ''ann''], lp_password := ''x''\<rparr>)
     [LoId ''bob'', LoSubmit, LoAnswer 0 (AlResend (Inr ())),
      LoAnswer 0 (AlLogin (LoginFails (ApiResponseError 403 ''no'' (Some ''email_not_verified'') JUndef)))]) = ResendSent"
  using late_resend_speaks_for_other_account [of "(login_mount None None)\<lparr>lp_tasks := [LtResend ''ann''], lp_password := ''x''\<rparr>"
      "''ann''" "''bob''" "''no''" JUndef]
  by (simp add: login_mount_def Let_def)

text \<open>A crafted link to the login page makes it throw while rendering.\<close>

lemma crafted_sso_link_crashes:
  "sso_banner (login_mount (Some ''__proto__'') stored) = Some CopyCrash"
  by (simp add: sso_banner_def login_mount_def truthy_text_def sso_copy_def SSO_ERROR_COPY_def)

end
