(* ===== verification/Spec2Isabelle.thy ===== *)
theory Spec2Isabelle
  imports Prelude Json Js_Number Doubles Base64 Api_Token Api_Fetch Api_Client Api_Client_Inv Api_Props
    Api_Types Roles Logger Server_Fetch Server_Props Security_Headers Proxy Proxy_Props
    Keep_Warm Tour Persisted Form_Errors Format Schema_Fields Amounts Pagination Auth_Provider Import
    Categories Categories_Page Reconcile Batch_Entry Tags
    Tx_List Tx_List_Props Tx_Page Tx_Page_Props Quick_Forms Category_Select Description_Autocomplete
    Transfer_Dialogs Focus_Trap Dashboard_Figures Dashboard Dashboard_Props
    Dashboard_Moves Dashboard_Refresh Dashboard_Link Dashboard_Spending Forecast_Plans Forecast_Plans_Props
    Budgets Budgets_Props Auth_Pages Auth_Pages_Props
begin

text \<open>
  The web client of a personal finance application (src/frontend, TypeScript, Next.js): the
  browser talks to a REST backend through one fetch wrapper; a middleware stamps security
  headers and writes the access log; server components fetch on their own; the pages keep
  React state and call the wrapper. This development models the client's own logic and
  proves what makes it correct.

  Conventions. A React component's state is a \<open>record\<close>, its handlers functions on it; a
  handler with an \<^verbatim>\<open>await\<close> is one function for the part before the request and one for the
  part after the answer, so other events may come between. Where order matters the
  handlers are the events of a step function, run by \<open>run\<close> of Prelude, and the locale
  \<open>step_machine\<close> turns preservation by one step into an invariant of every run. An effect is
  a function that the handler applies which changes its dependencies. JavaScript values
  are \<open>jsval\<close>; strings are of characters up to U+00FF, so surrogates and what the
  sources do on them do not occur; a number is the exact rational that its text denotes, without
  rounding or overflow, except in the sums of the spending card, which are computed in binary64
  (theory Doubles); \<^verbatim>\<open>T | null\<close> and an empty select are \<open>option\<close>; a promise that rejects is \<open>Inl\<close> of
  a \<open>js_error\<close>. The backend and the network are parameters: a \<open>backend\<close> may answer each
  request in any way that depends on the requests so far.

  Theories, in the order of their imports.

  Prelude: JavaScript values, strings, errors, requests, list and object operations, the
  locales \<open>step_machine\<close> and \<open>absorbing_machine\<close>. Json, Js_Number, Base64: \<^verbatim>\<open>JSON.parse\<close>,
  \<^verbatim>\<open>JSON.stringify\<close>, \<^verbatim>\<open>Number\<close>, \<^verbatim>\<open>atob\<close>, \<^verbatim>\<open>btoa\<close>, with the round trips. The parser's fuel is
  the length of the text plus one, and more fuel never changes its result. Doubles: rounding to
  binary64 and a bound for the error of sums. Schema_Fields: what the backend's schemas read as a
  decimal or a date, for the comparisons with the backend below.

  Api_Token, Api_Fetch, Api_Client (lib/api.ts): the token and its timer; one request, one
  refresh attempt and the retry loop; concurrent calls as tasks that share
  \<^verbatim>\<open>refreshPromise\<close>, \<^verbatim>\<open>refreshAwaiters\<close> and \<^verbatim>\<open>mePromise\<close>, one step per synchronous stretch of
  code. Api_Client_Inv has the invariants of that machine, Api_Props what follows: a single
  refresh and probe at a time, exact counting of the waiters, at most one logout per
  session, sessions that survive an unreliable backend, calls that settle within a bounded
  number of steps, and the shared promise as an implementation of the retry loop.

  Api_Types and Roles (lib/types.ts, lib/auth.ts): the entities. Logger, Server_Fetch and
  Server_Props (lib/logger.ts, lib/server-fetch.ts, lib/auth-server.ts): server-side
  fetches send their request to a network that may answer anything, settle in their budget and
  classify sessions; the path is logged without its query, and a cookie with an illegal
  character is logged with the message of the fetch that refuses it.
  Security_Headers, Proxy and Proxy_Props (lib/security-headers.ts, lib/nonce.ts,
  lib/links.ts, proxy.ts): the policy, the nonce, the redaction loop over a live key
  iterator against its one-pass reference, the access log.

  Keep_Warm (lib/keep-warm.ts), Tour (components/tour), Persisted (lib/persisted-state.ts
  and its hooks, over a locale of JSON stores), Form_Errors (lib/formErrors.ts, a locale of
  message mappers interpreted by each of them), Format and Amounts (lib/format.ts),
  Pagination (lib/pagination.ts), Auth_Provider (components/auth/AuthProvider.tsx).

  Import (app/import/page.tsx), Reconcile (the reconciliation inbox, compared with the
  schema and the checks of the backend's reconciliation_service.py), Categories and
  Categories_Page (components/categories, app/categories/page.tsx), Batch_Entry
  (app/transactions/batch/page.tsx), Tags (components/transactions/TagChipInput.tsx,
  compared with the backend's tag_service.py): the pages, each as a step machine with its
  invariant, its requests and the outcome of their answers.

  Tx_List and Tx_Page (app/transactions/page.tsx). Tx_List: the persisted filters and the
  query they make, deep links, paging, sorting (JavaScript's stable \<^verbatim>\<open>sort\<close> over a locale of
  comparators), the hidden half of a transfer, the selection and the check behind the link
  button, as the machine \<open>list_step\<close>. Tx_List_Props: its invariant, what the query parses
  back to, the pages as a cut of the backend's list, the agreement of the link button with
  \<open>_link_pair\<close> of the backend's transaction_service.py. Tx_Page: the create form, the inline edit,
  delete, bulk delete, status toggle and the transfer dialogs with their requests against
  an answering backend. Tx_Page_Props: what one submit commits, the request of an edit,
  accounts of a transfer, outcomes of the failures in between.

  Quick_Forms (components/AppShellAddTransactionCta.tsx, components/floating): the button of
  every page, its two panels and forms as one machine, in which a submit outlives its panel.
  Category_Select (components/ui/CategorySelect.tsx, AddCategoryModal.tsx), with the checks
  of the backend's transaction_service.py and categories.py on what is picked and created.
  Description_Autocomplete and Transfer_Dialogs (components/transactions), the latter over the
  locale \<open>submit_dialog\<close>, with the account check of the backend's convert_to_transfer.
  Focus_Trap: the four Tab listeners of the dialogs as interpretations of one locale.

  Dashboard_Figures (components/dashboard, lib/chart-shapes.tsx and the arithmetic of
  app/dashboard/page.tsx): the verdict tile, the month-end card, pending sums, spending by
  category, chart rows, the deep link of a row. Dashboard (app/dashboard/page.tsx): the page
  as the machine \<open>dash_step\<close>, with its three loads that keep a request number, its two that
  do not, the handler of the status pill and the refresh that waits for five loads. Its
  properties: Dashboard_Props (the locale \<open>numbered_requests\<close>, interpreted on the three numbered
  loads; the projection is the one of the selected period), Dashboard_Moves (where reloads
  and pages leave the user), Dashboard_Refresh (the accounting of a refresh), Dashboard_Link
  (the deep link read back by Tx_List), Dashboard_Spending (the spending figures, which binary64
  addition gives, are right to the cent). Forecast_Plans and Forecast_Plans_Props
  (app/forecast-plans): the plan editor as \<open>plan_step\<close>, the choice of the period on the server, the
  schemas and checks of the backend's forecast_plan_service.py, which take every item that the page
  adds and every other write on a plan except edits to an amount that is not positive. Budgets and
  Budgets_Props (app/budgets): the page as \<open>budget_step\<close>, whose writes need the open period.

  Auth_Pages and Auth_Pages_Props (components/auth/LoginPageBody.tsx, app/mfa-verify): the
  sign-in page over the outcomes of Auth_Provider, and the page for the second factor, with
  the codes it sends, the token it sends them for, and what the fetch wrapper (Api_Client) makes
  of the 401 that answers a wrong code.

  Some theorems state behaviour that the sources' own comments rule out (a submit that
  repeats imported rows, a JSON \<^verbatim>\<open>null\<close> body that escapes the preflight, a dialog that loses
  its failure reasons, and others); each says so in its text.

  Not modelled: markup and styles; the drawing of charts; the pages of accounts,
  recurring transactions, settings and administration; locale-dependent formatting (Intl); the URL parser,
  SWR's cache and the browser's event loop beyond the steps above; the backend, except for
  the checks named above; deployment.
\<close>

section \<open>Properties that span components\<close>

lemma responseError_kind:
  "(\<exists>m c d. responseError r = ApiResponseError (rs_status r) m c d) \<or>
   responseError r = null_property_error ''detail'' \<and> (rs_json r = Inr JNull \<or> rs_json r = Inr JUndef)"
proof (cases "rs_json r = Inr JNull \<or> rs_json r = Inr JUndef")
  case True
  then show ?thesis by (auto simp: responseError_def js_is_nullish_def)
next
  case False
  define body where "body = (case rs_json r of Inr v \<Rightarrow> v | Inl _ \<Rightarrow> JObj [(''detail'', JStr (rs_status_text r))])"
  have "\<not> js_is_nullish body"
    using False by (cases "rs_json r") (auto simp: body_def js_is_nullish_def)
  then have "\<exists>m c d. responseError r = ApiResponseError (rs_status r) m c d"
    unfolding responseError_def body_def [symmetric] Let_def
    by (cases "js_get body ''detail''") (auto split: jsval.split)
  then show ?thesis by simp
qed

text \<open>The rejections of a call, as the auth provider reads them: a failed response whose body is
  not JSON \<^verbatim>\<open>null\<close> is terminal exactly for the statuses 401 and 403 and transient exactly for 0
  and 500 upwards; a refresh that failed transiently and a timeout are transient and never
  end the session.\<close>

theorem call_errors_classified:
  assumes "finishResponse r = Inl err" and "\<not> rs_ok r" and "rs_json r \<noteq> Inr JNull" and "rs_json r \<noteq> Inr JUndef"
  shows "(isTerminalAuthError err \<longleftrightarrow> rs_status r = 401 \<or> rs_status r = 403) \<and>
     (isTransientAuthError err \<longleftrightarrow> rs_status r = 0 \<or> rs_status r \<ge> 500) \<and>
     isTransientAuthError (transientError e) \<and> \<not> isTerminalAuthError (transientError e) \<and>
     isTransientAuthError ApiTimeoutError \<and> \<not> isTerminalAuthError ApiTimeoutError"
proof -
  obtain m c d where "responseError r = ApiResponseError (rs_status r) m c d"
    using responseError_kind [of r] assms by blast
  then have "err = ApiResponseError (rs_status r) m c d" using assms by (simp add: finishResponse_def)
  then show ?thesis by (simp add: isTerminalAuthError_def isTransientAuthError_def transientError_def)
qed

theorem call_errors_classified_witness:
  "isTerminalAuthError (ApiResponseError 401 ''no'' None (JStr ''no''))"
proof -
  let ?r = "\<lparr>rs_status = 401, rs_status_text = [], rs_json = Inr (JObj [(''detail'', JStr ''no'')])\<rparr>"
  have "finishResponse ?r = Inl (ApiResponseError 401 ''no'' None (JStr ''no''))"
    by (simp add: finishResponse_def responseError_def rs_ok_def js_is_nullish_def js_get_def)
  then show ?thesis
    using call_errors_classified [of ?r] by (simp add: rs_ok_def)
qed

end
